(* ===== verification/Prelude.thy ===== *)
theory Prelude
  imports Main "HOL-Library.Code_Target_Numeral" "HOL-Library.AList" "HOL-Library.Multiset" "HOL-Library.List_Lexorder" "HOL-Library.Product_Lexorder"
begin

text \<open>
  Shared vocabulary of the development: results that carry a Python exception as a value,
  the loops over them, insertion-ordered dictionaries, and the list facts every component uses.

  A Python function that may raise is a function into \<^typ>\<open>'e + 'a\<close>: \<open>Inl\<close> is the exception,
  \<open>Inr\<close> the returned value. A dictionary whose order or size is observable is an association list
  written with \<open>AList.update\<close>, which replaces a present key in place and appends a new one at the end,
  as a Python dictionary does.
\<close>

named_theorems result_simps "facts that turn a successful result into facts on its steps"

section \<open>Results\<close>

definition rbind :: "'e + 'a \<Rightarrow> ('a \<Rightarrow> 'e + 'b) \<Rightarrow> 'e + 'b" where
  "rbind m f = (case m of Inl e \<Rightarrow> Inl e | Inr x \<Rightarrow> f x)"

definition ensure :: "bool \<Rightarrow> 'e \<Rightarrow> 'e + unit" where
  "ensure b e = (if b then Inr () else Inl e)"

text \<open>\<open>isok r\<close>: the call returned.\<close>

definition isok :: "'e + 'a \<Rightarrow> bool" where
  "isok r = (case r of Inl _ \<Rightarrow> False | Inr _ \<Rightarrow> True)"

lemma rbind_simps [simp]:
  "rbind (Inl e) f = Inl e"
  "rbind (Inr x) f = f x"
  by (simp_all add: rbind_def)

lemma rbind_Inr_iff [result_simps]: "rbind m f = Inr y \<longleftrightarrow> (\<exists>x. m = Inr x \<and> f x = Inr y)"
  by (cases m) auto

lemma rbind_Inl_iff:
  "rbind m f = Inl e \<longleftrightarrow> m = Inl e \<or> (\<exists>x. m = Inr x \<and> f x = Inl e)"
  by (cases m) auto

lemma rbind_cong [fundef_cong]:
  assumes "m = m'" and "\<And>x. m' = Inr x \<Longrightarrow> f x = f' x"
  shows "rbind m f = rbind m' f'"
  using assms by (cases m') auto

lemma ensure_Inr_iff [result_simps]: "ensure b e = Inr y \<longleftrightarrow> b"
  by (simp add: ensure_def)

lemma ensure_simps [simp]: "ensure True e = Inr ()" "ensure False e = Inl e"
  by (simp_all add: ensure_def)

lemma isok_simps [simp]: "isok (Inr x)" "\<not> isok (Inl e)"
  by (simp_all add: isok_def)

lemma isok_iff: "isok r \<longleftrightarrow> (\<exists>x. r = Inr x)"
  by (cases r) auto

section \<open>Loops that may raise\<close>

text \<open>\<open>rmap f xs\<close> is a comprehension whose body may raise; \<open>rfold f s xs\<close> a loop over a state.\<close>

fun rmap :: "('a \<Rightarrow> 'e + 'b) \<Rightarrow> 'a list \<Rightarrow> 'e + 'b list" where
  "rmap f [] = Inr []"
| "rmap f (x # xs) = rbind (f x) (\<lambda>y. rbind (rmap f xs) (\<lambda>ys. Inr (y # ys)))"

fun rfold :: "('s \<Rightarrow> 'a \<Rightarrow> 'e + 's) \<Rightarrow> 's \<Rightarrow> 'a list \<Rightarrow> 'e + 's" where
  "rfold f s [] = Inr s"
| "rfold f s (x # xs) = rbind (f s x) (\<lambda>s'. rfold f s' xs)"

definition rall :: "('a \<Rightarrow> 'e + unit) \<Rightarrow> 'a list \<Rightarrow> 'e + unit" where
  "rall f xs = rfold (\<lambda>_ x. f x) () xs"

lemma rall_simps [simp]:
  "rall f [] = Inr ()"
  "rall f (x # xs) = rbind (f x) (\<lambda>_. rall f xs)"
  by (simp_all add: rall_def rbind_def split: sum.splits)

lemma rmap_Inr_iff: "rmap f xs = Inr ys \<longleftrightarrow> list_all2 (\<lambda>x y. f x = Inr y) xs ys"
  by (induction xs arbitrary: ys) (auto simp: rbind_Inr_iff list_all2_Cons1)

lemma rmap_length [dest]: "rmap f xs = Inr ys \<Longrightarrow> length ys = length xs"
  by (auto simp: rmap_Inr_iff dest: list_all2_lengthD)

lemma rmap_Inr_set:
  assumes "rmap f xs = Inr ys" and "y \<in> set ys"
  shows "\<exists>x \<in> set xs. f x = Inr y"
  using assms by (induction xs arbitrary: ys) (auto simp: rbind_Inr_iff)

lemma rmap_Inr_dom:
  assumes "rmap f xs = Inr ys" and "x \<in> set xs"
  shows "\<exists>y \<in> set ys. f x = Inr y"
  using assms by (induction xs arbitrary: ys) (auto simp: rbind_Inr_iff)

lemma rall_Inr_iff [result_simps]: "rall f xs = Inr y \<longleftrightarrow> (\<forall>x \<in> set xs. f x = Inr ())"
  by (induction xs) (auto simp: rbind_Inr_iff)

lemma rfold_append [simp]: "rfold f s (xs @ ys) = rbind (rfold f s xs) (\<lambda>s'. rfold f s' ys)"
  by (induction xs arbitrary: s) (auto simp: rbind_def split: sum.splits)

text \<open>A loop keeps an invariant its body keeps.\<close>

lemma rfold_invariant:
  assumes "rfold f s xs = Inr s'" and "I s"
    and "\<And>s x t. I s \<Longrightarrow> x \<in> set xs \<Longrightarrow> f s x = Inr t \<Longrightarrow> I t"
  shows "I s'"
  using assms
proof (induction xs arbitrary: s)
  case Nil
  then show ?case by simp
next
  case (Cons x xs)
  from Cons.prems(1) obtain t where t: "f s x = Inr t" "rfold f t xs = Inr s'"
    by (auto simp: rbind_Inr_iff)
  have "I t" using Cons.prems(2) t(1) Cons.prems(3) by auto
  then show ?case
    by (rule Cons.IH [OF t(2)]) (auto intro: Cons.prems(3))
qed

text \<open>A recursive call below a loop is a call on an element of the list.\<close>

lemma rfold_cong [fundef_cong]:
  assumes "s = t" and "xs = ys" and "\<And>s x. x \<in> set ys \<Longrightarrow> f s x = g s x"
  shows "rfold f s xs = rfold g t ys"
proof -
  have "rfold f t ys = rfold g t ys"
    using assms(3) by (induction ys arbitrary: t) (auto simp: rbind_def split: sum.splits)
  then show ?thesis using assms(1,2) by simp
qed

lemma rall_cong [fundef_cong]:
  assumes "xs = ys" and "\<And>x. x \<in> set ys \<Longrightarrow> f x = g x"
  shows "rall f xs = rall g ys"
  using assms by (auto simp: rall_def intro: rfold_cong)

section \<open>Actions\<close>

text \<open>
  Code that changes a state and may raise: the state reached so far survives the exception, as a
  database does. \<open>abind\<close> runs one action after another, \<open>lift_result\<close> embeds a pure step.
\<close>

type_synonym ('s, 'e, 'a) action = "'s \<Rightarrow> ('e + 'a) \<times> 's"

definition abind :: "('s, 'e, 'a) action \<Rightarrow> ('a \<Rightarrow> ('s, 'e, 'b) action) \<Rightarrow> ('s, 'e, 'b) action" where
  "abind m f s = (case m s of (Inl e, s') \<Rightarrow> (Inl e, s') | (Inr x, s') \<Rightarrow> f x s')"

definition areturn :: "'a \<Rightarrow> ('s, 'e, 'a) action" where
  "areturn x s = (Inr x, s)"

definition araise :: "'e \<Rightarrow> ('s, 'e, 'a) action" where
  "araise e s = (Inl e, s)"

definition lift_result :: "'e + 'a \<Rightarrow> ('s, 'e, 'a) action" where
  "lift_result r s = (r, s)"

lemma action_simps [simp]:
  "areturn x s = (Inr x, s)" "araise e s = (Inl e, s)" "lift_result r s = (r, s)"
  by (simp_all add: areturn_def araise_def lift_result_def)

lemma abind_Inr_iff [result_simps]:
  "abind m f s = (Inr y, t) \<longleftrightarrow> (\<exists>x s'. m s = (Inr x, s') \<and> f x s' = (Inr y, t))"
  by (auto simp: abind_def split: prod.splits sum.splits)

lemma abind_Inl_iff:
  "abind m f s = (Inl e, t) \<longleftrightarrow> m s = (Inl e, t) \<or> (\<exists>x s'. m s = (Inr x, s') \<and> f x s' = (Inl e, t))"
  by (auto simp: abind_def split: prod.splits sum.splits)

text \<open>A comprehension whose body is an action.\<close>

primrec amap :: "('a \<Rightarrow> ('s, 'e, 'b) action) \<Rightarrow> 'a list \<Rightarrow> ('s, 'e, 'b list) action" where
  "amap f [] = areturn []"
| "amap f (x # xs) = abind (f x) (\<lambda>y. abind (amap f xs) (\<lambda>ys. areturn (y # ys)))"

lemma amap_length: "amap f xs s = (Inr ys, t) \<Longrightarrow> length ys = length xs"
  by (induction xs arbitrary: ys s) (auto simp: abind_Inr_iff)

section \<open>Lists\<close>

text \<open>\<open>list(dict.fromkeys(xs))\<close>: duplicates dropped, first occurrences kept in order.\<close>

definition fromkeys :: "'a list \<Rightarrow> 'a list" where
  "fromkeys xs = rev (remdups (rev xs))"

lemma set_fromkeys [simp]: "set (fromkeys xs) = set xs"
  by (simp add: fromkeys_def)

lemma distinct_fromkeys [simp]: "distinct (fromkeys xs)"
  by (simp add: fromkeys_def)

lemma fromkeys_Nil_iff [simp]: "fromkeys xs = [] \<longleftrightarrow> xs = []"
  by (simp add: fromkeys_def)

lemma fromkeys_distinct: "distinct xs \<Longrightarrow> fromkeys xs = xs"
  by (simp add: fromkeys_def distinct_remdups_id)

text \<open>\<open>sorted(set(xs))\<close>.\<close>

definition sorted_set :: "'a::linorder list \<Rightarrow> 'a list" where
  "sorted_set xs = sort (remdups xs)"

lemma sorted_set_facts [simp]:
  "set (sorted_set xs) = set xs" "distinct (sorted_set xs)" "sorted (sorted_set xs)"
  by (simp_all add: sorted_set_def)

lemma sorted_set_Nil_iff [simp]: "sorted_set xs = [] \<longleftrightarrow> xs = []"
  using sorted_set_facts(1) [of xs] by (metis set_empty)

lemma sorted_set_cong: "set xs = set ys \<Longrightarrow> sorted_set xs = sorted_set ys"
  by (rule sorted_distinct_set_unique) simp_all

text \<open>Rounding up: the number of pages of \<open>k\<close> rows that hold \<open>n\<close> rows.\<close>

definition ceil_div :: "int \<Rightarrow> int \<Rightarrow> int" where
  "ceil_div n k = - ((- n) div k)"

lemma ceil_div_bounds:
  assumes "0 < k"
  shows "n \<le> ceil_div n k * k" and "(ceil_div n k - 1) * k < n"
proof -
  define q where "q = (- n) div k"
  define r where "r = (- n) mod k"
  have eq: "q * k + r = - n" unfolding q_def r_def by (rule div_mult_mod_eq)
  have m: "0 \<le> r" "r < k" using assms by (simp_all add: r_def)
  have c: "ceil_div n k = - q" by (simp add: ceil_div_def q_def)
  show "n \<le> ceil_div n k * k" using eq m by (simp add: c)
  show "(ceil_div n k - 1) * k < n" using eq m by (simp add: c algebra_simps)
qed

lemma ceil_div_pos: "0 < k \<Longrightarrow> 0 < n \<Longrightarrow> 0 < ceil_div n k"
  by (simp add: ceil_div_def pos_imp_zdiv_neg_iff)

lemma ceil_div_nonneg: "0 < k \<Longrightarrow> 0 \<le> n \<Longrightarrow> 0 \<le> ceil_div n k"
  using ceil_div_pos [of k n] by (cases "n = 0") (auto simp: ceil_div_def)

section \<open>Dictionaries\<close>

text \<open>\<open>d.setdefault(k, []).append(v)\<close>: rows grouped by key, keys in first-seen order.\<close>

definition group_add :: "'k \<Rightarrow> 'v \<Rightarrow> ('k \<times> 'v list) list \<Rightarrow> ('k \<times> 'v list) list" where
  "group_add k v d = AList.update k ((case map_of d k of None \<Rightarrow> [] | Some vs \<Rightarrow> vs) @ [v]) d"

definition group_by :: "('a \<Rightarrow> 'k) \<Rightarrow> 'a list \<Rightarrow> ('k \<times> 'a list) list" where
  "group_by key xs = foldl (\<lambda>d x. group_add (key x) x d) [] xs"

lemma group_by_snoc [simp]: "group_by key (xs @ [x]) = group_add (key x) x (group_by key xs)"
  by (simp add: group_by_def)

lemma group_by_Nil [simp]: "group_by key [] = []"
  by (simp add: group_by_def)

text \<open>Grouping is filtering: the group of a key holds that key's rows, in order.\<close>

lemma map_of_group_by:
  "map_of (group_by key xs) k =
     (if k \<in> key ` set xs then Some (filter (\<lambda>x. key x = k) xs) else None)"
proof (induction xs rule: rev_induct)
  case Nil
  then show ?case by simp
next
  case (snoc x xs)
  have empty: "k \<notin> key ` set xs \<Longrightarrow> filter (\<lambda>y. key y = k) xs = []" for k
    by (auto simp: filter_empty_conv)
  show ?case
    using snoc empty by (auto simp: group_add_def update_conv')
qed

lemma keys_group_by: "distinct (map fst (group_by key xs))"
  by (induction xs rule: rev_induct) (simp_all add: group_add_def distinct_update)

lemma group_by_mem:
  assumes "(k, ys) \<in> set (group_by key xs)"
  shows "k \<in> key ` set xs" and "ys = filter (\<lambda>x. key x = k) xs"
proof -
  have "map_of (group_by key xs) k = Some ys"
    by (rule map_of_is_SomeI [OF keys_group_by assms])
  then show "k \<in> key ` set xs" and "ys = filter (\<lambda>x. key x = k) xs"
    by (auto simp: map_of_group_by split: if_splits)
qed

lemma set_keys_group_by [simp]: "fst ` set (group_by key xs) = key ` set xs"
proof -
  have "fst ` set (group_by key xs) = dom (map_of (group_by key xs))"
    by (simp add: dom_map_of_conv_image_fst)
  also have "\<dots> = key ` set xs"
    by (auto simp: map_of_group_by dom_def)
  finally show ?thesis .
qed

end
