(* ===== verification/PyText.thy ===== *)
theory PyText
  imports Prelude Complex_Main
begin

text \<open>
  Python text and JSON as the program uses them. A Python string is its list of code points
  (\<open>ustr\<close>), so that \<open>len\<close>, slices and the order of \<open>sorted\<close> are the ones of the language also for
  Korean text; \<open>u ''abc''\<close> is the literal. White space, \<open>isdigit\<close> and the digits that \<open>\d\<close> and \<open>int\<close>
  accept are the Unicode 15.0 tables of CPython 3.12. Tables and algorithms too large to write out
  (full case folding, upper-casing, NFC) and the one-way digests are fields of \<open>pyenv\<close>, the
  first argument of the definitions that use them; nothing is assumed of them here.
\<close>

type_synonym ustr = "nat list"

definition u :: "string \<Rightarrow> ustr" where
  "u s = map of_char s"

lemma u_inject [simp]: "u s = u t \<longleftrightarrow> s = t"
proof -
  have "inj (of_char :: char \<Rightarrow> nat)" by (rule injI) (simp only: of_char_eq_iff)
  then show ?thesis by (simp add: u_def)
qed

lemma u_Nil [simp]: "u [] = []" "u s = [] \<longleftrightarrow> s = []" "[] = u s \<longleftrightarrow> s = []"
  by (auto simp: u_def)

lemma u_append: "u (s @ t) = u s @ u t"
  by (simp add: u_def)

lemma length_u [simp]: "length (u s) = length s"
  by (simp add: u_def)

section \<open>Character classes\<close>

definition space_chars :: "nat list" where
  "space_chars = [9, 10, 11, 12, 13, 28, 29, 30, 31, 32, 133, 160, 5760, 8192, 8193, 8194, 8195,
     8196, 8197, 8198, 8199, 8200, 8201, 8202, 8232, 8233, 8239, 8287, 12288]"

definition is_space :: "nat \<Rightarrow> bool" where
  "is_space c \<longleftrightarrow> c \<in> set space_chars"

text \<open>The zeros of the 68 runs of ten decimal digits (category Nd).\<close>

definition digit_zeros :: "nat list" where
  "digit_zeros = [48, 1632, 1776, 1984, 2406, 2534, 2662, 2790, 2918, 3046, 3174, 3302, 3430, 3558,
     3664, 3792, 3872, 4160, 4240, 6112, 6160, 6470, 6608, 6784, 6800, 6992, 7088, 7232, 7248, 42528,
     43216, 43264, 43472, 43504, 43600, 44016, 65296, 66720, 68912, 69734, 69872, 69942, 70096,
     70384, 70736, 70864, 71248, 71360, 71472, 71904, 72016, 72784, 73040, 73120, 73552, 92768,
     92864, 93008, 120782, 120792, 120802, 120812, 120822, 123200, 123632, 124144, 125264, 130032]"

text \<open>Digits that are not decimal (superscripts, circled numbers): \<open>isdigit\<close> but not \<open>\d\<close>.\<close>

definition other_digits :: "(nat \<times> nat) list" where
  "other_digits = [(178, 179), (185, 185), (4969, 4977), (6618, 6618), (8304, 8304), (8308, 8313),
     (8320, 8329), (9312, 9320), (9332, 9340), (9352, 9360), (9450, 9450), (9461, 9469),
     (9471, 9471), (10102, 10110), (10112, 10120), (10122, 10130), (68160, 68163), (69216, 69224),
     (69714, 69722), (127232, 127242)]"

definition decimal_value :: "nat \<Rightarrow> nat option" where
  "decimal_value c = map_option (\<lambda>z. c - z) (find (\<lambda>z. z \<le> c \<and> c < z + 10) digit_zeros)"

definition is_decimal :: "nat \<Rightarrow> bool" where
  "is_decimal c \<longleftrightarrow> decimal_value c \<noteq> None"

definition str_isdigit :: "ustr \<Rightarrow> bool" where
  "str_isdigit s \<longleftrightarrow> s \<noteq> [] \<and>
     list_all (\<lambda>c. is_decimal c \<or> list_ex (\<lambda>(a, b). a \<le> c \<and> c \<le> b) other_digits) s"

text \<open>\<open>re.fullmatch(r"\d+", s)\<close> and \<open>re.fullmatch(r"\d{n}", s)\<close>.\<close>

definition all_decimal :: "ustr \<Rightarrow> bool" where
  "all_decimal s \<longleftrightarrow> s \<noteq> [] \<and> list_all is_decimal s"

definition decimals :: "nat \<Rightarrow> ustr \<Rightarrow> bool" where
  "decimals n s \<longleftrightarrow> length s = n \<and> list_all is_decimal s"

definition is_lower_hex :: "nat \<Rightarrow> bool" where
  "is_lower_hex c \<longleftrightarrow> (48 \<le> c \<and> c \<le> 57) \<or> (97 \<le> c \<and> c \<le> 102)"

text \<open>\<open>re.fullmatch(r"[0-9a-f]{64}", s)\<close>.\<close>

definition is_sha256 :: "ustr \<Rightarrow> bool" where
  "is_sha256 s \<longleftrightarrow> length s = 64 \<and> list_all is_lower_hex s"

definition is_upper_alnum :: "nat \<Rightarrow> bool" where
  "is_upper_alnum c \<longleftrightarrow> (65 \<le> c \<and> c \<le> 90) \<or> (48 \<le> c \<and> c \<le> 57)"

section \<open>String operations\<close>

definition lstrip :: "ustr \<Rightarrow> ustr" where
  "lstrip s = dropWhile is_space s"

definition strip :: "ustr \<Rightarrow> ustr" where
  "strip s = rev (dropWhile is_space (rev (lstrip s)))"

definition starts_with :: "ustr \<Rightarrow> ustr \<Rightarrow> bool" where
  "starts_with p s \<longleftrightarrow> take (length p) s = p"

definition ends_with :: "ustr \<Rightarrow> ustr \<Rightarrow> bool" where
  "ends_with p s \<longleftrightarrow> length p \<le> length s \<and> drop (length s - length p) s = p"

definition removeprefix :: "ustr \<Rightarrow> ustr \<Rightarrow> ustr" where
  "removeprefix p s = (if starts_with p s then drop (length p) s else s)"

definition removesuffix :: "ustr \<Rightarrow> ustr \<Rightarrow> ustr" where
  "removesuffix p s = (if ends_with p s then take (length s - length p) s else s)"

text \<open>\<open>p in s\<close> for strings.\<close>

fun contains :: "ustr \<Rightarrow> ustr \<Rightarrow> bool" where
  "contains p [] = (p = [])"
| "contains p (c # s) = (starts_with p (c # s) \<or> contains p s)"

text \<open>\<open>s.split(c)\<close> for a one-character separator: the fields between separators.\<close>

fun split_on :: "nat \<Rightarrow> ustr \<Rightarrow> ustr list" where
  "split_on c [] = [[]]"
| "split_on c (x # s) =
     (if x = c then [] # split_on c s
      else (case split_on c s of [] \<Rightarrow> [[x]] | f # fs \<Rightarrow> (x # f) # fs))"

text \<open>\<open>c.join(fields)\<close> for a one-character separator.\<close>

fun join_on :: "nat \<Rightarrow> ustr list \<Rightarrow> ustr" where
  "join_on c [] = []"
| "join_on c [f] = f"
| "join_on c (f # g # fs) = f @ c # join_on c (g # fs)"

text \<open>\<open>sep.join(fields)\<close>.\<close>

fun join_str :: "ustr \<Rightarrow> ustr list \<Rightarrow> ustr" where
  "join_str sep [] = []"
| "join_str sep [f] = f"
| "join_str sep (f # g # fs) = f @ sep @ join_str sep (g # fs)"

text \<open>\<open>s.replace(c, t)\<close> for a one-character pattern.\<close>

definition replace_char :: "nat \<Rightarrow> ustr \<Rightarrow> ustr \<Rightarrow> ustr" where
  "replace_char c t s = concat (map (\<lambda>x. if x = c then t else [x]) s)"

text \<open>\<open>s.replace("\r\n", "\n").replace("\r", "\n")\<close>.\<close>

fun crlf_to_lf :: "ustr \<Rightarrow> ustr" where
  "crlf_to_lf [] = []"
| "crlf_to_lf [c] = [c]"
| "crlf_to_lf (c # d # s) =
     (if c = 13 \<and> d = 10 then 10 # crlf_to_lf s else c # crlf_to_lf (d # s))"

definition lf_text :: "ustr \<Rightarrow> ustr" where
  "lf_text s = replace_char 13 [10] (crlf_to_lf s)"

definition line_breaks :: "nat list" where
  "line_breaks = [10, 11, 12, 13, 28, 29, 30, 133, 8232, 8233]"

text \<open>\<open>s.splitlines()\<close>; the second argument collects the current line, in reverse.\<close>

fun splitlines_acc :: "ustr \<Rightarrow> ustr \<Rightarrow> ustr list" where
  "splitlines_acc [] cur = (if cur = [] then [] else [rev cur])"
| "splitlines_acc [c] cur =
     (if c \<in> set line_breaks then [rev cur] else [rev (c # cur)])"
| "splitlines_acc (c # d # s) cur =
     (if c = 13 \<and> d = 10 then rev cur # splitlines_acc s []
      else if c \<in> set line_breaks then rev cur # splitlines_acc (d # s) []
      else splitlines_acc (d # s) (c # cur))"

definition splitlines :: "ustr \<Rightarrow> ustr list" where
  "splitlines s = splitlines_acc s []"

text \<open>\<open>s[i:j]\<close> for non-negative \<open>i\<close> and \<open>j\<close>.\<close>

definition slice :: "nat \<Rightarrow> nat \<Rightarrow> 'a list \<Rightarrow> 'a list" where
  "slice i j s = take (j - i) (drop i s)"

lemma length_slice: "length (slice i j s) = min (j - i) (length s - i)"
  by (simp add: slice_def)

section \<open>Integers and text\<close>

definition decimal_to_nat :: "ustr \<Rightarrow> nat" where
  "decimal_to_nat s = foldl (\<lambda>n c. 10 * n + (case decimal_value c of None \<Rightarrow> 0 | Some d \<Rightarrow> d)) 0 s"

text \<open>\<open>str(n)\<close>.\<close>

fun nat_str :: "nat \<Rightarrow> ustr" where
  "nat_str n = (if n < 10 then [48 + n] else nat_str (n div 10) @ [48 + n mod 10])"

declare nat_str.simps [simp del]

definition int_str :: "int \<Rightarrow> ustr" where
  "int_str i = (if i < 0 then 45 # nat_str (nat (- i)) else nat_str (nat i))"

text \<open>\<open>s.zfill(n)\<close> for text without a sign.\<close>

definition zfill :: "nat \<Rightarrow> ustr \<Rightarrow> ustr" where
  "zfill n s = replicate (n - length s) 48 @ s"

text \<open>Digits with single underscores between them, as \<open>int()\<close> accepts them; the result drops them.\<close>

fun underscored :: "ustr \<Rightarrow> ustr option" where
  "underscored [] = None"
| "underscored [c] = (if is_decimal c then Some [c] else None)"
| "underscored (c # d # s) =
     (if \<not> is_decimal c then None
      else if d = 95 then map_option ((#) c) (underscored s)
      else map_option ((#) c) (underscored (d # s)))"

text \<open>\<open>int(s)\<close>; \<open>None\<close> is \<open>ValueError\<close>, which also refuses more than 4300 digits.\<close>

definition digits_to_int :: "ustr \<Rightarrow> int option" where
  "digits_to_int s =
     (case underscored s of
        None \<Rightarrow> None
      | Some d \<Rightarrow> if 4300 < length d then None else Some (int (decimal_to_nat d)))"

definition py_int :: "ustr \<Rightarrow> int option" where
  "py_int s =
     (let t = strip s in
      case t of
        [] \<Rightarrow> None
      | c # r \<Rightarrow>
          if c = 43 then digits_to_int r
          else if c = 45 then map_option uminus (digits_to_int r)
          else digits_to_int t)"

section \<open>JSON values\<close>

text \<open>
  A value of \<open>json.loads\<close>. A float is kept as the text \<open>str\<close> gives of it, since the program never
  computes with one. An object is its insertion-ordered list of pairs.
\<close>

datatype json =
    JNull
  | JBool bool
  | JInt int
  | JFloat ustr
  | JStr ustr
  | JArr "json list"
  | JObj "(ustr \<times> json) list"

text \<open>An element of \<open>xml.etree\<close>: its tag, its text and its children.\<close>

datatype xml = Element ustr "ustr option" "xml list"

text \<open>A parsed response: what \<open>json.loads\<close> or \<open>ET.fromstring\<close> returned.\<close>

datatype document = JsonDocument json | XmlDocument xml

text \<open>\<open>row.get(key)\<close> of a dictionary: a missing key and an explicit null are both \<open>None\<close>.\<close>

definition jget :: "(ustr \<times> json) list \<Rightarrow> ustr \<Rightarrow> json" where
  "jget kvs k = (case map_of kvs k of None \<Rightarrow> JNull | Some v \<Rightarrow> v)"

text \<open>
  \<open>value == n\<close> for a small integer \<open>n \<ge> 2\<close>: an integer, or the float with the same value
  (a boolean compares as 0 or 1).
\<close>

definition json_is_int :: "json \<Rightarrow> int \<Rightarrow> bool" where
  "json_is_int v n = (case v of JInt i \<Rightarrow> i = n | JFloat r \<Rightarrow> r = int_str n @ u ''.0'' | _ \<Rightarrow> False)"

text \<open>
  What CPython computes and this development does not: case mappings and NFC, which are tables of
  the Unicode database, the \<open>repr\<close> of a container, the digests, the parsers of JSON and XML, and those of \<open>urllib\<close> and of
  HTTP dates. \<open>digest\<close> is the program's \<open>digest(value)\<close>, SHA-256 over canonical JSON; \<open>sha256\<close> the
  hexadecimal SHA-256 of bytes. \<open>urlsplit\<close> is \<open>None\<close> where Python raises \<open>ValueError\<close>, \<open>py_float\<close>
  where \<open>float()\<close> does, \<open>parse_http_date\<close> where \<open>parsedate_to_datetime\<close> raises; a parsed date is its number of seconds since the epoch.
  \<open>json_loads\<close> and \<open>xml_fromstring\<close> parse bytes and are \<open>None\<close> on a decoding or syntax error.
  \<open>uuid5\<close> takes the text of the namespace; \<open>cp949_decode\<close> is \<open>None\<close> where decoding raises.
\<close>

text \<open>A value of \<open>float()\<close>: the finite ones are rationals.\<close>

datatype pyfloat = Finite rat | PosInf | NegInf | NaN

record urlparts =
  up_scheme :: ustr
  up_netloc :: ustr
  up_path :: ustr
  up_query :: ustr
  up_fragment :: ustr
  up_hostname :: "ustr option"
  up_username :: "ustr option"
  up_password :: "ustr option"

record pyenv =
  casefold :: "ustr \<Rightarrow> ustr"
  upper :: "ustr \<Rightarrow> ustr"
  nfc :: "ustr \<Rightarrow> ustr"
  container_repr :: "json \<Rightarrow> ustr"
  sha256 :: "nat list \<Rightarrow> ustr"
  digest :: "json \<Rightarrow> ustr"
  urlsplit :: "ustr \<Rightarrow> urlparts option"
  urlunsplit :: "ustr \<times> ustr \<times> ustr \<times> ustr \<times> ustr \<Rightarrow> ustr"
  parse_qsl :: "ustr \<Rightarrow> (ustr \<times> ustr) list"
  urlencode :: "(ustr \<times> ustr) list \<Rightarrow> ustr"
  py_float :: "ustr \<Rightarrow> pyfloat option"
  parse_http_date :: "ustr \<Rightarrow> int option"
  json_loads :: "nat list \<Rightarrow> json option"
  xml_fromstring :: "nat list \<Rightarrow> xml option"
  uuid5 :: "ustr \<Rightarrow> ustr \<Rightarrow> ustr"
  cp949_decode :: "nat list \<Rightarrow> ustr option"
  json_dumps :: "json \<Rightarrow> ustr"
  unquote :: "ustr \<Rightarrow> ustr"

text \<open>
  A concrete environment for examples: ASCII case mapping, text that is already normalised, and a
  digest that writes the value out.
\<close>

definition ascii_lower :: "ustr \<Rightarrow> ustr" where
  "ascii_lower s = map (\<lambda>c. if 65 \<le> c \<and> c \<le> 90 then c + 32 else c) s"

definition ascii_upper :: "ustr \<Rightarrow> ustr" where
  "ascii_upper s = map (\<lambda>c. if 97 \<le> c \<and> c \<le> 122 then c - 32 else c) s"

fun json_code :: "json \<Rightarrow> ustr"
  and json_code_list :: "json list \<Rightarrow> ustr"
  and json_code_pairs :: "(ustr \<times> json) list \<Rightarrow> ustr"
where
  "json_code JNull = [0]"
| "json_code (JBool b) = [1, if b then 1 else 0]"
| "json_code (JInt i) = 2 # (if i < 0 then 1 else 0) # [nat \<bar>i\<bar>]"
| "json_code (JFloat s) = 3 # length s # s"
| "json_code (JStr s) = 4 # length s # s"
| "json_code (JArr xs) = 5 # length xs # json_code_list xs"
| "json_code (JObj kvs) = 6 # length kvs # json_code_pairs kvs"
| "json_code_list [] = []"
| "json_code_list (x # xs) = json_code x @ json_code_list xs"
| "json_code_pairs [] = []"
| "json_code_pairs ((k, v) # kvs) = length k # k @ json_code v @ json_code_pairs kvs"

definition simple_url :: "ustr \<Rightarrow> urlparts" where
  "simple_url s =
     (let host = takeWhile (\<lambda>c. c \<noteq> 47) (drop 8 s) in
      \<lparr>up_scheme = (if starts_with (u ''https://'') s then u ''https'' else u ''http''),
       up_netloc = host, up_path = drop (8 + length host) s, up_query = [], up_fragment = [],
       up_hostname = Some host, up_username = None, up_password = None\<rparr>)"

definition example_env :: pyenv where
  "example_env =
     \<lparr>casefold = ascii_lower, upper = ascii_upper, nfc = (\<lambda>s. s), container_repr = json_code,
      sha256 = (\<lambda>b. b), digest = json_code, urlsplit = (\<lambda>s. Some (simple_url s)),
      urlunsplit = (\<lambda>(a, b, c, d, e). a @ b @ c @ d @ e), parse_qsl = (\<lambda>_. []),
      urlencode = (\<lambda>ps. concat (map (\<lambda>(k, v). k @ 61 # v @ [38]) ps)),
      py_float = (\<lambda>s. map_option (\<lambda>i. Finite (of_int i)) (py_int s)), parse_http_date = (\<lambda>_. None),
      json_loads = (\<lambda>_. None), xml_fromstring = (\<lambda>_. None),
      uuid5 = (\<lambda>namespace name. namespace @ 58 # name),
      cp949_decode = (\<lambda>_. None), json_dumps = json_code, unquote = (\<lambda>s. s)\<rparr>"

text \<open>\<open>bool(value)\<close> of a parsed JSON value.\<close>

fun json_truthy :: "json \<Rightarrow> bool" where
  "json_truthy JNull = False"
| "json_truthy (JBool b) = b"
| "json_truthy (JInt i) = (i \<noteq> 0)"
| "json_truthy (JFloat r) = (r \<noteq> u ''0.0'' \<and> r \<noteq> u ''-0.0'')"
| "json_truthy (JStr s) = (s \<noteq> [])"
| "json_truthy (JArr xs) = (xs \<noteq> [])"
| "json_truthy (JObj kvs) = (kvs \<noteq> [])"

text \<open>\<open>str(value)\<close> of a parsed JSON value.\<close>

fun py_str :: "pyenv \<Rightarrow> json \<Rightarrow> ustr" where
  "py_str P JNull = u ''None''"
| "py_str P (JBool b) = (if b then u ''True'' else u ''False'')"
| "py_str P (JInt i) = int_str i"
| "py_str P (JFloat r) = r"
| "py_str P (JStr s) = s"
| "py_str P (JArr xs) = container_repr P (JArr xs)"
| "py_str P (JObj kvs) = container_repr P (JObj kvs)"

text \<open>\<open>s.encode()\<close>: UTF-8; a lone surrogate raises \<open>UnicodeEncodeError\<close>.\<close>

fun utf8_char :: "nat \<Rightarrow> nat list option" where
  "utf8_char c =
     (if c < 128 then Some [c]
      else if c < 2048 then Some [192 + c div 64, 128 + c mod 64]
      else if 55296 \<le> c \<and> c < 57344 then None
      else if c < 65536 then Some [224 + c div 4096, 128 + (c div 64) mod 64, 128 + c mod 64]
      else Some [240 + c div 262144, 128 + (c div 4096) mod 64, 128 + (c div 64) mod 64,
                 128 + c mod 64])"

fun utf8 :: "ustr \<Rightarrow> nat list option" where
  "utf8 [] = Some []"
| "utf8 (c # s) = (case (utf8_char c, utf8 s) of (Some b, Some bs) \<Rightarrow> Some (b @ bs) | _ \<Rightarrow> None)"

text \<open>\<open>b.decode("utf-8")\<close>; \<open>None\<close> is \<open>UnicodeDecodeError\<close>.\<close>

definition continuation :: "nat \<Rightarrow> bool" where
  "continuation c \<longleftrightarrow> 128 \<le> c \<and> c < 192"

fun utf8_decode :: "nat list \<Rightarrow> ustr option" where
  "utf8_decode [] = Some []"
| "utf8_decode (a # s) =
     (if a < 128 then map_option ((#) a) (utf8_decode s)
      else case s of
        [] \<Rightarrow> None
      | b # s1 \<Rightarrow>
          if \<not> continuation b then None
          else if 194 \<le> a \<and> a < 224
          then map_option ((#) ((a - 192) * 64 + (b - 128))) (utf8_decode s1)
          else case s1 of
            [] \<Rightarrow> None
          | c # s2 \<Rightarrow>
              if \<not> continuation c then None
              else if 224 \<le> a \<and> a < 240
              then (let n = (a - 224) * 4096 + (b - 128) * 64 + (c - 128) in
                    if n < 2048 \<or> (55296 \<le> n \<and> n < 57344) then None
                    else map_option ((#) n) (utf8_decode s2))
              else case s2 of
                [] \<Rightarrow> None
              | d # s3 \<Rightarrow>
                  let n = (a - 240) * 262144 + (b - 128) * 4096 + (c - 128) * 64 + (d - 128) in
                  if \<not> continuation d \<or> a < 240 \<or> n < 65536 \<or> 1114111 < n then None
                  else map_option ((#) n) (utf8_decode s3))"

definition utf8_sig_decode :: "nat list \<Rightarrow> ustr option" where
  "utf8_sig_decode b = utf8_decode (if take 3 b = [239, 187, 191] then drop 3 b else b)"

section \<open>Facts on text\<close>

lemma starts_with_append [simp]: "starts_with p (p @ s)"
  by (simp add: starts_with_def)

lemma starts_with_iff: "starts_with p s \<longleftrightarrow> (\<exists>t. s = p @ t)"
proof
  assume "starts_with p s"
  then have "s = p @ drop (length p) s" unfolding starts_with_def by (metis append_take_drop_id)
  then show "\<exists>t. s = p @ t" by blast
qed auto

lemma removeprefix_append [simp]: "removeprefix p (p @ s) = s"
  by (simp add: removeprefix_def)

lemma removesuffix_append [simp]: "removesuffix q (s @ q) = s"
  by (simp add: removesuffix_def ends_with_def)

lemma split_on_not_Nil [simp]: "split_on c s \<noteq> []"
  by (induction s) (auto split: list.splits)

text \<open>Joining the fields of a split gives the text back, and no field holds the separator.\<close>

lemma join_split [simp]: "join_on c (split_on c s) = s"
proof (induction s)
  case Nil
  then show ?case by simp
next
  case (Cons x s)
  obtain f fs where f: "split_on c s = f # fs" by (cases "split_on c s") auto
  show ?case using Cons.IH by (cases fs) (auto simp: f)
qed

lemma split_on_fields: "f \<in> set (split_on c s) \<Longrightarrow> c \<notin> set f"
  by (induction s arbitrary: f) (fastforce split: if_splits list.splits)+

lemma strip_sub: "set (strip s) \<subseteq> set s"
  by (auto simp: strip_def lstrip_def dest!: set_dropWhileD)

lemma strip_id: "list_all (\<lambda>c. \<not> is_space c) s \<Longrightarrow> strip s = s"
proof -
  assume a: "list_all (\<lambda>c. \<not> is_space c) s"
  have id: "dropWhile is_space t = t" if "\<forall>c \<in> set t. \<not> is_space c" for t
    using that by (cases t) auto
  show "strip s = s" using a by (simp add: strip_def lstrip_def list_all_iff id)
qed

text \<open>Decimal text of a number reads back as the number.\<close>

lemma decimal_value_ascii: "d < 10 \<Longrightarrow> decimal_value (48 + d) = Some d"
  by (simp add: decimal_value_def digit_zeros_def)

lemma is_decimal_ascii: "d < 10 \<Longrightarrow> is_decimal (48 + d)"
  by (simp add: is_decimal_def decimal_value_ascii)

lemma nat_str_digits: "\<forall>c \<in> set (nat_str n). 48 \<le> c \<and> c \<le> 57"
proof (induction n rule: nat_str.induct)
  case (1 n)
  then show ?case by (subst nat_str.simps) auto
qed

lemma nat_str_not_Nil [simp]: "nat_str n \<noteq> []"
  by (subst nat_str.simps) simp

lemma nat_str_decimal: "list_all is_decimal (nat_str n)"
proof -
  have "is_decimal c" if "c \<in> set (nat_str n)" for c
  proof -
    have "48 \<le> c" "c - 48 < 10" using nat_str_digits [of n] that by fastforce+
    then show ?thesis using is_decimal_ascii [of "c - 48"] by simp
  qed
  then show ?thesis by (simp add: list_all_iff)
qed

lemma decimal_to_nat_str [simp]: "decimal_to_nat (nat_str n) = n"
proof (induction n rule: nat_str.induct)
  case (1 n)
  show ?case
  proof (cases "n < 10")
    case True
    then show ?thesis
      by (subst nat_str.simps) (simp add: decimal_to_nat_def decimal_value_ascii)
  next
    case False
    then have "decimal_to_nat (nat_str (n div 10)) = n div 10" using 1 by simp
    moreover have "decimal_to_nat (s @ [48 + d]) = 10 * decimal_to_nat s + d" if "d < 10" for s d
      using that by (simp add: decimal_to_nat_def decimal_value_ascii)
    ultimately show ?thesis using False by (subst nat_str.simps) simp
  qed
qed

lemma nat_str_inject [simp]: "nat_str m = nat_str n \<longleftrightarrow> m = n"
  by (metis decimal_to_nat_str)

lemma int_str_inject_nonneg [simp]: "0 \<le> i \<Longrightarrow> 0 \<le> j \<Longrightarrow> int_str i = int_str j \<longleftrightarrow> i = j"
  by (auto simp: int_str_def)

section \<open>UTF-8 round trip\<close>

text \<open>Code points run up to \<open>0x10ffff\<close>.\<close>

definition unicode_text :: "ustr \<Rightarrow> bool" where
  "unicode_text s \<longleftrightarrow> list_all (\<lambda>c. c < 1114112) s"

lemma base_64: "(c :: nat) div (k * 64) * 64 + (c div k) mod 64 = c div k"
  by (simp add: div_mult2_eq)

lemma base_64_digits:
  fixes c :: nat
  shows "c div 64 * 64 + c mod 64 = c"
    and "c div 4096 * 4096 + (c div 64) mod 64 * 64 + c mod 64 = c"
    and "c div 262144 * 262144 + (c div 4096) mod 64 * 4096 + (c div 64) mod 64 * 64 + c mod 64 = c"
proof -
  show a: "c div 64 * 64 + c mod 64 = c" by simp
  have "c div 4096 * 64 + (c div 64) mod 64 = c div 64" using base_64 [of c 64] by simp
  then have "(c div 4096 * 64 + (c div 64) mod 64) * 64 + c mod 64 = c" using a by simp
  then show b: "c div 4096 * 4096 + (c div 64) mod 64 * 64 + c mod 64 = c" by (simp add: algebra_simps)
  have "c div 262144 * 64 + (c div 4096) mod 64 = c div 4096" using base_64 [of c 4096] by simp
  then have "(c div 262144 * 64 + (c div 4096) mod 64) * 4096 + (c div 64) mod 64 * 64 + c mod 64 = c"
    using b by simp
  then show "c div 262144 * 262144 + (c div 4096) mod 64 * 4096 + (c div 64) mod 64 * 64 + c mod 64 = c"
    by (simp add: algebra_simps)
qed

lemma utf8_char_decode:
  assumes "utf8_char c = Some b" and "c < 1114112"
  shows "utf8_decode (b @ bs) = map_option ((#) c) (utf8_decode bs)"
proof -
  consider "c < 128" | "128 \<le> c" "c < 2048" | "2048 \<le> c" "c < 65536" | "65536 \<le> c" by linarith
  then show ?thesis
  proof cases
    case 1
    with assms show ?thesis by auto
  next
    case 2
    then have b: "b = [192 + c div 64, 128 + c mod 64]" using assms(1) by auto
    have "2 \<le> c div 64" using div_le_mono [OF 2(1), of 64] by simp
    moreover have "c div 64 < 32" using 2 by (simp add: less_mult_imp_div_less)
    moreover have "c mod 64 < 64" "c div 64 * 64 + c mod 64 = c" by simp_all
    ultimately show ?thesis by (simp add: b continuation_def)
  next
    case 3
    then have b: "b = [224 + c div 4096, 128 + (c div 64) mod 64, 128 + c mod 64]"
      and no: "\<not> (55296 \<le> c \<and> c < 57344)" using assms(1) by (auto split: if_splits)
    have "c div 4096 < 16" "(c div 64) mod 64 < 64" "c mod 64 < 64"
      using 3 by (simp_all add: less_mult_imp_div_less)
    moreover have "c div 4096 * 4096 + (c div 64) mod 64 * 64 + c mod 64 = c"
      by (rule base_64_digits)
    ultimately show ?thesis using 3 no by (auto simp: b continuation_def Let_def)
  next
    case 4
    then have b: "b = [240 + c div 262144, 128 + (c div 4096) mod 64, 128 + (c div 64) mod 64,
        128 + c mod 64]" using assms(1) by (auto split: if_splits)
    have "(c div 4096) mod 64 < 64" "(c div 64) mod 64 < 64" "c mod 64 < 64" by simp_all
    moreover have "c div 262144 * 262144 + (c div 4096) mod 64 * 4096 + (c div 64) mod 64 * 64
        + c mod 64 = c" by (rule base_64_digits)
    ultimately show ?thesis using 4 assms(2) by (simp add: b continuation_def Let_def)
  qed
qed

lemma utf8_decode_utf8:
  "utf8 s = Some b \<Longrightarrow> unicode_text s \<Longrightarrow> utf8_decode b = Some s"
proof (induction s arbitrary: b)
  case (Cons c s)
  then obtain x bs where x: "utf8_char c = Some x" "utf8 s = Some bs" "b = x @ bs"
    by (auto split: option.splits)
  with Cons show ?case using utf8_char_decode [OF x(1)] by (simp add: unicode_text_def)
qed simp

end
