(* ===== verification/FetchTypes.thy ===== *)
theory FetchTypes
  imports PyText
begin

text \<open>
  The exceptions of the ingestion pipeline and the records of \<open>contracts/fetch.py\<close>: run modes and
  states, requests, page metadata, attempts and snapshots. An exception is its class and one text:
  the \<open>error_code\<close> of a \<open>FetchRunError\<close>, the code of a \<open>ProcessingError\<close>, the fixed part of the
  message otherwise. Times are whole seconds.
\<close>

section \<open>Exceptions\<close>

datatype exn_class =
    ValueError
  | ValidationError
  | DisallowedEndpointError
  | ResponseContractError
  | ResponseTooLargeError
  | FetchRunError
  | SourceConfigurationError
  | RightsRegistryLoadError
  | UnknownSourceRightsError
  | SourceRightsBlockedError
  | ProcessingError
  | PartitionConfigError
  | RawObjectIntegrityError
  | RawStorageCapacityError
  | OSError
  | UnicodeEncodeError
  | UnicodeDecodeError
  | AssertionError
  | OtherError ustr

datatype exn = Exn exn_class ustr

text \<open>\<open>type(error).__name__\<close>.\<close>

fun class_name :: "exn_class \<Rightarrow> ustr" where
  "class_name ValueError = u ''ValueError''"
| "class_name ValidationError = u ''ValidationError''"
| "class_name DisallowedEndpointError = u ''DisallowedEndpointError''"
| "class_name ResponseContractError = u ''ResponseContractError''"
| "class_name ResponseTooLargeError = u ''ResponseTooLargeError''"
| "class_name FetchRunError = u ''FetchRunError''"
| "class_name SourceConfigurationError = u ''SourceConfigurationError''"
| "class_name RightsRegistryLoadError = u ''RightsRegistryLoadError''"
| "class_name UnknownSourceRightsError = u ''UnknownSourceRightsError''"
| "class_name SourceRightsBlockedError = u ''SourceRightsBlockedError''"
| "class_name ProcessingError = u ''ProcessingError''"
| "class_name PartitionConfigError = u ''PartitionConfigError''"
| "class_name RawObjectIntegrityError = u ''RawObjectIntegrityError''"
| "class_name RawStorageCapacityError = u ''RawStorageCapacityError''"
| "class_name OSError = u ''OSError''"
| "class_name UnicodeEncodeError = u ''UnicodeEncodeError''"
| "class_name UnicodeDecodeError = u ''UnicodeDecodeError''"
| "class_name AssertionError = u ''AssertionError''"
| "class_name (OtherError n) = n"

definition type_name :: "exn \<Rightarrow> ustr" where
  "type_name e = (case e of Exn c _ \<Rightarrow> class_name c)"

text \<open>\<open>isinstance(error, ValueError)\<close>: the class or one the program derives from it.\<close>

fun value_error_class :: "exn_class \<Rightarrow> bool" where
  "value_error_class ValueError = True"
| "value_error_class ValidationError = True"
| "value_error_class DisallowedEndpointError = True"
| "value_error_class ResponseContractError = True"
| "value_error_class ResponseTooLargeError = True"
| "value_error_class SourceConfigurationError = True"
| "value_error_class RightsRegistryLoadError = True"
| "value_error_class ProcessingError = True"
| "value_error_class PartitionConfigError = True"
| "value_error_class UnicodeEncodeError = True"
| "value_error_class UnicodeDecodeError = True"
| "value_error_class _ = False"

definition is_value_error :: "exn \<Rightarrow> bool" where
  "is_value_error e = (case e of Exn c _ \<Rightarrow> value_error_class c)"

section \<open>Fetch contracts\<close>

datatype run_mode = SCHEDULED_FULL | BACKFILL

datatype run_state = RUNNING | REVIEW_REQUIRED | SUCCEEDED | FAILED

datatype observation_outcome =
    SELECTED_SUCCESS | HTTP_ERROR | TRANSPORT_ERROR | RESPONSE_INVALID | STORAGE_ERROR

datatype completeness_mode = DECLARED_TOTAL | SINGLE_FILE | INDEX_TERMINAL

datatype source_readiness = READY | NEEDS_CREDENTIAL | NEEDS_CONFIGURATION | SPEC_PENDING

record stored_raw_object =
  st_content_sha256 :: ustr
  st_byte_length :: nat
  st_relative_path :: ustr

record request_spec =
  rq_source_id :: ustr
  rq_partition_id :: ustr
  rq_method :: ustr
  rq_url :: ustr
  rq_params :: "(ustr \<times> ustr) list"
  rq_secret_param_names :: "ustr list"
  rq_page_number :: "int option"
  rq_response_ordinal :: int

record page_metadata =
  pm_total_count :: "int option"
  pm_page_number :: "int option"
  pm_page_size :: "int option"
  pm_discovered_record_ids :: "ustr list"

record fetch_attempt =
  at_observation_id :: ustr
  at_connector_run_id :: ustr
  at_source_id :: ustr
  at_request_fingerprint :: ustr
  at_partition_id :: ustr
  at_page_number :: "int option"
  at_response_ordinal :: int
  at_attempt_no :: nat
  at_requested_at :: int
  at_retrieved_at :: int
  at_http_status :: "int option"
  at_request_url_redacted :: ustr
  at_response_headers :: "(ustr \<times> ustr) list"
  at_outcome :: observation_outcome
  at_error_code :: "ustr option"
  at_snapshot_id :: "ustr option"
  at_selected :: bool

record source_snapshot =
  sn_snapshot_id :: ustr
  sn_source_id :: ustr
  sn_content_sha256 :: ustr
  sn_byte_length :: nat
  sn_mime_type :: ustr
  sn_raw_object_path :: ustr
  sn_first_observed_at :: int

end
