(* ===== verification/RequestSecurity.thy ===== *)
theory RequestSecurity
  imports FetchTypes
begin

text \<open>
  \<open>pipeline/request_security.py\<close>: which endpoints may be called, what of a request may be written
  down, and the fingerprint that identifies a request. The lemmas show that no value of a secret
  parameter reaches the redacted address, and that changing only secrets changes neither it nor the
  fingerprint.
\<close>

definition default_secret_query_names :: "ustr list" where
  "default_secret_query_names =
     [u ''servicekey'', u ''authkey'', u ''access-key'', u ''api_key'', u ''apikey'', u ''key'',
      u ''token'']"

definition safe_response_header_names :: "ustr list" where
  "safe_response_header_names =
     [u ''content-type'', u ''content-length'', u ''etag'', u ''last-modified'', u ''retry-after'']"

definition nonempty_opt :: "ustr option \<Rightarrow> bool" where
  "nonempty_opt s = (case s of None \<Rightarrow> False | Some t \<Rightarrow> t \<noteq> [])"

definition validate_endpoint :: "pyenv \<Rightarrow> ustr \<Rightarrow> ustr list \<Rightarrow> exn + unit" where
  "validate_endpoint P url allowed_hosts =
     (case urlsplit P url of
        None \<Rightarrow> Inl (Exn ValueError (u ''urlsplit''))
      | Some parsed \<Rightarrow>
          let allowed = map (casefold P) allowed_hosts in
          if up_scheme parsed \<noteq> u ''https''
             \<or> (case up_hostname parsed of None \<Rightarrow> True | Some h \<Rightarrow> casefold P h \<notin> set allowed)
          then Inl (Exn DisallowedEndpointError
                 (u ''Endpoint must use HTTPS and one of the configured source hosts''))
          else if nonempty_opt (up_username parsed) \<or> nonempty_opt (up_password parsed)
             \<or> up_fragment parsed \<noteq> []
          then Inl (Exn DisallowedEndpointError
                 (u ''Endpoint credentials and fragments are forbidden''))
          else Inr ())"

text \<open>The parameters of a request with every secret value replaced, in the order they are sent.\<close>

definition secret_names :: "pyenv \<Rightarrow> request_spec \<Rightarrow> ustr list" where
  "secret_names P request =
     default_secret_query_names @ map (casefold P) (rq_secret_param_names request)"

definition safe_pairs :: "pyenv \<Rightarrow> request_spec \<Rightarrow> ustr \<Rightarrow> (ustr \<times> ustr) list" where
  "safe_pairs P request query =
     map (\<lambda>(key, value).
            (key, if casefold P key \<in> set (secret_names P request) then u ''<redacted>'' else value))
       (parse_qsl P query @ rq_params request)"

definition redacted_url :: "pyenv \<Rightarrow> request_spec \<Rightarrow> exn + ustr" where
  "redacted_url P request =
     (case urlsplit P (rq_url request) of
        None \<Rightarrow> Inl (Exn ValueError (u ''urlsplit''))
      | Some parsed \<Rightarrow>
          Inr (urlunsplit P (up_scheme parsed, up_netloc parsed, up_path parsed,
                 urlencode P (sort (safe_pairs P request (up_query parsed))), [])))"

text \<open>
  \<open>json.dumps\<close> of the canonical object followed by SHA-256 is the same operation as the program's
  \<open>digest\<close>.
\<close>

definition request_fingerprint :: "pyenv \<Rightarrow> request_spec \<Rightarrow> exn + ustr" where
  "request_fingerprint P request =
     rbind (redacted_url P request) (\<lambda>url.
       Inr (digest P (JObj
         [(u ''method'', JStr (upper P (rq_method request))),
          (u ''url'', JStr url),
          (u ''response_ordinal'', JInt (rq_response_ordinal request))])))"

definition add_safe_header ::
    "pyenv \<Rightarrow> (ustr \<times> ustr) list \<Rightarrow> ustr \<times> ustr \<Rightarrow> (ustr \<times> ustr) list" where
  "add_safe_header P d h =
     (case h of (key, value) \<Rightarrow>
        if casefold P key \<in> set safe_response_header_names
        then AList.update (casefold P key) value d else d)"

definition safe_response_headers :: "pyenv \<Rightarrow> (ustr \<times> ustr) list \<Rightarrow> (ustr \<times> ustr) list" where
  "safe_response_headers P headers = foldl (add_safe_header P) [] headers"

section \<open>Redaction\<close>

text \<open>Two requests that agree but for the values of secret parameters.\<close>

definition same_but_secrets :: "pyenv \<Rightarrow> request_spec \<Rightarrow> request_spec \<Rightarrow> bool" where
  "same_but_secrets P r s \<longleftrightarrow>
     s = r\<lparr>rq_params := rq_params s\<rparr> \<and>
     list_all2 (\<lambda>(k, v) (k', v'). k = k' \<and> (v = v' \<or> casefold P k \<in> set (secret_names P r)))
       (rq_params r) (rq_params s)"

lemma secret_names_params [simp]: "secret_names P (r\<lparr>rq_params := ps\<rparr>) = secret_names P r"
  by (simp add: secret_names_def)

lemma safe_pairs_same:
  assumes "same_but_secrets P r s"
  shows "safe_pairs P s q = safe_pairs P r q"
proof -
  have s: "s = r\<lparr>rq_params := rq_params s\<rparr>"
    and p: "list_all2 (\<lambda>(k, v) (k', v'). k = k' \<and> (v = v' \<or> casefold P k \<in> set (secret_names P r)))
       (rq_params r) (rq_params s)"
    using assms by (auto simp: same_but_secrets_def)
  have names: "secret_names P s = secret_names P r" by (subst s) simp
  have "map (\<lambda>(key, value). (key, if casefold P key \<in> set (secret_names P r)
            then u ''<redacted>'' else value)) (rq_params s) =
        map (\<lambda>(key, value). (key, if casefold P key \<in> set (secret_names P r)
            then u ''<redacted>'' else value)) (rq_params r)"
    using p by (induction rule: list_all2_induct) (auto split: prod.splits)
  then show ?thesis by (simp add: safe_pairs_def names)
qed

lemma redacted_url_same:
  assumes "same_but_secrets P r s"
  shows "redacted_url P s = redacted_url P r"
proof -
  have "rq_url s = rq_url r"
    using assms by (metis same_but_secrets_def request_spec.select_convs(4) request_spec.surjective
        request_spec.update_convs(5))
  then show ?thesis by (simp add: redacted_url_def safe_pairs_same [OF assms] split: option.split)
qed

lemma safe_pairs_redacted:
  assumes "(k, v) \<in> set (safe_pairs P r q)" and "casefold P k \<in> set (secret_names P r)"
  shows "v = u ''<redacted>''"
  using assms by (auto simp: safe_pairs_def)

lemma add_safe_header_names:
  "fst ` set (add_safe_header P d h) \<subseteq> fst ` set d \<union> set safe_response_header_names"
  by (cases h) (simp add: add_safe_header_def dom_update)

lemma safe_headers_names:
  "fst ` set (foldl (add_safe_header P) d hs) \<subseteq> fst ` set d \<union> set safe_response_header_names"
proof (induction hs arbitrary: d)
  case (Cons h hs)
  show ?case using Cons.IH [of "add_safe_header P d h"] add_safe_header_names [of P d h] by auto
qed simp

lemma safe_response_headers_names:
  "fst ` set (safe_response_headers P hs) \<subseteq> set safe_response_header_names"
  using safe_headers_names [of P "[]" hs] by (simp add: safe_response_headers_def)


text \<open>
  Secrets do not interfere. Two requests that differ only in the values of secret parameters
  (the fixed names and those the connector declares) have the same redacted address and the same
  fingerprint: nothing of a secret reaches the ledger, and rotating a key neither repeats nor hides a
  request.
\<close>

theorem secrets_do_not_interfere:
  assumes "same_but_secrets P r s"
  shows "redacted_url P s = redacted_url P r \<and> request_fingerprint P s = request_fingerprint P r"
proof -
  have "rq_method s = rq_method r" "rq_response_ordinal s = rq_response_ordinal r"
    using assms by (metis same_but_secrets_def request_spec.select_convs(3,8)
        request_spec.surjective request_spec.update_convs(5))+
  then show ?thesis by (simp add: request_fingerprint_def redacted_url_same [OF assms])
qed

definition keyed_request :: "ustr \<Rightarrow> request_spec" where
  "keyed_request secret =
     \<lparr>rq_source_id = u ''job_alio'', rq_partition_id = u ''all'', rq_method = u ''GET'',
      rq_url = u ''https://apis.data.go.kr/list'',
      rq_params = [(u ''pageNo'', u ''1''), (u ''ServiceKey'', secret)],
      rq_secret_param_names = [], rq_page_number = Some 1, rq_response_ordinal = 1\<rparr>"

theorem secrets_do_not_interfere_witness:
  "redacted_url example_env (keyed_request (u ''old'')) = redacted_url example_env (keyed_request (u ''new''))
   \<and> keyed_request (u ''old'') \<noteq> keyed_request (u ''new'')"
proof -
  have "same_but_secrets example_env (keyed_request (u ''new'')) (keyed_request (u ''old''))"
    by code_simp
  moreover have "keyed_request (u ''old'') \<noteq> keyed_request (u ''new'')"
    by (simp add: keyed_request_def)
  ultimately show ?thesis by (simp add: secrets_do_not_interfere)
qed

end
