(* ===== verification/Connectors.thy ===== *)
theory Connectors
  imports RequestSecurity
begin

text \<open>
  \<open>connectors/base.py\<close> and the JOB-ALIO connector of \<open>connectors/sources.py\<close>: how a source turns
  into requests. A connector gives its first requests, checks a response, and derives the further
  requests from what the provider declares. \<open>DeclaredTotalConnector\<close> pages through a declared total;
  \<open>JobAlioConnector\<close> also schedules one detail request per listed posting.
\<close>

section \<open>Reading a response\<close>

definition default_api_success_codes :: "ustr list" where
  "default_api_success_codes = [u ''00'', u ''0'', u ''SUCCESS'']"

definition contract_error :: "string \<Rightarrow> exn + 'a" where
  "contract_error m = Inl (Exn ResponseContractError (u m))"

text \<open>\<open>find_values\<close> yields in document order: at a key first its value, then what the value holds.\<close>

fun find_json :: "ustr list \<Rightarrow> json \<Rightarrow> json list"
  and find_json_list :: "ustr list \<Rightarrow> json list \<Rightarrow> json list"
  and find_json_pairs :: "ustr list \<Rightarrow> (ustr \<times> json) list \<Rightarrow> json list"
where
  "find_json names (JObj kvs) = find_json_pairs names kvs"
| "find_json names (JArr xs) = find_json_list names xs"
| "find_json names _ = []"
| "find_json_list names [] = []"
| "find_json_list names (x # xs) = find_json names x @ find_json_list names xs"
| "find_json_pairs names [] = []"
| "find_json_pairs names ((k, v) # kvs) =
     (if k \<in> set names then [v] else []) @ find_json names v @ find_json_pairs names kvs"

definition local_tag :: "ustr \<Rightarrow> ustr" where
  "local_tag t = last (split_on 125 t)"

fun find_xml :: "ustr list \<Rightarrow> xml \<Rightarrow> json list"
  and find_xml_list :: "ustr list \<Rightarrow> xml list \<Rightarrow> json list"
where
  "find_xml names (Element tag txt children) =
     (case txt of
        None \<Rightarrow> []
      | Some t \<Rightarrow> if local_tag tag \<in> set names then [JStr t] else [])
     @ find_xml_list names children"
| "find_xml_list names [] = []"
| "find_xml_list names (x # xs) = find_xml names x @ find_xml_list names xs"

fun find_values :: "document \<Rightarrow> ustr list \<Rightarrow> json list" where
  "find_values (JsonDocument j) names = find_json names j"
| "find_values (XmlDocument x) names = find_xml names x"

definition bytes_lstrip :: "nat list \<Rightarrow> nat list" where
  "bytes_lstrip b = dropWhile (\<lambda>c. c \<in> {9, 10, 11, 12, 13, 32}) b"

definition parse_response_document :: "pyenv \<Rightarrow> nat list \<Rightarrow> ustr \<Rightarrow> exn + document" where
  "parse_response_document P body content_type =
     (let stripped = bytes_lstrip body in
      if contains (u ''json'') (casefold P content_type)
         \<or> take 1 stripped = [123] \<or> take 1 stripped = [91]
      then (case json_loads P body of
              None \<Rightarrow> contract_error ''Invalid JSON response''
            | Some j \<Rightarrow> Inr (JsonDocument j))
      else (case xml_fromstring P body of
              None \<Rightarrow> contract_error ''Response is neither valid JSON nor XML''
            | Some x \<Rightarrow> Inr (XmlDocument x)))"

definition validate_api_result :: "pyenv \<Rightarrow> document \<Rightarrow> ustr list \<Rightarrow> exn + unit" where
  "validate_api_result P doc accepted =
     (if \<not> list_all (\<lambda>code. strip (py_str P code) \<in> set accepted)
            (find_values doc [u ''resultCode''])
      then contract_error ''Provider returned resultCode''
      else
        let mapping = (case doc of JsonDocument (JObj kvs) \<Rightarrow> kvs | _ \<Rightarrow> []) in
        case map_of mapping (u ''code'') of
          None \<Rightarrow> Inr ()
        | Some code \<Rightarrow>
            if \<not> list_ex (\<lambda>key. map_of mapping key \<noteq> None)
                   [u ''jobs'', u ''response'', u ''HRDNet'']
               \<and> strip (py_str P code) \<notin> set accepted
            then contract_error ''Provider returned code''
            else Inr ())"

definition value_int :: "pyenv \<Rightarrow> json \<Rightarrow> int option" where
  "value_int P v = py_int (strip (replace_char 44 [] (py_str P v)))"

definition first_some :: "('a \<Rightarrow> 'b option) \<Rightarrow> 'a list \<Rightarrow> 'b option" where
  "first_some f xs = (case List.map_filter f xs of [] \<Rightarrow> None | y # _ \<Rightarrow> Some y)"

definition extract_first_int :: "pyenv \<Rightarrow> document \<Rightarrow> ustr list \<Rightarrow> int option" where
  "extract_first_int P doc names =
     first_some (\<lambda>name. first_some (value_int P) (find_values doc [name])) names"

section \<open>DeclaredTotalConnector\<close>

record pagination =
  pg_page_param :: ustr
  pg_size_param :: ustr
  pg_page_base :: int
  pg_page_size :: int
  pg_max_page_number :: "int option"

record declared_total =
  dt_source_id :: ustr
  dt_display_name :: ustr
  dt_endpoint :: ustr
  dt_allowed_hosts :: "ustr list"
  dt_partitions :: "(ustr \<times> (ustr \<times> ustr) list) list"
  dt_secret_param_names :: "ustr list"
  dt_pagination :: pagination
  dt_accepted_success_codes :: "ustr list"

definition dt_request :: "declared_total \<Rightarrow> ustr \<Rightarrow> (ustr \<times> ustr) list \<Rightarrow> int \<Rightarrow> request_spec" where
  "dt_request c part base_params page_number =
     \<lparr>rq_source_id = dt_source_id c,
      rq_partition_id = part,
      rq_method = u ''GET'',
      rq_url = dt_endpoint c,
      rq_params =
        AList.update (pg_size_param (dt_pagination c)) (int_str (pg_page_size (dt_pagination c)))
          (AList.update (pg_page_param (dt_pagination c)) (int_str page_number) base_params),
      rq_secret_param_names = dt_secret_param_names c,
      rq_page_number = Some page_number,
      rq_response_ordinal = 0\<rparr>"

definition dt_initial_requests :: "declared_total \<Rightarrow> request_spec list" where
  "dt_initial_requests c =
     map (\<lambda>(part, params). dt_request c part params (pg_page_base (dt_pagination c)))
       (dt_partitions c)"

definition dt_validate_response ::
    "pyenv \<Rightarrow> declared_total \<Rightarrow> request_spec \<Rightarrow> nat list \<Rightarrow> ustr \<Rightarrow> exn + page_metadata" where
  "dt_validate_response P c request body content_type =
     rbind (parse_response_document P body content_type) (\<lambda>doc.
     rbind (validate_api_result P doc (dt_accepted_success_codes c)) (\<lambda>_.
       let tot = extract_first_int P doc [u ''totalCount'', u ''total'', u ''scn_cnt''];
           page = extract_first_int P doc [u ''pageNo'', u ''pageNum'', u ''start''];
           sz = extract_first_int P doc [u ''numOfRows'', u ''pageSize'', u ''count'']
       in case tot of
            None \<Rightarrow> contract_error ''Response does not contain a valid declared total''
          | Some t \<Rightarrow>
              if t < 0 then contract_error ''Response does not contain a valid declared total''
              else if page \<noteq> None \<and> rq_page_number request \<noteq> None
                      \<and> page \<noteq> rq_page_number request
              then contract_error ''Response page does not match requested page''
              else Inr \<lparr>pm_total_count = Some t,
                        pm_page_number = (if page = None then rq_page_number request else page),
                        pm_page_size =
                          (case sz of None \<Rightarrow> Some (pg_page_size (dt_pagination c))
                                      | Some s \<Rightarrow> Some s),
                        pm_discovered_record_ids = []\<rparr>))"

text \<open>
  The page count is \<open>max(1, ceil(total / size))\<close>. The source divides as floating point numbers, which
  is exact here for totals below \<open>2 ^ 52\<close>.
\<close>

definition dt_page_count :: "int \<Rightarrow> int \<Rightarrow> int option \<Rightarrow> int" where
  "dt_page_count tot sz max_pages =
     (let pages = max 1 (ceil_div tot sz) in
      case max_pages of None \<Rightarrow> pages | Some m \<Rightarrow> min pages m)"

definition without_paging :: "pagination \<Rightarrow> (ustr \<times> ustr) list \<Rightarrow> (ustr \<times> ustr) list" where
  "without_paging pg ps = filter (\<lambda>(k, _). k \<notin> {pg_page_param pg, pg_size_param pg}) ps"

definition dt_remaining_requests ::
    "declared_total \<Rightarrow> request_spec \<Rightarrow> page_metadata \<Rightarrow> int option \<Rightarrow> exn + request_spec list" where
  "dt_remaining_requests c request metadata max_pages =
     (let pg = dt_pagination c; base = pg_page_base pg in
      if rq_page_number request \<noteq> Some base then Inr []
      else case pm_total_count metadata of
        None \<Rightarrow> contract_error ''Cannot paginate without total_count''
      | Some tot \<Rightarrow>
          if tot = 0 then
            if rq_response_ordinal request = 0 then Inr [request\<lparr>rq_response_ordinal := 1\<rparr>]
            else Inr []
          else case pm_page_size metadata of
            None \<Rightarrow> contract_error ''Response does not contain a valid page size''
          | Some sz \<Rightarrow>
              if sz < 1 then contract_error ''Response does not contain a valid page size''
              else
                let pages = dt_page_count tot sz max_pages;
                    final_page = base + pages - 1
                in if (case pg_max_page_number pg of None \<Rightarrow> False | Some m \<Rightarrow> m < final_page)
                   then contract_error
                     ''Declared total exceeds the provider pagination ceiling; split the partition''
                   else Inr (map (dt_request c (rq_partition_id request)
                                    (without_paging pg (rq_params request)))
                               [base + 1 .. base + pages - 1]))"

section \<open>SingleFileConnector\<close>

record single_file =
  sf_source_id :: ustr
  sf_display_name :: ustr
  sf_endpoint :: ustr
  sf_allowed_hosts :: "ustr list"

definition sf_initial_requests :: "single_file \<Rightarrow> request_spec list" where
  "sf_initial_requests c =
     [\<lparr>rq_source_id = sf_source_id c, rq_partition_id = u ''file'', rq_method = u ''GET'',
       rq_url = sf_endpoint c, rq_params = [], rq_secret_param_names = [],
       rq_page_number = None, rq_response_ordinal = 0\<rparr>]"

definition sf_validate_response ::
    "pyenv \<Rightarrow> request_spec \<Rightarrow> nat list \<Rightarrow> ustr \<Rightarrow> exn + page_metadata" where
  "sf_validate_response P request body content_type =
     (if body = [] then contract_error ''Downloaded file is empty''
      else if contains (u ''text/html'') (casefold P content_type)
      then contract_error ''Expected a data file but received HTML''
      else Inr \<lparr>pm_total_count = Some 1, pm_page_number = None, pm_page_size = None,
                pm_discovered_record_ids = []\<rparr>)"

definition sf_remaining_requests ::
    "request_spec \<Rightarrow> page_metadata \<Rightarrow> int option \<Rightarrow> exn + request_spec list" where
  "sf_remaining_requests request metadata max_pages = Inr []"

section \<open>JobAlioConnector\<close>

definition alio_api_success_codes :: "ustr list" where
  "alio_api_success_codes = default_api_success_codes @ [u ''200'']"

record job_alio =
  ja_service_key :: ustr
  ja_ongoing_only :: bool

definition ja_pagination :: pagination where
  "ja_pagination =
     \<lparr>pg_page_param = u ''pageNo'', pg_size_param = u ''numOfRows'', pg_page_base = 1,
      pg_page_size = 100, pg_max_page_number = None\<rparr>"

definition ja_index_request :: "(ustr \<times> ustr) list \<Rightarrow> int \<Rightarrow> request_spec" where
  "ja_index_request base_params page_number =
     \<lparr>rq_source_id = u ''job_alio'',
      rq_partition_id = u ''index'',
      rq_method = u ''GET'',
      rq_url = u ''https://apis.data.go.kr/1051000/recruitment/list'',
      rq_params = AList.update (u ''numOfRows'') (u ''100'')
                    (AList.update (u ''pageNo'') (int_str page_number) base_params),
      rq_secret_param_names = [u ''serviceKey''],
      rq_page_number = Some page_number,
      rq_response_ordinal = 0\<rparr>"

definition ja_detail_request :: "job_alio \<Rightarrow> ustr \<Rightarrow> request_spec" where
  "ja_detail_request c identity =
     \<lparr>rq_source_id = u ''job_alio'',
      rq_partition_id = u ''detail-'' @ identity,
      rq_method = u ''GET'',
      rq_url = u ''https://apis.data.go.kr/1051000/recruitment/detail'',
      rq_params = [(u ''serviceKey'', ja_service_key c), (u ''resultType'', u ''json''),
                   (u ''sn'', identity)],
      rq_secret_param_names = [u ''serviceKey''],
      rq_page_number = None,
      rq_response_ordinal = 0\<rparr>"

definition ja_initial_requests :: "job_alio \<Rightarrow> request_spec list" where
  "ja_initial_requests c =
     [ja_index_request
        ([(u ''serviceKey'', ja_service_key c), (u ''resultType'', u ''json'')]
         @ (if ja_ongoing_only c then [(u ''ongoingYn'', u ''Y'')] else [])) 1]"

definition posting_identities :: "pyenv \<Rightarrow> document \<Rightarrow> ustr list" where
  "posting_identities P doc =
     sorted_set (filter (\<lambda>s. s \<noteq> [])
       (map (\<lambda>v. strip (py_str P v)) (find_values doc [u ''recrutPblntSn''])))"

definition ja_validate_response ::
    "pyenv \<Rightarrow> request_spec \<Rightarrow> nat list \<Rightarrow> ustr \<Rightarrow> exn + page_metadata" where
  "ja_validate_response P request body content_type =
     rbind (parse_response_document P body content_type) (\<lambda>doc.
     rbind (validate_api_result P doc alio_api_success_codes) (\<lambda>_.
       if starts_with (u ''detail-'') (rq_partition_id request) then
         let expected = strip (case map_of (rq_params request) (u ''sn'') of
                                 None \<Rightarrow> [] | Some s \<Rightarrow> s);
             identities = posting_identities P doc
         in if expected = [] \<or> identities \<noteq> [expected]
            then contract_error
              ''JOB-ALIO detail identity does not match the requested posting''
            else Inr \<lparr>pm_total_count = Some 1, pm_page_number = None, pm_page_size = None,
                      pm_discovered_record_ids = []\<rparr>
       else
         case extract_first_int P doc [u ''totalCount''] of
           None \<Rightarrow> contract_error ''JOB-ALIO index response has no valid totalCount''
         | Some tot \<Rightarrow>
             let page = extract_first_int P doc [u ''pageNo''];
                 identities = posting_identities P doc
             in if tot < 0
                then contract_error ''JOB-ALIO index response has no valid totalCount''
                else if page \<noteq> None \<and> page \<noteq> rq_page_number request
                then contract_error ''JOB-ALIO response page does not match request''
                else if tot > 0 \<and> identities = []
                then contract_error ''JOB-ALIO index page contains no posting identities''
                else Inr \<lparr>pm_total_count = Some tot,
                          pm_page_number = rq_page_number request,
                          pm_page_size = Some (pg_page_size ja_pagination),
                          pm_discovered_record_ids = identities\<rparr>))"

definition ja_remaining_requests ::
    "job_alio \<Rightarrow> request_spec \<Rightarrow> page_metadata \<Rightarrow> int option \<Rightarrow> exn + request_spec list" where
  "ja_remaining_requests c request metadata max_pages =
     (if starts_with (u ''detail-'') (rq_partition_id request) then Inr []
      else if pm_total_count metadata = Some 0 then
        if rq_response_ordinal request = 0 then Inr [request\<lparr>rq_response_ordinal := 1\<rparr>]
        else Inr []
      else
        let tot = (case pm_total_count metadata of None \<Rightarrow> 0 | Some t \<Rightarrow> t);
            sz = pg_page_size ja_pagination;
            base = pg_page_base ja_pagination;
            all_pages = max 1 ((tot + sz - 1) div sz);
            pages = (case max_pages of None \<Rightarrow> all_pages | Some m \<Rightarrow> min all_pages m);
            index_requests =
              (if rq_page_number request = Some base
               then map (ja_index_request (without_paging ja_pagination (rq_params request)))
                      [base + 1 .. base + pages - 1]
               else [])
        in Inr (index_requests
                @ map (ja_detail_request c) (pm_discovered_record_ids metadata)))"

section \<open>The connector protocol\<close>

text \<open>The \<open>Connector\<close> protocol: the attributes and methods the fetch engine uses.\<close>

record connector =
  cn_source_id :: ustr
  cn_allowed_hosts :: "ustr list"
  cn_initial_requests :: "request_spec list"
  cn_validate_response :: "request_spec \<Rightarrow> nat list \<Rightarrow> ustr \<Rightarrow> exn + page_metadata"
  cn_remaining_requests ::
    "request_spec \<Rightarrow> page_metadata \<Rightarrow> int option \<Rightarrow> exn + request_spec list"

definition declared_total_connector :: "pyenv \<Rightarrow> declared_total \<Rightarrow> connector" where
  "declared_total_connector P c =
     \<lparr>cn_source_id = dt_source_id c, cn_allowed_hosts = dt_allowed_hosts c,
      cn_initial_requests = dt_initial_requests c,
      cn_validate_response = dt_validate_response P c,
      cn_remaining_requests = dt_remaining_requests c\<rparr>"

definition single_file_connector :: "pyenv \<Rightarrow> single_file \<Rightarrow> connector" where
  "single_file_connector P c =
     \<lparr>cn_source_id = sf_source_id c, cn_allowed_hosts = sf_allowed_hosts c,
      cn_initial_requests = sf_initial_requests c,
      cn_validate_response = sf_validate_response P,
      cn_remaining_requests = sf_remaining_requests\<rparr>"

definition job_alio_connector :: "pyenv \<Rightarrow> job_alio \<Rightarrow> connector" where
  "job_alio_connector P c =
     \<lparr>cn_source_id = u ''job_alio'', cn_allowed_hosts = [u ''apis.data.go.kr''],
      cn_initial_requests = ja_initial_requests c,
      cn_validate_response = ja_validate_response P,
      cn_remaining_requests = ja_remaining_requests c\<rparr>"

text \<open>
  What the engine relies on. Requests belong to the connector's source, and a further request has a
  smaller rank than the one that led to it, so that following them comes to an end whatever the
  provider answers.
\<close>

locale ranked_connector =
  fixes cn :: connector and rank :: "request_spec \<Rightarrow> nat"
  assumes initial_source: "r \<in> set (cn_initial_requests cn) \<Longrightarrow> rq_source_id r = cn_source_id cn"
    and remaining_source:
      "\<lbrakk>rq_source_id r = cn_source_id cn; cn_remaining_requests cn r m k = Inr rs; s \<in> set rs\<rbrakk>
       \<Longrightarrow> rq_source_id s = cn_source_id cn"
    and remaining_rank:
      "\<lbrakk>cn_remaining_requests cn r m k = Inr rs; s \<in> set rs\<rbrakk> \<Longrightarrow> rank s < rank r"

definition dt_rank :: "declared_total \<Rightarrow> request_spec \<Rightarrow> nat" where
  "dt_rank c r =
     (if rq_page_number r \<noteq> Some (pg_page_base (dt_pagination c)) then 0
      else if rq_response_ordinal r = 0 then 2 else 1)"

definition ja_rank :: "request_spec \<Rightarrow> nat" where
  "ja_rank r =
     (if starts_with (u ''detail-'') (rq_partition_id r) then 0
      else (if rq_page_number r = Some 1 then 3 else 1)
           + (if rq_response_ordinal r = 0 then 1 else 0))"

section \<open>Pagination\<close>

text \<open>The shape of a successful paging step.\<close>

lemma dt_remaining_cases:
  assumes "dt_remaining_requests c r m k = Inr rs"
  obtains "rs = []"
  | "rq_page_number r = Some (pg_page_base (dt_pagination c))" "rq_response_ordinal r = 0"
    "pm_total_count m = Some 0" "rs = [r\<lparr>rq_response_ordinal := 1\<rparr>]"
  | tot sz where "rq_page_number r = Some (pg_page_base (dt_pagination c))"
    "pm_total_count m = Some tot" "tot \<noteq> 0" "pm_page_size m = Some sz" "1 \<le> sz"
    "\<And>mx. pg_max_page_number (dt_pagination c) = Some mx
       \<Longrightarrow> pg_page_base (dt_pagination c) + dt_page_count tot sz k - 1 \<le> mx"
    "rs = map (dt_request c (rq_partition_id r) (without_paging (dt_pagination c) (rq_params r)))
            [pg_page_base (dt_pagination c) + 1 ..
             pg_page_base (dt_pagination c) + dt_page_count tot sz k - 1]"
  using assms
  by (auto simp: dt_remaining_requests_def Let_def contract_error_def
      split: if_splits option.splits)

lemma dt_request_simps [simp]:
  "rq_source_id (dt_request c p ps n) = dt_source_id c"
  "rq_partition_id (dt_request c p ps n) = p"
  "rq_url (dt_request c p ps n) = dt_endpoint c"
  "rq_page_number (dt_request c p ps n) = Some n"
  "rq_response_ordinal (dt_request c p ps n) = 0"
  "rq_secret_param_names (dt_request c p ps n) = dt_secret_param_names c"
  by (simp_all add: dt_request_def)

lemma ja_request_simps [simp]:
  "rq_source_id (ja_index_request ps n) = u ''job_alio''"
  "rq_partition_id (ja_index_request ps n) = u ''index''"
  "rq_page_number (ja_index_request ps n) = Some n"
  "rq_response_ordinal (ja_index_request ps n) = 0"
  "rq_source_id (ja_detail_request d i) = u ''job_alio''"
  "rq_partition_id (ja_detail_request d i) = u ''detail-'' @ i"
  "rq_page_number (ja_detail_request d i) = None"
  by (simp_all add: ja_index_request_def ja_detail_request_def)

interpretation declared: ranked_connector "declared_total_connector P c" "dt_rank c" for P c
proof (unfold_locales, goal_cases)
  case (1 r)
  then show ?case by (auto simp: declared_total_connector_def dt_initial_requests_def)
next
  case (2 r m k rs s)
  from 2(2) have "dt_remaining_requests c r m k = Inr rs"
    by (simp add: declared_total_connector_def)
  then show ?case
    by (rule dt_remaining_cases) (use 2 in \<open>auto simp: declared_total_connector_def\<close>)
next
  case (3 r m k rs s)
  from 3(1) have "dt_remaining_requests c r m k = Inr rs"
    by (simp add: declared_total_connector_def)
  then show ?case
    by (rule dt_remaining_cases) (use 3 in \<open>auto simp: dt_rank_def\<close>)
qed

interpretation single: ranked_connector "single_file_connector P c" "\<lambda>_. 0" for P c
  by unfold_locales
    (auto simp: single_file_connector_def sf_initial_requests_def sf_remaining_requests_def)

lemma detail_not_index [simp]: "\<not> starts_with (u ''detail-'') (u ''index'')"
  by (simp add: starts_with_def u_def)

lemma detail_prefix [simp]: "starts_with (u ''detail-'') (u ''detail-'' @ i)"
  by simp

interpretation alio: ranked_connector "job_alio_connector P c" "ja_rank" for P c
proof (unfold_locales, goal_cases)
  case (1 r)
  then show ?case by (auto simp: job_alio_connector_def ja_initial_requests_def)
next
  case (2 r m k rs s)
  then show ?case
    by (auto simp: job_alio_connector_def ja_remaining_requests_def Let_def split: if_splits)
next
  case (3 r m k rs s)
  then show ?case
    by (auto simp: job_alio_connector_def ja_remaining_requests_def ja_rank_def ja_pagination_def
        Let_def split: if_splits)
qed

section \<open>What the connectors guarantee\<close>

text \<open>A value stands under one of the names somewhere in a JSON value.\<close>

inductive json_has :: "ustr list \<Rightarrow> json \<Rightarrow> json \<Rightarrow> bool" for names where
  at_key: "(k, v) \<in> set kvs \<Longrightarrow> k \<in> set names \<Longrightarrow> json_has names (JObj kvs) v"
| in_value: "(k, w) \<in> set kvs \<Longrightarrow> json_has names w v \<Longrightarrow> json_has names (JObj kvs) v"
| in_item: "w \<in> set xs \<Longrightarrow> json_has names w v \<Longrightarrow> json_has names (JArr xs) v"

inductive_simps json_has_simps [simp]:
  "json_has names JNull v"
  "json_has names (JBool b) v"
  "json_has names (JInt i) v"
  "json_has names (JFloat s) v"
  "json_has names (JStr s) v"
  "json_has names (JArr xs) v"
  "json_has names (JObj kvs) v"

lemma find_json_all:
  "v \<in> set (find_json names j) \<longleftrightarrow> json_has names j v"
  "v \<in> set (find_json_list names js) \<longleftrightarrow> json_has names (JArr js) v"
  "v \<in> set (find_json_pairs names kvs) \<longleftrightarrow> json_has names (JObj kvs) v"
  by (induction names j and names js and names kvs
      rule: find_json_find_json_list_find_json_pairs.induct) auto

text \<open>
  the response search finds exactly the values that stand under one of the names, at any depth of
  objects and arrays: it misses none and invents none.
\<close>

theorem find_json_correct: "set (find_json names j) = {v. json_has names j v}"
  by (auto simp: find_json_all)

text \<open>
  Paging covers the declared total exactly. After the first page of a partition that declares
  \<open>t > 0\<close> rows in pages of \<open>s\<close>, an uncapped run asks for the pages \<open>base, base + 1, \<dots>\<close> in order, each
  once, and for as few pages as hold \<open>t\<close> rows.
\<close>

theorem declared_pages_cover:
  assumes "dt_remaining_requests c r m None = Inr rs"
    and "rq_page_number r = Some (pg_page_base (dt_pagination c))"
    and "pm_total_count m = Some t" and "0 < t" and "pm_page_size m = Some s"
  shows "\<exists>n \<ge> 1. map rq_page_number (r # rs)
             = map Some [pg_page_base (dt_pagination c) .. pg_page_base (dt_pagination c) + n - 1]
           \<and> (n - 1) * s < t \<and> t \<le> n * s"
  using assms(1)
proof (rule dt_remaining_cases)
  assume "rs = []"
  then have "dt_page_count t s None \<le> 1" and s: "1 \<le> s"
    using assms by (auto simp: dt_remaining_requests_def Let_def contract_error_def
        split: if_splits)
  then have "ceil_div t s = 1"
    using ceil_div_pos [of s t] assms(4) by (simp add: dt_page_count_def)
  then show ?thesis
    using ceil_div_bounds [of s t] s assms(2) \<open>rs = []\<close> by (intro exI [of _ 1]) auto
next
  fix tot sz
  let ?b = "pg_page_base (dt_pagination c)"
  assume m: "pm_total_count m = Some tot" "pm_page_size m = Some sz" "1 \<le> sz"
    and rs: "rs = map (dt_request c (rq_partition_id r)
              (without_paging (dt_pagination c) (rq_params r)))
              [?b + 1 .. ?b + dt_page_count tot sz None - 1]"
  have eq: "tot = t" "sz = s" using m assms by auto
  let ?n = "ceil_div t s"
  have n: "1 \<le> ?n" using ceil_div_pos [of s t] assms(4) m eq by simp
  have count: "dt_page_count tot sz None = ?n" using n eq by (simp add: dt_page_count_def)
  have "map rq_page_number (r # rs) = Some ?b # map Some [?b + 1 .. ?b + ?n - 1]"
    using assms(2) by (simp add: rs count)
  also have "\<dots> = map Some [?b .. ?b + ?n - 1]"
    using n by (simp add: upto_rec1 [of ?b])
  finally show ?thesis
    using ceil_div_bounds [of s t] n m eq by auto
qed (use assms in auto)

definition ncs_example :: declared_total where
  "ncs_example =
     \<lparr>dt_source_id = u ''ncs_competency'', dt_display_name = u ''NCS'',
      dt_endpoint = u ''https://c.q-net.or.kr/openapi'', dt_allowed_hosts = [u ''c.q-net.or.kr''],
      dt_partitions = [(u ''all'', [(u ''serviceKey'', u ''k''), (u ''type'', u ''json'')])],
      dt_secret_param_names = [u ''serviceKey''],
      dt_pagination = \<lparr>pg_page_param = u ''pageNo'', pg_size_param = u ''numOfRows'',
        pg_page_base = 1, pg_page_size = 1000, pg_max_page_number = None\<rparr>,
      dt_accepted_success_codes = default_api_success_codes\<rparr>"

definition page_of :: "int \<Rightarrow> int \<Rightarrow> page_metadata" where
  "page_of t s = \<lparr>pm_total_count = Some t, pm_page_number = Some 1, pm_page_size = Some s,
     pm_discovered_record_ids = []\<rparr>"

definition first_request :: "declared_total \<Rightarrow> request_spec" where
  "first_request c = hd (dt_initial_requests c)"

lemma first_request_simps [simp]:
  "rq_page_number (first_request ncs_example) = Some 1"
  "rq_response_ordinal (first_request ncs_example) = 0"
  "rq_partition_id (first_request ncs_example) = u ''all''"
  "pg_page_base (dt_pagination ncs_example) = 1"
  "pg_max_page_number (dt_pagination ncs_example) = None"
  "pm_total_count (page_of t s) = Some t" "pm_page_size (page_of t s) = Some s"
  by (simp_all add: first_request_def ncs_example_def dt_initial_requests_def page_of_def)

lemma ncs_example_pages:
  "dt_remaining_requests ncs_example (first_request ncs_example) (page_of 2500 1000) None =
     Inr (map (dt_request ncs_example (u ''all'')
                (without_paging (dt_pagination ncs_example) (rq_params (first_request ncs_example))))
            [2, 3])"
proof -
  have "dt_page_count 2500 1000 None = 3" by (simp add: dt_page_count_def ceil_div_def)
  moreover have "[2 .. 3] = [2, 3 :: int]" by (simp add: upto.simps)
  ultimately show ?thesis by (simp add: dt_remaining_requests_def Let_def)
qed

theorem declared_pages_cover_witness:
  "\<exists>rs n. dt_remaining_requests ncs_example (first_request ncs_example) (page_of 2500 1000) None
      = Inr rs
    \<and> map rq_page_number (first_request ncs_example # rs) = map Some [1 .. 1 + n - 1]
    \<and> (n - 1) * 1000 < 2500 \<and> 2500 \<le> n * 1000"
proof -
  let ?rs = "map (dt_request ncs_example (u ''all'')
                (without_paging (dt_pagination ncs_example) (rq_params (first_request ncs_example))))
            [2, 3]"
  have "\<exists>n \<ge> 1. map rq_page_number (first_request ncs_example # ?rs) = map Some [1 .. 1 + n - 1]
          \<and> (n - 1) * 1000 < 2500 \<and> 2500 \<le> n * 1000"
    by (rule declared_pages_cover [OF ncs_example_pages, unfolded first_request_simps(4)]) simp_all
  then show ?thesis using ncs_example_pages by blast
qed

text \<open>
  No request passes the provider's page ceiling, and a cap on the pages of a run is kept: a
  partition never gets more requests than the cap.
\<close>

theorem declared_pages_bounded:
  assumes "dt_remaining_requests c r m k = Inr rs" and "q \<in> set rs"
  shows "(\<forall>mx n. pg_max_page_number (dt_pagination c) = Some mx
            \<longrightarrow> pm_total_count m \<noteq> Some 0 \<longrightarrow> rq_page_number q = Some n \<longrightarrow> n \<le> mx)
       \<and> (\<forall>cap. k = Some cap \<longrightarrow> 1 \<le> cap \<longrightarrow> pm_total_count m \<noteq> Some 0
            \<longrightarrow> int (length (r # rs)) \<le> cap)"
  using assms(1)
proof (rule dt_remaining_cases)
  fix tot sz
  assume tot: "pm_total_count m = Some tot" "tot \<noteq> 0"
    and mx: "\<And>mx. pg_max_page_number (dt_pagination c) = Some mx
       \<Longrightarrow> pg_page_base (dt_pagination c) + dt_page_count tot sz k - 1 \<le> mx"
    and rs: "rs = map (dt_request c (rq_partition_id r)
              (without_paging (dt_pagination c) (rq_params r)))
            [pg_page_base (dt_pagination c) + 1 ..
             pg_page_base (dt_pagination c) + dt_page_count tot sz k - 1]"
  have "dt_page_count tot sz (Some cap) \<le> cap" for cap by (simp add: dt_page_count_def Let_def)
  moreover have "int (length (r # rs)) \<le> max 1 (dt_page_count tot sz k)"
    by (simp add: rs)
  ultimately have cap: "k = Some cap \<Longrightarrow> 1 \<le> cap \<Longrightarrow> int (length (r # rs)) \<le> cap" for cap
    by (smt (verit))
  have "n \<le> mx" if "pg_max_page_number (dt_pagination c) = Some mx" "rq_page_number q = Some n" for mx n
    using mx [OF that(1)] that(2) assms(2) by (auto simp: rs)
  with cap show ?thesis by blast
qed (use assms(2) in auto)

lemma page_count_capped: "dt_page_count 2500 1000 (Some 2) = 2"
  by (simp add: dt_page_count_def ceil_div_def)

theorem declared_pages_bounded_witness:
  "\<exists>rs q. dt_remaining_requests ncs_example (first_request ncs_example) (page_of 2500 1000) (Some 2)
      = Inr rs \<and> q \<in> set rs \<and> int (length (first_request ncs_example # rs)) \<le> 2"
proof -
  obtain q where "dt_remaining_requests ncs_example (first_request ncs_example) (page_of 2500 1000)
      (Some 2) = Inr [q]"
    by (simp add: dt_remaining_requests_def page_count_capped)
  from declared_pages_bounded [OF this, of q] this show ?thesis by auto
qed

text \<open>
  a further page of a partition asks the same question. It has the partition and address of the
  first request and every parameter of it but the page number, which is its own.
\<close>

theorem declared_pages_same_query:
  assumes "dt_remaining_requests c r m k = Inr rs" and "q \<in> set rs"
    and "pm_total_count m \<noteq> Some 0"
    and "pg_page_param (dt_pagination c) \<noteq> pg_size_param (dt_pagination c)"
  shows "rq_partition_id q = rq_partition_id r \<and> rq_url q = dt_endpoint c
       \<and> (\<forall>name. name \<notin> {pg_page_param (dt_pagination c), pg_size_param (dt_pagination c)}
            \<longrightarrow> map_of (rq_params q) name = map_of (rq_params r) name)
       \<and> map_of (rq_params q) (pg_page_param (dt_pagination c))
           = map_option int_str (rq_page_number q)"
  using assms(1)
proof (rule dt_remaining_cases)
  fix tot sz
  assume rs: "rs = map (dt_request c (rq_partition_id r)
              (without_paging (dt_pagination c) (rq_params r)))
            [pg_page_base (dt_pagination c) + 1 ..
             pg_page_base (dt_pagination c) + dt_page_count tot sz k - 1]"
  then obtain n where q: "q = dt_request c (rq_partition_id r)
      (without_paging (dt_pagination c) (rq_params r)) n"
    using assms(2) by auto
  have keep: "map_of (without_paging pg ps) name = map_of ps name"
    if "name \<notin> {pg_page_param pg, pg_size_param pg}" for pg ps name
    using that by (induction ps) (auto simp: without_paging_def)
  show ?thesis
    using keep assms(4) by (auto simp: q dt_request_def update_conv')
qed (use assms in auto)

theorem declared_pages_same_query_witness:
  "\<exists>q rs. dt_remaining_requests ncs_example (first_request ncs_example) (page_of 2500 1000) None
      = Inr (q # rs)
    \<and> map_of (rq_params q) (u ''pageNo'') = Some (int_str 2)
    \<and> map_of (rq_params q) (u ''type'') = map_of (rq_params (first_request ncs_example)) (u ''type'')"
proof -
  obtain q rs where eq: "dt_remaining_requests ncs_example (first_request ncs_example)
      (page_of 2500 1000) None = Inr (q # rs)" and q: "rq_page_number q = Some 2"
    using ncs_example_pages by auto
  have names: "pg_page_param (dt_pagination ncs_example) = u ''pageNo''"
    "pg_size_param (dt_pagination ncs_example) = u ''numOfRows''"
    by (simp_all add: ncs_example_def)
  show ?thesis
    using declared_pages_same_query [OF eq, of q] eq q by (auto simp: names)
qed

lemma map_filter_details:
  "filter (\<lambda>q. starts_with (u ''detail-'') (rq_partition_id q)) (map (ja_detail_request c) ids)
     = map (ja_detail_request c) ids"
  "filter (\<lambda>q. starts_with (u ''detail-'') (rq_partition_id q)) (map (ja_index_request ps) ns) = []"
  by (induction ids) (auto simp: filter_empty_conv)

lemma set_posting_identities:
  "set (posting_identities P doc) =
     {s. s \<noteq> [] \<and> (\<exists>v \<in> set (find_values doc [u ''recrutPblntSn'']). s = strip (py_str P v))}"
  by (auto simp: posting_identities_def)

text \<open>
  Every posting listed on a JOB-ALIO index page is fetched in detail, once. The detail requests
  that an accepted index page leads to ask for exactly the distinct non-empty identities that
  stand in the response, and no detail request leads to another one.
\<close>

theorem alio_details_complete:
  assumes "ja_validate_response P r body ct = Inr m"
    and "\<not> starts_with (u ''detail-'') (rq_partition_id r)"
    and "parse_response_document P body ct = Inr doc"
    and "pm_total_count m \<noteq> Some 0"
    and "ja_remaining_requests c r m k = Inr rs"
  shows "\<exists>ids. distinct ids
       \<and> set ids = {s. s \<noteq> [] \<and> (\<exists>v \<in> set (find_values doc [u ''recrutPblntSn'']). s = strip (py_str P v))}
       \<and> filter (\<lambda>q. starts_with (u ''detail-'') (rq_partition_id q)) rs = map (ja_detail_request c) ids
       \<and> ids \<noteq> []"
proof -
  have ids: "pm_discovered_record_ids m = posting_identities P doc"
    and tot: "\<exists>t \<ge> 0. pm_total_count m = Some t \<and> (t > 0 \<longrightarrow> posting_identities P doc \<noteq> [])"
    using assms(1-3)
    by (auto simp: ja_validate_response_def rbind_Inr_iff Let_def contract_error_def
        split: if_splits option.splits)
  have "filter (\<lambda>q. starts_with (u ''detail-'') (rq_partition_id q)) rs
          = map (ja_detail_request c) (pm_discovered_record_ids m)"
    using assms(2,4,5)
    by (auto simp: ja_remaining_requests_def Let_def map_filter_details)
  moreover have "posting_identities P doc \<noteq> []"
    using tot assms(4) by force
  ultimately show ?thesis
    using ids set_posting_identities [of P doc]
    by (intro exI [of _ "posting_identities P doc"]) (simp add: posting_identities_def)
qed

text \<open>
  A detail response is accepted only if it is about the posting that was asked for: the requested
  number is not blank, occurs in the response, and no other posting number does.
\<close>

theorem alio_detail_identity:
  assumes "ja_validate_response P r body ct = Inr m"
    and "starts_with (u ''detail-'') (rq_partition_id r)"
    and "parse_response_document P body ct = Inr doc"
  shows "\<exists>sn. map_of (rq_params r) (u ''sn'') = Some sn \<and> strip sn \<noteq> []
       \<and> (\<exists>v \<in> set (find_values doc [u ''recrutPblntSn'']). strip (py_str P v) = strip sn)
       \<and> (\<forall>v \<in> set (find_values doc [u ''recrutPblntSn'']). strip (py_str P v) \<in> {[], strip sn})"
proof -
  let ?sn = "case map_of (rq_params r) (u ''sn'') of None \<Rightarrow> [] | Some s \<Rightarrow> s"
  have sn: "strip ?sn \<noteq> []" and ids: "posting_identities P doc = [strip ?sn]"
    using assms
    by (auto simp: ja_validate_response_def rbind_Inr_iff Let_def contract_error_def
        split: if_splits)
  have "strip [] = []" by (simp add: strip_def lstrip_def)
  then obtain s where s: "map_of (rq_params r) (u ''sn'') = Some s"
    using sn by (cases "map_of (rq_params r) (u ''sn'')") auto
  have "{t. t \<noteq> [] \<and> (\<exists>v \<in> set (find_values doc [u ''recrutPblntSn'']). t = strip (py_str P v))}
          = {strip s}"
    using set_posting_identities [of P doc] ids s by simp
  then show ?thesis using s sn by (auto simp: set_eq_iff) (metis+)
qed

text \<open>A list page with one posting, and the detail of that posting.\<close>

definition alio_env :: pyenv where
  "alio_env = example_env\<lparr>json_loads := (\<lambda>_. Some (JObj
     [(u ''resultCode'', JInt 200), (u ''totalCount'', JInt 1),
      (u ''result'', JArr [JObj [(u ''recrutPblntSn'', JInt 7)]])]))\<rparr>"

definition alio_example :: job_alio where
  "alio_example = \<lparr>ja_service_key = u ''k'', ja_ongoing_only = True\<rparr>"

lemma alio_env_document:
  "parse_response_document alio_env [123] (u ''application/json'') =
     Inr (JsonDocument (JObj [(u ''resultCode'', JInt 200), (u ''totalCount'', JInt 1),
      (u ''result'', JArr [JObj [(u ''recrutPblntSn'', JInt 7)]])]))"
  by code_simp

lemma alio_env_index:
  "ja_validate_response alio_env (ja_index_request [] 1) [123] (u ''application/json'') =
     Inr \<lparr>pm_total_count = Some 1, pm_page_number = Some 1, pm_page_size = Some 100,
          pm_discovered_record_ids = [u ''7'']\<rparr>"
  by code_simp

lemma alio_env_detail:
  "ja_validate_response alio_env (ja_detail_request alio_example (u ''7'')) [123]
       (u ''application/json'') =
     Inr \<lparr>pm_total_count = Some 1, pm_page_number = None, pm_page_size = None,
          pm_discovered_record_ids = []\<rparr>"
  by code_simp

theorem alio_details_complete_witness:
  "\<exists>ids rs. ja_remaining_requests alio_example (ja_index_request [] 1)
      \<lparr>pm_total_count = Some 1, pm_page_number = Some 1, pm_page_size = Some 100,
       pm_discovered_record_ids = [u ''7'']\<rparr> None = Inr rs
    \<and> filter (\<lambda>q. starts_with (u ''detail-'') (rq_partition_id q)) rs
        = map (ja_detail_request alio_example) ids \<and> ids \<noteq> []"
proof -
  obtain rs where rs: "ja_remaining_requests alio_example (ja_index_request [] 1)
      \<lparr>pm_total_count = Some 1, pm_page_number = Some 1, pm_page_size = Some 100,
       pm_discovered_record_ids = [u ''7'']\<rparr> None = Inr rs"
    by (simp add: ja_remaining_requests_def Let_def)
  show ?thesis
    using alio_details_complete [OF alio_env_index _ alio_env_document _ rs] rs by auto
qed

theorem alio_detail_identity_witness:
  "\<exists>sn. map_of (rq_params (ja_detail_request alio_example (u ''7''))) (u ''sn'') = Some sn
     \<and> strip sn \<noteq> []"
  using alio_detail_identity [OF alio_env_detail _ alio_env_document] by auto

end
