(* ===== verification/PyDate.thy ===== *)
theory PyDate
  imports PyText
begin

text \<open>
  Calendar dates as \<open>datetime.date\<close>: the constructor that refuses impossible dates, the order, and
  the two text forms the program reads and writes.
\<close>

datatype date = Date (date_year: int) (date_month: int) (date_day: int)

definition leap_year :: "int \<Rightarrow> bool" where
  "leap_year y \<longleftrightarrow> y mod 4 = 0 \<and> (y mod 100 \<noteq> 0 \<or> y mod 400 = 0)"

definition days_in_month :: "int \<Rightarrow> int \<Rightarrow> int" where
  "days_in_month y m =
     (if m = 2 then (if leap_year y then 29 else 28) else if m \<in> {4, 6, 9, 11} then 30 else 31)"

definition valid_date :: "int \<Rightarrow> int \<Rightarrow> int \<Rightarrow> bool" where
  "valid_date y m d \<longleftrightarrow>
     1 \<le> y \<and> y \<le> 9999 \<and> 1 \<le> m \<and> m \<le> 12 \<and> 1 \<le> d \<and> d \<le> days_in_month y m"

text \<open>\<open>date(y, m, d)\<close>; \<open>None\<close> is \<open>ValueError\<close>.\<close>

definition make_date :: "int \<Rightarrow> int \<Rightarrow> int \<Rightarrow> date option" where
  "make_date y m d = (if valid_date y m d then Some (Date y m d) else None)"

instantiation date :: linorder
begin

definition less_eq_date :: "date \<Rightarrow> date \<Rightarrow> bool" where
  "less_eq_date a b \<longleftrightarrow>
     (date_year a, date_month a, date_day a) \<le> (date_year b, date_month b, date_day b)"

definition less_date :: "date \<Rightarrow> date \<Rightarrow> bool" where
  "less_date a b \<longleftrightarrow>
     (date_year a, date_month a, date_day a) < (date_year b, date_month b, date_day b)"

instance
proof (standard, goal_cases)
  case (4 x y)
  then show ?case by (cases x; cases y) (auto simp: less_eq_date_def split: if_splits)
qed (auto simp: less_eq_date_def less_date_def)

end

definition isoformat :: "date \<Rightarrow> ustr" where
  "isoformat a = zfill 4 (int_str (date_year a)) @ u ''-'' @ zfill 2 (int_str (date_month a))
     @ u ''-'' @ zfill 2 (int_str (date_day a))"

definition ascii_digits :: "ustr \<Rightarrow> bool" where
  "ascii_digits s \<longleftrightarrow> list_all (\<lambda>c. 48 \<le> c \<and> c \<le> 57) s"

text \<open>\<open>date.fromisoformat(f"{v[:4]}-{v[4:6]}-{v[6:8]}")\<close> of an eight-character text.\<close>

definition date_from_compact :: "ustr \<Rightarrow> date option" where
  "date_from_compact v =
     (if ascii_digits v
      then make_date (int (decimal_to_nat (slice 0 4 v))) (int (decimal_to_nat (slice 4 6 v)))
             (int (decimal_to_nat (slice 6 8 v)))
      else None)"

lemma make_date_Some_iff: "make_date y m d = Some a \<longleftrightarrow> valid_date y m d \<and> a = Date y m d"
  by (auto simp: make_date_def)

lemma less_eq_Date [simp]:
  "Date a b c \<le> Date x y z \<longleftrightarrow> (a, b, c) \<le> (x, y, z)"
  "Date a b c < Date x y z \<longleftrightarrow> (a, b, c) < (x, y, z)"
  by (simp_all add: less_eq_date_def less_date_def)

end
