(* ===== verification/Rights.thy ===== *)
theory Rights
  imports FetchTypes PyDate
begin

text \<open>
  \<open>rights.py\<close>: the registry of source rights policies, its validators, and the activation check
  that every fetch and every processing run must pass. The eight sources, the five content kinds
  and the eight permissions are enumerations, so that a model class with one field per name is a
  function on the names.
\<close>

datatype source_id =
    Ncs_competency | Ncs_qualification | Qnet_schedule | Ncs_career_path
  | Job_alio | Alio_organization | Saramin | Work24_training

fun source_name :: "source_id \<Rightarrow> ustr" where
  "source_name Ncs_competency = u ''ncs_competency''"
| "source_name Ncs_qualification = u ''ncs_qualification''"
| "source_name Qnet_schedule = u ''qnet_schedule''"
| "source_name Ncs_career_path = u ''ncs_career_path''"
| "source_name Job_alio = u ''job_alio''"
| "source_name Alio_organization = u ''alio_organization''"
| "source_name Saramin = u ''saramin''"
| "source_name Work24_training = u ''work24_training''"

definition source_id_order :: "source_id list" where
  "source_id_order = [Ncs_competency, Ncs_qualification, Qnet_schedule, Ncs_career_path, Job_alio,
     Alio_organization, Saramin, Work24_training]"

datatype content_kind =
  Api_json_body | Api_xml_body | File_body | Attachment_metadata | Attachment_bytes

fun content_kind_name :: "content_kind \<Rightarrow> ustr" where
  "content_kind_name Api_json_body = u ''api_json_body''"
| "content_kind_name Api_xml_body = u ''api_xml_body''"
| "content_kind_name File_body = u ''file_body''"
| "content_kind_name Attachment_metadata = u ''attachment_metadata''"
| "content_kind_name Attachment_bytes = u ''attachment_bytes''"

definition content_kind_order :: "content_kind list" where
  "content_kind_order =
     [Api_json_body, Api_xml_body, File_body, Attachment_metadata, Attachment_bytes]"

datatype permission_status = PERMITTED | PROHIBITED | UNKNOWN

datatype permission =
    Retrieval | Commercial_use | Derivative_use | Raw_retention | Normalized_fact_storage
  | Evidence_excerpt_storage_display | Model_processing | Redistribution

definition activation_permission_names :: "permission list" where
  "activation_permission_names =
     [Retrieval, Raw_retention, Normalized_fact_storage, Evidence_excerpt_storage_display,
      Model_processing]"

datatype activation_status = ALLOWED | BLOCKED

type_synonym content_scope = "content_kind \<Rightarrow> bool"
type_synonym rights_permissions = "permission \<Rightarrow> permission_status"

record source_rights_policy =
  rp_source_id :: source_id
  rp_policy_version :: int
  rp_source_owner :: ustr
  rp_dataset_id :: ustr
  rp_dataset_url :: ustr
  rp_license_code :: ustr
  rp_license_url :: ustr
  rp_observed_on :: date
  rp_rights_basis :: ustr
  rp_attribution_text :: ustr
  rp_required_source_link :: "ustr option"
  rp_content_scope :: content_scope
  rp_scope_note :: ustr
  rp_permissions :: rights_permissions
  rp_written_permission_required :: bool
  rp_written_permission_reference :: "ustr option"
  rp_deletion_correction_contact :: ustr
  rp_deletion_correction_procedure :: ustr
  rp_backup_retention_days :: int
  rp_activation_status :: activation_status
  rp_blocking_reason :: "ustr option"

section \<open>Validators\<close>

definition invalid :: "string \<Rightarrow> exn + 'a" where
  "invalid m = Inl (Exn ValidationError (u m))"

text \<open>\<open>NonEmptyStr\<close>: the text is stored stripped and is not empty.\<close>

definition non_empty_str :: "ustr \<Rightarrow> bool" where
  "non_empty_str s \<longleftrightarrow> s \<noteq> [] \<and> strip s = s"

text \<open>\<open>PolicyRevision\<close>: \<open>^\d{4}-\d{2}-\d{2}\.\d+$\<close>.\<close>

definition policy_revision_text :: "ustr \<Rightarrow> bool" where
  "policy_revision_text s \<longleftrightarrow>
     decimals 4 (slice 0 4 s) \<and> slice 4 5 s = u ''-'' \<and> decimals 2 (slice 5 7 s)
     \<and> slice 7 8 s = u ''-'' \<and> decimals 2 (slice 8 10 s) \<and> slice 10 11 s = u ''.''
     \<and> all_decimal (drop 11 s)"

definition require_covered_content :: "content_scope \<Rightarrow> exn + unit" where
  "require_covered_content scope =
     (if \<not> list_ex scope content_kind_order
      then invalid ''content_scope must include at least one content kind'' else Inr ())"

definition activation_blockers :: "rights_permissions \<Rightarrow> permission list" where
  "activation_blockers permissions =
     filter (\<lambda>name. permissions name \<noteq> PERMITTED) activation_permission_names"

definition opt_all :: "('a \<Rightarrow> bool) \<Rightarrow> 'a option \<Rightarrow> bool" where
  "opt_all p x = (case x of None \<Rightarrow> True | Some y \<Rightarrow> p y)"

definition policy_fields :: "source_rights_policy \<Rightarrow> bool" where
  "policy_fields p \<longleftrightarrow>
     1 \<le> rp_policy_version p \<and> 0 \<le> rp_backup_retention_days p
     \<and> list_all non_empty_str
         [rp_source_owner p, rp_dataset_id p, rp_license_code p, rp_rights_basis p,
          rp_attribution_text p, rp_scope_note p, rp_deletion_correction_contact p,
          rp_deletion_correction_procedure p]
     \<and> opt_all non_empty_str (rp_written_permission_reference p)
     \<and> opt_all non_empty_str (rp_blocking_reason p)"

definition validate_activation_status :: "source_rights_policy \<Rightarrow> exn + unit" where
  "validate_activation_status p =
     (let blockers = activation_blockers (rp_permissions p);
          expected_status = (if blockers \<noteq> [] then BLOCKED else ALLOWED);
          status = rp_activation_status p
      in if status \<noteq> expected_status then invalid ''activation_status must match permissions''
         else if status = BLOCKED \<and> rp_blocking_reason p = None
         then invalid ''a blocked source requires blocking_reason''
         else if status = ALLOWED \<and> rp_blocking_reason p \<noteq> None
         then invalid ''an allowed source cannot have blocking_reason''
         else if rp_permissions p Raw_retention = PERMITTED \<and> rp_backup_retention_days p < 1
         then invalid ''permitted raw retention requires positive backup_retention_days''
         else if rp_permissions p Raw_retention \<noteq> PERMITTED \<and> rp_backup_retention_days p \<noteq> 0
         then invalid ''backup_retention_days must be zero unless raw retention is permitted''
         else if status = ALLOWED \<and> rp_written_permission_required p
              \<and> rp_written_permission_reference p = None
         then invalid ''allowed source requiring written permission needs its reference''
         else Inr ())"

definition validate_policy :: "source_rights_policy \<Rightarrow> exn + unit" where
  "validate_policy p =
     rbind (require_covered_content (rp_content_scope p)) (\<lambda>_.
     rbind (ensure (policy_fields p) (Exn ValidationError (u ''policy fields''))) (\<lambda>_.
       validate_activation_status p))"

type_synonym source_policies = "source_id \<Rightarrow> source_rights_policy"

definition validate_source_keys :: "source_policies \<Rightarrow> exn + unit" where
  "validate_source_keys policies =
     (let job_scope = rp_content_scope (policies Job_alio) in
      if \<not> list_all (\<lambda>i. rp_source_id (policies i) = i) source_id_order
      then invalid ''source policy key does not match''
      else if \<not> (job_scope Api_json_body \<and> job_scope Attachment_metadata
                 \<and> \<not> job_scope Api_xml_body \<and> \<not> job_scope File_body
                 \<and> \<not> job_scope Attachment_bytes)
      then invalid ''job_alio must cover only API JSON and attachment metadata''
      else Inr ())"

record source_rights_registry =
  rg_policy_revision :: ustr
  rg_reviewed_on :: date
  rg_sources :: source_policies

definition validate_registry_dates :: "source_rights_registry \<Rightarrow> exn + unit" where
  "validate_registry_dates r =
     (if \<not> starts_with (isoformat (rg_reviewed_on r) @ u ''.'') (rg_policy_revision r)
      then invalid ''policy_revision date must match reviewed_on''
      else if \<not> list_all (\<lambda>i. rp_observed_on (rg_sources r i) \<le> rg_reviewed_on r) source_id_order
      then invalid ''observed_on cannot follow registry reviewed_on''
      else Inr ())"

text \<open>
  \<open>SourceRightsRegistry.model_validate\<close> on a document whose fields have their types: the nested
  models in field order, then the registry itself. \<open>schema_version\<close> has the single value 1.
\<close>

definition validate_registry :: "source_rights_registry \<Rightarrow> exn + unit" where
  "validate_registry r =
     rbind (ensure (policy_revision_text (rg_policy_revision r))
              (Exn ValidationError (u ''policy_revision''))) (\<lambda>_.
     rbind (rall (\<lambda>i. validate_policy (rg_sources r i)) source_id_order) (\<lambda>_.
     rbind (validate_source_keys (rg_sources r)) (\<lambda>_.
       validate_registry_dates r)))"

section \<open>The activation check\<close>

record source_activation_check =
  ac_source_id :: source_id
  ac_status :: activation_status
  ac_allowed :: bool
  ac_policy_version :: int
  ac_registry_revision :: ustr
  ac_policy_hash :: ustr
  ac_requested_content :: "content_kind list"
  ac_out_of_scope_content :: "content_kind list"
  ac_blocking_permissions :: "permission list"
  ac_reason :: "ustr option"

text \<open>Construction of the result validates it; \<open>reason\<close> is stored stripped.\<close>

definition validate_check :: "source_activation_check \<Rightarrow> exn + source_activation_check" where
  "validate_check c0 =
     (let c = c0\<lparr>ac_reason := map_option strip (ac_reason c0)\<rparr> in
      if \<not> (1 \<le> ac_policy_version c \<and> policy_revision_text (ac_registry_revision c)
            \<and> is_sha256 (ac_policy_hash c) \<and> opt_all (\<lambda>s. s \<noteq> []) (ac_reason c))
      then invalid ''activation check fields''
      else if ac_allowed c \<noteq> (ac_status c = ALLOWED)
      then invalid ''allowed must agree with status''
      else if ac_allowed c \<and> (ac_out_of_scope_content c \<noteq> [] \<or> ac_blocking_permissions c \<noteq> []
              \<or> ac_reason c \<noteq> None)
      then invalid ''an allowed activation check cannot contain blockers''
      else if \<not> ac_allowed c \<and> ac_reason c = None
      then invalid ''a blocked activation check requires a reason''
      else Inr c)"

definition status_name :: "permission_status \<Rightarrow> ustr" where
  "status_name s = (case s of PERMITTED \<Rightarrow> u ''PERMITTED'' | PROHIBITED \<Rightarrow> u ''PROHIBITED''
     | UNKNOWN \<Rightarrow> u ''UNKNOWN'')"

definition opt_json :: "ustr option \<Rightarrow> json" where
  "opt_json s = (case s of None \<Rightarrow> JNull | Some t \<Rightarrow> JStr t)"

definition policy_json :: "source_rights_policy \<Rightarrow> json" where
  "policy_json p = JObj
     [(u ''source_id'', JStr (source_name (rp_source_id p))),
      (u ''policy_version'', JInt (rp_policy_version p)),
      (u ''source_owner'', JStr (rp_source_owner p)),
      (u ''dataset_id'', JStr (rp_dataset_id p)),
      (u ''dataset_url'', JStr (rp_dataset_url p)),
      (u ''license_code'', JStr (rp_license_code p)),
      (u ''license_url'', JStr (rp_license_url p)),
      (u ''observed_on'', JStr (isoformat (rp_observed_on p))),
      (u ''rights_basis'', JStr (rp_rights_basis p)),
      (u ''attribution_text'', JStr (rp_attribution_text p)),
      (u ''required_source_link'', opt_json (rp_required_source_link p)),
      (u ''content_scope'', JObj (map (\<lambda>k. (content_kind_name k, JBool (rp_content_scope p k)))
          content_kind_order)),
      (u ''scope_note'', JStr (rp_scope_note p)),
      (u ''permissions'', JObj (map (\<lambda>(n, q). (u n, JStr (status_name (rp_permissions p q))))
          [(''retrieval'', Retrieval), (''commercial_use'', Commercial_use),
           (''derivative_use'', Derivative_use), (''raw_retention'', Raw_retention),
           (''normalized_fact_storage'', Normalized_fact_storage),
           (''evidence_excerpt_storage_display'', Evidence_excerpt_storage_display),
           (''model_processing'', Model_processing), (''redistribution'', Redistribution)])),
      (u ''written_permission_required'', JBool (rp_written_permission_required p)),
      (u ''written_permission_reference'', opt_json (rp_written_permission_reference p)),
      (u ''deletion_correction_contact'', JStr (rp_deletion_correction_contact p)),
      (u ''deletion_correction_procedure'', JStr (rp_deletion_correction_procedure p)),
      (u ''backup_retention_days'', JInt (rp_backup_retention_days p)),
      (u ''activation_status'',
         JStr (case rp_activation_status p of ALLOWED \<Rightarrow> u ''ALLOWED'' | BLOCKED \<Rightarrow> u ''BLOCKED'')),
      (u ''blocking_reason'', opt_json (rp_blocking_reason p))]"

definition policy_hash :: "pyenv \<Rightarrow> source_rights_registry \<Rightarrow> ustr" where
  "policy_hash P r = digest P (JObj
     [(u ''schema_version'', JInt 1),
      (u ''policy_revision'', JStr (rg_policy_revision r)),
      (u ''reviewed_on'', JStr (isoformat (rg_reviewed_on r))),
      (u ''sources'', JObj (map (\<lambda>i. (source_name i, policy_json (rg_sources r i))) source_id_order))])"

definition parse_source_id :: "ustr \<Rightarrow> exn + source_id" where
  "parse_source_id v =
     (case find (\<lambda>i. source_name i = v) source_id_order of
        None \<Rightarrow> Inl (Exn UnknownSourceRightsError (u ''no rights policy for source''))
      | Some i \<Rightarrow> Inr i)"

definition parse_content_kinds :: "ustr list \<Rightarrow> exn + content_kind list" where
  "parse_content_kinds candidates =
     (if list_ex (\<lambda>c. c \<notin> set (map content_kind_name content_kind_order)) candidates
      then Inl (Exn ValueError (u ''unknown content kinds''))
      else Inr (filter (\<lambda>k. content_kind_name k \<in> set candidates) content_kind_order))"

definition check_activation ::
    "pyenv \<Rightarrow> source_rights_registry \<Rightarrow> ustr \<Rightarrow> ustr list \<Rightarrow> exn + source_activation_check" where
  "check_activation P r source required_content =
     rbind (parse_source_id source) (\<lambda>i.
     rbind (parse_content_kinds required_content) (\<lambda>requested.
       let policy = rg_sources r i;
           blocking = activation_blockers (rp_permissions policy);
           out_of_scope = filter (\<lambda>k. \<not> rp_content_scope policy k) requested;
           allowed = (rp_activation_status policy = ALLOWED \<and> out_of_scope = []);
           reasons =
             (case rp_blocking_reason policy of None \<Rightarrow> [] | Some s \<Rightarrow> [s])
             @ (if out_of_scope \<noteq> []
                then [u ''content outside policy scope: ''
                      @ join_str (u '', '') (map content_kind_name out_of_scope)]
                else []);
           joined = join_str (u ''; '') reasons
       in validate_check
            \<lparr>ac_source_id = i,
             ac_status = (if allowed then ALLOWED else BLOCKED),
             ac_allowed = allowed,
             ac_policy_version = rp_policy_version policy,
             ac_registry_revision = rg_policy_revision r,
             ac_policy_hash = policy_hash P r,
             ac_requested_content = requested,
             ac_out_of_scope_content = out_of_scope,
             ac_blocking_permissions = blocking,
             ac_reason = (if joined = [] then None else Some joined)\<rparr>))"

definition require_activation ::
    "pyenv \<Rightarrow> source_rights_registry \<Rightarrow> ustr \<Rightarrow> ustr list \<Rightarrow> exn + source_activation_check" where
  "require_activation P r source required_content =
     rbind (check_activation P r source required_content) (\<lambda>check.
       if \<not> ac_allowed check then Inl (Exn SourceRightsBlockedError (u ''blocked'')) else Inr check)"


section \<open>What the check decides\<close>

lemma is_space_ascii: "c \<in> {33..126} \<Longrightarrow> \<not> is_space c"
  by (auto simp: is_space_def space_chars_def)

lemma strip_Nil_iff: "strip s = [] \<longleftrightarrow> (\<forall>c \<in> set s. is_space c)"
proof -
  have "dropWhile is_space t = [] \<longleftrightarrow> (\<forall>c \<in> set t. is_space c)" for t
    by (induction t) auto
  then have drop: "dropWhile is_space (rev t) = [] \<longleftrightarrow> (\<forall>c \<in> set t. is_space c)" for t by simp
  have sub: "set (dropWhile is_space s) \<subseteq> set s" by (meson set_dropWhileD subsetI)
  have "(\<forall>c \<in> set (dropWhile is_space s). is_space c) \<longleftrightarrow> (\<forall>c \<in> set s. is_space c)"
    by (induction s) auto
  then show ?thesis by (simp add: strip_def lstrip_def drop)
qed

lemma in_set_join_str: "x \<in> set s \<Longrightarrow> s \<in> set ss \<Longrightarrow> x \<in> set (join_str sep ss)"
  by (induction sep ss rule: join_str.induct) auto

lemma scope_reason_visible: "\<not> (\<forall>c \<in> set (u ''content outside policy scope: '' @ t). is_space c)"
proof -
  have "99 \<in> set (u ''content outside policy scope: '' @ t)" by (simp add: u_def)
  moreover have "\<not> is_space 99" by (rule is_space_ascii) simp
  ultimately show ?thesis by blast
qed

lemma non_empty_visible: "non_empty_str s \<Longrightarrow> \<exists>c \<in> set s. \<not> is_space c"
  using strip_Nil_iff [of s] by (auto simp: non_empty_str_def)

lemma activation_blockers_Nil:
  "activation_blockers q = [] \<longleftrightarrow> (\<forall>n \<in> set activation_permission_names. q n = PERMITTED)"
  by (auto simp: activation_blockers_def filter_empty_conv)

lemma source_order_all: "i \<in> set source_id_order"
  by (cases i) (simp_all add: source_id_order_def)

lemma valid_registry_parts:
  assumes "validate_registry r = Inr ()"
  shows "policy_revision_text (rg_policy_revision r)" and "validate_policy (rg_sources r i) = Inr ()"
    and "validate_source_keys (rg_sources r) = Inr ()" and "validate_registry_dates r = Inr ()"
  using assms source_order_all by (auto simp: validate_registry_def result_simps)

lemma valid_policy_status:
  assumes "validate_policy p = Inr ()"
  shows "(rp_activation_status p = ALLOWED) = (activation_blockers (rp_permissions p) = [])"
    and "(rp_blocking_reason p = None) = (rp_activation_status p = ALLOWED)"
    and "1 \<le> rp_policy_version p"
    and "rp_blocking_reason p = Some s \<Longrightarrow> non_empty_str s"
    and "rp_activation_status p = ALLOWED \<Longrightarrow> rp_written_permission_required p \<Longrightarrow>
         rp_written_permission_reference p \<noteq> None"
    and "0 < rp_backup_retention_days p \<longleftrightarrow> rp_permissions p Raw_retention = PERMITTED"
  using assms
  by (auto simp: validate_policy_def validate_activation_status_def invalid_def policy_fields_def
      opt_all_def result_simps Let_def split: if_splits activation_status.splits)

lemma parse_source_id_name [simp]: "parse_source_id (source_name i) = Inr i"
  by (cases i) (simp_all add: parse_source_id_def source_id_order_def)

lemma content_kind_order_all: "k \<in> set content_kind_order"
  by (cases k) (simp_all add: content_kind_order_def)

lemma content_kind_name_inject: "content_kind_name a = content_kind_name b \<longleftrightarrow> a = b"
  by (cases a; cases b) simp_all

lemma parse_content_kinds_names:
  "parse_content_kinds (map content_kind_name ks) =
     Inr (filter (\<lambda>k. k \<in> set ks) content_kind_order)"
proof -
  have "\<not> list_ex (\<lambda>c. c \<notin> set (map content_kind_name content_kind_order)) (map content_kind_name ks)"
    using content_kind_order_all by (auto simp: list_ex_iff)
  moreover have "filter (\<lambda>k. content_kind_name k \<in> set (map content_kind_name ks)) content_kind_order
      = filter (\<lambda>k. k \<in> set ks) content_kind_order"
    by (rule filter_cong) (auto simp: content_kind_name_inject)
  ultimately show ?thesis by (simp only: parse_content_kinds_def if_False)
qed

lemma validate_check_allowed:
  "validate_check c = Inr c' \<Longrightarrow> ac_allowed c' = ac_allowed c \<and> ac_source_id c' = ac_source_id c
     \<and> ac_requested_content c' = ac_requested_content c \<and> ac_policy_hash c' = ac_policy_hash c
     \<and> ac_policy_version c' = ac_policy_version c"
  by (auto simp: validate_check_def invalid_def Let_def split: if_splits)

lemma validate_check_total:
  assumes "1 \<le> ac_policy_version c" "policy_revision_text (ac_registry_revision c)"
    and "is_sha256 (ac_policy_hash c)" "ac_allowed c = (ac_status c = ALLOWED)"
    and "ac_allowed c \<Longrightarrow> ac_out_of_scope_content c = [] \<and> ac_blocking_permissions c = []
           \<and> ac_reason c = None"
    and "\<not> ac_allowed c \<Longrightarrow> \<exists>s. ac_reason c = Some s \<and> (\<exists>x \<in> set s. \<not> is_space x)"
  shows "\<exists>c'. validate_check c = Inr c'"
proof (cases "ac_allowed c")
  case True
  with assms(1-5) show ?thesis by (simp add: validate_check_def invalid_def opt_all_def)
next
  case False
  from assms(6) [OF this] obtain s where s: "ac_reason c = Some s" "strip s \<noteq> []"
    by (auto simp: strip_Nil_iff)
  with False assms(1-4) show ?thesis by (simp add: validate_check_def invalid_def opt_all_def)
qed


text \<open>
  no run that would keep attachment files of JOB-ALIO is ever activated: on a registry that
  loads, whatever permissions the policy grants, a request that includes attachment bytes is refused.
\<close>

theorem job_alio_attachments_refused:
  assumes "validate_registry r = Inr ()" and "u ''attachment_bytes'' \<in> set required"
  shows "\<not> isok (require_activation P r (u ''job_alio'') required)"
proof
  assume "isok (require_activation P r (u ''job_alio'') required)"
  then obtain c where c: "check_activation P r (u ''job_alio'') required = Inr c" "ac_allowed c"
    by (auto simp: isok_iff require_activation_def result_simps split: if_splits)
  have name: "u ''job_alio'' = source_name Job_alio" by simp
  from c(1) obtain requested where req: "parse_content_kinds required = Inr requested"
    by (auto simp: check_activation_def result_simps)
  have mem: "Attachment_bytes \<in> set requested"
    using req assms(2) content_kind_order_all by (auto simp: parse_content_kinds_def split: if_splits)
  have scope: "\<not> rp_content_scope (rg_sources r Job_alio) Attachment_bytes"
    using valid_registry_parts(3) [OF assms(1)]
    by (auto simp: validate_source_keys_def invalid_def Let_def split: if_splits)
  have "\<not> ac_allowed c"
    using c(1) mem scope unfolding check_activation_def name parse_source_id_name req rbind_simps Let_def
    by (auto dest!: validate_check_allowed simp: filter_empty_conv)
  with c(2) show False by simp
qed

section \<open>An example registry\<close>

definition example_policy :: "source_id \<Rightarrow> source_rights_policy" where
  "example_policy i =
     \<lparr>rp_source_id = i, rp_policy_version = 1, rp_source_owner = u ''owner'',
      rp_dataset_id = u ''dataset'', rp_dataset_url = u ''https://data.go.kr/'',
      rp_license_code = u ''KOGL-1'', rp_license_url = u ''https://kogl.or.kr/'',
      rp_observed_on = Date 2026 7 1, rp_rights_basis = u ''licence'',
      rp_attribution_text = u ''source'', rp_required_source_link = None,
      rp_content_scope = (\<lambda>k. k \<in> {Api_json_body, Attachment_metadata}),
      rp_scope_note = u ''API'',
      rp_permissions = (\<lambda>q. if i = Saramin \<and> q = Model_processing then UNKNOWN else PERMITTED),
      rp_written_permission_required = False, rp_written_permission_reference = None,
      rp_deletion_correction_contact = u ''contact'',
      rp_deletion_correction_procedure = u ''mail'', rp_backup_retention_days = 30,
      rp_activation_status = (if i = Saramin then BLOCKED else ALLOWED),
      rp_blocking_reason = (if i = Saramin then Some (u ''no licence'') else None)\<rparr>"

definition example_registry :: source_rights_registry where
  "example_registry = \<lparr>rg_policy_revision = u ''2026-07-10.1'', rg_reviewed_on = Date 2026 7 10,
     rg_sources = example_policy\<rparr>"

definition hash_env :: pyenv where
  "hash_env = example_env\<lparr>digest := (\<lambda>_. replicate 64 48)\<rparr>"

lemma example_policies_valid: "list_all (\<lambda>i. validate_policy (example_policy i) = Inr ()) source_id_order"
  by code_simp

lemma example_policy_valid: "validate_policy (example_policy i) = Inr ()"
  using example_policies_valid source_order_all by (simp add: list_all_iff)

lemma example_registry_dates: "validate_registry_dates example_registry = Inr ()"
  by code_simp

lemma example_registry_keys: "validate_source_keys (rg_sources example_registry) = Inr ()"
  by code_simp

lemma example_revision: "policy_revision_text (rg_policy_revision example_registry)"
  by code_simp

lemma example_registry_valid: "validate_registry example_registry = Inr ()"
  using example_policy_valid example_registry_dates example_registry_keys example_revision
  by (simp add: validate_registry_def result_simps example_registry_def)

lemma hash_env_sha256: "is_sha256 (policy_hash hash_env r)"
  by (simp add: is_sha256_def is_lower_hex_def policy_hash_def hash_env_def list_all_iff)


theorem job_alio_attachments_refused_witness:
  "\<not> isok (require_activation hash_env example_registry (u ''job_alio'')
       [u ''api_json_body'', u ''attachment_bytes''])"
  by (rule job_alio_attachments_refused [OF example_registry_valid]) simp

end
