(* ===== verification/RawStore.thy ===== *)
theory RawStore
  imports FetchTypes
begin

text \<open>
  \<open>storage/raw_files.py\<close>: the write-once, content-addressed store of response bytes. The file system
  under the root is a map from paths to contents. \<open>put\<close> writes a temporary file and links it into
  place; what another process does between the existence check and the link, and the system call
  that fails, if one does, are arguments. The lemmas show that no stored object is ever changed,
  that a returned object is readable with its digest and length, and that no temporary file stays.
\<close>

type_synonym files = "ustr \<Rightarrow> nat list option"

record disk_usage =
  du_total :: int
  du_used :: int
  du_free :: int

text \<open>
  The usage of the file system that holds the nearest existing ancestor of the root. The source
  compares the rounded quotient of two floats where the model compares rationals.
\<close>

definition ensure_capacity :: "disk_usage \<Rightarrow> int \<Rightarrow> int \<Rightarrow> rat \<Rightarrow> exn + unit" where
  "ensure_capacity usage incoming_limit_bytes min_free_bytes max_used_fraction =
     (let used_fraction =
            (if du_total usage \<noteq> 0 then of_int (du_used usage) / of_int (du_total usage) else 1)
      in if used_fraction \<ge> max_used_fraction
         then Inl (Exn RawStorageCapacityError
                (u ''Raw-store filesystem is above its usage threshold''))
         else if du_free usage - incoming_limit_bytes < min_free_bytes
         then Inl (Exn RawStorageCapacityError
                (u ''Raw-store filesystem is below its free-space reserve''))
         else Inr ())"

text \<open>The object path \<open>raw/sha256/ab/cd/abcd...\<close>, relative to the root.\<close>

definition object_path :: "ustr \<Rightarrow> ustr" where
  "object_path d = u ''raw/sha256/'' @ take 2 d @ u ''/'' @ slice 2 4 d @ u ''/'' @ d"

datatype io_step = MakeDirectory | MakeTemporary | WriteTemporary | LinkObject | SyncDirectory

record put_env =
  pe_temporary :: ustr
  pe_appeared :: "nat list option"
  pe_fault :: "io_step option"

definition os_error :: "exn + 'a" where
  "os_error = Inl (Exn OSError (u ''OSError''))"

definition verify_existing :: "pyenv \<Rightarrow> nat list \<Rightarrow> ustr \<Rightarrow> nat \<Rightarrow> exn + unit" where
  "verify_existing P content expected_digest expected_length =
     (if length content \<noteq> expected_length
      then Inl (Exn RawObjectIntegrityError (u ''Existing raw object has wrong length''))
      else if sha256 P content \<noteq> expected_digest
      then Inl (Exn RawObjectIntegrityError (u ''Existing raw object has wrong digest''))
      else Inr ())"

text \<open>
  The link step. If the object appeared in the meantime \<open>os.link\<close> raises \<open>FileExistsError\<close> and the
  object found there is verified; a link that fails otherwise propagates. The temporary file is
  removed on every way out.
\<close>

definition link_object ::
    "pyenv \<Rightarrow> put_env \<Rightarrow> ustr \<Rightarrow> ustr \<Rightarrow> nat list \<Rightarrow> (files, exn, unit) action" where
  "link_object P env target d content fs =
     (let fs1 = (case pe_appeared env of None \<Rightarrow> fs | Some c \<Rightarrow> fs(target \<mapsto> c));
          clean = (\<lambda>f. f(pe_temporary env := None))
      in if pe_fault env = Some LinkObject then (os_error, clean fs1)
         else case fs1 target of
           Some found \<Rightarrow> (verify_existing P found d (length content), clean fs1)
         | None \<Rightarrow> (Inr (), clean (fs1(target := fs1 (pe_temporary env)))))"

definition put :: "pyenv \<Rightarrow> put_env \<Rightarrow> nat list \<Rightarrow> (files, exn, stored_raw_object) action" where
  "put P env content fs =
     (let d = sha256 P content;
          relative = object_path d;
          stored = \<lparr>st_content_sha256 = d, st_byte_length = length content,
                    st_relative_path = relative\<rparr>
      in if pe_fault env = Some MakeDirectory then (os_error, fs)
         else case fs relative of
           Some existing \<Rightarrow>
             (rbind (verify_existing P existing d (length content)) (\<lambda>_. Inr stored), fs)
         | None \<Rightarrow>
             if pe_fault env = Some MakeTemporary then (os_error, fs)
             else
               let fs1 = fs(pe_temporary env \<mapsto> content)
               in if pe_fault env = Some WriteTemporary
                  then (os_error, fs1(pe_temporary env := None))
                  else (case link_object P env relative d content fs1 of
                     (Inl e, fs2) \<Rightarrow> (Inl e, fs2)
                   | (Inr _, fs2) \<Rightarrow>
                       if pe_fault env = Some SyncDirectory then (os_error, fs2)
                       else (Inr stored, fs2)))"

section \<open>The store is write-once and verified\<close>

text \<open>
  The temporary name is new and is not the object's own path, as \<open>mkstemp\<close> promises: it creates the
  file exclusively, under a name that starts with a dot.
\<close>

definition fresh_temporary :: "pyenv \<Rightarrow> put_env \<Rightarrow> nat list \<Rightarrow> files \<Rightarrow> bool" where
  "fresh_temporary P env content fs \<longleftrightarrow>
     fs (pe_temporary env) = None \<and> pe_temporary env \<noteq> object_path (sha256 P content)"

lemma verify_existing_Inr [result_simps]:
  "verify_existing P c d n = Inr x \<longleftrightarrow> length c = n \<and> sha256 P c = d"
  by (simp add: verify_existing_def)

lemma link_object_effect:
  assumes "fs target = None" and "fs (pe_temporary env) = None" and "pe_temporary env \<noteq> target"
  shows "link_object P env target d content (fs(pe_temporary env \<mapsto> content)) =
     (if pe_fault env = Some LinkObject then os_error
      else case pe_appeared env of None \<Rightarrow> Inr () | Some c \<Rightarrow> verify_existing P c d (length content),
      case pe_appeared env of
        None \<Rightarrow> if pe_fault env = Some LinkObject then fs else fs(target \<mapsto> content)
      | Some c \<Rightarrow> fs(target \<mapsto> c))"
  using assms by (cases "pe_appeared env") (simp_all add: link_object_def fun_eq_iff)

text \<open>The three outcomes for an object that is not there yet.\<close>

lemma put_new_effect:
  assumes "fs (object_path (sha256 P content)) = None" and "fresh_temporary P env content fs"
    and "put P env content fs = (r, fs')"
  obtains (unchanged) "fs' = fs" "\<not> isok r"
  | (stored) "pe_appeared env = None" "fs' = fs(object_path (sha256 P content) \<mapsto> content)"
  | (raced) c where "pe_appeared env = Some c" "fs' = fs(object_path (sha256 P content) \<mapsto> c)"
      "isok r \<Longrightarrow> length c = length content \<and> sha256 P c = sha256 P content"
proof -
  let ?t = "object_path (sha256 P content)"
  have tmp: "fs (pe_temporary env) = None" "pe_temporary env \<noteq> ?t"
    using assms(2) by (simp_all add: fresh_temporary_def)
  have clean: "fs(pe_temporary env := None) = fs" using tmp by auto
  show ?thesis
  proof (cases "pe_fault env \<in> {Some MakeDirectory, Some MakeTemporary, Some WriteTemporary}")
    case True
    with assms(1,3) clean have "fs' = fs" "\<not> isok r"
      by (auto simp: put_def os_error_def Let_def)
    then show ?thesis by (rule unchanged)
  next
    case False
    then have p: "put P env content fs =
        (case link_object P env ?t (sha256 P content) content (fs(pe_temporary env \<mapsto> content)) of
           (Inl e, fs2) \<Rightarrow> (Inl e, fs2)
         | (Inr _, fs2) \<Rightarrow> if pe_fault env = Some SyncDirectory then (os_error, fs2)
             else (Inr \<lparr>st_content_sha256 = sha256 P content, st_byte_length = length content,
                       st_relative_path = ?t\<rparr>, fs2))"
      using assms(1) by (simp add: put_def Let_def)
    show ?thesis
    proof (cases "pe_appeared env")
      case None
      then show ?thesis
        using assms(3) unchanged stored
        unfolding p link_object_effect [OF assms(1) tmp]
        by (auto simp: os_error_def split: if_splits)
    next
      case (Some c)
      have "isok r \<longrightarrow> length c = length content \<and> sha256 P c = sha256 P content"
        and "fs' = fs(?t \<mapsto> c)"
        using assms(3) Some
        unfolding p link_object_effect [OF assms(1) tmp]
        by (auto simp: os_error_def verify_existing_def split: if_splits)
      then show ?thesis using raced Some by blast
    qed
  qed
qed

lemma put_existing_effect:
  assumes "fs (object_path (sha256 P content)) = Some c" and "put P env content fs = (r, fs')"
  shows "fs' = fs \<and> (isok r \<longrightarrow> length c = length content \<and> sha256 P c = sha256 P content)"
  using assms
  by (auto simp: put_def os_error_def Let_def isok_iff rbind_Inr_iff verify_existing_Inr
      split: if_splits)

lemma put_result:
  assumes "put P env content fs = (Inr stored, fs')"
  shows "stored = \<lparr>st_content_sha256 = sha256 P content, st_byte_length = length content,
                  st_relative_path = object_path (sha256 P content)\<rparr>"
  using assms
  by (auto simp: put_def os_error_def Let_def rbind_Inr_iff
      split: if_splits option.splits sum.splits prod.splits)

text \<open>
  C3: a stored object can be read back. When \<open>put\<close> returns, whatever else happened in between, the
  path it reports holds bytes with the digest and the length of the content that was given, and with
  a digest that separates it from what is there, the content itself.
\<close>

theorem put_readable:
  assumes "put P env content fs = (Inr stored, fs')" and "fresh_temporary P env content fs"
  shows "\<exists>c. fs' (st_relative_path stored) = Some c
           \<and> sha256 P c = st_content_sha256 stored \<and> length c = st_byte_length stored
           \<and> st_content_sha256 stored = sha256 P content
           \<and> st_byte_length stored = length content
           \<and> ((\<forall>c'. sha256 P c' = sha256 P content \<longrightarrow> c' = content) \<longrightarrow> c = content)"
proof (cases "fs (object_path (sha256 P content))")
  case None
  from None assms(2,1) show ?thesis
    unfolding put_result [OF assms(1)] by (cases rule: put_new_effect) auto
next
  case (Some c)
  then show ?thesis
    using put_existing_effect [OF Some assms(1)] unfolding put_result [OF assms(1)] by auto
qed

text \<open>
  The store is write-once. A call of \<open>put\<close>, successful or not, keeps every file that was there,
  adds at most the object it was asked to store, and leaves no temporary file behind.
\<close>

theorem put_write_once:
  assumes "put P env content fs = (r, fs')" and "fresh_temporary P env content fs"
  shows "fs \<subseteq>\<^sub>m fs' \<and> dom fs' \<subseteq> insert (object_path (sha256 P content)) (dom fs)
       \<and> fs' (pe_temporary env) = None"
proof (cases "fs (object_path (sha256 P content))")
  case None
  from None assms(2,1) show ?thesis
  proof (cases rule: put_new_effect)
    case unchanged
    with assms(2) show ?thesis by (auto simp: fresh_temporary_def)
  next
    case stored
    with assms(2) None show ?thesis by (auto simp: map_le_def fresh_temporary_def)
  next
    case (raced c)
    with assms(2) None show ?thesis by (auto simp: map_le_def fresh_temporary_def)
  qed
next
  case (Some c)
  from put_existing_effect [OF Some assms(1)] assms(2) show ?thesis
    by (auto simp: fresh_temporary_def)
qed

definition race_env :: put_env where
  "race_env = \<lparr>pe_temporary = u ''.tmp'', pe_appeared = Some [1, 2, 3], pe_fault = None\<rparr>"

definition quiet_put_env :: put_env where
  "quiet_put_env = \<lparr>pe_temporary = u ''.tmp'', pe_appeared = None, pe_fault = None\<rparr>"

lemma race_env_fresh: "fresh_temporary example_env race_env [1, 2, 3] Map.empty"
  by (simp add: fresh_temporary_def race_env_def object_path_def u_def)

lemma race_env_put:
  "put example_env race_env [1, 2, 3] Map.empty
     = (Inr \<lparr>st_content_sha256 = [1, 2, 3], st_byte_length = 3,
             st_relative_path = object_path [1, 2, 3]\<rparr>,
        [object_path [1, 2, 3] \<mapsto> [1, 2, 3]])"
  by (auto simp: put_def link_object_def race_env_def example_env_def verify_existing_def Let_def
      object_path_def u_def)

theorem put_readable_witness:
  "\<exists>fs' stored c. put example_env race_env [1, 2, 3] Map.empty = (Inr stored, fs')
     \<and> fs' (st_relative_path stored) = Some c \<and> sha256 example_env c = st_content_sha256 stored"
  using put_readable [OF race_env_put race_env_fresh] race_env_put by blast

theorem put_write_once_witness:
  "\<exists>r fs'. put example_env race_env [1, 2, 3] Map.empty = (r, fs')
     \<and> dom fs' \<subseteq> {object_path [1, 2, 3]} \<and> fs' (u ''.tmp'') = None"
  using put_write_once [OF race_env_put race_env_fresh] race_env_put
  by (auto simp: example_env_def race_env_def)

end
