(* ===== verification/Ledger.thy ===== *)
theory Ledger
  imports Rights
begin

text \<open>
  \<open>storage/ledger.py\<close> over the tables of migrations 0001 to 0003: the fetch ledger in PostgreSQL and
  the one in memory. A table is the list of its rows; every method is one transaction, which either
  commits or raises and leaves the tables as they were. The checks, keys and lengths of the columns
  that the code can violate are the ones of the migrations.

  The locale \<open>attempt_log\<close> is the contract the fetch engine relies on; both ledgers provide it.
\<close>

section \<open>Tables\<close>

record connector_run_row =
  cr_run_id :: ustr
  cr_source_id :: ustr
  cr_connector_version :: ustr
  cr_mode :: run_mode
  cr_state :: run_state
  cr_stage :: ustr
  cr_started_at :: int
  cr_fetch_completed_at :: "int option"
  cr_completed_at :: "int option"
  cr_planned_request_count :: "int option"
  cr_successful_request_count :: "int option"
  cr_all_attempt_hash :: "ustr option"
  cr_selected_hash :: "ustr option"
  cr_error_code :: "ustr option"
  cr_rights_registry_revision :: ustr
  cr_rights_policy_version :: int
  cr_rights_policy_hash :: ustr

record connector_request_row =
  cq_partition_id :: ustr
  cq_page_number :: "int option"
  cq_request_url_redacted :: ustr
  cq_selected_observation_id :: "ustr option"

record fetch_tables =
  tb_connector_run :: "(ustr \<times> connector_run_row) list"
  tb_connector_request :: "((ustr \<times> ustr) \<times> connector_request_row) list"
  tb_source_snapshot :: "source_snapshot list"
  tb_fetch_observation :: "fetch_attempt list"

definition integrity_error :: exn where
  "integrity_error = Exn (OtherError (u ''IntegrityError'')) (u ''constraint'')"

definition data_error :: exn where
  "data_error = Exn (OtherError (u ''DataError'')) (u ''value'')"

text \<open>A value of \<open>String(n)\<close>; PostgreSQL text holds no NUL.\<close>

definition varchar :: "nat \<Rightarrow> ustr \<Rightarrow> bool" where
  "varchar n s \<longleftrightarrow> length s \<le> n \<and> 0 \<notin> set s"

definition pg_text :: "ustr \<Rightarrow> bool" where
  "pg_text s \<longleftrightarrow> 0 \<notin> set s"

definition pg_integer :: "int \<Rightarrow> bool" where
  "pg_integer i \<longleftrightarrow> - 2147483648 \<le> i \<and> i \<le> 2147483647"

definition pg_smallint :: "int \<Rightarrow> bool" where
  "pg_smallint i \<longleftrightarrow> - 32768 \<le> i \<and> i \<le> 32767"

text \<open>One database call: the time the code reads for it, and the fault that aborts it, if any.\<close>

record db_call =
  dc_now :: int
  dc_fault :: "exn option"

definition in_transaction :: "db_call \<Rightarrow> ('s, exn, 'a) action \<Rightarrow> ('s, exn, 'a) action" where
  "in_transaction call body s =
     (case dc_fault call of
        Some e \<Rightarrow> (Inl e, s)
      | None \<Rightarrow> (case body s of (Inl e, _) \<Rightarrow> (Inl e, s) | (Inr x, s') \<Rightarrow> (Inr x, s')))"

lemma in_transaction_cases:
  assumes "in_transaction call body s = (r, s')"
  obtains (rollback) e where "r = Inl e" "s' = s"
  | (commit) x where "dc_fault call = None" "r = Inr x" "body s = (Inr x, s')"
  using assms by (auto simp: in_transaction_def split: option.splits prod.splits sum.splits)

text \<open>\<open>"\n".join(sorted(values))\<close>, hashed.\<close>

definition stable_id_set_hash :: "pyenv \<Rightarrow> ustr list \<Rightarrow> exn + ustr" where
  "stable_id_set_hash P values =
     (case utf8 (join_str [10] (sort values)) of
        None \<Rightarrow> Inl (Exn UnicodeEncodeError (u ''utf-8''))
      | Some b \<Rightarrow> Inr (sha256 P b))"

section \<open>The ledger in PostgreSQL\<close>

definition pg_open :: "source_activation_check \<Rightarrow> exn + unit" where
  "pg_open rights =
     (if \<not> ac_allowed rights
      then Inl (Exn ValueError (u ''PostgreSQL fetch runs require an allowed rights policy''))
      else Inr ())"

definition pg_start_run ::
    "source_activation_check \<Rightarrow> db_call \<Rightarrow> ustr \<Rightarrow> ustr \<Rightarrow> ustr \<Rightarrow> run_mode
     \<Rightarrow> (fetch_tables, exn, unit) action" where
  "pg_start_run rights call connector_run_id run_id source_id mode tb =
     (if source_id \<noteq> source_name (ac_source_id rights)
      then (Inl (Exn ValueError
              (u ''Rights policy source does not match the connector source'')), tb)
      else in_transaction call (\<lambda>t.
        if \<not> (varchar 128 connector_run_id \<and> varchar 128 run_id \<and> varchar 128 source_id
              \<and> varchar 32 (ac_registry_revision rights) \<and> pg_integer (ac_policy_version rights)
              \<and> varchar 64 (ac_policy_hash rights))
        then (Inl data_error, t)
        else if map_of (tb_connector_run t) connector_run_id \<noteq> None
             \<or> \<not> 1 \<le> ac_policy_version rights \<or> \<not> is_sha256 (ac_policy_hash rights)
        then (Inl integrity_error, t)
        else (Inr (), t\<lparr>tb_connector_run := AList.update connector_run_id
               \<lparr>cr_run_id = run_id, cr_source_id = source_id,
                cr_connector_version = u ''fetch-v1'', cr_mode = mode, cr_state = RUNNING,
                cr_stage = u ''FETCHING'', cr_started_at = dc_now call,
                cr_fetch_completed_at = None, cr_completed_at = None,
                cr_planned_request_count = None, cr_successful_request_count = None,
                cr_all_attempt_hash = None, cr_selected_hash = None, cr_error_code = None,
                cr_rights_registry_revision = ac_registry_revision rights,
                cr_rights_policy_version = ac_policy_version rights,
                cr_rights_policy_hash = ac_policy_hash rights\<rparr> (tb_connector_run t)\<rparr>)) tb)"

definition pg_plan_request ::
    "db_call \<Rightarrow> ustr \<Rightarrow> ustr \<Rightarrow> ustr \<Rightarrow> int option \<Rightarrow> ustr \<Rightarrow> (fetch_tables, exn, unit) action" where
  "pg_plan_request call connector_run_id fingerprint partition_id page_number url =
     in_transaction call (\<lambda>t.
       let key = (connector_run_id, fingerprint) in
       if \<not> (varchar 128 connector_run_id \<and> varchar 64 fingerprint \<and> varchar 128 partition_id
             \<and> opt_all pg_integer page_number \<and> pg_text url)
       then (Inl data_error, t)
       else if \<not> opt_all (\<lambda>n. 0 \<le> n) page_number then (Inl integrity_error, t)
       else if map_of (tb_connector_request t) key \<noteq> None then (Inr (), t)
       else if map_of (tb_connector_run t) connector_run_id = None then (Inl integrity_error, t)
       else (Inr (), t\<lparr>tb_connector_request := AList.update key
              \<lparr>cq_partition_id = partition_id, cq_page_number = page_number,
               cq_request_url_redacted = url, cq_selected_observation_id = None\<rparr>
              (tb_connector_request t)\<rparr>))"

definition insert_snapshot :: "source_snapshot \<Rightarrow> (fetch_tables, exn, unit) action" where
  "insert_snapshot sn t =
     (if \<not> (varchar 128 (sn_snapshot_id sn) \<and> varchar 128 (sn_source_id sn)
            \<and> varchar 64 (sn_content_sha256 sn) \<and> varchar 255 (sn_mime_type sn)
            \<and> pg_text (sn_raw_object_path sn) \<and> sn_byte_length sn < 2 ^ 63)
      then (Inl data_error, t)
      else if \<not> is_sha256 (sn_content_sha256 sn) then (Inl integrity_error, t)
      else if list_ex (\<lambda>x. sn_source_id x = sn_source_id sn
                         \<and> sn_content_sha256 x = sn_content_sha256 sn) (tb_source_snapshot t)
      then (Inr (), t)
      else if list_ex (\<lambda>x. sn_snapshot_id x = sn_snapshot_id sn) (tb_source_snapshot t)
      then (Inl integrity_error, t)
      else (Inr (), t\<lparr>tb_source_snapshot := tb_source_snapshot t @ [sn]\<rparr>))"

text \<open>The columns of \<open>fetch_observation\<close>: an attempt without its partition and page.\<close>

definition observation_row :: "fetch_attempt \<Rightarrow> fetch_attempt" where
  "observation_row a = a\<lparr>at_partition_id := [], at_page_number := None\<rparr>"

definition observation_values :: "fetch_attempt \<Rightarrow> bool" where
  "observation_values a \<longleftrightarrow>
     varchar 128 (at_observation_id a) \<and> varchar 128 (at_connector_run_id a)
     \<and> varchar 128 (at_source_id a) \<and> varchar 64 (at_request_fingerprint a)
     \<and> pg_integer (at_response_ordinal a) \<and> pg_integer (int (at_attempt_no a))
     \<and> opt_all pg_smallint (at_http_status a) \<and> pg_text (at_request_url_redacted a)
     \<and> list_all (\<lambda>(k, v). pg_text k \<and> pg_text v) (at_response_headers a)
     \<and> opt_all (varchar 100) (at_error_code a) \<and> opt_all (varchar 128) (at_snapshot_id a)"

definition observation_checks :: "fetch_attempt \<Rightarrow> bool" where
  "observation_checks a \<longleftrightarrow>
     0 \<le> at_response_ordinal a \<and> 1 \<le> at_attempt_no a
     \<and> opt_all (\<lambda>s. 100 \<le> s \<and> s \<le> 599) (at_http_status a)
     \<and> (\<not> at_selected a \<or> at_outcome a = SELECTED_SUCCESS \<and> at_snapshot_id a \<noteq> None
          \<and> (case at_http_status a of None \<Rightarrow> False | Some s \<Rightarrow> 200 \<le> s \<and> s \<le> 299))
     \<and> (at_outcome a \<noteq> SELECTED_SUCCESS \<or> at_selected a)"

definition observation_request :: "fetch_attempt \<Rightarrow> ustr \<times> ustr" where
  "observation_request a = (at_connector_run_id a, at_request_fingerprint a)"

definition observation_keys :: "fetch_tables \<Rightarrow> fetch_attempt \<Rightarrow> bool" where
  "observation_keys t a \<longleftrightarrow>
     list_all (\<lambda>x. at_observation_id x \<noteq> at_observation_id a
       \<and> \<not> (observation_request x = observation_request a
            \<and> at_response_ordinal x = at_response_ordinal a \<and> at_attempt_no x = at_attempt_no a)
       \<and> \<not> (at_selected x \<and> at_selected a \<and> observation_request x = observation_request a))
       (tb_fetch_observation t)
     \<and> map_of (tb_connector_request t) (observation_request a) \<noteq> None
     \<and> opt_all (\<lambda>i. list_ex (\<lambda>x. sn_snapshot_id x = i) (tb_source_snapshot t)) (at_snapshot_id a)"

definition insert_observation :: "fetch_attempt \<Rightarrow> (fetch_tables, exn, unit) action" where
  "insert_observation a t =
     (if \<not> observation_values a then (Inl data_error, t)
      else if \<not> observation_checks a \<or> \<not> observation_keys t a then (Inl integrity_error, t)
      else (Inr (), t\<lparr>tb_fetch_observation := tb_fetch_observation t @ [observation_row a]\<rparr>))"

definition select_observation :: "fetch_attempt \<Rightarrow> (fetch_tables, exn, unit) action" where
  "select_observation a t =
     (case map_of (tb_connector_request t) (observation_request a) of
        None \<Rightarrow> (Inr (), t)
      | Some row \<Rightarrow>
          if list_ex (\<lambda>(key, x). key \<noteq> observation_request a
               \<and> cq_selected_observation_id x = Some (at_observation_id a)) (tb_connector_request t)
          then (Inl integrity_error, t)
          else (Inr (), t\<lparr>tb_connector_request := AList.update (observation_request a)
                 (row\<lparr>cq_selected_observation_id := Some (at_observation_id a)\<rparr>)
                 (tb_connector_request t)\<rparr>))"

definition pg_record_attempt ::
    "db_call \<Rightarrow> fetch_attempt \<Rightarrow> source_snapshot option \<Rightarrow> (fetch_tables, exn, unit) action" where
  "pg_record_attempt call attempt snapshot =
     in_transaction call
       (abind (case snapshot of None \<Rightarrow> areturn () | Some sn \<Rightarrow> insert_snapshot sn) (\<lambda>_.
        abind (insert_observation attempt) (\<lambda>_.
          if at_selected attempt then select_observation attempt else areturn ())))"

definition update_running ::
    "ustr \<Rightarrow> (connector_run_row \<Rightarrow> connector_run_row) \<Rightarrow> fetch_tables \<Rightarrow> fetch_tables" where
  "update_running connector_run_id f t =
     (case map_of (tb_connector_run t) connector_run_id of
        None \<Rightarrow> t
      | Some row \<Rightarrow>
          if cr_state row = RUNNING
          then t\<lparr>tb_connector_run := AList.update connector_run_id (f row) (tb_connector_run t)\<rparr>
          else t)"

definition pg_mark_fetch_complete ::
    "pyenv \<Rightarrow> db_call \<Rightarrow> ustr \<Rightarrow> int \<Rightarrow> int \<Rightarrow> ustr list \<Rightarrow> ustr list
     \<Rightarrow> (fetch_tables, exn, unit) action" where
  "pg_mark_fetch_complete P call connector_run_id planned successful attempt_ids selected_ids =
     abind (lift_result (rbind (stable_id_set_hash P attempt_ids) (\<lambda>a.
              rbind (stable_id_set_hash P selected_ids) (\<lambda>b. Inr (a, b))))) (\<lambda>(a, b).
       in_transaction call (\<lambda>t.
         if \<not> (pg_integer planned \<and> pg_integer successful \<and> varchar 64 a \<and> varchar 64 b)
         then (Inl data_error, t)
         else if (case map_of (tb_connector_run t) connector_run_id of
                      None \<Rightarrow> False | Some row \<Rightarrow> cr_state row = RUNNING)
                 \<and> \<not> (0 \<le> planned \<and> 0 \<le> successful \<and> successful \<le> planned)
         then (Inl integrity_error, t)
         else (Inr (), update_running connector_run_id (\<lambda>row.
                row\<lparr>cr_stage := u ''FETCHED'', cr_fetch_completed_at := Some (dc_now call),
                    cr_planned_request_count := Some planned,
                    cr_successful_request_count := Some successful,
                    cr_all_attempt_hash := Some a, cr_selected_hash := Some b\<rparr>) t)))"

definition pg_fail_run :: "db_call \<Rightarrow> ustr \<Rightarrow> ustr \<Rightarrow> (fetch_tables, exn, unit) action" where
  "pg_fail_run call connector_run_id error_code =
     in_transaction call (\<lambda>t.
       if \<not> pg_text (take 100 error_code) then (Inl data_error, t)
       else (Inr (), update_running connector_run_id (\<lambda>row.
              row\<lparr>cr_state := FAILED, cr_stage := u ''FETCH_FAILED'',
                  cr_completed_at := Some (dc_now call),
                  cr_error_code := Some (take 100 error_code)\<rparr>) t))"


section \<open>The ledger in memory\<close>

record memory_run =
  mr_run_id :: ustr
  mr_source_id :: ustr
  mr_mode :: run_mode
  mr_state :: run_state
  mr_stage :: ustr
  mr_planned_request_count :: "int option"
  mr_successful_request_count :: "int option"
  mr_attempt_hash :: "ustr option"
  mr_selected_hash :: "ustr option"
  mr_error_code :: "ustr option"

record memory_request =
  mq_connector_run_id :: ustr
  mq_request_fingerprint :: ustr
  mq_partition_id :: ustr
  mq_page_number :: "int option"
  mq_request_url_redacted :: ustr

record memory_ledger =
  mm_runs :: "(ustr \<times> memory_run) list"
  mm_requests :: "memory_request list"
  mm_attempts :: "fetch_attempt list"
  mm_snapshots :: "(ustr \<times> source_snapshot) list"

definition mem_start_run ::
    "db_call \<Rightarrow> ustr \<Rightarrow> ustr \<Rightarrow> ustr \<Rightarrow> run_mode \<Rightarrow> (memory_ledger, exn, unit) action" where
  "mem_start_run call connector_run_id run_id source_id mode m =
     (Inr (), m\<lparr>mm_runs := AList.update connector_run_id
        \<lparr>mr_run_id = run_id, mr_source_id = source_id, mr_mode = mode, mr_state = RUNNING,
         mr_stage = u ''FETCHING'', mr_planned_request_count = None,
         mr_successful_request_count = None, mr_attempt_hash = None, mr_selected_hash = None,
         mr_error_code = None\<rparr> (mm_runs m)\<rparr>)"

definition mem_plan_request ::
    "db_call \<Rightarrow> ustr \<Rightarrow> ustr \<Rightarrow> ustr \<Rightarrow> int option \<Rightarrow> ustr \<Rightarrow> (memory_ledger, exn, unit) action" where
  "mem_plan_request call connector_run_id fingerprint partition_id page_number url m =
     (Inr (), m\<lparr>mm_requests := mm_requests m @
        [\<lparr>mq_connector_run_id = connector_run_id, mq_request_fingerprint = fingerprint,
          mq_partition_id = partition_id, mq_page_number = page_number,
          mq_request_url_redacted = url\<rparr>]\<rparr>)"

definition mem_record_attempt ::
    "db_call \<Rightarrow> fetch_attempt \<Rightarrow> source_snapshot option \<Rightarrow> (memory_ledger, exn, unit) action" where
  "mem_record_attempt call attempt snapshot m =
     (let m1 = m\<lparr>mm_attempts := mm_attempts m @ [attempt]\<rparr> in
      case snapshot of
        None \<Rightarrow> (Inr (), m1)
      | Some sn \<Rightarrow>
          (Inr (), if map_of (mm_snapshots m) (sn_snapshot_id sn) = None
                   then m1\<lparr>mm_snapshots := AList.update (sn_snapshot_id sn) sn (mm_snapshots m)\<rparr>
                   else m1))"

definition mem_update ::
    "ustr \<Rightarrow> (memory_run \<Rightarrow> exn + memory_run) \<Rightarrow> (memory_ledger, exn, unit) action" where
  "mem_update connector_run_id f m =
     (case map_of (mm_runs m) connector_run_id of
        None \<Rightarrow> (Inl (Exn (OtherError (u ''KeyError'')) connector_run_id), m)
      | Some row \<Rightarrow>
          (case f row of
             Inl e \<Rightarrow> (Inl e, m)
           | Inr row' \<Rightarrow> (Inr (), m\<lparr>mm_runs := AList.update connector_run_id row' (mm_runs m)\<rparr>)))"

definition mem_mark_fetch_complete ::
    "pyenv \<Rightarrow> db_call \<Rightarrow> ustr \<Rightarrow> int \<Rightarrow> int \<Rightarrow> ustr list \<Rightarrow> ustr list
     \<Rightarrow> (memory_ledger, exn, unit) action" where
  "mem_mark_fetch_complete P call connector_run_id planned successful attempt_ids selected_ids =
     mem_update connector_run_id (\<lambda>row.
       rbind (stable_id_set_hash P attempt_ids) (\<lambda>a.
       rbind (stable_id_set_hash P selected_ids) (\<lambda>b.
         Inr (row\<lparr>mr_stage := u ''FETCHED'', mr_planned_request_count := Some planned,
                  mr_successful_request_count := Some successful,
                  mr_attempt_hash := Some a, mr_selected_hash := Some b\<rparr>))))"

definition mem_fail_run :: "db_call \<Rightarrow> ustr \<Rightarrow> ustr \<Rightarrow> (memory_ledger, exn, unit) action" where
  "mem_fail_run call connector_run_id error_code =
     mem_update connector_run_id (\<lambda>row.
       Inr (row\<lparr>mr_state := FAILED, mr_stage := u ''FETCH_FAILED'',
                mr_error_code := Some error_code\<rparr>))"

section \<open>The contract of a ledger\<close>

record 'l fetch_ledger =
  lg_start_run :: "db_call \<Rightarrow> ustr \<Rightarrow> ustr \<Rightarrow> ustr \<Rightarrow> run_mode \<Rightarrow> ('l, exn, unit) action"
  lg_plan_request ::
    "db_call \<Rightarrow> ustr \<Rightarrow> ustr \<Rightarrow> ustr \<Rightarrow> int option \<Rightarrow> ustr \<Rightarrow> ('l, exn, unit) action"
  lg_record_attempt :: "db_call \<Rightarrow> fetch_attempt \<Rightarrow> source_snapshot option \<Rightarrow> ('l, exn, unit) action"
  lg_mark_fetch_complete ::
    "db_call \<Rightarrow> ustr \<Rightarrow> int \<Rightarrow> int \<Rightarrow> ustr list \<Rightarrow> ustr list \<Rightarrow> ('l, exn, unit) action"
  lg_fail_run :: "db_call \<Rightarrow> ustr \<Rightarrow> ustr \<Rightarrow> ('l, exn, unit) action"

definition postgres_ledger :: "pyenv \<Rightarrow> source_activation_check \<Rightarrow> fetch_tables fetch_ledger" where
  "postgres_ledger P rights =
     \<lparr>lg_start_run = pg_start_run rights, lg_plan_request = pg_plan_request,
      lg_record_attempt = pg_record_attempt, lg_mark_fetch_complete = pg_mark_fetch_complete P,
      lg_fail_run = pg_fail_run\<rparr>"

definition memory_fetch_ledger :: "pyenv \<Rightarrow> memory_ledger fetch_ledger" where
  "memory_fetch_ledger P =
     \<lparr>lg_start_run = mem_start_run, lg_plan_request = mem_plan_request,
      lg_record_attempt = mem_record_attempt, lg_mark_fetch_complete = mem_mark_fetch_complete P,
      lg_fail_run = mem_fail_run\<rparr>"

text \<open>
  What a client sees: the attempts in the order they were recorded, the planned requests, and of
  each run its state, its stage and the totals it was closed with.
\<close>

type_synonym run_view = "run_state \<times> ustr \<times> (int \<times> int) option"

definition opt_pair :: "'a option \<Rightarrow> 'b option \<Rightarrow> ('a \<times> 'b) option" where
  "opt_pair a b = (case (a, b) of (Some x, Some y) \<Rightarrow> Some (x, y) | _ \<Rightarrow> None)"

definition pg_status :: "fetch_tables \<Rightarrow> ustr \<Rightarrow> run_view option" where
  "pg_status t i = map_option (\<lambda>row. (cr_state row, cr_stage row,
     opt_pair (cr_planned_request_count row) (cr_successful_request_count row)))
     (map_of (tb_connector_run t) i)"

definition pg_planned :: "fetch_tables \<Rightarrow> (ustr \<times> ustr) set" where
  "pg_planned t = dom (map_of (tb_connector_request t))"

definition mem_status :: "memory_ledger \<Rightarrow> ustr \<Rightarrow> run_view option" where
  "mem_status m i = map_option (\<lambda>row. (mr_state row, mr_stage row,
     opt_pair (mr_planned_request_count row) (mr_successful_request_count row)))
     (map_of (mm_runs m) i)"

definition mem_planned :: "memory_ledger \<Rightarrow> (ustr \<times> ustr) set" where
  "mem_planned m = (\<lambda>q. (mq_connector_run_id q, mq_request_fingerprint q)) ` set (mm_requests m)"

definition mem_log :: "memory_ledger \<Rightarrow> fetch_attempt list" where
  "mem_log m = map observation_row (mm_attempts m)"

locale attempt_log =
  fixes L :: "'l fetch_ledger"
    and log :: "'l \<Rightarrow> fetch_attempt list"
    and planned :: "'l \<Rightarrow> (ustr \<times> ustr) set"
    and status :: "'l \<Rightarrow> ustr \<Rightarrow> run_view option"
  assumes start: "lg_start_run L c i r src m l = (Inr x, l') \<Longrightarrow>
      log l' = log l \<and> planned l' = planned l
      \<and> status l' = (status l)(i \<mapsto> (RUNNING, u ''FETCHING'', None))"
    and plan: "lg_plan_request L c i fp pt pg url l = (Inr x, l') \<Longrightarrow>
      log l' = log l \<and> planned l' = insert (i, fp) (planned l) \<and> status l' = status l"
    and record_attempt: "lg_record_attempt L c a sn l = (Inr x, l') \<Longrightarrow>
      log l' = log l @ [observation_row a] \<and> planned l' = planned l \<and> status l' = status l"
    and complete: "lg_mark_fetch_complete L c i n k as ss l = (Inr x, l') \<Longrightarrow>
      status l i = Some (RUNNING, st, tot) \<Longrightarrow>
      log l' = log l \<and> planned l' = planned l
      \<and> status l' = (status l)(i \<mapsto> (RUNNING, u ''FETCHED'', Some (n, k)))"
    and fail: "lg_fail_run L c i code l = (Inr x, l') \<Longrightarrow>
      status l i = Some (RUNNING, st, tot) \<Longrightarrow>
      log l' = log l \<and> planned l' = planned l
      \<and> status l' = (status l)(i \<mapsto> (FAILED, u ''FETCH_FAILED'', tot))"
    and fail_returns: "dc_fault c = None \<Longrightarrow> 0 \<notin> set code \<Longrightarrow>
      status l i = Some (RUNNING, st, tot) \<Longrightarrow> \<exists>l'. lg_fail_run L c i code l = (Inr (), l')"
    and start_raises: "lg_start_run L c i r src m l = (Inl e, l') \<Longrightarrow> l' = l"
    and plan_raises: "lg_plan_request L c i fp pt pg url l = (Inl e, l') \<Longrightarrow> l' = l"
    and record_raises: "lg_record_attempt L c a sn l = (Inl e, l') \<Longrightarrow> l' = l"
    and complete_raises: "lg_mark_fetch_complete L c i n k as ss l = (Inl e, l') \<Longrightarrow> l' = l"

section \<open>PostgreSQL provides the contract\<close>

lemma opt_pair_simps [simp]:
  "opt_pair (Some a) (Some b) = Some (a, b)" "opt_pair None z = None"
  by (simp_all add: opt_pair_def)

lemma pg_start_effect:
  assumes "pg_start_run rights c i r src m t = (Inr x, t')"
  shows "\<exists>row. t' = t\<lparr>tb_connector_run := AList.update i row (tb_connector_run t)\<rparr>
     \<and> cr_state row = RUNNING \<and> cr_stage row = u ''FETCHING'' \<and> cr_planned_request_count row = None"
  using assms
  by (auto simp: pg_start_run_def in_transaction_def split: if_splits option.splits)

lemma pg_plan_effect:
  assumes "pg_plan_request c i fp pt pg url t = (Inr x, t')"
  shows "(map_of (tb_connector_request t) (i, fp) \<noteq> None \<and> t' = t)
     \<or> (map_of (tb_connector_request t) (i, fp) = None \<and> map_of (tb_connector_run t) i \<noteq> None
        \<and> t' = t\<lparr>tb_connector_request := AList.update (i, fp)
              \<lparr>cq_partition_id = pt, cq_page_number = pg, cq_request_url_redacted = url,
               cq_selected_observation_id = None\<rparr> (tb_connector_request t)\<rparr>)"
  using assms
  by (auto simp: pg_plan_request_def in_transaction_def Let_def split: if_splits option.splits)

lemma insert_snapshot_effect:
  assumes "insert_snapshot sn t = (Inr x, t')"
  shows "t' = t \<and> (\<exists>y \<in> set (tb_source_snapshot t). sn_source_id y = sn_source_id sn
              \<and> sn_content_sha256 y = sn_content_sha256 sn)
     \<or> t' = t\<lparr>tb_source_snapshot := tb_source_snapshot t @ [sn]\<rparr>
       \<and> \<not> (\<exists>y \<in> set (tb_source_snapshot t). sn_source_id y = sn_source_id sn
              \<and> sn_content_sha256 y = sn_content_sha256 sn)
       \<and> sn_snapshot_id sn \<notin> sn_snapshot_id ` set (tb_source_snapshot t)"
  using assms by (auto simp: insert_snapshot_def list_ex_iff split: if_splits)

lemma insert_observation_effect:
  assumes "insert_observation a t = (Inr x, t')"
  shows "t' = t\<lparr>tb_fetch_observation := tb_fetch_observation t @ [observation_row a]\<rparr>
     \<and> observation_checks a \<and> observation_keys t a"
  using assms by (auto simp: insert_observation_def split: if_splits)

lemma select_observation_effect:
  assumes "select_observation a t = (Inr x, t')"
  shows "t' = t \<and> map_of (tb_connector_request t) (observation_request a) = None
     \<or> (\<exists>row. map_of (tb_connector_request t) (observation_request a) = Some row
        \<and> t' = t\<lparr>tb_connector_request := AList.update (observation_request a)
               (row\<lparr>cq_selected_observation_id := Some (at_observation_id a)\<rparr>)
               (tb_connector_request t)\<rparr>)"
  using assms by (auto simp: select_observation_def split: option.splits if_splits)

text \<open>The three statements of \<open>record_attempt\<close>, in order.\<close>

lemma pg_record_effect:
  assumes "pg_record_attempt c a sn t = (Inr x, t')"
  obtains t1 t2 where
    "case sn of None \<Rightarrow> t1 = t | Some s \<Rightarrow> insert_snapshot s t = (Inr (), t1)"
    "insert_observation a t1 = (Inr (), t2)"
    "if at_selected a then select_observation a t2 = (Inr (), t') else t' = t2"
  using assms unfolding pg_record_attempt_def
  by (cases rule: in_transaction_cases)
    (auto simp: abind_Inr_iff split: option.splits if_splits)

lemma pg_record_log:
  assumes "pg_record_attempt c a sn t = (Inr x, t')"
  shows "tb_fetch_observation t' = tb_fetch_observation t @ [observation_row a]"
    and "tb_connector_run t' = tb_connector_run t" and "pg_planned t' = pg_planned t"
proof -
  from assms obtain t1 t2 where
    s: "case sn of None \<Rightarrow> t1 = t | Some y \<Rightarrow> insert_snapshot y t = (Inr (), t1)"
    and o: "insert_observation a t1 = (Inr (), t2)"
    and f: "if at_selected a then select_observation a t2 = (Inr (), t') else t' = t2"
    by (rule pg_record_effect)
  have t1: "tb_fetch_observation t1 = tb_fetch_observation t" "tb_connector_run t1 = tb_connector_run t"
      "tb_connector_request t1 = tb_connector_request t"
    using s by (auto split: option.splits dest!: insert_snapshot_effect)
  have t': "tb_fetch_observation t' = tb_fetch_observation t2" "tb_connector_run t' = tb_connector_run t2"
      "pg_planned t' = pg_planned t2"
    using f by (auto split: if_splits dest!: select_observation_effect
        simp: pg_planned_def update_conv')
  note t2 = insert_observation_effect [OF o]
  show "tb_fetch_observation t' = tb_fetch_observation t @ [observation_row a]"
    using t1 t2 t' by simp
  show "tb_connector_run t' = tb_connector_run t" using t1 t2 t' by simp
  show "pg_planned t' = pg_planned t" using t1 t2 t' by (simp add: pg_planned_def)
qed

lemma pg_status_RUNNING:
  assumes "pg_status t i = Some (RUNNING, st, tot)"
  obtains row where "map_of (tb_connector_run t) i = Some row" "cr_state row = RUNNING"
    "update_running i f t = t\<lparr>tb_connector_run := AList.update i (f row) (tb_connector_run t)\<rparr>"
    "tot = opt_pair (cr_planned_request_count row) (cr_successful_request_count row)"
  using assms by (auto simp: pg_status_def update_running_def)


interpretation postgres: attempt_log "postgres_ledger P rights" tb_fetch_observation pg_planned pg_status
  for P rights
proof (unfold_locales, goal_cases)
  case (1 c i r src m l x l')
  then show ?case
    by (auto simp: postgres_ledger_def pg_status_def pg_planned_def fun_eq_iff update_conv'
        dest!: pg_start_effect)
next
  case (2 c i fp pt pg url l x l')
  then show ?case
    by (auto simp: postgres_ledger_def pg_status_def pg_planned_def fun_eq_iff update_conv'
        dest!: pg_plan_effect)
next
  case (3 c a sn l x l')
  then show ?case
    using pg_record_log [of c a sn l x l'] by (simp add: postgres_ledger_def pg_status_def fun_eq_iff)
next
  case (4 c i n k as ss l x l' st tot)
  from 4(2) obtain row where row: "map_of (tb_connector_run l) i = Some row" "cr_state row = RUNNING"
    by (rule pg_status_RUNNING)
  from 4(1) row show ?case
    by (auto simp: postgres_ledger_def pg_mark_fetch_complete_def abind_Inr_iff in_transaction_def
        update_running_def pg_status_def pg_planned_def fun_eq_iff update_conv'
        split: if_splits option.splits)
next
  case (5 c i code l x l' st tot)
  from 5(2) obtain row where row: "map_of (tb_connector_run l) i = Some row" "cr_state row = RUNNING"
      "tot = opt_pair (cr_planned_request_count row) (cr_successful_request_count row)"
    by (rule pg_status_RUNNING)
  from 5(1) row show ?case
    by (auto simp: postgres_ledger_def pg_fail_run_def in_transaction_def
        update_running_def pg_status_def pg_planned_def fun_eq_iff update_conv'
        split: if_splits option.splits)
next
  case (6 c code l i st tot)
  have "pg_text (take 100 code)" using 6(2) by (auto simp: pg_text_def dest: in_set_takeD)
  then show ?case using 6(1) by (simp add: postgres_ledger_def pg_fail_run_def in_transaction_def)
next
  case (7 c i r src m l e l')
  then show ?case
    by (auto simp: postgres_ledger_def pg_start_run_def elim!: in_transaction_cases split: if_splits)
next
  case (8 c i fp pt pg url l e l')
  then show ?case
    by (auto simp: postgres_ledger_def pg_plan_request_def elim!: in_transaction_cases)
next
  case (9 c a sn l e l')
  then show ?case
    by (auto simp: postgres_ledger_def pg_record_attempt_def elim!: in_transaction_cases)
next
  case (10 c i n k as ss l e l')
  then show ?case
    by (auto simp: postgres_ledger_def pg_mark_fetch_complete_def abind_Inl_iff
        elim!: in_transaction_cases split: prod.splits)
qed

section \<open>The ledger in memory provides the contract\<close>

lemma mem_update_Inr:
  assumes "mem_update i f m = (Inr x, m')"
  obtains row row' where "map_of (mm_runs m) i = Some row" "f row = Inr row'"
    "m' = m\<lparr>mm_runs := AList.update i row' (mm_runs m)\<rparr>"
  using assms by (auto simp: mem_update_def split: option.splits sum.splits)

lemma mem_update_Inl: "mem_update i f m = (Inl e, m') \<Longrightarrow> m' = m"
  by (auto simp: mem_update_def split: option.splits sum.splits)

interpretation memory: attempt_log "memory_fetch_ledger P" mem_log mem_planned mem_status for P
proof (unfold_locales, goal_cases)
  case (1 c i r src m l x l')
  then show ?case
    by (auto simp: memory_fetch_ledger_def mem_start_run_def mem_log_def mem_status_def
        mem_planned_def fun_eq_iff update_conv')
next
  case (2 c i fp pt pg url l x l')
  then show ?case
    by (auto simp: memory_fetch_ledger_def mem_plan_request_def mem_log_def mem_status_def
        mem_planned_def fun_eq_iff)
next
  case (3 c a sn l x l')
  then show ?case
    by (auto simp: memory_fetch_ledger_def mem_record_attempt_def mem_log_def mem_status_def
        mem_planned_def fun_eq_iff Let_def split: option.splits if_splits)
next
  case (4 c i n k as ss l x l' st tot)
  then have "mem_mark_fetch_complete P c i n k as ss l = (Inr x, l')"
    by (simp add: memory_fetch_ledger_def)
  from this [unfolded mem_mark_fetch_complete_def] show ?case
    by (rule mem_update_Inr) (use 4(2) in \<open>
      auto simp: mem_log_def mem_status_def mem_planned_def fun_eq_iff update_conv'
        result_simps\<close>)
next
  case (5 c i code l x l' st tot)
  then have "mem_fail_run c i code l = (Inr x, l')" by (simp add: memory_fetch_ledger_def)
  from this [unfolded mem_fail_run_def] show ?case
    by (rule mem_update_Inr) (use 5(2) in \<open>
      auto simp: mem_log_def mem_status_def mem_planned_def fun_eq_iff update_conv'\<close>)
next
  case (6 c code l i st tot)
  then show ?case
    by (auto simp: memory_fetch_ledger_def mem_fail_run_def mem_update_def mem_status_def)
next
  case 7
  then show ?case by (simp add: memory_fetch_ledger_def mem_start_run_def)
next
  case 8
  then show ?case by (simp add: memory_fetch_ledger_def mem_plan_request_def)
next
  case 9
  then show ?case
    by (auto simp: memory_fetch_ledger_def mem_record_attempt_def Let_def split: option.splits)
next
  case (10 c i n k as ss l e l')
  then show ?case
    by (auto simp: memory_fetch_ledger_def mem_mark_fetch_complete_def dest: mem_update_Inl)
qed


section \<open>The tables stay consistent\<close>

text \<open>
  The methods of one ledger in any order, with any arguments, by any number of runs. A method that
  raises leaves the tables as they were, so the state after it is the state to go on from.
\<close>

datatype ledger_op =
    Op_start ustr ustr ustr run_mode
  | Op_plan ustr ustr ustr "int option" ustr
  | Op_record fetch_attempt "source_snapshot option"
  | Op_complete ustr int int "ustr list" "ustr list"
  | Op_fail ustr ustr

fun apply_op :: "'l fetch_ledger \<Rightarrow> db_call \<Rightarrow> ledger_op \<Rightarrow> ('l, exn, unit) action" where
  "apply_op L c (Op_start i r src m) = lg_start_run L c i r src m"
| "apply_op L c (Op_plan i fp pt pg url) = lg_plan_request L c i fp pt pg url"
| "apply_op L c (Op_record a sn) = lg_record_attempt L c a sn"
| "apply_op L c (Op_complete i n k as ss) = lg_mark_fetch_complete L c i n k as ss"
| "apply_op L c (Op_fail i code) = lg_fail_run L c i code"

inductive ledger_reachable :: "pyenv \<Rightarrow> fetch_tables \<Rightarrow> bool" for P where
  empty: "ledger_reachable P \<lparr>tb_connector_run = [], tb_connector_request = [],
            tb_source_snapshot = [], tb_fetch_observation = []\<rparr>"
| step: "ledger_reachable P t \<Longrightarrow> apply_op (postgres_ledger P rights) c op t = (r, t')
         \<Longrightarrow> ledger_reachable P t'"

definition selected_of :: "fetch_tables \<Rightarrow> ustr \<times> ustr \<Rightarrow> ustr set" where
  "selected_of t key = at_observation_id `
     {a \<in> set (tb_fetch_observation t). at_selected a \<and> observation_request a = key}"

definition consistent_tables :: "fetch_tables \<Rightarrow> bool" where
  "consistent_tables t \<longleftrightarrow>
     (\<forall>key \<in> dom (map_of (tb_connector_request t)). fst key \<in> dom (map_of (tb_connector_run t)))
     \<and> (\<forall>a \<in> set (tb_fetch_observation t).
          observation_request a \<in> dom (map_of (tb_connector_request t)) \<and> observation_checks a
          \<and> opt_all (\<lambda>i. i \<in> sn_snapshot_id ` set (tb_source_snapshot t)) (at_snapshot_id a))
     \<and> (\<forall>key row. map_of (tb_connector_request t) key = Some row \<longrightarrow>
          selected_of t key = set_option (cq_selected_observation_id row))
     \<and> distinct (map (\<lambda>s. (sn_source_id s, sn_content_sha256 s)) (tb_source_snapshot t))
     \<and> distinct (map at_observation_id (tb_fetch_observation t))"

lemma observation_row_simps [simp]:
  "at_observation_id (observation_row a) = at_observation_id a"
  "at_selected (observation_row a) = at_selected a"
  "observation_request (observation_row a) = observation_request a"
  "observation_checks (observation_row a) = observation_checks a"
  "at_snapshot_id (observation_row a) = at_snapshot_id a"
  "at_attempt_no (observation_row a) = at_attempt_no a"
  "at_connector_run_id (observation_row a) = at_connector_run_id a"
  "at_request_fingerprint (observation_row a) = at_request_fingerprint a"
  "at_outcome (observation_row a) = at_outcome a"
  by (simp_all add: observation_row_def observation_request_def observation_checks_def)

lemma consistent_runs:
  assumes "consistent_tables t" and "dom (map_of (tb_connector_run t)) \<subseteq> dom (map_of rs)"
  shows "consistent_tables (t\<lparr>tb_connector_run := rs\<rparr>)"
proof -
  have "selected_of (t\<lparr>tb_connector_run := rs\<rparr>) key = selected_of t key" for key
    by (simp add: selected_of_def)
  then show ?thesis using assms unfolding consistent_tables_def by (simp add: subset_iff)
qed

lemma consistent_update_running:
  "consistent_tables t \<Longrightarrow> consistent_tables (update_running i f t)"
  by (auto simp: update_running_def update_conv' intro!: consistent_runs split: option.splits)

lemma selected_of_none:
  assumes "consistent_tables t" and "key \<notin> dom (map_of (tb_connector_request t))"
  shows "selected_of t key = {}"
  using assms by (auto simp: consistent_tables_def selected_of_def)

lemma consistent_plan:
  assumes "consistent_tables t" and "map_of (tb_connector_request t) key = None"
    and "fst key \<in> dom (map_of (tb_connector_run t))" and "cq_selected_observation_id row = None"
  shows "consistent_tables (t\<lparr>tb_connector_request := AList.update key row (tb_connector_request t)\<rparr>)"
proof -
  have sel: "selected_of (t\<lparr>tb_connector_request := q\<rparr>) k = selected_of t k" for q k
    by (simp add: selected_of_def)
  have "selected_of t key = {}" by (rule selected_of_none [OF assms(1)]) (simp add: assms(2) domIff)
  with assms show ?thesis
    unfolding consistent_tables_def sel by (auto simp: update_conv')
qed

lemma consistent_snapshot:
  assumes "consistent_tables t" and "insert_snapshot sn t = (Inr x, t')"
  shows "consistent_tables t'"
  using insert_snapshot_effect [OF assms(2)]
proof (elim disjE conjE)
  assume t': "t' = t\<lparr>tb_source_snapshot := tb_source_snapshot t @ [sn]\<rparr>"
    and new: "\<not> (\<exists>y \<in> set (tb_source_snapshot t). sn_source_id y = sn_source_id sn
              \<and> sn_content_sha256 y = sn_content_sha256 sn)"
  have mono: "opt_all (\<lambda>i. i \<in> A) o1 \<Longrightarrow> A \<subseteq> B \<Longrightarrow> opt_all (\<lambda>i. i \<in> B) o1" for A B and o1 :: "ustr option"
    by (auto simp: opt_all_def split: option.splits)
  have sel: "selected_of t' k = selected_of t k" for k
    by (simp add: selected_of_def t')
  have "(sn_source_id sn, sn_content_sha256 sn)
      \<notin> set (map (\<lambda>s. (sn_source_id s, sn_content_sha256 s)) (tb_source_snapshot t))"
    using new by auto
  moreover have "opt_all (\<lambda>i. i \<in> sn_snapshot_id ` set (tb_source_snapshot t')) o1"
    if "opt_all (\<lambda>i. i \<in> sn_snapshot_id ` set (tb_source_snapshot t)) o1" for o1
    by (rule mono [OF that]) (auto simp: t')
  ultimately show ?thesis
    using assms(1) unfolding consistent_tables_def sel by (simp add: t')
qed (use assms(1) in simp)

lemma selected_of_snoc:
  "selected_of (t\<lparr>tb_fetch_observation := tb_fetch_observation t @ [observation_row a]\<rparr>) key =
     selected_of t key
     \<union> (if at_selected a \<and> observation_request a = key then {at_observation_id a} else {})"
proof -
  have "{x \<in> set (xs @ [y]). Q x} = {x \<in> set xs. Q x} \<union> (if Q y then {y} else {})"
    for xs and y :: fetch_attempt and Q by auto
  then show ?thesis by (simp add: selected_of_def image_Un del: set_append)
qed

lemma consistent_record:
  assumes "consistent_tables t" and "insert_observation a t = (Inr x, t2)"
    and "if at_selected a then select_observation a t2 = (Inr (), t') else t' = t2"
  shows "consistent_tables t'"
proof -
  note o = insert_observation_effect [OF assms(2)]
  have t2: "t2 = t\<lparr>tb_fetch_observation := tb_fetch_observation t @ [observation_row a]\<rparr>"
    and keys: "observation_keys t a" and chk: "observation_checks a" using o by auto
  have req: "observation_request a \<in> dom (map_of (tb_connector_request t))"
    and snap: "opt_all (\<lambda>i. i \<in> sn_snapshot_id ` set (tb_source_snapshot t)) (at_snapshot_id a)"
    and new_id: "at_observation_id a \<notin> at_observation_id ` set (tb_fetch_observation t)"
    and one: "at_selected a \<Longrightarrow> selected_of t (observation_request a) = {}"
    using keys by (auto simp: observation_keys_def list_all_iff list_ex_iff selected_of_def image_iff
        opt_all_def split: option.splits)
  show ?thesis
  proof (cases "at_selected a")
    case False
    with assms(3) have t': "t' = t\<lparr>tb_fetch_observation := tb_fetch_observation t @ [observation_row a]\<rparr>"
      by (simp add: t2)
    have sel: "selected_of t' k = selected_of t k" for k
      using False by (simp add: t' selected_of_snoc)
    show ?thesis
      using assms(1) req chk snap new_id
      unfolding consistent_tables_def sel by (simp add: t')
  next
    case True
    with assms(3) have "select_observation a t2 = (Inr (), t')" by simp
    from select_observation_effect [OF this] req obtain row where
      row: "map_of (tb_connector_request t) (observation_request a) = Some row"
      and t': "t' = t2\<lparr>tb_connector_request := AList.update (observation_request a)
               (row\<lparr>cq_selected_observation_id := Some (at_observation_id a)\<rparr>)
               (tb_connector_request t2)\<rparr>"
      by (auto simp: t2)
    have sel: "selected_of t' k = selected_of t2 k" for k by (simp add: selected_of_def t')
    have "\<forall>key row'. map_of (tb_connector_request t') key = Some row' \<longrightarrow>
        selected_of t' key = set_option (cq_selected_observation_id row')"
    proof (intro allI impI)
      fix key row' assume k: "map_of (tb_connector_request t') key = Some row'"
      show "selected_of t' key = set_option (cq_selected_observation_id row')"
      proof (cases "key = observation_request a")
        case True
        with k one [OF \<open>at_selected a\<close>] show ?thesis
          unfolding sel t2 selected_of_snoc using \<open>at_selected a\<close>
          by (auto simp: t' t2 update_conv')
      next
        case False
        with k have "map_of (tb_connector_request t) key = Some row'"
          by (simp add: t' t2 update_conv')
        then have "selected_of t key = set_option (cq_selected_observation_id row')"
          using assms(1) unfolding consistent_tables_def by blast
        with False show ?thesis unfolding sel t2 selected_of_snoc by simp
      qed
    qed
    moreover have "dom (map_of (tb_connector_request t')) = dom (map_of (tb_connector_request t))"
      using req by (auto simp: t' t2 update_conv')
    moreover have "tb_connector_run t' = tb_connector_run t"
        "tb_source_snapshot t' = tb_source_snapshot t"
        "tb_fetch_observation t' = tb_fetch_observation t @ [observation_row a]"
      by (simp_all add: t' t2)
    ultimately show ?thesis
      using assms(1) req chk snap new_id unfolding consistent_tables_def by simp
  qed
qed

lemma consistent_step:
  assumes "consistent_tables t" and "apply_op (postgres_ledger P rights) c op t = (r, t')"
  shows "consistent_tables t'"
proof (cases r)
  case (Inl e)
  then have "t' = t"
  proof (cases op)
    case (Op_fail i code)
    with assms(2) Inl show ?thesis
      by (auto simp: postgres_ledger_def pg_fail_run_def elim!: in_transaction_cases)
  qed (use assms(2) Inl in \<open>auto dest: postgres.start_raises postgres.plan_raises
        postgres.record_raises postgres.complete_raises\<close>)
  with assms(1) show ?thesis by simp
next
  case (Inr x)
  show ?thesis
  proof (cases op)
    case (Op_start i r src m)
    then show ?thesis using assms Inr
      by (auto simp: postgres_ledger_def update_conv' dest!: pg_start_effect intro!: consistent_runs)
  next
    case (Op_plan i fp pt pg url)
    then have "pg_plan_request c i fp pt pg url t = (Inr x, t')"
      using assms(2) Inr by (simp add: postgres_ledger_def)
    from pg_plan_effect [OF this] assms(1) show ?thesis
      by (auto intro!: consistent_plan)
  next
    case (Op_record a sn)
    then have "pg_record_attempt c a sn t = (Inr x, t')"
      using assms(2) Inr by (simp add: postgres_ledger_def)
    then obtain t1 t2 where
      s: "case sn of None \<Rightarrow> t1 = t | Some y \<Rightarrow> insert_snapshot y t = (Inr (), t1)"
      and o: "insert_observation a t1 = (Inr (), t2)"
        "if at_selected a then select_observation a t2 = (Inr (), t') else t' = t2"
      by (rule pg_record_effect)
    have "consistent_tables t1"
      using s assms(1) by (auto split: option.splits dest: consistent_snapshot)
    then show ?thesis by (rule consistent_record) (rule o)+
  next
    case (Op_complete i n k as ss)
    then show ?thesis using assms Inr
      by (auto simp: postgres_ledger_def pg_mark_fetch_complete_def abind_Inr_iff
          in_transaction_def consistent_update_running split: if_splits option.splits)
  next
    case (Op_fail i code)
    then show ?thesis using assms Inr
      by (auto simp: postgres_ledger_def pg_fail_run_def
          in_transaction_def consistent_update_running split: if_splits option.splits)
  qed
qed

text \<open>
  C32: whatever sequence of ledger methods ran, by any number of runs, with faults at any call, the
  ledger's tables agree with each other: every request belongs to a run, every observation to a
  planned request and to stored content, a request names a selected observation exactly when one
  observation of it is marked selected, and then that one.
\<close>

theorem ledger_stays_consistent:
  assumes "ledger_reachable P t"
  shows "consistent_tables t"
  using assms
proof (induction rule: ledger_reachable.induct)
  case empty
  then show ?case by (simp add: consistent_tables_def)
next
  case (step t rights c op r t')
  then show ?case by (blast intro: consistent_step)
qed


lemma reachable_start:
  "\<exists>t. ledger_reachable hash_env t \<and> tb_connector_run t \<noteq> []"
proof -
  define t0 :: fetch_tables where "t0 = \<lparr>tb_connector_run = [], tb_connector_request = [],
     tb_source_snapshot = [], tb_fetch_observation = []\<rparr>"
  define check where "check = \<lparr>ac_source_id = Job_alio, ac_status = ALLOWED, ac_allowed = True,
     ac_policy_version = 1, ac_registry_revision = u ''2026-07-10.1'',
     ac_policy_hash = replicate 64 48, ac_requested_content = [], ac_out_of_scope_content = [],
     ac_blocking_permissions = [], ac_reason = None\<rparr>"
  define c where "c = \<lparr>dc_now = 0, dc_fault = None\<rparr>"
  obtain r t where s: "apply_op (postgres_ledger hash_env check) c
      (Op_start (u ''run'') (u ''r'') (u ''job_alio'') BACKFILL) t0 = (r, t)" by fastforce
  have "t \<noteq> t0 \<and> tb_connector_run t \<noteq> []"
    using s by (auto simp: postgres_ledger_def pg_start_run_def in_transaction_def c_def check_def
        varchar_def pg_integer_def is_sha256_def is_lower_hex_def list_all_iff t0_def u_def)
  then show ?thesis
    using ledger_reachable.step [OF ledger_reachable.empty [folded t0_def] s] by blast
qed

theorem ledger_stays_consistent_witness:
  "\<exists>t. consistent_tables t \<and> tb_connector_run t \<noteq> []"
  using reachable_start ledger_stays_consistent by blast

text \<open>
  the hash that closes a run identifies the set of its observations, not the order in which they
  were made: it is the same for every order of the identifiers.
\<close>

theorem stable_id_set_hash_order_free:
  assumes "mset xs = mset ys"
  shows "stable_id_set_hash P xs = stable_id_set_hash P ys"
proof -
  have "sort xs = sort ys" by (rule properties_for_sort) (simp_all add: assms)
  then show ?thesis by (simp add: stable_id_set_hash_def)
qed

theorem stable_id_set_hash_order_free_witness:
  "stable_id_set_hash example_env [u ''b'', u ''a''] = stable_id_set_hash example_env [u ''a'', u ''b'']"
  by (rule stable_id_set_hash_order_free) simp

end
