(* ===== verification/FetchEngine.thy ===== *)
theory FetchEngine
  imports Ledger RawStore Connectors "HOL-Library.Multiset"
begin

text \<open>
  \<open>pipeline/fetch.py\<close>: one fetch run of one connector. What the surroundings do at each step (fresh
  identifiers, the clock, the HTTP client, the disk, the database) is a \<open>world\<close>, a family of
  functions of the number of effects so far; the engine's state is the ledger, the raw store, and
  the trace of its HTTP calls and of its sleeps.
\<close>

section \<open>The surroundings\<close>

text \<open>
  An HTTP answer: the status, the header mapping, the chunks of the body, and the class of the
  \<open>httpx.RequestError\<close> that breaks the stream after them, if one does.
\<close>

record http_response =
  hr_status_code :: int
  hr_headers :: "(ustr \<times> ustr) list"
  hr_chunks :: "nat list list"
  hr_broken :: "ustr option"

datatype http_result = HttpAnswer http_response | HttpRequestError ustr | HttpRaises exn

record world =
  w_uuid :: "nat \<Rightarrow> ustr"
  w_clock :: "nat \<Rightarrow> int"
  w_http :: "nat \<Rightarrow> request_spec \<Rightarrow> http_result"
  w_disk :: "nat \<Rightarrow> disk_usage"
  w_put :: "nat \<Rightarrow> put_env"
  w_before_request :: "nat \<Rightarrow> exn option"
  w_db :: "nat \<Rightarrow> db_call"

record 'l fetch_state =
  fs_ledger :: 'l
  fs_files :: files
  fs_tick :: nat
  fs_calls :: "request_spec list"
  fs_sleeps :: "rat list"

definition draw :: "(nat \<Rightarrow> 'a) \<Rightarrow> ('l fetch_state, exn, 'a) action" where
  "draw f s = (Inr (f (fs_tick s)), s\<lparr>fs_tick := Suc (fs_tick s)\<rparr>)"

definition ledger_call ::
    "world \<Rightarrow> (db_call \<Rightarrow> ('l, exn, unit) action) \<Rightarrow> ('l fetch_state, exn, unit) action" where
  "ledger_call w op s =
     (case op (w_db w (fs_tick s)) (fs_ledger s) of
        (r, l') \<Rightarrow> (r, s\<lparr>fs_ledger := l', fs_tick := Suc (fs_tick s)\<rparr>))"

definition store_put :: "pyenv \<Rightarrow> world \<Rightarrow> nat list \<Rightarrow> ('l fetch_state, exn, stored_raw_object) action" where
  "store_put P w content s =
     (case put P (w_put w (fs_tick s)) content (fs_files s) of
        (r, f) \<Rightarrow> (r, s\<lparr>fs_files := f, fs_tick := Suc (fs_tick s)\<rparr>))"

definition http_call :: "world \<Rightarrow> request_spec \<Rightarrow> ('l fetch_state, exn, http_result) action" where
  "http_call w request s =
     (Inr (w_http w (fs_tick s) request),
      s\<lparr>fs_tick := Suc (fs_tick s), fs_calls := fs_calls s @ [request]\<rparr>)"

definition sleeper :: "rat \<Rightarrow> ('l fetch_state, exn, unit) action" where
  "sleeper delay s = (Inr (), s\<lparr>fs_sleeps := fs_sleeps s @ [delay]\<rparr>)"

section \<open>Settings\<close>

definition retryable_http_statuses :: "int list" where
  "retryable_http_statuses = [408, 425, 429, 500, 502, 503, 504]"

record retry_policy =
  rt_max_attempts :: int
  rt_max_retry_after_seconds :: rat

definition check_retry_policy :: "retry_policy \<Rightarrow> exn + unit" where
  "check_retry_policy p =
     (if rt_max_attempts p < 1
      then Inl (Exn ValueError (u ''max_attempts must be at least 1''))
      else if rt_max_retry_after_seconds p < 0
      then Inl (Exn ValueError (u ''max_retry_after_seconds cannot be negative''))
      else Inr ())"

record fetch_engine =
  fe_retry_policy :: retry_policy
  fe_max_response_bytes :: int
  fe_raw_min_free_bytes :: int
  fe_raw_max_used_fraction :: rat

definition check_fetch_engine :: "fetch_engine \<Rightarrow> exn + unit" where
  "check_fetch_engine E =
     (if fe_max_response_bytes E < 1
      then Inl (Exn ValueError (u ''max_response_bytes must be positive''))
      else if fe_raw_min_free_bytes E < 0
      then Inl (Exn ValueError (u ''raw_min_free_bytes cannot be negative''))
      else if \<not> (0 < fe_raw_max_used_fraction E \<and> fe_raw_max_used_fraction E < 1)
      then Inl (Exn ValueError (u ''raw_max_used_fraction must be between zero and one''))
      else Inr ())"

definition fetch_run_error :: "ustr \<Rightarrow> exn" where
  "fetch_run_error code = Exn FetchRunError code"

text \<open>
  \<open>_retry_delay\<close>. A finite number is exact here where the program rounds it to a float;
  \<open>max(0.0, nan)\<close> is \<open>0.0\<close>.
\<close>

definition retry_delay :: "pyenv \<Rightarrow> fetch_engine \<Rightarrow> nat \<Rightarrow> ustr option \<Rightarrow> int \<Rightarrow> rat" where
  "retry_delay P E attempt_no retry_after observed_at =
     (let cap = rt_max_retry_after_seconds (fe_retry_policy E);
          backoff = min cap (2 ^ (attempt_no - 1))
      in case retry_after of
           None \<Rightarrow> backoff
         | Some value \<Rightarrow>
             if value = [] then backoff
             else (case py_float P value of
               Some (Finite r) \<Rightarrow> min cap (max 0 r)
             | Some PosInf \<Rightarrow> cap
             | Some _ \<Rightarrow> min cap 0
             | None \<Rightarrow>
                 (case parse_http_date P value of
                    None \<Rightarrow> backoff
                  | Some retry_at \<Rightarrow> min cap (max 0 (of_int (retry_at - observed_at))))))"

section \<open>Reading a response\<close>

datatype body_result = Body "nat list" | TooLarge | StreamError ustr

fun read_chunks :: "int \<Rightarrow> int \<Rightarrow> nat list \<Rightarrow> nat list list \<Rightarrow> ustr option \<Rightarrow> body_result" where
  "read_chunks limit so_far got [] broken =
     (case broken of None \<Rightarrow> Body got | Some cls \<Rightarrow> StreamError cls)"
| "read_chunks limit so_far got (chunk # chunks) broken =
     (if so_far + int (length chunk) > limit then TooLarge
      else read_chunks limit (so_far + int (length chunk)) (got @ chunk) chunks broken)"

definition declared_length :: "ustr option \<Rightarrow> int option" where
  "declared_length header =
     (case header of
        None \<Rightarrow> None
      | Some v \<Rightarrow>
          if v = [] then None
          else Some (case py_int v of None \<Rightarrow> 0 | Some n \<Rightarrow> n))"

definition read_limited :: "fetch_engine \<Rightarrow> http_response \<Rightarrow> body_result" where
  "read_limited E response =
     (if (case declared_length (map_of (hr_headers response) (u ''content-length'')) of
            None \<Rightarrow> False | Some n \<Rightarrow> n > fe_max_response_bytes E)
      then TooLarge
      else read_chunks (fe_max_response_bytes E) 0 [] (hr_chunks response) (hr_broken response))"

definition success_status :: "int \<Rightarrow> bool" where
  "success_status status \<longleftrightarrow> 200 \<le> status \<and> status < 300"

text \<open>What the \<open>with\<close> block of one attempt ends in.\<close>

datatype exchange =
    Received int "(ustr \<times> ustr) list" ustr "nat list"
  | Oversize int "(ustr \<times> ustr) list"
  | Transport ustr
  | Escapes exn

definition exchange_of :: "pyenv \<Rightarrow> fetch_engine \<Rightarrow> http_result \<Rightarrow> exchange" where
  "exchange_of P E result =
     (case result of
        HttpRequestError cls \<Rightarrow> Transport cls
      | HttpRaises e \<Rightarrow> Escapes e
      | HttpAnswer response \<Rightarrow>
          let status = hr_status_code response;
              headers = safe_response_headers P (hr_headers response);
              content_type = (case map_of (hr_headers response) (u ''content-type'') of
                                None \<Rightarrow> u ''application/octet-stream'' | Some v \<Rightarrow> v)
          in if \<not> success_status status then Received status headers content_type []
             else case read_limited E response of
               Body content \<Rightarrow> Received status headers content_type content
             | TooLarge \<Rightarrow> Oversize status headers
             | StreamError cls \<Rightarrow> Transport cls)"

section \<open>One attempt\<close>

text \<open>\<open>_snapshot_id\<close>.\<close>

definition namespace_url :: ustr where
  "namespace_url = u ''6ba7b811-9dad-11d1-80b4-00c04fd430c8''"

definition snapshot_id_of :: "pyenv \<Rightarrow> ustr \<Rightarrow> ustr \<Rightarrow> ustr" where
  "snapshot_id_of P source_id content_sha256 =
     uuid5 P (uuid5 P namespace_url (u ''https://jobtology.dev/source-snapshot''))
       (source_id @ u '':'' @ content_sha256)"

text \<open>The values an attempt is recorded with.\<close>

record attempt_context =
  ax_observation_id :: ustr
  ax_connector_run_id :: ustr
  ax_request :: request_spec
  ax_fingerprint :: ustr
  ax_request_url :: ustr
  ax_attempt_no :: nat
  ax_requested_at :: int
  ax_retrieved_at :: int

definition failed_attempt ::
    "attempt_context \<Rightarrow> int option \<Rightarrow> (ustr \<times> ustr) list \<Rightarrow> observation_outcome \<Rightarrow> ustr
     \<Rightarrow> fetch_attempt" where
  "failed_attempt ax status headers outcome error_code =
     \<lparr>at_observation_id = ax_observation_id ax,
      at_connector_run_id = ax_connector_run_id ax,
      at_source_id = rq_source_id (ax_request ax),
      at_request_fingerprint = ax_fingerprint ax,
      at_partition_id = rq_partition_id (ax_request ax),
      at_page_number = rq_page_number (ax_request ax),
      at_response_ordinal = rq_response_ordinal (ax_request ax),
      at_attempt_no = ax_attempt_no ax,
      at_requested_at = ax_requested_at ax,
      at_retrieved_at = ax_retrieved_at ax,
      at_http_status = status,
      at_request_url_redacted = ax_request_url ax,
      at_response_headers = headers,
      at_outcome = outcome,
      at_error_code = Some (take 100 error_code),
      at_snapshot_id = None,
      at_selected = False\<rparr>"

definition record_failure ::
    "world \<Rightarrow> 'l fetch_ledger \<Rightarrow> attempt_context \<Rightarrow> int option \<Rightarrow> (ustr \<times> ustr) list
     \<Rightarrow> observation_outcome \<Rightarrow> ustr \<Rightarrow> ('l fetch_state, exn, unit) action" where
  "record_failure w L ax status headers outcome error_code =
     ledger_call w (\<lambda>call. lg_record_attempt L call
       (failed_attempt ax status headers outcome error_code) None)"

definition mime_type_of :: "pyenv \<Rightarrow> ustr \<Rightarrow> ustr" where
  "mime_type_of P content_type = casefold P (strip (hd (split_on 59 content_type)))"

definition fetched_snapshot ::
    "pyenv \<Rightarrow> connector \<Rightarrow> attempt_context \<Rightarrow> ustr \<Rightarrow> stored_raw_object \<Rightarrow> source_snapshot" where
  "fetched_snapshot P cn ax content_type stored =
     \<lparr>sn_snapshot_id = snapshot_id_of P (cn_source_id cn) (st_content_sha256 stored),
      sn_source_id = cn_source_id cn,
      sn_content_sha256 = st_content_sha256 stored,
      sn_byte_length = st_byte_length stored,
      sn_mime_type = mime_type_of P content_type,
      sn_raw_object_path = st_relative_path stored,
      sn_first_observed_at = ax_retrieved_at ax\<rparr>"

definition successful_attempt ::
    "connector \<Rightarrow> attempt_context \<Rightarrow> int \<Rightarrow> (ustr \<times> ustr) list \<Rightarrow> source_snapshot \<Rightarrow> fetch_attempt"
where
  "successful_attempt cn ax status headers snapshot =
     \<lparr>at_observation_id = ax_observation_id ax,
      at_connector_run_id = ax_connector_run_id ax,
      at_source_id = cn_source_id cn,
      at_request_fingerprint = ax_fingerprint ax,
      at_partition_id = rq_partition_id (ax_request ax),
      at_page_number = rq_page_number (ax_request ax),
      at_response_ordinal = rq_response_ordinal (ax_request ax),
      at_attempt_no = ax_attempt_no ax,
      at_requested_at = ax_requested_at ax,
      at_retrieved_at = ax_retrieved_at ax,
      at_http_status = Some status,
      at_request_url_redacted = ax_request_url ax,
      at_response_headers = headers,
      at_outcome = SELECTED_SUCCESS,
      at_error_code = None,
      at_snapshot_id = Some (sn_snapshot_id snapshot),
      at_selected = True\<rparr>"

text \<open>
  The part of an attempt before the call: the callback, the capacity check, the identifier and the
  time. Then the part after it, by what came back. \<open>None\<close> is \<open>continue\<close>.
\<close>

definition prepare_attempt ::
    "world \<Rightarrow> fetch_engine \<Rightarrow> ('l fetch_state, exn, ustr \<times> int) action" where
  "prepare_attempt w E =
     abind (draw (w_before_request w)) (\<lambda>before.
       case before of Some e \<Rightarrow> araise e | None \<Rightarrow>
     abind (draw (w_disk w)) (\<lambda>usage.
       case ensure_capacity usage (fe_max_response_bytes E) (fe_raw_min_free_bytes E)
              (fe_raw_max_used_fraction E) of
         Inl e \<Rightarrow> araise (fetch_run_error (u ''RAW_CAPACITY''))
       | Inr _ \<Rightarrow>
     abind (draw (w_uuid w)) (\<lambda>observation_id.
     abind (draw (w_clock w)) (\<lambda>requested_at.
       areturn (observation_id, requested_at)))))"

definition store_error :: "exn \<Rightarrow> bool" where
  "store_error e = (case e of Exn c _ \<Rightarrow> c = OSError \<or> c = RawObjectIntegrityError)"

definition keep_response ::
    "pyenv \<Rightarrow> world \<Rightarrow> 'l fetch_ledger \<Rightarrow> connector \<Rightarrow> attempt_context \<Rightarrow> int
     \<Rightarrow> (ustr \<times> ustr) list \<Rightarrow> ustr \<Rightarrow> nat list \<Rightarrow> ('l fetch_state, exn, page_metadata option) action"
where
  "keep_response P w L cn ax status headers content_type content =
     (case cn_validate_response cn (ax_request ax) content content_type of
        Inl e \<Rightarrow>
          if is_value_error e then
            abind (record_failure w L ax (Some status) headers RESPONSE_INVALID (type_name e))
              (\<lambda>_. araise (fetch_run_error (u ''RESPONSE_INVALID'')))
          else araise e
      | Inr metadata \<Rightarrow> (\<lambda>s.
          case store_put P w content s of
            (Inl e, s1) \<Rightarrow>
              if store_error e then
                abind (record_failure w L ax (Some status) headers STORAGE_ERROR (type_name e))
                  (\<lambda>_. araise (fetch_run_error (u ''STORAGE_ERROR''))) s1
              else (Inl e, s1)
          | (Inr stored, s1) \<Rightarrow>
              let snapshot = fetched_snapshot P cn ax content_type stored in
              abind (ledger_call w (\<lambda>call. lg_record_attempt L call
                       (successful_attempt cn ax status headers snapshot) (Some snapshot)))
                (\<lambda>_. areturn (Some metadata)) s1))"

definition finish_attempt ::
    "pyenv \<Rightarrow> world \<Rightarrow> fetch_engine \<Rightarrow> 'l fetch_ledger \<Rightarrow> connector \<Rightarrow> attempt_context
     \<Rightarrow> exchange \<Rightarrow> ('l fetch_state, exn, page_metadata option) action" where
  "finish_attempt P w E L cn ax result =
     (let last_attempt = (int (ax_attempt_no ax) = rt_max_attempts (fe_retry_policy E)) in
      case result of
        Escapes e \<Rightarrow> araise e
      | Oversize status headers \<Rightarrow>
          abind (record_failure w L ax (Some status) headers RESPONSE_INVALID
                   (u ''RESPONSE_TOO_LARGE''))
            (\<lambda>_. araise (fetch_run_error (u ''RESPONSE_TOO_LARGE'')))
      | Transport cls \<Rightarrow>
          abind (record_failure w L ax None [] TRANSPORT_ERROR cls) (\<lambda>_.
            if last_attempt then araise (fetch_run_error cls)
            else abind (sleeper (retry_delay P E (ax_attempt_no ax) None (ax_retrieved_at ax)))
                   (\<lambda>_. areturn None))
      | Received status headers content_type content \<Rightarrow>
          if \<not> success_status status then
            let error_code = u ''HTTP_'' @ int_str status in
            abind (record_failure w L ax (Some status) headers HTTP_ERROR error_code) (\<lambda>_.
              if status \<notin> set retryable_http_statuses \<or> last_attempt
              then araise (fetch_run_error error_code)
              else abind (sleeper (retry_delay P E (ax_attempt_no ax)
                            (map_of headers (u ''retry-after'')) (ax_retrieved_at ax)))
                     (\<lambda>_. areturn None))
          else keep_response P w L cn ax status headers content_type content)"

text \<open>The body of the retry loop: the identifier of the attempt and, on success, the metadata.\<close>

definition fetch_once ::
    "pyenv \<Rightarrow> world \<Rightarrow> fetch_engine \<Rightarrow> 'l fetch_ledger \<Rightarrow> connector \<Rightarrow> ustr \<Rightarrow> request_spec \<Rightarrow> ustr
     \<Rightarrow> ustr \<Rightarrow> nat \<Rightarrow> ('l fetch_state, exn, ustr \<times> page_metadata option) action" where
  "fetch_once P w E L cn connector_run_id request fingerprint request_url attempt_no =
     abind (prepare_attempt w E) (\<lambda>(observation_id, requested_at).
     abind (http_call w request) (\<lambda>result.
       case exchange_of P E result of
         Escapes e \<Rightarrow> araise e
       | ex \<Rightarrow>
     abind (draw (w_clock w)) (\<lambda>retrieved_at.
     abind (finish_attempt P w E L cn
              \<lparr>ax_observation_id = observation_id, ax_connector_run_id = connector_run_id,
               ax_request = request, ax_fingerprint = fingerprint,
               ax_request_url = request_url, ax_attempt_no = attempt_no,
               ax_requested_at = requested_at, ax_retrieved_at = retrieved_at\<rparr> ex) (\<lambda>metadata.
       areturn (observation_id, metadata)))))"

record successful_request =
  sr_metadata :: page_metadata
  sr_attempt_ids :: "ustr list"
  sr_selected_observation_id :: ustr

text \<open>The retry loop; the first argument counts the attempts that are left.\<close>

primrec fetch_attempts ::
    "nat \<Rightarrow> pyenv \<Rightarrow> world \<Rightarrow> fetch_engine \<Rightarrow> 'l fetch_ledger \<Rightarrow> connector \<Rightarrow> ustr \<Rightarrow> request_spec
     \<Rightarrow> ustr \<Rightarrow> ustr \<Rightarrow> nat \<Rightarrow> ustr list \<Rightarrow> ('l fetch_state, exn, successful_request) action" where
  "fetch_attempts 0 P w E L cn run request fp url attempt_no ids =
     araise (Exn AssertionError (u ''retry loop exhausted without returning or raising''))"
| "fetch_attempts (Suc left) P w E L cn run request fp url attempt_no ids =
     abind (fetch_once P w E L cn run request fp url attempt_no) (\<lambda>(observation_id, metadata).
       case metadata of
         Some md \<Rightarrow> areturn \<lparr>sr_metadata = md, sr_attempt_ids = ids @ [observation_id],
                           sr_selected_observation_id = observation_id\<rparr>
       | None \<Rightarrow> fetch_attempts left P w E L cn run request fp url (Suc attempt_no)
                   (ids @ [observation_id]))"

definition fetch_request ::
    "pyenv \<Rightarrow> world \<Rightarrow> fetch_engine \<Rightarrow> 'l fetch_ledger \<Rightarrow> connector \<Rightarrow> request_spec \<Rightarrow> ustr \<Rightarrow> ustr
     \<Rightarrow> ('l fetch_state, exn, successful_request) action" where
  "fetch_request P w E L cn request fingerprint connector_run_id =
     abind (lift_result (redacted_url P request)) (\<lambda>request_url.
       fetch_attempts (nat (rt_max_attempts (fe_retry_policy E))) P w E L cn connector_run_id
         request fingerprint request_url 1 [])"


section \<open>One run\<close>

text \<open>
  The loop's variables: the queue, \<open>request_by_fingerprint\<close> with its keys \<open>known_fingerprints\<close>, and
  the identifiers collected so far.
\<close>

record progress =
  pr_queue :: "request_spec list"
  pr_known :: "(ustr \<times> request_spec) list"
  pr_attempt_ids :: "ustr list"
  pr_selected_ids :: "ustr list"

definition enqueue :: "pyenv \<Rightarrow> connector \<Rightarrow> progress \<Rightarrow> request_spec \<Rightarrow> exn + progress" where
  "enqueue P cn pr request =
     (if rq_source_id request \<noteq> cn_source_id cn
      then Inl (Exn ValueError (u ''Connector produced a request for a different source''))
      else
        rbind (validate_endpoint P (rq_url request) (cn_allowed_hosts cn)) (\<lambda>_.
        rbind (request_fingerprint P request) (\<lambda>fingerprint.
          if map_of (pr_known pr) fingerprint \<noteq> None then Inr pr
          else Inr (pr\<lparr>pr_queue := pr_queue pr @ [request],
                       pr_known := pr_known pr @ [(fingerprint, request)]\<rparr>))))"

definition fetch_next ::
    "pyenv \<Rightarrow> world \<Rightarrow> fetch_engine \<Rightarrow> 'l fetch_ledger \<Rightarrow> connector \<Rightarrow> ustr \<Rightarrow> int option \<Rightarrow> progress
     \<Rightarrow> ('l fetch_state, exn, progress) action" where
  "fetch_next P w E L cn run max_pages pr =
     (let request = hd (pr_queue pr) in
      abind (lift_result (request_fingerprint P request)) (\<lambda>fingerprint.
      abind (lift_result (redacted_url P request)) (\<lambda>url.
      abind (ledger_call w (\<lambda>call. lg_plan_request L call run fingerprint
               (rq_partition_id request) (rq_page_number request) url)) (\<lambda>_.
      abind (fetch_request P w E L cn request fingerprint run) (\<lambda>fetched.
      abind (lift_result (cn_remaining_requests cn request (sr_metadata fetched) max_pages))
        (\<lambda>discovered.
      lift_result (rfold (enqueue P cn)
        (pr\<lparr>pr_queue := tl (pr_queue pr),
            pr_attempt_ids := pr_attempt_ids pr @ sr_attempt_ids fetched,
            pr_selected_ids := pr_selected_ids pr @ [sr_selected_observation_id fetched]\<rparr>)
        discovered)))))))"

text \<open>\<open>while queue\<close>: \<open>None\<close> would be a loop that never ends.\<close>

partial_function (option) fetch_queue ::
    "pyenv \<Rightarrow> world \<Rightarrow> fetch_engine \<Rightarrow> 'l fetch_ledger \<Rightarrow> connector \<Rightarrow> ustr \<Rightarrow> int option \<Rightarrow> progress
     \<Rightarrow> 'l fetch_state \<Rightarrow> ((exn + progress) \<times> 'l fetch_state) option" where
  "fetch_queue env w E L cn run max_pages pr s =
     (if pr_queue pr = [] then Some (Inr pr, s)
      else (case fetch_next env w E L cn run max_pages pr s of
              (Inl e, s') \<Rightarrow> Some (Inl e, s')
            | (Inr pr', s') \<Rightarrow> fetch_queue env w E L cn run max_pages pr' s'))"

record fetch_summary =
  fm_run_id :: ustr
  fm_connector_run_id :: ustr
  fm_source_id :: ustr
  fm_mode :: run_mode
  fm_planned_request_count :: nat
  fm_successful_request_count :: nat
  fm_attempt_count :: nat

definition error_code_of :: "exn \<Rightarrow> ustr" where
  "error_code_of e = (case e of Exn c t \<Rightarrow> if c = FetchRunError then t else type_name e)"

definition as_fetch_error :: "exn \<Rightarrow> exn" where
  "as_fetch_error e =
     (case e of Exn c _ \<Rightarrow>
        if c = FetchRunError \<or> is_value_error e then e else fetch_run_error (type_name e))"

text \<open>The \<open>except\<close> block: a failure to record the failure is swallowed.\<close>

definition on_error ::
    "world \<Rightarrow> 'l fetch_ledger \<Rightarrow> ustr \<Rightarrow> exn \<Rightarrow> 'l fetch_state \<Rightarrow> (exn + 'a) \<times> 'l fetch_state" where
  "on_error w L run e s =
     (case ledger_call w (\<lambda>call. lg_fail_run L call run (error_code_of e)) s of
        (_, s') \<Rightarrow> (Inl (as_fetch_error e), s'))"

definition fetch_started ::
    "pyenv \<Rightarrow> world \<Rightarrow> fetch_engine \<Rightarrow> 'l fetch_ledger \<Rightarrow> connector \<Rightarrow> run_mode \<Rightarrow> ustr \<Rightarrow> ustr
     \<Rightarrow> int option \<Rightarrow> progress \<Rightarrow> 'l fetch_state \<Rightarrow> ((exn + fetch_summary) \<times> 'l fetch_state) option"
where
  "fetch_started P w E L cn mode run_id run max_pages pr0 s =
     (case fetch_queue P w E L cn run max_pages pr0 s of
        None \<Rightarrow> None
      | Some (Inl e, s1) \<Rightarrow> Some (on_error w L run e s1)
      | Some (Inr pr, s1) \<Rightarrow>
          (case ledger_call w (\<lambda>call. lg_mark_fetch_complete L call run
                  (int (length (pr_known pr))) (int (length (pr_selected_ids pr)))
                  (pr_attempt_ids pr) (pr_selected_ids pr)) s1 of
             (Inl e, s2) \<Rightarrow> Some (on_error w L run e s2)
           | (Inr _, s2) \<Rightarrow>
               Some (Inr \<lparr>fm_run_id = run_id, fm_connector_run_id = run,
                          fm_source_id = cn_source_id cn, fm_mode = mode,
                          fm_planned_request_count = length (pr_known pr),
                          fm_successful_request_count = length (pr_selected_ids pr),
                          fm_attempt_count = length (pr_attempt_ids pr)\<rparr>, s2)))"

definition given_or_uuid :: "world \<Rightarrow> ustr option \<Rightarrow> ('l fetch_state, exn, ustr) action" where
  "given_or_uuid w given =
     (case given of
        Some i \<Rightarrow> if i \<noteq> [] then areturn i else draw (w_uuid w)
      | None \<Rightarrow> draw (w_uuid w))"

text \<open>The part of \<open>run\<close> before the ledger hears of it.\<close>

definition fetch_setup ::
    "pyenv \<Rightarrow> world \<Rightarrow> connector \<Rightarrow> ustr option \<Rightarrow> ustr option
     \<Rightarrow> ('l fetch_state, exn, ustr \<times> ustr \<times> progress) action" where
  "fetch_setup P w cn run_id connector_run_id =
     abind (given_or_uuid w run_id) (\<lambda>r.
     abind (given_or_uuid w connector_run_id) (\<lambda>run.
       if cn_initial_requests cn = []
       then araise (Exn ValueError (u ''produced no initial requests''))
       else abind (lift_result (rfold (enqueue P cn)
              \<lparr>pr_queue = [], pr_known = [], pr_attempt_ids = [], pr_selected_ids = []\<rparr>
              (cn_initial_requests cn))) (\<lambda>pr. areturn (r, run, pr))))"

definition fetch_run ::
    "pyenv \<Rightarrow> world \<Rightarrow> fetch_engine \<Rightarrow> 'l fetch_ledger \<Rightarrow> connector \<Rightarrow> run_mode \<Rightarrow> ustr option
     \<Rightarrow> ustr option \<Rightarrow> int option \<Rightarrow> 'l fetch_state
     \<Rightarrow> ((exn + fetch_summary) \<times> 'l fetch_state) option" where
  "fetch_run P w E L cn mode run_id connector_run_id max_pages s =
     (if (case max_pages of None \<Rightarrow> False | Some m \<Rightarrow> m < 1)
      then Some (Inl (Exn ValueError (u ''max_pages must be at least 1'')), s)
      else if mode = SCHEDULED_FULL \<and> max_pages \<noteq> None
      then Some (Inl (Exn ValueError (u ''SCHEDULED_FULL runs cannot cap pagination'')), s)
      else (case fetch_setup P w cn run_id connector_run_id s of
              (Inl e, s1) \<Rightarrow> Some (Inl e, s1)
            | (Inr (r, run, pr), s1) \<Rightarrow>
                (case ledger_call w (\<lambda>call. lg_start_run L call run r (cn_source_id cn) mode) s1 of
                   (Inl e, s2) \<Rightarrow> Some (Inl (as_fetch_error e), s2)
                 | (Inr _, s2) \<Rightarrow> fetch_started P w E L cn mode r run max_pages pr s2)))"

text \<open>\<open>planned_requests\<close>: the first requests, their endpoints checked.\<close>

definition planned_requests :: "pyenv \<Rightarrow> connector \<Rightarrow> exn + request_spec list" where
  "planned_requests P cn =
     rbind (rall (\<lambda>r. validate_endpoint P (rq_url r) (cn_allowed_hosts cn)) (cn_initial_requests cn))
       (\<lambda>_. Inr (cn_initial_requests cn))"

section \<open>What one attempt changes\<close>

text \<open>Steps that touch neither the ledger nor the trace.\<close>

definition quiet :: "'l fetch_state \<Rightarrow> 'l fetch_state \<Rightarrow> bool" where
  "quiet s s' \<longleftrightarrow> fs_ledger s' = fs_ledger s \<and> fs_calls s' = fs_calls s \<and> fs_sleeps s' = fs_sleeps s"

lemma quiet_refl [simp]: "quiet s s"
  by (simp add: quiet_def)

lemma draw_quiet: "draw f s = (r, s') \<Longrightarrow> quiet s s' \<and> (\<exists>v. r = Inr v)"
  by (auto simp: draw_def quiet_def)

lemma store_put_quiet: "store_put P w c s = (r, s') \<Longrightarrow> quiet s s'"
  by (auto simp: store_put_def quiet_def split: prod.splits)

lemma prepare_attempt_quiet:
  assumes "prepare_attempt w E s = (r, s')"
  shows "quiet s s'"
  using assms
  by (auto simp: prepare_attempt_def abind_def draw_def quiet_def
      split: option.splits sum.splits)

text \<open>The sleep between attempts is never negative and never above the cap.\<close>

lemma retry_delay_bounds:
  assumes "0 \<le> rt_max_retry_after_seconds (fe_retry_policy E)"
  shows "0 \<le> retry_delay P E n h t"
    and "retry_delay P E n h t \<le> rt_max_retry_after_seconds (fe_retry_policy E)"
  using assms by (auto simp: retry_delay_def Let_def split: option.splits pyfloat.splits)

definition capped :: "fetch_engine \<Rightarrow> rat list \<Rightarrow> bool" where
  "capped E ds \<longleftrightarrow>
     (\<forall>d \<in> set ds. 0 \<le> d \<and> d \<le> rt_max_retry_after_seconds (fe_retry_policy E))"

text \<open>
  The attempt as the ledger shows it: of this run and request, with this number and verdict.
\<close>

definition attempt_of :: "ustr \<Rightarrow> ustr \<Rightarrow> nat \<Rightarrow> bool \<Rightarrow> fetch_attempt \<Rightarrow> bool" where
  "attempt_of run fp n sel a \<longleftrightarrow>
     at_connector_run_id a = run \<and> at_request_fingerprint a = fp \<and> at_attempt_no a = n
     \<and> at_selected a = sel"

text \<open>
  The attempts of a request that was fetched: numbered from one, at most as many as the policy
  allows, all but the last unselected, the last selected.
\<close>

definition complete_group :: "int \<Rightarrow> ustr \<Rightarrow> ustr \<Rightarrow> fetch_attempt list \<Rightarrow> bool" where
  "complete_group max_attempts run fp as \<longleftrightarrow>
     as \<noteq> [] \<and> int (length as) \<le> max_attempts
     \<and> map at_attempt_no as = [1..<Suc (length as)]
     \<and> (\<forall>a \<in> set as. at_connector_run_id a = run \<and> at_request_fingerprint a = fp)
     \<and> at_selected (last as) \<and> (\<forall>a \<in> set (butlast as). \<not> at_selected a)"

section \<open>The queue\<close>

text \<open>A request the engine accepted: of the connector's source, at an allowed endpoint.\<close>

definition accepted :: "pyenv \<Rightarrow> connector \<Rightarrow> ustr \<times> request_spec \<Rightarrow> bool" where
  "accepted P cn e \<longleftrightarrow>
     request_fingerprint P (snd e) = Inr (fst e) \<and> rq_source_id (snd e) = cn_source_id cn
     \<and> validate_endpoint P (rq_url (snd e)) (cn_allowed_hosts cn) = Inr ()"

text \<open>
  The requests accepted so far are those fetched followed by those waiting, in the order they came;
  no fingerprint is there twice.
\<close>

definition queue_inv :: "pyenv \<Rightarrow> connector \<Rightarrow> (ustr \<times> request_spec) list \<Rightarrow> progress \<Rightarrow> bool" where
  "queue_inv P cn fetched pr \<longleftrightarrow>
     (\<exists>waiting. pr_known pr = fetched @ waiting \<and> map snd waiting = pr_queue pr)
     \<and> distinct (map fst (pr_known pr)) \<and> (\<forall>e \<in> set (pr_known pr). accepted P cn e)"

lemma enqueue_effect:
  assumes "enqueue P cn pr request = Inr pr'"
  obtains (known) "pr' = pr" "\<exists>fp. request_fingerprint P request = Inr fp \<and> fp \<in> fst ` set (pr_known pr)"
  | (new) fp where "request_fingerprint P request = Inr fp" "fp \<notin> fst ` set (pr_known pr)"
      "accepted P cn (fp, request)"
      "pr' = pr\<lparr>pr_queue := pr_queue pr @ [request], pr_known := pr_known pr @ [(fp, request)]\<rparr>"
proof -
  from assms obtain fp x where fp: "request_fingerprint P request = Inr fp"
    and src: "rq_source_id request = cn_source_id cn"
    and v: "validate_endpoint P (rq_url request) (cn_allowed_hosts cn) = Inr x"
    and pr': "(if map_of (pr_known pr) fp \<noteq> None then Inr pr
          else Inr (pr\<lparr>pr_queue := pr_queue pr @ [request],
                       pr_known := pr_known pr @ [(fp, request)]\<rparr>)) = Inr pr'"
    by (auto simp: enqueue_def rbind_Inr_iff split: if_splits)
  have acc: "accepted P cn (fp, request)" using fp src v by (simp add: accepted_def)
  show ?thesis
  proof (cases "map_of (pr_known pr) fp = None")
    case True
    then have "fp \<notin> fst ` set (pr_known pr)" by (simp add: map_of_eq_None_iff)
    then show ?thesis using new fp acc pr' True by simp
  next
    case False
    then have "fp \<in> fst ` set (pr_known pr)" by (meson map_of_eq_None_iff)
    then show ?thesis using known fp pr' False by auto
  qed
qed

lemma enqueue_inv:
  assumes "enqueue P cn pr request = Inr pr'" and "queue_inv P cn fetched pr"
  shows "queue_inv P cn fetched pr'"
  using assms(1)
proof (cases rule: enqueue_effect)
  case (new fp)
  with assms(2) obtain waiting where w: "pr_known pr = fetched @ waiting" "map snd waiting = pr_queue pr"
    by (auto simp: queue_inv_def)
  then have "pr_known pr' = fetched @ (waiting @ [(fp, request)])"
      "map snd (waiting @ [(fp, request)]) = pr_queue pr'" using new(4) by simp_all
  moreover have "distinct (map fst (pr_known pr'))" "\<forall>e \<in> set (pr_known pr'). accepted P cn e"
    using assms(2) new by (auto simp: queue_inv_def)
  ultimately show ?thesis unfolding queue_inv_def by blast
qed (use assms(2) in simp)

lemma enqueue_ids:
  assumes "enqueue P cn pr request = Inr pr'"
  shows "pr_attempt_ids pr' = pr_attempt_ids pr \<and> pr_selected_ids pr' = pr_selected_ids pr"
  using assms by (cases rule: enqueue_effect) simp_all

lemma enqueue_all_inv:
  assumes "rfold (enqueue P cn) pr rs = Inr pr'" and "queue_inv P cn fetched pr"
  shows "queue_inv P cn fetched pr' \<and> pr_attempt_ids pr' = pr_attempt_ids pr
    \<and> pr_selected_ids pr' = pr_selected_ids pr"
  using assms
proof (induction rs arbitrary: pr)
  case (Cons r rs)
  from Cons.prems(1) obtain pr1 where pr1: "enqueue P cn pr r = Inr pr1"
    and rest: "rfold (enqueue P cn) pr1 rs = Inr pr'" by (auto simp: rbind_Inr_iff)
  from Cons.IH [OF rest enqueue_inv [OF pr1 Cons.prems(2)]] enqueue_ids [OF pr1] show ?case by simp
qed simp

text \<open>Everything enqueued is known afterwards, and nothing known is forgotten.\<close>

lemma enqueue_all_known:
  assumes "rfold (enqueue P cn) pr rs = Inr pr'"
  shows "fst ` set (pr_known pr) \<subseteq> fst ` set (pr_known pr')
    \<and> (\<forall>r \<in> set rs. \<exists>fp. request_fingerprint P r = Inr fp \<and> fp \<in> fst ` set (pr_known pr'))"
  using assms
proof (induction rs arbitrary: pr)
  case (Cons r rs)
  from Cons.prems(1) obtain pr1 where pr1: "enqueue P cn pr r = Inr pr1"
    and rest: "rfold (enqueue P cn) pr1 rs = Inr pr'" by (auto simp: rbind_Inr_iff)
  have "fst ` set (pr_known pr) \<subseteq> fst ` set (pr_known pr1)
      \<and> (\<exists>fp. request_fingerprint P r = Inr fp \<and> fp \<in> fst ` set (pr_known pr1))"
    using pr1 by (cases rule: enqueue_effect) auto
  with Cons.IH [OF rest] show ?case
    unfolding list.set ball_simps by (meson subset_iff)
qed simp

text \<open>The metadata of a fetched request come from an accepted response to it.\<close>

lemma finish_attempt_validated:
  assumes "finish_attempt P w E L cn ax ex s = (Inr (Some md), s')"
  shows "\<exists>content ct. cn_validate_response cn (ax_request ax) content ct = Inr md"
proof (cases ex)
  case (Received code headers ct content)
  show ?thesis
  proof (cases "success_status code")
    case True
    with assms Received have "keep_response P w L cn ax code headers ct content s = (Inr (Some md), s')"
      by (simp add: finish_attempt_def)
    then show ?thesis
      by (cases "cn_validate_response cn (ax_request ax) content ct")
        (auto simp: keep_response_def abind_Inr_iff Let_def split: if_splits prod.splits sum.splits)
  next
    case False
    with assms Received show ?thesis
      by (auto simp: finish_attempt_def Let_def abind_Inr_iff split: if_splits)
  qed
qed (use assms in \<open>auto simp: finish_attempt_def Let_def abind_Inr_iff split: if_splits\<close>)

lemma fetch_once_validated:
  assumes "fetch_once P w E L cn run request fp url n s = (Inr (oid, Some md), s')"
  shows "\<exists>content ct. cn_validate_response cn request content ct = Inr md"
proof -
  from assms obtain a b s1 s2 x where
    "(case exchange_of P E x of Escapes e \<Rightarrow> araise e
       | ex \<Rightarrow> abind (draw (w_clock w)) (\<lambda>t. abind (finish_attempt P w E L cn
              \<lparr>ax_observation_id = a, ax_connector_run_id = run, ax_request = request,
               ax_fingerprint = fp, ax_request_url = url, ax_attempt_no = n,
               ax_requested_at = b, ax_retrieved_at = t\<rparr> ex) (\<lambda>m. areturn (a, m)))) s2
      = (Inr (oid, Some md), s')"
    by (fastforce simp: fetch_once_def abind_Inr_iff)
  then obtain t ex s3 where "finish_attempt P w E L cn
              \<lparr>ax_observation_id = a, ax_connector_run_id = run, ax_request = request,
               ax_fingerprint = fp, ax_request_url = url, ax_attempt_no = n,
               ax_requested_at = b, ax_retrieved_at = t\<rparr> ex s3 = (Inr (Some md), s')"
    by (cases "exchange_of P E x") (auto simp: abind_Inr_iff)
  from finish_attempt_validated [OF this] show ?thesis by simp
qed

lemma fetch_attempts_validated:
  assumes "fetch_attempts left P w E L cn run request fp url n ids s = (Inr sr, s')"
  shows "\<exists>content ct. cn_validate_response cn request content ct = Inr (sr_metadata sr)"
  using assms
proof (induction left arbitrary: n ids s)
  case (Suc left)
  from Suc.prems obtain oid md s1 where
    o: "fetch_once P w E L cn run request fp url n s = (Inr (oid, md), s1)"
    by (auto simp: abind_Inr_iff)
  show ?case
  proof (cases md)
    case None
    with Suc.prems o Suc.IH show ?thesis by (auto simp: abind_def)
  next
    case (Some m)
    with Suc.prems o have "sr_metadata sr = m" by (simp add: abind_def) auto
    with fetch_once_validated [OF o [unfolded Some]] show ?thesis by blast
  qed
qed simp

text \<open>
  What following a fetched request means: the further requests that the connector derives from an
  accepted response to it are known.
\<close>

definition expanded ::
    "pyenv \<Rightarrow> connector \<Rightarrow> int option \<Rightarrow> ustr set \<Rightarrow> ustr \<times> request_spec \<Rightarrow> bool" where
  "expanded P cn max_pages known e \<longleftrightarrow>
     (\<exists>content ct md ds. cn_validate_response cn (snd e) content ct = Inr md
        \<and> cn_remaining_requests cn (snd e) md max_pages = Inr ds
        \<and> (\<forall>d \<in> set ds. \<exists>fp. request_fingerprint P d = Inr fp \<and> fp \<in> known))"

lemma expanded_mono: "expanded P cn mp A e \<Longrightarrow> A \<subseteq> B \<Longrightarrow> expanded P cn mp B e"
  unfolding expanded_def by (meson subset_iff)

lemma fetch_next_expands:
  assumes "fetch_next P w E L cn run mp pr s = (Inr pr', s')"
  shows "expanded P cn mp (fst ` set (pr_known pr')) (fp, hd (pr_queue pr))"
    and "fst ` set (pr_known pr) \<subseteq> fst ` set (pr_known pr')"
proof -
  define q where "q = hd (pr_queue pr)"
  from assms obtain f fp' s1 s2 ds pr1 where
    f: "fetch_request P w E L cn q fp' run s1 = (Inr f, s2)" and
    ds: "cn_remaining_requests cn q (sr_metadata f) mp = Inr ds" and
    e: "rfold (enqueue P cn) pr1 ds = Inr pr'" and pr1: "pr_known pr1 = pr_known pr"
    by (fastforce simp: fetch_next_def Let_def abind_Inr_iff q_def [symmetric])
  from f obtain content ct where "cn_validate_response cn q content ct = Inr (sr_metadata f)"
    by (auto simp: fetch_request_def abind_Inr_iff dest!: fetch_attempts_validated)
  with ds enqueue_all_known [OF e] show "expanded P cn mp (fst ` set (pr_known pr')) (fp, hd (pr_queue pr))"
    unfolding expanded_def q_def [symmetric] snd_conv by blast
  show "fst ` set (pr_known pr) \<subseteq> fst ` set (pr_known pr')"
    using enqueue_all_known [OF e] pr1 by simp
qed

lemma given_or_uuid_quiet: "given_or_uuid w g s = (r, s') \<Longrightarrow> quiet s s'"
  by (auto simp: given_or_uuid_def draw_def quiet_def split: option.splits if_splits)

lemma fetch_setup_quiet:
  assumes "fetch_setup P w cn r0 c0 s = (res, s')"
  shows "quiet s s'"
proof -
  obtain r1 s1 where a: "given_or_uuid w r0 s = (r1, s1)" by fastforce
  obtain r2 s2 where b: "given_or_uuid w c0 s1 = (r2, s2)" by fastforce
  have "s' = s1 \<or> s' = s2"
    using assms a b by (auto simp: fetch_setup_def abind_def split: sum.splits if_splits)
  then show ?thesis using given_or_uuid_quiet [OF a] given_or_uuid_quiet [OF b] by (auto simp: quiet_def)
qed

lemma fetch_setup_progress:
  assumes "fetch_setup P w cn r0 c0 s = (Inr (r, run, pr), s')"
  shows "queue_inv P cn [] pr \<and> pr_attempt_ids pr = [] \<and> pr_selected_ids pr = []
    \<and> (\<forall>q \<in> set (cn_initial_requests cn). \<exists>fp. request_fingerprint P q = Inr fp
         \<and> fp \<in> fst ` set (pr_known pr))"
proof -
  define pr0 where "pr0 = \<lparr>pr_queue = [], pr_known = [], pr_attempt_ids = [], pr_selected_ids = []\<rparr>"
  have e: "rfold (enqueue P cn) pr0 (cn_initial_requests cn) = Inr pr"
    using assms by (auto simp: fetch_setup_def abind_Inr_iff pr0_def split: if_splits)
  have "queue_inv P cn [] pr0" by (simp add: queue_inv_def pr0_def)
  from enqueue_all_inv [OF e this] enqueue_all_known [OF e] show ?thesis by (simp add: pr0_def)
qed

context attempt_log
begin

text \<open>The ledger of \<open>s'\<close> is the one of \<open>s\<close> with these attempts added, and nothing else changed.\<close>

definition logs :: "'l \<Rightarrow> 'l \<Rightarrow> fetch_attempt list \<Rightarrow> bool" where
  "logs l l' as \<longleftrightarrow> log l' = log l @ as \<and> planned l' = planned l \<and> status l' = status l"

lemma logs_refl [simp]: "logs l l []"
  by (simp add: logs_def)

lemma logs_trans: "logs l1 l2 as \<Longrightarrow> logs l2 l3 bs \<Longrightarrow> logs l1 l3 (as @ bs)"
  by (simp add: logs_def)

lemma ledger_call_record:
  assumes "ledger_call w (\<lambda>call. lg_record_attempt L call a sn) s = (r, s')"
  shows "fs_calls s' = fs_calls s \<and> fs_sleeps s' = fs_sleeps s
    \<and> (case r of Inl _ \<Rightarrow> fs_ledger s' = fs_ledger s
       | Inr _ \<Rightarrow> logs (fs_ledger s) (fs_ledger s') [observation_row a])"
  using assms record_attempt record_raises
  by (fastforce simp: ledger_call_def logs_def split: prod.splits sum.splits)

lemma failed_attempt_simps [simp]:
  "attempt_of run fp n sel (observation_row (failed_attempt ax st hs oc code)) \<longleftrightarrow>
     run = ax_connector_run_id ax \<and> fp = ax_fingerprint ax \<and> n = ax_attempt_no ax \<and> \<not> sel"
  "at_observation_id (failed_attempt ax st hs oc code) = ax_observation_id ax"
  by (auto simp: attempt_of_def failed_attempt_def observation_row_def)

lemma successful_attempt_simps [simp]:
  "attempt_of run fp n sel (observation_row (successful_attempt cn ax st hs sn)) \<longleftrightarrow>
     run = ax_connector_run_id ax \<and> fp = ax_fingerprint ax \<and> n = ax_attempt_no ax \<and> sel"
  "at_observation_id (successful_attempt cn ax st hs sn) = ax_observation_id ax"
  by (auto simp: attempt_of_def successful_attempt_def observation_row_def)

text \<open>
  The three ways an attempt ends: it succeeded, it is to be repeated, or the run fails. In each, the
  ledger got the attempt with its verdict; only a failing run may leave it out.
\<close>

definition attempt_effect ::
    "fetch_engine \<Rightarrow> ustr \<Rightarrow> ustr \<Rightarrow> nat \<Rightarrow> ustr \<Rightarrow> exn + page_metadata option
     \<Rightarrow> 'l fetch_state \<Rightarrow> 'l fetch_state \<Rightarrow> bool" where
  "attempt_effect E run fp n oid r s s' \<longleftrightarrow>
     (\<exists>ds. fs_sleeps s' = fs_sleeps s @ ds \<and> capped E ds)
     \<and> (\<exists>as. logs (fs_ledger s) (fs_ledger s') as
         \<and> (\<forall>a \<in> set as. at_observation_id a = oid
              \<and> attempt_of run fp n (\<exists>md. r = Inr (Some md)) a)
         \<and> length as \<le> 1 \<and> (isok r \<longrightarrow> length as = 1)
         \<and> (r = Inr None \<longrightarrow> int n \<noteq> rt_max_attempts (fe_retry_policy E)))"

lemma attempt_effect_quiet:
  "quiet s s' \<Longrightarrow> attempt_effect E run fp n oid (Inl e) s s'"
  unfolding attempt_effect_def quiet_def
  by (intro conjI exI [of _ "[]"]) (simp_all add: capped_def)

lemma after_record_failure:
  assumes "abind (record_failure w L ax st hs oc code) k s = (r, s')"
    and "\<And>s1. fs_calls s1 = fs_calls s \<Longrightarrow> fs_sleeps s1 = fs_sleeps s \<Longrightarrow> k () s1 = (r, s')
      \<Longrightarrow> fs_ledger s' = fs_ledger s1 \<and> fs_calls s' = fs_calls s1
          \<and> (\<exists>ds. fs_sleeps s' = fs_sleeps s1 @ ds \<and> capped E ds)
          \<and> (isok r \<longrightarrow> r = Inr None \<and> int (ax_attempt_no ax) \<noteq> rt_max_attempts (fe_retry_policy E))"
  shows "fs_calls s' = fs_calls s
    \<and> attempt_effect E (ax_connector_run_id ax) (ax_fingerprint ax) (ax_attempt_no ax)
        (ax_observation_id ax) r s s'"
proof -
  obtain r1 s1 where r1: "record_failure w L ax st hs oc code s = (r1, s1)" by fastforce
  note eff = ledger_call_record [OF r1 [unfolded record_failure_def]]
  show ?thesis
  proof (cases r1)
    case (Inl e)
    with assms(1) r1 have "s' = s1" "r = Inl e" by (simp_all add: abind_def)
    with eff Inl show ?thesis by (simp add: attempt_effect_quiet quiet_def)
  next
    case (Inr x)
    with assms(1) r1 have k: "k () s1 = (r, s')" by (simp add: abind_def)
    from assms(2) [OF _ _ k] eff Inr show ?thesis
      by (cases r) (force simp: attempt_effect_def)+
  qed
qed

lemma keep_response_effect:
  assumes "keep_response P w L cn ax code headers ct content s = (r, s')"
  shows "fs_calls s' = fs_calls s
    \<and> attempt_effect E (ax_connector_run_id ax) (ax_fingerprint ax) (ax_attempt_no ax)
        (ax_observation_id ax) r s s'"
proof (cases "cn_validate_response cn (ax_request ax) content ct")
  case (Inl e)
  show ?thesis
  proof (cases "is_value_error e")
    case True
    with assms Inl show ?thesis
      by (intro after_record_failure) (auto simp: keep_response_def capped_def)
  qed (use assms Inl in \<open>auto simp: keep_response_def attempt_effect_quiet\<close>)
next
  case (Inr md)
  obtain r1 s1 where put: "store_put P w content s = (r1, s1)" by fastforce
  note q = store_put_quiet [OF put]
  show ?thesis
  proof (cases r1)
    case (Inl e)
    show ?thesis
    proof (cases "store_error e")
      case True
      then have "abind (record_failure w L ax (Some code) headers STORAGE_ERROR (type_name e))
          (\<lambda>_. araise (fetch_run_error (u ''STORAGE_ERROR''))) s1 = (r, s')"
        using assms Inr Inl put by (simp add: keep_response_def)
      then have "fs_calls s' = fs_calls s1
          \<and> attempt_effect E (ax_connector_run_id ax) (ax_fingerprint ax) (ax_attempt_no ax)
              (ax_observation_id ax) r s1 s'"
        by (rule after_record_failure) (auto simp: capped_def)
      with q show ?thesis by (simp add: quiet_def attempt_effect_def)
    next
      case False
      with assms Inr Inl put q show ?thesis
        by (auto simp: keep_response_def attempt_effect_quiet quiet_def)
    qed
  next
    case stored: (Inr stored)
    define sn where "sn = fetched_snapshot P cn ax ct stored"
    obtain r2 s2 where rec: "ledger_call w (\<lambda>call. lg_record_attempt L call
        (successful_attempt cn ax code headers sn) (Some sn)) s1 = (r2, s2)" by fastforce
    have r: "r = (case r2 of Inl e \<Rightarrow> Inl e | Inr _ \<Rightarrow> Inr (Some md))" and s': "s' = s2"
      using assms Inr stored put rec
      by (auto simp: keep_response_def abind_def sn_def Let_def split: sum.splits)
    note eff = ledger_call_record [OF rec]
    show ?thesis
    proof (cases r2)
      case (Inl e)
      with eff q r s' show ?thesis by (simp add: attempt_effect_quiet quiet_def)
    next
      case (Inr x)
      with eff q r s' show ?thesis by (force simp: quiet_def attempt_effect_def capped_def)
    qed
  qed
qed

lemma finish_attempt_effect:
  assumes "finish_attempt P w E L cn ax ex s = (r, s')"
    and "0 \<le> rt_max_retry_after_seconds (fe_retry_policy E)"
  shows "fs_calls s' = fs_calls s
    \<and> attempt_effect E (ax_connector_run_id ax) (ax_fingerprint ax) (ax_attempt_no ax)
        (ax_observation_id ax) r s s'"
proof (cases ex)
  case (Escapes e)
  with assms(1) show ?thesis by (auto simp: finish_attempt_def attempt_effect_quiet)
next
  case (Oversize code headers)
  show ?thesis
    by (rule after_record_failure)
      (use assms(1) Oversize in \<open>auto simp: finish_attempt_def capped_def\<close>)
next
  case (Transport cls)
  show ?thesis
    by (rule after_record_failure [OF assms(1) [unfolded finish_attempt_def Let_def Transport exchange.case]])
      (auto simp: capped_def abind_def sleeper_def retry_delay_bounds assms(2) split: if_splits)
next
  case (Received code headers ct content)
  show ?thesis
  proof (cases "success_status code")
    case True
    with assms(1) Received show ?thesis
      by (intro keep_response_effect) (simp add: finish_attempt_def)
  next
    case False
    with assms(1) Received show ?thesis
      by (intro after_record_failure)
        (auto simp: finish_attempt_def Let_def capped_def abind_def sleeper_def retry_delay_bounds
          assms(2) split: if_splits)
  qed
qed

lemma attempt_effect_retrack:
  assumes "attempt_effect E run fp n oid r s1 s2" and "quiet s0 s1" and "quiet s2 s3"
  shows "attempt_effect E run fp n oid r s0 s3"
  using assms by (simp add: attempt_effect_def quiet_def)

lemma fetch_once_effect:
  assumes "fetch_once P w E L cn run request fp url n s = (r, s')"
    and "0 \<le> rt_max_retry_after_seconds (fe_retry_policy E)"
  shows "\<exists>oid. attempt_effect E run fp n oid (map_sum id snd r) s s'
     \<and> (\<forall>x. r = Inr x \<longrightarrow> fst x = oid \<and> fs_calls s' = fs_calls s @ [request])
     \<and> (fs_calls s' = fs_calls s \<or> fs_calls s' = fs_calls s @ [request])"
proof -
  obtain r1 s1 where p: "prepare_attempt w E s = (r1, s1)" by fastforce
  note q1 = prepare_attempt_quiet [OF p]
  show ?thesis
  proof (cases r1)
    case (Inl e)
    with assms(1) p have "r = Inl e" "s' = s1" by (simp_all add: fetch_once_def abind_def)
    with q1 show ?thesis by (simp add: attempt_effect_quiet quiet_def)
  next
    case (Inr x)
    obtain oid requested_at where x: "x = (oid, requested_at)" by fastforce
    define s2 where "s2 = s1\<lparr>fs_tick := Suc (fs_tick s1), fs_calls := fs_calls s1 @ [request]\<rparr>"
    define ex where "ex = exchange_of P E (w_http w (fs_tick s1) request)"
    have c2: "fs_calls s2 = fs_calls s @ [request]" "fs_ledger s2 = fs_ledger s" "fs_sleeps s2 = fs_sleeps s"
      using q1 by (simp_all add: s2_def quiet_def)
    show ?thesis
    proof (cases "\<exists>e. ex = Escapes e")
      case True
      with assms(1) p Inr x have "s' = s2" "\<exists>e. r = Inl e"
        by (auto simp: fetch_once_def abind_def http_call_def s2_def ex_def)
      with c2 show ?thesis
        by (auto simp: attempt_effect_def capped_def logs_def)
    next
      case False
      define ax where "ax = \<lparr>ax_observation_id = oid, ax_connector_run_id = run,
         ax_request = request, ax_fingerprint = fp, ax_request_url = url, ax_attempt_no = n,
         ax_requested_at = requested_at, ax_retrieved_at = w_clock w (fs_tick s2)\<rparr>"
      define s3 where "s3 = s2\<lparr>fs_tick := Suc (fs_tick s2)\<rparr>"
      obtain r4 s4 where f: "finish_attempt P w E L cn ax ex s3 = (r4, s4)" by fastforce
      have "r = map_sum id (Pair oid) r4" "s' = s4"
        using assms(1) p Inr x False f
        by (auto simp: fetch_once_def abind_def http_call_def draw_def s2_def [symmetric]
            ex_def [symmetric] s3_def [symmetric] ax_def [symmetric]
            split: exchange.splits sum.splits)
      moreover note finish_attempt_effect [OF f assms(2)]
      moreover have "fs_calls s3 = fs_calls s @ [request]" "fs_ledger s3 = fs_ledger s"
          "fs_sleeps s3 = fs_sleeps s" using c2 by (simp_all add: s3_def)
      moreover have "map_sum id snd (map_sum id (Pair oid) r4) = r4" by (cases r4) simp_all
      moreover have "map_sum id (Pair oid) r4 = Inr x \<Longrightarrow> fst x = oid" for x
        by (cases r4) auto
      ultimately show ?thesis
        by (auto simp: attempt_effect_def ax_def)
    qed
  qed
qed

text \<open>The retry loop: a numbered run of unselected attempts, closed by a selected one on success.\<close>

definition loop_effect ::
    "fetch_engine \<Rightarrow> ustr \<Rightarrow> ustr \<Rightarrow> request_spec \<Rightarrow> nat \<Rightarrow> nat \<Rightarrow> ustr list \<Rightarrow> exn + successful_request
     \<Rightarrow> 'l fetch_state \<Rightarrow> 'l fetch_state \<Rightarrow> bool" where
  "loop_effect E run fp request n left ids r s s' \<longleftrightarrow>
     (\<exists>ds. fs_sleeps s' = fs_sleeps s @ ds \<and> capped E ds)
     \<and> (\<exists>as k. logs (fs_ledger s) (fs_ledger s') as \<and> length as \<le> left
         \<and> fs_calls s' = fs_calls s @ replicate k request
         \<and> (\<forall>a \<in> set as. at_connector_run_id a = run \<and> at_request_fingerprint a = fp)
         \<and> map at_attempt_no as = [n..<n + length as]
         \<and> (\<forall>sr. r = Inr sr \<longrightarrow> k = length as \<and> as \<noteq> [] \<and> at_selected (last as)
              \<and> (\<forall>a \<in> set (butlast as). \<not> at_selected a)
              \<and> sr_attempt_ids sr = ids @ map at_observation_id as
              \<and> sr_selected_observation_id sr = at_observation_id (last as)))"

lemma fetch_attempts_effect:
  assumes "0 \<le> rt_max_retry_after_seconds (fe_retry_policy E)"
    and "fetch_attempts left P w E L cn run request fp url n ids s = (r, s')"
  shows "loop_effect E run fp request n left ids r s s'"
  using assms(2)
proof (induction left arbitrary: n ids s)
  case 0
  then have "r = Inl (Exn AssertionError (u ''retry loop exhausted without returning or raising''))"
      "s' = s" by simp_all
  then show ?case
    unfolding loop_effect_def by (intro conjI exI [of _ "[]"] exI [of _ 0]) (simp_all add: capped_def)
next
  case (Suc left)
  obtain r1 s1 where o: "fetch_once P w E L cn run request fp url n s = (r1, s1)" by fastforce
  obtain oid as ds k where
    logs1: "logs (fs_ledger s) (fs_ledger s1) as" and
    as: "\<forall>a \<in> set as. at_observation_id a = oid
      \<and> attempt_of run fp n (\<exists>md. map_sum id snd r1 = Inr (Some md)) a" and
    len: "length as \<le> 1" "isok r1 \<longrightarrow> length as = 1" and
    ds: "fs_sleeps s1 = fs_sleeps s @ ds" "capped E ds" and
    calls: "fs_calls s1 = fs_calls s @ replicate k request" and
    ok: "\<forall>x. r1 = Inr x \<longrightarrow> fst x = oid \<and> k = 1"
    using fetch_once_effect [OF o assms(1)] unfolding attempt_effect_def
    by (cases r1) (auto intro: that [where k = 0] that [where k = 1])
  have nums: "map at_attempt_no as = [n..<n + length as]"
    using as len(1) by (cases as) (auto simp: attempt_of_def)
  have of: "\<forall>a \<in> set as. at_connector_run_id a = run \<and> at_request_fingerprint a = fp"
    using as by (auto simp: attempt_of_def)
  show ?case
  proof (cases r1)
    case (Inl e)
    with Suc.prems o have "r = Inl e" "s' = s1" by (simp_all add: abind_def)
    with logs1 len(1) ds calls nums of show ?thesis unfolding loop_effect_def by auto
  next
    case (Inr x)
    obtain md where x: "x = (oid, md)" using ok Inr by (cases x) auto
    obtain a where a: "as = [a]" using len(2) Inr by (auto simp: length_Suc_conv)
    have k: "k = 1" using ok Inr by blast
    show ?thesis
    proof (cases md)
      case (Some m)
      with Suc.prems o Inr x have "r = Inr \<lparr>sr_metadata = m, sr_attempt_ids = ids @ [oid],
           sr_selected_observation_id = oid\<rparr>" "s' = s1" by (simp_all add: abind_def)
      with logs1 ds calls nums of a k as Inr x Some show ?thesis
        unfolding loop_effect_def
        by (intro conjI exI [of _ ds] exI [of _ as] exI [of _ 1]) (simp_all add: attempt_of_def)
    next
      case None
      with Suc.prems o Inr x have rest: "fetch_attempts left P w E L cn run request fp url (Suc n)
          (ids @ [oid]) s1 = (r, s')" by (simp add: abind_def)
      from Suc.IH [OF this] obtain ds2 bs k2 where
        b: "logs (fs_ledger s1) (fs_ledger s') bs" "length bs \<le> left"
          "fs_calls s' = fs_calls s1 @ replicate k2 request"
          "\<forall>a \<in> set bs. at_connector_run_id a = run \<and> at_request_fingerprint a = fp"
          "map at_attempt_no bs = [Suc n..<Suc n + length bs]"
          "\<forall>sr. r = Inr sr \<longrightarrow> k2 = length bs \<and> bs \<noteq> [] \<and> at_selected (last bs)
              \<and> (\<forall>a \<in> set (butlast bs). \<not> at_selected a)
              \<and> sr_attempt_ids sr = (ids @ [oid]) @ map at_observation_id bs
              \<and> sr_selected_observation_id sr = at_observation_id (last bs)"
        and ds2: "fs_sleeps s' = fs_sleeps s1 @ ds2" "capped E ds2"
        unfolding loop_effect_def by blast
      have "logs (fs_ledger s) (fs_ledger s') (a # bs)" using logs_trans [OF logs1 b(1)] a by simp
      moreover have "fs_calls s' = fs_calls s @ replicate (Suc k2) request"
        using b(3) calls k by simp
      moreover have "map at_attempt_no (a # bs) = [n..<n + length (a # bs)]"
        using b(5) nums a by (simp add: upt_conv_Cons del: upt_Suc)
      moreover have "\<not> at_selected a" "at_observation_id a = oid"
        using as a Inr x None by (simp_all add: attempt_of_def)
      moreover have "fs_sleeps s' = fs_sleeps s @ (ds @ ds2)" "capped E (ds @ ds2)"
        using ds ds2 by (auto simp: capped_def)
      ultimately show ?thesis
        unfolding loop_effect_def using b(2,4,6) of a
        by (intro conjI exI [of _ "ds @ ds2"] exI [of _ "a # bs"] exI [of _ "Suc k2"]) simp_all
    qed
  qed
qed

text \<open>One turn of the outer loop.\<close>

definition turn_effect ::
    "fetch_engine \<Rightarrow> ustr \<Rightarrow> ustr \<Rightarrow> request_spec \<Rightarrow> fetch_attempt list \<Rightarrow> bool
     \<Rightarrow> 'l fetch_state \<Rightarrow> 'l fetch_state \<Rightarrow> bool" where
  "turn_effect E run fp request as ok s s' \<longleftrightarrow>
     log (fs_ledger s') = log (fs_ledger s) @ as
     \<and> status (fs_ledger s') = status (fs_ledger s)
     \<and> (\<exists>k. fs_calls s' = fs_calls s @ replicate k request \<and> (ok \<longrightarrow> k = length as))
     \<and> (\<exists>ds. fs_sleeps s' = fs_sleeps s @ ds \<and> capped E ds)
     \<and> (ok \<longrightarrow> planned (fs_ledger s') = insert (run, fp) (planned (fs_ledger s))
          \<and> complete_group (rt_max_attempts (fe_retry_policy E)) run fp as)"

lemma turn_quiet: "quiet s s' \<Longrightarrow> turn_effect E run fp request [] False s s'"
  unfolding turn_effect_def quiet_def by (auto simp: capped_def intro: exI [of _ 0])

lemma fetch_request_effect:
  assumes "fetch_request P w E L cn request fp run s = (r, s')"
    and "check_retry_policy (fe_retry_policy E) = Inr ()"
  shows "\<exists>as. logs (fs_ledger s) (fs_ledger s') as
    \<and> (\<exists>k. fs_calls s' = fs_calls s @ replicate k request \<and> (isok r \<longrightarrow> k = length as))
    \<and> (\<exists>ds. fs_sleeps s' = fs_sleeps s @ ds \<and> capped E ds)
    \<and> (\<forall>sr. r = Inr sr \<longrightarrow> complete_group (rt_max_attempts (fe_retry_policy E)) run fp as
         \<and> sr_attempt_ids sr = map at_observation_id as
         \<and> sr_selected_observation_id sr = at_observation_id (last as))"
proof (cases "redacted_url P request")
  case (Inl e)
  with assms(1) have "r = Inl e" "s' = s" by (simp_all add: fetch_request_def abind_def)
  then show ?thesis
    by (intro exI [of _ "[]"]) (auto simp: capped_def intro: exI [of _ 0])
next
  case (Inr url)
  have pos: "0 \<le> rt_max_retry_after_seconds (fe_retry_policy E)"
      "1 \<le> rt_max_attempts (fe_retry_policy E)"
    using assms(2) by (auto simp: check_retry_policy_def split: if_splits)
  have "fetch_attempts (nat (rt_max_attempts (fe_retry_policy E))) P w E L cn run request fp url 1 [] s
      = (r, s')"
    using assms(1) Inr by (simp add: fetch_request_def abind_def)
  from fetch_attempts_effect [OF pos(1) this] obtain as k ds where
    "logs (fs_ledger s) (fs_ledger s') as" "length as \<le> nat (rt_max_attempts (fe_retry_policy E))"
    "fs_calls s' = fs_calls s @ replicate k request"
    "\<forall>a \<in> set as. at_connector_run_id a = run \<and> at_request_fingerprint a = fp"
    "map at_attempt_no as = [1..<1 + length as]"
    "\<forall>sr. r = Inr sr \<longrightarrow> k = length as \<and> as \<noteq> [] \<and> at_selected (last as)
              \<and> (\<forall>a \<in> set (butlast as). \<not> at_selected a)
              \<and> sr_attempt_ids sr = [] @ map at_observation_id as
              \<and> sr_selected_observation_id sr = at_observation_id (last as)"
    "fs_sleeps s' = fs_sleeps s @ ds" "capped E ds"
    unfolding loop_effect_def by blast
  then show ?thesis
    using pos by (intro exI [of _ as]) (cases r, auto simp: complete_group_def le_nat_iff)
qed

lemma ledger_call_plan:
  assumes "ledger_call w (\<lambda>call. lg_plan_request L call run fp pt pg url) s = (r, s')"
  shows "fs_calls s' = fs_calls s \<and> fs_sleeps s' = fs_sleeps s
    \<and> (case r of Inl _ \<Rightarrow> fs_ledger s' = fs_ledger s
       | Inr _ \<Rightarrow> log (fs_ledger s') = log (fs_ledger s) \<and> status (fs_ledger s') = status (fs_ledger s)
           \<and> planned (fs_ledger s') = insert (run, fp) (planned (fs_ledger s)))"
  using assms plan plan_raises
  by (fastforce simp: ledger_call_def split: prod.splits sum.splits)

lemma fetch_next_effect:
  assumes "fetch_next P w E L cn run mp pr s = (r, s')"
    and "check_retry_policy (fe_retry_policy E) = Inr ()"
    and "request_fingerprint P (hd (pr_queue pr)) = Inr fp"
  shows "\<exists>as. turn_effect E run fp (hd (pr_queue pr)) as (isok r) s s'
    \<and> (\<forall>pr'. r = Inr pr' \<longrightarrow> (\<exists>ds. rfold (enqueue P cn)
         (pr\<lparr>pr_queue := tl (pr_queue pr),
             pr_attempt_ids := pr_attempt_ids pr @ map at_observation_id as,
             pr_selected_ids := pr_selected_ids pr @ [at_observation_id (last as)]\<rparr>) ds = Inr pr'))"
proof -
  define q where "q = hd (pr_queue pr)"
  note fp = assms(3) [folded q_def]
  show ?thesis
  proof (cases "redacted_url P q")
    case (Inl e)
    with assms(1) fp have "r = Inl e" "s' = s"
      by (simp_all add: fetch_next_def Let_def abind_def q_def [symmetric])
    then show ?thesis by (intro exI [of _ "[]"]) (simp add: turn_quiet)
  next
    case url: (Inr url)
    obtain r1 s1 where p: "ledger_call w (\<lambda>call. lg_plan_request L call run fp
        (rq_partition_id q) (rq_page_number q) url) s = (r1, s1)" by fastforce
    note eff1 = ledger_call_plan [OF p]
    show ?thesis
    proof (cases r1)
      case (Inl e)
      with assms(1) fp url p have "r = Inl e" "s' = s1"
        by (simp_all add: fetch_next_def Let_def abind_def q_def [symmetric])
      with eff1 Inl show ?thesis by (intro exI [of _ "[]"]) (simp add: turn_quiet quiet_def)
    next
      case (Inr x1)
      obtain r2 s2 where f: "fetch_request P w E L cn q fp run s1 = (r2, s2)" by fastforce
      from fetch_request_effect [OF f assms(2)] obtain as k ds where
        lg: "logs (fs_ledger s1) (fs_ledger s2) as" and
        calls: "fs_calls s2 = fs_calls s1 @ replicate k q" "isok r2 \<longrightarrow> k = length as" and
        sleeps: "fs_sleeps s2 = fs_sleeps s1 @ ds" "capped E ds" and
        ok: "\<forall>sr. r2 = Inr sr \<longrightarrow> complete_group (rt_max_attempts (fe_retry_policy E)) run fp as
         \<and> sr_attempt_ids sr = map at_observation_id as
         \<and> sr_selected_observation_id sr = at_observation_id (last as)" by blast
      have t: "turn_effect E run fp q as ok' s s2" if "ok' \<longrightarrow> isok r2" for ok'
        using that eff1 Inr lg calls sleeps ok
        by (cases r2) (auto simp: turn_effect_def logs_def)
      show ?thesis
      proof (cases r2)
        case (Inl e)
        with assms(1) fp url p Inr f have "r = Inl e" "s' = s2"
          by (simp_all add: fetch_next_def Let_def abind_def q_def [symmetric])
        with t [of False] show ?thesis by (auto simp: q_def)
      next
        case fetched: (Inr fetched)
        have "s' = s2 \<and> r = rbind (cn_remaining_requests cn q (sr_metadata fetched) mp) (\<lambda>discovered.
            rfold (enqueue P cn) (pr\<lparr>pr_queue := tl (pr_queue pr),
             pr_attempt_ids := pr_attempt_ids pr @ sr_attempt_ids fetched,
             pr_selected_ids := pr_selected_ids pr @ [sr_selected_observation_id fetched]\<rparr>)
            discovered)"
          using assms(1) fp url p Inr f fetched
          by (auto simp: fetch_next_def Let_def abind_def q_def [symmetric] split: sum.splits)
        with t [of "isok r"] fetched ok show ?thesis
          by (intro exI [of _ as]) (auto simp: q_def rbind_Inr_iff)
      qed
    qed
  qed
qed

section \<open>The run\<close>

text \<open>The invariant of the outer loop, from the state \<open>s0\<close> after \<open>start_run\<close>.\<close>

definition run_inv ::
    "pyenv \<Rightarrow> fetch_engine \<Rightarrow> connector \<Rightarrow> ustr \<Rightarrow> int option \<Rightarrow> 'l fetch_state
     \<Rightarrow> (ustr \<times> request_spec) list \<Rightarrow> (ustr \<times> fetch_attempt list) list \<Rightarrow> progress
     \<Rightarrow> 'l fetch_state \<Rightarrow> bool" where
  "run_inv P E cn run mp s0 fetched gs pr s \<longleftrightarrow>
     queue_inv P cn fetched pr \<and> map fst gs = map fst fetched
     \<and> (\<forall>g \<in> set gs. complete_group (rt_max_attempts (fe_retry_policy E)) run (fst g) (snd g))
     \<and> (\<forall>e \<in> set fetched. expanded P cn mp (fst ` set (pr_known pr)) e)
     \<and> log (fs_ledger s) = log (fs_ledger s0) @ concat (map snd gs)
     \<and> planned (fs_ledger s) = planned (fs_ledger s0) \<union> Pair run ` fst ` set fetched
     \<and> status (fs_ledger s) = status (fs_ledger s0)
     \<and> pr_attempt_ids pr = map at_observation_id (concat (map snd gs))
     \<and> pr_selected_ids pr = map (\<lambda>g. at_observation_id (last (snd g))) gs
     \<and> (\<exists>cs. fs_calls s = fs_calls s0 @ cs \<and> (\<forall>c \<in> set cs. \<exists>fp. accepted P cn (fp, c))
          \<and> length cs = length (concat (map snd gs)))
     \<and> (\<exists>ds. fs_sleeps s = fs_sleeps s0 @ ds \<and> capped E ds)"

lemma run_inv_head:
  assumes "run_inv P E cn run mp s0 fetched gs pr s" and "pr_queue pr \<noteq> []"
  obtains fp where "accepted P cn (fp, hd (pr_queue pr))"
    "queue_inv P cn (fetched @ [(fp, hd (pr_queue pr))]) (pr\<lparr>pr_queue := tl (pr_queue pr),
       pr_attempt_ids := ai, pr_selected_ids := si\<rparr>)"
proof -
  from assms obtain waiting where w: "pr_known pr = fetched @ waiting" "map snd waiting = pr_queue pr"
    by (auto simp: run_inv_def queue_inv_def)
  with assms(2) obtain fp q ws where ws: "waiting = (fp, q) # ws" by (cases waiting) auto
  with w have q: "hd (pr_queue pr) = q" "tl (pr_queue pr) = map snd ws"
    by (simp_all flip: w(2))
  have "accepted P cn (fp, q)"
    using assms(1) w ws by (auto simp: run_inv_def queue_inv_def)
  moreover have "queue_inv P cn (fetched @ [(fp, q)]) (pr\<lparr>pr_queue := map snd ws,
       pr_attempt_ids := ai, pr_selected_ids := si\<rparr>)"
    using assms(1) w ws by (auto simp: run_inv_def queue_inv_def)
  ultimately show ?thesis using that q by simp
qed

lemma run_inv_step:
  assumes "run_inv P E cn run mp s0 fetched gs pr s" and "pr_queue pr \<noteq> []"
    and "fetch_next P w E L cn run mp pr s = (Inr pr', s')"
    and "check_retry_policy (fe_retry_policy E) = Inr ()"
  shows "\<exists>fetched' gs'. run_inv P E cn run mp s0 fetched' gs' pr' s'"
proof -
  define q where "q = hd (pr_queue pr)"
  from assms(1,2) obtain fp where acc: "accepted P cn (fp, q)" by (auto simp: q_def elim: run_inv_head)
  then have fp: "request_fingerprint P q = Inr fp" by (simp add: accepted_def)
  from fetch_next_effect [OF assms(3,4) fp [unfolded q_def], folded q_def] obtain as ds where
    t: "turn_effect E run fp q as True s s'" and
    e: "rfold (enqueue P cn) (pr\<lparr>pr_queue := tl (pr_queue pr),
             pr_attempt_ids := pr_attempt_ids pr @ map at_observation_id as,
             pr_selected_ids := pr_selected_ids pr @ [at_observation_id (last as)]\<rparr>) ds = Inr pr'"
    by auto
  from assms(1,2) obtain fp2 where "accepted P cn (fp2, q)" and
    q1: "queue_inv P cn (fetched @ [(fp2, q)]) (pr\<lparr>pr_queue := tl (pr_queue pr),
             pr_attempt_ids := pr_attempt_ids pr @ map at_observation_id as,
             pr_selected_ids := pr_selected_ids pr @ [at_observation_id (last as)]\<rparr>)"
    unfolding q_def by (rule run_inv_head)
  then have q2: "queue_inv P cn (fetched @ [(fp, q)]) (pr\<lparr>pr_queue := tl (pr_queue pr),
             pr_attempt_ids := pr_attempt_ids pr @ map at_observation_id as,
             pr_selected_ids := pr_selected_ids pr @ [at_observation_id (last as)]\<rparr>)"
    using acc by (simp add: accepted_def)
  note qinv = enqueue_all_inv [OF e q2]
  note ex = fetch_next_expands(1) [OF assms(3), of fp, folded q_def] fetch_next_expands(2) [OF assms(3)]
  have I: "map fst gs = map fst fetched"
     "\<forall>g \<in> set gs. complete_group (rt_max_attempts (fe_retry_policy E)) run (fst g) (snd g)"
     "\<forall>e \<in> set fetched. expanded P cn mp (fst ` set (pr_known pr)) e"
     "log (fs_ledger s) = log (fs_ledger s0) @ concat (map snd gs)"
     "planned (fs_ledger s) = planned (fs_ledger s0) \<union> Pair run ` fst ` set fetched"
     "status (fs_ledger s) = status (fs_ledger s0)"
     "pr_attempt_ids pr = map at_observation_id (concat (map snd gs))"
     "pr_selected_ids pr = map (\<lambda>g. at_observation_id (last (snd g))) gs"
    using assms(1) by (simp_all add: run_inv_def)
  obtain cs dl where
    c: "fs_calls s = fs_calls s0 @ cs" "\<forall>c \<in> set cs. \<exists>fp. accepted P cn (fp, c)"
       "length cs = length (concat (map snd gs))" and
    d: "fs_sleeps s = fs_sleeps s0 @ dl" "capped E dl"
    using assms(1) by (auto simp: run_inv_def)
  have T: "log (fs_ledger s') = log (fs_ledger s) @ as" "status (fs_ledger s') = status (fs_ledger s)"
     "fs_calls s' = fs_calls s @ replicate (length as) q"
     "planned (fs_ledger s') = insert (run, fp) (planned (fs_ledger s))"
     "complete_group (rt_max_attempts (fe_retry_policy E)) run fp as"
    using t by (auto simp: turn_effect_def)
  obtain dl2 where d2: "fs_sleeps s' = fs_sleeps s @ dl2" "capped E dl2"
    using t by (auto simp: turn_effect_def)
  have "\<forall>e \<in> set (fetched @ [(fp, q)]). expanded P cn mp (fst ` set (pr_known pr')) e"
    using I(3) ex expanded_mono by (auto simp del: image_subset_iff)
  moreover have "\<forall>c \<in> set (cs @ replicate (length as) q). \<exists>fp. accepted P cn (fp, c)"
    using c(2) acc by auto
  moreover have "capped E (dl @ dl2)" using d d2 by (auto simp: capped_def)
  ultimately have "run_inv P E cn run mp s0 (fetched @ [(fp, q)]) (gs @ [(fp, as)]) pr' s'"
    unfolding run_inv_def using qinv I c d d2 T by auto
  then show ?thesis by blast
qed

lemma run_inv_raise:
  assumes "run_inv P E cn run mp s0 fetched gs pr s" and "pr_queue pr \<noteq> []"
    and "fetch_next P w E L cn run mp pr s = (Inl e, s')"
    and "check_retry_policy (fe_retry_policy E) = Inr ()"
  shows "status (fs_ledger s') = status (fs_ledger s0)
    \<and> (\<exists>cs. fs_calls s' = fs_calls s0 @ cs \<and> (\<forall>c \<in> set cs. \<exists>fp. accepted P cn (fp, c)))
    \<and> (\<exists>ds. fs_sleeps s' = fs_sleeps s0 @ ds \<and> capped E ds)"
proof -
  define q where "q = hd (pr_queue pr)"
  from assms(1,2) obtain fp where acc: "accepted P cn (fp, q)" by (auto simp: q_def elim: run_inv_head)
  then have fp: "request_fingerprint P q = Inr fp" by (simp add: accepted_def)
  from fetch_next_effect [OF assms(3,4) fp [unfolded q_def], folded q_def] obtain as where
    t: "turn_effect E run fp q as False s s'" by auto
  obtain cs dl where
    c: "fs_calls s = fs_calls s0 @ cs" "\<forall>c \<in> set cs. \<exists>fp. accepted P cn (fp, c)" and
    d: "fs_sleeps s = fs_sleeps s0 @ dl" "capped E dl" and
    st: "status (fs_ledger s) = status (fs_ledger s0)"
    using assms(1) by (auto simp: run_inv_def)
  obtain k dl2 where "fs_calls s' = fs_calls s @ replicate k q" "fs_sleeps s' = fs_sleeps s @ dl2"
      "capped E dl2" "status (fs_ledger s') = status (fs_ledger s)"
    using t by (auto simp: turn_effect_def)
  with c d st acc show ?thesis by (auto simp: capped_def)
qed

lemma fetch_queue_effect:
  assumes "fetch_queue P w E L cn run mp pr s = Some (r, s')"
    and "check_retry_policy (fe_retry_policy E) = Inr ()"
    and "\<exists>fetched gs. run_inv P E cn run mp s0 fetched gs pr s"
  shows "(\<forall>pr'. r = Inr pr' \<longrightarrow> pr_queue pr' = [] \<and> (\<exists>fetched gs. run_inv P E cn run mp s0 fetched gs pr' s')
           \<and> fst ` set (pr_known pr) \<subseteq> fst ` set (pr_known pr'))
    \<and> status (fs_ledger s') = status (fs_ledger s0)
    \<and> (\<exists>cs. fs_calls s' = fs_calls s0 @ cs \<and> (\<forall>c \<in> set cs. \<exists>fp. accepted P cn (fp, c)))
    \<and> (\<exists>ds. fs_sleeps s' = fs_sleeps s0 @ ds \<and> capped E ds)"
proof -
  define Q where "Q = (\<lambda>P (w :: world) E L' cn run mp pr s (r :: exn + progress, s').
     L' = L \<longrightarrow> check_retry_policy (fe_retry_policy E) = Inr () \<longrightarrow>
     (\<exists>fetched gs. run_inv P E cn run mp s0 fetched gs pr s) \<longrightarrow>
     (\<forall>pr'. r = Inr pr' \<longrightarrow> pr_queue pr' = [] \<and> (\<exists>fetched gs. run_inv P E cn run mp s0 fetched gs pr' s')
        \<and> fst ` set (pr_known pr) \<subseteq> fst ` set (pr_known pr'))
     \<and> status (fs_ledger s') = status (fs_ledger s0)
     \<and> (\<exists>cs. fs_calls s' = fs_calls s0 @ cs \<and> (\<forall>c \<in> set cs. \<exists>fp. accepted P cn (fp, c)))
     \<and> (\<exists>ds. fs_sleeps s' = fs_sleeps s0 @ ds \<and> capped E ds))"
  have "Q P w E L cn run mp pr s (r, s')"
    using assms(1)
  proof (rule fetch_queue.raw_induct [where P = Q, rotated], goal_cases)
    case (1 loop P w E L' cn run mp pr s y)
    show ?case
    proof (cases "pr_queue pr = []")
      case True
      with 1(2) have y: "y = (Inr pr, s)" by simp
      show ?thesis unfolding y Q_def using True by (auto simp: run_inv_def)
    next
      case False
      obtain r1 s1 where n: "fetch_next P w E L' cn run mp pr s = (r1, s1)" by fastforce
      show ?thesis
      proof (cases r1)
        case (Inl e)
        with 1(2) False n have y: "y = (Inl e, s1)" by simp
        show ?thesis unfolding y Q_def prod.case
          using run_inv_raise [OF _ False] n Inl by blast
      next
        case (Inr pr1)
        with 1(2) False n have "loop P w E L' cn run mp pr1 s1 = Some y" by simp
        note IH = 1(1) [OF this]
        show ?thesis
        proof (cases y)
          case (Pair r2 s2)
          have sub: "fst ` set (pr_known pr) \<subseteq> fst ` set (pr_known pr1)"
            using fetch_next_expands(2) n Inr by blast
          show ?thesis
            unfolding Pair Q_def prod.case
          proof (intro impI)
            assume L': "L' = L" and E: "check_retry_policy (fe_retry_policy E) = Inr ()"
              and "\<exists>fetched gs. run_inv P E cn run mp s0 fetched gs pr s"
            then obtain fetched gs where "run_inv P E cn run mp s0 fetched gs pr s" by blast
            from run_inv_step [OF this False] n Inr L' E
            have "\<exists>fetched gs. run_inv P E cn run mp s0 fetched gs pr1 s1" by blast
            note R = IH [unfolded Pair Q_def prod.case, THEN mp, OF L', THEN mp, OF E, THEN mp, OF this]
            have "fst ` set (pr_known pr) \<subseteq> fst ` set (pr_known pr')" if "r2 = Inr pr'" for pr'
              by (rule subset_trans [OF sub]) (rule R [THEN conjunct1, THEN spec, THEN mp, OF that,
                THEN conjunct2, THEN conjunct2])
            then show "(\<forall>pr'. r2 = Inr pr' \<longrightarrow> pr_queue pr' = []
                \<and> (\<exists>fetched gs. run_inv P E cn run mp s0 fetched gs pr' s2)
                \<and> fst ` set (pr_known pr) \<subseteq> fst ` set (pr_known pr'))
              \<and> status (fs_ledger s2) = status (fs_ledger s0)
              \<and> (\<exists>cs. fs_calls s2 = fs_calls s0 @ cs \<and> (\<forall>c \<in> set cs. \<exists>fp. accepted P cn (fp, c)))
              \<and> (\<exists>ds. fs_sleeps s2 = fs_sleeps s0 @ ds \<and> capped E ds)"
              using R by simp
          qed
        qed
      qed
    qed
  qed
  then show ?thesis using assms(2,3) unfolding Q_def by simp
qed

lemma ledger_call_start:
  assumes "ledger_call w (\<lambda>call. lg_start_run L call run r src m) s = (res, s')"
  shows "fs_calls s' = fs_calls s \<and> fs_sleeps s' = fs_sleeps s
    \<and> (case res of Inl _ \<Rightarrow> fs_ledger s' = fs_ledger s
       | Inr _ \<Rightarrow> log (fs_ledger s') = log (fs_ledger s) \<and> planned (fs_ledger s') = planned (fs_ledger s)
           \<and> status (fs_ledger s') = (status (fs_ledger s))(run \<mapsto> (RUNNING, u ''FETCHING'', None)))"
  using assms start start_raises
  by (fastforce simp: ledger_call_def split: prod.splits sum.splits)

lemma ledger_call_complete:
  assumes "ledger_call w (\<lambda>call. lg_mark_fetch_complete L call run n k as ss) s = (res, s')"
    and "status (fs_ledger s) run = Some (RUNNING, st, tot)"
  shows "fs_calls s' = fs_calls s \<and> fs_sleeps s' = fs_sleeps s
    \<and> (case res of Inl _ \<Rightarrow> fs_ledger s' = fs_ledger s
       | Inr _ \<Rightarrow> log (fs_ledger s') = log (fs_ledger s) \<and> planned (fs_ledger s') = planned (fs_ledger s)
           \<and> status (fs_ledger s') = (status (fs_ledger s))(run \<mapsto> (RUNNING, u ''FETCHED'', Some (n, k))))"
  using assms complete complete_raises
  by (fastforce simp: ledger_call_def split: prod.splits sum.splits)

lemma on_error_effect:
  assumes "on_error w L run e s = (res, s')"
    and "status (fs_ledger s) run = Some (RUNNING, st, tot)"
  shows "res = Inl (as_fetch_error e) \<and> fs_calls s' = fs_calls s \<and> fs_sleeps s' = fs_sleeps s
    \<and> (dc_fault (w_db w (fs_tick s' - 1)) = None \<longrightarrow> 0 \<notin> set (error_code_of e) \<longrightarrow>
         status (fs_ledger s') = (status (fs_ledger s))(run \<mapsto> (FAILED, u ''FETCH_FAILED'', tot)))"
proof -
  define call where "call = w_db w (fs_tick s)"
  obtain r l where f: "lg_fail_run L call run (error_code_of e) (fs_ledger s) = (r, l)" by fastforce
  have s': "res = Inl (as_fetch_error e)" "s' = s\<lparr>fs_ledger := l, fs_tick := Suc (fs_tick s)\<rparr>"
    using assms(1) f by (auto simp: on_error_def ledger_call_def call_def [symmetric])
  have "status l = (status (fs_ledger s))(run \<mapsto> (FAILED, u ''FETCH_FAILED'', tot))"
    if "dc_fault call = None" "0 \<notin> set (error_code_of e)"
    using fail_returns [OF that assms(2)] fail [OF _ assms(2)] f by fastforce
  then show ?thesis using s' by (simp add: call_def)
qed

lemma run_inv_initial:
  assumes "queue_inv P cn [] pr" and "pr_attempt_ids pr = []" and "pr_selected_ids pr = []"
  shows "run_inv P E cn run mp s [] [] pr s"
  using assms by (simp add: run_inv_def capped_def)

text \<open>What a run that returns has done.\<close>

lemma fetch_run_complete:
  assumes "fetch_run P w E L cn mode r0 c0 mp s = Some (Inr fm, s')"
    and "check_retry_policy (fe_retry_policy E) = Inr ()"
  shows "\<exists>fetched gs. map fst gs = map fst fetched \<and> distinct (map fst gs)
     \<and> (\<forall>g \<in> set gs. complete_group (rt_max_attempts (fe_retry_policy E))
          (fm_connector_run_id fm) (fst g) (snd g))
     \<and> (\<forall>e \<in> set fetched. accepted P cn e \<and> expanded P cn mp (fst ` set fetched) e)
     \<and> (\<forall>q \<in> set (cn_initial_requests cn). \<exists>fp. request_fingerprint P q = Inr fp
          \<and> fp \<in> fst ` set fetched)
     \<and> log (fs_ledger s') = log (fs_ledger s) @ concat (map snd gs)
     \<and> planned (fs_ledger s') = planned (fs_ledger s) \<union> Pair (fm_connector_run_id fm) ` fst ` set fetched
     \<and> status (fs_ledger s') = (status (fs_ledger s))(fm_connector_run_id fm \<mapsto>
          (RUNNING, u ''FETCHED'', Some (int (length gs), int (length gs))))
     \<and> fm_planned_request_count fm = length gs \<and> fm_successful_request_count fm = length gs
     \<and> fm_attempt_count fm = length (concat (map snd gs))"
proof -
  from assms(1) obtain r run pr0 s1 where
    prep: "fetch_setup P w cn r0 c0 s = (Inr (r, run, pr0), s1)"
    by (auto simp: fetch_run_def split: if_splits prod.splits sum.splits)
  obtain res s2 where st: "ledger_call w (\<lambda>call. lg_start_run L call run r (cn_source_id cn) mode) s1
      = (res, s2)" by fastforce
  from assms(1) prep st obtain x where res: "res = Inr x" and
    run: "fetch_started P w E L cn mode r run mp pr0 s2 = Some (Inr fm, s')"
    by (auto simp: fetch_run_def split: if_splits sum.splits)
  note S = ledger_call_start [OF st, unfolded res sum.case]
  note q0 = fetch_setup_progress [OF prep]
  have quiet: "fs_ledger s1 = fs_ledger s" using fetch_setup_quiet [OF prep] by (simp add: quiet_def)
  from run obtain pr s3 where
    q: "fetch_queue P w E L cn run mp pr0 s2 = Some (Inr pr, s3)"
    by (auto simp: fetch_started_def on_error_def split: option.splits prod.splits sum.splits)
  obtain res4 s4 where c: "ledger_call w (\<lambda>call. lg_mark_fetch_complete L call run
                  (int (length (pr_known pr))) (int (length (pr_selected_ids pr)))
                  (pr_attempt_ids pr) (pr_selected_ids pr)) s3 = (res4, s4)" by fastforce
  have ok: "isok res4" "s' = s4" and fm: "fm = \<lparr>fm_run_id = r, fm_connector_run_id = run,
                          fm_source_id = cn_source_id cn, fm_mode = mode,
                          fm_planned_request_count = length (pr_known pr),
                          fm_successful_request_count = length (pr_selected_ids pr),
                          fm_attempt_count = length (pr_attempt_ids pr)\<rparr>"
    using run q c by (auto simp: fetch_started_def on_error_def split: sum.splits prod.splits)
  have "\<exists>fetched gs. run_inv P E cn run mp s2 fetched gs pr0 s2"
    using run_inv_initial q0 by blast
  note F = fetch_queue_effect [OF q assms(2) this]
  then obtain fetched gs where I: "run_inv P E cn run mp s2 fetched gs pr s3"
    and empty: "pr_queue pr = []" by blast
  have known: "fst ` set (pr_known pr0) \<subseteq> fst ` set (pr_known pr)" using F by blast
  have k: "pr_known pr = fetched" using I empty by (auto simp: run_inv_def queue_inv_def)
  have len: "length gs = length fetched" using I by (metis run_inv_def length_map)
  have running: "status (fs_ledger s3) run = Some (RUNNING, u ''FETCHING'', None)"
    using I S by (simp add: run_inv_def)
  from ledger_call_complete [OF c running] ok
  have C: "log (fs_ledger s') = log (fs_ledger s3)" "planned (fs_ledger s') = planned (fs_ledger s3)"
    "status (fs_ledger s') = (status (fs_ledger s3))(run \<mapsto> (RUNNING, u ''FETCHED'',
       Some (int (length (pr_known pr)), int (length (pr_selected_ids pr)))))"
    by (auto simp: isok_def split: sum.splits)
  have init: "\<forall>q \<in> set (cn_initial_requests cn). \<exists>fp. request_fingerprint P q = Inr fp
      \<and> fp \<in> fst ` set fetched"
    using q0 known k by (meson subset_iff)
  have facts: "map fst gs = map fst fetched \<and> distinct (map fst fetched)
     \<and> (\<forall>g \<in> set gs. complete_group (rt_max_attempts (fe_retry_policy E)) run (fst g) (snd g))
     \<and> (\<forall>e \<in> set fetched. accepted P cn e \<and> expanded P cn mp (fst ` set fetched) e)"
    using I k by (simp add: run_inv_def queue_inv_def)
  show ?thesis
    by (rule exI [of _ fetched], rule exI [of _ gs])
      (use I C S quiet k len init facts fm in \<open>simp add: run_inv_def\<close>)
qed

lemma error_code_of_wrapped: "error_code_of (as_fetch_error e) = error_code_of e"
  by (cases e) (auto simp: error_code_of_def as_fetch_error_def fetch_run_error_def type_name_def
      is_value_error_def)

lemma fetch_started_raises:
  assumes "fetch_started P w E L cn mode r run mp pr0 s = Some (Inl e, s')"
    and "check_retry_policy (fe_retry_policy E) = Inr ()"
    and "queue_inv P cn [] pr0" "pr_attempt_ids pr0 = []" "pr_selected_ids pr0 = []"
    and "status (fs_ledger s) run = Some (RUNNING, st, None)"
    and "dc_fault (w_db w (fs_tick s' - 1)) = None" and "0 \<notin> set (error_code_of e)"
  shows "status (fs_ledger s') = (status (fs_ledger s))(run \<mapsto> (FAILED, u ''FETCH_FAILED'', None))"
proof -
  obtain res s1 where q: "fetch_queue P w E L cn run mp pr0 s = Some (res, s1)"
    using assms(1) by (auto simp: fetch_started_def split: option.splits)
  have "\<exists>fetched gs. run_inv P E cn run mp s fetched gs pr0 s"
    using run_inv_initial assms(3-5) by blast
  from fetch_queue_effect [OF q assms(2) this]
  have st1: "status (fs_ledger s1) = status (fs_ledger s)" by blast
  with assms(6) have running: "status (fs_ledger s1) run = Some (RUNNING, st, None)" by simp
  have failed: "status (fs_ledger s') = (status (fs_ledger s))(run \<mapsto> (FAILED, u ''FETCH_FAILED'', None))"
    if "on_error w L run e1 s2 = (Inl e :: exn + fetch_summary, s')" "fs_ledger s2 = fs_ledger s1" for e1 s2
  proof -
    have r2: "status (fs_ledger s2) run = Some (RUNNING, st, None)" using running that(2) by simp
    from on_error_effect [OF that(1) this] have "e = as_fetch_error e1" by simp
    with on_error_effect [OF that(1) r2] assms(7,8) st1 that(2) show ?thesis
      by (simp add: error_code_of_wrapped)
  qed
  show ?thesis
  proof (cases res)
    case (Inl e1)
    with assms(1) q have "on_error w L run e1 s1 = (Inl e :: exn + fetch_summary, s')"
      by (simp add: fetch_started_def)
    from failed [OF this] show ?thesis by simp
  next
    case (Inr pr)
    obtain r2 s2 where c: "ledger_call w (\<lambda>call. lg_mark_fetch_complete L call run
                  (int (length (pr_known pr))) (int (length (pr_selected_ids pr)))
                  (pr_attempt_ids pr) (pr_selected_ids pr)) s1 = (r2, s2)" by fastforce
    with assms(1) q Inr obtain e1 where e1: "r2 = Inl e1"
        "on_error w L run e1 s2 = (Inl e :: exn + fetch_summary, s')"
      by (auto simp: fetch_started_def split: sum.splits)
    from ledger_call_complete [OF c running] e1(1) have "fs_ledger s2 = fs_ledger s1" by simp
    from failed [OF e1(2) this] show ?thesis .
  qed
qed

text \<open>A run that raises either never reached the ledger or is closed there as failed.\<close>

lemma fetch_run_fails:
  assumes "fetch_run P w E L cn mode r0 c0 mp s = Some (Inl e, s')"
    and "check_retry_policy (fe_retry_policy E) = Inr ()"
    and "dc_fault (w_db w (fs_tick s' - 1)) = None" and "0 \<notin> set (error_code_of e)"
  shows "fs_ledger s' = fs_ledger s
    \<or> (\<exists>run. status (fs_ledger s') = (status (fs_ledger s))(run \<mapsto> (FAILED, u ''FETCH_FAILED'', None)))"
proof -
  obtain res s1 where prep: "fetch_setup P w cn r0 c0 s = (res, s1)" by fastforce
  have quiet: "fs_ledger s1 = fs_ledger s" using fetch_setup_quiet [OF prep] by (simp add: quiet_def)
  show ?thesis
  proof (cases res)
    case (Inl e1)
    with assms(1) prep quiet show ?thesis by (auto simp: fetch_run_def split: if_splits)
  next
    case (Inr x)
    obtain r run pr0 where x: "x = (r, run, pr0)" by (cases x) auto
    obtain r2 s2 where st: "ledger_call w (\<lambda>call. lg_start_run L call run r (cn_source_id cn) mode) s1
        = (r2, s2)" by fastforce
    note S = ledger_call_start [OF st]
    note q0 = fetch_setup_progress [OF prep [unfolded Inr x]]
    show ?thesis
    proof (cases r2)
      case (Inl e1)
      with assms(1) prep Inr x st S quiet show ?thesis by (auto simp: fetch_run_def split: if_splits)
    next
      case r2: (Inr y)
      with S have running: "status (fs_ledger s2) run = Some (RUNNING, u ''FETCHING'', None)" by simp
      from assms(1) prep Inr x st r2 have
        "fs_ledger s' = fs_ledger s \<or> fetch_started P w E L cn mode r run mp pr0 s2 = Some (Inl e, s')"
        by (auto simp: fetch_run_def split: if_splits)
      with fetch_started_raises [OF _ assms(2) _ _ _ running assms(3,4)] q0 S r2 quiet
      show ?thesis by auto
    qed
  qed
qed

text \<open>Whatever the outcome: every call was to an accepted request, every sleep within the cap.\<close>

lemma fetch_started_trace:
  assumes "fetch_started P w E L cn mode r run mp pr0 s = Some (res, s')"
    and "check_retry_policy (fe_retry_policy E) = Inr ()"
    and "queue_inv P cn [] pr0" "pr_attempt_ids pr0 = []" "pr_selected_ids pr0 = []"
  shows "(\<exists>cs. fs_calls s' = fs_calls s @ cs \<and> (\<forall>c \<in> set cs. \<exists>fp. accepted P cn (fp, c)))
    \<and> (\<exists>ds. fs_sleeps s' = fs_sleeps s @ ds \<and> capped E ds)"
proof -
  obtain res1 s1 where q: "fetch_queue P w E L cn run mp pr0 s = Some (res1, s1)"
    using assms(1) by (auto simp: fetch_started_def split: option.splits)
  have "\<exists>fetched gs. run_inv P E cn run mp s fetched gs pr0 s"
    using run_inv_initial assms(3-5) by blast
  from fetch_queue_effect [OF q assms(2) this]
  have "(\<exists>cs. fs_calls s1 = fs_calls s @ cs \<and> (\<forall>c \<in> set cs. \<exists>fp. accepted P cn (fp, c)))
    \<and> (\<exists>ds. fs_sleeps s1 = fs_sleeps s @ ds \<and> capped E ds)" by simp
  moreover have "fs_calls s' = fs_calls s1 \<and> fs_sleeps s' = fs_sleeps s1"
    using assms(1) q
    by (auto simp: fetch_started_def on_error_def ledger_call_def split: sum.splits prod.splits)
  ultimately show ?thesis by simp
qed

lemma fetch_run_trace:
  assumes "fetch_run P w E L cn mode r0 c0 mp s = Some (res, s')"
    and "check_retry_policy (fe_retry_policy E) = Inr ()"
  shows "(\<exists>cs. fs_calls s' = fs_calls s @ cs \<and> (\<forall>c \<in> set cs. \<exists>fp. accepted P cn (fp, c)))
    \<and> (\<exists>ds. fs_sleeps s' = fs_sleeps s @ ds \<and> capped E ds)"
proof -
  have none: "capped E []" by (simp add: capped_def)
  obtain res1 s1 where prep: "fetch_setup P w cn r0 c0 s = (res1, s1)" by fastforce
  have quiet: "fs_calls s1 = fs_calls s" "fs_sleeps s1 = fs_sleeps s"
    using fetch_setup_quiet [OF prep] by (simp_all add: quiet_def)
  show ?thesis
  proof (cases res1)
    case (Inl e1)
    with assms(1) prep quiet none show ?thesis by (auto simp: fetch_run_def split: if_splits)
  next
    case (Inr x)
    obtain r run pr0 where x: "x = (r, run, pr0)" by (cases x) auto
    obtain r2 s2 where st: "ledger_call w (\<lambda>call. lg_start_run L call run r (cn_source_id cn) mode) s1
        = (r2, s2)" by fastforce
    note S = ledger_call_start [OF st]
    note q0 = fetch_setup_progress [OF prep [unfolded Inr x]]
    from assms(1) prep Inr x st quiet S consider
      "fs_calls s' = fs_calls s \<and> fs_sleeps s' = fs_sleeps s"
      | "fetch_started P w E L cn mode r run mp pr0 s2 = Some (res, s')"
      by (auto simp: fetch_run_def split: if_splits sum.splits)
    then show ?thesis
    proof cases
      case 1
      with none show ?thesis by simp
    next
      case 2
      from fetch_started_trace [OF this assms(2)] q0
      have "(\<exists>cs. fs_calls s' = fs_calls s2 @ cs \<and> (\<forall>c \<in> set cs. \<exists>fp. accepted P cn (fp, c)))
        \<and> (\<exists>ds. fs_sleeps s' = fs_sleeps s2 @ ds \<and> capped E ds)" by simp
      with S quiet show ?thesis by simp
    qed
  qed
qed

end

section \<open>Every run ends\<close>

lemma enqueue_all_queue:
  assumes "rfold (enqueue P cn) pr rs = Inr pr'"
  shows "\<exists>new. pr_queue pr' = pr_queue pr @ new \<and> set new \<subseteq> set rs"
  using assms
proof (induction rs arbitrary: pr)
  case (Cons r rs)
  from Cons.prems(1) obtain pr1 where pr1: "enqueue P cn pr r = Inr pr1"
    and rest: "rfold (enqueue P cn) pr1 rs = Inr pr'" by (auto simp: rbind_Inr_iff)
  have "\<exists>n. pr_queue pr1 = pr_queue pr @ n \<and> set n \<subseteq> {r}"
    using pr1 by (cases rule: enqueue_effect) auto
  with Cons.IH [OF rest] show ?case by fastforce
qed simp

context ranked_connector
begin

lemma fetch_next_smaller:
  assumes "pr_queue pr \<noteq> []" and "fetch_next P w E L cn run mp pr s = (Inr pr', s')"
  shows "(image_mset rank (mset (pr_queue pr')), image_mset rank (mset (pr_queue pr)))
     \<in> mult {(x, y). x < y}"
proof -
  define q where "q = hd (pr_queue pr)"
  from assms(2) obtain md ds pr1 where
    ds: "cn_remaining_requests cn q md mp = Inr ds" and
    e: "rfold (enqueue P cn) pr1 ds = Inr pr'" and pr1: "pr_queue pr1 = tl (pr_queue pr)"
    by (fastforce simp: fetch_next_def Let_def abind_Inr_iff q_def [symmetric])
  from enqueue_all_queue [OF e] pr1 obtain new where
    new: "pr_queue pr' = tl (pr_queue pr) @ new" "set new \<subseteq> set ds" by auto
  have "\<forall>k \<in># image_mset rank (mset new). \<exists>j \<in># {#rank q#}. (k, j) \<in> {(x, y). x < y}"
    using new(2) remaining_rank [OF ds] by auto
  then have "(image_mset rank (mset (tl (pr_queue pr))) + image_mset rank (mset new),
      image_mset rank (mset (tl (pr_queue pr))) + {#rank q#}) \<in> mult {(x, y). x < y}"
    by (intro one_step_implies_mult) auto
  moreover have "mset (pr_queue pr) = add_mset q (mset (tl (pr_queue pr)))"
    using assms(1) by (cases "pr_queue pr") (simp_all add: q_def)
  ultimately show ?thesis using new(1) by simp
qed

lemma fetch_queue_returns: "\<exists>y. fetch_queue P w E L cn run mp pr s = Some y"
proof -
  have wf: "wf (inv_image (mult {(x, y :: nat). x < y}) (\<lambda>pr. image_mset rank (mset (pr_queue pr))))"
    by (intro wf_inv_image wf_mult wf)
  show ?thesis
  proof (induction pr arbitrary: s rule: wf_induct_rule [OF wf])
    case (1 pr)
    show ?case
    proof (cases "pr_queue pr = []")
      case True
      then show ?thesis by (simp add: fetch_queue.simps)
    next
      case False
      obtain r s1 where n: "fetch_next P w E L cn run mp pr s = (r, s1)" by fastforce
      show ?thesis
      proof (cases r)
        case (Inl e)
        with n False show ?thesis by (simp add: fetch_queue.simps)
      next
        case (Inr pr1)
        from fetch_next_smaller [OF False n [unfolded Inr]]
        have "(pr1, pr) \<in> inv_image (mult {(x, y). x < y}) (\<lambda>pr. image_mset rank (mset (pr_queue pr)))"
          by simp
        from "1.IH" [OF this] n Inr False show ?thesis
          by (subst fetch_queue.simps) simp
      qed
    qed
  qed
qed

lemma fetch_run_returns: "\<exists>y. fetch_run P w E L cn mode r0 c0 mp s = Some y"
proof -
  have "\<exists>y. fetch_started P w E L cn mode r run mp pr0 s2 = Some y" for r run pr0 s2
    using fetch_queue_returns [of P w E L run mp pr0 s2]
    by (auto simp: fetch_started_def split: sum.splits prod.splits)
  then show ?thesis by (auto simp: fetch_run_def split: sum.splits prod.splits)
qed

end

end
