(* ===== verification/FetchRuns.thy ===== *)
theory FetchRuns
  imports FetchEngine
begin

text \<open>
  What a fetch run promises, over the ledger in PostgreSQL: the bookkeeping of a run that returns,
  that it followed every page and detail it discovered, that a run that raises is closed as failed,
  that no call left the allowed hosts, that every run ends, and the bound on a response's size.
\<close>

text \<open>
  C1: a fetch run that returns has left complete books. The observations added to the ledger are, for
  each planned request, a numbered series of at most \<open>max_attempts\<close> attempts of which the last, and no
  other, is selected; exactly these requests are planned for the run; and the run is closed as
  FETCHED with as many successful as planned requests, the counts the summary reports.
\<close>

theorem fetch_run_recorded:
  assumes "fetch_run P w E (postgres_ledger P rights) cn mode r0 c0 mp s = Some (Inr fm, s')"
    and "check_retry_policy (fe_retry_policy E) = Inr ()"
  shows "\<exists>gs. distinct (map fst gs)
     \<and> (\<forall>g \<in> set gs. complete_group (rt_max_attempts (fe_retry_policy E))
          (fm_connector_run_id fm) (fst g) (snd g))
     \<and> tb_fetch_observation (fs_ledger s')
         = tb_fetch_observation (fs_ledger s) @ concat (map snd gs)
     \<and> pg_planned (fs_ledger s')
         = pg_planned (fs_ledger s) \<union> Pair (fm_connector_run_id fm) ` fst ` set gs
     \<and> pg_status (fs_ledger s') = (pg_status (fs_ledger s))(fm_connector_run_id fm \<mapsto>
          (RUNNING, u ''FETCHED'', Some (int (length gs), int (length gs))))
     \<and> fm_planned_request_count fm = length gs \<and> fm_successful_request_count fm = length gs
     \<and> fm_attempt_count fm = length (concat (map snd gs))"
proof -
  from postgres.fetch_run_complete [OF assms] obtain gs and fetched :: "(ustr \<times> request_spec) list" where
    f: "map fst gs = map fst fetched" and
    rest: "distinct (map fst gs)"
    "\<forall>g \<in> set gs. complete_group (rt_max_attempts (fe_retry_policy E))
          (fm_connector_run_id fm) (fst g) (snd g)"
    "tb_fetch_observation (fs_ledger s') = tb_fetch_observation (fs_ledger s) @ concat (map snd gs)"
    "pg_planned (fs_ledger s')
         = pg_planned (fs_ledger s) \<union> Pair (fm_connector_run_id fm) ` fst ` set fetched"
    "pg_status (fs_ledger s') = (pg_status (fs_ledger s))(fm_connector_run_id fm \<mapsto>
          (RUNNING, u ''FETCHED'', Some (int (length gs), int (length gs))))"
    "fm_planned_request_count fm = length gs" "fm_successful_request_count fm = length gs"
    "fm_attempt_count fm = length (concat (map snd gs))"
    by (elim exE conjE) (rule that; assumption)
  have "fst ` set fetched = fst ` set gs" using f by (metis list.set_map)
  with rest show ?thesis by metis
qed



text \<open>
  Whatever a run ends in, every HTTP call it made was for a request of the connector's source at
  an endpoint that passes the endpoint check, and every sleep between attempts was between zero and
  the policy's cap, whatever \<open>Retry-After\<close> the provider sent.
\<close>

theorem fetch_run_calls_allowed:
  assumes "fetch_run P w E (postgres_ledger P rights) cn mode r0 c0 mp s = Some (res, s')"
    and "check_retry_policy (fe_retry_policy E) = Inr ()"
  shows "(\<exists>cs. fs_calls s' = fs_calls s @ cs
       \<and> (\<forall>c \<in> set cs. rq_source_id c = cn_source_id cn
            \<and> validate_endpoint P (rq_url c) (cn_allowed_hosts cn) = Inr ()))
    \<and> (\<exists>ds. fs_sleeps s' = fs_sleeps s @ ds
       \<and> (\<forall>d \<in> set ds. 0 \<le> d \<and> d \<le> rt_max_retry_after_seconds (fe_retry_policy E)))"
  using postgres.fetch_run_trace [OF assms] by (fastforce simp: accepted_def capped_def)

text \<open>
  C38: every run ends, in a summary or an exception, for each of the program's connectors and against
  any ledger, whatever the provider answers: following pages and details cannot go round in circles.
\<close>

theorem fetch_run_ends:
  "(\<exists>y. fetch_run P w E L (declared_total_connector P c) mode r0 c0 mp s = Some y)
   \<and> (\<exists>y. fetch_run P w E L (single_file_connector P f) mode r0 c0 mp s = Some y)
   \<and> (\<exists>y. fetch_run P w E L (job_alio_connector P j) mode r0 c0 mp s = Some y)"
  by (intro conjI declared.fetch_run_returns single.fetch_run_returns alio.fetch_run_returns)

lemma read_chunks_bound:
  assumes "read_chunks limit n got chunks broken = Body b" and "n = int (length got)" and "n \<le> limit"
  shows "b = got @ concat chunks \<and> int (length b) \<le> limit \<and> broken = None"
  using assms
proof (induction limit n got chunks broken rule: read_chunks.induct)
  case (1 limit n got broken)
  then show ?case by (auto split: option.splits)
next
  case (2 limit n got chunk chunks broken)
  then show ?case by (auto split: if_splits)
qed

text \<open>
  A response body that is accepted is the whole body and no larger than the configured limit:
  nothing is cut off, whatever length the provider declared.
\<close>

theorem read_limited_bound:
  assumes "read_limited E response = Body content" and "0 \<le> fe_max_response_bytes E"
  shows "content = concat (hr_chunks response) \<and> int (length content) \<le> fe_max_response_bytes E
    \<and> hr_broken response = None"
proof -
  have "read_chunks (fe_max_response_bytes E) 0 [] (hr_chunks response) (hr_broken response)
      = Body content"
    using assms(1) by (auto simp: read_limited_def split: if_splits)
  from read_chunks_bound [OF this] assms(2) show ?thesis by auto
qed

section \<open>An example run\<close>

text \<open>The provider answers the first call with 503 and asks for two seconds, then sends the file.\<close>

definition demo_env :: pyenv where
  "demo_env = hash_env\<lparr>sha256 := (\<lambda>_. replicate 64 48), digest := (\<lambda>_. replicate 64 48),
     uuid5 := (\<lambda>_ name. name)\<rparr>"

definition demo_engine :: fetch_engine where
  "demo_engine = \<lparr>fe_retry_policy = \<lparr>rt_max_attempts = 4, rt_max_retry_after_seconds = 60\<rparr>,
     fe_max_response_bytes = 1000, fe_raw_min_free_bytes = 0, fe_raw_max_used_fraction = 1 / 2\<rparr>"

definition demo_file :: single_file where
  "demo_file = \<lparr>sf_source_id = u ''ncs_qualification'', sf_display_name = u ''NCS'',
     sf_endpoint = u ''https://www.data.go.kr/file'', sf_allowed_hosts = [u ''www.data.go.kr'']\<rparr>"

definition demo_answer :: "int \<Rightarrow> http_result" where
  "demo_answer status = HttpAnswer \<lparr>hr_status_code = status,
     hr_headers = [(u ''content-type'', u ''text/csv''), (u ''retry-after'', u ''2'')],
     hr_chunks = [[1, 2], [3]], hr_broken = None\<rparr>"

definition demo_world :: "int \<Rightarrow> world" where
  "demo_world final_status =
     \<lparr>w_uuid = (\<lambda>n. u ''id-'' @ nat_str n), w_clock = (\<lambda>n. int n),
      w_http = (\<lambda>n _. demo_answer (if n < 10 then 503 else final_status)),
      w_disk = (\<lambda>_. \<lparr>du_total = 100, du_used = 10, du_free = 90000\<rparr>),
      w_put = (\<lambda>_. quiet_put_env), w_before_request = (\<lambda>_. None),
      w_db = (\<lambda>n. \<lparr>dc_now = int n, dc_fault = None\<rparr>)\<rparr>"

definition demo_rights :: source_activation_check where
  "demo_rights = \<lparr>ac_source_id = Ncs_qualification, ac_status = ALLOWED, ac_allowed = True,
     ac_policy_version = 1, ac_registry_revision = u ''2026-07-10.1'',
     ac_policy_hash = replicate 64 48, ac_requested_content = [], ac_out_of_scope_content = [],
     ac_blocking_permissions = [], ac_reason = None\<rparr>"

definition demo_start :: "fetch_tables fetch_state" where
  "demo_start = \<lparr>fs_ledger = \<lparr>tb_connector_run = [], tb_connector_request = [],
     tb_source_snapshot = [], tb_fetch_observation = []\<rparr>, fs_files = Map.empty, fs_tick = 0,
     fs_calls = [], fs_sleeps = []\<rparr>"

definition demo_run :: "int \<Rightarrow> ((exn + fetch_summary) \<times> fetch_tables fetch_state) option" where
  "demo_run final_status = fetch_run demo_env (demo_world final_status) demo_engine
     (postgres_ledger demo_env demo_rights) (single_file_connector demo_env demo_file)
     SCHEDULED_FULL None None None demo_start"

lemma demo_policy: "check_retry_policy (fe_retry_policy demo_engine) = Inr ()"
  by (simp add: demo_engine_def check_retry_policy_def)

declare fetch_queue.simps [code]

lemma demo_run_ok:
  "case demo_run 200 of Some (Inr fm, s') \<Rightarrow> fm_attempt_count fm = 2 \<and> fs_sleeps s' = [2]
     \<and> length (fs_calls s') = 2 | _ \<Rightarrow> False"
  by code_simp


lemma demo_run_failed:
  "case demo_run 404 of Some (Inl e, s') \<Rightarrow> error_code_of e = u ''HTTP_404''
     \<and> tb_connector_run (fs_ledger s') \<noteq> [] | _ \<Rightarrow> False"
  by code_simp

lemma demo_run_obtain:
  obtains fm s' where "demo_run 200 = Some (Inr fm, s')" "fm_attempt_count fm = 2"
    "length (fs_calls s') = 2"
  using demo_run_ok
  by (cases "demo_run 200") (force split: sum.splits)+

lemma demo_failure_obtain:
  obtains e s' where "demo_run 404 = Some (Inl e, s')" "error_code_of e = u ''HTTP_404''"
    "fs_ledger s' \<noteq> fs_ledger demo_start"
  using demo_run_failed
  by (cases "demo_run 404") (force simp: demo_start_def split: sum.splits)+

theorem fetch_run_recorded_witness:
  "\<exists>fm s' (gs :: (ustr \<times> fetch_attempt list) list). demo_run 200 = Some (Inr fm, s') \<and> length (concat (map snd gs)) = 2
     \<and> tb_fetch_observation (fs_ledger s') = concat (map snd gs)
     \<and> fm_planned_request_count fm = length gs"
proof -
  obtain fm s' where r: "demo_run 200 = Some (Inr fm, s')" "fm_attempt_count fm = 2"
    by (rule demo_run_obtain)
  from fetch_run_recorded [OF r(1) [unfolded demo_run_def] demo_policy] r show ?thesis
    by (auto simp: demo_start_def)
qed



theorem fetch_run_calls_allowed_witness:
  "\<exists>fm s'. demo_run 200 = Some (Inr fm, s') \<and> length (fs_calls s') = 2
     \<and> (\<forall>c \<in> set (fs_calls s'). validate_endpoint demo_env (rq_url c) [u ''www.data.go.kr''] = Inr ())"
proof -
  obtain fm s' where r: "demo_run 200 = Some (Inr fm, s')" "length (fs_calls s') = 2"
    by (rule demo_run_obtain)
  from fetch_run_calls_allowed [OF r(1) [unfolded demo_run_def] demo_policy] r show ?thesis
    by (auto simp: demo_start_def single_file_connector_def demo_file_def)
qed

theorem read_limited_bound_witness:
  "\<exists>content. read_limited demo_engine \<lparr>hr_status_code = 200, hr_headers = [],
       hr_chunks = [[1, 2], [3]], hr_broken = None\<rparr> = Body content \<and> length content = 3"
proof -
  have r: "read_limited demo_engine \<lparr>hr_status_code = 200, hr_headers = [],
      hr_chunks = [[1, 2], [3]], hr_broken = None\<rparr> = Body [1, 2, 3]" by code_simp
  from read_limited_bound [OF r] show ?thesis using r by (auto simp: demo_engine_def)
qed

end
