(* ===== verification/Normalize.thy ===== *)
theory Normalize
  imports Connectors PyDate
begin

text \<open>
  \<open>contracts/processing.py\<close> and \<open>processing/sources.py\<close>: from the bytes of one response to typed
  records. A row becomes a record of its source's kind or raises; a document becomes the list of its
  records and of the rows that were rejected, with the page data the completeness check needs.
\<close>

section \<open>Contracts\<close>

definition processor_version :: ustr where
  "processor_version = u ''normalize-v1''"

definition text_version :: ustr where
  "text_version = u ''nfc-lf-v1''"

definition processable_sources :: "ustr list" where
  "processable_sources = [u ''ncs_career_path'', u ''ncs_competency'', u ''ncs_qualification'',
     u ''qnet_schedule'', u ''alio_organization'', u ''job_alio'']"

record career_path =
  cp_occupation_code :: ustr
  cp_occupation_name :: ustr
  cp_competency_code :: ustr
  cp_competency_name :: ustr
  cp_competency_level :: int
  cp_rank_level :: int
  cp_rank_name :: ustr

record competency =
  co_code :: ustr
  co_name :: ustr
  co_definition :: "ustr option"
  co_level :: "int option"
  co_occupation_code :: ustr
  co_occupation_name :: ustr
  co_classification_names :: "ustr list"

record qualification_mapping =
  qm_competency_code :: ustr
  qm_qualification_code :: ustr
  qm_qualification_name :: ustr
  qm_standard_version :: ustr
  qm_unit_type :: ustr
  qm_minimum_training_hours :: "int option"
  qm_total_training_hours :: "int option"
  qm_examining_organization :: "ustr option"

record exam_session =
  es_qualification_code :: ustr
  es_year :: int
  es_round :: int
  es_category_code :: ustr
  es_name :: ustr
  es_dates :: "(ustr \<times> date option) list"

record organization =
  og_code :: ustr
  og_name :: ustr
  og_government_code :: "ustr option"
  og_organization_type :: "ustr option"
  og_supervising_organization_code :: "ustr option"
  og_website :: "ustr option"
  og_address :: "ustr option"
  og_established_date :: "date option"

datatype representation = List_representation | Detail_representation

record job_posting =
  jp_posting_id :: ustr
  jp_representation :: representation
  jp_title :: ustr
  jp_organization_code :: ustr
  jp_organization_name :: ustr
  jp_date_posted :: date
  jp_closing_date :: date
  jp_ongoing :: "bool option"
  jp_source_url :: "ustr option"
  jp_recruitment_type :: "ustr option"
  jp_education :: "ustr option"
  jp_employment_type :: "ustr option"
  jp_regions :: "ustr option"
  jp_ncs_category_codes :: "ustr option"
  jp_ncs_category_names :: "ustr option"
  jp_headcount :: "int option"
  jp_eligibility_text :: "ustr option"
  jp_disqualification_text :: "ustr option"
  jp_preference_text :: "ustr option"
  jp_selection_text :: "ustr option"

datatype normalized =
    CareerPath career_path
  | Competency competency
  | QualificationMapping qualification_mapping
  | ExamSession exam_session
  | Organization organization
  | JobPosting job_posting

definition kind_name :: "normalized \<Rightarrow> ustr" where
  "kind_name n = (case n of CareerPath _ \<Rightarrow> u ''CareerPath'' | Competency _ \<Rightarrow> u ''Competency''
     | QualificationMapping _ \<Rightarrow> u ''QualificationMapping'' | ExamSession _ \<Rightarrow> u ''ExamSession''
     | Organization _ \<Rightarrow> u ''Organization'' | JobPosting _ \<Rightarrow> u ''JobPosting'')"

definition representation_name :: "representation \<Rightarrow> ustr" where
  "representation_name r =
     (case r of List_representation \<Rightarrow> u ''list'' | Detail_representation \<Rightarrow> u ''detail'')"

text \<open>\<open>model_dump(mode="json")\<close> of the contracts.\<close>

definition jopt :: "('a \<Rightarrow> json) \<Rightarrow> 'a option \<Rightarrow> json" where
  "jopt f v = (case v of None \<Rightarrow> JNull | Some x \<Rightarrow> f x)"

definition jfields :: "(string \<times> json) list \<Rightarrow> json" where
  "jfields kvs = JObj (map (\<lambda>(k, v). (u k, v)) kvs)"

definition jdate :: "date \<Rightarrow> json" where
  "jdate d = JStr (isoformat d)"

definition normalized_json :: "normalized \<Rightarrow> json" where
  "normalized_json n =
     (case n of
        CareerPath c \<Rightarrow> jfields
          [(''kind'', JStr (kind_name n)),
           (''occupation_code'', JStr (cp_occupation_code c)),
           (''occupation_name'', JStr (cp_occupation_name c)),
           (''competency_code'', JStr (cp_competency_code c)),
           (''competency_name'', JStr (cp_competency_name c)),
           (''competency_level'', JInt (cp_competency_level c)),
           (''rank_level'', JInt (cp_rank_level c)),
           (''rank_name'', JStr (cp_rank_name c))]
      | Competency c \<Rightarrow> jfields
          [(''kind'', JStr (kind_name n)),
           (''code'', JStr (co_code c)),
           (''name'', JStr (co_name c)),
           (''definition'', jopt JStr (co_definition c)),
           (''level'', jopt JInt (co_level c)),
           (''occupation_code'', JStr (co_occupation_code c)),
           (''occupation_name'', JStr (co_occupation_name c)),
           (''classification_names'', JArr (map JStr (co_classification_names c)))]
      | QualificationMapping q \<Rightarrow> jfields
          [(''kind'', JStr (kind_name n)),
           (''competency_code'', JStr (qm_competency_code q)),
           (''qualification_code'', JStr (qm_qualification_code q)),
           (''qualification_name'', JStr (qm_qualification_name q)),
           (''standard_version'', JStr (qm_standard_version q)),
           (''unit_type'', JStr (qm_unit_type q)),
           (''minimum_training_hours'', jopt JInt (qm_minimum_training_hours q)),
           (''total_training_hours'', jopt JInt (qm_total_training_hours q)),
           (''examining_organization'', jopt JStr (qm_examining_organization q))]
      | ExamSession e \<Rightarrow> jfields
          [(''kind'', JStr (kind_name n)),
           (''qualification_code'', JStr (es_qualification_code e)),
           (''year'', JInt (es_year e)),
           (''round'', JInt (es_round e)),
           (''category_code'', JStr (es_category_code e)),
           (''name'', JStr (es_name e)),
           (''dates'', JObj (map (\<lambda>(k, d). (k, jopt jdate d)) (es_dates e)))]
      | Organization g \<Rightarrow> jfields
          [(''kind'', JStr (kind_name n)),
           (''code'', JStr (og_code g)),
           (''name'', JStr (og_name g)),
           (''government_code'', jopt JStr (og_government_code g)),
           (''organization_type'', jopt JStr (og_organization_type g)),
           (''supervising_organization_code'', jopt JStr (og_supervising_organization_code g)),
           (''website'', jopt JStr (og_website g)),
           (''address'', jopt JStr (og_address g)),
           (''established_date'', jopt jdate (og_established_date g))]
      | JobPosting p \<Rightarrow> jfields
          [(''kind'', JStr (kind_name n)),
           (''posting_id'', JStr (jp_posting_id p)),
           (''representation'', JStr (representation_name (jp_representation p))),
           (''title'', JStr (jp_title p)),
           (''organization_code'', JStr (jp_organization_code p)),
           (''organization_name'', JStr (jp_organization_name p)),
           (''date_posted'', jdate (jp_date_posted p)),
           (''closing_date'', jdate (jp_closing_date p)),
           (''ongoing'', jopt JBool (jp_ongoing p)),
           (''source_url'', jopt JStr (jp_source_url p)),
           (''recruitment_type'', jopt JStr (jp_recruitment_type p)),
           (''education'', jopt JStr (jp_education p)),
           (''employment_type'', jopt JStr (jp_employment_type p)),
           (''regions'', jopt JStr (jp_regions p)),
           (''ncs_category_codes'', jopt JStr (jp_ncs_category_codes p)),
           (''ncs_category_names'', jopt JStr (jp_ncs_category_names p)),
           (''headcount'', jopt JInt (jp_headcount p)),
           (''eligibility_text'', jopt JStr (jp_eligibility_text p)),
           (''disqualification_text'', jopt JStr (jp_disqualification_text p)),
           (''preference_text'', jopt JStr (jp_preference_text p)),
           (''selection_text'', jopt JStr (jp_selection_text p))])"

record text_artifact =
  ta_text :: ustr
  ta_sha256 :: ustr
  ta_normalization_version :: ustr

record staged_record =
  rc_source_record_id :: ustr
  rc_source_payload :: "(ustr \<times> json) list"
  rc_normalized :: normalized
  rc_field_lineage :: "(ustr \<times> ustr list) list"
  rc_texts :: "(ustr \<times> text_artifact) list"
  rc_quality_flags :: "ustr list"

definition record_json :: "staged_record \<Rightarrow> json" where
  "record_json r = jfields
     [(''source_record_id'', JStr (rc_source_record_id r)),
      (''source_payload'', JObj (rc_source_payload r)),
      (''normalized'', normalized_json (rc_normalized r)),
      (''field_lineage'', JObj (map (\<lambda>(k, ps). (k, JArr (map JStr ps))) (rc_field_lineage r))),
      (''texts'', JObj (map (\<lambda>(k, t). (k, jfields
          [(''text'', JStr (ta_text t)), (''sha256'', JStr (ta_sha256 t)),
           (''normalization_version'', JStr (ta_normalization_version t))])) (rc_texts r))),
      (''quality_flags'', JArr (map JStr (rc_quality_flags r)))]"

record rejected_row =
  rj_locator :: ustr
  rj_source_payload :: json
  rj_error_code :: ustr

record parsed_document =
  pd_records :: "(ustr \<times> staged_record) list"
  pd_rejected :: "rejected_row list"
  pd_total :: "int option"
  pd_page :: "int option"
  pd_page_size :: "int option"
  pd_row_count :: nat
  pd_encoding :: ustr

section \<open>Fields\<close>

definition processing_error :: "string \<Rightarrow> exn + 'a" where
  "processing_error code = Inl (Exn ProcessingError (u code))"

definition normalized_text :: "pyenv \<Rightarrow> ustr \<Rightarrow> ustr" where
  "normalized_text P value = nfc P (lf_text value)"

definition json_pointer :: "ustr \<Rightarrow> ustr" where
  "json_pointer key = u ''/'' @ replace_char 47 (u ''~1'') (replace_char 126 (u ''~0'') key)"

definition as_mapping :: "json \<Rightarrow> exn + (ustr \<times> json) list" where
  "as_mapping v = (case v of JObj kvs \<Rightarrow> Inr kvs | _ \<Rightarrow> processing_error ''EXPECTED_OBJECT'')"

definition as_integer :: "pyenv \<Rightarrow> json \<Rightarrow> exn + int" where
  "as_integer P v =
     (if (case v of JBool _ \<Rightarrow> True | _ \<Rightarrow> False) \<or> \<not> all_decimal (py_str P v)
      then processing_error ''INVALID_NONNEGATIVE_INTEGER''
      else case py_int (py_str P v) of
        None \<Rightarrow> Inl (Exn ValueError (u ''int''))
      | Some i \<Rightarrow> Inr i)"

text \<open>A method of \<open>Fields\<close> runs on the lineage collected so far; the row is its argument.\<close>

type_synonym lineage = "(ustr \<times> ustr list) list"
type_synonym 'a field_reader = "(lineage, exn, 'a) action"
type_synonym row = "(ustr \<times> json) list"

definition note_lineage :: "string \<Rightarrow> ustr list \<Rightarrow> unit field_reader" where
  "note_lineage target pointers l = (Inr (), AList.update (u target) pointers l)"

definition f_get :: "row \<Rightarrow> ustr \<Rightarrow> ustr \<Rightarrow> json field_reader" where
  "f_get row target source l =
     (Inr (jget row source), AList.update target [json_pointer source] l)"

definition read_string :: "pyenv \<Rightarrow> bool \<Rightarrow> json \<Rightarrow> exn + ustr option" where
  "read_string P required value =
     (if value = JNull \<or> value = JStr []
      then if required then processing_error ''MISSING_REQUIRED_FIELD'' else Inr None
      else if (case value of JStr _ \<Rightarrow> False | JInt _ \<Rightarrow> False | _ \<Rightarrow> True)
      then processing_error ''INVALID_STRING''
      else
        let result = strip (normalized_text P (py_str P value)) in
        if required \<and> result = [] then processing_error ''MISSING_REQUIRED_FIELD''
        else Inr (if result = [] then None else Some result))"

definition f_string :: "pyenv \<Rightarrow> row \<Rightarrow> string \<Rightarrow> string \<Rightarrow> ustr option field_reader" where
  "f_string P row target source =
     abind (f_get row (u target) (u source)) (\<lambda>v. lift_result (read_string P False v))"

text \<open>\<open>required\<close>; the columns of the CSV source have Korean names, so the source key is text.\<close>

definition f_required :: "pyenv \<Rightarrow> row \<Rightarrow> string \<Rightarrow> ustr \<Rightarrow> ustr field_reader" where
  "f_required P row target source =
     abind (f_get row (u target) source) (\<lambda>v. lift_result (rbind (read_string P True v)
       (\<lambda>s. Inr (case s of None \<Rightarrow> [] | Some t \<Rightarrow> t))))"

definition f_integer :: "pyenv \<Rightarrow> row \<Rightarrow> string \<Rightarrow> ustr \<Rightarrow> int field_reader" where
  "f_integer P row target source =
     abind (f_get row (u target) source) (\<lambda>v. lift_result (as_integer P v))"

definition f_number :: "pyenv \<Rightarrow> row \<Rightarrow> string \<Rightarrow> string \<Rightarrow> int option field_reader" where
  "f_number P row target source =
     abind (f_get row (u target) (u source)) (\<lambda>v.
       if v = JNull \<or> v = JStr [] then areturn None
       else lift_result (rbind (as_integer P v) (\<lambda>i. Inr (Some i))))"

definition read_day :: "ustr option \<Rightarrow> exn + date option" where
  "read_day value =
     (case value of
        None \<Rightarrow> Inr None
      | Some v \<Rightarrow>
          if \<not> decimals 8 v then processing_error ''INVALID_DATE''
          else case make_date (int (decimal_to_nat (slice 0 4 v)))
                      (int (decimal_to_nat (slice 4 6 v))) (int (decimal_to_nat (slice 6 8 v))) of
            None \<Rightarrow> processing_error ''INVALID_DATE''
          | Some d \<Rightarrow> Inr (Some d))"

definition f_day :: "pyenv \<Rightarrow> row \<Rightarrow> string \<Rightarrow> string \<Rightarrow> date option field_reader" where
  "f_day P row target source =
     abind (f_string P row target source) (\<lambda>v. lift_result (read_day v))"

section \<open>The columns of the career path file\<close>

text \<open>
  The Korean column names as code points: the codes of the large, middle and small class and of the
  job, the job's name, the competency's code, name and level, the rank's level and name.
\<close>

definition ko_large_code :: ustr where
  "ko_large_code =
     [45824, 48516, 47448, 53076, 46300]"

definition ko_middle_code :: ustr where
  "ko_middle_code =
     [51473, 48516, 47448, 53076, 46300]"

definition ko_small_code :: ustr where
  "ko_small_code =
     [49548, 48516, 47448, 53076, 46300]"

definition ko_job_code :: ustr where
  "ko_job_code =
     [51649, 47924, 53076, 46300]"

definition ko_job_name :: ustr where
  "ko_job_name =
     [51649, 47924, 47749]"

definition ko_unit_code :: ustr where
  "ko_unit_code =
     [51649, 47924, 50669, 47049, 53076, 46300]"

definition ko_unit_name :: ustr where
  "ko_unit_name =
     [51649, 47924, 50669, 47049, 47749]"

definition ko_unit_level :: ustr where
  "ko_unit_level =
     [51649, 47924, 50669, 47049, 49688, 51456, 40, 45733, 47141, 45800, 50948, 49688,
      51456, 32, 51060, 47732, 49436, 32, 49464, 48516, 47448, 51032, 32, 51088, 49885,
      41]"

definition ko_rank_level :: ustr where
  "ko_rank_level =
     [49688, 51456, 40, 51649, 44553, 49688, 51456, 41]"

definition ko_rank_name :: ustr where
  "ko_rank_name =
     [51649, 44553, 47749]"

definition career_code_fields :: "ustr list" where
  "career_code_fields = [ko_large_code, ko_middle_code, ko_small_code, ko_job_code]"

definition career_required_columns :: "ustr list" where
  "career_required_columns =
     [ko_large_code, ko_middle_code, ko_small_code, ko_job_code, ko_job_name, ko_unit_code,
      ko_unit_name, ko_unit_level, ko_rank_level, ko_rank_name]"

section \<open>Rows\<close>

text \<open>
  What a branch of \<open>normalize\<close> yields: the identity, the contract and the quality flags. The
  constructor of a contract validates its bounded fields; \<open>contract_check\<close> is its \<open>ValidationError\<close>.
\<close>

type_synonym normalized_row = "ustr \<times> normalized \<times> ustr list"

definition contract_check :: "bool \<Rightarrow> 'a \<Rightarrow> exn + 'a" where
  "contract_check ok v = (if ok then Inr v else Inl (Exn ValidationError (u ''contract'')))"

definition competency_level_ok :: "int \<Rightarrow> bool" where
  "competency_level_ok i \<longleftrightarrow> 1 \<le> i \<and> i \<le> 8"

definition two_digits :: "pyenv \<Rightarrow> row \<Rightarrow> ustr \<Rightarrow> exn + ustr" where
  "two_digits P row key =
     rbind (as_integer P (jget row key)) (\<lambda>i. Inr (zfill 2 (int_str i)))"

definition invalid_ncs_code :: "exn + 'a" where
  "invalid_ncs_code = processing_error ''INVALID_NCS_CODE''"

definition normalize_career_path :: "pyenv \<Rightarrow> row \<Rightarrow> normalized_row field_reader" where
  "normalize_career_path P row =
     abind (lift_result (rmap (two_digits P row) career_code_fields)) (\<lambda>parts.
     if list_ex (\<lambda>part. length part \<noteq> 2) parts then lift_result invalid_ncs_code else
     let code = concat parts; pointers = map json_pointer career_code_fields in
     abind (note_lineage ''occupation_code'' pointers) (\<lambda>_.
     abind (note_lineage ''competency_code'' (pointers @ [json_pointer ko_unit_code])) (\<lambda>_.
     abind (lift_result (two_digits P row ko_unit_code)) (\<lambda>part.
     if length part \<noteq> 2 then lift_result invalid_ncs_code else
     abind (f_required P row ''occupation_name'' ko_job_name) (\<lambda>occupation_name.
     abind (f_required P row ''competency_name'' ko_unit_name) (\<lambda>competency_name.
     abind (f_integer P row ''competency_level'' ko_unit_level) (\<lambda>competency_level.
     abind (f_integer P row ''rank_level'' ko_rank_level) (\<lambda>rank_level.
     abind (f_required P row ''rank_name'' ko_rank_name) (\<lambda>rank_name.
     lift_result (rbind
       (contract_check (competency_level_ok competency_level \<and> competency_level_ok rank_level)
          (CareerPath \<lparr>cp_occupation_code = code, cp_occupation_name = occupation_name,
             cp_competency_code = code @ part, cp_competency_name = competency_name,
             cp_competency_level = competency_level, cp_rank_level = rank_level,
             cp_rank_name = rank_name\<rparr>))
       (\<lambda>n. Inr (digest P (normalized_json n), n, []))))))))))))"

text \<open>\<open>re.fullmatch(r"\d{10}_\d{2}v\d+", code)\<close>.\<close>

definition ncs_unit_code :: "ustr \<Rightarrow> bool" where
  "ncs_unit_code s \<longleftrightarrow>
     decimals 10 (slice 0 10 s) \<and> slice 10 11 s = u ''_'' \<and> decimals 2 (slice 11 13 s)
     \<and> slice 13 14 s = u ''v'' \<and> all_decimal (drop 14 s)"

definition normalize_competency :: "pyenv \<Rightarrow> row \<Rightarrow> normalized_row field_reader" where
  "normalize_competency P row =
     abind (f_required P row ''code'' (u ''ncsClCd'')) (\<lambda>code.
     if \<not> ncs_unit_code code then lift_result invalid_ncs_code else
     let names = [u ''ncsLclasCdnm'', u ''ncsMclasCdnm'', u ''ncsSclasCdnm''] in
     abind (note_lineage ''occupation_code'' [u ''/ncsClCd'']) (\<lambda>_.
     abind (note_lineage ''classification_names'' (map json_pointer names)) (\<lambda>_.
     abind (f_integer P row ''level'' (u ''compeUnitLevel'')) (\<lambda>level.
     abind (f_required P row ''name'' (u ''compeUnitName'')) (\<lambda>name.
     abind (f_string P row ''definition'' ''compeUnitDef'') (\<lambda>def.
     abind (f_required P row ''occupation_name'' (u ''ncsSubdCdnm'')) (\<lambda>occupation_name.
     lift_result (rbind
       (contract_check (level = 0 \<or> competency_level_ok level)
          (Competency \<lparr>co_code = code, co_name = name, co_definition = def,
             co_level = (if level = 0 then None else Some level),
             co_occupation_code = slice 0 8 code, co_occupation_name = occupation_name,
             co_classification_names =
               map (\<lambda>name. if json_truthy (jget row name) then py_str P (jget row name) else [])
                 names\<rparr>))
       (\<lambda>n. Inr (code, n, if level = 0 then [u ''UNSPECIFIED_COMPETENCY_LEVEL''] else []))))))))))"

definition partition_mismatch :: "exn + 'a" where
  "partition_mismatch = processing_error ''PARTITION_IDENTITY_MISMATCH''"

definition normalize_qualification :: "pyenv \<Rightarrow> row \<Rightarrow> ustr \<Rightarrow> normalized_row field_reader" where
  "normalize_qualification P row part =
     abind (f_required P row ''competency_code'' (u ''ncsClCd'')) (\<lambda>code.
     if part \<noteq> u ''ncs-'' @ code \<or> \<not> ncs_unit_code code then lift_result partition_mismatch else
     abind (f_required P row ''qualification_code'' (u ''jmCd'')) (\<lambda>qualification_code.
     abind (f_required P row ''qualification_name'' (u ''jmNm'')) (\<lambda>qualification_name.
     abind (f_required P row ''standard_version'' (u ''organStdVerCd'')) (\<lambda>standard_version.
     abind (f_required P row ''unit_type'' (u ''abltUnitTypCd'')) (\<lambda>unit_type.
     abind (f_number P row ''minimum_training_hours'' ''minEduTrngTm'') (\<lambda>minimum.
     abind (f_number P row ''total_training_hours'' ''eduTrngStdTmSum'') (\<lambda>tot.
     abind (f_string P row ''examining_organization'' ''examInstiNm'') (\<lambda>organization.
     areturn (join_on 58 [code, qualification_code, standard_version],
       QualificationMapping \<lparr>qm_competency_code = code, qm_qualification_code = qualification_code,
         qm_qualification_name = qualification_name, qm_standard_version = standard_version,
         qm_unit_type = unit_type, qm_minimum_training_hours = minimum,
         qm_total_training_hours = tot, qm_examining_organization = organization\<rparr>, [])))))))))"

text \<open>\<open>re.fullmatch(r"year-(\d{4})-item-([A-Z0-9]{4})", partition)\<close> and its two groups.\<close>

definition schedule_partition :: "ustr \<Rightarrow> (ustr \<times> ustr) option" where
  "schedule_partition s =
     (let year = slice 5 9 s; item = drop 15 s in
      if starts_with (u ''year-'') s \<and> decimals 4 year \<and> slice 9 15 s = u ''-item-''
         \<and> length item = 4 \<and> list_all is_upper_alnum item
      then Some (year, item) else None)"

definition schedule_date_fields :: "string list" where
  "schedule_date_fields =
     [''docRegStartDt'', ''docRegEndDt'', ''docExamStartDt'', ''docExamEndDt'', ''docPassDt'',
      ''pracRegStartDt'', ''pracRegEndDt'', ''pracExamStartDt'', ''pracExamEndDt'', ''pracPassDt'']"

definition schedule_ranges :: "(string \<times> string) list" where
  "schedule_ranges =
     [(''docRegStartDt'', ''docRegEndDt''), (''docExamStartDt'', ''docExamEndDt''),
      (''pracRegStartDt'', ''pracRegEndDt''), (''pracExamStartDt'', ''pracExamEndDt'')]"

definition date_of_field :: "(ustr \<times> date option) list \<Rightarrow> string \<Rightarrow> date option" where
  "date_of_field dates key = (case map_of dates (u key) of None \<Rightarrow> None | Some d \<Rightarrow> d)"

definition reversed_range :: "(ustr \<times> date option) list \<Rightarrow> string \<times> string \<Rightarrow> bool" where
  "reversed_range dates r =
     (case (date_of_field dates (fst r), date_of_field dates (snd r)) of
        (Some a, Some b) \<Rightarrow> b < a | _ \<Rightarrow> False)"

definition normalize_schedule :: "pyenv \<Rightarrow> row \<Rightarrow> ustr \<Rightarrow> normalized_row field_reader" where
  "normalize_schedule P row part =
     (case schedule_partition part of
        None \<Rightarrow> lift_result partition_mismatch
      | Some (year_text, item) \<Rightarrow>
     if py_str P (jget row (u ''implYy'')) \<noteq> year_text then lift_result partition_mismatch
     else if jget row (u ''jmCd'') \<notin> {JNull, JStr [], JStr item}
     then lift_result partition_mismatch else
     abind (note_lineage ''qualification_code'' [u ''request:partition_id'']) (\<lambda>_.
     abind (amap (\<lambda>key. abind (f_day P row (''dates.'' @ key) key) (\<lambda>d. areturn (u key, d)))
              schedule_date_fields) (\<lambda>dates.
     if list_ex (reversed_range dates) schedule_ranges
     then lift_result (processing_error ''REVERSED_DATE_RANGE'') else
     abind (f_integer P row ''year'' (u ''implYy'')) (\<lambda>year.
     abind (f_integer P row ''round'' (u ''implSeq'')) (\<lambda>round.
     abind (f_required P row ''category_code'' (u ''qualgbCd'')) (\<lambda>category_code.
     abind (f_required P row ''name'' (u ''description'')) (\<lambda>name.
     lift_result (rbind
       (contract_check (1900 \<le> year \<and> year \<le> 2200 \<and> 1 \<le> round)
          (ExamSession \<lparr>es_qualification_code = item, es_year = year, es_round = round,
             es_category_code = category_code, es_name = name, es_dates = dates\<rparr>))
       (\<lambda>n. Inr (join_on 58 [item, int_str year, category_code, int_str round], n, []))))))))))"

definition normalize_organization :: "pyenv \<Rightarrow> row \<Rightarrow> normalized_row field_reader" where
  "normalize_organization P row =
     abind (f_required P row ''code'' (u ''instCd'')) (\<lambda>code.
     abind (f_required P row ''name'' (u ''instNm'')) (\<lambda>name.
     abind (f_string P row ''government_code'' ''pbadmsStdInstCd'') (\<lambda>government_code.
     abind (f_string P row ''organization_type'' ''instTypeNm'') (\<lambda>organization_type.
     abind (f_string P row ''supervising_organization_code'' ''sprvsnInstCd'') (\<lambda>supervising.
     abind (f_string P row ''website'' ''siteUrl'') (\<lambda>website.
     abind (f_string P row ''address'' ''roadNmAddr'') (\<lambda>address.
     abind (f_day P row ''established_date'' ''fndnYmd'') (\<lambda>established.
     areturn (code, Organization \<lparr>og_code = code, og_name = name,
       og_government_code = government_code, og_organization_type = organization_type,
       og_supervising_organization_code = supervising, og_website = website,
       og_address = address, og_established_date = established\<rparr>, [])))))))))"

definition posting_range :: "date option \<Rightarrow> date option \<Rightarrow> exn + date \<times> date" where
  "posting_range posted closing =
     (case (posted, closing) of
        (Some a, Some b) \<Rightarrow>
          if b < a then processing_error ''INVALID_POSTING_DATE_RANGE'' else Inr (a, b)
      | _ \<Rightarrow> processing_error ''INVALID_POSTING_DATE_RANGE'')"

definition normalize_posting :: "pyenv \<Rightarrow> row \<Rightarrow> ustr \<Rightarrow> normalized_row field_reader" where
  "normalize_posting P row part =
     abind (f_required P row ''posting_id'' (u ''recrutPblntSn'')) (\<lambda>identity.
     let representation = (if starts_with (u ''detail-'') part then Detail_representation
                           else List_representation) in
     if representation = Detail_representation \<and> part \<noteq> u ''detail-'' @ identity
     then lift_result partition_mismatch else
     abind (note_lineage ''representation'' [u ''request:partition_id'']) (\<lambda>_.
     abind (f_get row (u ''ongoing'') (u ''ongoingYn'')) (\<lambda>ongoing.
     if ongoing \<notin> {JStr (u ''Y''), JStr (u ''N''), JNull, JStr []}
     then lift_result (processing_error ''INVALID_ONGOING_STATUS'') else
     abind (f_day P row ''date_posted'' ''pbancBgngYmd'') (\<lambda>posted.
     abind (f_day P row ''closing_date'' ''pbancEndYmd'') (\<lambda>closing.
     abind (lift_result (posting_range posted closing)) (\<lambda>(date_posted, closing_date).
     abind (f_required P row ''title'' (u ''recrutPbancTtl'')) (\<lambda>title.
     abind (f_required P row ''organization_code'' (u ''pblntInstCd'')) (\<lambda>organization_code.
     abind (f_required P row ''organization_name'' (u ''instNm'')) (\<lambda>organization_name.
     abind (f_string P row ''source_url'' ''srcUrl'') (\<lambda>source_url.
     abind (f_string P row ''recruitment_type'' ''recrutSeNm'') (\<lambda>recruitment_type.
     abind (f_string P row ''education'' ''acbgCondNmLst'') (\<lambda>education.
     abind (f_string P row ''employment_type'' ''hireTypeNmLst'') (\<lambda>employment_type.
     abind (f_string P row ''regions'' ''workRgnNmLst'') (\<lambda>regions.
     abind (f_string P row ''ncs_category_codes'' ''ncsCdLst'') (\<lambda>category_codes.
     abind (f_string P row ''ncs_category_names'' ''ncsCdNmLst'') (\<lambda>category_names.
     abind (f_number P row ''headcount'' ''recrutNope'') (\<lambda>headcount.
     abind (f_string P row ''eligibility_text'' ''aplyQlfcCn'') (\<lambda>eligibility.
     abind (f_string P row ''disqualification_text'' ''disqlfcRsn'') (\<lambda>disqualification.
     abind (f_string P row ''preference_text'' ''prefCn'') (\<lambda>preference.
     abind (f_string P row ''selection_text'' ''scrnprcdrMthdExpln'') (\<lambda>selection.
     areturn (identity @ u '':'' @ representation_name representation, JobPosting
       \<lparr>jp_posting_id = identity, jp_representation = representation, jp_title = title,
        jp_organization_code = organization_code, jp_organization_name = organization_name,
        jp_date_posted = date_posted, jp_closing_date = closing_date,
        jp_ongoing = (if ongoing = JNull \<or> ongoing = JStr [] then None
                      else Some (ongoing = JStr (u ''Y''))),
        jp_source_url = source_url, jp_recruitment_type = recruitment_type,
        jp_education = education, jp_employment_type = employment_type, jp_regions = regions,
        jp_ncs_category_codes = category_codes, jp_ncs_category_names = category_names,
        jp_headcount = headcount, jp_eligibility_text = eligibility,
        jp_disqualification_text = disqualification, jp_preference_text = preference,
        jp_selection_text = selection\<rparr>, []))))))))))))))))))))))"

text \<open>The text artifacts: every non-empty text of the row, normalised, under its pointer.\<close>

definition text_artifacts :: "pyenv \<Rightarrow> row \<Rightarrow> exn + (ustr \<times> text_artifact) list" where
  "text_artifacts P row =
     rfold (\<lambda>texts (key, value).
        case value of
          JStr s \<Rightarrow>
            if s = [] then Inr texts
            else (case utf8 (normalized_text P s) of
              None \<Rightarrow> Inl (Exn UnicodeEncodeError (u ''utf-8''))
            | Some b \<Rightarrow> Inr (AList.update (json_pointer key)
                \<lparr>ta_text = normalized_text P s, ta_sha256 = sha256 P b,
                 ta_normalization_version = text_version\<rparr> texts))
        | _ \<Rightarrow> Inr texts) [] row"

definition normalize_row :: "pyenv \<Rightarrow> ustr \<Rightarrow> row \<Rightarrow> ustr \<Rightarrow> normalized_row field_reader" where
  "normalize_row P source_id row part =
     (if source_id = u ''ncs_career_path'' then normalize_career_path P row
      else if source_id = u ''ncs_competency'' then normalize_competency P row
      else if source_id = u ''ncs_qualification'' then normalize_qualification P row part
      else if source_id = u ''qnet_schedule'' then normalize_schedule P row part
      else if source_id = u ''alio_organization'' then normalize_organization P row
      else if source_id = u ''job_alio'' then normalize_posting P row part
      else lift_result (processing_error ''UNSUPPORTED_SOURCE''))"

definition normalize :: "pyenv \<Rightarrow> ustr \<Rightarrow> row \<Rightarrow> ustr \<Rightarrow> exn + staged_record" where
  "normalize P source_id row part =
     (case normalize_row P source_id row part [] of
        (Inl e, _) \<Rightarrow> Inl e
      | (Inr (identity, n, flags), lineage) \<Rightarrow>
          rbind (text_artifacts P row) (\<lambda>texts.
            Inr \<lparr>rc_source_record_id = identity, rc_source_payload = row, rc_normalized = n,
                 rc_field_lineage = lineage, rc_texts = texts, rc_quality_flags = flags\<rparr>))"


section \<open>The CSV reader\<close>

text \<open>
  \<open>csv.reader(..., strict=True)\<close> with the default dialect: comma, double quote, doubled quotes
  inside a quoted field, a line end being LF, CR or CRLF. The result is the records read and whether
  the reader came to the end without \<open>csv.Error\<close>. Fields are collected in reverse.
\<close>

datatype csv_state = Record_start | Field_start | In_field | In_quoted | Quote_in_quoted

definition csv_field_limit :: nat where
  "csv_field_limit = 131072"

definition skip_lf :: "nat \<Rightarrow> ustr \<Rightarrow> ustr" where
  "skip_lf c s = (if c = 13 \<and> take 1 s = [10] then drop 1 s else s)"

lemma length_skip_lf: "length (skip_lf c s) \<le> length s"
  by (simp add: skip_lf_def)

definition csv_emit :: "ustr list \<Rightarrow> ustr list list \<times> bool \<Rightarrow> ustr list list \<times> bool" where
  "csv_emit r res = (r # fst res, snd res)"

function (sequential) csv_scan ::
    "csv_state \<Rightarrow> ustr \<Rightarrow> ustr list \<Rightarrow> ustr \<Rightarrow> ustr list list \<times> bool" where
  "csv_scan st field row [] =
     (case st of
        Record_start \<Rightarrow> ([], True)
      | In_quoted \<Rightarrow> ([], False)
      | _ \<Rightarrow> ([rev (rev field # row)], True))"
| "csv_scan st field row (c # s) =
     (if st = In_quoted then
        if c = 34 then csv_scan Quote_in_quoted field row s
        else if csv_field_limit \<le> length field then ([], False)
        else csv_scan In_quoted (c # field) row s
      else if c = 10 \<or> c = 13 then
        csv_emit (if st = Record_start then [] else rev (rev field # row))
          (csv_scan Record_start [] [] (skip_lf c s))
      else if c = 44 then csv_scan Field_start [] (rev field # row) s
      else if st = Quote_in_quoted then
        if c = 34 then
          if csv_field_limit \<le> length field then ([], False)
          else csv_scan In_quoted (c # field) row s
        else ([], False)
      else if c = 34 \<and> st \<noteq> In_field then csv_scan In_quoted field row s
      else if csv_field_limit \<le> length field then ([], False)
      else csv_scan In_field (c # field) row s)"
  by pat_completeness auto
termination
  by (relation "measure (\<lambda>(_, _, _, s). length s)") (auto simp: le_imp_less_Suc length_skip_lf)

definition csv_error :: "exn + 'a" where
  "csv_error = Inl (Exn (OtherError (u ''Error'')) (u ''csv''))"

text \<open>Rows of \<open>DictReader\<close>: blank records are skipped, and a width other than the header's raises.\<close>

fun csv_rows :: "ustr list \<Rightarrow> nat \<Rightarrow> ustr list list \<Rightarrow> exn + (ustr \<times> json) list" where
  "csv_rows header number [] = Inr []"
| "csv_rows header number (r # rs) =
     (if r = [] then csv_rows header number rs
      else if length r \<noteq> length header then processing_error ''INVALID_CSV_ROW_WIDTH''
      else rbind (csv_rows header (Suc number) rs) (\<lambda>rest.
        Inr ((u ''csv:record:'' @ nat_str number, JObj (zip header (map JStr r))) # rest)))"

definition parse_csv :: "ustr \<Rightarrow> exn + (ustr \<times> json) list" where
  "parse_csv decoded =
     (case csv_scan Record_start [] [] decoded of
        ([], ok) \<Rightarrow> if ok then processing_error ''INVALID_CSV_HEADER'' else csv_error
      | (header # records, ok) \<Rightarrow>
          if header = [] \<or> \<not> distinct header then processing_error ''INVALID_CSV_HEADER''
          else if \<not> list_all (\<lambda>c. c \<in> set header) career_required_columns
          then processing_error ''MISSING_CSV_COLUMNS''
          else rbind (csv_rows header 1 records) (\<lambda>rows.
            if \<not> ok then csv_error
            else if rows = [] then processing_error ''EMPTY_CSV''
            else Inr rows))"

section \<open>Documents\<close>

text \<open>What reading a response gives: its rows with their locators, and the page data.\<close>

record raw_document =
  rd_rows :: "(ustr \<times> json) list"
  rd_total :: "int option"
  rd_page :: "int option"
  rd_page_size :: "int option"
  rd_encoding :: ustr

definition read_career_file :: "pyenv \<Rightarrow> nat list \<Rightarrow> exn + raw_document" where
  "read_career_file P body =
     rbind (case utf8_sig_decode body of
              Some decoded \<Rightarrow> Inr (decoded, u ''utf-8-sig'')
            | None \<Rightarrow> (case cp949_decode P body of
                None \<Rightarrow> Inl (Exn UnicodeDecodeError (u ''cp949''))
              | Some decoded \<Rightarrow> Inr (decoded, u ''cp949''))) (\<lambda>(decoded, encoding).
     rbind (parse_csv decoded) (\<lambda>rows.
       Inr \<lparr>rd_rows = rows, rd_total = None, rd_page = None, rd_page_size = None,
            rd_encoding = encoding\<rparr>))"

text \<open>Where a source keeps its page data and its items.\<close>

definition locate_items :: "ustr \<Rightarrow> row \<Rightarrow> exn + row \<times> json \<times> ustr" where
  "locate_items source_id document =
     (if source_id = u ''ncs_competency'' then
        rbind (as_mapping (jget document (u ''root''))) (\<lambda>root.
        rbind (as_mapping (jget root (u ''info''))) (\<lambda>meta.
          Inr (meta, jget root (u ''items''), u ''/root/items'')))
      else if source_id = u ''ncs_qualification'' \<or> source_id = u ''qnet_schedule'' then
        rbind (as_mapping (jget document (u ''body''))) (\<lambda>meta.
          Inr (meta, jget meta (u ''items''), u ''/body/items''))
      else if source_id = u ''job_alio'' \<or> source_id = u ''alio_organization'' then
        if json_is_int (jget document (u ''resultCode'')) 200
           \<or> jget document (u ''resultCode'') = JStr (u ''200'')
        then Inr (document, jget document (u ''result''), u ''/result'')
        else processing_error ''INVALID_PROVIDER_RESULT''
      else processing_error ''UNSUPPORTED_SOURCE'')"

definition jget_default :: "row \<Rightarrow> ustr \<Rightarrow> json \<Rightarrow> json" where
  "jget_default kvs key dflt = (case map_of kvs key of None \<Rightarrow> dflt | Some v \<Rightarrow> v)"

definition is_detail :: "ustr \<Rightarrow> ustr \<Rightarrow> bool" where
  "is_detail source_id part \<longleftrightarrow> source_id = u ''job_alio'' \<and> starts_with (u ''detail-'') part"

definition number_items :: "ustr \<Rightarrow> json list \<Rightarrow> (ustr \<times> json) list" where
  "number_items prefix items =
     map (\<lambda>(i, item). (prefix @ u ''/'' @ nat_str i, item)) (zip [0..<length items] items)"

definition read_json_document ::
    "pyenv \<Rightarrow> ustr \<Rightarrow> nat list \<Rightarrow> ustr \<Rightarrow> int option \<Rightarrow> exn + raw_document" where
  "read_json_document P source_id body part page =
     rbind (case json_loads P body of
              None \<Rightarrow> processing_error ''INVALID_JSON'' | Some v \<Rightarrow> as_mapping v) (\<lambda>document.
     rbind (locate_items source_id document) (\<lambda>(meta, items, prefix).
       if is_detail source_id part then
         rbind (as_mapping items) (\<lambda>row.
           Inr \<lparr>rd_rows = [(prefix, JObj row)], rd_total = None, rd_page = None,
                rd_page_size = None, rd_encoding = u ''utf-8''\<rparr>)
       else case items of
         JArr xs \<Rightarrow>
           rbind (as_integer P (jget meta (u ''totalCount''))) (\<lambda>tot.
           rbind (as_integer P (jget_default meta (u ''pageNo'') (jopt JInt page))) (\<lambda>response_page.
           rbind (as_integer P (jget_default meta (u ''numOfRows'') (JInt 100))) (\<lambda>sz.
             if Some response_page \<noteq> page \<or> sz < 1 \<or> response_page < 1
             then processing_error ''INVALID_PAGINATION''
             else Inr \<lparr>rd_rows = number_items prefix xs, rd_total = Some tot,
                       rd_page = Some response_page, rd_page_size = Some sz,
                       rd_encoding = u ''utf-8''\<rparr>)))
       | _ \<Rightarrow> processing_error ''EXPECTED_ITEM_ARRAY''))"

text \<open>
  One row: a record, or a rejected row when the row itself is at fault. Any other exception leaves
  the loop.
\<close>

definition row_error_code :: "exn \<Rightarrow> ustr option" where
  "row_error_code e =
     (case e of Exn c t \<Rightarrow>
        if c = ProcessingError then Some t
        else if c = ValidationError then Some (u ''RECORD_CONTRACT_INVALID'')
        else None)"

definition parse_row ::
    "pyenv \<Rightarrow> ustr \<Rightarrow> ustr \<Rightarrow> ustr \<times> json \<Rightarrow> exn + rejected_row + staged_record" where
  "parse_row P source_id part r =
     (case rbind (as_mapping (snd r)) (\<lambda>kvs. normalize P source_id kvs part) of
        Inr rec \<Rightarrow> Inr (Inr rec)
      | Inl e \<Rightarrow>
          (case row_error_code e of
             None \<Rightarrow> Inl e
           | Some code \<Rightarrow> Inr (Inl \<lparr>rj_locator = fst r, rj_source_payload = snd r,
                                   rj_error_code = code\<rparr>)))"

definition add_parsed ::
    "ustr \<times> json \<Rightarrow> rejected_row + staged_record
     \<Rightarrow> (ustr \<times> staged_record) list \<times> rejected_row list
     \<Rightarrow> (ustr \<times> staged_record) list \<times> rejected_row list" where
  "add_parsed r p acc =
     (case p of
        Inr rec \<Rightarrow> (fst acc @ [(fst r, rec)], snd acc)
      | Inl rej \<Rightarrow> (fst acc, snd acc @ [rej]))"

definition parse_rows ::
    "pyenv \<Rightarrow> ustr \<Rightarrow> ustr \<Rightarrow> (ustr \<times> json) list
     \<Rightarrow> exn + (ustr \<times> staged_record) list \<times> rejected_row list" where
  "parse_rows P source_id part rows =
     rfold (\<lambda>acc r. rbind (parse_row P source_id part r) (\<lambda>p. Inr (add_parsed r p acc)))
       ([], []) rows"

definition parse_document ::
    "pyenv \<Rightarrow> ustr \<Rightarrow> nat list \<Rightarrow> ustr \<Rightarrow> int option \<Rightarrow> exn + parsed_document" where
  "parse_document P source_id body part page =
     rbind (if source_id = u ''ncs_career_path'' then read_career_file P body
            else read_json_document P source_id body part page) (\<lambda>d.
     rbind (parse_rows P source_id part (rd_rows d)) (\<lambda>(records, rejected).
       Inr \<lparr>pd_records = records, pd_rejected = rejected, pd_total = rd_total d,
            pd_page = rd_page d, pd_page_size = rd_page_size d,
            pd_row_count = length (rd_rows d), pd_encoding = rd_encoding d\<rparr>))"

end
