(* ===== verification/NormalizeFacts.thy ===== *)
theory NormalizeFacts
  imports Normalize
begin

text \<open>
  What normalisation promises: accepted rows satisfy the bounds of their contracts and belong to the
  partition they were requested for, their texts are kept under pointers that cannot collide, and a
  parsed document accounts for every row of the response.
\<close>

section \<open>Contracts of accepted rows\<close>

definition opt_holds :: "('a \<Rightarrow> bool) \<Rightarrow> 'a option \<Rightarrow> bool" where
  "opt_holds p v = (case v of None \<Rightarrow> True | Some x \<Rightarrow> p x)"

text \<open>The bounds and cross-field rules a staged record has.\<close>

definition normalized_ok :: "normalized \<Rightarrow> bool" where
  "normalized_ok n =
     (case n of
        CareerPath c \<Rightarrow> competency_level_ok (cp_competency_level c)
          \<and> competency_level_ok (cp_rank_level c) \<and> length (cp_occupation_code c) = 8
          \<and> length (cp_competency_code c) = 10
          \<and> take 8 (cp_competency_code c) = cp_occupation_code c
      | Competency c \<Rightarrow> ncs_unit_code (co_code c) \<and> take 8 (co_code c) = co_occupation_code c
          \<and> opt_holds competency_level_ok (co_level c)
      | QualificationMapping q \<Rightarrow> ncs_unit_code (qm_competency_code q)
          \<and> opt_holds (\<lambda>i. 0 \<le> i) (qm_minimum_training_hours q)
          \<and> opt_holds (\<lambda>i. 0 \<le> i) (qm_total_training_hours q)
      | ExamSession e \<Rightarrow> 1900 \<le> es_year e \<and> es_year e \<le> 2200 \<and> 1 \<le> es_round e
          \<and> list_all (\<lambda>r. \<not> reversed_range (es_dates e) r) schedule_ranges
      | Organization g \<Rightarrow> og_code g \<noteq> [] \<and> og_name g \<noteq> []
      | JobPosting p \<Rightarrow> jp_date_posted p \<le> jp_closing_date p \<and> jp_title p \<noteq> []
          \<and> opt_holds (\<lambda>i. 0 \<le> i) (jp_headcount p))"


lemma processing_error_not_Inr [simp]: "processing_error c \<noteq> Inr x" "Inr x \<noteq> processing_error c"
  by (simp_all add: processing_error_def)

lemma invalid_ncs_code_not_Inr [simp]: "invalid_ncs_code \<noteq> Inr x"
  by (simp add: invalid_ncs_code_def)

lemma partition_mismatch_not_Inr [simp]: "partition_mismatch \<noteq> Inr x"
  by (simp add: partition_mismatch_def)

lemma contract_check_Inr [result_simps]: "contract_check ok v = Inr w \<longleftrightarrow> ok \<and> w = v"
  by (auto simp: contract_check_def)

lemma note_lineage_Inr [result_simps]:
  "note_lineage t ps l = (Inr x, l') \<longleftrightarrow> l' = AList.update (u t) ps l"
  by (auto simp: note_lineage_def)

lemma as_integer_nonneg:
  assumes "as_integer P v = Inr i" shows "0 \<le> i"
proof -
  define t where "t = py_str P v"
  from assms have d: "all_decimal t" and i: "py_int t = Some i"
    by (auto simp: as_integer_def t_def split: if_splits option.splits)
  have nosign: "c \<in> set t \<Longrightarrow> is_decimal c" for c
    using d by (simp add: all_decimal_def list_all_iff)
  have "\<not> is_decimal 45" "\<not> is_decimal 43" by (simp_all add: is_decimal_def decimal_value_def digit_zeros_def)
  then have no: "45 \<notin> set t" "43 \<notin> set t" using nosign by blast+
  have "set (strip t) \<subseteq> set t" by (rule strip_sub)
  with no have s: "45 \<notin> set (strip t)" "43 \<notin> set (strip t)" by auto
  show ?thesis
    using i s
    by (cases "strip t") (auto simp: py_int_def Let_def digits_to_int_def split: option.splits if_splits)
qed

lemma f_integer_Inr:
  "f_integer P row t k l = (Inr i, l') \<Longrightarrow> 0 \<le> i"
  by (auto simp: f_integer_def f_get_def abind_def as_integer_nonneg)

lemma f_number_Inr:
  "f_number P row t k l = (Inr v, l') \<Longrightarrow> opt_holds (\<lambda>i. 0 \<le> i) v"
  by (auto simp: f_number_def f_get_def abind_def opt_holds_def rbind_Inr_iff as_integer_nonneg
      split: if_splits option.splits)

lemma f_required_Inr: "f_required P row t k l = (Inr s, l') \<Longrightarrow> s \<noteq> []"
  by (auto simp: f_required_def f_get_def abind_def read_string_def Let_def rbind_Inr_iff
      split: if_splits json.splits)

lemma two_digits_length:
  assumes "rmap (two_digits P row) ks = Inr ps" and "\<not> list_ex (\<lambda>p. length p \<noteq> 2) ps"
  shows "length (concat ps) = 2 * length ks"
proof -
  have "length ps = length ks" using assms(1) by (rule rmap_length)
  moreover have "length (concat ps) = 2 * length ps"
    using assms(2) by (induction ps) auto
  ultimately show ?thesis by simp
qed

lemma career_path_ok:
  assumes "normalize_career_path P row l = (Inr (i, n, fl), l')"
  shows "normalized_ok n"
  using assms two_digits_length [of P row career_code_fields]
  by (auto simp: normalize_career_path_def abind_Inr_iff result_simps Let_def normalized_ok_def
      career_code_fields_def split: if_splits)

lemma competency_ok:
  assumes "normalize_competency P row l = (Inr (i, n, fl), l')"
  shows "normalized_ok n \<and> (\<exists>c. n = Competency c \<and> i = co_code c)"
  using assms
  by (auto simp: normalize_competency_def abind_Inr_iff result_simps Let_def normalized_ok_def
      opt_holds_def slice_def split: if_splits)

lemma qualification_ok:
  assumes "normalize_qualification P row part l = (Inr (i, n, fl), l')"
  shows "normalized_ok n \<and> (\<exists>q. n = QualificationMapping q \<and> part = u ''ncs-'' @ qm_competency_code q)"
  using assms
  by (auto simp: normalize_qualification_def abind_Inr_iff Let_def normalized_ok_def
      split: if_splits dest!: f_number_Inr)

lemma schedule_ok:
  assumes "normalize_schedule P row part l = (Inr (i, n, fl), l')"
  shows "normalized_ok n \<and> (\<exists>e y. n = ExamSession e
     \<and> schedule_partition part = Some (y, es_qualification_code e)
     \<and> py_str P (jget row (u ''implYy'')) = y)"
  using assms
  by (auto simp: normalize_schedule_def abind_Inr_iff result_simps Let_def normalized_ok_def
      list_all_iff list_ex_iff split: if_splits option.splits prod.splits)

lemma organization_ok:
  assumes "normalize_organization P row l = (Inr (i, n, fl), l')"
  shows "normalized_ok n \<and> (\<exists>g. n = Organization g \<and> i = og_code g)"
  using assms
  by (auto simp: normalize_organization_def abind_Inr_iff Let_def normalized_ok_def
      dest!: f_required_Inr)

lemma posting_range_Inr:
  "posting_range a b = Inr (c, d) \<longleftrightarrow> a = Some c \<and> b = Some d \<and> c \<le> d"
  by (auto simp: posting_range_def split: option.splits)

lemma posting_ok:
  assumes "normalize_posting P row part l = (Inr (i, n, fl), l')"
  shows "normalized_ok n \<and> (\<exists>p. n = JobPosting p
     \<and> i = jp_posting_id p @ u '':'' @ representation_name (jp_representation p)
     \<and> (if starts_with (u ''detail-'') part
        then jp_representation p = Detail_representation \<and> part = u ''detail-'' @ jp_posting_id p
        else jp_representation p = List_representation))"
  using assms
  by (auto simp: normalize_posting_def abind_Inr_iff Let_def normalized_ok_def posting_range_Inr
      split: if_splits dest!: f_required_Inr f_number_Inr)


lemma normalize_Inr:
  assumes "normalize P src row part = Inr rec"
  obtains l where "normalize_row P src row part []
      = (Inr (rc_source_record_id rec, rc_normalized rec, rc_quality_flags rec), l)"
    "text_artifacts P row = Inr (rc_texts rec)" "rc_source_payload rec = row"
  using assms
  by (auto simp: normalize_def rbind_Inr_iff split: prod.splits sum.splits)

text \<open>
  C39: an accepted row satisfies its contract. Levels are within 1 to 8, codes have their form and
  agree with the codes derived from them, counts are not negative, dates are in order, and the
  record keeps the provider's row unchanged.
\<close>

theorem normalize_contracts:
  assumes "normalize P src row part = Inr rec"
  shows "normalized_ok (rc_normalized rec) \<and> rc_source_payload rec = row"
proof -
  from assms obtain l where n: "normalize_row P src row part []
      = (Inr (rc_source_record_id rec, rc_normalized rec, rc_quality_flags rec), l)"
    and "rc_source_payload rec = row" by (rule normalize_Inr)
  moreover have "normalized_ok (rc_normalized rec)"
    using n by (auto simp: normalize_row_def split: if_splits
        dest: career_path_ok competency_ok qualification_ok schedule_ok organization_ok posting_ok)
  ultimately show ?thesis by simp
qed

text \<open>
  A record belongs to the partition it was requested for. A detail response becomes the record of
  the requested posting or is refused, under an identity that keeps it apart from the posting's list
  row; a qualification mapping and an exam session carry the code their partition names.
\<close>

theorem normalize_belongs_to_partition:
  assumes "normalize P src row part = Inr rec"
  shows "(src = u ''job_alio'' \<longrightarrow> (\<exists>p. rc_normalized rec = JobPosting p
       \<and> rc_source_record_id rec
           = jp_posting_id p @ u '':'' @ representation_name (jp_representation p)
       \<and> (if starts_with (u ''detail-'') part
          then jp_representation p = Detail_representation \<and> part = u ''detail-'' @ jp_posting_id p
          else jp_representation p = List_representation)))
    \<and> (src = u ''ncs_qualification'' \<longrightarrow> (\<exists>q. rc_normalized rec = QualificationMapping q
       \<and> part = u ''ncs-'' @ qm_competency_code q))
    \<and> (src = u ''qnet_schedule'' \<longrightarrow> (\<exists>e y. rc_normalized rec = ExamSession e
       \<and> schedule_partition part = Some (y, es_qualification_code e)))"
proof -
  from assms obtain l where n: "normalize_row P src row part []
      = (Inr (rc_source_record_id rec, rc_normalized rec, rc_quality_flags rec), l)"
    by (rule normalize_Inr)
  have b: "src = u ''job_alio'' \<Longrightarrow> normalize_posting P row part []
      = (Inr (rc_source_record_id rec, rc_normalized rec, rc_quality_flags rec), l)"
    "src = u ''ncs_qualification'' \<Longrightarrow> normalize_qualification P row part []
      = (Inr (rc_source_record_id rec, rc_normalized rec, rc_quality_flags rec), l)"
    "src = u ''qnet_schedule'' \<Longrightarrow> normalize_schedule P row part []
      = (Inr (rc_source_record_id rec, rc_normalized rec, rc_quality_flags rec), l)"
    using n by (simp_all add: normalize_row_def)
  show ?thesis
    using b(1) [THEN posting_ok] b(2) [THEN qualification_ok] b(3) [THEN schedule_ok]
    by (intro conjI impI; simp; blast)
qed

section \<open>Texts\<close>

definition escape_char :: "nat \<Rightarrow> ustr" where
  "escape_char c = (if c = 126 then [126, 48] else if c = 47 then [126, 49] else [c])"

lemma json_pointer_escape: "json_pointer key = 47 # concat (map escape_char key)"
  by (induction key) (auto simp: json_pointer_def replace_char_def u_def escape_char_def)

lemma escape_inject:
  "concat (map escape_char s) = concat (map escape_char t) \<Longrightarrow> s = t"
proof (induction s arbitrary: t)
  case Nil
  then show ?case by (cases t) (auto simp: escape_char_def split: if_splits)
next
  case (Cons a s)
  then obtain b t' where t: "t = b # t'"
    by (cases t) (auto simp: escape_char_def split: if_splits)
  have split: "escape_char a @ xs = escape_char b @ ys \<Longrightarrow> a = b \<and> xs = ys" for xs ys
    by (auto simp: escape_char_def split: if_splits)
  from Cons.prems have "a = b \<and> concat (map escape_char s) = concat (map escape_char t')"
    by (intro split) (simp add: t)
  with Cons.IH t show ?case by simp
qed

lemma json_pointer_inject [simp]: "json_pointer s = json_pointer t \<longleftrightarrow> s = t"
  by (auto simp: json_pointer_escape dest: escape_inject)

definition artifact_of :: "pyenv \<Rightarrow> ustr \<Rightarrow> text_artifact \<Rightarrow> bool" where
  "artifact_of P s a \<longleftrightarrow> ta_text a = normalized_text P s
     \<and> utf8 (ta_text a) \<noteq> None \<and> ta_sha256 a = sha256 P (the (utf8 (ta_text a)))"

lemma text_artifacts_snoc:
  "text_artifacts P (row @ [(k, v)]) = Inr ts \<longleftrightarrow>
     (\<exists>ts0. text_artifacts P row = Inr ts0 \<and>
        (case v of
           JStr s \<Rightarrow> if s = [] then ts = ts0
             else (\<exists>b. utf8 (normalized_text P s) = Some b \<and> ts = AList.update (json_pointer k)
                \<lparr>ta_text = normalized_text P s, ta_sha256 = sha256 P b,
                 ta_normalization_version = text_version\<rparr> ts0)
         | _ \<Rightarrow> ts = ts0))"
  unfolding text_artifacts_def rfold_append
  by (cases v) (auto simp: rbind_Inr_iff split: option.splits)

lemma text_artifacts_correct:
  assumes "text_artifacts P row = Inr ts" and "distinct (map fst row)"
  shows "(\<forall>k s. (k, JStr s) \<in> set row \<longrightarrow> s \<noteq> [] \<longrightarrow>
            (\<exists>a. map_of ts (json_pointer k) = Some a \<and> artifact_of P s a))
    \<and> (\<forall>q a. map_of ts q = Some a \<longrightarrow> (\<exists>k s. q = json_pointer k \<and> (k, JStr s) \<in> set row
         \<and> artifact_of P s a))"
  using assms
proof (induction row arbitrary: ts rule: rev_induct)
  case Nil
  then show ?case by (simp add: text_artifacts_def)
next
  case (snoc kv row)
  obtain k v where kv: "kv = (k, v)" by fastforce
  from snoc.prems(1) obtain ts0 where t0: "text_artifacts P row = Inr ts0"
    by (auto simp: kv text_artifacts_snoc)
  have d: "distinct (map fst row)" "\<forall>w. (k, w) \<notin> set row" using snoc.prems(2) by (force simp: kv)+
  note IH = snoc.IH [OF t0 d(1)]
  show ?case
  proof (cases "\<exists>s. v = JStr s \<and> s \<noteq> []")
    case False
    then have "ts = ts0" using snoc.prems(1) t0
      by (cases v) (auto simp: kv text_artifacts_snoc)
    moreover have "(k', JStr s) \<in> set (row @ [kv]) \<Longrightarrow> s \<noteq> [] \<Longrightarrow> (k', JStr s) \<in> set row" for k' s
      using False by (auto simp: kv)
    moreover have "set row \<subseteq> set (row @ [kv])" by auto
    ultimately show ?thesis using IH by blast
  next
    case True
    then obtain s where v: "v = JStr s" "s \<noteq> []" by blast
    with snoc.prems(1) t0 obtain b where b: "utf8 (normalized_text P s) = Some b" and
      ts: "ts = AList.update (json_pointer k) \<lparr>ta_text = normalized_text P s,
          ta_sha256 = sha256 P b, ta_normalization_version = text_version\<rparr> ts0"
      by (auto simp: kv text_artifacts_snoc)
    define art where "art = \<lparr>ta_text = normalized_text P s, ta_sha256 = sha256 P b,
          ta_normalization_version = text_version\<rparr>"
    have art: "artifact_of P s art" using b by (simp add: artifact_of_def art_def)
    have m: "map_of ts q = (if q = json_pointer k then Some art else map_of ts0 q)" for q
      by (simp add: ts update_conv' art_def)
    show ?thesis
    proof (intro conjI allI impI)
      fix k' s' assume mem: "(k', JStr s') \<in> set (row @ [kv])" "s' \<noteq> []"
      show "\<exists>a. map_of ts (json_pointer k') = Some a \<and> artifact_of P s' a"
      proof (cases "k' = k")
        case True
        with mem d(2) v kv have "s' = s" by auto
        with True art show ?thesis by (simp add: m)
      next
        case False
        with mem kv have "(k', JStr s') \<in> set row" by simp
        with IH mem(2) False show ?thesis by (simp add: m)
      qed
    next
      fix q a assume "map_of ts q = Some a"
      then consider "q = json_pointer k" "a = art" | "map_of ts0 q = Some a"
        by (cases "q = json_pointer k") (simp_all add: m)
      then show "\<exists>k s. q = json_pointer k \<and> (k, JStr s) \<in> set (row @ [kv]) \<and> artifact_of P s a"
      proof cases
        case 1
        with art v kv show ?thesis by auto
      next
        case 2
        with IH obtain k' s' where "q = json_pointer k'" "(k', JStr s') \<in> set row" "artifact_of P s' a"
          by blast
        then show ?thesis by (intro exI [of _ k'] exI [of _ s']) simp
      qed
    qed
  qed
qed

text \<open>
  No text is lost and none is invented. For every non-empty text of the provider's row the record
  holds, under that field's pointer, its normalised form and the digest of exactly that form; every
  stored artifact comes from such a text; and two fields never share a pointer.
\<close>

theorem normalize_keeps_texts:
  assumes "normalize P src row part = Inr rec" and "distinct (map fst row)"
  shows "(\<forall>k s. (k, JStr s) \<in> set row \<longrightarrow> s \<noteq> [] \<longrightarrow>
            (\<exists>a. map_of (rc_texts rec) (json_pointer k) = Some a \<and> artifact_of P s a))
    \<and> (\<forall>q a. map_of (rc_texts rec) q = Some a \<longrightarrow>
            (\<exists>k s. q = json_pointer k \<and> (k, JStr s) \<in> set row \<and> artifact_of P s a))
    \<and> (\<forall>k k'. json_pointer k = json_pointer k' \<longrightarrow> k = k')"
proof -
  from assms(1) have t: "text_artifacts P row = Inr (rc_texts rec)" by (rule normalize_Inr)
  show ?thesis using text_artifacts_correct [OF t assms(2)] by simp
qed

section \<open>Documents\<close>

lemma parse_rows_effect:
  assumes "rfold (\<lambda>acc r. rbind (parse_row P src part r) (\<lambda>p. Inr (add_parsed r p acc))) acc rows
      = Inr (recs, rejs)"
  shows "\<exists>nr nj. recs = fst acc @ nr \<and> rejs = snd acc @ nj
    \<and> length nr + length nj = length rows
    \<and> mset (map fst nr @ map rj_locator nj) = mset (map fst rows)
    \<and> (\<forall>(loc, rec) \<in> set nr. (loc, JObj (rc_source_payload rec)) \<in> set rows
         \<and> normalize P src (rc_source_payload rec) part = Inr rec)
    \<and> (\<forall>j \<in> set nj. (rj_locator j, rj_source_payload j) \<in> set rows
         \<and> \<not> isok (rbind (as_mapping (rj_source_payload j)) (\<lambda>kvs. normalize P src kvs part)))"
  using assms
proof (induction rows arbitrary: acc)
  case Nil
  then show ?case by auto
next
  case (Cons r rows)
  from Cons.prems obtain p where p: "parse_row P src part r = Inr p" and
    rest: "rfold (\<lambda>acc r. rbind (parse_row P src part r) (\<lambda>p. Inr (add_parsed r p acc)))
      (add_parsed r p acc) rows = Inr (recs, rejs)"
    by (auto simp: rbind_Inr_iff)
  from Cons.IH [OF rest] obtain nr nj where
    eq: "recs = fst (add_parsed r p acc) @ nr" "rejs = snd (add_parsed r p acc) @ nj" and
    len: "length nr + length nj = length rows"
      "mset (map fst nr @ map rj_locator nj) = mset (map fst rows)" and
    sound: "\<forall>(loc, rec) \<in> set nr. (loc, JObj (rc_source_payload rec)) \<in> set rows
         \<and> normalize P src (rc_source_payload rec) part = Inr rec"
      "\<forall>j \<in> set nj. (rj_locator j, rj_source_payload j) \<in> set rows
         \<and> \<not> isok (rbind (as_mapping (rj_source_payload j)) (\<lambda>kvs. normalize P src kvs part))"
    by blast
  show ?case
  proof (cases p)
    case (Inr rec)
    then obtain kvs where "as_mapping (snd r) = Inr kvs" and n: "normalize P src kvs part = Inr rec"
      using p by (auto simp: parse_row_def rbind_Inr_iff split: sum.splits option.splits)
    moreover from normalize_Inr [OF n] have "rc_source_payload rec = kvs" by blast
    ultimately have "r = (fst r, JObj (rc_source_payload rec))"
        "normalize P src (rc_source_payload rec) part = Inr rec"
      by (cases "snd r"; cases r; simp add: as_mapping_def)+
    with Inr eq len sound show ?thesis
      by (intro exI [of _ "(fst r, rec) # nr"] exI [of _ nj]) (auto simp: add_parsed_def)
  next
    case (Inl j)
    then have "rj_locator j = fst r" "rj_source_payload j = snd r"
        "\<not> isok (rbind (as_mapping (snd r)) (\<lambda>kvs. normalize P src kvs part))"
      using p by (auto simp: parse_row_def split: sum.splits option.splits)
    with Inl eq len sound show ?thesis
      by (intro exI [of _ nr] exI [of _ "j # nj"]) (auto simp: add_parsed_def)
  qed
qed


lemma number_items_distinct: "distinct (map fst (number_items prefix xs))"
proof -
  have "map fst (number_items prefix xs)
      = map (\<lambda>i. prefix @ u ''/'' @ nat_str i) [0..<length xs]"
    by (rule nth_equalityI) (simp_all add: number_items_def)
  then show ?thesis by (simp add: distinct_map inj_on_def)
qed

lemma csv_rows_locators:
  assumes "csv_rows header n rs = Inr rows"
  shows "\<exists>k. map fst rows = map (\<lambda>i. u ''csv:record:'' @ nat_str i) [n..<n + k]"
  using assms
proof (induction header n rs arbitrary: rows rule: csv_rows.induct)
  case (2 header n r rs)
  show ?case
  proof (cases "r = []")
    case True
    with 2 show ?thesis by simp
  next
    case False
    with 2(3) obtain rest where rest: "csv_rows header (Suc n) rs = Inr rest"
      "rows = (u ''csv:record:'' @ nat_str n, JObj (zip header (map JStr r))) # rest"
      "length r = length header"
      by (auto simp: rbind_Inr_iff split: if_splits)
    from 2(2) [OF False _ rest(1)] rest(3) obtain k where
      "map fst rest = map (\<lambda>i. u ''csv:record:'' @ nat_str i) [Suc n..<Suc n + k]" by auto
    then have "map fst rows = map (\<lambda>i. u ''csv:record:'' @ nat_str i) [n..<n + Suc k]"
      by (simp add: rest(2) upt_conv_Cons del: upt_Suc)
    then show ?thesis by blast
  qed
qed (auto intro: exI [of _ 0])

lemma csv_rows_distinct:
  assumes "csv_rows header n rs = Inr rows" shows "distinct (map fst rows)"
proof -
  from csv_rows_locators [OF assms] obtain k where
    k: "map fst rows = map (\<lambda>i. u ''csv:record:'' @ nat_str i) [n..<n + k]" ..
  show ?thesis unfolding k by (simp add: distinct_map inj_on_def)
qed

text \<open>A JSON response is one detail row or a page of items.\<close>

lemma read_json_document_Inr:
  assumes "read_json_document P src body part page = Inr rd"
  obtains (detail) prefix row where "is_detail src part" "rd_rows rd = [(prefix, JObj row)]"
      "rd_page rd = None"
  | (page) meta prefix xs where "\<not> is_detail src part" "rd_rows rd = number_items prefix xs"
      "as_integer P (jget meta (u ''totalCount'')) = Inr (the (rd_total rd))" "rd_total rd \<noteq> None"
      "page = rd_page rd" "rd_page rd \<noteq> None" "1 \<le> the (rd_page rd)"
      "rd_page_size rd \<noteq> None" "1 \<le> the (rd_page_size rd)"
proof -
  from assms obtain document where
    "rbind (locate_items src document) (\<lambda>(meta, items, prefix).
       if is_detail src part then
         rbind (as_mapping items) (\<lambda>row.
           Inr \<lparr>rd_rows = [(prefix, JObj row)], rd_total = None, rd_page = None,
                rd_page_size = None, rd_encoding = u ''utf-8''\<rparr>)
       else case items of
         JArr xs \<Rightarrow>
           rbind (as_integer P (jget meta (u ''totalCount''))) (\<lambda>tot.
           rbind (as_integer P (jget_default meta (u ''pageNo'') (jopt JInt page))) (\<lambda>response_page.
           rbind (as_integer P (jget_default meta (u ''numOfRows'') (JInt 100))) (\<lambda>sz.
             if Some response_page \<noteq> page \<or> sz < 1 \<or> response_page < 1
             then processing_error ''INVALID_PAGINATION''
             else Inr \<lparr>rd_rows = number_items prefix xs, rd_total = Some tot,
                       rd_page = Some response_page, rd_page_size = Some sz,
                       rd_encoding = u ''utf-8''\<rparr>)))
       | _ \<Rightarrow> processing_error ''EXPECTED_ITEM_ARRAY'') = Inr rd"
    unfolding read_json_document_def rbind_Inr_iff by blast
  then obtain meta items prefix where m:
    "(if is_detail src part then
         rbind (as_mapping items) (\<lambda>row.
           Inr \<lparr>rd_rows = [(prefix, JObj row)], rd_total = None, rd_page = None,
                rd_page_size = None, rd_encoding = u ''utf-8''\<rparr>)
       else case items of
         JArr xs \<Rightarrow>
           rbind (as_integer P (jget meta (u ''totalCount''))) (\<lambda>tot.
           rbind (as_integer P (jget_default meta (u ''pageNo'') (jopt JInt page))) (\<lambda>response_page.
           rbind (as_integer P (jget_default meta (u ''numOfRows'') (JInt 100))) (\<lambda>sz.
             if Some response_page \<noteq> page \<or> sz < 1 \<or> response_page < 1
             then processing_error ''INVALID_PAGINATION''
             else Inr \<lparr>rd_rows = number_items prefix xs, rd_total = Some tot,
                       rd_page = Some response_page, rd_page_size = Some sz,
                       rd_encoding = u ''utf-8''\<rparr>)))
       | _ \<Rightarrow> processing_error ''EXPECTED_ITEM_ARRAY'') = Inr rd"
    by (auto simp: rbind_Inr_iff)
  show ?thesis
  proof (cases "is_detail src part")
    case True
    with m show ?thesis by (auto simp: rbind_Inr_iff intro: detail)
  next
    case False
    with m show ?thesis
      by (cases items) (auto simp: rbind_Inr_iff split: if_splits intro: that(2))
  qed
qed

lemma parse_document_Inr:
  assumes "parse_document P src body part page = Inr d"
  obtains rd where
    "(if src = u ''ncs_career_path'' then read_career_file P body
      else read_json_document P src body part page) = Inr rd"
    "parse_rows P src part (rd_rows rd) = Inr (pd_records d, pd_rejected d)"
    "pd_row_count d = length (rd_rows rd)" "pd_total d = rd_total rd" "pd_page d = rd_page rd"
    "pd_page_size d = rd_page_size rd"
  using assms by (fastforce simp: parse_document_def rbind_Inr_iff)

lemma read_document_distinct:
  assumes "(if src = u ''ncs_career_path'' then read_career_file P body
      else read_json_document P src body part page) = Inr rd"
  shows "distinct (map fst (rd_rows rd))"
proof (cases "src = u ''ncs_career_path''")
  case True
  with assms show ?thesis
    by (auto simp: read_career_file_def rbind_Inr_iff parse_csv_def csv_error_def csv_rows_distinct
        split: option.splits prod.splits list.splits if_splits)
next
  case False
  with assms have "read_json_document P src body part page = Inr rd" by simp
  then show ?thesis
    by (cases rule: read_json_document_Inr) (simp_all add: number_items_distinct)
qed

text \<open>
  A parsed document accounts for every row of the response. The rows have different locators;
  each is either a record, normalised from exactly that row, or a rejected row that keeps the payload
  and that normalisation indeed refuses; none is in both lists or in neither, and the row count is
  their number.
\<close>

theorem parse_document_accounts:
  assumes "parse_document P src body part page = Inr d"
  shows "\<exists>rows. pd_row_count d = length rows \<and> distinct (map fst rows)
    \<and> length (pd_records d) + length (pd_rejected d) = pd_row_count d
    \<and> mset (map fst (pd_records d) @ map rj_locator (pd_rejected d)) = mset (map fst rows)
    \<and> (\<forall>(loc, rec) \<in> set (pd_records d). (loc, JObj (rc_source_payload rec)) \<in> set rows
         \<and> normalize P src (rc_source_payload rec) part = Inr rec)
    \<and> (\<forall>j \<in> set (pd_rejected d). (rj_locator j, rj_source_payload j) \<in> set rows
         \<and> \<not> isok (rbind (as_mapping (rj_source_payload j)) (\<lambda>kvs. normalize P src kvs part)))"
proof -
  from assms obtain rd where rd: "(if src = u ''ncs_career_path'' then read_career_file P body
      else read_json_document P src body part page) = Inr rd"
    and rows: "parse_rows P src part (rd_rows rd) = Inr (pd_records d, pd_rejected d)"
    and n: "pd_row_count d = length (rd_rows rd)"
    by (rule parse_document_Inr)
  from parse_rows_effect [OF rows [unfolded parse_rows_def]] n read_document_distinct [OF rd]
  show ?thesis by auto
qed

lemma parse_document_counts:
  assumes "parse_document P src body part page = Inr d"
  shows "length (pd_records d) + length (pd_rejected d) = pd_row_count d"
  using assms
proof (rule parse_document_Inr)
  fix rd
  assume "parse_rows P src part (rd_rows rd) = Inr (pd_records d, pd_rejected d)"
    and "pd_row_count d = length (rd_rows rd)"
  with parse_rows_effect [of P src part "([], [])"] show ?thesis by (fastforce simp: parse_rows_def)
qed

text \<open>The page data of a paged document: the requested page, and sizes that make sense.\<close>

lemma parse_document_paging:
  assumes "parse_document P src body part page = Inr d" and "src \<noteq> u ''ncs_career_path''"
    and "\<not> is_detail src part"
  shows "\<exists>p t z. page = Some p \<and> pd_page d = Some p \<and> 1 \<le> p \<and> pd_total d = Some t \<and> 0 \<le> t
     \<and> pd_page_size d = Some z \<and> 1 \<le> z"
proof -
  from assms(1) obtain rd where rd: "(if src = u ''ncs_career_path'' then read_career_file P body
      else read_json_document P src body part page) = Inr rd"
    and eqs: "pd_total d = rd_total rd" "pd_page d = rd_page rd" "pd_page_size d = rd_page_size rd"
    by (rule parse_document_Inr)
  with assms(2) have "read_json_document P src body part page = Inr rd" by simp
  then show ?thesis
    using assms(3) eqs by (cases rule: read_json_document_Inr) (auto dest: as_integer_nonneg)
qed

section \<open>Examples\<close>

definition example_posting :: row where
  "example_posting =
     [(u ''recrutPblntSn'', JInt 7), (u ''recrutPbancTtl'', JStr (u ''Engineer'')),
      (u ''pblntInstCd'', JStr (u ''C0001'')), (u ''instNm'', JStr (u ''K-Water'')),
      (u ''pbancBgngYmd'', JStr (u ''20260901'')), (u ''pbancEndYmd'', JStr (u ''20260915'')),
      (u ''ongoingYn'', JStr (u ''Y'')), (u ''recrutNope'', JInt 3)]"

definition example_normalized :: "ustr \<Rightarrow> exn + staged_record" where
  "example_normalized part = normalize example_env (u ''job_alio'') example_posting part"

lemma example_posting_ok: "isok (example_normalized (u ''detail-7''))"
  by code_simp

lemma example_posting_obtain:
  obtains rec where "normalize example_env (u ''job_alio'') example_posting (u ''detail-7'') = Inr rec"
  using example_posting_ok by (auto simp: isok_iff example_normalized_def)

theorem normalize_contracts_witness:
  "\<exists>rec. normalize example_env (u ''job_alio'') example_posting (u ''detail-7'') = Inr rec
     \<and> normalized_ok (rc_normalized rec)"
proof -
  obtain rec where r: "normalize example_env (u ''job_alio'') example_posting (u ''detail-7'') = Inr rec"
    by (rule example_posting_obtain)
  from normalize_contracts [OF r] r show ?thesis by blast
qed

theorem normalize_belongs_to_partition_witness:
  "\<exists>rec p. normalize example_env (u ''job_alio'') example_posting (u ''detail-7'') = Inr rec
     \<and> rc_normalized rec = JobPosting p \<and> jp_posting_id p = u ''7''"
proof -
  obtain rec where r: "normalize example_env (u ''job_alio'') example_posting (u ''detail-7'') = Inr rec"
    by (rule example_posting_obtain)
  have "starts_with (u ''detail-'') (u ''detail-7'')" by code_simp
  with normalize_belongs_to_partition [OF r] obtain p where
    p: "rc_normalized rec = JobPosting p" "u ''detail-7'' = u ''detail-'' @ jp_posting_id p" by auto
  have "u ''detail-7'' = u ''detail-'' @ u ''7''" by (simp add: u_def)
  with p(2) have "jp_posting_id p = u ''7''" by simp
  with r p(1) show ?thesis by blast
qed

theorem normalize_keeps_texts_witness:
  "\<exists>rec a. normalize example_env (u ''job_alio'') example_posting (u ''detail-7'') = Inr rec
     \<and> map_of (rc_texts rec) (json_pointer (u ''instNm'')) = Some a
     \<and> artifact_of example_env (u ''K-Water'') a"
proof -
  obtain rec where r: "normalize example_env (u ''job_alio'') example_posting (u ''detail-7'') = Inr rec"
    by (rule example_posting_obtain)
  have "distinct (map fst example_posting)" by code_simp
  from normalize_keeps_texts [OF r this] have
    "(u ''instNm'', JStr (u ''K-Water'')) \<in> set example_posting \<Longrightarrow>
     \<exists>a. map_of (rc_texts rec) (json_pointer (u ''instNm'')) = Some a
       \<and> artifact_of example_env (u ''K-Water'') a" by (simp add: u_def)
  with r show ?thesis by (simp add: example_posting_def)
qed

definition example_page_env :: pyenv where
  "example_page_env = example_env\<lparr>json_loads := (\<lambda>_. Some (JObj
     [(u ''resultCode'', JInt 200), (u ''totalCount'', JInt 2), (u ''pageNo'', JInt 1),
      (u ''result'', JArr [JObj example_posting, JObj [(u ''recrutPblntSn'', JNull)]])]))\<rparr>"

lemma example_page_ok:
  "case parse_document example_page_env (u ''job_alio'') [] (u ''index'') (Some 1) of
     Inr d \<Rightarrow> length (pd_records d) = 1 \<and> map rj_error_code (pd_rejected d) = [u ''MISSING_REQUIRED_FIELD'']
   | _ \<Rightarrow> False"
  by code_simp

theorem parse_document_accounts_witness:
  "\<exists>d. parse_document example_page_env (u ''job_alio'') [] (u ''index'') (Some 1) = Inr d
     \<and> length (pd_records d) + length (pd_rejected d) = pd_row_count d \<and> length (pd_records d) = 1"
proof -
  from example_page_ok obtain d where d: "length (pd_records d) = 1"
    "parse_document example_page_env (u ''job_alio'') [] (u ''index'') (Some 1) = Inr d"
    by (auto split: sum.splits)
  from parse_document_accounts [OF d(2)] d show ?thesis by auto
qed

end
