(* ===== verification/Process.thy ===== *)
theory Process
  imports Normalize Ledger RawStore
begin

text \<open>
  \<open>storage/processing.py\<close> and \<open>pipeline/process.py\<close>: one processing run over the observations a fetch
  run selected. The state is the staging tables of migration 0004; the fetch ledger and the raw
  store are only read. Every statement that writes is one transaction. The database is taken to
  answer every call; what it refuses (a key, a value JSONB cannot hold) is an exception.
\<close>

section \<open>Staging tables\<close>

record document_meta =
  dm_total :: "int option"
  dm_page :: "int option"
  dm_page_size :: "int option"
  dm_row_count :: nat
  dm_encoding :: ustr
  dm_rejected_count :: nat
  dm_identities :: "ustr list"

datatype processing_state = P_running | P_ready | P_review_required | P_failed

record processing_summary =
  su_processing_run_id :: ustr
  su_connector_run_id :: ustr
  su_source_id :: ustr
  su_state :: processing_state
  su_documents :: nat
  su_reused_documents :: nat
  su_records :: nat
  su_rejected :: nat
  su_new_revisions :: nat
  su_content_set_hash :: ustr
  su_normalized_set_hash :: ustr

record processing_run_row =
  pw_connector_run_id :: ustr
  pw_processor_version :: ustr
  pw_state :: processing_state
  pw_attempts :: int
  pw_error_code :: "ustr option"
  pw_summary :: "processing_summary option"

record document_row =
  dw_source_id :: ustr
  dw_snapshot_id :: ustr
  dw_partition_id :: ustr
  dw_processor_version :: ustr
  dw_metadata :: document_meta

record revision_row =
  rv_source_id :: ustr
  rv_source_record_id :: ustr
  rv_kind :: ustr
  rv_processor_version :: ustr
  rv_record :: staged_record

record staging_tables =
  sg_processing_run :: "(ustr \<times> processing_run_row) list"
  sg_document :: "(ustr \<times> document_row) list"
  sg_record_revision :: "(ustr \<times> revision_row) list"
  sg_document_record :: "((ustr \<times> ustr) \<times> ustr) list"
  sg_rejected_row :: "((ustr \<times> ustr) \<times> ustr \<times> json) list"
  sg_processing_input :: "((ustr \<times> ustr) \<times> ustr) list"

section \<open>The inputs of a run\<close>

record snapshot_input =
  si_observation_id :: ustr
  si_snapshot_id :: ustr
  si_partition_id :: ustr
  si_page_number :: "int option"
  si_response_ordinal :: int
  si_retrieved_at :: int
  si_raw_object_path :: ustr
  si_content_sha256 :: ustr
  si_byte_length :: nat
  si_mime_type :: ustr

text \<open>The joined rows: each request with its selected observation and that observation's snapshot.\<close>

definition selected_inputs :: "fetch_tables \<Rightarrow> ustr \<Rightarrow> ustr \<Rightarrow> snapshot_input list" where
  "selected_inputs t run_id source =
     concat (map (\<lambda>((run, fp), r).
       concat (map (\<lambda>obs.
         if run = run_id \<and> cq_selected_observation_id r = Some (at_observation_id obs)
            \<and> at_connector_run_id obs = run \<and> at_request_fingerprint obs = fp
            \<and> at_selected obs \<and> at_outcome obs = SELECTED_SUCCESS \<and> at_source_id obs = source
         then List.map_filter (\<lambda>s.
           if at_snapshot_id obs = Some (sn_snapshot_id s) \<and> sn_source_id s = source
           then Some \<lparr>si_observation_id = at_observation_id obs,
                      si_snapshot_id = sn_snapshot_id s,
                      si_partition_id = cq_partition_id r, si_page_number = cq_page_number r,
                      si_response_ordinal = at_response_ordinal obs,
                      si_retrieved_at = at_retrieved_at obs,
                      si_raw_object_path = sn_raw_object_path s,
                      si_content_sha256 = sn_content_sha256 s,
                      si_byte_length = sn_byte_length s, si_mime_type = sn_mime_type s\<rparr>
           else None) (tb_source_snapshot t)
         else []) (tb_fetch_observation t)))
       (tb_connector_request t))"

text \<open>\<open>ORDER BY partition_id, page_number NULLS LAST, response_ordinal\<close>, by code points.\<close>

definition input_order :: "snapshot_input \<Rightarrow> ustr \<times> bool \<times> int \<times> int" where
  "input_order i =
     (si_partition_id i, si_page_number i = None,
      (case si_page_number i of None \<Rightarrow> 0 | Some n \<Rightarrow> n), si_response_ordinal i)"

definition run_inputs ::
    "pyenv \<Rightarrow> fetch_tables \<Rightarrow> ustr \<Rightarrow> exn + connector_run_row \<times> snapshot_input list" where
  "run_inputs P t run_id =
     (case map_of (tb_connector_run t) run_id of
        None \<Rightarrow> processing_error ''RUN_NOT_FOUND''
      | Some run \<Rightarrow>
          if cr_state run \<notin> {RUNNING, SUCCEEDED} \<or> cr_fetch_completed_at run = None
             \<or> cr_stage run \<noteq> u ''FETCHED'' \<or> cr_planned_request_count run \<in> {None, Some 0}
             \<or> cr_planned_request_count run \<noteq> cr_successful_request_count run
          then processing_error ''FETCH_NOT_COMPLETE''
          else
            let inputs = sort_key input_order (selected_inputs t run_id (cr_source_id run));
                attempts = map at_observation_id
                  (filter (\<lambda>a. at_connector_run_id a = run_id) (tb_fetch_observation t));
                request_count = length
                  (filter (\<lambda>(k, _). fst k = run_id) (tb_connector_request t))
            in
            if Some (int (length inputs)) \<noteq> cr_successful_request_count run
               \<or> request_count \<noteq> length inputs
            then processing_error ''FETCH_MANIFEST_MISMATCH''
            else rbind (stable_id_set_hash P (map si_observation_id inputs)) (\<lambda>selected.
              if Some selected \<noteq> cr_selected_hash run
              then processing_error ''FETCH_MANIFEST_MISMATCH''
              else rbind (stable_id_set_hash P attempts) (\<lambda>all.
                if Some all \<noteq> cr_all_attempt_hash run
                then processing_error ''FETCH_MANIFEST_MISMATCH''
                else Inr (run, inputs))))"

text \<open>
  \<open>(root / path).resolve()\<close> below \<open>root\<close>, without symbolic links; \<open>None\<close> is a path that leaves it.
\<close>

fun resolve_parts :: "ustr list \<Rightarrow> ustr list \<Rightarrow> ustr list option" where
  "resolve_parts stack [] = Some (rev stack)"
| "resolve_parts stack (p # ps) =
     (if p = [] \<or> p = [46] then resolve_parts stack ps
      else if p = [46, 46] then
        (case stack of [] \<Rightarrow> None | _ # stack' \<Rightarrow> resolve_parts stack' ps)
      else resolve_parts (p # stack) ps)"

definition resolve_path :: "ustr \<Rightarrow> ustr option" where
  "resolve_path p =
     (if take 1 p = [47] then None
      else map_option (join_on 47) (resolve_parts [] (split_on 47 p)))"

definition read_raw :: "pyenv \<Rightarrow> files \<Rightarrow> snapshot_input \<Rightarrow> exn + nat list" where
  "read_raw P fs item =
     (case resolve_path (si_raw_object_path item) of
        None \<Rightarrow> processing_error ''RAW_PATH_ESCAPE''
      | Some path \<Rightarrow>
          (case fs path of
             None \<Rightarrow> processing_error ''RAW_UNAVAILABLE''
           | Some body \<Rightarrow>
               if length body \<noteq> si_byte_length item \<or> sha256 P body \<noteq> si_content_sha256 item
               then processing_error ''RAW_INTEGRITY_FAILED''
               else Inr body))"

section \<open>StagingLoader\<close>

text \<open>What JSONB accepts: no NUL in a text, no NaN and no infinity.\<close>

fun jsonb_ok :: "json \<Rightarrow> bool"
  and jsonb_ok_list :: "json list \<Rightarrow> bool"
  and jsonb_ok_pairs :: "(ustr \<times> json) list \<Rightarrow> bool"
where
  "jsonb_ok (JStr s) = pg_text s"
| "jsonb_ok (JFloat r) = (r \<notin> {u ''nan'', u ''inf'', u ''-inf''})"
| "jsonb_ok (JArr xs) = jsonb_ok_list xs"
| "jsonb_ok (JObj kvs) = jsonb_ok_pairs kvs"
| "jsonb_ok _ = True"
| "jsonb_ok_list [] = True"
| "jsonb_ok_list (x # xs) = (jsonb_ok x \<and> jsonb_ok_list xs)"
| "jsonb_ok_pairs [] = True"
| "jsonb_ok_pairs ((k, v) # kvs) = (pg_text k \<and> jsonb_ok v \<and> jsonb_ok_pairs kvs)"

definition loader_cached :: "staging_tables \<Rightarrow> ustr \<Rightarrow> document_meta option" where
  "loader_cached sg document_id = map_option dw_metadata (map_of (sg_document sg) document_id)"

definition metadata_of :: "parsed_document \<Rightarrow> document_meta" where
  "metadata_of d =
     \<lparr>dm_total = pd_total d, dm_page = pd_page d, dm_page_size = pd_page_size d,
      dm_row_count = pd_row_count d, dm_encoding = pd_encoding d,
      dm_rejected_count = length (pd_rejected d),
      dm_identities = map (\<lambda>r. rc_source_record_id (snd r)) (pd_records d)\<rparr>"

definition revision_id :: "pyenv \<Rightarrow> ustr \<Rightarrow> ustr \<Rightarrow> staged_record \<Rightarrow> ustr" where
  "revision_id P source version r = digest P (JArr [JStr source, JStr version, record_json r])"

text \<open>\<open>INSERT ... ON CONFLICT (revision_id) DO NOTHING\<close>, counting the rows that went in.\<close>

definition insert_revision ::
    "pyenv \<Rightarrow> ustr \<Rightarrow> ustr \<Rightarrow> staged_record \<Rightarrow> (ustr \<times> revision_row) list \<times> nat
     \<Rightarrow> (ustr \<times> revision_row) list \<times> nat" where
  "insert_revision P source version r acc =
     (let i = revision_id P source version r in
      if map_of (fst acc) i \<noteq> None then acc
      else (fst acc @ [(i, \<lparr>rv_source_id = source, rv_source_record_id = rc_source_record_id r,
              rv_kind = kind_name (rc_normalized r), rv_processor_version = version,
              rv_record = r\<rparr>)], Suc (snd acc)))"

definition insert_revisions ::
    "pyenv \<Rightarrow> ustr \<Rightarrow> ustr \<Rightarrow> staged_record list \<Rightarrow> (ustr \<times> revision_row) list
     \<Rightarrow> (ustr \<times> revision_row) list \<times> nat" where
  "insert_revisions P source version rs revs =
     foldl (\<lambda>acc r. insert_revision P source version r acc) (revs, 0) rs"

definition loader_save ::
    "pyenv \<Rightarrow> ustr \<Rightarrow> snapshot_input \<Rightarrow> ustr \<Rightarrow> ustr \<Rightarrow> parsed_document
     \<Rightarrow> (staging_tables, exn, nat) action" where
  "loader_save P source item version document_id parsed sg =
     (let metadata = metadata_of parsed;
          records = map snd (pd_records parsed);
          links = map (\<lambda>(loc, r). ((document_id, loc), revision_id P source version r))
                    (pd_records parsed);
          rejects = map (\<lambda>j. ((document_id, rj_locator j), rj_error_code j, rj_source_payload j))
                      (pd_rejected parsed)
      in
      if map_of (sg_document sg) document_id \<noteq> None
         \<or> list_ex (\<lambda>(_, d). dw_snapshot_id d = si_snapshot_id item
              \<and> dw_partition_id d = si_partition_id item \<and> dw_processor_version d = version)
              (sg_document sg)
      then (Inl integrity_error, sg)
      else if \<not> (list_all pg_text (dm_identities metadata)
                 \<and> list_all (\<lambda>r. jsonb_ok (record_json r)) records
                 \<and> list_all (\<lambda>j. jsonb_ok (rj_source_payload j)) (pd_rejected parsed))
      then (Inl data_error, sg)
      else if \<not> distinct (map fst (sg_document_record sg @ links))
              \<or> \<not> distinct (map fst (sg_rejected_row sg @ rejects))
      then (Inl integrity_error, sg)
      else
        let (revs, new_count) = insert_revisions P source version records (sg_record_revision sg)
        in (Inr new_count,
            sg\<lparr>sg_document := AList.update document_id
                 \<lparr>dw_source_id = source, dw_snapshot_id = si_snapshot_id item,
                  dw_partition_id = si_partition_id item, dw_processor_version = version,
                  dw_metadata = metadata\<rparr> (sg_document sg),
               sg_record_revision := revs,
               sg_document_record := sg_document_record sg @ links,
               sg_rejected_row := sg_rejected_row sg @ rejects\<rparr>))"

definition loader_attach :: "ustr \<Rightarrow> ustr \<Rightarrow> ustr \<Rightarrow> (staging_tables, exn, unit) action" where
  "loader_attach run_id observation_id document_id sg =
     (if map_of (sg_processing_input sg) (run_id, observation_id) \<noteq> None then (Inr (), sg)
      else (Inr (), sg\<lparr>sg_processing_input := AList.update (run_id, observation_id) document_id
                        (sg_processing_input sg)\<rparr>))"

text \<open>The revisions a run's inputs lead to, each once, in the order of their identifiers.\<close>

definition run_documents :: "staging_tables \<Rightarrow> ustr \<Rightarrow> ustr list" where
  "run_documents sg run_id = map snd (filter (\<lambda>(k, _). fst k = run_id) (sg_processing_input sg))"

definition run_revisions :: "staging_tables \<Rightarrow> ustr \<Rightarrow> ustr list" where
  "run_revisions sg run_id =
     sorted_set (filter (\<lambda>i. map_of (sg_record_revision sg) i \<noteq> None)
       (map snd (filter (\<lambda>(k, _). fst k \<in> set (run_documents sg run_id)) (sg_document_record sg))))"

definition load_revision :: "pyenv \<Rightarrow> staging_tables \<Rightarrow> ustr \<Rightarrow> exn + ustr \<times> staged_record" where
  "load_revision P sg i =
     (case map_of (sg_record_revision sg) i of
        None \<Rightarrow> processing_error ''STAGING_REVISION_INTEGRITY_FAILED''
      | Some row \<Rightarrow>
          if revision_id P (rv_source_id row) (rv_processor_version row) (rv_record row) \<noteq> i
          then processing_error ''STAGING_REVISION_INTEGRITY_FAILED''
          else Inr (i, rv_record row))"

definition loader_records ::
    "pyenv \<Rightarrow> staging_tables \<Rightarrow> ustr \<Rightarrow> exn + (ustr \<times> staged_record) list" where
  "loader_records P sg run_id = rmap (load_revision P sg) (run_revisions sg run_id)"

section \<open>Completeness\<close>

type_synonym documents = "(snapshot_input \<times> document_meta) list"

definition partition_identities :: "documents \<Rightarrow> ustr list" where
  "partition_identities pages = concat (map (\<lambda>(_, m). dm_identities m) pages)"

definition check_empty_partition :: "documents \<Rightarrow> exn + unit" where
  "check_empty_partition pages =
     (if length pages \<noteq> 2 \<or> set (map (\<lambda>(i, _). si_response_ordinal i) pages) \<noteq> {0, 1}
         \<or> list_ex (\<lambda>(i, m). si_page_number i \<noteq> Some 1 \<or> dm_row_count m \<noteq> 0) pages
      then processing_error ''UNCONFIRMED_EMPTY_PARTITION'' else Inr ())"

definition expected_rows :: "int \<Rightarrow> int \<Rightarrow> snapshot_input \<Rightarrow> int" where
  "expected_rows tot sz i =
     (let page = (case si_page_number i of None \<Rightarrow> 1 | Some n \<Rightarrow> if n = 0 then 1 else n)
      in min sz (tot - (page - 1) * sz))"

text \<open>\<open>math.ceil(total / size)\<close> is exact for totals below \<open>2^52\<close>; the model rounds up exactly.\<close>

definition check_pages :: "int \<Rightarrow> int \<Rightarrow> documents \<Rightarrow> exn + unit" where
  "check_pages tot sz pages =
     (let expected_pages = ceil_div tot sz in
      if int (length pages) \<noteq> expected_pages
         \<or> set (map (\<lambda>(i, _). si_page_number i) pages) \<noteq> set (map Some [1..expected_pages])
      then processing_error ''MISSING_OR_DUPLICATE_PAGES''
      else if list_ex (\<lambda>(i, m). si_response_ordinal i \<noteq> 0
                \<or> int (dm_row_count m) \<noteq> expected_rows tot sz i) pages
      then processing_error ''PAGE_ROW_COUNT_MISMATCH''
      else Inr ())"

definition check_partition :: "ustr \<Rightarrow> ustr \<times> documents \<Rightarrow> exn + unit" where
  "check_partition source g =
     (case g of (part, pages) \<Rightarrow>
      if \<not> distinct (partition_identities pages)
      then processing_error ''DUPLICATE_SOURCE_IDENTITY''
      else if source = u ''ncs_career_path'' then Inr ()
      else if is_detail source part then
        if length pages \<noteq> 1 \<or> list_ex (\<lambda>(_, m). dm_row_count m \<noteq> 1) pages
        then processing_error ''INVALID_DETAIL_COUNT'' else Inr ()
      else
        (case (remdups (map (\<lambda>(_, m). dm_total m) pages),
               remdups (map (\<lambda>(_, m). dm_page_size m) pages)) of
           ([tot], [sz]) \<Rightarrow>
             if tot = Some 0 then check_empty_partition pages
             else (case (tot, sz) of
               (Some t, Some z) \<Rightarrow> check_pages t z pages
             | _ \<Rightarrow> Inl (Exn (OtherError (u ''TypeError'')) []))
         | _ \<Rightarrow> processing_error ''UNSTABLE_PAGINATION''))"

definition listed_identities :: "(ustr \<times> documents) list \<Rightarrow> ustr list" where
  "listed_identities groups =
     concat (map (\<lambda>(part, pages).
       if starts_with (u ''detail-'') part then []
       else map (removesuffix (u '':list'')) (partition_identities pages)) groups)"

definition detailed_identities :: "(ustr \<times> documents) list \<Rightarrow> ustr list" where
  "detailed_identities groups =
     map (\<lambda>(part, _). removeprefix (u ''detail-'') part)
       (filter (\<lambda>(part, _). starts_with (u ''detail-'') part) groups)"

definition validate_completeness :: "ustr \<Rightarrow> documents \<Rightarrow> exn + unit" where
  "validate_completeness source docs =
     (let groups = group_by (\<lambda>(i, _). si_partition_id i) docs in
      if source = u ''ncs_career_path''
         \<and> (length docs \<noteq> 1 \<or> list_ex (\<lambda>(_, m). dm_row_count m < 1) docs)
      then processing_error ''INVALID_SINGLE_FILE_RUN''
      else rbind (rall (check_partition source) groups) (\<lambda>_.
        if source = u ''job_alio'' \<and> \<not> list_ex (\<lambda>(_, m). dm_rejected_count m \<noteq> 0) docs
           \<and> set (listed_identities groups) \<noteq> set (detailed_identities groups)
        then processing_error ''LIST_DETAIL_IDENTITY_MISMATCH''
        else Inr ()))"

section \<open>List and detail of a posting\<close>

text \<open>\<open>postings[id][representation] = p\<close>: the last record of each representation.\<close>

definition postings_of :: "(ustr \<times> staged_record) list \<Rightarrow> job_posting list" where
  "postings_of rs = List.map_filter (\<lambda>(_, r). case rc_normalized r of JobPosting p \<Rightarrow> Some p | _ \<Rightarrow> None) rs"

definition last_with :: "('a \<Rightarrow> bool) \<Rightarrow> 'a list \<Rightarrow> 'a option" where
  "last_with p xs = find p (rev xs)"

definition check_pair :: "job_posting list \<Rightarrow> exn + unit" where
  "check_pair ps =
     (case (last_with (\<lambda>p. jp_representation p = List_representation) ps,
            last_with (\<lambda>p. jp_representation p = Detail_representation) ps) of
        (Some left, Some right) \<Rightarrow>
          if jp_title left \<noteq> jp_title right
             \<or> jp_organization_code left \<noteq> jp_organization_code right
             \<or> jp_date_posted left \<noteq> jp_date_posted right
             \<or> jp_closing_date left \<noteq> jp_closing_date right
          then processing_error ''LIST_DETAIL_FACT_CONFLICT''
          else if jp_ongoing right \<noteq> None \<and> jp_ongoing left \<noteq> jp_ongoing right
          then processing_error ''LIST_DETAIL_STATUS_CONFLICT''
          else Inr ()
      | _ \<Rightarrow> processing_error ''LIST_DETAIL_IDENTITY_MISMATCH'')"

definition validate_posting_pairs :: "pyenv \<Rightarrow> staging_tables \<Rightarrow> ustr \<Rightarrow> exn + unit" where
  "validate_posting_pairs P sg run_id =
     rbind (loader_records P sg run_id) (\<lambda>rs.
       rall (\<lambda>(_, ps). check_pair ps) (group_by jp_posting_id (postings_of rs)))"


section \<open>process_run\<close>

definition document_id_of :: "pyenv \<Rightarrow> ustr \<Rightarrow> snapshot_input \<Rightarrow> ustr" where
  "document_id_of P source item =
     digest P (JArr [JStr source, JStr (si_snapshot_id item), JStr (si_partition_id item),
                     JStr processor_version])"

definition processing_run_id :: "pyenv \<Rightarrow> ustr \<Rightarrow> ustr" where
  "processing_run_id P connector_run_id =
     digest P (JArr [JStr connector_run_id, JStr processor_version])"

text \<open>
  The insert that opens a run. A run that is there keeps its summary until it gets a new one.
\<close>

definition open_processing_run ::
    "ustr \<Rightarrow> ustr \<Rightarrow> staging_tables \<Rightarrow> staging_tables" where
  "open_processing_run run_id connector_run_id sg =
     sg\<lparr>sg_processing_run := AList.update run_id
          (case map_of (sg_processing_run sg) run_id of
             None \<Rightarrow> \<lparr>pw_connector_run_id = connector_run_id,
                      pw_processor_version = processor_version, pw_state = P_running,
                      pw_attempts = 1, pw_error_code = None, pw_summary = None\<rparr>
           | Some row \<Rightarrow> row\<lparr>pw_state := P_running, pw_attempts := pw_attempts row + 1,
                             pw_error_code := None\<rparr>)
          (sg_processing_run sg)\<rparr>"

definition update_processing_run ::
    "ustr \<Rightarrow> (processing_run_row \<Rightarrow> processing_run_row) \<Rightarrow> staging_tables \<Rightarrow> staging_tables" where
  "update_processing_run run_id f sg =
     (case map_of (sg_processing_run sg) run_id of
        None \<Rightarrow> sg
      | Some row \<Rightarrow> sg\<lparr>sg_processing_run := AList.update run_id (f row) (sg_processing_run sg)\<rparr>)"

text \<open>The loop's variables: the documents so far, and how many were reused and new.\<close>

record process_progress =
  px_documents :: documents
  px_reused :: nat
  px_new :: nat

definition json_mime :: "ustr \<Rightarrow> bool" where
  "json_mime mime \<longleftrightarrow> ascii_lower (strip (hd (split_on 59 mime))) = u ''application/json''"

definition process_item ::
    "pyenv \<Rightarrow> files \<Rightarrow> ustr \<Rightarrow> ustr \<Rightarrow> process_progress \<Rightarrow> snapshot_input
     \<Rightarrow> (staging_tables, exn, process_progress) action" where
  "process_item P fs source run_id pr item =
     (if source \<noteq> u ''ncs_career_path'' \<and> \<not> json_mime (si_mime_type item)
      then lift_result (processing_error ''UNSUPPORTED_SOURCE_MIME'')
      else
        abind (lift_result (read_raw P fs item)) (\<lambda>body sg.
        let document_id = document_id_of P source item in
        abind
          (case loader_cached sg document_id of
             Some m \<Rightarrow> areturn (m, pr\<lparr>px_reused := px_reused pr + 1\<rparr>)
           | None \<Rightarrow>
               abind (lift_result (parse_document P source body (si_partition_id item)
                        (si_page_number item))) (\<lambda>parsed.
               abind (loader_save P source item processor_version document_id parsed)
                 (\<lambda>new_count sg'.
                    case loader_cached sg' document_id of
                      None \<Rightarrow> (Inl (Exn AssertionError []), sg')
                    | Some m \<Rightarrow> (Inr (m, pr\<lparr>px_new := px_new pr + new_count\<rparr>), sg'))))
          (\<lambda>(m, pr').
             if dm_page m \<noteq> None \<and> dm_page m \<noteq> si_page_number item
             then lift_result (processing_error ''CACHED_PAGE_MISMATCH'')
             else abind (loader_attach run_id (si_observation_id item) document_id) (\<lambda>_.
               areturn (pr'\<lparr>px_documents := px_documents pr' @ [(item, m)]\<rparr>))) sg))"

primrec process_items ::
    "pyenv \<Rightarrow> files \<Rightarrow> ustr \<Rightarrow> ustr \<Rightarrow> process_progress \<Rightarrow> snapshot_input list
     \<Rightarrow> (staging_tables, exn, process_progress) action" where
  "process_items P fs source run_id pr [] = areturn pr"
| "process_items P fs source run_id pr (item # items) =
     abind (process_item P fs source run_id pr item)
       (\<lambda>pr'. process_items P fs source run_id pr' items)"

definition rejected_total :: "documents \<Rightarrow> nat" where
  "rejected_total docs = sum_list (map (\<lambda>(_, m). dm_rejected_count m) docs)"

definition normalized_hash :: "pyenv \<Rightarrow> ustr \<Rightarrow> staged_record \<Rightarrow> ustr" where
  "normalized_hash P source r =
     digest P (JArr [JStr source, JStr (rc_source_record_id r), normalized_json (rc_normalized r)])"

definition summarize ::
    "pyenv \<Rightarrow> ustr \<Rightarrow> ustr \<Rightarrow> ustr \<Rightarrow> process_progress \<Rightarrow> (ustr \<times> staged_record) list
     \<Rightarrow> processing_summary" where
  "summarize P source run_id connector_run_id pr saved =
     (let rejected = rejected_total (px_documents pr);
          revision_ids = sort (map fst saved);
          hashes = sort (map (\<lambda>(_, r). normalized_hash P source r) saved)
      in \<lparr>su_processing_run_id = run_id, su_connector_run_id = connector_run_id,
          su_source_id = source,
          su_state = (if rejected \<noteq> 0 then P_review_required else P_ready),
          su_documents = length (px_documents pr), su_reused_documents = px_reused pr,
          su_records = length revision_ids, su_rejected = rejected,
          su_new_revisions = px_new pr,
          su_content_set_hash = digest P (JArr (map JStr revision_ids)),
          su_normalized_set_hash = digest P (JArr (map JStr hashes))\<rparr>)"

text \<open>The body of the \<open>try\<close>.\<close>

definition process_inputs ::
    "pyenv \<Rightarrow> files \<Rightarrow> ustr \<Rightarrow> ustr \<Rightarrow> ustr \<Rightarrow> snapshot_input list
     \<Rightarrow> (staging_tables, exn, processing_summary) action" where
  "process_inputs P fs source run_id connector_run_id inputs =
     abind (process_items P fs source run_id \<lparr>px_documents = [], px_reused = 0, px_new = 0\<rparr> inputs)
       (\<lambda>pr.
     abind (lift_result (validate_completeness source (px_documents pr))) (\<lambda>_ sg.
     abind (lift_result
              (if source = u ''job_alio'' \<and> rejected_total (px_documents pr) = 0
               then validate_posting_pairs P sg run_id else Inr ())) (\<lambda>_.
     abind (lift_result (loader_records P sg run_id)) (\<lambda>saved sg.
       let summary = summarize P source run_id connector_run_id pr saved
       in (Inr summary, update_processing_run run_id (\<lambda>row.
             row\<lparr>pw_state := su_state summary, pw_summary := Some summary\<rparr>) sg))) sg))"

definition processing_code :: "exn \<Rightarrow> ustr" where
  "processing_code e = (case e of Exn c t \<Rightarrow> if c = ProcessingError then t else type_name e)"

definition process_run ::
    "pyenv \<Rightarrow> (ustr \<Rightarrow> exn + source_activation_check) \<Rightarrow> bool \<Rightarrow> fetch_tables \<Rightarrow> files \<Rightarrow> ustr
     \<Rightarrow> (staging_tables, exn, processing_summary) action" where
  "process_run P rights_of busy t fs connector_run_id sg =
     (let run_id = processing_run_id P connector_run_id in
      if busy then (processing_error ''PIPELINE_BUSY'', sg)
      else (case run_inputs P t connector_run_id of
        Inl e \<Rightarrow> (Inl e, sg)
      | Inr (run, inputs) \<Rightarrow>
          let source = cr_source_id run in
          if source \<notin> set processable_sources then (processing_error ''UNSUPPORTED_SOURCE'', sg)
          else (case rights_of source of
            Inl e \<Rightarrow> (Inl e, sg)
          | Inr rights \<Rightarrow>
              if \<not> ac_allowed rights \<or> ac_policy_hash rights \<noteq> cr_rights_policy_hash run
              then (processing_error ''RIGHTS_POLICY_BLOCKED_OR_CHANGED'', sg)
              else (case process_inputs P fs source run_id connector_run_id inputs
                           (open_processing_run run_id connector_run_id sg) of
                (Inr summary, sg') \<Rightarrow> (Inr summary, sg')
              | (Inl e, sg') \<Rightarrow>
                  (Inl e, update_processing_run run_id (\<lambda>row.
                     row\<lparr>pw_state := P_failed,
                         pw_error_code := Some (take 100 (processing_code e))\<rparr>) sg')))))"

end
