(* ===== verification/ProcessFacts.thy ===== *)
theory ProcessFacts
  imports Process NormalizeFacts
begin

text \<open>
  What a processing run promises: a run that is READY is complete by the provider's own totals, its
  postings agree between list and detail, a run that raises is recorded as failed, nothing that was
  staged ever changes, and processing the same fetch again changes nothing.
\<close>

section \<open>Pages that cover a total\<close>

lemma page_sum:
  fixes t z :: int
  assumes "1 \<le> z" and "int n \<le> ceil_div t z"
  shows "(\<Sum>p = 1..int n. min z (t - (p - 1) * z)) = min (int n * z) t \<or> n = 0"
  using assms(2)
proof (induction n)
  case (Suc n)
  note c = ceil_div_bounds [of z t]
  have below: "int n * z < t"
  proof -
    have "int n \<le> ceil_div t z - 1" using Suc.prems by simp
    then have "int n * z \<le> (ceil_div t z - 1) * z" using assms(1) by (simp add: mult_right_mono)
    also have "(ceil_div t z - 1) * z < t" using c(2) assms(1) by simp
    finally show ?thesis .
  qed
  have split: "{1..int (Suc n)} = insert (int (Suc n)) {1..int n}" by auto
  have "(\<Sum>p = 1..int (Suc n). min z (t - (p - 1) * z))
      = min z (t - int n * z) + (\<Sum>p = 1..int n. min z (t - (p - 1) * z))"
    unfolding split by simp
  also have "(\<Sum>p = 1..int n. min z (t - (p - 1) * z)) = int n * z"
    using Suc below by (cases "n = 0") auto
  finally show ?case using below by (simp add: algebra_simps min_def)
qed simp

lemma page_sum_total:
  assumes "1 \<le> z" and "0 < t"
  shows "(\<Sum>p = 1..ceil_div t z. min z (t - (p - 1) * z)) = t"
proof -
  have pos: "0 < ceil_div t z" using assms by (simp add: ceil_div_pos)
  then have "(\<Sum>p = 1..int (nat (ceil_div t z)). min z (t - (p - 1) * z))
      = min (int (nat (ceil_div t z)) * z) t"
    using page_sum [OF assms(1), of "nat (ceil_div t z)" t] by auto
  then show ?thesis using pos ceil_div_bounds(1) [of z t] assms(1) by (simp add: min_def)
qed

text \<open>The metadata of a document that was parsed from a page.\<close>

definition page_meta_ok :: "document_meta \<Rightarrow> bool" where
  "page_meta_ok m \<longleftrightarrow>
     (\<exists>t z. dm_total m = Some t \<and> 0 \<le> t \<and> dm_page_size m = Some z \<and> 1 \<le> z)
     \<and> length (dm_identities m) + dm_rejected_count m = dm_row_count m"

text \<open>
  A complete partition: one declared total, every page of it once and in full, no identity twice.
\<close>

definition complete_partition :: "documents \<Rightarrow> bool" where
  "complete_partition pages \<longleftrightarrow>
     (\<exists>t. (\<forall>(i, m) \<in> set pages. dm_total m = Some t)
        \<and> int (sum_list (map (\<lambda>(_, m). dm_row_count m) pages)) = t
        \<and> (0 < t \<longrightarrow> distinct (map (\<lambda>(i, _). si_page_number i) pages)
             \<and> (\<forall>(i, _) \<in> set pages. \<exists>n \<ge> 1. si_page_number i = Some n))
        \<and> distinct (partition_identities pages)
        \<and> (rejected_total pages = 0 \<longrightarrow> int (card (set (partition_identities pages))) = t))"

lemma remdups_single: "remdups xs = [x] \<Longrightarrow> set xs = {x}"
  by (metis list.simps(15) list.set(1) set_remdups)

lemma check_pages_sum:
  assumes "check_pages t z pages = Inr ()" and "1 \<le> z" and "0 < t"
  shows "int (sum_list (map (\<lambda>(_, m). dm_row_count m) pages)) = t
    \<and> distinct (map (\<lambda>(i, _). si_page_number i) pages)
    \<and> (\<forall>(i, _) \<in> set pages. \<exists>n \<ge> 1. si_page_number i = Some n)"
proof -
  define ps where "ps = map (\<lambda>(i, _ :: document_meta). si_page_number i) pages"
  have len: "int (length pages) = ceil_div t z" and numbers: "set ps = Some ` {1..ceil_div t z}"
    and rows: "\<forall>(i, m) \<in> set pages. int (dm_row_count m) = expected_rows t z i"
    using assms(1) unfolding ps_def
    by (auto simp: check_pages_def Let_def list_ex_iff split: if_splits)
  have "int (card (set ps)) = ceil_div t z"
    using ceil_div_nonneg [of z t] assms(2,3) by (simp add: numbers card_image)
  then have "card (set ps) = length ps" using len by (simp add: ps_def)
  then have d: "distinct ps" by (rule card_distinct)
  have at: "\<exists>n \<ge> 1. si_page_number i = Some n" if "(i, m) \<in> set pages" for i m
  proof -
    have "si_page_number i \<in> set ps" using that by (force simp: ps_def)
    then show ?thesis by (auto simp: numbers)
  qed
  define g where "g = (\<lambda>p. case p of None \<Rightarrow> 0 | Some n \<Rightarrow> min z (t - (n - 1) * z))"
  have "int (sum_list (map (\<lambda>(_, m). dm_row_count m) pages)) = sum_list (map g ps)"
  proof -
    have "map (\<lambda>(_, m). int (dm_row_count m)) pages = map g ps"
      unfolding ps_def map_map
    proof (rule map_cong)
      fix x assume x: "x \<in> set pages"
      obtain i m where im: "x = (i, m)" by fastforce
      with at x obtain n where "n \<ge> 1" "si_page_number i = Some n" by blast
      with rows x im show "(case x of (_, m) \<Rightarrow> int (dm_row_count m))
          = (g \<circ> (\<lambda>(i, _). si_page_number i)) x"
        by (auto simp: g_def expected_rows_def)
    qed simp
    moreover have "int (sum_list (map (\<lambda>(_, m). dm_row_count m) pages))
        = sum_list (map (\<lambda>(_, m). int (dm_row_count m)) pages)"
      by (induction pages) auto
    ultimately show ?thesis by simp
  qed
  also have "\<dots> = (\<Sum>p \<in> set ps. g p)" using d by (simp add: sum_list_distinct_conv_sum_set)
  also have "\<dots> = (\<Sum>p = 1..ceil_div t z. min z (t - (p - 1) * z))"
    by (simp add: numbers sum.reindex g_def)
  also have "\<dots> = t" by (rule page_sum_total [OF assms(2,3)])
  finally show ?thesis using d at unfolding ps_def by blast
qed

lemma identities_count:
  assumes "\<forall>(i, m) \<in> set pages. page_meta_ok m"
  shows "length (partition_identities pages) + rejected_total pages
    = sum_list (map (\<lambda>(_, m). dm_row_count m) pages)"
  using assms
  by (induction pages) (auto simp: partition_identities_def rejected_total_def page_meta_ok_def)

lemma check_partition_complete:
  assumes "check_partition src (part, pages) = Inr ()" and "src \<noteq> u ''ncs_career_path''"
    and "\<not> is_detail src part" and ok: "\<forall>(i, m) \<in> set pages. page_meta_ok m"
  shows "complete_partition pages"
proof -
  have d: "distinct (partition_identities pages)"
    using assms(1) by (auto simp: check_partition_def split: if_splits)
  from assms(1-3) obtain tot sz where
    tot: "remdups (map (\<lambda>(_, m). dm_total m) pages) = [tot]" and
    sz: "remdups (map (\<lambda>(_, m). dm_page_size m) pages) = [sz]" and
    chk: "(if tot = Some 0 then check_empty_partition pages
           else (case (tot, sz) of
               (Some t, Some z) \<Rightarrow> check_pages t z pages
             | _ \<Rightarrow> Inl (Exn (OtherError (u ''TypeError'')) []))) = Inr ()"
    by (auto simp: check_partition_def split: if_splits list.splits)
  have same: "(i, m) \<in> set pages \<Longrightarrow> dm_total m = tot \<and> dm_page_size m = sz" for i m
    using remdups_single [OF tot] remdups_single [OF sz] by force
  have "pages \<noteq> []" using tot by auto
  then obtain i0 m0 where "(i0, m0) \<in> set pages" by (cases pages) auto
  with ok same obtain t z where tz: "tot = Some t" "0 \<le> t" "sz = Some z" "1 \<le> z"
    by (fastforce simp: page_meta_ok_def)
  have count: "rejected_total pages = 0 \<Longrightarrow>
      card (set (partition_identities pages)) = sum_list (map (\<lambda>(_, m). dm_row_count m) pages)"
    using identities_count [OF ok] distinct_card [OF d] by simp
  show ?thesis
  proof (cases "t = 0")
    case True
    with chk tz have "\<forall>(i, m) \<in> set pages. dm_row_count m = 0"
      by (auto simp: check_empty_partition_def list_ex_iff split: if_splits)
    then have "sum_list (map (\<lambda>(_, m). dm_row_count m) pages) = 0" by (induction pages) auto
    with True tz same d count show ?thesis
      unfolding complete_partition_def by (intro exI [of _ t]) auto
  next
    case False
    with chk tz have "check_pages t z pages = Inr ()" by simp
    from check_pages_sum [OF this tz(4)] False tz(2)
    have "int (sum_list (map (\<lambda>(_, m). dm_row_count m) pages)) = t
      \<and> distinct (map (\<lambda>(i, _). si_page_number i) pages)
      \<and> (\<forall>(i, _) \<in> set pages. \<exists>n \<ge> 1. si_page_number i = Some n)" by simp
    with tz same d count show ?thesis
      unfolding complete_partition_def by (intro exI [of _ t]) auto
  qed
qed

lemma validate_completeness_partitions:
  assumes "validate_completeness src docs = Inr ()" and "src \<noteq> u ''ncs_career_path''"
    and "part \<in> (\<lambda>(i, _). si_partition_id i) ` set docs"
  shows "check_partition src (part, filter (\<lambda>(i, _). si_partition_id i = part) docs) = Inr ()"
proof -
  define key where "key = (\<lambda>(i :: snapshot_input, _ :: document_meta). si_partition_id i)"
  have "map_of (group_by key docs) part = Some (filter (\<lambda>x. key x = part) docs)"
    using assms(3) by (simp add: map_of_group_by key_def)
  then have mem: "(part, filter (\<lambda>x. key x = part) docs) \<in> set (group_by key docs)"
    by (rule map_of_SomeD)
  have "rall (check_partition src) (group_by key docs) = Inr ()"
    using assms(1,2) by (auto simp: validate_completeness_def Let_def key_def rbind_Inr_iff
        split: if_splits)
  with mem have "check_partition src (part, filter (\<lambda>x. key x = part) docs) = Inr ()"
    by (simp add: rall_Inr_iff)
  moreover have "filter (\<lambda>x. key x = part) docs = filter (\<lambda>(i, _). si_partition_id i = part) docs"
    by (rule filter_cong) (auto simp: key_def)
  ultimately show ?thesis by simp
qed


section \<open>Staging only grows\<close>

definition staging_extends :: "staging_tables \<Rightarrow> staging_tables \<Rightarrow> bool" where
  "staging_extends sg sg' \<longleftrightarrow>
     map_of (sg_document sg) \<subseteq>\<^sub>m map_of (sg_document sg')
     \<and> map_of (sg_record_revision sg) \<subseteq>\<^sub>m map_of (sg_record_revision sg')
     \<and> map_of (sg_processing_input sg) \<subseteq>\<^sub>m map_of (sg_processing_input sg')"

lemma staging_extends_refl [simp]: "staging_extends sg sg"
  by (simp add: staging_extends_def)

lemma staging_extends_trans:
  "staging_extends a b \<Longrightarrow> staging_extends b c \<Longrightarrow> staging_extends a c"
  unfolding staging_extends_def by (blast intro: map_le_trans)

lemma cached_extends:
  "staging_extends sg sg' \<Longrightarrow> loader_cached sg i = Some m \<Longrightarrow> loader_cached sg' i = Some m"
  by (auto simp: staging_extends_def loader_cached_def map_le_def dom_def)

text \<open>The identifiers that staging gives are what they are the digests of.\<close>

definition document_key :: "pyenv \<Rightarrow> document_row \<Rightarrow> ustr" where
  "document_key P d = digest P (JArr [JStr (dw_source_id d), JStr (dw_snapshot_id d),
     JStr (dw_partition_id d), JStr (dw_processor_version d)])"

definition page_document_ok :: "document_row \<Rightarrow> bool" where
  "page_document_ok d \<longleftrightarrow>
     dw_source_id d \<noteq> u ''ncs_career_path'' \<longrightarrow> \<not> is_detail (dw_source_id d) (dw_partition_id d)
     \<longrightarrow> page_meta_ok (dw_metadata d)"

definition staging_ok :: "pyenv \<Rightarrow> staging_tables \<Rightarrow> bool" where
  "staging_ok P sg \<longleftrightarrow>
     (\<forall>i d. map_of (sg_document sg) i = Some d \<longrightarrow> i = document_key P d \<and> page_document_ok d)
     \<and> (\<forall>i v. map_of (sg_record_revision sg) i = Some v \<longrightarrow>
          revision_id P (rv_source_id v) (rv_processor_version v) (rv_record v) = i)"

lemma insert_revisions_effect:
  assumes "insert_revisions P source version rs revs = (revs', n)"
  shows "map_of revs \<subseteq>\<^sub>m map_of revs'
    \<and> (\<forall>i v. map_of revs' i = Some v \<longrightarrow> map_of revs i = Some v
         \<or> revision_id P (rv_source_id v) (rv_processor_version v) (rv_record v) = i)"
proof -
  define step where "step = (\<lambda>acc r. insert_revision P source version r acc)"
  have one: "map_of (fst acc) \<subseteq>\<^sub>m map_of (fst (step acc r))
    \<and> (\<forall>i v. map_of (fst (step acc r)) i = Some v \<longrightarrow> map_of (fst acc) i = Some v
         \<or> revision_id P (rv_source_id v) (rv_processor_version v) (rv_record v) = i)" for acc r
    by (auto simp: step_def insert_revision_def Let_def map_le_def map_add_def dom_def
        split: option.splits if_splits)
  have "map_of (fst acc) \<subseteq>\<^sub>m map_of (fst (foldl step acc rs))
    \<and> (\<forall>i v. map_of (fst (foldl step acc rs)) i = Some v \<longrightarrow> map_of (fst acc) i = Some v
         \<or> revision_id P (rv_source_id v) (rv_processor_version v) (rv_record v) = i)" for acc
  proof (induction rs arbitrary: acc)
    case (Cons r rs)
    show ?case using Cons.IH [of "step acc r"] one [of acc r] by (auto intro: map_le_trans)
  qed simp
  from this [of "(revs, 0)"] assms show ?thesis
    by (simp add: insert_revisions_def step_def)
qed

lemma loader_save_effect:
  assumes "loader_save P source item version doc parsed sg = (r, sg')"
  shows "sg_processing_run sg' = sg_processing_run sg \<and> staging_extends sg sg'
    \<and> (case r of
         Inl e \<Rightarrow> sg' = sg
       | Inr n \<Rightarrow> loader_cached sg' doc = Some (metadata_of parsed)
           \<and> (\<forall>i d. map_of (sg_document sg') i = Some d \<longrightarrow> map_of (sg_document sg) i = Some d
                \<or> i = doc \<and> d = \<lparr>dw_source_id = source, dw_snapshot_id = si_snapshot_id item,
                    dw_partition_id = si_partition_id item, dw_processor_version = version,
                    dw_metadata = metadata_of parsed\<rparr>)
           \<and> (\<forall>i v. map_of (sg_record_revision sg') i = Some v \<longrightarrow>
                map_of (sg_record_revision sg) i = Some v
                \<or> revision_id P (rv_source_id v) (rv_processor_version v) (rv_record v) = i))"
proof (cases r)
  case (Inl e)
  with assms have "sg' = sg"
    by (auto simp: loader_save_def Let_def split: if_splits prod.splits)
  with Inl show ?thesis by simp
next
  case (Inr n)
  obtain revs k where ins: "insert_revisions P source version (map snd (pd_records parsed))
      (sg_record_revision sg) = (revs, k)" by fastforce
  from assms Inr ins have fresh: "map_of (sg_document sg) doc = None" and
    sg': "sg' = sg\<lparr>sg_document := AList.update doc
                 \<lparr>dw_source_id = source, dw_snapshot_id = si_snapshot_id item,
                  dw_partition_id = si_partition_id item, dw_processor_version = version,
                  dw_metadata = metadata_of parsed\<rparr> (sg_document sg),
               sg_record_revision := revs,
               sg_document_record := sg_document_record sg
                 @ map (\<lambda>(loc, r). ((doc, loc), revision_id P source version r)) (pd_records parsed),
               sg_rejected_row := sg_rejected_row sg
                 @ map (\<lambda>j. ((doc, rj_locator j), rj_error_code j, rj_source_payload j))
                     (pd_rejected parsed)\<rparr>"
    by (auto simp: loader_save_def Let_def split: if_splits prod.splits)
  note rev = insert_revisions_effect [OF ins]
  have "map_of (sg_document sg) \<subseteq>\<^sub>m map_of (sg_document sg')"
    using fresh by (auto simp: sg' update_conv' map_le_def)
  moreover have "loader_cached sg' doc = Some (metadata_of parsed)"
    by (simp add: sg' loader_cached_def update_conv')
  ultimately show ?thesis
    using rev Inr unfolding staging_extends_def by (auto simp: sg' update_conv' split: if_splits)
qed

lemma loader_attach_effect:
  assumes "loader_attach run obs doc sg = (r, sg')"
  shows "r = Inr () \<and> sg_processing_run sg' = sg_processing_run sg \<and> staging_extends sg sg'
    \<and> (run, obs) \<in> dom (map_of (sg_processing_input sg')) \<and> sg_document sg' = sg_document sg
    \<and> sg_record_revision sg' = sg_record_revision sg
    \<and> ((run, obs) \<in> dom (map_of (sg_processing_input sg)) \<longrightarrow> sg' = sg)"
  using assms
  by (auto simp: loader_attach_def staging_extends_def update_conv' map_le_def
      split: if_splits)

lemma parsed_page_ok:
  assumes "parse_document P source body part page = Inr parsed"
  shows "page_document_ok \<lparr>dw_source_id = source, dw_snapshot_id = sn, dw_partition_id = part,
     dw_processor_version = v, dw_metadata = metadata_of parsed\<rparr>"
proof -
  from parse_document_counts [OF assms] show ?thesis
    using parse_document_paging [OF assms]
    by (fastforce simp: page_document_ok_def page_meta_ok_def metadata_of_def)
qed


section \<open>One input\<close>

lemma staging_ok_save:
  assumes "staging_ok P sg" and "loader_save P source item processor_version
      (document_id_of P source item) parsed sg = (Inr n, sg')"
    and "parse_document P source body (si_partition_id item) (si_page_number item) = Inr parsed"
  shows "staging_ok P sg'"
proof -
  note e = loader_save_effect [OF assms(2)]
  define d0 where "d0 = \<lparr>dw_source_id = source, dw_snapshot_id = si_snapshot_id item,
      dw_partition_id = si_partition_id item, dw_processor_version = processor_version,
      dw_metadata = metadata_of parsed\<rparr>"
  have docs: "map_of (sg_document sg) i = Some d \<or> i = document_id_of P source item \<and> d = d0"
    if "map_of (sg_document sg') i = Some d" for i d
    using e that unfolding d0_def by simp
  have revs: "map_of (sg_record_revision sg) i = Some v
      \<or> revision_id P (rv_source_id v) (rv_processor_version v) (rv_record v) = i"
    if "map_of (sg_record_revision sg') i = Some v" for i v
    using e that by simp
  have "document_key P d0 = document_id_of P source item"
    by (simp add: d0_def document_key_def document_id_of_def)
  moreover have "page_document_ok d0" using parsed_page_ok [OF assms(3)] unfolding d0_def .
  ultimately show ?thesis
    using docs revs assms(1) unfolding staging_ok_def by metis
qed

text \<open>The end of the loop body, once the document is staged.\<close>

definition finish_item ::
    "ustr \<Rightarrow> ustr \<Rightarrow> snapshot_input \<Rightarrow> document_meta \<times> process_progress
     \<Rightarrow> (staging_tables, exn, process_progress) action" where
  "finish_item run_id document_id item = (\<lambda>(m, pr').
     if dm_page m \<noteq> None \<and> dm_page m \<noteq> si_page_number item
     then lift_result (processing_error ''CACHED_PAGE_MISMATCH'')
     else abind (loader_attach run_id (si_observation_id item) document_id) (\<lambda>_.
       areturn (pr'\<lparr>px_documents := px_documents pr' @ [(item, m)]\<rparr>)))"

lemma finish_item_effect:
  assumes "finish_item run doc item (m, pr) sg = (r, sg')"
  shows "sg_processing_run sg' = sg_processing_run sg \<and> staging_extends sg sg'
    \<and> sg_document sg' = sg_document sg \<and> sg_record_revision sg' = sg_record_revision sg
    \<and> (\<forall>pr'. r = Inr pr' \<longrightarrow> pr' = pr\<lparr>px_documents := px_documents pr @ [(item, m)]\<rparr>
         \<and> (run, si_observation_id item) \<in> dom (map_of (sg_processing_input sg'))
         \<and> (dm_page m = None \<or> dm_page m = si_page_number item))
    \<and> ((run, si_observation_id item) \<in> dom (map_of (sg_processing_input sg)) \<longrightarrow> sg' = sg)"
proof (cases "dm_page m \<noteq> None \<and> dm_page m \<noteq> si_page_number item")
  case True
  with assms show ?thesis by (auto simp: finish_item_def processing_error_def)
next
  case False
  obtain r1 sg1 where a: "loader_attach run (si_observation_id item) doc sg = (r1, sg1)" by fastforce
  note e = loader_attach_effect [OF a]
  from False assms a e have "sg' = sg1" "r = Inr (pr\<lparr>px_documents := px_documents pr @ [(item, m)]\<rparr>)"
    by (auto simp: finish_item_def abind_def)
  with e False show ?thesis by auto
qed

lemma process_item_unfold:
  assumes "source = u ''ncs_career_path'' \<or> json_mime (si_mime_type item)"
    and "read_raw P fs item = Inr body"
  shows "process_item P fs source run pr item sg =
     abind (case loader_cached sg (document_id_of P source item) of
             Some m \<Rightarrow> areturn (m, pr\<lparr>px_reused := px_reused pr + 1\<rparr>)
           | None \<Rightarrow>
               abind (lift_result (parse_document P source body (si_partition_id item)
                        (si_page_number item))) (\<lambda>parsed.
               abind (loader_save P source item processor_version (document_id_of P source item) parsed)
                 (\<lambda>new_count sg'.
                    case loader_cached sg' (document_id_of P source item) of
                      None \<Rightarrow> (Inl (Exn AssertionError []), sg')
                    | Some m \<Rightarrow> (Inr (m, pr\<lparr>px_new := px_new pr + new_count\<rparr>), sg'))))
       (finish_item run (document_id_of P source item) item) sg"
  using assms by (auto simp: process_item_def finish_item_def abind_def [of "lift_result (Inr body)"]
      lift_result_def Let_def)

definition item_staged :: "pyenv \<Rightarrow> ustr \<Rightarrow> ustr \<Rightarrow> staging_tables \<Rightarrow> snapshot_input \<times> document_meta \<Rightarrow> bool"
where
  "item_staged P source run sg d \<longleftrightarrow>
     loader_cached sg (document_id_of P source (fst d)) = Some (snd d)
     \<and> (run, si_observation_id (fst d)) \<in> dom (map_of (sg_processing_input sg))
     \<and> (dm_page (snd d) = None \<or> dm_page (snd d) = si_page_number (fst d))"

lemma item_staged_extends:
  "item_staged P source run sg d \<Longrightarrow> staging_extends sg sg' \<Longrightarrow> item_staged P source run sg' d"
  unfolding item_staged_def using cached_extends [of sg sg']
  by (auto simp: staging_extends_def map_le_def dom_def)

lemma process_item_effect:
  assumes "process_item P fs source run pr item sg = (r, sg')"
  shows "sg_processing_run sg' = sg_processing_run sg \<and> staging_extends sg sg'
    \<and> (staging_ok P sg \<longrightarrow> staging_ok P sg')
    \<and> (\<forall>pr'. r = Inr pr' \<longrightarrow>
         (source = u ''ncs_career_path'' \<or> json_mime (si_mime_type item))
         \<and> isok (read_raw P fs item)
         \<and> (\<exists>m. px_documents pr' = px_documents pr @ [(item, m)]
              \<and> item_staged P source run sg' (item, m)))"
proof (cases "(source = u ''ncs_career_path'' \<or> json_mime (si_mime_type item))
    \<and> isok (read_raw P fs item)")
  case False
  then have "\<exists>e. r = Inl e" "sg' = sg" using assms
    by (auto simp: process_item_def processing_error_def abind_def isok_iff Let_def
        split: if_splits sum.splits)
  then show ?thesis by auto
next
  case True
  then obtain body where body: "read_raw P fs item = Inr body" by (auto simp: isok_iff)
  define doc where "doc = document_id_of P source item"
  note eq = process_item_unfold [OF conjunct1 [OF True] body, of run pr sg, folded doc_def]
  show ?thesis
  proof (cases "loader_cached sg doc")
    case (Some m)
    with assms eq have f: "finish_item run doc item (m, pr\<lparr>px_reused := px_reused pr + 1\<rparr>) sg = (r, sg')"
      by (simp add: abind_def)
    note e = finish_item_effect [OF f]
    have c: "loader_cached sg' doc = Some m" using e Some by (simp add: loader_cached_def)
    have ok: "staging_ok P sg \<longrightarrow> staging_ok P sg'" using e by (simp add: staging_ok_def)
    have "\<exists>m. px_documents pr' = px_documents pr @ [(item, m)] \<and> item_staged P source run sg' (item, m)"
      if "r = Inr pr'" for pr'
      using e that c by (intro exI [of _ m]) (simp add: item_staged_def doc_def)
    with e ok True show ?thesis by blast
  next
    case None
    show ?thesis
    proof (cases "parse_document P source body (si_partition_id item) (si_page_number item)")
      case (Inl e)
      with assms eq None have "r = Inl e" "sg' = sg" by (simp_all add: abind_def)
      then show ?thesis by simp
    next
      case (Inr parsed)
      obtain r1 sg1 where sv: "loader_save P source item processor_version doc parsed sg = (r1, sg1)"
        by fastforce
      note sve = loader_save_effect [OF sv]
      show ?thesis
      proof (cases r1)
        case (Inl e)
        with assms eq None Inr sv have "r = Inl e" "sg' = sg1" by (simp_all add: abind_def)
        with sve Inl show ?thesis by simp
      next
        case n: (Inr n)
        with sve have c: "loader_cached sg1 doc = Some (metadata_of parsed)" by simp
        with assms eq None Inr sv n
        have f: "finish_item run doc item (metadata_of parsed, pr\<lparr>px_new := px_new pr + n\<rparr>) sg1 = (r, sg')"
          by (simp add: abind_def)
        note e = finish_item_effect [OF f]
        have ok: "staging_ok P sg \<longrightarrow> staging_ok P sg1"
          using staging_ok_save [OF _ sv [unfolded n doc_def] Inr] by blast
        have c': "loader_cached sg' doc = Some (metadata_of parsed)"
          using e c by (simp add: loader_cached_def)
        have "staging_extends sg sg'" using sve e staging_extends_trans by blast
        moreover have "staging_ok P sg1 \<longrightarrow> staging_ok P sg'" using e by (simp add: staging_ok_def)
        moreover have "sg_processing_run sg' = sg_processing_run sg" using sve e by simp
        moreover have "\<exists>m. px_documents pr' = px_documents pr @ [(item, m)]
            \<and> item_staged P source run sg' (item, m)" if "r = Inr pr'" for pr'
          using e that c' by (intro exI [of _ "metadata_of parsed"]) (simp add: item_staged_def doc_def)
        ultimately show ?thesis using ok True by blast
      qed
    qed
  qed
qed

text \<open>Again over what is staged: the document is reused and nothing changes.\<close>

lemma process_item_again:
  assumes "item_staged P source run sg (item, m)"
    and "source = u ''ncs_career_path'' \<or> json_mime (si_mime_type item)"
    and "isok (read_raw P fs item)"
  shows "process_item P fs source run pr item sg =
     (Inr (pr\<lparr>px_reused := px_reused pr + 1, px_documents := px_documents pr @ [(item, m)]\<rparr>), sg)"
proof -
  from assms(3) obtain body where body: "read_raw P fs item = Inr body" by (auto simp: isok_iff)
  define doc where "doc = document_id_of P source item"
  have "loader_cached sg doc = Some m" using assms(1) by (simp add: item_staged_def doc_def)
  then have "process_item P fs source run pr item sg
      = finish_item run doc item (m, pr\<lparr>px_reused := px_reused pr + 1\<rparr>) sg"
    using process_item_unfold [OF assms(2) body, of run pr sg, folded doc_def] by (simp add: abind_def)
  also have "\<dots> = (Inr (pr\<lparr>px_reused := px_reused pr + 1,
      px_documents := px_documents pr @ [(item, m)]\<rparr>), sg)"
  proof -
    have page: "\<not> (dm_page m \<noteq> None \<and> dm_page m \<noteq> si_page_number item)"
      and there: "map_of (sg_processing_input sg) (run, si_observation_id item) \<noteq> None"
      using assms(1) by (auto simp: item_staged_def)
    have "loader_attach run (si_observation_id item) doc sg = (Inr (), sg)"
      using there by (simp add: loader_attach_def)
    then show ?thesis
      unfolding finish_item_def by (simp only: prod.case page if_False) (simp add: abind_def)
  qed
  finally show ?thesis .
qed

section \<open>All inputs\<close>

lemma process_items_effect:
  assumes "process_items P fs source run pr items sg = (r, sg')"
  shows "sg_processing_run sg' = sg_processing_run sg \<and> staging_extends sg sg'
    \<and> (staging_ok P sg \<longrightarrow> staging_ok P sg')
    \<and> (\<forall>pr'. r = Inr pr' \<longrightarrow>
         (\<exists>docs. px_documents pr' = px_documents pr @ docs \<and> map fst docs = items
            \<and> (\<forall>d \<in> set docs. item_staged P source run sg' d
                 \<and> (source = u ''ncs_career_path'' \<or> json_mime (si_mime_type (fst d)))
                 \<and> isok (read_raw P fs (fst d)))))"
  using assms
proof (induction items arbitrary: pr sg)
  case Nil
  then show ?case by auto
next
  case (Cons item items)
  obtain r1 sg1 where i: "process_item P fs source run pr item sg = (r1, sg1)" by fastforce
  note e1 = process_item_effect [OF i]
  show ?case
  proof (cases r1)
    case (Inl e)
    with Cons.prems i have "r = Inl e" "sg' = sg1" by (simp_all add: abind_def)
    with e1 show ?thesis by simp
  next
    case (Inr pr1)
    with Cons.prems i have rest: "process_items P fs source run pr1 items sg1 = (r, sg')"
      by (simp add: abind_def)
    note e2 = Cons.IH [OF rest]
    have ext: "staging_extends sg sg'" using e1 e2 staging_extends_trans by blast
    from e1 Inr obtain m where m: "px_documents pr1 = px_documents pr @ [(item, m)]"
      "item_staged P source run sg1 (item, m)"
      "source = u ''ncs_career_path'' \<or> json_mime (si_mime_type item)" "isok (read_raw P fs item)"
      by blast
    have m': "item_staged P source run sg' (item, m)" using m(2) e2 item_staged_extends by blast
    show ?thesis
    proof (intro conjI allI impI)
      fix pr' assume "r = Inr pr'"
      with e2 obtain docs where d: "px_documents pr' = px_documents pr1 @ docs" "map fst docs = items"
        "\<forall>d \<in> set docs. item_staged P source run sg' d
                 \<and> (source = u ''ncs_career_path'' \<or> json_mime (si_mime_type (fst d)))
                 \<and> isok (read_raw P fs (fst d))" by blast
      then show "\<exists>docs. px_documents pr' = px_documents pr @ docs \<and> map fst docs = item # items
            \<and> (\<forall>d \<in> set docs. item_staged P source run sg' d
                 \<and> (source = u ''ncs_career_path'' \<or> json_mime (si_mime_type (fst d)))
                 \<and> isok (read_raw P fs (fst d)))"
        using m m' by (intro exI [of _ "(item, m) # docs"]) auto
    qed (use e1 e2 ext in auto)
  qed
qed

lemma process_items_again:
  assumes "\<forall>d \<in> set docs. item_staged P source run sg d
      \<and> (source = u ''ncs_career_path'' \<or> json_mime (si_mime_type (fst d)))
      \<and> isok (read_raw P fs (fst d))"
  shows "process_items P fs source run pr (map fst docs) sg =
     (Inr (pr\<lparr>px_reused := px_reused pr + length docs, px_documents := px_documents pr @ docs\<rparr>), sg)"
  using assms
proof (induction docs arbitrary: pr)
  case Nil
  then show ?case by simp
next
  case (Cons d docs)
  obtain item m where d: "d = (item, m)" by fastforce
  have "process_item P fs source run pr item sg =
     (Inr (pr\<lparr>px_reused := px_reused pr + 1, px_documents := px_documents pr @ [(item, m)]\<rparr>), sg)"
    by (rule process_item_again) (use Cons.prems d in auto)
  with Cons d show ?case by (simp add: abind_def)
qed

section \<open>The run\<close>

lemma update_processing_run_other [simp]:
  "i \<noteq> run \<Longrightarrow> map_of (sg_processing_run (update_processing_run run f sg)) i = map_of (sg_processing_run sg) i"
  by (simp add: update_processing_run_def update_conv' split: option.split)

lemma update_processing_run_same [simp]:
  "map_of (sg_processing_run (update_processing_run run f sg)) run
     = map_option f (map_of (sg_processing_run sg) run)"
  by (simp add: update_processing_run_def update_conv' split: option.split)

text \<open>Staging but for the rows of processing runs.\<close>

definition same_staging :: "staging_tables \<Rightarrow> staging_tables \<Rightarrow> bool" where
  "same_staging a b \<longleftrightarrow>
     sg_document a = sg_document b \<and> sg_record_revision a = sg_record_revision b
     \<and> sg_document_record a = sg_document_record b \<and> sg_rejected_row a = sg_rejected_row b
     \<and> sg_processing_input a = sg_processing_input b"

lemma same_staging_refl [simp]: "same_staging a a"
  by (simp add: same_staging_def)

lemma same_staging_update [simp]: "same_staging (update_processing_run run f sg) sg"
  by (simp add: same_staging_def update_processing_run_def split: option.split)

lemma same_staging_open [simp]: "same_staging (open_processing_run run crun sg) sg"
  by (simp add: same_staging_def open_processing_run_def)

lemma same_staging_trans: "same_staging a b \<Longrightarrow> same_staging b c \<Longrightarrow> same_staging a c"
  by (simp add: same_staging_def)

lemma same_staging_extends:
  "same_staging a b \<Longrightarrow> staging_extends a c = staging_extends b c"
  "same_staging a b \<Longrightarrow> staging_extends c a = staging_extends c b"
  by (simp_all add: same_staging_def staging_extends_def)

lemma same_staging_ok: "same_staging a b \<Longrightarrow> staging_ok P a = staging_ok P b"
  by (simp add: same_staging_def staging_ok_def)

lemma same_staging_item: "same_staging a b \<Longrightarrow> item_staged P source run a d = item_staged P source run b d"
  by (simp add: same_staging_def item_staged_def loader_cached_def)

lemma same_staging_records: "same_staging a b \<Longrightarrow> loader_records P a run = loader_records P b run"
  by (simp add: same_staging_def loader_records_def run_revisions_def run_documents_def
      load_revision_def [abs_def])

lemma same_staging_pairs:
  "same_staging a b \<Longrightarrow> validate_posting_pairs P a run = validate_posting_pairs P b run"
  by (simp add: validate_posting_pairs_def same_staging_records)

definition inputs_accepted ::
    "pyenv \<Rightarrow> files \<Rightarrow> ustr \<Rightarrow> ustr \<Rightarrow> staging_tables \<Rightarrow> process_progress \<Rightarrow> (ustr \<times> staged_record) list \<Rightarrow> bool"
where
  "inputs_accepted P fs source run sg pr saved \<longleftrightarrow>
     (\<forall>d \<in> set (px_documents pr). item_staged P source run sg d
        \<and> (source = u ''ncs_career_path'' \<or> json_mime (si_mime_type (fst d)))
        \<and> isok (read_raw P fs (fst d)))
     \<and> validate_completeness source (px_documents pr) = Inr ()
     \<and> (source = u ''job_alio'' \<and> rejected_total (px_documents pr) = 0
        \<longrightarrow> validate_posting_pairs P sg run = Inr ())
     \<and> loader_records P sg run = Inr saved"

lemma process_inputs_effect:
  assumes "process_inputs P fs source run crun inputs sg = (r, sg')"
  shows "staging_extends sg sg' \<and> (staging_ok P sg \<longrightarrow> staging_ok P sg')
    \<and> (\<forall>i. i \<noteq> run \<longrightarrow> map_of (sg_processing_run sg') i = map_of (sg_processing_run sg) i)
    \<and> (case r of
         Inl e \<Rightarrow> sg_processing_run sg' = sg_processing_run sg
       | Inr s \<Rightarrow> map_of (sg_processing_run sg') run = map_option (\<lambda>row.
             row\<lparr>pw_state := su_state s, pw_summary := Some s\<rparr>) (map_of (sg_processing_run sg) run)
           \<and> (\<exists>pr saved. map fst (px_documents pr) = inputs
                \<and> inputs_accepted P fs source run sg' pr saved
                \<and> s = summarize P source run crun pr saved))"
proof -
  obtain r1 sg1 where items: "process_items P fs source run
      \<lparr>px_documents = [], px_reused = 0, px_new = 0\<rparr> inputs sg = (r1, sg1)" by fastforce
  note e = process_items_effect [OF items]
  show ?thesis
  proof (cases r)
    case (Inl x)
    with assms items have "sg' = sg1"
      by (auto simp: process_inputs_def abind_def Let_def split: sum.splits if_splits)
    with Inl e show ?thesis by simp
  next
    case (Inr s)
    with assms items obtain pr saved where
      *: "r1 = Inr pr" "validate_completeness source (px_documents pr) = Inr ()"
      "source = u ''job_alio'' \<and> rejected_total (px_documents pr) = 0
         \<longrightarrow> validate_posting_pairs P sg1 run = Inr ()"
      "loader_records P sg1 run = Inr saved" "s = summarize P source run crun pr saved"
      "sg' = update_processing_run run
         (\<lambda>row. row\<lparr>pw_state := su_state s, pw_summary := Some s\<rparr>) sg1"
      by (auto simp: process_inputs_def abind_def Let_def split: sum.splits if_splits)
    have same: "same_staging sg' sg1" by (simp add: *)
    have docs: "map fst (px_documents pr) = inputs" "\<forall>d \<in> set (px_documents pr). item_staged P source run sg1 d
        \<and> (source = u ''ncs_career_path'' \<or> json_mime (si_mime_type (fst d)))
        \<and> isok (read_raw P fs (fst d))" using e * by auto
    have "inputs_accepted P fs source run sg' pr saved"
      unfolding inputs_accepted_def same_staging_item [OF same] same_staging_pairs [OF same]
        same_staging_records [OF same] using docs * by blast
    moreover have "staging_extends sg sg'" "staging_ok P sg \<longrightarrow> staging_ok P sg'"
      using e by (simp_all add: same_staging_extends(2) [OF same] same_staging_ok [OF same])
    moreover have "map_of (sg_processing_run sg') run = map_option (\<lambda>row.
             row\<lparr>pw_state := su_state s, pw_summary := Some s\<rparr>) (map_of (sg_processing_run sg) run)"
      using e by (simp add: *)
    moreover have "\<forall>i. i \<noteq> run \<longrightarrow> map_of (sg_processing_run sg') i = map_of (sg_processing_run sg) i"
      using e by (simp add: *)
    ultimately show ?thesis using docs(1) * Inr by auto
  qed
qed

text \<open>Over what is staged already the inputs give the same summary, but for the two counts.\<close>

lemma process_inputs_again:
  assumes "inputs_accepted P fs source run sg pr saved"
  shows "process_inputs P fs source run crun (map fst (px_documents pr)) sg =
    (let s = summarize P source run crun
              \<lparr>px_documents = px_documents pr, px_reused = length (px_documents pr), px_new = 0\<rparr> saved
     in (Inr s, update_processing_run run
           (\<lambda>row. row\<lparr>pw_state := su_state s, pw_summary := Some s\<rparr>) sg))"
proof -
  have "process_items P fs source run \<lparr>px_documents = [], px_reused = 0, px_new = 0\<rparr>
      (map fst (px_documents pr)) sg = (Inr \<lparr>px_documents = px_documents pr,
        px_reused = length (px_documents pr), px_new = 0\<rparr>, sg)"
    using process_items_again [of "px_documents pr" P source run sg fs] assms
    by (simp add: inputs_accepted_def)
  then show ?thesis
    using assms by (auto simp: process_inputs_def inputs_accepted_def abind_def Let_def)
qed

end
