(* ===== verification/ProcessRuns.thy ===== *)
theory ProcessRuns
  imports ProcessFacts
begin

text \<open>
  The theorems about \<open>process_run\<close> (\<open>pipeline/process.py\<close>).
\<close>

section \<open>When a run is admitted\<close>

text \<open>The fetch run is complete and accounted for, and the rights are those it was fetched under.\<close>

definition run_admitted ::
    "pyenv \<Rightarrow> (ustr \<Rightarrow> exn + source_activation_check) \<Rightarrow> bool \<Rightarrow> fetch_tables \<Rightarrow> ustr
     \<Rightarrow> connector_run_row \<Rightarrow> snapshot_input list \<Rightarrow> bool" where
  "run_admitted P rights_of busy t crun run inputs \<longleftrightarrow>
     \<not> busy \<and> run_inputs P t crun = Inr (run, inputs) \<and> cr_source_id run \<in> set processable_sources
     \<and> (\<exists>rights. rights_of (cr_source_id run) = Inr rights \<and> ac_allowed rights
          \<and> ac_policy_hash rights = cr_rights_policy_hash run)"

lemma process_run_admitted:
  assumes "run_admitted P rights_of busy t crun run inputs"
  shows "process_run P rights_of busy t fs crun sg =
    (case process_inputs P fs (cr_source_id run) (processing_run_id P crun) crun inputs
            (open_processing_run (processing_run_id P crun) crun sg) of
       (Inr summary, sg') \<Rightarrow> (Inr summary, sg')
     | (Inl e, sg') \<Rightarrow> (Inl e, update_processing_run (processing_run_id P crun) (\<lambda>row.
         row\<lparr>pw_state := P_failed, pw_error_code := Some (take 100 (processing_code e))\<rparr>) sg'))"
  using assms unfolding run_admitted_def by (elim conjE exE) (simp add: process_run_def Let_def)

lemma process_run_refused:
  assumes "\<nexists>run inputs. run_admitted P rights_of busy t crun run inputs"
  shows "\<exists>e. process_run P rights_of busy t fs crun sg = (Inl e, sg)"
  using assms
  by (auto simp: run_admitted_def process_run_def processing_error_def Let_def
      split: sum.split prod.split)

lemma admitted_inputs:
  assumes "run_inputs P t crun = Inr (run, inputs)"
  shows "map_of (tb_connector_run t) crun = Some run"
    "cr_state run \<in> {RUNNING, SUCCEEDED}" "cr_stage run = u ''FETCHED''"
    "cr_successful_request_count run = Some (int (length inputs))"
    "cr_planned_request_count run = Some (int (length inputs))" "inputs \<noteq> []"
    "length (filter (\<lambda>(k, _). fst k = crun) (tb_connector_request t)) = length inputs"
    "\<exists>h. stable_id_set_hash P (map si_observation_id inputs) = Inr h \<and> cr_selected_hash run = Some h"
proof -
  obtain row where row: "map_of (tb_connector_run t) crun = Some row"
    using assms by (cases "map_of (tb_connector_run t) crun") (auto simp: run_inputs_def processing_error_def)
  note a = assms [unfolded run_inputs_def row option.case]
  from a have ok: "\<not> (cr_state row \<notin> {RUNNING, SUCCEEDED} \<or> cr_fetch_completed_at row = None
             \<or> cr_stage row \<noteq> u ''FETCHED'' \<or> cr_planned_request_count row \<in> {None, Some 0}
             \<or> cr_planned_request_count row \<noteq> cr_successful_request_count row)"
    by (auto simp: processing_error_def split: if_splits)
  from a ok have eq: "row = run"
    "Some (int (length inputs)) = cr_successful_request_count row"
    "length (filter (\<lambda>(k, _). fst k = crun) (tb_connector_request t)) = length inputs"
    "\<exists>h. stable_id_set_hash P (map si_observation_id inputs) = Inr h \<and> cr_selected_hash row = Some h"
    by (auto simp: processing_error_def Let_def rbind_Inr_iff split: if_splits)
  show "map_of (tb_connector_run t) crun = Some run"
    "cr_state run \<in> {RUNNING, SUCCEEDED}" "cr_stage run = u ''FETCHED''"
    "cr_successful_request_count run = Some (int (length inputs))"
    "cr_planned_request_count run = Some (int (length inputs))" "inputs \<noteq> []"
    "length (filter (\<lambda>(k, _). fst k = crun) (tb_connector_request t)) = length inputs"
    "\<exists>h. stable_id_set_hash P (map si_observation_id inputs) = Inr h \<and> cr_selected_hash run = Some h"
    using row ok eq by auto
qed

text \<open>A run that returned: what it staged and what it said.\<close>

lemma process_run_Inr:
  assumes "process_run P rights_of busy t fs crun sg = (Inr s, sg')"
  obtains run inputs pr saved where
    "run_admitted P rights_of busy t crun run inputs" "map fst (px_documents pr) = inputs"
    "inputs_accepted P fs (cr_source_id run) (processing_run_id P crun) sg' pr saved"
    "s = summarize P (cr_source_id run) (processing_run_id P crun) crun pr saved"
    "staging_ok P sg \<longrightarrow> staging_ok P sg'"
proof -
  obtain run inputs where adm: "run_admitted P rights_of busy t crun run inputs"
    using assms process_run_refused [of P rights_of busy t crun fs sg] by fastforce
  let ?id = "processing_run_id P crun"
  let ?sg = "open_processing_run ?id crun sg"
  from assms process_run_admitted [OF adm, of fs sg]
  have pi: "process_inputs P fs (cr_source_id run) ?id crun inputs ?sg = (Inr s, sg')"
    by (auto split: sum.splits prod.splits)
  note e = process_inputs_effect [OF pi]
  from e obtain pr saved where "map fst (px_documents pr) = inputs"
    "inputs_accepted P fs (cr_source_id run) ?id sg' pr saved"
    "s = summarize P (cr_source_id run) ?id crun pr saved" by auto
  moreover have "staging_ok P sg \<longrightarrow> staging_ok P sg'"
    using e same_staging_ok [of ?sg sg P] by simp
  ultimately show thesis using that adm by blast
qed

section \<open>An example run\<close>

text \<open>
  One JOB-ALIO posting, listed on the only index page and detailed. The two response bodies are
  \<open>[1]\<close> and \<open>[2]\<close>.
\<close>

fun size_digest :: "json \<Rightarrow> nat list" where
  "size_digest (JStr s) = s"
| "size_digest (JArr xs) = concat (map size_digest xs)"
| "size_digest (JObj kvs) =
     [length kvs] @ (case map_of kvs (u ''source_record_id'') of Some (JStr s) \<Rightarrow> s | _ \<Rightarrow> [])"
| "size_digest _ = []"

definition page_env :: pyenv where
  "page_env = example_env\<lparr>digest := size_digest,
     json_loads := (\<lambda>body. Some (if body = [1]
       then JObj [(u ''resultCode'', JInt 200), (u ''totalCount'', JInt 1), (u ''pageNo'', JInt 1),
                  (u ''result'', JArr [JObj example_posting])]
       else JObj [(u ''resultCode'', JInt 200), (u ''result'', JObj example_posting)]))\<rparr>"

definition page_rights :: "ustr \<Rightarrow> exn + source_activation_check" where
  "page_rights source =
     Inr \<lparr>ac_source_id = Job_alio, ac_status = ALLOWED, ac_allowed = True,
       ac_policy_version = 1, ac_registry_revision = u ''2026-07-10.1'',
       ac_policy_hash = u ''hash'', ac_requested_content = [], ac_out_of_scope_content = [],
       ac_blocking_permissions = [], ac_reason = None\<rparr>"

definition page_request_row :: "string \<Rightarrow> string \<Rightarrow> int option \<Rightarrow> (ustr \<times> ustr) \<times> connector_request_row" where
  "page_request_row obs part page = ((u ''run'', u part),
     \<lparr>cq_partition_id = u part, cq_page_number = page, cq_request_url_redacted = [],
      cq_selected_observation_id = Some (u obs)\<rparr>)"

definition page_attempt :: "string \<Rightarrow> string \<Rightarrow> int option \<Rightarrow> fetch_attempt" where
  "page_attempt obs part page =
     \<lparr>at_observation_id = u obs, at_connector_run_id = u ''run'', at_source_id = u ''job_alio'',
      at_request_fingerprint = u part, at_partition_id = u part, at_page_number = page,
      at_response_ordinal = 0, at_attempt_no = 1, at_requested_at = 0, at_retrieved_at = 0,
      at_http_status = Some 200, at_request_url_redacted = [], at_response_headers = [],
      at_outcome = SELECTED_SUCCESS, at_error_code = None, at_snapshot_id = Some (u obs),
      at_selected = True\<rparr>"

definition page_snapshot :: "string \<Rightarrow> string \<Rightarrow> nat list \<Rightarrow> source_snapshot" where
  "page_snapshot obs path body =
     \<lparr>sn_snapshot_id = u obs, sn_source_id = u ''job_alio'', sn_content_sha256 = body,
      sn_byte_length = length body, sn_mime_type = u ''application/json; charset=utf-8'',
      sn_raw_object_path = u path, sn_first_observed_at = 0\<rparr>"

definition page_tables :: fetch_tables where
  "page_tables =
     \<lparr>tb_connector_run = [(u ''run'',
        \<lparr>cr_run_id = u ''run'', cr_source_id = u ''job_alio'', cr_connector_version = u ''1'',
         cr_mode = SCHEDULED_FULL, cr_state = RUNNING, cr_stage = u ''FETCHED'', cr_started_at = 0,
         cr_fetch_completed_at = Some 1, cr_completed_at = None, cr_planned_request_count = Some 2,
         cr_successful_request_count = Some 2, cr_all_attempt_hash = Some (u ''a\<newline>b''),
         cr_selected_hash = Some (u ''a\<newline>b''), cr_error_code = None,
         cr_rights_registry_revision = u ''2026-07-10.1'', cr_rights_policy_version = 1,
         cr_rights_policy_hash = u ''hash''\<rparr>)],
      tb_connector_request = [page_request_row ''a'' ''index'' (Some 1), page_request_row ''b'' ''detail-7'' None],
      tb_source_snapshot = [page_snapshot ''a'' ''raw/a'' [1], page_snapshot ''b'' ''raw/b'' [2]],
      tb_fetch_observation = [page_attempt ''a'' ''index'' (Some 1), page_attempt ''b'' ''detail-7'' None]\<rparr>"

definition page_files :: files where
  "page_files path = (if path = u ''raw/a'' then Some [1] else if path = u ''raw/b'' then Some [2] else None)"

definition no_staging :: staging_tables where
  "no_staging = \<lparr>sg_processing_run = [], sg_document = [], sg_record_revision = [],
     sg_document_record = [], sg_rejected_row = [], sg_processing_input = []\<rparr>"

definition page_run :: "staging_tables \<Rightarrow> (exn + processing_summary) \<times> staging_tables" where
  "page_run = process_run page_env page_rights False page_tables page_files (u ''run'')"

lemma page_run_ok:
  "(case page_run no_staging of (Inr s, sg') \<Rightarrow>
      su_state s = P_ready \<and> su_records s = 2 \<and> su_source_id s = u ''job_alio''
      \<and> (case run_inputs page_env page_tables (u ''run'') of
           Inr (run, inputs) \<Rightarrow> cr_source_id run = u ''job_alio'' \<and> length inputs = 2
             \<and> u ''index'' \<in> set (map si_partition_id inputs)
             \<and> list_all (\<lambda>(i, d). list_all (\<lambda>item.
                 i = document_id_of page_env (u ''job_alio'') item \<longrightarrow>
                 dw_source_id d = u ''job_alio'' \<and> dw_partition_id d = si_partition_id item) inputs)
                 (sg_document sg')
         | Inl _ \<Rightarrow> False)
      \<and> (case loader_records page_env sg' (processing_run_id page_env (u ''run'')) of
           Inr saved \<Rightarrow> length (postings_of saved) = 2
         | Inl _ \<Rightarrow> False)
    | _ \<Rightarrow> False)"
  by code_simp

lemma page_run_obtain:
  obtains s sg' run inputs saved where "page_run no_staging = (Inr s, sg')"
    "su_state s = P_ready" "su_source_id s = u ''job_alio''"
    "run_inputs page_env page_tables (u ''run'') = Inr (run, inputs)"
    "cr_source_id run = u ''job_alio''" "length inputs = 2" "u ''index'' \<in> set (map si_partition_id inputs)"
    "\<forall>(i, d) \<in> set (sg_document sg'). \<forall>item \<in> set inputs.
        i = document_id_of page_env (u ''job_alio'') item \<longrightarrow>
        dw_source_id d = u ''job_alio'' \<and> dw_partition_id d = si_partition_id item"
    "loader_records page_env sg' (processing_run_id page_env (u ''run'')) = Inr saved"
    "length (postings_of saved) = 2"
  using page_run_ok
  by (auto split: prod.splits sum.splits simp: list_all_iff)

section \<open>What a run records\<close>

lemma open_processing_run_rows:
  "map_of (sg_processing_run (open_processing_run i crun sg)) j
     = (if j = i then Some (case map_of (sg_processing_run sg) i of
             None \<Rightarrow> \<lparr>pw_connector_run_id = crun,
                      pw_processor_version = processor_version, pw_state = P_running,
                      pw_attempts = 1, pw_error_code = None, pw_summary = None\<rparr>
           | Some row \<Rightarrow> row\<lparr>pw_state := P_running, pw_attempts := pw_attempts row + 1,
                             pw_error_code := None\<rparr>)
        else map_of (sg_processing_run sg) j)"
  by (simp add: open_processing_run_def update_conv')

lemma process_run_effect:
  assumes "process_run P rights_of busy t fs crun sg = (r, sg')"
  shows "staging_extends sg sg'
    \<and> (\<forall>i. i \<noteq> processing_run_id P crun \<longrightarrow>
         map_of (sg_processing_run sg') i = map_of (sg_processing_run sg) i)
    \<and> ((\<exists>run inputs. run_admitted P rights_of busy t crun run inputs)
       \<and> (\<exists>row. map_of (sg_processing_run sg') (processing_run_id P crun) = Some row
            \<and> pw_attempts row = (case map_of (sg_processing_run sg) (processing_run_id P crun) of
                 None \<Rightarrow> 1 | Some old \<Rightarrow> pw_attempts old + 1)
            \<and> (case r of
                 Inr s \<Rightarrow> pw_state row = su_state s \<and> pw_summary row = Some s \<and> pw_error_code row = None
                   \<and> su_state s = (if su_rejected s = 0 then P_ready else P_review_required)
                   \<and> su_connector_run_id s = crun
               | Inl e \<Rightarrow> pw_state row = P_failed
                   \<and> pw_error_code row = Some (take 100 (processing_code e))))
       \<or> (\<nexists>run inputs. run_admitted P rights_of busy t crun run inputs)
         \<and> sg' = sg \<and> \<not> isok r)"
proof (cases "\<exists>run inputs. run_admitted P rights_of busy t crun run inputs")
  case False
  with process_run_refused [OF False, of fs sg] assms show ?thesis by (auto simp: isok_iff)
next
  case True
  then obtain run inputs where adm: "run_admitted P rights_of busy t crun run inputs" by blast
  let ?id = "processing_run_id P crun"
  let ?sg = "open_processing_run ?id crun sg"
  obtain r1 sg1 where pi: "process_inputs P fs (cr_source_id run) ?id crun inputs ?sg = (r1, sg1)"
    by fastforce
  note e = process_inputs_effect [OF pi]
  have ext: "staging_extends sg sg1"
    using e same_staging_extends(1) [of ?sg sg sg1] by simp
  note rows = open_processing_run_rows [of ?id crun sg]
  show ?thesis
  proof (cases r1)
    case (Inl x)
    with assms process_run_admitted [OF adm, of fs sg] pi
    have *: "r = Inl x" "sg' = update_processing_run ?id (\<lambda>row. row\<lparr>pw_state := P_failed,
        pw_error_code := Some (take 100 (processing_code x))\<rparr>) sg1" by auto
    have "staging_extends sg sg'"
      using ext same_staging_extends(2) [of sg' sg1] by (simp add: *)
    with True e Inl * rows show ?thesis by (auto split: option.split)
  next
    case (Inr s)
    with assms process_run_admitted [OF adm, of fs sg] pi have *: "r = Inr s" "sg' = sg1" by auto
    have "su_state s = (if su_rejected s = 0 then P_ready else P_review_required)
        \<and> su_connector_run_id s = crun"
      using e Inr by (auto simp: summarize_def Let_def)
    with True e Inr * ext rows show ?thesis by (auto split: option.split)
  qed
qed

text \<open>
  C24: A processing run never changes a document, a revision or an input that was staged, nor the row
  of any other run. If its fetch run is not complete, or the rights of the source are not those it
  was fetched under, it changes nothing and raises. Otherwise its own row is counted as one more
  attempt and says how it ended: with the summary and state that are returned, READY exactly when no
  row was rejected, or FAILED with the code of the exception that is raised.
\<close>
theorem process_run_recorded:
  assumes "process_run P rights_of busy t fs crun sg = (r, sg')"
  shows "staging_extends sg sg'
    \<and> (\<forall>i. i \<noteq> processing_run_id P crun \<longrightarrow>
         map_of (sg_processing_run sg') i = map_of (sg_processing_run sg) i)
    \<and> ((\<exists>run inputs. run_admitted P rights_of busy t crun run inputs)
       \<and> (\<exists>row. map_of (sg_processing_run sg') (processing_run_id P crun) = Some row
            \<and> pw_attempts row = (case map_of (sg_processing_run sg) (processing_run_id P crun) of
                 None \<Rightarrow> 1 | Some old \<Rightarrow> pw_attempts old + 1)
            \<and> (case r of
                 Inr s \<Rightarrow> pw_state row = su_state s \<and> pw_summary row = Some s \<and> pw_error_code row = None
                   \<and> su_state s = (if su_rejected s = 0 then P_ready else P_review_required)
                   \<and> su_connector_run_id s = crun
               | Inl e \<Rightarrow> pw_state row = P_failed
                   \<and> pw_error_code row = Some (take 100 (processing_code e))))
       \<or> (\<nexists>run inputs. run_admitted P rights_of busy t crun run inputs)
         \<and> sg' = sg \<and> \<not> isok r)"
  using assms by (rule process_run_effect)

theorem process_run_recorded_witness:
  "\<exists>s sg' row. page_run no_staging = (Inr s, sg')
     \<and> map_of (sg_processing_run sg') (processing_run_id page_env (u ''run'')) = Some row
     \<and> pw_state row = P_ready \<and> pw_summary row = Some s"
proof -
  obtain s sg' where r: "page_run no_staging = (Inr s, sg')" "su_state s = P_ready"
    by (rule page_run_obtain)
  from process_run_recorded [OF r(1) [unfolded page_run_def]] r show ?thesis
    by (auto simp: isok_def)
qed

section \<open>A run that returns is complete\<close>

text \<open>No two staged documents that are distinct have the same digest of their keys.\<close>

definition documents_identified ::
    "pyenv \<Rightarrow> staging_tables \<Rightarrow> ustr \<Rightarrow> snapshot_input list \<Rightarrow> bool" where
  "documents_identified P sg source inputs \<longleftrightarrow>
     (\<forall>(i, d) \<in> set (sg_document sg). \<forall>item \<in> set inputs.
        i = document_id_of P source item \<longrightarrow>
        dw_source_id d = source \<and> dw_partition_id d = si_partition_id item)"

lemma accepted_page_meta:
  assumes "staging_ok P sg" and "documents_identified P sg source inputs"
    and "item_staged P source run sg (item, m)" and "item \<in> set inputs"
    and "source \<noteq> u ''ncs_career_path''" and "\<not> is_detail source (si_partition_id item)"
  shows "page_meta_ok m"
proof -
  from assms(3) obtain d where d: "map_of (sg_document sg) (document_id_of P source item) = Some d"
    "dw_metadata d = m" by (auto simp: item_staged_def loader_cached_def)
  have "dw_source_id d = source \<and> dw_partition_id d = si_partition_id item"
    using assms(2,4) map_of_SomeD [OF d(1)] by (fastforce simp: documents_identified_def)
  moreover have "page_document_ok d" using assms(1) d(1) by (simp add: staging_ok_def)
  ultimately show ?thesis using assms(5,6) d(2) by (simp add: page_document_ok_def)
qed

text \<open>
  C2: When a processing run returns, every input of the fetch run was read back with the length and
  the digest the ledger recorded for it, and every partition of pages is complete by the provider's own total: the
  pages agree on one total, each page number from one on occurs once, their rows add up to the
  total, no identity occurs twice, and with no row rejected there are as many identities as the
  total says.
\<close>
theorem process_run_complete:
  assumes "process_run P rights_of busy t fs crun sg = (Inr s, sg')" and "staging_ok P sg"
    and "run_inputs P t crun = Inr (run, inputs)"
    and "documents_identified P sg' (cr_source_id run) inputs"
    and "cr_source_id run \<noteq> u ''ncs_career_path''"
  shows "\<exists>docs. map fst docs = inputs \<and> su_documents s = length inputs
    \<and> (\<forall>(item, m) \<in> set docs.
         (\<exists>body. read_raw P fs item = Inr body \<and> sha256 P body = si_content_sha256 item
            \<and> length body = si_byte_length item)
         \<and> loader_cached sg' (document_id_of P (cr_source_id run) item) = Some m)
    \<and> (\<forall>part. part \<in> si_partition_id ` set inputs \<and> \<not> is_detail (cr_source_id run) part \<longrightarrow>
         complete_partition (filter (\<lambda>(i, _). si_partition_id i = part) docs))"
proof -
  from assms(1) obtain run' inputs' pr saved where
    adm: "run_admitted P rights_of busy t crun run' inputs'" and
    docs: "map fst (px_documents pr) = inputs'" and
    acc: "inputs_accepted P fs (cr_source_id run') (processing_run_id P crun) sg' pr saved" and
    s: "s = summarize P (cr_source_id run') (processing_run_id P crun) crun pr saved" and
    ok: "staging_ok P sg \<longrightarrow> staging_ok P sg'"
    by (rule process_run_Inr) (rule that; assumption)
  have eq: "run' = run" "inputs' = inputs" using adm assms(3) by (auto simp: run_admitted_def)
  note acc = acc [unfolded eq inputs_accepted_def]
  have mem: "item \<in> set inputs" if "(item, m) \<in> set (px_documents pr)" for item m
    using that docs eq by force
  have raw: "\<exists>body. read_raw P fs item = Inr body \<and> sha256 P body = si_content_sha256 item
      \<and> length body = si_byte_length item" if "(item, m) \<in> set (px_documents pr)" for item m
  proof -
    from acc that have "isok (read_raw P fs item)" by fastforce
    then show ?thesis by (auto simp: isok_iff read_raw_def processing_error_def
        split: option.splits if_splits)
  qed
  have cached: "loader_cached sg' (document_id_of P (cr_source_id run) item) = Some m"
    if "(item, m) \<in> set (px_documents pr)" for item m
    using acc that by (fastforce simp: item_staged_def)
  have "complete_partition (filter (\<lambda>(i, _). si_partition_id i = part) (px_documents pr))"
    if p: "part \<in> si_partition_id ` set inputs" "\<not> is_detail (cr_source_id run) part" for part
  proof (rule check_partition_complete)
    have "part \<in> (\<lambda>(i, _). si_partition_id i) ` set (px_documents pr)"
      using p docs eq by (force simp: image_iff)
    then show "check_partition (cr_source_id run)
        (part, filter (\<lambda>(i, _). si_partition_id i = part) (px_documents pr)) = Inr ()"
      using acc assms(5) by (intro validate_completeness_partitions) auto
    show "\<forall>(i, m) \<in> set (filter (\<lambda>(i, _). si_partition_id i = part) (px_documents pr)). page_meta_ok m"
      using accepted_page_meta [OF mp [OF ok assms(2)] assms(4) _ _ assms(5)] acc mem p(2) by fastforce
  qed (use assms(5) p in auto)
  then show ?thesis
    using docs eq raw cached s
    by (intro exI [of _ "px_documents pr"]) (auto simp: summarize_def Let_def)
qed

theorem process_run_complete_witness:
  "\<exists>s sg' docs. page_run no_staging = (Inr s, sg') \<and> length docs = 2
     \<and> complete_partition (filter (\<lambda>(i, _). si_partition_id i = u ''index'') docs)"
proof -
  obtain s sg' run inputs where r: "page_run no_staging = (Inr s, sg')"
    "run_inputs page_env page_tables (u ''run'') = Inr (run, inputs)"
    "cr_source_id run = u ''job_alio''" "length inputs = 2"
    "u ''index'' \<in> set (map si_partition_id inputs)" and
    ids: "\<forall>(i, d) \<in> set (sg_document sg'). \<forall>item \<in> set inputs.
        i = document_id_of page_env (u ''job_alio'') item \<longrightarrow>
        dw_source_id d = u ''job_alio'' \<and> dw_partition_id d = si_partition_id item"
    by (rule page_run_obtain)
  have ok: "staging_ok page_env no_staging" by (simp add: staging_ok_def no_staging_def)
  have idd: "documents_identified page_env sg' (cr_source_id run) inputs"
    using ids r(3) by (simp add: documents_identified_def)
  have src: "cr_source_id run \<noteq> u ''ncs_career_path''" "\<not> is_detail (cr_source_id run) (u ''index'')"
    unfolding r(3) by code_simp+
  from process_run_complete [OF r(1) [unfolded page_run_def] ok r(2) idd src(1)]
  obtain docs where "map fst docs = inputs"
    "complete_partition (filter (\<lambda>(i, _). si_partition_id i = u ''index'') docs)"
    using r(5) src(2) by auto
  with r(1,4) show ?thesis by (metis length_map)
qed

section \<open>List and detail\<close>

lemma last_with_SomeD: "last_with p xs = Some x \<Longrightarrow> x \<in> set xs \<and> p x"
  by (auto simp: last_with_def find_Some_iff) (metis length_rev nth_mem set_rev)

text \<open>
  When a JOB-ALIO run is READY, every posting among the records it staged has a list record and
  a detail record, and they agree on title, organization and both dates.
\<close>
theorem ready_postings_agree:
  assumes "process_run P rights_of busy t fs crun sg = (Inr s, sg')"
    and "su_source_id s = u ''job_alio''" and "su_state s = P_ready"
    and "loader_records P sg' (processing_run_id P crun) = Inr saved"
    and "p \<in> set (postings_of saved)"
  shows "\<exists>l \<in> set (postings_of saved). \<exists>d \<in> set (postings_of saved).
    jp_posting_id l = jp_posting_id p \<and> jp_posting_id d = jp_posting_id p
    \<and> jp_representation l = List_representation \<and> jp_representation d = Detail_representation
    \<and> jp_title l = jp_title d \<and> jp_organization_code l = jp_organization_code d
    \<and> jp_date_posted l = jp_date_posted d \<and> jp_closing_date l = jp_closing_date d"
proof -
  from assms(1) obtain run inputs pr saved' where
    "run_admitted P rights_of busy t crun run inputs" "map fst (px_documents pr) = inputs" and
    acc: "inputs_accepted P fs (cr_source_id run) (processing_run_id P crun) sg' pr saved'" and
    s: "s = summarize P (cr_source_id run) (processing_run_id P crun) crun pr saved'"
    by (rule process_run_Inr) (rule that; assumption)
  have src: "cr_source_id run = u ''job_alio''" "rejected_total (px_documents pr) = 0"
    using s assms(2,3) by (auto simp: summarize_def Let_def split: if_splits)
  then have "validate_posting_pairs P sg' (processing_run_id P crun) = Inr ()"
    using acc by (simp add: inputs_accepted_def)
  then have all: "rall (\<lambda>(_, ps). check_pair ps) (group_by jp_posting_id (postings_of saved)) = Inr ()"
    using assms(4) by (simp add: validate_posting_pairs_def)
  let ?ps = "filter (\<lambda>q. jp_posting_id q = jp_posting_id p) (postings_of saved)"
  have "map_of (group_by jp_posting_id (postings_of saved)) (jp_posting_id p) = Some ?ps"
    using assms(5) by (simp add: map_of_group_by)
  then have "check_pair ?ps = Inr ()"
    using all map_of_SomeD by (fastforce simp: rall_Inr_iff)
  then obtain l d where
    "last_with (\<lambda>p. jp_representation p = List_representation) ?ps = Some l"
    "last_with (\<lambda>p. jp_representation p = Detail_representation) ?ps = Some d"
    "jp_title l = jp_title d \<and> jp_organization_code l = jp_organization_code d
    \<and> jp_date_posted l = jp_date_posted d \<and> jp_closing_date l = jp_closing_date d"
    by (auto simp: check_pair_def processing_error_def split: option.splits if_splits)
  with last_with_SomeD [of _ ?ps l] last_with_SomeD [of _ ?ps d] show ?thesis by fastforce
qed

theorem ready_postings_agree_witness:
  "\<exists>s sg' saved p l. page_run no_staging = (Inr s, sg')
     \<and> loader_records page_env sg' (processing_run_id page_env (u ''run'')) = Inr saved
     \<and> p \<in> set (postings_of saved) \<and> l \<in> set (postings_of saved)
     \<and> jp_posting_id l = jp_posting_id p \<and> jp_representation l = List_representation"
proof -
  obtain s sg' saved where r: "page_run no_staging = (Inr s, sg')" "su_state s = P_ready"
    "su_source_id s = u ''job_alio''"
    "loader_records page_env sg' (processing_run_id page_env (u ''run'')) = Inr saved"
    "length (postings_of saved) = 2"
    by (rule page_run_obtain)
  from r(5) obtain p where p: "p \<in> set (postings_of saved)" by (cases "postings_of saved") auto
  from ready_postings_agree [OF r(1) [unfolded page_run_def] r(3,2,4) p] r(1,4) p show ?thesis
    by blast
qed

section \<open>Running again\<close>

text \<open>
  Processing the same fetch run again, after a run that returned, stages nothing: every document is
  reused, no revision is new, and the summary has the same state, counts and digests.
\<close>
theorem process_run_idempotent:
  assumes "process_run P rights_of busy t fs crun sg = (Inr s, sg')"
    and "process_run P rights_of busy t fs crun sg' = (r, sg'')"
  shows "\<exists>s'. r = Inr s' \<and> su_new_revisions s' = 0 \<and> su_reused_documents s' = su_documents s
    \<and> s' = s\<lparr>su_reused_documents := su_documents s, su_new_revisions := 0\<rparr>
    \<and> same_staging sg'' sg'"
proof -
  from assms(1) obtain run inputs pr saved where
    adm: "run_admitted P rights_of busy t crun run inputs" and
    docs: "map fst (px_documents pr) = inputs" and
    acc: "inputs_accepted P fs (cr_source_id run) (processing_run_id P crun) sg' pr saved" and
    s: "s = summarize P (cr_source_id run) (processing_run_id P crun) crun pr saved"
    by (rule process_run_Inr) (rule that; assumption)
  let ?id = "processing_run_id P crun"
  let ?sg = "open_processing_run ?id crun sg'"
  have same: "same_staging ?sg sg'" by simp
  have acc': "inputs_accepted P fs (cr_source_id run) ?id ?sg pr saved"
    using acc unfolding inputs_accepted_def same_staging_item [OF same]
      same_staging_pairs [OF same] same_staging_records [OF same] by blast
  define s' where "s' = summarize P (cr_source_id run) ?id crun
      \<lparr>px_documents = px_documents pr, px_reused = length (px_documents pr), px_new = 0\<rparr> saved"
  define sg2 where "sg2 = update_processing_run ?id
      (\<lambda>row. row\<lparr>pw_state := su_state s', pw_summary := Some s'\<rparr>) ?sg"
  have pi: "process_inputs P fs (cr_source_id run) ?id crun inputs ?sg = (Inr s', sg2)"
    using process_inputs_again [OF acc', of crun] docs by (simp add: s'_def sg2_def Let_def)
  have "r = Inr s'" "sg'' = sg2" using assms(2) process_run_admitted [OF adm, of fs sg'] pi by auto
  moreover have "same_staging sg2 sg'"
    unfolding sg2_def using same_staging_trans [OF same_staging_update same] .
  moreover have "s' = s\<lparr>su_reused_documents := su_documents s, su_new_revisions := 0\<rparr>"
    by (simp add: s s'_def summarize_def Let_def)
  ultimately show ?thesis by simp
qed

theorem process_run_idempotent_witness:
  "\<exists>s sg' s' sg''. page_run no_staging = (Inr s, sg') \<and> page_run sg' = (Inr s', sg'')
     \<and> su_new_revisions s' = 0 \<and> su_content_set_hash s' = su_content_set_hash s
     \<and> same_staging sg'' sg'"
proof -
  obtain s sg' where r: "page_run no_staging = (Inr s, sg')" by (rule page_run_obtain)
  obtain r' sg'' where r': "page_run sg' = (r', sg'')" by fastforce
  from process_run_idempotent [OF r [unfolded page_run_def] r' [unfolded page_run_def]]
  obtain s' where "r' = Inr s'" "su_new_revisions s' = 0" "same_staging sg'' sg'"
    "s' = s\<lparr>su_reused_documents := su_documents s, su_new_revisions := 0\<rparr>" by blast
  with r r' show ?thesis by auto
qed

end
