(* ===== verification/Partitions.thy ===== *)
theory Partitions
  imports Process
begin

text \<open>
  \<open>partition_config.py\<close>: deriving the partitions of one source from a complete fetch of another. The
  fetch run and its stored responses are checked again (manifest, bytes, paging, identities) before
  any code is taken from them, and the codes are written by replacing a file. An exception's text is
  the message up to its first interpolated value.
\<close>

definition partition_error :: "string \<Rightarrow> exn + 'a" where
  "partition_error text = Inl (Exn PartitionConfigError (u text))"

section \<open>The selected snapshots of a run\<close>

record raw_snapshot_reference =
  rr_partition_id :: ustr
  rr_page_number :: "int option"
  rr_response_ordinal :: int
  rr_raw_object_path :: ustr
  rr_content_sha256 :: ustr
  rr_byte_length :: nat
  rr_mime_type :: ustr

definition reference_of :: "snapshot_input \<Rightarrow> raw_snapshot_reference" where
  "reference_of i =
     \<lparr>rr_partition_id = si_partition_id i, rr_page_number = si_page_number i,
      rr_response_ordinal = si_response_ordinal i, rr_raw_object_path = si_raw_object_path i,
      rr_content_sha256 = si_content_sha256 i, rr_byte_length = si_byte_length i,
      rr_mime_type = si_mime_type i\<rparr>"

text \<open>
  The columns have their types already; what is left of the checks is the empty partition, the
  negative ordinal and the digest.
\<close>

definition reference_ok :: "raw_snapshot_reference \<Rightarrow> bool" where
  "reference_ok r \<longleftrightarrow>
     rr_partition_id r \<noteq> [] \<and> 0 \<le> rr_response_ordinal r \<and> is_sha256 (rr_content_sha256 r)"

definition reference_order :: "snapshot_input \<Rightarrow> (ustr \<times> bool \<times> int \<times> int) \<times> ustr" where
  "reference_order i = (input_order i, si_observation_id i)"

definition selected_snapshot_references ::
    "fetch_tables \<Rightarrow> ustr \<Rightarrow> ustr \<Rightarrow> exn + raw_snapshot_reference list" where
  "selected_snapshot_references t connector_run_id expected_source_id =
     (case map_of (tb_connector_run t) connector_run_id of
        None \<Rightarrow> partition_error ''Connector run''
      | Some run \<Rightarrow>
          if cr_source_id run \<noteq> expected_source_id then partition_error ''Connector run''
          else if cr_mode run \<noteq> SCHEDULED_FULL
          then partition_error ''Partition derivation requires a SCHEDULED_FULL run''
          else if cr_state run \<notin> {RUNNING, SUCCEEDED}
          then partition_error ''Partition derivation requires a non-failed run''
          else if cr_state run = RUNNING \<and> cr_stage run \<noteq> u ''FETCHED''
          then partition_error ''A running connector run must be at the FETCHED stage''
          else if cr_fetch_completed_at run = None
                  \<or> (case cr_planned_request_count run of None \<Rightarrow> True | Some n \<Rightarrow> n < 1)
                  \<or> cr_successful_request_count run \<noteq> cr_planned_request_count run
          then partition_error ''Partition derivation requires every request in a completed fetch to succeed''
          else
            let rows = sort_key reference_order
                  (selected_inputs t connector_run_id expected_source_id);
                references = map reference_of rows
            in if Some (int (length rows)) \<noteq> cr_successful_request_count run
               then partition_error ''Selected successful snapshots do not match the connector run success count''
               else if \<not> list_all reference_ok references
               then partition_error ''A selected snapshot has invalid manifest metadata''
               else Inr references)"

definition read_snapshot :: "pyenv \<Rightarrow> files \<Rightarrow> raw_snapshot_reference \<Rightarrow> exn + json" where
  "read_snapshot P fs r =
     (if casefold P (rr_mime_type r) \<noteq> u ''application/json''
      then partition_error ''A selected API snapshot does not have application/json MIME''
      else case resolve_path (rr_raw_object_path r) of
        None \<Rightarrow> partition_error ''A selected snapshot path escapes JOBTOLOGY_RAW_ROOT''
      | Some path \<Rightarrow>
          (case fs path of
             None \<Rightarrow> partition_error ''A selected raw snapshot is unavailable: ''
           | Some body \<Rightarrow>
               if length body \<noteq> rr_byte_length r
               then partition_error ''A selected raw snapshot has the wrong length: ''
               else if sha256 P body \<noteq> rr_content_sha256 r
               then partition_error ''A selected raw snapshot has the wrong digest: ''
               else (case json_loads P body of
                 None \<Rightarrow> partition_error ''A selected raw snapshot is not valid JSON: ''
               | Some v \<Rightarrow> Inr v)))"

type_synonym snapshot_documents = "(raw_snapshot_reference \<times> json) list"

definition selected_run_documents ::
    "pyenv \<Rightarrow> fetch_tables \<Rightarrow> files \<Rightarrow> ustr \<Rightarrow> ustr \<Rightarrow> exn + snapshot_documents" where
  "selected_run_documents P t fs connector_run_id expected_source_id =
     rbind (selected_snapshot_references t connector_run_id expected_source_id)
       (rmap (\<lambda>r. rbind (read_snapshot P fs r) (\<lambda>v. Inr (r, v))))"

section \<open>Values\<close>

definition pc_mapping :: "json \<Rightarrow> exn + row" where
  "pc_mapping v = (case v of JObj kvs \<Rightarrow> Inr kvs | _ \<Rightarrow> partition_error '' must be an object'')"

definition nonnegative_integer :: "json \<Rightarrow> exn + int" where
  "nonnegative_integer v =
     (case v of
        JInt i \<Rightarrow> if i < 0 then partition_error '' must be a non-negative integer'' else Inr i
      | _ \<Rightarrow> partition_error '' must be a non-negative integer'')"

definition positive_integer :: "json \<Rightarrow> exn + int" where
  "positive_integer v = rbind (nonnegative_integer v) (\<lambda>i.
     if i < 1 then partition_error '' must be positive'' else Inr i)"

text \<open>A page number that a request of the first response can have.\<close>

definition page_request :: "raw_snapshot_reference \<Rightarrow> exn + int" where
  "page_request r =
     (case rr_page_number r of
        Some n \<Rightarrow> if n < 1 then partition_error ''invalid request partition metadata'' else Inr n
      | None \<Rightarrow> partition_error ''invalid request partition metadata'')"

section \<open>Pages\<close>

text \<open>The pages of one total, by number, and the rows expected on each.\<close>

type_synonym page_map = "(int \<times> row list) list"

definition rows_of_page :: "(int \<Rightarrow> int) \<Rightarrow> page_map \<Rightarrow> int \<Rightarrow> exn + row list" where
  "rows_of_page expected pages n =
     (case map_of pages n of
        None \<Rightarrow> Inl (Exn (OtherError (u ''KeyError'')) [])
      | Some rows \<Rightarrow>
          if int (length rows) \<noteq> expected n
          then partition_error ''response page has an unexpected row count'' else Inr rows)"

definition rows_of_pages :: "(int \<Rightarrow> int) \<Rightarrow> int \<Rightarrow> page_map \<Rightarrow> exn + row list" where
  "rows_of_pages expected expected_page_count pages =
     (if set (map fst pages) \<noteq> set [1..expected_page_count]
      then partition_error ''response pages are not complete and contiguous''
      else rbind (rmap (rows_of_page expected pages) [1..expected_page_count])
             (\<lambda>rows. Inr (concat rows)))"

section \<open>A complete competency fetch\<close>

record ncs_pages =
  np_pages :: page_map
  np_total :: "int option"
  np_page_size :: "int option"

definition same_or_first :: "int option \<Rightarrow> int \<Rightarrow> string \<Rightarrow> exn + unit" where
  "same_or_first declared value text =
     (if declared = None \<or> declared = Some value then Inr () else partition_error text)"

definition add_ncs_page ::
    "ncs_pages \<Rightarrow> raw_snapshot_reference \<times> json \<Rightarrow> exn + ncs_pages" where
  "add_ncs_page acc d =
     (case d of (r, document) \<Rightarrow>
      if rr_partition_id r \<noteq> u ''all'' \<or> rr_response_ordinal r \<noteq> 0
      then partition_error ''invalid request partition metadata'' else
      rbind (page_request r) (\<lambda>page.
      rbind (pc_mapping document) (\<lambda>m.
      rbind (pc_mapping (jget m (u ''root''))) (\<lambda>root.
      rbind (pc_mapping (jget root (u ''info''))) (\<lambda>info.
      rbind (nonnegative_integer (jget info (u ''totalCount''))) (\<lambda>response_total.
      rbind (positive_integer (jget info (u ''pageNo''))) (\<lambda>response_page.
      rbind (positive_integer (jget info (u ''numOfRows''))) (\<lambda>response_page_size.
      if response_page \<noteq> page
      then partition_error ''NCS response pageNo does not match its manifest request'' else
      rbind (same_or_first (np_total acc) response_total ''NCS response pages disagree on totalCount'') (\<lambda>_.
      rbind (same_or_first (np_page_size acc) response_page_size ''NCS response pages disagree on numOfRows'') (\<lambda>_.
      case jget root (u ''items'') of
        JArr items \<Rightarrow>
          if map_of (np_pages acc) response_page \<noteq> None
          then partition_error ''NCS response contains the same page more than once''
          else rbind (rmap pc_mapping items) (\<lambda>rows.
            Inr \<lparr>np_pages = np_pages acc @ [(response_page, rows)], np_total = Some response_total,
                 np_page_size = Some response_page_size\<rparr>)
      | _ \<Rightarrow> partition_error ''NCS response items must be an array''))))))))))"

definition ncs_record_code :: "row \<Rightarrow> exn + ustr" where
  "ncs_record_code r =
     (case jget r (u ''ncsClCd'') of
        JStr s \<Rightarrow> if ncs_unit_code (strip s) then Inr (strip s)
                  else partition_error ''An NCS competency record has an invalid ncsClCd''
      | _ \<Rightarrow> partition_error ''An NCS competency record has an invalid ncsClCd'')"

text \<open>\<open>math.ceil(total / size)\<close> is exact below \<open>2^52\<close>; the model rounds up exactly.\<close>

definition complete_ncs_records :: "snapshot_documents \<Rightarrow> exn + row list" where
  "complete_ncs_records docs =
     rbind (rfold add_ncs_page \<lparr>np_pages = [], np_total = None, np_page_size = None\<rparr> docs) (\<lambda>acc.
     case (np_total acc, np_page_size acc) of
       (Some declared_total, Some declared_page_size) \<Rightarrow>
         rbind (rows_of_pages
             (\<lambda>p. min declared_page_size (max 0 (declared_total - (p - 1) * declared_page_size)))
             (max 1 (ceil_div declared_total declared_page_size)) (np_pages acc)) (\<lambda>records.
         if int (length records) \<noteq> declared_total
         then partition_error ''NCS response row count does not match the provider-declared total''
         else rbind (rmap ncs_record_code records) (\<lambda>codes.
           if int (length (remdups codes)) \<noteq> declared_total
           then partition_error ''NCS response contains duplicate ncsClCd values and is not a complete stable snapshot''
           else Inr records))
     | _ \<Rightarrow> partition_error ''The fetched run contains no NCS response pages'')"

text \<open>The subcategory of a record, and the codes of those that are allowed.\<close>

definition ncs_subcategory :: "row \<Rightarrow> exn + ustr" where
  "ncs_subcategory r =
     (case jget r (u ''ncsSubdCdnm'') of
        JStr s \<Rightarrow> Inr (strip s)
      | _ \<Rightarrow> partition_error ''An NCS competency record has an invalid ncsSubdCdnm'')"

definition record_code_text :: "row \<Rightarrow> ustr" where
  "record_code_text r = (case jget r (u ''ncsClCd'') of JStr s \<Rightarrow> strip s | _ \<Rightarrow> [])"

definition derive_ncs_qualification_codes ::
    "pyenv \<Rightarrow> fetch_tables \<Rightarrow> files \<Rightarrow> ustr \<Rightarrow> ustr list \<Rightarrow> exn + ustr list" where
  "derive_ncs_qualification_codes P t fs connector_run_id allowed =
     (if allowed = [] then partition_error ''The NCS subcategory allowlist cannot be empty''
      else rbind (selected_run_documents P t fs connector_run_id (u ''ncs_competency'')) (\<lambda>docs.
      rbind (complete_ncs_records docs) (\<lambda>records.
      rbind (rmap ncs_subcategory records) (\<lambda>subcategories.
      let kept = filter (\<lambda>(s, _). s \<in> set allowed) (zip subcategories records);
          codes = map (\<lambda>(_, r). record_code_text r) kept
      in if set allowed - set (map fst kept) \<noteq> {}
         then partition_error ''The fetched run is missing allowlisted NCS subcategories: ''
         else if codes = []
         then partition_error ''The fetched run produced no NCS qualification partitions''
         else Inr (sorted_set codes)))))"

section \<open>A complete mapping fetch\<close>

record mapping_page =
  mp_partition_id :: ustr
  mp_page :: int
  mp_total :: int
  mp_page_size :: int
  mp_rows :: "row list"

definition read_mapping_page :: "raw_snapshot_reference \<times> json \<Rightarrow> exn + mapping_page" where
  "read_mapping_page d =
     (case d of (r, document) \<Rightarrow>
      if \<not> starts_with (u ''ncs-'') (rr_partition_id r)
      then partition_error ''invalid request partition metadata'' else
      rbind (page_request r) (\<lambda>page.
      let requested_ncs_code = removeprefix (u ''ncs-'') (rr_partition_id r) in
      if \<not> ncs_unit_code requested_ncs_code
      then partition_error ''NCS qualification partition has an invalid NCS code'' else
      rbind (pc_mapping document) (\<lambda>m.
      rbind (pc_mapping (jget m (u ''body''))) (\<lambda>body.
      rbind (nonnegative_integer (jget body (u ''totalCount''))) (\<lambda>response_total.
      rbind (positive_integer (jget body (u ''pageNo''))) (\<lambda>response_page.
      rbind (positive_integer (jget body (u ''numOfRows''))) (\<lambda>response_page_size.
      if response_page \<noteq> page
      then partition_error ''NCS qualification response pageNo does not match its manifest request'' else
      case jget body (u ''items'') of
        JArr items \<Rightarrow>
          rbind (rmap pc_mapping items) (\<lambda>rows.
          if list_ex (\<lambda>x. jget x (u ''ncsClCd'') \<noteq> JStr requested_ncs_code) rows
          then partition_error ''NCS qualification record does not match its requested NCS partition''
          else Inr \<lparr>mp_partition_id = rr_partition_id r, mp_page = response_page,
                    mp_total = response_total, mp_page_size = response_page_size, mp_rows = rows\<rparr>)
      | _ \<Rightarrow> partition_error ''NCS qualification response items must be an array'')))))))"

definition partition_rows :: "pyenv \<Rightarrow> mapping_page list \<Rightarrow> exn + row list" where
  "partition_rows P pages =
     (case (remdups (map mp_total pages), remdups (map mp_page_size pages)) of
        ([t], [z]) \<Rightarrow>
          if t = 0 then
            if list_ex (\<lambda>p. mp_page p \<noteq> 1 \<or> mp_rows p \<noteq> []) pages
            then partition_error ''A zero-result NCS qualification partition is invalid'' else Inr []
          else if \<not> distinct (map mp_page pages)
          then partition_error ''NCS qualification response contains the same non-empty page more than once''
          else
            rbind (rows_of_pages (\<lambda>p. min z (t - (p - 1) * z)) (ceil_div t z)
                     (map (\<lambda>p. (mp_page p, mp_rows p)) pages)) (\<lambda>rows.
            if int (length (remdups (map (\<lambda>r. json_dumps P (JObj r)) rows))) \<noteq> t
            then partition_error ''NCS qualification response contains duplicate provider rows''
            else Inr rows)
      | _ \<Rightarrow> partition_error ''NCS qualification response pages disagree on pagination metadata'')"

definition complete_qualification_records ::
    "pyenv \<Rightarrow> snapshot_documents \<Rightarrow> exn + row list" where
  "complete_qualification_records P docs =
     rbind (rmap read_mapping_page docs) (\<lambda>pages.
     rbind (rmap (\<lambda>(_, g). partition_rows P g) (group_by mp_partition_id pages)) (\<lambda>rows.
       Inr (concat rows)))"

definition qnet_item_code :: "ustr \<Rightarrow> bool" where
  "qnet_item_code s \<longleftrightarrow> length s = 4 \<and> list_all is_upper_alnum s"

definition record_item_code :: "pyenv \<Rightarrow> row \<Rightarrow> exn + ustr" where
  "record_item_code P r =
     (let raw = jget r (u ''jmCd'');
          code = upper P (strip (py_str P raw))
      in if (case raw of JStr _ \<Rightarrow> False | JInt _ \<Rightarrow> False | _ \<Rightarrow> True)
         then partition_error ''The fetched run contains an invalid jmCd''
         else if \<not> qnet_item_code code
         then partition_error ''The fetched run contains an invalid jmCd: ''
         else Inr code)"

definition derive_qnet_item_codes ::
    "pyenv \<Rightarrow> fetch_tables \<Rightarrow> files \<Rightarrow> ustr \<Rightarrow> exn + ustr list" where
  "derive_qnet_item_codes P t fs connector_run_id =
     rbind (selected_run_documents P t fs connector_run_id (u ''ncs_qualification'')) (\<lambda>docs.
     rbind (complete_qualification_records P docs) (\<lambda>records.
     rbind (rmap (record_item_code P) records) (\<lambda>codes.
     if codes = [] then partition_error ''The fetched run produced no Q-Net item-code partitions''
     else Inr (sorted_set codes))))"

section \<open>The partition file\<close>

text \<open>The system call that fails, if one does, and the temporary name \<open>mkstemp\<close> gives.\<close>

datatype write_step = Write_make_directory | Write_make_temporary | Write_text | Write_replace | Write_sync

record write_env =
  we_temporary :: ustr
  we_fault :: "write_step option"

definition partition_text :: "ustr list \<Rightarrow> ustr" where
  "partition_text codes = join_on 10 (sorted_set codes) @ [10]"

definition write_partition_codes ::
    "write_env \<Rightarrow> ustr \<Rightarrow> ustr list \<Rightarrow> (files, exn, unit) action" where
  "write_partition_codes env path codes fs =
     (if codes = []
      then (partition_error ''Refusing to write an empty connector partition file'', fs)
      else if we_fault env \<in> {Some Write_make_directory, Some Write_make_temporary}
      then (os_error, fs)
      else
        let clean = (\<lambda>f. f(we_temporary env := None)) in
        (case utf8 (partition_text codes) of
           None \<Rightarrow> (Inl (Exn UnicodeEncodeError (u ''utf-8'')), clean fs)
         | Some content \<Rightarrow>
             let fs1 = fs(we_temporary env \<mapsto> content) in
             if we_fault env \<in> {Some Write_text, Some Write_replace} then (os_error, clean fs1)
             else
               let fs2 = (fs1(path := fs1 (we_temporary env)))(we_temporary env := None) in
               if we_fault env = Some Write_sync then (os_error, clean fs2) else (Inr (), fs2)))"

end
