(* ===== verification/PartitionFacts.thy ===== *)
theory PartitionFacts
  imports Partitions ProcessFacts
begin

text \<open>
  What a derivation of partitions rests on: every row of every response of the run is used, none
  twice, the rows add up to the total the provider declares, and the file is replaced as a whole.
\<close>

section \<open>Lists and groups\<close>

lemma rmap_map:
  assumes "rmap f xs = Inr ys" and "\<And>x y. f x = Inr y \<Longrightarrow> h y = k x"
  shows "map h ys = map k xs"
  using assms(1) by (induction xs arbitrary: ys) (auto simp: rbind_Inr_iff assms(2))

lemma rmap_filter_map:
  assumes "rmap f xs = Inr ys" and "\<And>x y. f x = Inr y \<Longrightarrow> h y = k x \<and> p y = q x"
  shows "map h (filter p ys) = map k (filter q xs)"
  using assms(1) by (induction xs arbitrary: ys) (auto simp: rbind_Inr_iff assms(2))

lemma mset_concat_map_cong:
  assumes "mset xs = mset ys"
  shows "mset (concat (map f xs)) = mset (concat (map f ys))"
proof -
  have eq: "mset (concat (map f zs)) = \<Sum>\<^sub># (image_mset (\<lambda>x. mset (f x)) (mset zs))" for zs
    by (induction zs) auto
  show ?thesis unfolding eq assms ..
qed

lemma mset_update_values:
  assumes "distinct (map fst d)"
  shows "mset (concat (map snd (AList.update k ws d)))
      + (case map_of d k of None \<Rightarrow> {#} | Some vs \<Rightarrow> mset vs)
    = mset (concat (map snd d)) + mset ws"
  using assms by (induction d) (auto split: option.splits)

lemma mset_group_by: "mset (concat (map snd (group_by key xs))) = mset xs"
proof (induction xs rule: rev_induct)
  case (snoc x xs)
  show ?case
  proof (cases "map_of (group_by key xs) (key x)")
    case None
    with mset_update_values [OF keys_group_by, of "key x" "[x]" key xs] snoc show ?thesis
      by (simp add: group_add_def)
  next
    case (Some vs)
    with mset_update_values [OF keys_group_by, of "key x" "vs @ [x]" key xs] snoc
    have "mset (concat (map snd (group_by key (xs @ [x])))) + mset vs = mset (xs @ [x]) + mset vs"
      by (simp add: group_add_def)
    then show ?thesis by (simp only: add_right_cancel)
  qed
qed simp

section \<open>Rows of a response\<close>

text \<open>The value under a path of keys, and the objects of an array.\<close>

definition jpath :: "json \<Rightarrow> string list \<Rightarrow> json" where
  "jpath v keys = foldl (\<lambda>x k. case x of JObj kvs \<Rightarrow> jget kvs (u k) | _ \<Rightarrow> JNull) v keys"

lemma jpath_simps [simp]:
  "jpath v [] = v" "jpath (JObj kvs) (k # ks) = jpath (jget kvs (u k)) ks"
  by (simp_all add: jpath_def)

definition json_rows :: "json \<Rightarrow> row list" where
  "json_rows v = (case v of JArr xs \<Rightarrow> List.map_filter (\<lambda>x. case x of JObj kvs \<Rightarrow> Some kvs | _ \<Rightarrow> None) xs
                          | _ \<Rightarrow> [])"

lemma pc_mapping_Inr [result_simps]: "pc_mapping v = Inr kvs \<longleftrightarrow> v = JObj kvs"
  by (cases v) (auto simp: pc_mapping_def partition_error_def)

lemma rmap_pc_mapping: "rmap pc_mapping items = Inr rows \<Longrightarrow> json_rows (JArr items) = rows"
  by (induction items arbitrary: rows) (auto simp: json_rows_def result_simps map_filter_simps)

lemma nonnegative_integer_Inr [result_simps]: "nonnegative_integer v = Inr i \<longleftrightarrow> v = JInt i \<and> 0 \<le> i"
  by (cases v) (auto simp: nonnegative_integer_def partition_error_def)

lemma positive_integer_Inr [result_simps]: "positive_integer v = Inr i \<longleftrightarrow> v = JInt i \<and> 1 \<le> i"
  by (auto simp: positive_integer_def partition_error_def result_simps split: if_splits intro!: exI [of _ i])

section \<open>Pages that are complete and contiguous\<close>

lemma rows_of_page_Inr [result_simps]:
  "rows_of_page expected pages n = Inr rows \<longleftrightarrow>
     map_of pages n = Some rows \<and> int (length rows) = expected n"
  by (auto simp: rows_of_page_def partition_error_def split: option.splits)

lemma mset_concat: "mset (concat xss) = sum_list (map mset xss)"
  by (induction xss) auto

lemma length_concat_int: "int (length (concat (map f xs))) = (\<Sum>x \<leftarrow> xs. int (length (f x)))"
  by (induction xs) auto

lemma rows_of_pages_Inr:
  assumes "rows_of_pages expected n pages = Inr rows" and "distinct (map fst pages)"
  shows "set (map fst pages) = {1..n} \<and> mset rows = mset (concat (map snd pages))
    \<and> int (length rows) = (\<Sum>p = 1..n. expected p)"
proof -
  from assms(1) obtain rss where
    keys: "set (map fst pages) = set [1..n]" and
    rss: "rmap (rows_of_page expected pages) [1..n] = Inr rss" and rows: "rows = concat rss"
    by (auto simp: rows_of_pages_def partition_error_def result_simps split: if_splits)
  have all: "list_all2 (\<lambda>p rs. map_of pages p = Some rs \<and> int (length rs) = expected p) [1..n] rss"
    using rss by (simp add: rmap_Inr_iff result_simps)
  have map: "rss = map (\<lambda>p. the (map_of pages p)) [1..n]"
    using all by (intro nth_equalityI) (auto simp: list_all2_conv_all_nth)
  have len: "\<forall>p \<in> set [1..n]. int (length (the (map_of pages p))) = expected p"
    using all unfolding map by (simp add: list_all2_map2 list_all2_same)
  have perm: "mset [1..n] = mset (map fst pages)"
    using keys assms(2) by (intro iffD1 [OF set_eq_iff_mset_eq_distinct]) auto
  have "mset rows = \<Sum>\<^sub># (image_mset (\<lambda>p. mset (the (map_of pages p))) (mset [1..n]))"
    unfolding rows map mset_concat by (simp add: sum_mset_sum_list [symmetric] image_mset.compositionality comp_def)
  also have "\<dots> = \<Sum>\<^sub># (image_mset (\<lambda>x. mset (snd x)) (mset pages))"
  proof -
    have "image_mset (\<lambda>p. mset (the (map_of pages p))) (mset (map fst pages))
        = image_mset (\<lambda>x. mset (snd x)) (mset pages)"
      using assms(2)
      by (auto simp: multiset.map_comp comp_def intro!: image_mset_cong)
    then show ?thesis unfolding perm by simp
  qed
  also have "\<dots> = mset (concat (map snd pages))"
    unfolding mset_concat by (simp add: sum_mset_sum_list [symmetric] multiset.map_comp comp_def case_prod_beta)
  finally have m: "mset rows = mset (concat (map snd pages))" .
  have "int (length rows) = (\<Sum>p \<leftarrow> [1..n]. int (length (the (map_of pages p))))"
    unfolding rows map by (rule length_concat_int)
  also have "\<dots> = (\<Sum>p \<leftarrow> [1..n]. expected p)"
    using len by (intro arg_cong [where f = sum_list] map_cong) auto
  also have "\<dots> = (\<Sum>p = 1..n. expected p)" by (simp add: sum_list_distinct_conv_sum_set)
  finally show ?thesis using keys m by simp
qed

section \<open>Competencies\<close>

definition ncs_rows :: "json \<Rightarrow> row list" where
  "ncs_rows v = json_rows (jpath v [''root'', ''items''])"

definition ncs_total :: "json \<Rightarrow> json" where
  "ncs_total v = jpath v [''root'', ''info'', ''totalCount'']"

text \<open>What the loop over the responses has collected.\<close>

definition ncs_collected :: "snapshot_documents \<Rightarrow> ncs_pages \<Rightarrow> bool" where
  "ncs_collected docs acc \<longleftrightarrow>
     distinct (map fst (np_pages acc))
     \<and> map snd (np_pages acc) = map (\<lambda>(_, v). ncs_rows v) docs
     \<and> (\<forall>(r, v) \<in> set docs. \<exists>t. np_total acc = Some t \<and> ncs_total v = JInt t)"

lemma ncs_record_code_Inr: "ncs_record_code r = Inr c \<Longrightarrow> c = record_code_text r \<and> ncs_unit_code c"
  by (auto simp: ncs_record_code_def record_code_text_def partition_error_def
      split: json.splits if_splits)

lemma page_request_Inr [result_simps]:
  "page_request r = Inr n \<longleftrightarrow> rr_page_number r = Some n \<and> 1 \<le> n"
  by (auto simp: page_request_def partition_error_def split: option.splits)

lemma same_or_first_Inr [result_simps]:
  "same_or_first d v text = Inr x \<longleftrightarrow> d = None \<or> d = Some v"
  by (auto simp: same_or_first_def partition_error_def)

lemma add_ncs_page_Inr:
  assumes "add_ncs_page acc (r, v) = Inr acc'"
  obtains page t z rows where "map_of (np_pages acc) page = None"
    "np_pages acc' = np_pages acc @ [(page, rows)]" "rows = ncs_rows v"
    "ncs_total v = JInt t" "0 \<le> t" "1 \<le> z" "np_total acc' = Some t" "np_page_size acc' = Some z"
    "np_total acc = None \<or> np_total acc = Some t"
proof -
  from assms obtain page m root info t z items rows where
    *: "rr_page_number r = Some page" "v = JObj m" "jget m (u ''root'') = JObj root"
    "jget root (u ''info'') = JObj info" "jget info (u ''totalCount'') = JInt t" "0 \<le> t" "1 \<le> z"
    "np_total acc = None \<or> np_total acc = Some t" "jget root (u ''items'') = JArr items"
    "map_of (np_pages acc) page = None" "rmap pc_mapping items = Inr rows"
    "acc' = \<lparr>np_pages = np_pages acc @ [(page, rows)], np_total = Some t, np_page_size = Some z\<rparr>"
    unfolding add_ncs_page_def prod.case
    by (auto simp: result_simps partition_error_def split: if_splits json.splits)
  show thesis
    by (rule that [of page rows t z]) (use * rmap_pc_mapping [OF *(11)] in
      \<open>auto simp: ncs_rows_def ncs_total_def\<close>)
qed

lemma add_ncs_page_collected:
  assumes "ncs_collected docs acc" and "add_ncs_page acc (r, v) = Inr acc'"
  shows "ncs_collected (docs @ [(r, v)]) acc'"
proof -
  from assms(2) obtain page t z rows where
    *: "map_of (np_pages acc) page = None" "np_pages acc' = np_pages acc @ [(page, rows)]"
    "rows = ncs_rows v" "ncs_total v = JInt t" "np_total acc' = Some t"
    "np_total acc = None \<or> np_total acc = Some t"
    by (rule add_ncs_page_Inr)
  with assms(1) show ?thesis
    by (fastforce simp: ncs_collected_def map_of_eq_None_iff)
qed

lemma rfold_collected:
  assumes "rfold add_ncs_page acc docs = Inr acc'" and "ncs_collected done acc"
    and "np_page_size acc \<noteq> Some 0"
  shows "ncs_collected (done @ docs) acc'"
  using assms
proof (induction docs arbitrary: acc "done")
  case (Cons d docs)
  obtain r v where d: "d = (r, v)" by fastforce
  from Cons.prems(1) obtain acc1 where a: "add_ncs_page acc (r, v) = Inr acc1"
    "rfold add_ncs_page acc1 docs = Inr acc'" by (auto simp: d result_simps)
  from add_ncs_page_Inr [OF a(1)] have "np_page_size acc1 \<noteq> Some 0" by (metis not_one_le_zero option.inject)
  with Cons.IH [OF a(2) add_ncs_page_collected [OF Cons.prems(2) a(1)]] show ?case by (simp add: d)
qed simp

lemma complete_ncs_records_Inr:
  assumes "complete_ncs_records docs = Inr records"
  obtains acc t z codes where
    "rfold add_ncs_page \<lparr>np_pages = [], np_total = None, np_page_size = None\<rparr> docs = Inr acc"
    "np_total acc = Some t" "np_page_size acc = Some z"
    "rows_of_pages (\<lambda>p. min z (max 0 (t - (p - 1) * z))) (max 1 (ceil_div t z)) (np_pages acc)
      = Inr records"
    "int (length records) = t" "rmap ncs_record_code records = Inr codes"
    "int (length (remdups codes)) = t"
proof -
  from assms obtain acc where
    fold: "rfold add_ncs_page \<lparr>np_pages = [], np_total = None, np_page_size = None\<rparr> docs = Inr acc"
    by (auto simp: complete_ncs_records_def result_simps)
  from assms fold obtain t z where tz: "np_total acc = Some t" "np_page_size acc = Some z"
    by (cases "np_total acc"; cases "np_page_size acc")
      (auto simp: complete_ncs_records_def partition_error_def)
  from assms have "\<exists>codes. rows_of_pages (\<lambda>p. min z (max 0 (t - (p - 1) * z)))
        (max 1 (ceil_div t z)) (np_pages acc) = Inr records \<and> int (length records) = t
      \<and> rmap ncs_record_code records = Inr codes \<and> int (length (remdups codes)) = t"
    by (auto simp: complete_ncs_records_def fold tz result_simps partition_error_def split: if_splits)
  then show thesis using that [OF fold tz] by blast
qed

lemma complete_ncs_records_complete_codes:
  assumes "complete_ncs_records docs = Inr records"
  shows "\<forall>r \<in> set records. ncs_unit_code (record_code_text r)"
proof -
  from assms obtain codes where codes: "rmap ncs_record_code records = Inr codes"
    by (rule complete_ncs_records_Inr)
  then show ?thesis using rmap_Inr_dom [OF codes] ncs_record_code_Inr by fastforce
qed

text \<open>
  When the responses of a competency run are accepted, they declare one total, and the records
  are exactly the rows of all responses, none lost and none twice: as many as the total, with
  distinct codes that are all well-formed.
\<close>
lemma complete_ncs_records_rows:
  assumes "complete_ncs_records docs = Inr records"
  shows "\<exists>t. (\<forall>(r, v) \<in> set docs. ncs_total v = JInt t) \<and> int (length records) = t
    \<and> mset records = mset (concat (map (\<lambda>(_, v). ncs_rows v) docs))
    \<and> distinct (map record_code_text records)
    \<and> (\<forall>r \<in> set records. ncs_unit_code (record_code_text r))"
proof -
  from assms obtain acc t z codes where
    fold: "rfold add_ncs_page \<lparr>np_pages = [], np_total = None, np_page_size = None\<rparr> docs = Inr acc" and
    tz: "np_total acc = Some t" "np_page_size acc = Some z" and
    rows: "rows_of_pages (\<lambda>p. min z (max 0 (t - (p - 1) * z))) (max 1 (ceil_div t z)) (np_pages acc)
      = Inr records" and
    len: "int (length records) = t" and
    codes: "rmap ncs_record_code records = Inr codes" and
    unique: "int (length (remdups codes)) = t"
    by (rule complete_ncs_records_Inr)
  have col: "ncs_collected docs acc"
    using rfold_collected [OF fold, of "[]"] by (simp add: ncs_collected_def)
  then have "mset records = mset (concat (map (\<lambda>(_, v). ncs_rows v) docs))"
    using rows_of_pages_Inr [OF rows] by (simp add: ncs_collected_def)
  moreover have "\<forall>(r, v) \<in> set docs. ncs_total v = JInt t"
    using col tz by (fastforce simp: ncs_collected_def)
  moreover have "codes = map record_code_text records
      \<and> (\<forall>r \<in> set records. ncs_unit_code (record_code_text r))"
    using rmap_map [OF codes, of "\<lambda>c. c" record_code_text] rmap_Inr_dom [OF codes] ncs_record_code_Inr
    by fastforce
  moreover have "distinct codes"
    using unique len rmap_length [OF codes] by (simp add: card_distinct length_remdups_card_conv)
  ultimately show ?thesis using len by blast
qed

section \<open>Mappings\<close>

definition mapping_rows :: "json \<Rightarrow> row list" where
  "mapping_rows v = json_rows (jpath v [''body'', ''items''])"

definition mapping_total :: "json \<Rightarrow> json" where
  "mapping_total v = jpath v [''body'', ''totalCount'']"

lemma read_mapping_page_Inr:
  assumes "read_mapping_page (r, v) = Inr p"
  shows "mp_partition_id p = rr_partition_id r \<and> mp_rows p = mapping_rows v
    \<and> mapping_total v = JInt (mp_total p) \<and> 0 \<le> mp_total p \<and> 1 \<le> mp_page_size p
    \<and> (\<exists>code. rr_partition_id r = u ''ncs-'' @ code \<and> ncs_unit_code code
         \<and> (\<forall>x \<in> set (mp_rows p). jget x (u ''ncsClCd'') = JStr code))"
proof -
  let ?code = "removeprefix (u ''ncs-'') (rr_partition_id r)"
  from assms obtain m body items rows t z n where
    *: "starts_with (u ''ncs-'') (rr_partition_id r)" "ncs_unit_code ?code" "v = JObj m"
    "jget m (u ''body'') = JObj body" "jget body (u ''totalCount'') = JInt t" "0 \<le> t" "1 \<le> z"
    "jget body (u ''items'') = JArr items" "rmap pc_mapping items = Inr rows"
    "\<not> list_ex (\<lambda>x. jget x (u ''ncsClCd'') \<noteq> JStr ?code) rows"
    "p = \<lparr>mp_partition_id = rr_partition_id r, mp_page = n, mp_total = t, mp_page_size = z, mp_rows = rows\<rparr>"
    unfolding read_mapping_page_def prod.case Let_def
    by (auto simp: result_simps partition_error_def split: if_splits json.splits)
  have "rr_partition_id r = u ''ncs-'' @ ?code" using *(1) by (auto simp: starts_with_iff)
  with * rmap_pc_mapping [OF *(9)] show ?thesis
    by (auto simp: mapping_rows_def mapping_total_def list_ex_iff)
qed

lemma ceil_div_page_sum:
  assumes "1 \<le> z" and "0 < t"
  shows "(\<Sum>p = 1..ceil_div t z. min z (t - (p - 1) * z)) = t"
  by (rule page_sum_total [OF assms])

lemma partition_rows_Inr:
  assumes "partition_rows P pages = Inr rows" and "\<forall>p \<in> set pages. 0 \<le> mp_total p \<and> 1 \<le> mp_page_size p"
  shows "\<exists>t. (\<forall>p \<in> set pages. mp_total p = t) \<and> int (length rows) = t
    \<and> mset rows = mset (concat (map mp_rows pages))
    \<and> distinct (map (\<lambda>r. json_dumps P (JObj r)) rows)"
proof -
  from assms(1) obtain t z where
    tot: "remdups (map mp_total pages) = [t]" and sz: "remdups (map mp_page_size pages) = [z]" and
    rest: "(if t = 0 then
            if list_ex (\<lambda>p. mp_page p \<noteq> 1 \<or> mp_rows p \<noteq> []) pages
            then partition_error ''A zero-result NCS qualification partition is invalid'' else Inr []
          else if \<not> distinct (map mp_page pages)
          then partition_error ''NCS qualification response contains the same non-empty page more than once''
          else
            rbind (rows_of_pages (\<lambda>p. min z (t - (p - 1) * z)) (ceil_div t z)
                     (map (\<lambda>p. (mp_page p, mp_rows p)) pages)) (\<lambda>rows.
            if int (length (remdups (map (\<lambda>r. json_dumps P (JObj r)) rows))) \<noteq> t
            then partition_error ''NCS qualification response contains duplicate provider rows''
            else Inr rows)) = Inr rows"
    by (auto simp: partition_rows_def partition_error_def split: list.splits)
  have same: "\<forall>p \<in> set pages. mp_total p = t \<and> mp_page_size p = z"
    using remdups_single [OF tot] remdups_single [OF sz] by auto
  have "pages \<noteq> []" using tot by auto
  then have tz: "0 \<le> t" "1 \<le> z" using same assms(2) by (cases pages; auto)+
  show ?thesis
  proof (cases "t = 0")
    case True
    with rest have "rows = []" "\<forall>p \<in> set pages. mp_rows p = []"
      by (auto simp: partition_error_def list_ex_iff split: if_splits)
    with True same show ?thesis by auto
  next
    case False
    with rest have d: "distinct (map mp_page pages)" and
      rp: "rows_of_pages (\<lambda>p. min z (t - (p - 1) * z)) (ceil_div t z)
        (map (\<lambda>p. (mp_page p, mp_rows p)) pages) = Inr rows" and
      unique: "int (length (remdups (map (\<lambda>r. json_dumps P (JObj r)) rows))) = t"
      by (auto simp: partition_error_def result_simps split: if_splits)
    have m: "mset rows = mset (concat (map mp_rows pages)) \<and> int (length rows) = t"
      using rows_of_pages_Inr [OF rp] d ceil_div_page_sum [OF tz(2), of t] tz(1) False
      by (simp add: comp_def)
    then have "distinct (map (\<lambda>r. json_dumps P (JObj r)) rows)"
      using unique by (intro card_distinct) (simp add: length_remdups_card_conv)
    with m same show ?thesis by blast
  qed
qed

lemma mapping_page_facts:
  assumes "read_mapping_page d = Inr p"
  shows "mp_partition_id p = rr_partition_id (fst d) \<and> mp_rows p = mapping_rows (snd d)
    \<and> mapping_total (snd d) = JInt (mp_total p) \<and> 0 \<le> mp_total p \<and> 1 \<le> mp_page_size p
    \<and> (\<exists>code. rr_partition_id (fst d) = u ''ncs-'' @ code \<and> ncs_unit_code code
         \<and> (\<forall>x \<in> set (mp_rows p). jget x (u ''ncsClCd'') = JStr code))"
  using read_mapping_page_Inr [of "fst d" "snd d" p] assms unfolding prod.collapse by blast

lemma mset_partition_rows:
  assumes "rmap (\<lambda>(_, g). partition_rows P g) gs = Inr rss"
    and "\<forall>(k, g) \<in> set gs. \<forall>p \<in> set g. 0 \<le> mp_total p \<and> 1 \<le> mp_page_size p"
  shows "mset (concat rss) = mset (concat (map mp_rows (concat (map snd gs))))"
  using assms
proof (induction gs arbitrary: rss)
  case (Cons kg gs)
  obtain k g where kg: "kg = (k, g)" by fastforce
  from Cons.prems(1) obtain rows rest where
    "partition_rows P g = Inr rows" "rmap (\<lambda>(_, g). partition_rows P g) gs = Inr rest"
    "rss = rows # rest" by (auto simp: kg result_simps)
  with Cons.IH [of rest] Cons.prems(2) partition_rows_Inr [of P g rows] show ?case
    by (auto simp: kg)
qed simp

text \<open>
  When the responses of a mapping run are accepted, the records are exactly the rows of all
  responses, none lost and none twice; every response's rows carry the code of its partition, and
  each partition has as many rows as every response of it declares.
\<close>
lemma complete_qualification_records_rows:
  assumes "complete_qualification_records P docs = Inr records"
  shows "mset records = mset (concat (map (\<lambda>(_, v). mapping_rows v) docs))
    \<and> (\<forall>(r, v) \<in> set docs. \<exists>code. rr_partition_id r = u ''ncs-'' @ code \<and> ncs_unit_code code
         \<and> (\<forall>x \<in> set (mapping_rows v). jget x (u ''ncsClCd'') = JStr code))
    \<and> (\<forall>part \<in> rr_partition_id ` fst ` set docs. \<exists>t.
         (\<forall>(r, v) \<in> set docs. rr_partition_id r = part \<longrightarrow> mapping_total v = JInt t)
         \<and> int (length (concat (map (\<lambda>(_, v). mapping_rows v)
               (filter (\<lambda>(r, _). rr_partition_id r = part) docs)))) = t)"
proof -
  from assms obtain pages rss where
    pages: "rmap read_mapping_page docs = Inr pages" and
    rss: "rmap (\<lambda>(_, g). partition_rows P g) (group_by mp_partition_id pages) = Inr rss" and
    records: "records = concat rss"
    by (auto simp: complete_qualification_records_def result_simps)
  note fact = mapping_page_facts
  have bounds: "\<forall>p \<in> set pages. 0 \<le> mp_total p \<and> 1 \<le> mp_page_size p"
    using rmap_Inr_set [OF pages] fact by blast
  have grp: "\<exists>rows. partition_rows P g = Inr rows \<and> rows \<in> set rss" if "(k, g) \<in> set (group_by mp_partition_id pages)" for k g
    using rmap_Inr_dom [OF rss that] by auto
  have part: "(\<forall>p \<in> set g. mp_total p = int (length (concat (map mp_rows g))))"
    if g: "(k, g) \<in> set (group_by mp_partition_id pages)" for k g
  proof -
    from grp [OF g] obtain rows where rows: "partition_rows P g = Inr rows" by blast
    have "\<forall>p \<in> set g. 0 \<le> mp_total p \<and> 1 \<le> mp_page_size p"
      using group_by_mem(2) [OF g] bounds by auto
    from partition_rows_Inr [OF rows this] obtain t where
      "\<forall>p \<in> set g. mp_total p = t" "int (length rows) = t" "mset rows = mset (concat (map mp_rows g))"
      by blast
    then show ?thesis by (metis size_mset)
  qed
  have "mset records = mset (concat (map mp_rows (concat (map snd (group_by mp_partition_id pages)))))"
  proof -
    have "\<forall>(k, g) \<in> set (group_by mp_partition_id pages). \<forall>p \<in> set g.
        0 \<le> mp_total p \<and> 1 \<le> mp_page_size p"
      using group_by_mem(2) bounds by fastforce
    from mset_partition_rows [OF rss this] records show ?thesis by simp
  qed
  also have "\<dots> = mset (concat (map mp_rows pages))"
    by (rule mset_concat_map_cong [OF mset_group_by])
  also have "map mp_rows pages = map (\<lambda>(_, v). mapping_rows v) docs"
    by (rule rmap_map [OF pages]) (use fact in \<open>auto simp: case_prod_beta\<close>)
  finally have records: "mset records = mset (concat (map (\<lambda>(_, v). mapping_rows v) docs))" .
  have codes: "\<forall>(r, v) \<in> set docs. \<exists>code. rr_partition_id r = u ''ncs-'' @ code \<and> ncs_unit_code code
         \<and> (\<forall>x \<in> set (mapping_rows v). jget x (u ''ncsClCd'') = JStr code)"
    using rmap_Inr_dom [OF pages] fact by fastforce
  have totals: "\<exists>t. (\<forall>(r, v) \<in> set docs. rr_partition_id r = part \<longrightarrow> mapping_total v = JInt t)
         \<and> int (length (concat (map (\<lambda>(_, v). mapping_rows v)
               (filter (\<lambda>(r, _). rr_partition_id r = part) docs)))) = t"
    if "part \<in> rr_partition_id ` fst ` set docs" for part
  proof -
    let ?g = "filter (\<lambda>p. mp_partition_id p = part) pages"
    from that obtain d where d: "d \<in> set docs" "part = rr_partition_id (fst d)" by auto
    from rmap_Inr_dom [OF pages d(1)] obtain p where
      p: "p \<in> set pages" "read_mapping_page d = Inr p" by blast
    have "mp_partition_id p = part" using mapping_page_facts [OF p(2)] d(2) by simp
    with p(1) have "part \<in> mp_partition_id ` set pages" by blast
    then have "(part, ?g) \<in> set (group_by mp_partition_id pages)"
      by (intro map_of_SomeD) (simp add: map_of_group_by)
    note this = part [OF this]
    moreover have "map mp_rows ?g
        = map (\<lambda>(_, v). mapping_rows v) (filter (\<lambda>(r, _). rr_partition_id r = part) docs)"
      by (rule rmap_filter_map [OF pages]) (use fact in \<open>auto simp: case_prod_beta\<close>)
    ultimately have "\<forall>p \<in> set ?g. mp_total p = int (length (concat (map (\<lambda>(_, v). mapping_rows v)
               (filter (\<lambda>(r, _). rr_partition_id r = part) docs))))" by simp
    then show ?thesis using rmap_Inr_dom [OF pages] fact by fastforce
  qed
  show ?thesis using records codes totals by blast
qed

section \<open>The derived codes\<close>

lemma derive_ncs_codes_records:
  assumes "derive_ncs_qualification_codes P t fs run allowed = Inr codes"
  shows "sorted codes \<and> distinct codes \<and> codes \<noteq> [] \<and> (\<forall>c \<in> set codes. ncs_unit_code c)
    \<and> (\<exists>docs records. selected_run_documents P t fs run (u ''ncs_competency'') = Inr docs
         \<and> complete_ncs_records docs = Inr records
         \<and> set codes = record_code_text ` {r \<in> set records. \<exists>s \<in> set allowed. ncs_subcategory r = Inr s}
         \<and> (\<forall>s \<in> set allowed. \<exists>r \<in> set records. ncs_subcategory r = Inr s))"
proof -
  define kept where "kept = (\<lambda>subs records :: row list. filter (\<lambda>(s, _). s \<in> set allowed) (zip subs records))"
  from assms obtain docs records subs where
    docs: "selected_run_documents P t fs run (u ''ncs_competency'') = Inr docs" and
    records: "complete_ncs_records docs = Inr records" and
    subs: "rmap ncs_subcategory records = Inr subs" and
    missing: "set allowed \<subseteq> set (map fst (kept subs records))" and
    some: "kept subs records \<noteq> []" and
    codes: "codes = sorted_set (map (\<lambda>(_, r). record_code_text r) (kept subs records))"
    by (auto simp: derive_ncs_qualification_codes_def Let_def result_simps partition_error_def
        kept_def split: if_splits)
  have all: "list_all2 (\<lambda>r s. ncs_subcategory r = Inr s) records subs"
    using subs by (simp add: rmap_Inr_iff)
  have kept: "(s, r) \<in> set (kept subs records) \<longleftrightarrow>
      r \<in> set records \<and> ncs_subcategory r = Inr s \<and> s \<in> set allowed" for s r
    using all unfolding kept_def
    by (induction records subs rule: list_all2_induct) auto
  have set: "set codes = record_code_text ` {r \<in> set records. \<exists>s \<in> set allowed. ncs_subcategory r = Inr s}"
    unfolding codes using kept by (force simp: image_iff)
  moreover have "\<forall>s \<in> set allowed. \<exists>r \<in> set records. ncs_subcategory r = Inr s"
    using missing kept by fastforce
  moreover have "\<forall>c \<in> set codes. ncs_unit_code c"
    using complete_ncs_records_complete_codes [OF records] set by auto
  moreover have "codes \<noteq> []" using some by (simp add: codes)
  ultimately show ?thesis using docs records by (auto simp: codes)
qed

text \<open>
  C35: The codes derived for the mapping source are in order, without duplicates and at least one. They
  are exactly the codes of the rows with an allowed subcategory in the responses of the run, every
  allowed subcategory occurs, and those responses are complete: all declare one total, and together
  they have as many rows, with distinct codes.
\<close>
theorem derive_ncs_codes_correct:
  assumes "derive_ncs_qualification_codes P t fs run allowed = Inr codes"
  shows "sorted codes \<and> distinct codes \<and> codes \<noteq> []
    \<and> (\<exists>docs. selected_run_documents P t fs run (u ''ncs_competency'') = Inr docs
         \<and> (let rows = concat (map (\<lambda>(_, v). ncs_rows v) docs) in
              (\<forall>(r, v) \<in> set docs. ncs_total v = JInt (int (length rows)))
              \<and> distinct (map record_code_text rows)
              \<and> set codes = record_code_text ` {r \<in> set rows. \<exists>s \<in> set allowed. ncs_subcategory r = Inr s}
              \<and> (\<forall>s \<in> set allowed. \<exists>r \<in> set rows. ncs_subcategory r = Inr s)))"
proof -
  note d = derive_ncs_codes_records [OF assms]
  from d obtain docs records where
    docs: "selected_run_documents P t fs run (u ''ncs_competency'') = Inr docs" and
    records: "complete_ncs_records docs = Inr records" and
    codes: "set codes = record_code_text ` {r \<in> set records. \<exists>s \<in> set allowed. ncs_subcategory r = Inr s}"
    "\<forall>s \<in> set allowed. \<exists>r \<in> set records. ncs_subcategory r = Inr s" by blast
  define rows where "rows = concat (map (\<lambda>(_, v). ncs_rows v) docs)"
  from complete_ncs_records_rows [OF records] have
    *: "mset records = mset rows" "\<forall>(r, v) \<in> set docs. ncs_total v = JInt (int (length records))"
    "distinct (map record_code_text records)" by (auto simp: rows_def)
  have "set records = set rows" "length records = length rows"
    using *(1) by (metis set_mset_mset, metis size_mset)
  note same = this
  have dist: "distinct (map record_code_text rows)"
    using *(3) arg_cong [OF *(1), of "image_mset record_code_text"] by (metis mset_eq_imp_distinct_iff mset_map)
  have "sorted codes \<and> distinct codes \<and> codes \<noteq> []" using d by blast
  moreover have "let rows = concat (map (\<lambda>(_, v). ncs_rows v) docs) in
      (\<forall>(r, v) \<in> set docs. ncs_total v = JInt (int (length rows)))
      \<and> distinct (map record_code_text rows)
      \<and> set codes = record_code_text ` {r \<in> set rows. \<exists>s \<in> set allowed. ncs_subcategory r = Inr s}
      \<and> (\<forall>s \<in> set allowed. \<exists>r \<in> set rows. ncs_subcategory r = Inr s)"
    unfolding Let_def rows_def [symmetric] using *(2) codes dist unfolding same by blast
  ultimately show ?thesis using docs by blast
qed

text \<open>
  The item codes derived for the schedule source are in order, without duplicates, at least one,
  each four capital letters or digits, and are exactly the upper-case codes of the rows in the
  responses of the mapping run. Each response's rows carry the code of its partition, and each
  partition has as many rows as every response of it declares.
\<close>
theorem derive_qnet_codes_correct:
  assumes "derive_qnet_item_codes P t fs run = Inr codes"
  shows "sorted codes \<and> distinct codes \<and> codes \<noteq> [] \<and> (\<forall>c \<in> set codes. qnet_item_code c)
    \<and> (\<exists>docs. selected_run_documents P t fs run (u ''ncs_qualification'') = Inr docs
         \<and> set codes = {c. \<exists>(r, v) \<in> set docs. \<exists>x \<in> set (mapping_rows v). record_item_code P x = Inr c}
         \<and> (\<forall>(r, v) \<in> set docs. \<forall>x \<in> set (mapping_rows v).
              isok (record_item_code P x)
              \<and> (\<exists>code. rr_partition_id r = u ''ncs-'' @ code \<and> jget x (u ''ncsClCd'') = JStr code))
         \<and> (\<forall>part \<in> rr_partition_id ` fst ` set docs. \<exists>n.
              (\<forall>(r, v) \<in> set docs. rr_partition_id r = part \<longrightarrow> mapping_total v = JInt n)
              \<and> int (length (concat (map (\<lambda>(_, v). mapping_rows v)
                    (filter (\<lambda>(r, _). rr_partition_id r = part) docs)))) = n))"
proof -
  from assms obtain docs records cs where
    *: "selected_run_documents P t fs run (u ''ncs_qualification'') = Inr docs"
    "complete_qualification_records P docs = Inr records"
    "rmap (record_item_code P) records = Inr cs" "cs \<noteq> []" "codes = sorted_set cs"
    by (auto simp: derive_qnet_item_codes_def result_simps partition_error_def split: if_splits)
  note q = complete_qualification_records_rows [OF *(2)]
  have records: "set records = (\<Union>(r, v) \<in> set docs. set (mapping_rows v))"
    using arg_cong [OF conjunct1 [OF q], of set_mset] by auto
  have cs: "set cs = {c. \<exists>x \<in> set records. record_item_code P x = Inr c}"
    using rmap_Inr_set [OF *(3)] rmap_Inr_dom [OF *(3)] by fastforce
  have ok: "\<forall>x \<in> set records. isok (record_item_code P x)"
    using rmap_Inr_dom [OF *(3)] by (fastforce simp: isok_iff)
  have "qnet_item_code c" if "record_item_code P x = Inr c" for x c
    using that by (auto simp: record_item_code_def Let_def partition_error_def split: if_splits)
  then have valid: "\<forall>c \<in> set codes. qnet_item_code c" using *(5) cs by auto
  have "set codes = {c. \<exists>(r, v) \<in> set docs. \<exists>x \<in> set (mapping_rows v). record_item_code P x = Inr c}"
    using *(5) cs records by auto
  moreover have "\<forall>(r, v) \<in> set docs. \<forall>x \<in> set (mapping_rows v). isok (record_item_code P x)
      \<and> (\<exists>code. rr_partition_id r = u ''ncs-'' @ code \<and> jget x (u ''ncsClCd'') = JStr code)"
    using ok records q by fastforce
  ultimately show ?thesis using * valid q by auto
qed

section \<open>The file\<close>

lemma write_partition_codes_atomic_result:
  assumes "write_partition_codes env path codes fs = (Inr x, fs')"
    and "fs (we_temporary env) = None" and "we_temporary env \<noteq> path"
  shows "\<exists>b. utf8 (partition_text codes) = Some b \<and> fs' path = Some b \<and> codes \<noteq> []"
  using assms
  by (auto simp: write_partition_codes_def partition_error_def os_error_def Let_def
      split: if_splits option.splits)

text \<open>
  Writing the codes replaces the file as a whole: whatever step fails, the file is what it was or
  the whole new text, no other file changes and no temporary file stays; and a call that returns
  leaves the new text.
\<close>
theorem write_partition_codes_atomic:
  assumes "write_partition_codes env path codes fs = (r, fs')"
    and "fs (we_temporary env) = None" and "we_temporary env \<noteq> path"
  shows "(\<forall>p. p \<noteq> path \<longrightarrow> fs' p = fs p)
    \<and> (fs' path = fs path \<or> (\<exists>b. utf8 (partition_text codes) = Some b \<and> fs' path = Some b))
    \<and> (isok r \<longrightarrow> fs' path = utf8 (partition_text codes) \<and> codes \<noteq> [])"
  using assms
  by (auto simp: write_partition_codes_def partition_error_def os_error_def Let_def
      split: if_splits option.splits)

end
