(* ===== verification/Sources.thy ===== *)
theory Sources
  imports Connectors Rights Partitions
begin

text \<open>
  \<open>settings.py\<close> and the configuration half of \<open>connectors/sources.py\<close>: which source is ready, and the
  connector built for it from the settings, the configured code files and the rights registry. The
  environment file is read by pydantic; a value of the record is what it produced. A path is its
  resolved name in the map of files. Loading the YAML registry is the parameter \<open>registry\<close>.
\<close>

section \<open>Settings\<close>

record settings =
  se_database_url :: "ustr option"
  se_http_user_agent :: ustr
  se_contact_email :: ustr
  se_http_max_attempts :: int
  se_http_max_retry_after :: int
  se_http_max_response_bytes :: int
  se_raw_min_free_bytes :: int
  se_raw_max_used_fraction :: rat
  se_requests_per_24h :: int
  se_neo4j_uri :: "ustr option"
  se_neo4j_database :: ustr
  se_data_go_kr_service_key :: "ustr option"
  se_saramin_access_key :: "ustr option"
  se_saramin_keywords :: ustr
  se_work24_auth_key :: "ustr option"
  se_work24_start_date :: ustr
  se_work24_end_date :: ustr
  se_work24_ncs1 :: ustr
  se_work24_course_types :: ustr
  se_qnet_years :: ustr
  se_qnet_item_codes_file :: "ustr option"
  se_ncs_qualification_codes_file :: "ustr option"
  se_ncs_career_path_download_url :: "ustr option"
  se_job_alio_ongoing_only :: bool

text \<open>The bounds of the fields that the fetch engine takes.\<close>

definition settings_bounds :: "settings \<Rightarrow> bool" where
  "settings_bounds s \<longleftrightarrow>
     1 \<le> se_http_max_attempts s \<and> se_http_max_attempts s \<le> 8
     \<and> 0 \<le> se_http_max_retry_after s \<and> se_http_max_retry_after s \<le> 300
     \<and> 1024 \<le> se_http_max_response_bytes s \<and> se_http_max_response_bytes s \<le> 1024 * 1024 * 1024
     \<and> 0 \<le> se_raw_min_free_bytes s
     \<and> 0 < se_raw_max_used_fraction s \<and> se_raw_max_used_fraction s < 1
     \<and> 1 \<le> se_requests_per_24h s"

text \<open>A secret is falsy when it is absent or empty.\<close>

definition database_url :: "settings \<Rightarrow> ustr option" where
  "database_url s = (case se_database_url s of Some x \<Rightarrow> if x = [] then None else Some x | None \<Rightarrow> None)"

fun replace_text :: "ustr \<Rightarrow> ustr \<Rightarrow> ustr \<Rightarrow> nat \<Rightarrow> ustr" where
  "replace_text old new [] skip = []"
| "replace_text old new (c # s) (Suc skip) = replace_text old new s skip"
| "replace_text old new (c # s) 0 =
     (if starts_with old (c # s) then new @ replace_text old new s (length old - 1)
      else c # replace_text old new s 0)"

definition http_user_agent :: "settings \<Rightarrow> exn + ustr" where
  "http_user_agent s =
     (let user_agent = strip (se_http_user_agent s);
          contact = strip (se_contact_email s);
          marker = u ''set JOBTOLOGY_CONTACT_EMAIL''
      in if user_agent = []
         then Inl (Exn ValueError (u ''JOBTOLOGY_HTTP_USER_AGENT cannot be empty''))
         else if list_ex (\<lambda>c. c \<in> set user_agent \<or> c \<in> set contact) [13, 10]
         then Inl (Exn ValueError (u ''HTTP user-agent settings cannot contain newlines''))
         else if contact \<noteq> [] \<and> contains marker user_agent
         then Inr (replace_text marker (u ''+mailto:'' @ contact) user_agent 0)
         else Inr user_agent)"

definition data_go_key :: "pyenv \<Rightarrow> settings \<Rightarrow> ustr option" where
  "data_go_key P s = map_option (\<lambda>k. unquote P (strip k)) (se_data_go_kr_service_key s)"

definition secret_value :: "ustr option \<Rightarrow> ustr option" where
  "secret_value v =
     (case v of None \<Rightarrow> None | Some x \<Rightarrow> if strip x = [] then None else Some (strip x))"

definition csv_items :: "ustr \<Rightarrow> ustr list" where
  "csv_items v = filter (\<lambda>x. x \<noteq> []) (map strip (split_on 44 v))"

text \<open>Whether an optional text is truthy.\<close>

definition given :: "ustr option \<Rightarrow> bool" where
  "given v \<longleftrightarrow> (case v of None \<Rightarrow> False | Some x \<Rightarrow> x \<noteq> [])"

section \<open>Code files\<close>

text \<open>\<open>path.read_text(encoding="utf-8")\<close> translates line ends.\<close>

definition read_lines :: "files \<Rightarrow> ustr \<Rightarrow> exn + ustr list" where
  "read_lines fs path =
     (case fs path of
        None \<Rightarrow> os_error
      | Some body \<Rightarrow>
          (case utf8_decode body of
             None \<Rightarrow> Inl (Exn UnicodeDecodeError (u ''utf-8''))
           | Some text \<Rightarrow>
               Inr (map strip (filter (\<lambda>line. strip line \<noteq> [] \<and> \<not> starts_with [35] (lstrip line))
                      (splitlines (lf_text text))))))"

definition has_valid_codes :: "(ustr \<Rightarrow> ustr) \<Rightarrow> (ustr \<Rightarrow> bool) \<Rightarrow> files \<Rightarrow> ustr option \<Rightarrow> exn + bool" where
  "has_valid_codes convert valid fs path =
     (case path of
        None \<Rightarrow> Inr False
      | Some p \<Rightarrow>
          if fs p = None then Inr False
          else rbind (read_lines fs p) (\<lambda>codes. Inr (codes \<noteq> [] \<and> list_all (\<lambda>c. valid (convert c)) codes)))"

definition source_configuration_error :: "string \<Rightarrow> exn + 'a" where
  "source_configuration_error text = Inl (Exn SourceConfigurationError (u text))"

definition has_valid_ncs_unit_codes :: "files \<Rightarrow> ustr option \<Rightarrow> exn + bool" where
  "has_valid_ncs_unit_codes = has_valid_codes (\<lambda>c. c) ncs_unit_code"

definition read_ncs_unit_codes :: "files \<Rightarrow> ustr \<Rightarrow> exn + ustr list" where
  "read_ncs_unit_codes fs path =
     rbind (read_lines fs path) (\<lambda>lines.
       let codes = fromkeys lines in
       if codes = [] \<or> list_ex (\<lambda>c. \<not> ncs_unit_code c) codes
       then source_configuration_error ''NCS_QUALIFICATION_CODES_FILE must contain full versioned NCS competency-unit codes such as 1501020207_14v2''
       else Inr codes)"

definition has_valid_qnet_item_codes :: "pyenv \<Rightarrow> files \<Rightarrow> ustr option \<Rightarrow> exn + bool" where
  "has_valid_qnet_item_codes P = has_valid_codes (upper P) qnet_item_code"

definition read_qnet_item_codes :: "pyenv \<Rightarrow> files \<Rightarrow> ustr \<Rightarrow> exn + ustr list" where
  "read_qnet_item_codes P fs path =
     rbind (read_lines fs path) (\<lambda>lines.
       let codes = fromkeys (map (upper P) lines) in
       if codes = [] \<or> list_ex (\<lambda>c. \<not> qnet_item_code c) codes
       then source_configuration_error ''QNET_ITEM_CODES_FILE must contain one four-character qualification item code per line''
       else Inr codes)"

section \<open>Course types, years and dates\<close>

definition work24_mvp_course_types :: "ustr list" where
  "work24_mvp_course_types = [u ''C0061'', u ''C0104'', u ''C0105'']"

definition has_valid_work24_course_types :: "ustr \<Rightarrow> bool" where
  "has_valid_work24_course_types value \<longleftrightarrow>
     csv_items value \<noteq> [] \<and> list_all (\<lambda>c. c \<in> set work24_mvp_course_types) (csv_items value)"

definition work24_course_types :: "ustr \<Rightarrow> exn + ustr list" where
  "work24_course_types value =
     (let configured = fromkeys (csv_items value) in
      if configured = [] \<or> list_ex (\<lambda>c. c \<notin> set work24_mvp_course_types) configured
      then source_configuration_error ''WORK24_COURSE_TYPES must use only: C0061,C0104,C0105''
      else Inr configured)"

definition has_valid_qnet_years :: "ustr \<Rightarrow> bool" where
  "has_valid_qnet_years value \<longleftrightarrow>
     csv_items value \<noteq> [] \<and> list_all (\<lambda>y. length y = 4 \<and> str_isdigit y) (csv_items value)"

definition validate_compact_date :: "ustr \<Rightarrow> string \<Rightarrow> exn + unit" where
  "validate_compact_date value name =
     (if length value \<noteq> 8 \<or> \<not> str_isdigit value \<or> date_from_compact value = None
      then source_configuration_error (name @ '' must use YYYYMMDD'') else Inr ())"

definition message_of :: "exn \<Rightarrow> ustr" where
  "message_of e = (case e of Exn _ t \<Rightarrow> t)"

definition work24_date_window_issue :: "ustr \<Rightarrow> ustr \<Rightarrow> ustr option" where
  "work24_date_window_issue start end_date =
     (case validate_compact_date start ''WORK24_START_DATE'' of
        Inl e \<Rightarrow> Some (message_of e)
      | Inr _ \<Rightarrow>
          (case validate_compact_date end_date ''WORK24_END_DATE'' of
             Inl e \<Rightarrow> Some (message_of e)
           | Inr _ \<Rightarrow>
               if end_date < start then Some (u ''WORK24_START_DATE cannot be after WORK24_END_DATE'')
               else None))"

section \<open>Readiness\<close>

definition source_ids :: "ustr list" where
  "source_ids = [u ''ncs_competency'', u ''ncs_qualification'', u ''qnet_schedule'',
     u ''ncs_career_path'', u ''job_alio'', u ''alio_organization'', u ''saramin'',
     u ''work24_training'']"

definition source_required_content :: "ustr \<Rightarrow> ustr list" where
  "source_required_content source =
     (if source = u ''ncs_career_path'' then [u ''file_body'']
      else if source = u ''job_alio'' then [u ''api_json_body'', u ''attachment_metadata'']
      else [u ''api_json_body''])"

definition source_activation_check_of ::
    "pyenv \<Rightarrow> exn + source_rights_registry \<Rightarrow> ustr \<Rightarrow> exn + source_activation_check" where
  "source_activation_check_of P registry source =
     rbind registry (\<lambda>r.
       if source \<notin> set source_ids then Inl (Exn (OtherError (u ''KeyError'')) source)
       else check_activation P r source (source_required_content source))"

definition needs_configuration :: "ustr \<Rightarrow> exn + source_readiness \<times> ustr" where
  "needs_configuration t = Inr (NEEDS_CONFIGURATION, t)"

definition needs_credential :: "ustr \<Rightarrow> exn + source_readiness \<times> ustr" where
  "needs_credential t = Inr (NEEDS_CREDENTIAL, t)"

definition ready :: "exn + source_readiness \<times> ustr" where
  "ready = Inr (READY, u ''ready'')"

definition data_go_sources :: "ustr list" where
  "data_go_sources = [u ''ncs_competency'', u ''ncs_qualification'', u ''qnet_schedule'',
     u ''job_alio'', u ''alio_organization'']"

definition data_go_readiness ::
    "pyenv \<Rightarrow> files \<Rightarrow> settings \<Rightarrow> ustr \<Rightarrow> exn + source_readiness \<times> ustr" where
  "data_go_readiness P fs s source =
     (if \<not> given (data_go_key P s) then needs_credential (u ''DATA_GO_KR_SERVICE_KEY'')
      else rbind (if source = u ''ncs_qualification''
                  then has_valid_ncs_unit_codes fs (se_ncs_qualification_codes_file s)
                  else Inr True) (\<lambda>units.
      if \<not> units then needs_configuration (u ''NCS_QUALIFICATION_CODES_FILE'')
      else rbind (if source = u ''qnet_schedule''
                  then has_valid_qnet_item_codes P fs (se_qnet_item_codes_file s)
                  else Inr True) (\<lambda>items.
      if \<not> items then needs_configuration (u ''QNET_ITEM_CODES_FILE'')
      else if source = u ''qnet_schedule'' \<and> \<not> has_valid_qnet_years (se_qnet_years s)
      then needs_configuration (u ''QNET_YEARS'')
      else ready)))"

definition saramin_readiness :: "settings \<Rightarrow> exn + source_readiness \<times> ustr" where
  "saramin_readiness s =
     (if secret_value (se_saramin_access_key s) = None
      then needs_credential (u ''SARAMIN_ACCESS_KEY'')
      else if csv_items (se_saramin_keywords s) = []
      then needs_configuration (u ''SARAMIN_KEYWORDS'') else ready)"

definition work24_readiness :: "settings \<Rightarrow> exn + source_readiness \<times> ustr" where
  "work24_readiness s =
     (if secret_value (se_work24_auth_key s) = None then needs_credential (u ''WORK24_AUTH_KEY'')
      else if \<not> has_valid_work24_course_types (se_work24_course_types s)
      then needs_configuration (u ''WORK24_COURSE_TYPES'')
      else (case work24_date_window_issue (se_work24_start_date s) (se_work24_end_date s) of
        Some issue \<Rightarrow> needs_configuration issue
      | None \<Rightarrow> ready))"

text \<open>\<open>urlsplit(url).hostname\<close>; a text \<open>urlsplit\<close> refuses is a \<open>ValueError\<close>.\<close>

definition url_hostname :: "pyenv \<Rightarrow> ustr \<Rightarrow> exn + ustr option" where
  "url_hostname P url =
     (case urlsplit P url of
        None \<Rightarrow> Inl (Exn ValueError (u ''urlsplit'')) | Some parts \<Rightarrow> Inr (up_hostname parts))"

definition career_readiness :: "pyenv \<Rightarrow> settings \<Rightarrow> exn + source_readiness \<times> ustr" where
  "career_readiness P s =
     (case se_ncs_career_path_download_url s of
        None \<Rightarrow> needs_configuration (u ''NCS_CAREER_PATH_DOWNLOAD_URL'')
      | Some url \<Rightarrow>
          if url = [] then needs_configuration (u ''NCS_CAREER_PATH_DOWNLOAD_URL'')
          else rbind (url_hostname P url) (\<lambda>host.
            if host \<noteq> Some (u ''www.data.go.kr'')
            then needs_configuration (u ''NCS_CAREER_PATH_DOWNLOAD_URL must use the official www.data.go.kr host'')
            else ready))"

definition readiness ::
    "pyenv \<Rightarrow> files \<Rightarrow> exn + source_rights_registry \<Rightarrow> ustr \<Rightarrow> settings
     \<Rightarrow> exn + source_readiness \<times> ustr" where
  "readiness P fs registry source s =
     (if source \<notin> set source_ids then source_configuration_error ''Unknown source: ''
      else case source_activation_check_of P registry source of
        Inl (Exn c t) \<Rightarrow>
          if c = RightsRegistryLoadError then needs_configuration (u ''JOBTOLOGY_SOURCE_RIGHTS_FILE'')
          else Inl (Exn c t)
      | Inr rights \<Rightarrow>
          if \<not> ac_allowed rights
          then needs_configuration (u ''RIGHTS_BLOCKED ('' @ ac_registry_revision rights @ u '')'')
          else if source \<in> set data_go_sources then data_go_readiness P fs s source
          else if source = u ''saramin'' then saramin_readiness s
          else if source = u ''work24_training'' then work24_readiness s
          else if source = u ''ncs_career_path'' then career_readiness P s
          else Inl (Exn AssertionError (u ''Readiness is not implemented for known source: '')))"

section \<open>build_connector\<close>

text \<open>The connector classes.\<close>

datatype built_connector =
    Declared declared_total
  | Single_file single_file
  | Job_alio_api job_alio

definition connector_of :: "pyenv \<Rightarrow> built_connector \<Rightarrow> connector" where
  "connector_of P b =
     (case b of
        Declared c \<Rightarrow> declared_total_connector P c
      | Single_file c \<Rightarrow> single_file_connector P c
      | Job_alio_api c \<Rightarrow> job_alio_connector P c)"

definition required :: "ustr option \<Rightarrow> exn + ustr" where
  "required v =
     (case v of
        None \<Rightarrow> source_configuration_error '' is required''
      | Some x \<Rightarrow> if strip x = [] then source_configuration_error '' is required'' else Inr (strip x))"

definition paging :: "string \<Rightarrow> string \<Rightarrow> int \<Rightarrow> int \<Rightarrow> int option \<Rightarrow> pagination" where
  "paging page sz base page_size max_page =
     \<lparr>pg_page_param = u page, pg_size_param = u sz, pg_page_base = base, pg_page_size = page_size,
      pg_max_page_number = max_page\<rparr>"

definition declared_api ::
    "ustr \<Rightarrow> string \<Rightarrow> string \<Rightarrow> string \<Rightarrow> (ustr \<times> (ustr \<times> ustr) list) list \<Rightarrow> string \<Rightarrow> pagination
     \<Rightarrow> ustr list \<Rightarrow> built_connector" where
  "declared_api source name endpoint host partitions secret p codes =
     Declared \<lparr>dt_source_id = source, dt_display_name = u name, dt_endpoint = u endpoint,
       dt_allowed_hosts = [u host], dt_partitions = partitions,
       dt_secret_param_names = [u secret], dt_pagination = p, dt_accepted_success_codes = codes\<rparr>"

definition competency_connector :: "ustr \<Rightarrow> built_connector" where
  "competency_connector key =
     declared_api (u ''ncs_competency'') ''HRDKorea NCS competency API''
       ''https://c.q-net.or.kr/openapi/Ncs1info/ncsinfo.do'' ''c.q-net.or.kr''
       [(u ''all'', [(u ''serviceKey'', key), (u ''type'', u ''json'')])] ''serviceKey''
       (paging ''pageNo'' ''numOfRows'' 1 1000 None) default_api_success_codes"

definition qualification_connector :: "ustr \<Rightarrow> ustr list \<Rightarrow> built_connector" where
  "qualification_connector key codes =
     declared_api (u ''ncs_qualification'') ''NCS competency-to-qualification API''
       ''https://apis.data.go.kr/B490007/ncsClCdJm/getNcsClCdJmList'' ''apis.data.go.kr''
       (map (\<lambda>code. (u ''ncs-'' @ code, [(u ''serviceKey'', key), (u ''dataFormat'', u ''json''),
                (u ''ncsClCd'', code)])) codes)
       ''serviceKey'' (paging ''pageNo'' ''numOfRows'' 1 50 None) default_api_success_codes"

definition schedule_connector :: "ustr \<Rightarrow> ustr list \<Rightarrow> ustr list \<Rightarrow> built_connector" where
  "schedule_connector key years items =
     declared_api (u ''qnet_schedule'') ''Q-Net qualification schedule API''
       ''https://apis.data.go.kr/B490007/qualExamSchd/getQualExamSchdList'' ''apis.data.go.kr''
       (concat (map (\<lambda>year. map (\<lambda>item.
          (u ''year-'' @ year @ u ''-item-'' @ item,
           [(u ''serviceKey'', key), (u ''dataFormat'', u ''json''), (u ''implYy'', year),
            (u ''jmCd'', item)])) items) years))
       ''serviceKey'' (paging ''pageNo'' ''numOfRows'' 1 50 None) default_api_success_codes"

definition organization_connector :: "ustr \<Rightarrow> built_connector" where
  "organization_connector key =
     declared_api (u ''alio_organization'') ''ALIO public-institution API''
       ''https://apis.data.go.kr/1051000/public_inst/list'' ''apis.data.go.kr''
       [(u ''institutions'', [(u ''serviceKey'', key), (u ''resultType'', u ''json'')])]
       ''serviceKey'' (paging ''pageNo'' ''numOfRows'' 1 100 None) alio_api_success_codes"

definition saramin_connector :: "ustr \<Rightarrow> ustr list \<Rightarrow> built_connector" where
  "saramin_connector key keywords =
     declared_api (u ''saramin'') ''Saramin Job Search API'' ''https://oapi.saramin.co.kr/job-search''
       ''oapi.saramin.co.kr''
       (map (\<lambda>(i, keyword). (u ''keyword-'' @ nat_str i,
          [(u ''access-key'', key), (u ''keywords'', keyword),
           (u ''fields'', u ''posting-date expiration-date keyword-code''), (u ''sort'', u ''ud'')]))
          (zip [1..<Suc (length keywords)] keywords))
       ''access-key'' (paging ''start'' ''count'' 0 110 None) default_api_success_codes"

definition work24_connector :: "settings \<Rightarrow> ustr \<Rightarrow> ustr list \<Rightarrow> built_connector" where
  "work24_connector s key course_types =
     declared_api (u ''work24_training'') ''Work24 training API''
       ''https://www.work24.go.kr/cm/openApi/call/hr/callOpenApiSvcInfo310L01.do'' ''www.work24.go.kr''
       (map (\<lambda>course_type. (u ''course-type-'' @ course_type,
          [(u ''authKey'', key), (u ''returnType'', u ''JSON''), (u ''outType'', u ''1''),
           (u ''srchTraStDt'', se_work24_start_date s), (u ''srchTraEndDt'', se_work24_end_date s),
           (u ''srchNcs1'', se_work24_ncs1 s), (u ''crseTracseSe'', course_type),
           (u ''sort'', u ''ASC''), (u ''sortCol'', u ''2'')])) course_types)
       ''authKey'' (paging ''pageNum'' ''pageSize'' 1 100 (Some 1000)) default_api_success_codes"

definition single_file_of :: "pyenv \<Rightarrow> ustr \<Rightarrow> string \<Rightarrow> ustr \<Rightarrow> exn + built_connector" where
  "single_file_of P source name endpoint =
     rbind (url_hostname P endpoint) (\<lambda>host.
       if source = u ''ncs_career_path'' \<and> host \<noteq> Some (u ''www.data.go.kr'')
       then source_configuration_error ''NCS_CAREER_PATH_DOWNLOAD_URL must use the official www.data.go.kr host''
       else case host of
         None \<Rightarrow> source_configuration_error ''Invalid download URL for ''
       | Some h \<Rightarrow> Inr (Single_file \<lparr>sf_source_id = source, sf_display_name = u name,
                        sf_endpoint = endpoint, sf_allowed_hosts = [h]\<rparr>))"

definition file_setting :: "ustr option \<Rightarrow> string \<Rightarrow> exn + ustr" where
  "file_setting v name =
     (case v of None \<Rightarrow> source_configuration_error (name @ '' is required'') | Some p \<Rightarrow> Inr p)"

definition build_schedule :: "pyenv \<Rightarrow> files \<Rightarrow> settings \<Rightarrow> exn + built_connector" where
  "build_schedule P fs s =
     rbind (required (data_go_key P s)) (\<lambda>key.
     if \<not> has_valid_qnet_years (se_qnet_years s)
     then source_configuration_error ''QNET_YEARS must be comma-separated four-digit years''
     else rbind (file_setting (se_qnet_item_codes_file s) ''QNET_ITEM_CODES_FILE'') (\<lambda>path.
     rbind (read_qnet_item_codes P fs path) (\<lambda>items.
       Inr (schedule_connector key (csv_items (se_qnet_years s)) items))))"

definition build_work24 :: "settings \<Rightarrow> exn + built_connector" where
  "build_work24 s =
     rbind (required (secret_value (se_work24_auth_key s))) (\<lambda>key.
     rbind (validate_compact_date (se_work24_start_date s) ''WORK24_START_DATE'') (\<lambda>_.
     rbind (validate_compact_date (se_work24_end_date s) ''WORK24_END_DATE'') (\<lambda>_.
     if se_work24_end_date s < se_work24_start_date s
     then source_configuration_error ''WORK24_START_DATE cannot be after WORK24_END_DATE''
     else rbind (work24_course_types (se_work24_course_types s)) (\<lambda>types.
       Inr (work24_connector s key types)))))"

definition build_ready :: "pyenv \<Rightarrow> files \<Rightarrow> ustr \<Rightarrow> settings \<Rightarrow> exn + built_connector" where
  "build_ready P fs source s =
     (if source = u ''ncs_competency''
      then rbind (required (data_go_key P s)) (\<lambda>key. Inr (competency_connector key))
      else if source = u ''ncs_qualification''
      then rbind (required (data_go_key P s)) (\<lambda>key.
           rbind (file_setting (se_ncs_qualification_codes_file s) ''NCS_QUALIFICATION_CODES_FILE'') (\<lambda>path.
           rbind (read_ncs_unit_codes fs path) (\<lambda>codes. Inr (qualification_connector key codes))))
      else if source = u ''qnet_schedule'' then build_schedule P fs s
      else if source = u ''job_alio''
      then rbind (required (data_go_key P s)) (\<lambda>key.
             Inr (Job_alio_api \<lparr>ja_service_key = key, ja_ongoing_only = se_job_alio_ongoing_only s\<rparr>))
      else if source = u ''alio_organization''
      then rbind (required (data_go_key P s)) (\<lambda>key. Inr (organization_connector key))
      else if source = u ''saramin''
      then rbind (required (secret_value (se_saramin_access_key s))) (\<lambda>key.
             Inr (saramin_connector key (csv_items (se_saramin_keywords s))))
      else if source = u ''work24_training'' then build_work24 s
      else if source = u ''ncs_career_path''
      then rbind (required (se_ncs_career_path_download_url s)) (\<lambda>url.
             single_file_of P source ''NCS career-path file'' url)
      else source_configuration_error ''Connector not implemented: '')"

definition build_connector ::
    "pyenv \<Rightarrow> files \<Rightarrow> exn + source_rights_registry \<Rightarrow> ustr \<Rightarrow> settings \<Rightarrow> exn + built_connector" where
  "build_connector P fs registry source s =
     rbind (readiness P fs registry source s) (\<lambda>(status, detail).
       if status \<noteq> READY then source_configuration_error '' is not ready: ''
       else build_ready P fs source s)"

end
