(* ===== verification/SourceFacts.thy ===== *)
theory SourceFacts
  imports Sources PartitionFacts
begin

text \<open>
  What the configuration of the sources promises: a connector is built only under an allowed rights
  policy, a ready source is one that can be built, its requests stay on the source's host with the
  key among the redacted parameters, and the partitions derived from one source are the ones the
  next connector requests.
\<close>

section \<open>Writing and reading a code file\<close>

text \<open>A code that is one line of a code file: no line break, nothing to strip, no comment sign.\<close>

definition line_code :: "ustr \<Rightarrow> bool" where
  "line_code c \<longleftrightarrow> c \<noteq> [] \<and> hd c \<noteq> 35 \<and> list_all (\<lambda>x. \<not> is_space x \<and> x < 1114112) c"

lemma line_breaks_space: "x \<in> set line_breaks \<Longrightarrow> is_space x"
  by (auto simp: line_breaks_def is_space_def space_chars_def)

lemma splitlines_other: "x \<notin> set line_breaks \<Longrightarrow> splitlines_acc (x # s) cur = splitlines_acc s (x # cur)"
proof (cases s)
  case (Cons y t)
  assume "x \<notin> set line_breaks"
  then have "x \<noteq> 13" by (auto simp: line_breaks_def)
  with \<open>x \<notin> set line_breaks\<close> Cons show ?thesis by simp
qed simp

lemma splitlines_lf: "splitlines_acc (10 # s) cur = rev cur # splitlines_acc s []"
  by (cases s) (auto simp: line_breaks_def)

lemma splitlines_line:
  "list_all (\<lambda>x. \<not> is_space x) c \<Longrightarrow>
   splitlines_acc (c @ 10 # s) cur = (rev cur @ c) # splitlines_acc s []"
proof (induction c arbitrary: cur)
  case (Cons x c)
  then have "x \<notin> set line_breaks" using line_breaks_space by auto
  with Cons show ?case by (simp add: splitlines_other)
qed (simp add: splitlines_lf)

lemma splitlines_join:
  "list_all line_code codes \<Longrightarrow> codes \<noteq> [] \<Longrightarrow> splitlines (join_on 10 codes @ [10]) = codes"
proof (induction codes)
  case (Cons c codes)
  have c: "list_all (\<lambda>x. \<not> is_space x) c"
    using Cons.prems(1) by (auto simp: line_code_def list_all_iff)
  show ?case
  proof (cases codes)
    case Nil
    with splitlines_line [OF c, of "[]" "[]"] show ?thesis by (simp add: splitlines_def)
  next
    case (Cons d ds)
    with splitlines_line [OF c, of "join_on 10 codes @ [10]" "[]"] Cons.IH Cons.prems show ?thesis
      by (simp add: splitlines_def)
  qed
qed simp

lemma lf_text_plain: "13 \<notin> set s \<Longrightarrow> lf_text s = s"
proof -
  have crlf: "13 \<notin> set s \<Longrightarrow> crlf_to_lf s = s" by (induction s rule: crlf_to_lf.induct) auto
  have "13 \<notin> set s \<Longrightarrow> replace_char 13 [10] s = s" by (induction s) (auto simp: replace_char_def)
  with crlf show "13 \<notin> set s \<Longrightarrow> lf_text s = s" by (simp add: lf_text_def)
qed

lemma set_join_on: "set (join_on c xs) \<subseteq> insert c (\<Union> (set ` set xs))"
  by (induction c xs rule: join_on.induct) auto

lemma partition_text_plain:
  assumes "list_all line_code codes"
  shows "13 \<notin> set (partition_text codes)" and "unicode_text (partition_text codes)"
proof -
  have codes: "x \<in> \<Union> (set ` set (sorted_set codes)) \<Longrightarrow> \<not> is_space x \<and> x < 1114112" for x
    using assms by (auto simp: line_code_def list_all_iff)
  have "x = 10 \<or> \<not> is_space x \<and> x < 1114112" if "x \<in> set (partition_text codes)" for x
    using that set_join_on [of 10 "sorted_set codes"] codes by (auto simp: partition_text_def)
  moreover have "is_space 13" by (simp add: is_space_def space_chars_def)
  ultimately show "13 \<notin> set (partition_text codes)" and "unicode_text (partition_text codes)"
    by (force simp: unicode_text_def list_all_iff)+
qed

lemma line_code_strip: "line_code c \<Longrightarrow> strip c = c \<and> c \<noteq> [] \<and> \<not> starts_with [35] (lstrip c)"
proof -
  assume c: "line_code c"
  have "lstrip c = c" using c by (cases c) (auto simp: line_code_def lstrip_def)
  moreover have "strip c = c" using c by (intro strip_id) (auto simp: line_code_def list_all_iff)
  ultimately show ?thesis using c by (cases c) (auto simp: line_code_def starts_with_def)
qed

lemma read_lines_written:
  assumes "write_partition_codes env path codes fs = (Inr x, fs')"
    and "fs (we_temporary env) = None" and "we_temporary env \<noteq> path" and "list_all line_code codes"
  shows "read_lines fs' path = Inr (sorted_set codes)"
proof -
  from write_partition_codes_atomic_result [OF assms(1-3)] obtain b where
    b: "utf8 (partition_text codes) = Some b" "fs' path = Some b" "codes \<noteq> []" by blast
  note plain = partition_text_plain [OF assms(4)]
  have sorted: "list_all line_code (sorted_set codes)" using assms(4) by (simp add: list_all_iff)
  have "splitlines (lf_text (partition_text codes)) = sorted_set codes"
    using splitlines_join [OF sorted] b(3) unfolding lf_text_plain [OF plain(1)]
    by (simp add: partition_text_def)
  moreover have "map strip (filter (\<lambda>line. strip line \<noteq> [] \<and> \<not> starts_with [35] (lstrip line))
      (sorted_set codes)) = sorted_set codes"
    using sorted line_code_strip by (auto simp: list_all_iff filter_id_conv intro: map_idI)
  ultimately show ?thesis
    using b utf8_decode_utf8 [OF b(1) plain(2)] by (simp add: read_lines_def)
qed

text \<open>
  C13: Reading back a code file gives the codes that were written, in order and each once: encoding,
  line ends, comments and blanks do not get in the way of codes that are single lines.
\<close>
theorem partition_file_roundtrip:
  assumes "write_partition_codes env path codes fs = (Inr x, fs')"
    and "fs (we_temporary env) = None" and "we_temporary env \<noteq> path" and "list_all line_code codes"
  shows "read_lines fs' path = Inr (sorted_set codes)"
  using assms by (rule read_lines_written)

section \<open>Derived codes are single lines\<close>

lemma decimal_plain:
  assumes "is_decimal c"
  shows "\<not> is_space c \<and> c < 1114112 \<and> c \<noteq> 35"
proof -
  from assms obtain z where z: "z \<in> set digit_zeros" "z \<le> c" "c < z + 10"
    by (auto simp: is_decimal_def decimal_value_def find_Some_iff dest: nth_mem)
  have "list_all (\<lambda>z. z < 1114000 \<and> (z + 10 \<le> 35 \<or> 35 < z)
      \<and> list_all (\<lambda>x. x < z \<or> z + 10 \<le> x) space_chars) digit_zeros"
    by code_simp
  with z(1) have "z < 1114000" "z + 10 \<le> 35 \<or> 35 < z" "list_all (\<lambda>x. x < z \<or> z + 10 \<le> x) space_chars"
    by (simp_all add: list_all_iff)
  with z show ?thesis by (auto simp: is_space_def list_all_iff)
qed

lemma upper_alnum_plain: "is_upper_alnum c \<Longrightarrow> \<not> is_space c \<and> c < 1114112 \<and> c \<noteq> 35"
  by (auto simp: is_upper_alnum_def is_space_def space_chars_def)

lemma ncs_unit_code_chars:
  assumes "ncs_unit_code s" and "c \<in> set s"
  shows "is_decimal c \<or> c = 95 \<or> c = 118"
proof -
  have "s = slice 0 10 s @ slice 10 11 s @ slice 11 13 s @ slice 13 14 s @ drop 14 s"
    using append_take_drop_id [of 10 s] append_take_drop_id [of 1 "drop 10 s"]
      append_take_drop_id [of 2 "drop 11 s"] append_take_drop_id [of 1 "drop 13 s"]
    by (simp add: slice_def)
  then have "set s = set (slice 0 10 s) \<union> set (slice 10 11 s) \<union> set (slice 11 13 s)
      \<union> set (slice 13 14 s) \<union> set (drop 14 s)" by (metis set_append Un_assoc)
  with assms show ?thesis
    by (auto simp: ncs_unit_code_def decimals_def all_decimal_def list_all_iff u_def)
qed

lemma ncs_unit_code_line: "ncs_unit_code s \<Longrightarrow> line_code s"
proof -
  assume s: "ncs_unit_code s"
  then have "s \<noteq> []" by (auto simp: ncs_unit_code_def decimals_def slice_def)
  moreover have "\<not> is_space c \<and> c < 1114112 \<and> c \<noteq> 35" if "c \<in> set s" for c
    using ncs_unit_code_chars [OF s that] decimal_plain
    by (auto simp: is_space_def space_chars_def)
  ultimately show ?thesis by (auto simp: line_code_def list_all_iff)
qed

lemma qnet_item_code_line: "qnet_item_code s \<Longrightarrow> line_code s"
  using upper_alnum_plain
  by (cases s) (auto simp: qnet_item_code_def line_code_def list_all_iff)

section \<open>Ready and built\<close>

lemma fromkeys_ex [simp]: "list_ex p (fromkeys xs) = list_ex p xs"
  by (simp add: list_ex_iff)

lemma build_connector_Inr:
  assumes "build_connector P fs registry source s = Inr b"
  shows "\<exists>d. readiness P fs registry source s = Inr (READY, d)" and "build_ready P fs source s = Inr b"
  using assms
  by (auto simp: build_connector_def source_configuration_error_def result_simps split: if_splits)

lemma ready_rights:
  assumes "readiness P fs registry source s = Inr (READY, d)"
  shows "source \<in> set source_ids
    \<and> (\<exists>rights. source_activation_check_of P registry source = Inr rights \<and> ac_allowed rights)"
proof -
  from assms have "source \<in> set source_ids"
    by (auto simp: readiness_def source_configuration_error_def split: if_splits)
  moreover from assms obtain rights where "source_activation_check_of P registry source = Inr rights"
    by (auto simp: readiness_def source_configuration_error_def needs_configuration_def
        split: if_splits sum.splits exn.splits)
  ultimately show ?thesis using assms
    by (auto simp: readiness_def needs_configuration_def split: if_splits)
qed

text \<open>
  A connector is built only for a known source whose rights policy, in a registry that loads,
  allows exactly the content the source needs, and it is that source's connector.
\<close>
theorem built_only_with_rights:
  assumes "build_connector P fs registry source s = Inr b"
  shows "\<exists>r rights. registry = Inr r \<and> source \<in> set source_ids
    \<and> check_activation P r source (source_required_content source) = Inr rights \<and> ac_allowed rights
    \<and> cn_source_id (connector_of P b) = source"
proof -
  from build_connector_Inr [OF assms] obtain d where
    d: "readiness P fs registry source s = Inr (READY, d)" "build_ready P fs source s = Inr b" by blast
  from ready_rights [OF d(1)] obtain r rights where
    "registry = Inr r" "source \<in> set source_ids"
    "check_activation P r source (source_required_content source) = Inr rights" "ac_allowed rights"
    by (auto simp: source_activation_check_of_def result_simps split: if_splits)
  moreover have "cn_source_id (connector_of P b) = source"
    using d(2)
    by (auto simp: build_ready_def build_schedule_def build_work24_def single_file_of_def result_simps
        source_configuration_error_def declared_api_def connector_of_def competency_connector_def
        qualification_connector_def schedule_connector_def organization_connector_def
        saramin_connector_def work24_connector_def declared_total_connector_def
        job_alio_connector_def single_file_connector_def split: if_splits option.splits)
  ultimately show ?thesis by blast
qed

text \<open>
  The one gap between the two: a key or an address that is not empty as it is configured but has only
  white space left when it is read again, and an address whose host changes when it is stripped.
\<close>

definition usable :: "pyenv \<Rightarrow> ustr \<Rightarrow> settings \<Rightarrow> bool" where
  "usable P source s \<longleftrightarrow>
     (source \<in> set data_go_sources \<longrightarrow> isok (required (data_go_key P s)))
     \<and> (source = u ''ncs_career_path'' \<longrightarrow>
          (\<exists>url. required (se_ncs_career_path_download_url s) = Inr url
             \<and> url_hostname P url = Inr (Some (u ''www.data.go.kr''))))"

lemma has_valid_codes_True:
  assumes "has_valid_codes convert valid fs path = Inr True"
  shows "\<exists>p lines. path = Some p \<and> read_lines fs p = Inr lines \<and> lines \<noteq> []
    \<and> (\<forall>c \<in> set lines. valid (convert c))"
  using assms by (auto simp: has_valid_codes_def result_simps list_all_iff split: option.splits if_splits)

lemma ready_data_go:
  assumes "data_go_readiness P fs s source = Inr (READY, d)"
  shows "(source = u ''ncs_qualification'' \<longrightarrow>
      has_valid_ncs_unit_codes fs (se_ncs_qualification_codes_file s) = Inr True)
    \<and> (source = u ''qnet_schedule'' \<longrightarrow>
      has_valid_qnet_item_codes P fs (se_qnet_item_codes_file s) = Inr True
      \<and> has_valid_qnet_years (se_qnet_years s))"
  using assms
  by (auto simp: data_go_readiness_def needs_credential_def needs_configuration_def result_simps
      split: if_splits)

lemma strip_visible: "strip y \<noteq> [] \<Longrightarrow> strip (strip y) \<noteq> []"
proof -
  assume y: "strip y \<noteq> []"
  then have "\<not> is_space (last (strip y))"
    unfolding strip_def by (metis hd_dropWhile last_rev rev.simps(1))
  with y show ?thesis unfolding strip_Nil_iff [of "strip y"] by (meson last_in_set)
qed

lemma required_secret: "secret_value v \<noteq> None \<Longrightarrow> isok (required (secret_value v))"
  using strip_visible by (auto simp: secret_value_def required_def split: option.splits if_splits)

lemma read_ncs_ok:
  assumes "has_valid_ncs_unit_codes fs path = Inr True"
  shows "\<exists>p codes. path = Some p \<and> read_ncs_unit_codes fs p = Inr codes"
  using has_valid_codes_True [OF assms [unfolded has_valid_ncs_unit_codes_def]]
  by (auto simp: read_ncs_unit_codes_def Let_def list_ex_iff)

lemma read_qnet_ok:
  assumes "has_valid_qnet_item_codes P fs path = Inr True"
  shows "\<exists>p codes. path = Some p \<and> read_qnet_item_codes P fs p = Inr codes"
  using has_valid_codes_True [OF assms [unfolded has_valid_qnet_item_codes_def]]
  by (auto simp: read_qnet_item_codes_def Let_def list_ex_iff)

lemma work24_ready_builds: "work24_readiness s = Inr (READY, d) \<Longrightarrow> isok (build_work24 s)"
  using required_secret [of "se_work24_auth_key s"]
  by (auto simp: work24_readiness_def build_work24_def needs_credential_def needs_configuration_def
      work24_date_window_issue_def has_valid_work24_course_types_def work24_course_types_def
      isok_iff result_simps Let_def list_all_iff list_ex_iff
      split: if_splits option.splits sum.splits)

lemma schedule_ready_builds:
  assumes "data_go_readiness P fs s (u ''qnet_schedule'') = Inr (READY, d)"
  shows "isok (build_schedule P fs s) \<longleftrightarrow> isok (required (data_go_key P s))"
  using ready_data_go [OF assms] read_qnet_ok [of P fs "se_qnet_item_codes_file s"]
  by (auto simp: build_schedule_def file_setting_def isok_iff result_simps)

text \<open>
  C40: A ready source can be built, except when its key or address turns out to be blank, or its
  address to be on another host, once it is stripped.
\<close>
theorem ready_source_builds:
  assumes "readiness P fs registry source s = Inr (READY, d)"
  shows "isok (build_connector P fs registry source s) \<longleftrightarrow> usable P source s"
proof -
  have src: "source \<in> set source_ids" using ready_rights [OF assms] by blast
  have build: "build_connector P fs registry source s = build_ready P fs source s"
    by (simp add: build_connector_def assms)
  from ready_rights [OF assms] obtain rights where
    rights: "source_activation_check_of P registry source = Inr rights" "ac_allowed rights" by blast
  note r = assms [unfolded readiness_def rights sum.case]
  note codes = build_ready_def usable_def data_go_sources_def
  from src consider (data_go) "source \<in> set data_go_sources" | (saramin) "source = u ''saramin''"
    | (work24) "source = u ''work24_training''" | (career) "source = u ''ncs_career_path''"
    by (auto simp: source_ids_def data_go_sources_def)
  then show ?thesis
  proof cases
    case data_go
    with r src rights have dg: "data_go_readiness P fs s source = Inr (READY, d)"
      by (simp add: data_go_sources_def)
    note facts = ready_data_go [OF dg]
    from data_go consider "source = u ''ncs_qualification''" | "source = u ''qnet_schedule''"
      | "source \<in> {u ''ncs_competency'', u ''job_alio'', u ''alio_organization''}"
      by (auto simp: data_go_sources_def)
    then show ?thesis
    proof cases
      case 1
      with facts read_ncs_ok [of fs "se_ncs_qualification_codes_file s"] show ?thesis
        unfolding build codes by (auto simp: file_setting_def isok_iff result_simps)
    next
      case 2
      with schedule_ready_builds [of P fs s d] dg show ?thesis unfolding build codes by simp
    next
      case 3
      then show ?thesis unfolding build codes by (auto simp: isok_iff result_simps)
    qed
  next
    case saramin
    with r src rights have "saramin_readiness s = Inr (READY, d)" by (simp add: data_go_sources_def)
    with saramin required_secret [of "se_saramin_access_key s"] show ?thesis
      unfolding build codes
      by (auto simp: saramin_readiness_def needs_credential_def isok_iff result_simps split: if_splits)
  next
    case work24
    with r src rights have "work24_readiness s = Inr (READY, d)" by (simp add: data_go_sources_def)
    with work24 work24_ready_builds show ?thesis unfolding build codes by simp
  next
    case career
    then show ?thesis
      unfolding build codes
      by (auto simp: single_file_of_def source_configuration_error_def isok_iff result_simps
          split: if_splits option.splits)
  qed
qed

section \<open>The requests of a built connector\<close>

text \<open>The name of the parameter that carries the key of an API.\<close>

definition key_names :: "ustr list" where
  "key_names = [u ''serviceKey'', u ''access-key'', u ''authKey'']"

definition confined :: "connector \<Rightarrow> request_spec \<Rightarrow> bool" where
  "confined c q \<longleftrightarrow>
     rq_source_id q = cn_source_id c \<and> rq_method q = u ''GET''
     \<and> (cn_source_id c \<noteq> u ''ncs_career_path'' \<longrightarrow>
          (\<exists>host \<in> set (cn_allowed_hosts c). starts_with (u ''https://'' @ host @ u ''/'') (rq_url q)))
     \<and> (\<forall>k \<in> fst ` set (rq_params q). k \<in> set key_names \<longrightarrow> k \<in> set (rq_secret_param_names q))"

lemmas built_defs = declared_api_def connector_of_def competency_connector_def
  qualification_connector_def schedule_connector_def organization_connector_def saramin_connector_def
  work24_connector_def declared_total_connector_def job_alio_connector_def single_file_connector_def
  dt_initial_requests_def dt_request_def ja_initial_requests_def ja_index_request_def
  sf_initial_requests_def paging_def

lemma starts_with_u: "starts_with (u p) (u s) \<longleftrightarrow> take (length p) s = p"
proof -
  have "take (length p) (u s) = u (take (length p) s)" by (simp add: u_def take_map)
  then show ?thesis by (simp add: starts_with_def)
qed

lemma confined_declared:
  assumes "u secret \<in> set key_names"
    and "\<forall>(part, params) \<in> set partitions. \<forall>k \<in> fst ` set params. k \<in> set key_names \<longrightarrow> k = u secret"
    and "starts_with (u ''https://'' @ u host @ u ''/'') (u endpoint)"
    and "u page \<notin> set key_names" and "u sz \<notin> set key_names"
    and "q \<in> set (cn_initial_requests (connector_of P (declared_api source name endpoint host
          partitions secret (paging page sz base n max_page) codes)))"
  shows "confined (connector_of P (declared_api source name endpoint host
          partitions secret (paging page sz base n max_page) codes)) q"
  using assms
proof -
  from assms(6) obtain part params where q: "(part, params) \<in> set partitions"
    "q = dt_request \<lparr>dt_source_id = source, dt_display_name = u name, dt_endpoint = u endpoint,
       dt_allowed_hosts = [u host], dt_partitions = partitions, dt_secret_param_names = [u secret],
       dt_pagination = paging page sz base n max_page, dt_accepted_success_codes = codes\<rparr> part params base"
    by (auto simp: built_defs)
  from assms(2) q(1) have params: "\<forall>k \<in> fst ` set params. k \<in> set key_names \<longrightarrow> k = u secret" by blast
  have keys: "fst ` set (rq_params q) = {u sz, u page} \<union> fst ` set params"
    by (auto simp: q(2) dt_request_def paging_def dom_update)
  have "\<forall>k \<in> fst ` set (rq_params q). k \<in> set key_names \<longrightarrow> k = u secret"
    unfolding keys using params assms(4,5) by blast
  then show ?thesis
    using assms(3) by (simp add: q(2) confined_def built_defs)
qed

text \<open>
  Every first request of a connector that is built belongs to its source, is a GET of an HTTPS
  address on an allowed host, and lists the parameter that carries the key among the secret ones.
\<close>
theorem built_requests_confined:
  assumes "build_connector P fs registry source s = Inr b"
    and "q \<in> set (cn_initial_requests (connector_of P b))"
  shows "confined (connector_of P b) q"
proof -
  note b = build_connector_Inr(2) [OF assms(1)]
  note d = confined_declared [where P = P]
  have keys: "set key_names = {u ''serviceKey'', u ''access-key'', u ''authKey''}"
    by (simp add: key_names_def)
  from b have "(\<exists>key. b = competency_connector key) \<or> (\<exists>key codes. b = qualification_connector key codes)
    \<or> (\<exists>key years items. b = schedule_connector key years items)
    \<or> (\<exists>key. b = Job_alio_api \<lparr>ja_service_key = key, ja_ongoing_only = se_job_alio_ongoing_only s\<rparr>)
    \<or> (\<exists>key. b = organization_connector key) \<or> (\<exists>key ws. b = saramin_connector key ws)
    \<or> (\<exists>key types. b = work24_connector s key types)
    \<or> (\<exists>url h. b = Single_file \<lparr>sf_source_id = u ''ncs_career_path'', sf_display_name = u ''NCS career-path file'',
        sf_endpoint = url, sf_allowed_hosts = [h]\<rparr>)" (is ?cases)
    unfolding build_ready_def build_schedule_def build_work24_def single_file_of_def
    by (simp only: rbind_Inr_iff source_configuration_error_def split: if_split_asm option.split_asm) blast+
  then consider key where "b = competency_connector key" | key codes where "b = qualification_connector key codes"
    | key years items where "b = schedule_connector key years items"
    | key where "b = Job_alio_api \<lparr>ja_service_key = key, ja_ongoing_only = se_job_alio_ongoing_only s\<rparr>"
    | key where "b = organization_connector key" | key ws where "b = saramin_connector key ws"
    | key types where "b = work24_connector s key types"
    | url h where "b = Single_file \<lparr>sf_source_id = u ''ncs_career_path'', sf_display_name = u ''NCS career-path file'',
        sf_endpoint = url, sf_allowed_hosts = [h]\<rparr>"
    by (elim disjE exE) (rule that; assumption)+
  then show ?thesis
  proof cases
    case 4
    with assms(2) show ?thesis
      by (auto simp: confined_def built_defs keys dom_update starts_with_u simp flip: u_append)
  next
    case 8
    with assms(2) show ?thesis by (auto simp: confined_def built_defs)
  qed (use assms(2) in \<open>auto simp: competency_connector_def qualification_connector_def
      schedule_connector_def organization_connector_def saramin_connector_def work24_connector_def keys
      starts_with_u simp flip: u_append intro!: d\<close>)
qed

section \<open>From one source to the next\<close>

lemma sorted_set_id: "sorted codes \<Longrightarrow> distinct codes \<Longrightarrow> sorted_set codes = codes"
  by (metis sorted_distinct_set_unique sorted_set_facts)

text \<open>
  Once the codes derived from a competency run are written to the file the settings name, the
  connector of the mapping source that is built next asks for exactly those codes: one first page for
  each, in order, none twice.
\<close>
theorem derived_partitions_requested:
  assumes "derive_ncs_qualification_codes P t fs run allowed = Inr codes"
    and "write_partition_codes env path codes fs = (Inr x, fs')"
    and "fs (we_temporary env) = None" and "we_temporary env \<noteq> path"
    and "se_ncs_qualification_codes_file s = Some path"
    and "build_connector P fs' registry (u ''ncs_qualification'') s = Inr b"
  shows "map rq_partition_id (cn_initial_requests (connector_of P b)) = map (\<lambda>c. u ''ncs-'' @ c) codes
    \<and> distinct codes \<and> (\<forall>q \<in> set (cn_initial_requests (connector_of P b)). rq_page_number q = Some 1)"
proof -
  note d = derive_ncs_codes_records [OF assms(1)]
  have "list_all line_code codes" using d ncs_unit_code_line by (auto simp: list_all_iff)
  from read_lines_written [OF assms(2-4) this]
  moreover have "sorted_set codes = codes" using d by (intro sorted_set_id) blast+
  ultimately have lines: "read_lines fs' path = Inr codes" by simp
  then have "read_ncs_unit_codes fs' path = Inr codes"
    using d by (auto simp: read_ncs_unit_codes_def Let_def fromkeys_distinct list_ex_iff)
  with build_connector_Inr(2) [OF assms(6)] assms(5) obtain key where
    "b = qualification_connector key codes"
    by (auto simp: build_ready_def file_setting_def result_simps)
  with d show ?thesis
    by (auto simp: qualification_connector_def built_defs comp_def case_prod_beta)
qed

section \<open>An example\<close>

definition ncs_env :: pyenv where
  "ncs_env = example_env\<lparr>sha256 := (\<lambda>_. replicate 64 48), digest := (\<lambda>_. replicate 64 48),
     json_loads := (\<lambda>_. Some (JObj [(u ''root'', JObj
       [(u ''info'', JObj [(u ''totalCount'', JInt 2), (u ''pageNo'', JInt 1), (u ''numOfRows'', JInt 1000)]),
        (u ''items'', JArr
          [JObj [(u ''ncsClCd'', JStr (u ''2001020231_23v5'')), (u ''ncsSubdCdnm'', JStr (u ''DB''))],
           JObj [(u ''ncsClCd'', JStr (u ''2001020105_16v4'')), (u ''ncsSubdCdnm'', JStr (u '' DB''))]])])]))\<rparr>"

definition ncs_tables :: fetch_tables where
  "ncs_tables =
     \<lparr>tb_connector_run = [(u ''run'',
        \<lparr>cr_run_id = u ''run'', cr_source_id = u ''ncs_competency'', cr_connector_version = u ''1'',
         cr_mode = SCHEDULED_FULL, cr_state = RUNNING, cr_stage = u ''FETCHED'', cr_started_at = 0,
         cr_fetch_completed_at = Some 1, cr_completed_at = None, cr_planned_request_count = Some 1,
         cr_successful_request_count = Some 1, cr_all_attempt_hash = None, cr_selected_hash = None,
         cr_error_code = None, cr_rights_registry_revision = u ''1'', cr_rights_policy_version = 1,
         cr_rights_policy_hash = replicate 64 48\<rparr>)],
      tb_connector_request = [((u ''run'', u ''f''), \<lparr>cq_partition_id = u ''all'', cq_page_number = Some 1,
         cq_request_url_redacted = [], cq_selected_observation_id = Some (u ''a'')\<rparr>)],
      tb_source_snapshot = [\<lparr>sn_snapshot_id = u ''a'', sn_source_id = u ''ncs_competency'',
         sn_content_sha256 = replicate 64 48, sn_byte_length = 1, sn_mime_type = u ''application/json'',
         sn_raw_object_path = u ''raw/a'', sn_first_observed_at = 0\<rparr>],
      tb_fetch_observation = [\<lparr>at_observation_id = u ''a'', at_connector_run_id = u ''run'',
         at_source_id = u ''ncs_competency'', at_request_fingerprint = u ''f'', at_partition_id = u ''all'',
         at_page_number = Some 1, at_response_ordinal = 0, at_attempt_no = 1, at_requested_at = 0,
         at_retrieved_at = 0, at_http_status = Some 200, at_request_url_redacted = [],
         at_response_headers = [], at_outcome = SELECTED_SUCCESS, at_error_code = None,
         at_snapshot_id = Some (u ''a''), at_selected = True\<rparr>]\<rparr>"

definition ncs_files :: files where
  "ncs_files p = (if p = u ''raw/a'' then Some [1] else None)"

definition ncs_codes :: "ustr list" where
  "ncs_codes = [u ''2001020105_16v4'', u ''2001020231_23v5'']"

definition quiet_write :: write_env where
  "quiet_write = \<lparr>we_temporary = u ''tmp'', we_fault = None\<rparr>"

definition ncs_written :: files where
  "ncs_written = snd (write_partition_codes quiet_write (u ''codes.txt'') ncs_codes ncs_files)"

definition example_settings :: settings where
  "example_settings =
     \<lparr>se_database_url = Some (u ''postgresql://db''), se_http_user_agent = u ''Jobtology/0.1'',
      se_contact_email = [], se_http_max_attempts = 4, se_http_max_retry_after = 60,
      se_http_max_response_bytes = 1048576, se_raw_min_free_bytes = 0, se_raw_max_used_fraction = 1 / 2,
      se_requests_per_24h = 1000, se_neo4j_uri = None, se_neo4j_database = u ''neo4j'',
      se_data_go_kr_service_key = Some (u ''key''), se_saramin_access_key = None,
      se_saramin_keywords = u ''data'', se_work24_auth_key = None, se_work24_start_date = u ''20260101'',
      se_work24_end_date = u ''20261231'', se_work24_ncs1 = u ''20'', se_work24_course_types = u ''C0061'',
      se_qnet_years = u ''2026'', se_qnet_item_codes_file = None,
      se_ncs_qualification_codes_file = Some (u ''codes.txt''),
      se_ncs_career_path_download_url = None, se_job_alio_ongoing_only = True\<rparr>"

lemma ncs_derived: "derive_ncs_qualification_codes ncs_env ncs_tables ncs_files (u ''run'') [u ''DB''] = Inr ncs_codes"
  by code_simp

lemma ncs_write: "write_partition_codes quiet_write (u ''codes.txt'') ncs_codes ncs_files = (Inr (), ncs_written)"
proof -
  have "isok (fst (write_partition_codes quiet_write (u ''codes.txt'') ncs_codes ncs_files))" by code_simp
  then show ?thesis unfolding ncs_written_def
    by (cases "write_partition_codes quiet_write (u ''codes.txt'') ncs_codes ncs_files") (auto simp: isok_iff)
qed

lemma ncs_built: "isok (build_connector ncs_env ncs_written (Inr example_registry) (u ''ncs_qualification'') example_settings)"
  by code_simp

theorem derive_ncs_codes_correct_witness:
  "sorted ncs_codes \<and> distinct ncs_codes
   \<and> (\<exists>docs. selected_run_documents ncs_env ncs_tables ncs_files (u ''run'') (u ''ncs_competency'') = Inr docs
        \<and> (\<forall>(r, v) \<in> set docs. ncs_total v = JInt (int (length (concat (map (\<lambda>(_, v). ncs_rows v) docs))))))"
  using derive_ncs_codes_correct [OF ncs_derived] by (auto simp: Let_def)

theorem write_partition_codes_atomic_witness:
  "ncs_written (u ''codes.txt'') = utf8 (partition_text ncs_codes) \<and> ncs_written (u ''raw/a'') = Some [1]"
proof -
  have "ncs_files (u ''tmp'') = None" "u ''tmp'' \<noteq> u ''codes.txt''" "ncs_files (u ''raw/a'') = Some [1]"
    by (simp_all add: ncs_files_def)
  with write_partition_codes_atomic [OF ncs_write] show ?thesis by (auto simp: quiet_write_def)
qed

lemma ncs_codes_lines: "list_all line_code ncs_codes"
  by code_simp

theorem partition_file_roundtrip_witness: "read_lines ncs_written (u ''codes.txt'') = Inr ncs_codes"
proof -
  have "ncs_files (we_temporary quiet_write) = None" "we_temporary quiet_write \<noteq> u ''codes.txt''"
    by (simp_all add: ncs_files_def quiet_write_def)
  from partition_file_roundtrip [OF ncs_write this ncs_codes_lines]
  have "read_lines ncs_written (u ''codes.txt'') = Inr (sorted_set ncs_codes)" .
  moreover have "sorted_set ncs_codes = ncs_codes" by code_simp
  ultimately show ?thesis by simp
qed

lemma ncs_built_obtain:
  obtains b d where
    "build_connector ncs_env ncs_written (Inr example_registry) (u ''ncs_qualification'') example_settings = Inr b"
    "readiness ncs_env ncs_written (Inr example_registry) (u ''ncs_qualification'') example_settings = Inr (READY, d)"
proof -
  from ncs_built obtain b where
    b: "build_connector ncs_env ncs_written (Inr example_registry) (u ''ncs_qualification'') example_settings = Inr b"
    by (auto simp: isok_iff)
  with build_connector_Inr(1) [OF b] that show thesis by blast
qed

theorem built_only_with_rights_witness:
  "\<exists>b rights. build_connector ncs_env ncs_written (Inr example_registry) (u ''ncs_qualification'') example_settings = Inr b
     \<and> check_activation ncs_env example_registry (u ''ncs_qualification'')
         (source_required_content (u ''ncs_qualification'')) = Inr rights \<and> ac_allowed rights"
proof -
  obtain b where b: "build_connector ncs_env ncs_written (Inr example_registry) (u ''ncs_qualification'') example_settings = Inr b"
    by (rule ncs_built_obtain)
  from built_only_with_rights [OF b] b show ?thesis by auto
qed

theorem ready_source_builds_witness:
  "isok (build_connector ncs_env ncs_written (Inr example_registry) (u ''ncs_qualification'') example_settings)
   \<and> usable ncs_env (u ''ncs_qualification'') example_settings"
proof -
  obtain d where d: "readiness ncs_env ncs_written (Inr example_registry) (u ''ncs_qualification'') example_settings = Inr (READY, d)"
    by (rule ncs_built_obtain)
  from ready_source_builds [OF d] ncs_built show ?thesis by simp
qed

theorem derived_partitions_requested_witness:
  "\<exists>b. build_connector ncs_env ncs_written (Inr example_registry) (u ''ncs_qualification'') example_settings = Inr b
     \<and> map rq_partition_id (cn_initial_requests (connector_of ncs_env b))
         = [u ''ncs-2001020105_16v4'', u ''ncs-2001020231_23v5'']"
proof -
  obtain b where b: "build_connector ncs_env ncs_written (Inr example_registry) (u ''ncs_qualification'') example_settings = Inr b"
    by (rule ncs_built_obtain)
  have "ncs_files (we_temporary quiet_write) = None" "we_temporary quiet_write \<noteq> u ''codes.txt''"
    "se_ncs_qualification_codes_file example_settings = Some (u ''codes.txt'')"
    by (simp_all add: ncs_files_def quiet_write_def example_settings_def)
  from derived_partitions_requested [OF ncs_derived ncs_write this b] b show ?thesis
    by (simp add: ncs_codes_def flip: u_append)
qed

theorem built_requests_confined_witness:
  "\<exists>b q. build_connector ncs_env ncs_written (Inr example_registry) (u ''ncs_qualification'') example_settings = Inr b
     \<and> q \<in> set (cn_initial_requests (connector_of ncs_env b)) \<and> confined (connector_of ncs_env b) q"
proof -
  obtain b where b: "build_connector ncs_env ncs_written (Inr example_registry) (u ''ncs_qualification'') example_settings = Inr b"
    by (rule ncs_built_obtain)
  have "case build_connector ncs_env ncs_written (Inr example_registry) (u ''ncs_qualification'') example_settings of
      Inr b \<Rightarrow> cn_initial_requests (connector_of ncs_env b) \<noteq> [] | Inl _ \<Rightarrow> False" by code_simp
  with b obtain q where q: "q \<in> set (cn_initial_requests (connector_of ncs_env b))"
    by (cases "cn_initial_requests (connector_of ncs_env b)") auto
  from built_requests_confined [OF b q] b q show ?thesis by blast
qed

section \<open>An example of a mapping run\<close>

definition mapping_env :: pyenv where
  "mapping_env = ncs_env\<lparr>json_loads := (\<lambda>_. Some (JObj [(u ''body'', JObj
     [(u ''totalCount'', JInt 1), (u ''pageNo'', JInt 1), (u ''numOfRows'', JInt 50),
      (u ''items'', JArr [JObj [(u ''ncsClCd'', JStr (u ''2001020105_16v4'')), (u ''jmCd'', JInt 1320)]])])]))\<rparr>"

definition mapping_tables :: fetch_tables where
  "mapping_tables =
     \<lparr>tb_connector_run = map (\<lambda>(i, r). (i, r\<lparr>cr_source_id := u ''ncs_qualification''\<rparr>)) (tb_connector_run ncs_tables),
      tb_connector_request = map (\<lambda>(i, r). (i, r\<lparr>cq_partition_id := u ''ncs-2001020105_16v4''\<rparr>))
        (tb_connector_request ncs_tables),
      tb_source_snapshot = map (\<lambda>s. s\<lparr>sn_source_id := u ''ncs_qualification''\<rparr>) (tb_source_snapshot ncs_tables),
      tb_fetch_observation = map (\<lambda>a. a\<lparr>at_source_id := u ''ncs_qualification''\<rparr>) (tb_fetch_observation ncs_tables)\<rparr>"

lemma qnet_derived: "derive_qnet_item_codes mapping_env mapping_tables ncs_files (u ''run'') = Inr [u ''1320'']"
  by code_simp

theorem derive_qnet_codes_correct_witness:
  "\<exists>docs. selected_run_documents mapping_env mapping_tables ncs_files (u ''run'') (u ''ncs_qualification'') = Inr docs
     \<and> set [u ''1320''] = {c. \<exists>(r, v) \<in> set docs. \<exists>x \<in> set (mapping_rows v). record_item_code mapping_env x = Inr c}"
  using derive_qnet_codes_correct [OF qnet_derived] by blast

end
