(* ===== verification/Update.thy ===== *)
theory Update
  imports Process Sources FetchEngine
begin

text \<open>
  \<open>pipeline/update.py\<close>: the schedule, the decision when a source is due, and one tick over all
  sources. A tick is a pass over the schedule that keeps one row per source in \<open>control.source_sync\<close>.
  The fetch of a source is an argument of the tick, as in the code; so is the load into the graph
  store. The clock, the liveness of the lock connection and the file system's faults are oracles,
  asked in order. The database is taken to answer the statements of the tick itself. Times are whole
  seconds.
\<close>

section \<open>Schedules\<close>

record source_schedule =
  sc_source_id :: ustr
  sc_interval_seconds :: int

record schedule =
  sd_version :: int
  sd_retry_seconds :: int
  sd_sources :: "source_schedule list"

definition dependency_of :: "ustr \<Rightarrow> ustr option" where
  "dependency_of source =
     (if source = u ''ncs_qualification'' then Some (u ''ncs_competency'')
      else if source = u ''qnet_schedule'' then Some (u ''ncs_qualification'')
      else None)"

fun check_entries :: "ustr list \<Rightarrow> source_schedule list \<Rightarrow> exn + ustr list" where
  "check_entries seen [] = Inr seen"
| "check_entries seen (e # es) =
     (if sc_source_id e \<notin> set processable_sources \<or> sc_source_id e \<in> set seen
      then Inl (Exn ValueError (u ''Unsupported or duplicate processing source''))
      else if (case dependency_of (sc_source_id e) of None \<Rightarrow> False | Some d \<Rightarrow> d \<notin> set seen)
      then Inl (Exn ValueError (u ''Dependencies must precede their consumers''))
      else check_entries (seen @ [sc_source_id e]) es)"

definition check_order :: "schedule \<Rightarrow> exn + unit" where
  "check_order s =
     rbind (check_entries [] (sd_sources s)) (\<lambda>seen.
       if seen = [] then Inl (Exn ValueError (u ''Schedule requires at least one source'')) else Inr ())"

definition validate_schedule :: "schedule \<Rightarrow> exn + unit" where
  "validate_schedule s =
     (if sd_version s \<noteq> 1 \<or> sd_retry_seconds s < 60
         \<or> list_ex (\<lambda>e. sc_interval_seconds e < 3600) (sd_sources s)
      then Inl (Exn ValidationError (u ''schedule'')) else check_order s)"

section \<open>The state of a source\<close>

datatype sync_state = S_running | S_ready | S_failed

record source_sync_row =
  ss_state :: sync_state
  ss_last_attempt_at :: "int option"
  ss_last_success_at :: "int option"
  ss_next_due_at :: "int option"
  ss_connector_run_id :: "ustr option"
  ss_processing_run_id :: "ustr option"
  ss_configuration_hash :: "ustr option"
  ss_content_set_hash :: "ustr option"
  ss_normalized_set_hash :: "ustr option"
  ss_error_code :: "ustr option"

definition due :: "source_sync_row option \<Rightarrow> int \<Rightarrow> ustr option \<Rightarrow> bool" where
  "due state now configuration_hash =
     (case state of
        None \<Rightarrow> True
      | Some row \<Rightarrow>
          if ss_state row = S_failed
             \<and> (case ss_next_due_at row of None \<Rightarrow> False | Some t \<Rightarrow> now < t) then False
          else if ss_state row = S_running then True
          else if configuration_hash \<noteq> None \<and> ss_configuration_hash row \<noteq> configuration_hash then True
          else (case ss_next_due_at row of None \<Rightarrow> True | Some t \<Rightarrow> t \<le> now))"

text \<open>The database and the file store as the tick sees them, and how often an oracle was asked.\<close>

record tick_state =
  ts_sync :: "(ustr \<times> source_sync_row) list"
  ts_tables :: fetch_tables
  ts_files :: files
  ts_staging :: staging_tables
  ts_clock :: nat
  ts_lock :: nat

record tick_world =
  tw_clock :: "nat \<Rightarrow> int"
  tw_lock :: "nat \<Rightarrow> exn option"
  tw_write :: "ustr \<Rightarrow> write_env"
  tw_busy :: "ustr \<Rightarrow> bool"

type_synonym 'a turn = "(tick_state, exn, 'a) action"
type_synonym fetcher =
  "settings \<Rightarrow> connector \<Rightarrow> ustr \<Rightarrow> fetch_tables \<times> files \<Rightarrow> (exn + ustr) \<times> fetch_tables \<times> files"

definition tick_clock :: "tick_world \<Rightarrow> int turn" where
  "tick_clock W s = (Inr (tw_clock W (ts_clock s)), s\<lparr>ts_clock := ts_clock s + 1\<rparr>)"

definition lock_alive :: "tick_world \<Rightarrow> unit turn" where
  "lock_alive W s =
     (case tw_lock W (ts_lock s) of
        None \<Rightarrow> (Inr (), s\<lparr>ts_lock := ts_lock s + 1\<rparr>)
      | Some e \<Rightarrow> (Inl e, s\<lparr>ts_lock := ts_lock s + 1\<rparr>))"

section \<open>dependency_settings\<close>

text \<open>The full runs of a source that were processed to READY, with the end of their fetch.\<close>

definition ready_runs :: "fetch_tables \<Rightarrow> staging_tables \<Rightarrow> ustr \<Rightarrow> (ustr \<times> int option) list" where
  "ready_runs t sg source =
     concat (map (\<lambda>(run_id, r).
       map (\<lambda>_. (run_id, cr_fetch_completed_at r))
         (filter (\<lambda>(_, p). pw_connector_run_id p = run_id \<and> pw_state p = P_ready
                    \<and> pw_processor_version p = processor_version) (sg_processing_run sg)))
       (filter (\<lambda>(_, r). cr_source_id r = source \<and> cr_mode r = SCHEDULED_FULL) (tb_connector_run t)))"

text \<open>\<open>ORDER BY fetch_completed_at DESC LIMIT 1\<close>: a null sorts first, a tie is taken in table order.\<close>

definition newer :: "int option \<Rightarrow> int option \<Rightarrow> bool" where
  "newer a b \<longleftrightarrow> (case b of None \<Rightarrow> False | Some y \<Rightarrow> (case a of None \<Rightarrow> True | Some x \<Rightarrow> y < x))"

fun latest_run :: "(ustr \<times> int option) list \<Rightarrow> (ustr \<times> int option) option" where
  "latest_run [] = None"
| "latest_run (r # rs) =
     (case latest_run rs of
        None \<Rightarrow> Some r
      | Some q \<Rightarrow> if newer (snd q) (snd r) then Some q else Some r)"

definition dependency_run ::
    "fetch_tables \<Rightarrow> staging_tables \<Rightarrow> ustr \<Rightarrow> int \<Rightarrow> int \<Rightarrow> exn + ustr" where
  "dependency_run t sg dependency interval now =
     (case latest_run (ready_runs t sg dependency) of
        None \<Rightarrow> processing_error ''DEPENDENCY_MISSING_OR_STALE''
      | Some (run_id, completed) \<Rightarrow>
          (case completed of
             None \<Rightarrow> Inl (Exn (OtherError (u ''TypeError'')) [])
           | Some ended \<Rightarrow>
               if now - ended > interval * 2 then processing_error ''DEPENDENCY_MISSING_OR_STALE''
               else Inr run_id))"

definition runtime_path :: "ustr \<Rightarrow> ustr" where
  "runtime_path source =
     (if source = u ''ncs_qualification'' then u ''runtime/ncs_qualification_codes.txt''
      else u ''runtime/qnet_item_codes.txt'')"

definition mvp_ncs_subcategory_allowlist :: "ustr list" where
  "mvp_ncs_subcategory_allowlist =
     [u ''DB'' @ [50644, 51648, 45768, 50612, 47553], u ''UI/UX'' @ [50644, 51648, 45768, 50612, 47553],
      [48709, 45936, 51060, 53552, 44592, 54925], [48709, 45936, 51060, 53552, 48516, 49437],
      [49373, 49457, 54805] @ u ''AI'' @ [50644, 51648, 45768, 50612, 47553],
      [49884, 49828, 53596] @ u ''SW'' @ [50644, 51648, 45768, 50612, 47553],
      [51025, 50857] @ u ''SW'' @ [50644, 51648, 45768, 50612, 47553],
      [51064, 44277, 51648, 45733, 47784, 45944, 47553],
      [51064, 44277, 51648, 45733, 49436, 48708, 49828, 44396, 54788],
      [51064, 44277, 51648, 45733, 54540, 47019, 54268, 44396, 52629],
      [51064, 44277, 51648, 45733, 54617, 49845, 45936, 51060, 53552, 44396, 52629]]"

definition derive_codes ::
    "pyenv \<Rightarrow> fetch_tables \<Rightarrow> files \<Rightarrow> ustr \<Rightarrow> ustr \<Rightarrow> exn + ustr list" where
  "derive_codes P t fs source run_id =
     (if source = u ''ncs_qualification''
      then derive_ncs_qualification_codes P t fs run_id mvp_ncs_subcategory_allowlist
      else derive_qnet_item_codes P t fs run_id)"

definition with_codes_file :: "ustr \<Rightarrow> settings \<Rightarrow> settings" where
  "with_codes_file source settings =
     (if source = u ''ncs_qualification''
      then settings\<lparr>se_ncs_qualification_codes_file := Some (runtime_path source)\<rparr>
      else settings\<lparr>se_qnet_item_codes_file := Some (runtime_path source)\<rparr>)"

definition dependency_settings ::
    "pyenv \<Rightarrow> tick_world \<Rightarrow> settings \<Rightarrow> ustr \<Rightarrow> schedule \<Rightarrow> int \<Rightarrow> settings turn" where
  "dependency_settings P W settings source sched now =
     (case dependency_of source of
        None \<Rightarrow> areturn settings
      | Some dependency \<Rightarrow>
          (case find (\<lambda>e. sc_source_id e = dependency) (sd_sources sched) of
             None \<Rightarrow> araise (Exn (OtherError (u ''StopIteration'')) [])
           | Some e \<Rightarrow> (\<lambda>s.
               abind (lift_result (dependency_run (ts_tables s) (ts_staging s) dependency
                        (sc_interval_seconds e) now)) (\<lambda>run_id.
               abind (lift_result (derive_codes P (ts_tables s) (ts_files s) source run_id)) (\<lambda>codes s.
                 (case write_partition_codes (tw_write W source) (runtime_path source) codes (ts_files s) of
                    (Inl e, fs) \<Rightarrow> (Inl e, s\<lparr>ts_files := fs\<rparr>)
                  | (Inr _, fs) \<Rightarrow> (Inr (with_codes_file source settings), s\<lparr>ts_files := fs\<rparr>)))) s)))"

section \<open>The turn of one source\<close>

datatype outcome =
    Retry_wait
  | Not_due
  | Updated ustr nat nat bool
  | Update_failed ustr

text \<open>What the tick is given: the settings, the registry, the schedule and the graph load.\<close>

record tick_input =
  ti_settings :: settings
  ti_registry :: "exn + source_rights_registry"
  ti_schedule :: schedule
  ti_fetch :: fetcher
  ti_neo4j :: bool
  ti_load :: "ustr \<Rightarrow> exn + unit"
  ti_parent_run_id :: ustr

definition configuration_hash ::
    "pyenv \<Rightarrow> tick_input \<Rightarrow> ustr \<Rightarrow> ustr list \<Rightarrow> int \<Rightarrow> ustr" where
  "configuration_hash P I policy fingerprints interval =
     digest P (JArr [JStr processor_version, JStr policy, JArr (map JStr fingerprints), JInt interval,
       JBool (ti_neo4j I),
       (if ti_neo4j I
        then JArr [jopt JStr (se_neo4j_uri (ti_settings I)), JStr (se_neo4j_database (ti_settings I))]
        else JNull)])"

definition resumable :: "source_sync_row option \<Rightarrow> ustr \<Rightarrow> bool" where
  "resumable state config_hash =
     (case state of
        None \<Rightarrow> False
      | Some row \<Rightarrow>
          ss_configuration_hash row = Some config_hash
          \<and> (ss_state row = S_running
             \<or> ss_error_code row \<in> {Some (u ''OperationalError''), Some (u ''InterfaceError''),
                                     Some (u ''GRAPH_LOAD_FAILED'')})
          \<and> ss_connector_run_id row \<noteq> None)"

definition set_sync :: "ustr \<Rightarrow> source_sync_row \<Rightarrow> tick_state \<Rightarrow> tick_state" where
  "set_sync source row s = s\<lparr>ts_sync := AList.update source row (ts_sync s)\<rparr>"

text \<open>The upsert that opens a turn.\<close>

definition sync_running :: "ustr \<Rightarrow> int \<Rightarrow> ustr \<Rightarrow> bool \<Rightarrow> tick_state \<Rightarrow> tick_state" where
  "sync_running source now config resume s =
     set_sync source
       (case map_of (ts_sync s) source of
          None \<Rightarrow> \<lparr>ss_state = S_running, ss_last_attempt_at = Some now, ss_last_success_at = None,
                  ss_next_due_at = None, ss_connector_run_id = None, ss_processing_run_id = None,
                  ss_configuration_hash = Some config, ss_content_set_hash = None,
                  ss_normalized_set_hash = None, ss_error_code = None\<rparr>
        | Some row \<Rightarrow> row\<lparr>ss_state := S_running, ss_last_attempt_at := Some now,
                  ss_configuration_hash := Some config, ss_error_code := None,
                  ss_connector_run_id := (if resume then ss_connector_run_id row else None)\<rparr>) s"

definition update_sync :: "ustr \<Rightarrow> (source_sync_row \<Rightarrow> source_sync_row) \<Rightarrow> tick_state \<Rightarrow> tick_state" where
  "update_sync source f s =
     (case map_of (ts_sync s) source of None \<Rightarrow> s | Some row \<Rightarrow> set_sync source (f row) s)"

definition sync_ready :: "ustr \<Rightarrow> int \<Rightarrow> int \<Rightarrow> processing_summary \<Rightarrow> tick_state \<Rightarrow> tick_state" where
  "sync_ready source completed interval summary =
     update_sync source (\<lambda>row. row\<lparr>ss_state := S_ready, ss_last_success_at := Some completed,
       ss_next_due_at := Some (completed + interval),
       ss_processing_run_id := Some (su_processing_run_id summary),
       ss_content_set_hash := Some (su_content_set_hash summary),
       ss_normalized_set_hash := Some (su_normalized_set_hash summary), ss_error_code := None\<rparr>)"

definition sync_failed :: "ustr \<Rightarrow> int \<Rightarrow> int \<Rightarrow> ustr \<Rightarrow> tick_state \<Rightarrow> tick_state" where
  "sync_failed source now retry_at code s =
     set_sync source
       (case map_of (ts_sync s) source of
          None \<Rightarrow> \<lparr>ss_state = S_failed, ss_last_attempt_at = Some now, ss_last_success_at = None,
                  ss_next_due_at = Some retry_at, ss_connector_run_id = None,
                  ss_processing_run_id = None, ss_configuration_hash = None,
                  ss_content_set_hash = None, ss_normalized_set_hash = None,
                  ss_error_code = Some code\<rparr>
        | Some row \<Rightarrow> row\<lparr>ss_state := S_failed, ss_next_due_at := Some retry_at,
                        ss_error_code := Some code\<rparr>) s"

text \<open>The run to process: the one that was fetched before a crash, or a new one.\<close>

definition fetch_or_resume ::
    "tick_input \<Rightarrow> settings \<Rightarrow> connector \<Rightarrow> ustr \<Rightarrow> source_sync_row option \<Rightarrow> bool \<Rightarrow> ustr turn" where
  "fetch_or_resume I effective cn source state resume s =
     (if resume then
        (case state of
           Some row \<Rightarrow>
             (case ss_connector_run_id row of
                Some run_id \<Rightarrow> (Inr run_id, s)
              | None \<Rightarrow> (Inr (u ''None''), s))
         | None \<Rightarrow> (Inl (Exn AssertionError []), s))
      else
        (case ti_fetch I effective cn (ti_parent_run_id I) (ts_tables s, ts_files s) of
           (Inl e, t, fs) \<Rightarrow> (Inl e, s\<lparr>ts_tables := t, ts_files := fs\<rparr>)
         | (Inr run_id, t, fs) \<Rightarrow>
             (Inr run_id, update_sync source (\<lambda>row. row\<lparr>ss_connector_run_id := Some run_id\<rparr>)
                (s\<lparr>ts_tables := t, ts_files := fs\<rparr>))))"

definition process_turn :: "pyenv \<Rightarrow> tick_world \<Rightarrow> tick_input \<Rightarrow> ustr \<Rightarrow> processing_summary turn" where
  "process_turn P W I run_id s =
     (case process_run P (source_activation_check_of P (ti_registry I)) (tw_busy W run_id)
             (ts_tables s) (ts_files s) run_id (ts_staging s) of
        (r, sg) \<Rightarrow> (r, s\<lparr>ts_staging := sg\<rparr>))"

text \<open>From the upsert to the end of the turn.\<close>

definition run_turn ::
    "pyenv \<Rightarrow> tick_world \<Rightarrow> tick_input \<Rightarrow> settings \<Rightarrow> connector \<Rightarrow> source_schedule
     \<Rightarrow> source_sync_row option \<Rightarrow> int \<Rightarrow> ustr \<Rightarrow> outcome turn" where
  "run_turn P W I effective cn entry state now config =
     (let source = sc_source_id entry; resume = resumable state config in
      abind (lock_alive W) (\<lambda>_ s.
      abind (fetch_or_resume I effective cn source state resume) (\<lambda>run_id.
      abind (process_turn P W I run_id) (\<lambda>summary.
      if su_state summary \<noteq> P_ready then lift_result (processing_error ''PROCESSING_REVIEW_REQUIRED'')
      else
      abind (lock_alive W) (\<lambda>_.
      abind (if ti_neo4j I then lift_result (ti_load I (su_processing_run_id summary)) else areturn ()) (\<lambda>_.
      abind (tick_clock W) (\<lambda>completed s.
        (Inr (Updated (su_processing_run_id summary) (su_records summary) (su_new_revisions summary)
           (case state of None \<Rightarrow> True
            | Some row \<Rightarrow> ss_normalized_set_hash row \<noteq> Some (su_normalized_set_hash summary))),
         sync_ready source completed (sc_interval_seconds entry) summary s)))))) 
      (sync_running source now config resume s)))"

text \<open>The body of the \<open>try\<close>, after the wait for a retry.\<close>

definition source_turn ::
    "pyenv \<Rightarrow> tick_world \<Rightarrow> tick_input \<Rightarrow> ustr list \<Rightarrow> source_schedule \<Rightarrow> source_sync_row option \<Rightarrow> int
     \<Rightarrow> outcome turn" where
  "source_turn P W I failed entry state now =
     (let source = sc_source_id entry in
      if (case dependency_of source of None \<Rightarrow> False | Some d \<Rightarrow> d \<in> set failed)
      then lift_result (processing_error ''DEPENDENCY_FAILED'')
      else
      abind (dependency_settings P W (ti_settings I) source (ti_schedule I) now) (\<lambda>effective s.
      abind (lift_result (build_connector P (ts_files s) (ti_registry I) source effective)) (\<lambda>built.
      abind (lift_result (source_activation_check_of P (ti_registry I) source)) (\<lambda>rights.
      abind (lift_result (rmap (request_fingerprint P) (cn_initial_requests (connector_of P built))))
        (\<lambda>fingerprints.
        let config = configuration_hash P I (ac_policy_hash rights) fingerprints
                       (sc_interval_seconds entry)
        in if \<not> due state now (Some config) then areturn Not_due
           else run_turn P W I effective (connector_of P built) entry state now config))) s))"

definition update_source ::
    "pyenv \<Rightarrow> tick_world \<Rightarrow> tick_input \<Rightarrow> ustr list \<Rightarrow> source_schedule \<Rightarrow> tick_state
     \<Rightarrow> outcome \<times> tick_state" where
  "update_source P W I failed entry s =
     (let source = sc_source_id entry;
          now = tw_clock W (ts_clock s);
          s1 = s\<lparr>ts_clock := ts_clock s + 1\<rparr>;
          state = map_of (ts_sync s1) source
      in if (case state of None \<Rightarrow> False | Some row \<Rightarrow> ss_state row = S_failed) \<and> \<not> due state now None
         then (Retry_wait, s1)
         else (case source_turn P W I failed entry state now s1 of
           (Inr outcome, s2) \<Rightarrow> (outcome, s2)
         | (Inl e, s2) \<Rightarrow>
             (let code = take 100 (processing_code e);
                  retry_at = tw_clock W (ts_clock s2) + sd_retry_seconds (ti_schedule I)
              in (Update_failed code,
                  sync_failed source now retry_at code (s2\<lparr>ts_clock := ts_clock s2 + 1\<rparr>)))))"

text \<open>A source that waits for its retry counts as failed for those that depend on it.\<close>

definition counts_as_failed :: "outcome \<Rightarrow> bool" where
  "counts_as_failed o1 \<longleftrightarrow> (case o1 of Retry_wait \<Rightarrow> True | Update_failed _ \<Rightarrow> True | _ \<Rightarrow> False)"

fun update_entries ::
    "pyenv \<Rightarrow> tick_world \<Rightarrow> tick_input \<Rightarrow> ustr list \<Rightarrow> source_schedule list \<Rightarrow> tick_state
     \<Rightarrow> (ustr \<times> outcome) list \<times> tick_state" where
  "update_entries P W I failed [] s = ([], s)"
| "update_entries P W I failed (e # es) s =
     (case update_source P W I failed e s of
        (o1, s1) \<Rightarrow>
          (case update_entries P W I (if counts_as_failed o1 then sc_source_id e # failed else failed) es s1 of
             (os, s2) \<Rightarrow> ((sc_source_id e, o1) # os, s2)))"

definition update_sources ::
    "pyenv \<Rightarrow> tick_world \<Rightarrow> tick_input \<Rightarrow> bool \<Rightarrow> tick_state
     \<Rightarrow> (exn + (ustr \<times> outcome) list) \<times> tick_state" where
  "update_sources P W I busy s =
     (if busy then (processing_error ''PIPELINE_BUSY'', s)
      else case update_entries P W I [] (sd_sources (ti_schedule I)) s of (os, s') \<Rightarrow> (Inr os, s'))"

section \<open>The fetch of a source\<close>

text \<open>
  The callback before a request: how many observations of the source were requested in the last day.
\<close>

definition before_request :: "settings \<Rightarrow> ustr \<Rightarrow> int \<Rightarrow> fetch_tables \<Rightarrow> exn + unit" where
  "before_request settings source now t =
     (if int (length (filter (\<lambda>a. at_source_id a = source \<and> now - 86400 \<le> at_requested_at a)
                (tb_fetch_observation t))) \<ge> se_requests_per_24h settings
      then processing_error ''ROLLING_REQUEST_BUDGET_EXHAUSTED'' else Inr ())"

definition engine_of :: "settings \<Rightarrow> fetch_engine" where
  "engine_of settings =
     \<lparr>fe_retry_policy = \<lparr>rt_max_attempts = se_http_max_attempts settings,
        rt_max_retry_after_seconds = of_int (se_http_max_retry_after settings)\<rparr>,
      fe_max_response_bytes = se_http_max_response_bytes settings,
      fe_raw_min_free_bytes = se_raw_min_free_bytes settings,
      fe_raw_max_used_fraction = se_raw_max_used_fraction settings\<rparr>"

end
