(* ===== verification/UpdateFacts.thy ===== *)
theory UpdateFacts
  imports Update ProcessRuns SourceFacts
begin

text \<open>
  What a tick does: a schedule orders its dependencies, the turn of a source touches its own row only
  and never loses the last success, a failure backs off and blocks the sources that depend on it, and
  a turn that was interrupted goes on with the fetch it had finished.
\<close>

section \<open>Schedules\<close>

lemma check_entries_Inr:
  "check_entries seen es = Inr seen' \<Longrightarrow> distinct seen \<Longrightarrow>
     seen' = seen @ map sc_source_id es \<and> distinct (seen @ map sc_source_id es)
     \<and> sc_source_id ` set es \<subseteq> set processable_sources
     \<and> (\<forall>as e bs d. es = as @ e # bs \<longrightarrow> dependency_of (sc_source_id e) = Some d
          \<longrightarrow> d \<in> set seen \<union> sc_source_id ` set as)"
proof (induction seen es arbitrary: seen' rule: check_entries.induct)
  case (1 seen)
  then show ?case by simp
next
  case (2 seen e es)
  from "2.prems" have new: "sc_source_id e \<in> set processable_sources" "sc_source_id e \<notin> set seen"
    and dep: "\<forall>d. dependency_of (sc_source_id e) = Some d \<longrightarrow> d \<in> set seen"
    and rest: "check_entries (seen @ [sc_source_id e]) es = Inr seen'"
    by (auto split: if_splits option.splits)
  have d: "distinct (seen @ [sc_source_id e])" using new "2.prems"(2) by simp
  have g: "\<not> (sc_source_id e \<notin> set processable_sources \<or> sc_source_id e \<in> set seen)"
    "\<not> (case dependency_of (sc_source_id e) of None \<Rightarrow> False | Some d \<Rightarrow> d \<notin> set seen)"
    using new dep by (auto split: option.splits)
  note IH = "2.IH" [OF g rest d]
  have "d \<in> set seen \<union> sc_source_id ` set as"
    if "e # es = as @ e' # bs" "dependency_of (sc_source_id e') = Some d" for as e' bs d
  proof (cases as)
    case Nil
    with that dep show ?thesis by simp
  next
    case (Cons a as')
    with that have "es = as' @ e' # bs" "a = e" by auto
    with IH that(2) Cons show ?thesis by fastforce
  qed
  with IH new show ?case by simp
qed

lemma validated_schedule:
  assumes "validate_schedule sd = Inr ()"
  shows "sd_sources sd \<noteq> [] \<and> distinct (map sc_source_id (sd_sources sd))
    \<and> sc_source_id ` set (sd_sources sd) \<subseteq> set processable_sources
    \<and> (\<forall>e \<in> set (sd_sources sd). 3600 \<le> sc_interval_seconds e) \<and> 60 \<le> sd_retry_seconds sd
    \<and> (\<forall>as e bs d. sd_sources sd = as @ e # bs \<longrightarrow> dependency_of (sc_source_id e) = Some d
         \<longrightarrow> d \<in> sc_source_id ` set as)"
proof -
  from assms obtain seen where c: "check_entries [] (sd_sources sd) = Inr seen" "seen \<noteq> []"
    by (auto simp: validate_schedule_def check_order_def result_simps split: if_splits)
  from assms have "\<forall>e \<in> set (sd_sources sd). 3600 \<le> sc_interval_seconds e" "60 \<le> sd_retry_seconds sd"
    by (auto simp: validate_schedule_def list_ex_iff not_less split: if_splits)
  with check_entries_Inr [OF c(1)] c(2) show ?thesis by simp
qed

section \<open>What a turn keeps\<close>

definition success_of :: "tick_state \<Rightarrow> ustr \<Rightarrow> int option \<times> ustr option \<times> ustr option" where
  "success_of s source =
     (case map_of (ts_sync s) source of
        None \<Rightarrow> (None, None, None)
      | Some row \<Rightarrow> (ss_last_success_at row, ss_processing_run_id row, ss_normalized_set_hash row))"

definition turn_kept :: "ustr \<Rightarrow> tick_state \<Rightarrow> tick_state \<Rightarrow> bool" where
  "turn_kept source s s' \<longleftrightarrow>
     (\<forall>x. x \<noteq> source \<longrightarrow> map_of (ts_sync s') x = map_of (ts_sync s) x)
     \<and> staging_extends (ts_staging s) (ts_staging s') \<and> success_of s' source = success_of s source"

text \<open>A step of a turn that leaves the rows and the staging tables alone.\<close>

definition tick_quiet :: "tick_state \<Rightarrow> tick_state \<Rightarrow> bool" where
  "tick_quiet s s' \<longleftrightarrow> ts_sync s' = ts_sync s \<and> ts_staging s' = ts_staging s \<and> ts_tables s' = ts_tables s"

lemma turn_kept_trans: "turn_kept x a b \<Longrightarrow> turn_kept x b c \<Longrightarrow> turn_kept x a c"
  unfolding turn_kept_def using staging_extends_trans by metis

lemma tick_quiet_kept: "tick_quiet s s' \<Longrightarrow> turn_kept x s s'"
  by (auto simp: tick_quiet_def turn_kept_def success_of_def)

lemma tick_quiet_trans: "tick_quiet a b \<Longrightarrow> tick_quiet b c \<Longrightarrow> tick_quiet a c"
  by (simp add: tick_quiet_def)

lemma tick_quiet_clock [simp]:
  "tick_quiet s (s\<lparr>ts_clock := n\<rparr>)" "tick_quiet s (s\<lparr>ts_lock := n\<rparr>)" "tick_quiet s (s\<lparr>ts_files := fs\<rparr>)"
  "tick_quiet s s"
  by (simp_all add: tick_quiet_def)

lemma set_sync_rows [simp]:
  "map_of (ts_sync (set_sync x row s)) y = (if y = x then Some row else map_of (ts_sync s) y)"
  "ts_staging (set_sync x row s) = ts_staging s" "ts_tables (set_sync x row s) = ts_tables s"
  "ts_clock (set_sync x row s) = ts_clock s" "ts_files (set_sync x row s) = ts_files s"
  by (simp_all add: set_sync_def update_conv')

lemma update_sync_rows [simp]:
  "map_of (ts_sync (update_sync x f s)) y
     = (if y = x then map_option f (map_of (ts_sync s) x) else map_of (ts_sync s) y)"
  "ts_staging (update_sync x f s) = ts_staging s" "ts_tables (update_sync x f s) = ts_tables s"
  "ts_clock (update_sync x f s) = ts_clock s"
  by (auto simp: update_sync_def split: option.split)

lemma lock_alive_quiet: "lock_alive W s = (r, s') \<Longrightarrow> tick_quiet s s' \<and> ts_files s' = ts_files s"
  by (auto simp: lock_alive_def split: option.splits)

lemma sync_running_kept: "turn_kept x s (sync_running x now config resume s)"
  by (auto simp: sync_running_def turn_kept_def success_of_def split: option.split)

lemma sync_running_row: "map_of (ts_sync (sync_running x now config resume s)) x \<noteq> None"
  by (simp add: sync_running_def)

lemma dependency_settings_quiet:
  "dependency_settings P W settings x sched now s = (r, s') \<Longrightarrow> tick_quiet s s'"
  by (auto simp: dependency_settings_def abind_def araise_def areturn_def lift_result_def
      split: option.splits sum.splits prod.splits)

lemma fetch_or_resume_kept:
  "fetch_or_resume I effective cn x state resume s = (r, s') \<Longrightarrow> turn_kept x s s'
     \<and> (map_of (ts_sync s) x \<noteq> None \<longrightarrow> map_of (ts_sync s') x \<noteq> None)"
  by (auto simp: fetch_or_resume_def turn_kept_def success_of_def
      split: if_splits option.splits sum.splits prod.splits)

lemma process_turn_effect:
  assumes "process_turn P W I run_id s = (r, s')"
  shows "turn_kept x s s' \<and> ts_sync s' = ts_sync s
    \<and> (\<forall>summary. r = Inr summary \<longrightarrow>
         su_processing_run_id summary = processing_run_id P run_id
         \<and> (\<exists>row. map_of (sg_processing_run (ts_staging s')) (processing_run_id P run_id) = Some row
              \<and> pw_state row = su_state summary \<and> pw_summary row = Some summary))"
proof -
  obtain sg where p: "process_run P (source_activation_check_of P (ti_registry I)) (tw_busy W run_id)
      (ts_tables s) (ts_files s) run_id (ts_staging s) = (r, sg)" and s': "s' = s\<lparr>ts_staging := sg\<rparr>"
    using assms by (auto simp: process_turn_def split: prod.splits)
  have "su_processing_run_id summary = processing_run_id P run_id" if "r = Inr summary" for summary
  proof -
    show ?thesis
    proof (rule process_run_Inr [OF p [unfolded that]])
      fix run pr saved
      assume "summary = summarize P (cr_source_id run) (processing_run_id P run_id) run_id pr saved"
      then show ?thesis by (simp add: summarize_def Let_def)
    qed
  qed
  with process_run_effect [OF p] show ?thesis
    by (auto simp: s' turn_kept_def success_of_def isok_iff)
qed

section \<open>The turn of a source\<close>

definition updated_row :: "source_schedule \<Rightarrow> int \<Rightarrow> processing_summary \<Rightarrow> source_sync_row \<Rightarrow> bool" where
  "updated_row entry completed summary row \<longleftrightarrow>
     ss_state row = S_ready \<and> ss_error_code row = None
     \<and> ss_last_success_at row = Some completed
     \<and> ss_next_due_at row = Some (completed + sc_interval_seconds entry)
     \<and> ss_processing_run_id row = Some (su_processing_run_id summary)
     \<and> ss_normalized_set_hash row = Some (su_normalized_set_hash summary)"

text \<open>How a turn that was not refused ends.\<close>

definition turn_updated :: "source_schedule \<Rightarrow> source_sync_row option \<Rightarrow> tick_state \<Rightarrow> outcome \<Rightarrow> bool" where
  "turn_updated entry state s' outcome \<longleftrightarrow>
     (\<exists>summary completed row prow.
        outcome = Updated (su_processing_run_id summary) (su_records summary) (su_new_revisions summary)
          (case state of None \<Rightarrow> True
           | Some old \<Rightarrow> ss_normalized_set_hash old \<noteq> Some (su_normalized_set_hash summary))
        \<and> map_of (ts_sync s') (sc_source_id entry) = Some row \<and> updated_row entry completed summary row
        \<and> map_of (sg_processing_run (ts_staging s')) (su_processing_run_id summary) = Some prow
        \<and> pw_state prow = P_ready \<and> pw_summary prow = Some summary)"

lemma sync_ready_row:
  assumes "map_of (ts_sync s) x = Some old" and "x = sc_source_id entry"
  shows "\<exists>row. map_of (ts_sync (sync_ready x completed (sc_interval_seconds entry) summary s)) x = Some row
    \<and> updated_row entry completed summary row"
  using assms by (simp add: sync_ready_def updated_row_def)

lemma sync_ready_other [simp]:
  "y \<noteq> x \<Longrightarrow> map_of (ts_sync (sync_ready x completed i summary s)) y = map_of (ts_sync s) y"
  "ts_staging (sync_ready x completed i summary s) = ts_staging s"
  by (simp_all add: sync_ready_def)

lemma abind_cases:
  assumes "abind m f s = (r, s')"
  obtains (raised) e where "m s = (Inl e, s')" and "r = Inl e"
    | (went_on) x t where "m s = (Inr x, t)" and "f x t = (r, s')"
  using assms by (auto simp: abind_def split: prod.splits sum.splits)

text \<open>The rest of a turn whose run was processed.\<close>

lemma finished_turn_effect:
  assumes "(if su_state summary \<noteq> P_ready then lift_result (processing_error code)
     else abind (lock_alive W) (\<lambda>_.
       abind (if ti_neo4j I then lift_result (ti_load I run) else areturn ()) (\<lambda>_.
       abind (tick_clock W) (\<lambda>completed s.
         (Inr outcome, sync_ready x completed interval summary s))))) s = (r, s')"
  shows "(\<forall>e. r = Inl e \<longrightarrow> tick_quiet s s' \<and> ts_files s' = ts_files s)
    \<and> (\<forall>o1. r = Inr o1 \<longrightarrow> o1 = outcome \<and> su_state summary = P_ready
         \<and> (\<exists>completed t. tick_quiet s t \<and> ts_files t = ts_files s \<and> s' = sync_ready x completed interval summary t))"
proof (cases "su_state summary = P_ready")
  case False
  with assms show ?thesis by (auto simp: processing_error_def)
next
  case True
  with assms have "abind (lock_alive W) (\<lambda>_.
       abind (if ti_neo4j I then lift_result (ti_load I run) else areturn ()) (\<lambda>_.
       abind (tick_clock W) (\<lambda>completed s.
         (Inr outcome, sync_ready x completed interval summary s)))) s = (r, s')" by simp
  then show ?thesis
  proof (cases rule: abind_cases)
    case (raised e)
    then show ?thesis using lock_alive_quiet by auto
  next
    case (went_on y t)
    have q: "tick_quiet s t" "ts_files t = ts_files s" using lock_alive_quiet [OF went_on(1)] by simp_all
    from went_on(2) show ?thesis
    proof (cases rule: abind_cases)
      case (raised e)
      then have "s' = t" by (auto split: if_splits)
      with q raised show ?thesis by simp
    next
      case went: (went_on z t2)
      then have t2: "t2 = t" by (auto split: if_splits)
      let ?t = "t\<lparr>ts_clock := ts_clock t + 1\<rparr>"
      from went(2) have "r = Inr outcome" "s' = sync_ready x (tw_clock W (ts_clock t)) interval summary ?t"
        by (simp_all add: t2 abind_def tick_clock_def)
      moreover have "tick_quiet s ?t" "ts_files ?t = ts_files s" using q by (simp_all add: tick_quiet_def)
      ultimately show ?thesis using True by blast
    qed
  qed
qed

lemma run_turn_effect:
  assumes "run_turn P W I effective cn entry state now config s = (r, s')"
  shows "(\<forall>e. r = Inl e \<longrightarrow> turn_kept (sc_source_id entry) s s')
    \<and> (\<forall>x. x \<noteq> sc_source_id entry \<longrightarrow> map_of (ts_sync s') x = map_of (ts_sync s) x)
    \<and> staging_extends (ts_staging s) (ts_staging s')
    \<and> (\<forall>outcome. r = Inr outcome \<longrightarrow> turn_updated entry state s' outcome)"
proof -
  let ?x = "sc_source_id entry"
  have weak: ?thesis if "turn_kept ?x s s'" "r = Inl e" for e
    using that by (auto simp: turn_kept_def)
  from assms [unfolded run_turn_def Let_def] show ?thesis
  proof (cases rule: abind_cases)
    case (raised e)
    then show ?thesis using weak lock_alive_quiet tick_quiet_kept by blast
  next
    case (went_on y s1)
    define s2 where "s2 = sync_running ?x now config (resumable state config) s1"
    have k2: "turn_kept ?x s s2" and row2: "map_of (ts_sync s2) ?x \<noteq> None"
      using lock_alive_quiet [OF went_on(1)] tick_quiet_kept sync_running_kept sync_running_row
        turn_kept_trans unfolding s2_def by blast+
    from went_on(2) [folded s2_def] show ?thesis
    proof (cases rule: abind_cases)
      case (raised e)
      with fetch_or_resume_kept k2 turn_kept_trans show ?thesis by (intro weak) blast+
    next
      case (went_on run_id s3)
      have k3: "turn_kept ?x s s3" and row3: "map_of (ts_sync s3) ?x \<noteq> None"
        using fetch_or_resume_kept [OF went_on(1)] k2 row2 turn_kept_trans by blast+
      from went_on(2) show ?thesis
      proof (cases rule: abind_cases)
        case (raised e)
        with process_turn_effect k3 turn_kept_trans show ?thesis by (intro weak) blast+
      next
        case (went_on summary s4)
        note e4 = process_turn_effect [OF went_on(1), of ?x]
        have k4: "turn_kept ?x s s4" using e4 k3 turn_kept_trans by blast
        obtain old where row4: "map_of (ts_sync s4) ?x = Some old" using e4 row3 by auto
        note f = finished_turn_effect [OF went_on(2)]
        show ?thesis
        proof (cases r)
          case (Inl e)
          with f have "turn_kept ?x s s'" using k4 turn_kept_trans tick_quiet_kept by blast
          then show ?thesis using Inl by (rule weak)
        next
          case (Inr o1)
          with f obtain completed t where t: "tick_quiet s4 t" "su_state summary = P_ready"
            "s' = sync_ready ?x completed (sc_interval_seconds entry) summary t" by blast
          with row4 have "map_of (ts_sync t) ?x = Some old" by (simp add: tick_quiet_def)
          from sync_ready_row [OF this, of entry] obtain row where
            "map_of (ts_sync s') ?x = Some row" "updated_row entry completed summary row"
            using t by blast
          moreover from e4 t(2) obtain prow where
            "map_of (sg_processing_run (ts_staging s4)) (su_processing_run_id summary) = Some prow"
            "pw_state prow = P_ready" "pw_summary prow = Some summary" by auto
          moreover have st: "ts_staging s' = ts_staging s4"
            "\<forall>x. x \<noteq> ?x \<longrightarrow> map_of (ts_sync s') x = map_of (ts_sync s4) x"
            using t by (simp_all add: tick_quiet_def)
          ultimately have "turn_updated entry state s' o1"
            using f Inr unfolding turn_updated_def by (metis (no_types, lifting))
          with Inr k4 st show ?thesis by (auto simp: turn_kept_def)
        qed
      qed
    qed
  qed
qed

lemma source_turn_effect:
  assumes "source_turn P W I failed entry state now s = (r, s')"
  shows "(\<forall>e. r = Inl e \<longrightarrow> turn_kept (sc_source_id entry) s s')
    \<and> (\<forall>x. x \<noteq> sc_source_id entry \<longrightarrow> map_of (ts_sync s') x = map_of (ts_sync s) x)
    \<and> staging_extends (ts_staging s) (ts_staging s')
    \<and> (\<forall>o1. r = Inr o1 \<longrightarrow> o1 = Not_due \<and> tick_quiet s s' \<or> turn_updated entry state s' o1)"
proof -
  let ?x = "sc_source_id entry"
  have quiet: ?thesis if "tick_quiet s s'" "(\<exists>e. r = Inl e) \<or> r = Inr Not_due"
    using that tick_quiet_kept [of s s' ?x] by (auto simp: tick_quiet_def)
  show ?thesis
  proof (cases "case dependency_of ?x of None \<Rightarrow> False | Some d \<Rightarrow> d \<in> set failed")
    case True
    with assms have "s' = s" "\<exists>e. r = Inl e"
      by (auto simp: source_turn_def Let_def processing_error_def)
    then show ?thesis by (intro quiet) auto
  next
    case False
    note turn = assms [unfolded source_turn_def Let_def if_not_P [OF False]]
    from turn show ?thesis
    proof (cases rule: abind_cases)
      case (raised e)
      with dependency_settings_quiet quiet show ?thesis by blast
    next
      case (went_on effective t)
      have q: "tick_quiet s t" using dependency_settings_quiet [OF went_on(1)] .
      from went_on(2) consider (stop) "s' = t" "(\<exists>e. r = Inl e) \<or> r = Inr Not_due"
        | (run) cn config where "run_turn P W I effective cn entry state now config t = (r, s')"
        by (auto simp: abind_def split: sum.splits if_splits)
      then show ?thesis
      proof cases
        case stop
        with q show ?thesis by (intro quiet) auto
      next
        case run
        from run_turn_effect [OF run] q show ?thesis
          by (auto simp: tick_quiet_def turn_kept_def success_of_def)
      qed
    qed
  qed
qed

text \<open>
  The row after the update of a source: unchanged when it was not its turn, READY with the run that
  was processed, or FAILED with the code and with the last success still there.
\<close>

definition recorded_row :: "ustr \<Rightarrow> outcome \<Rightarrow> tick_state \<Rightarrow> tick_state \<Rightarrow> bool" where
  "recorded_row x o1 s s' \<longleftrightarrow>
     (case o1 of
        Retry_wait \<Rightarrow> map_of (ts_sync s') x = map_of (ts_sync s) x
      | Not_due \<Rightarrow> map_of (ts_sync s') x = map_of (ts_sync s) x
      | Updated run records new changed \<Rightarrow>
          (\<exists>row. map_of (ts_sync s') x = Some row \<and> ss_state row = S_ready \<and> ss_error_code row = None
             \<and> ss_processing_run_id row = Some run \<and> ss_last_success_at row \<noteq> None)
      | Update_failed code \<Rightarrow>
          (\<exists>row. map_of (ts_sync s') x = Some row \<and> ss_state row = S_failed
             \<and> ss_error_code row = Some code \<and> success_of s' x = success_of s x))"

lemma sync_failed_effect:
  "(\<exists>row. map_of (ts_sync (sync_failed x now retry_at code s)) x = Some row
      \<and> ss_state row = S_failed \<and> ss_error_code row = Some code \<and> ss_next_due_at row = Some retry_at)
   \<and> success_of (sync_failed x now retry_at code s) x = success_of s x
   \<and> ts_staging (sync_failed x now retry_at code s) = ts_staging s
   \<and> (\<forall>y. y \<noteq> x \<longrightarrow> map_of (ts_sync (sync_failed x now retry_at code s)) y = map_of (ts_sync s) y)"
  by (auto simp: sync_failed_def success_of_def split: option.split)

lemma update_source_effect:
  assumes "update_source P W I failed entry s = (o1, s')"
  shows "(\<forall>x. x \<noteq> sc_source_id entry \<longrightarrow> map_of (ts_sync s') x = map_of (ts_sync s) x)
    \<and> staging_extends (ts_staging s) (ts_staging s') \<and> recorded_row (sc_source_id entry) o1 s s'
    \<and> (o1 = Retry_wait \<longrightarrow> s' = s\<lparr>ts_clock := ts_clock s + 1\<rparr>)
    \<and> (o1 = Not_due \<longrightarrow> tick_quiet s s')
    \<and> (\<forall>code. o1 = Update_failed code \<longrightarrow> 0 < ts_clock s'
         \<and> (\<exists>row. map_of (ts_sync s') (sc_source_id entry) = Some row \<and> ss_state row = S_failed
              \<and> ss_next_due_at row = Some (tw_clock W (ts_clock s' - 1) + sd_retry_seconds (ti_schedule I))))
    \<and> (\<forall>run records new changed. o1 = Updated run records new changed \<longrightarrow>
         turn_updated entry (map_of (ts_sync s) (sc_source_id entry)) s' o1)"
proof -
  let ?x = "sc_source_id entry"
  define now where "now = tw_clock W (ts_clock s)"
  define s1 where "s1 = s\<lparr>ts_clock := ts_clock s + 1\<rparr>"
  define state where "state = map_of (ts_sync s1) ?x"
  have s1: "ts_sync s1 = ts_sync s" "ts_staging s1 = ts_staging s" by (simp_all add: s1_def)
  show ?thesis
  proof (cases "(case state of None \<Rightarrow> False | Some row \<Rightarrow> ss_state row = S_failed) \<and> \<not> due state now None")
    case True
    with assms have "o1 = Retry_wait" "s' = s1"
      by (auto simp: update_source_def Let_def state_def s1_def now_def)
    then show ?thesis by (simp add: s1 s1_def recorded_row_def)
  next
    case False
    obtain r s2 where t: "source_turn P W I failed entry state now s1 = (r, s2)" by fastforce
    note e = source_turn_effect [OF t]
    have upd: "(o1, s') = (case r of Inr outcome \<Rightarrow> (outcome, s2) | Inl e \<Rightarrow>
        (let code = take 100 (processing_code e);
             retry_at = tw_clock W (ts_clock s2) + sd_retry_seconds (ti_schedule I)
         in (Update_failed code, sync_failed ?x now retry_at code (s2\<lparr>ts_clock := ts_clock s2 + 1\<rparr>))))"
      using assms False t
      by (auto simp: update_source_def Let_def state_def s1_def now_def split: sum.split)
    show ?thesis
    proof (cases r)
      case (Inr outcome)
      with upd have o1: "o1 = outcome" "s' = s2" by auto
      from e Inr o1 consider "o1 = Not_due" "tick_quiet s1 s2" | "turn_updated entry state s2 o1" by blast
      then show ?thesis
      proof cases
        case 1
        with o1 show ?thesis by (simp add: s1 recorded_row_def tick_quiet_def s1_def)
      next
        case 2
        then have "recorded_row ?x o1 s s'" "\<exists>run records new changed. o1 = Updated run records new changed"
          by (auto simp: turn_updated_def recorded_row_def updated_row_def o1(2))
        with e 2 o1 s1 show ?thesis by (auto simp: state_def)
      qed
    next
      case (Inl x)
      let ?code = "take 100 (processing_code x)"
      let ?at = "tw_clock W (ts_clock s2) + sd_retry_seconds (ti_schedule I)"
      let ?s = "s2\<lparr>ts_clock := ts_clock s2 + 1\<rparr>"
      from Inl upd have o1: "o1 = Update_failed ?code" "s' = sync_failed ?x now ?at ?code ?s"
        by (auto simp: Let_def)
      have "success_of ?s ?x = success_of s ?x" "ts_sync ?s = ts_sync s2" "ts_staging ?s = ts_staging s2"
        using e Inl s1 by (auto simp: turn_kept_def success_of_def)
      moreover have "ts_clock s' = ts_clock s2 + 1" by (simp add: o1 sync_failed_def)
      ultimately show ?thesis
        using sync_failed_effect [of ?x now ?at ?code ?s] e s1 by (auto simp: o1 recorded_row_def)
    qed
  qed
qed

text \<open>
  C9: The update of a source changes the row of no other source, no staged document, revision or input,
  and accounts for its own row: a source that waits for its retry or is not due keeps it; an updated
  source is READY, due again one interval after the time it was completed, and points to a processing
  run that is READY with the summary that is reported; a failed source carries the code that is
  reported, is due again after the retry interval and keeps its last success.
\<close>
theorem update_source_recorded:
  assumes "update_source P W I failed entry s = (o1, s')"
  shows "(\<forall>x. x \<noteq> sc_source_id entry \<longrightarrow> map_of (ts_sync s') x = map_of (ts_sync s) x)
    \<and> staging_extends (ts_staging s) (ts_staging s') \<and> recorded_row (sc_source_id entry) o1 s s'
    \<and> (o1 = Retry_wait \<longrightarrow> s' = s\<lparr>ts_clock := ts_clock s + 1\<rparr>)
    \<and> (o1 = Not_due \<longrightarrow> tick_quiet s s')
    \<and> (\<forall>code. o1 = Update_failed code \<longrightarrow> 0 < ts_clock s'
         \<and> (\<exists>row. map_of (ts_sync s') (sc_source_id entry) = Some row \<and> ss_state row = S_failed
              \<and> ss_next_due_at row = Some (tw_clock W (ts_clock s' - 1) + sd_retry_seconds (ti_schedule I))))
    \<and> (\<forall>run records new changed. o1 = Updated run records new changed \<longrightarrow>
         turn_updated entry (map_of (ts_sync s) (sc_source_id entry)) s' o1)"
  using assms by (rule update_source_effect)

text \<open>
  A source that failed is left alone until its retry interval has passed: the next update, whatever
  the settings, the schedule or the failures of other sources are by then, changes nothing.
\<close>
theorem failed_source_backs_off:
  assumes "update_source P W I failed entry s = (Update_failed code, s')"
    and "map_of (ts_sync t) (sc_source_id entry) = map_of (ts_sync s') (sc_source_id entry)"
    and "tw_clock W' (ts_clock t) < tw_clock W (ts_clock s' - 1) + sd_retry_seconds (ti_schedule I)"
    and "sc_source_id entry' = sc_source_id entry"
  shows "update_source P W' I' failed' entry' t = (Retry_wait, t\<lparr>ts_clock := ts_clock t + 1\<rparr>)"
proof -
  from update_source_effect [OF assms(1)] obtain row where
    "map_of (ts_sync t) (sc_source_id entry) = Some row" "ss_state row = S_failed"
    "ss_next_due_at row = Some (tw_clock W (ts_clock s' - 1) + sd_retry_seconds (ti_schedule I))"
    using assms(2) by auto
  with assms(3,4) show ?thesis by (simp add: update_source_def due_def)
qed

section \<open>A tick\<close>

lemma dependency_failed_stops:
  assumes "update_source P W I failed entry s = (o1, s')"
    and "dependency_of (sc_source_id entry) = Some d" and "d \<in> set failed"
  shows "o1 = Retry_wait \<or> o1 = Update_failed (u ''DEPENDENCY_FAILED'')"
proof -
  have "take 100 (processing_code (Exn ProcessingError (u ''DEPENDENCY_FAILED''))) = u ''DEPENDENCY_FAILED''"
    by code_simp
  then show ?thesis
    using assms by (auto simp: update_source_def source_turn_def Let_def processing_error_def split: if_splits)
qed

definition failed_before :: "ustr list \<Rightarrow> (ustr \<times> outcome) list \<Rightarrow> ustr set" where
  "failed_before failed os = set failed \<union> {x. \<exists>o1. (x, o1) \<in> set os \<and> counts_as_failed o1}"

definition failures_respected :: "ustr list \<Rightarrow> (ustr \<times> outcome) list \<Rightarrow> bool" where
  "failures_respected failed os \<longleftrightarrow>
     (\<forall>as x o1 bs d. os = as @ (x, o1) # bs \<longrightarrow> dependency_of x = Some d \<longrightarrow> d \<in> failed_before failed as
         \<longrightarrow> o1 = Retry_wait \<or> o1 = Update_failed (u ''DEPENDENCY_FAILED''))"

lemma update_entries_effect:
  assumes "update_entries P W I failed es s = (os, s')" and "distinct (map sc_source_id es)"
  shows "map fst os = map sc_source_id es
    \<and> (\<forall>x. x \<notin> sc_source_id ` set es \<longrightarrow> map_of (ts_sync s') x = map_of (ts_sync s) x)
    \<and> staging_extends (ts_staging s) (ts_staging s')
    \<and> (\<forall>(x, o1) \<in> set os. recorded_row x o1 s s')
    \<and> failures_respected failed os"
  using assms
proof (induction es arbitrary: failed s os)
  case Nil
  then show ?case by (simp add: failures_respected_def)
next
  case (Cons e es)
  let ?x = "sc_source_id e"
  obtain o1 s1 where u1: "update_source P W I failed e s = (o1, s1)" by fastforce
  let ?failed = "if counts_as_failed o1 then ?x # failed else failed"
  obtain os' where us: "update_entries P W I ?failed es s1 = (os', s')" and os: "os = (?x, o1) # os'"
    using Cons.prems(1) u1 by (auto split: prod.splits)
  note e1 = update_source_effect [OF u1]
  have IH: "map fst os' = map sc_source_id es"
    "\<forall>x. x \<notin> sc_source_id ` set es \<longrightarrow> map_of (ts_sync s') x = map_of (ts_sync s1) x"
    "staging_extends (ts_staging s1) (ts_staging s')" "\<forall>(x, o1) \<in> set os'. recorded_row x o1 s1 s'"
    "failures_respected ?failed os'"
    using Cons.IH [OF us] Cons.prems(2) by auto
  have new: "?x \<notin> sc_source_id ` set es" using Cons.prems(2) by auto
  then have "map_of (ts_sync s') ?x = map_of (ts_sync s1) ?x" using IH(2) by blast
  then have own: "recorded_row ?x o1 s s'"
    using e1 by (auto simp: recorded_row_def success_of_def split: outcome.splits)
  have others: "recorded_row x o2 s s'" if "(x, o2) \<in> set os'" for x o2
  proof -
    have "x \<in> fst ` set os'" using that by force
    then have "x \<in> sc_source_id ` set es" using IH(1) by (metis set_map)
    then have "x \<noteq> ?x" using new by blast
    then have "map_of (ts_sync s1) x = map_of (ts_sync s) x" using e1 by blast
    with IH(4) that show ?thesis
      by (fastforce simp: recorded_row_def success_of_def split: outcome.splits)
  qed
  have "o2 = Retry_wait \<or> o2 = Update_failed (u ''DEPENDENCY_FAILED'')"
    if "os = as @ (x, o2) # bs" "dependency_of x = Some d" "d \<in> failed_before failed as" for as x o2 bs d
  proof (cases as)
    case Nil
    with that os u1 dependency_failed_stops show ?thesis by (auto simp: failed_before_def)
  next
    case (Cons a as')
    with that os have "os' = as' @ (x, o2) # bs" "a = (?x, o1)" by auto
    moreover have "d \<in> failed_before ?failed as'"
      using that(3) Cons calculation(2) by (auto simp: failed_before_def)
    ultimately show ?thesis using IH(5) that(2) unfolding failures_respected_def by blast
  qed
  then have "failures_respected failed os" unfolding failures_respected_def by blast
  moreover have "\<forall>(x, o1) \<in> set os. recorded_row x o1 s s'" using own others os by auto
  moreover have "staging_extends (ts_staging s) (ts_staging s')" using e1 IH(3) staging_extends_trans by blast
  moreover have "\<forall>x. x \<notin> sc_source_id ` set (e # es) \<longrightarrow> map_of (ts_sync s') x = map_of (ts_sync s) x"
    using e1 IH(2) by simp
  ultimately show ?case using IH(1) os by simp
qed


section \<open>Interrupted turns\<close>

text \<open>
  A turn that was interrupted after its fetch, by a crash or by a failing database or graph store,
  goes on with the run that was fetched when nothing it depends on has changed: it asks for nothing
  again, whatever the fetch would give, leaves the fetch tables and the raw files alone, keeps the run
  in its row, and what it reports is the processing of exactly that run.
\<close>
theorem interrupted_turn_resumes:
  assumes "resumable (Some row) config" and "ss_connector_run_id row = Some run_id"
    and "map_of (ts_sync s) (sc_source_id entry) = Some row"
    and "run_turn P W I effective cn entry (Some row) now config s = (r, s')"
  shows "run_turn P W (I\<lparr>ti_fetch := f\<rparr>) effective cn entry (Some row) now config s = (r, s')
    \<and> ts_tables s' = ts_tables s \<and> ts_files s' = ts_files s
    \<and> (\<exists>row'. map_of (ts_sync s') (sc_source_id entry) = Some row' \<and> ss_connector_run_id row' = Some run_id)
    \<and> (\<forall>run records new changed. r = Inr (Updated run records new changed) \<longrightarrow> run = processing_run_id P run_id)"
proof -
  let ?x = "sc_source_id entry"
  note res = eqTrueI [OF assms(1)]
  have inputs: "ti_registry (I\<lparr>ti_fetch := f\<rparr>) = ti_registry I" "ti_neo4j (I\<lparr>ti_fetch := f\<rparr>) = ti_neo4j I"
    "ti_load (I\<lparr>ti_fetch := f\<rparr>) = ti_load I" by simp_all
  have resume: "fetch_or_resume J effective cn ?x (Some row) True t = (Inr run_id, t)" for J t
    using assms(2) by (simp add: fetch_or_resume_def)
  have same: "run_turn P W (I\<lparr>ti_fetch := f\<rparr>) effective cn entry (Some row) now config s
      = run_turn P W I effective cn entry (Some row) now config s"
    unfolding run_turn_def Let_def abind_def res resume process_turn_def inputs by (rule refl)
  define K where "K t \<longleftrightarrow> ts_tables t = ts_tables s \<and> ts_files t = ts_files s
    \<and> (\<exists>row'. map_of (ts_sync t) ?x = Some row' \<and> ss_connector_run_id row' = Some run_id)" for t :: tick_state
  have lock: "K t'" if "lock_alive W t = (r1, t')" "K t" for t t' r1
    using that by (auto simp: K_def lock_alive_def split: option.splits)
  from assms(4) [unfolded run_turn_def Let_def res]
  have "K s' \<and> (\<forall>run records new changed. r = Inr (Updated run records new changed)
      \<longrightarrow> run = processing_run_id P run_id)"
  proof (cases rule: abind_cases)
    case (raised e)
    moreover have "K s" using assms(2,3) by (simp add: K_def)
    ultimately show ?thesis using lock by auto
  next
    case (went_on y s1)
    define s2 where "s2 = sync_running ?x now config True s1"
    have "K s1" using lock [OF went_on(1)] assms(2,3) by (simp add: K_def)
    then have k2: "K s2" by (auto simp: K_def s2_def sync_running_def)
    from went_on(2) [folded s2_def] show ?thesis
    proof (cases rule: abind_cases)
      case (raised e)
      with resume show ?thesis by simp
    next
      case (went_on id s3)
      then have id: "id = run_id" "s3 = s2" using resume by auto
      from went_on(2) [unfolded id] show ?thesis
      proof (cases rule: abind_cases)
        case (raised e)
        with k2 show ?thesis by (auto simp: K_def process_turn_def split: prod.splits)
      next
        case (went_on summary s4)
        have k4: "K s4" using k2 went_on(1) by (auto simp: K_def process_turn_def split: prod.splits)
        have p: "su_processing_run_id summary = processing_run_id P run_id"
          using process_turn_effect [OF went_on(1)] by blast
        note f = finished_turn_effect [OF went_on(2)]
        show ?thesis
        proof (cases r)
          case (Inl e)
          with f k4 have "K s'" by (simp add: K_def tick_quiet_def)
          then show ?thesis using Inl by simp
        next
          case (Inr o1)
          with f obtain completed t where t: "tick_quiet s4 t" "ts_files t = ts_files s4"
            "s' = sync_ready ?x completed (sc_interval_seconds entry) summary t" by blast
          have "K t" using k4 t by (simp add: K_def tick_quiet_def)
          then have "K s'" by (auto simp: K_def t(3) sync_ready_def update_sync_def)
          with f Inr p show ?thesis by simp
        qed
      qed
    qed
  qed
  then have "ts_tables s' = ts_tables s \<and> ts_files s' = ts_files s
    \<and> (\<exists>row'. map_of (ts_sync s') ?x = Some row' \<and> ss_connector_run_id row' = Some run_id)
    \<and> (\<forall>run records new changed. r = Inr (Updated run records new changed) \<longrightarrow> run = processing_run_id P run_id)"
    by (simp add: K_def)
  with same assms(4) show ?thesis by simp
qed


text \<open>
  The engine that a tick builds from settings within their bounds is one that the fetch engine and
  its retry policy accept, for every value of the settings.
\<close>
theorem configured_engine_accepted:
  assumes "settings_bounds s"
  shows "check_fetch_engine (engine_of s) = Inr () \<and> check_retry_policy (fe_retry_policy (engine_of s)) = Inr ()"
  using assms by (simp add: settings_bounds_def check_fetch_engine_def check_retry_policy_def engine_of_def)

section \<open>An example tick\<close>

text \<open>A schedule of one source whose fetch gives the run of the processing example.\<close>

definition tick_env :: pyenv where
  "tick_env = page_env\<lparr>digest := (\<lambda>v. case v of
      JObj kvs \<Rightarrow> if map_of kvs (u ''source_record_id'') = None then replicate 64 48 else size_digest v
    | _ \<Rightarrow> size_digest v)\<rparr>"

definition tick_tables :: fetch_tables where
  "tick_tables = page_tables\<lparr>tb_connector_run :=
     map (\<lambda>(i, r). (i, r\<lparr>cr_rights_policy_hash := replicate 64 48\<rparr>)) (tb_connector_run page_tables)\<rparr>"

definition job_alio_entry :: source_schedule where
  "job_alio_entry = \<lparr>sc_source_id = u ''job_alio'', sc_interval_seconds = 7200\<rparr>"

definition empty_tables :: fetch_tables where
  "empty_tables = \<lparr>tb_connector_run = [], tb_connector_request = [], tb_source_snapshot = [], tb_fetch_observation = []\<rparr>"

definition tick_example :: tick_input where
  "tick_example = \<lparr>ti_settings = example_settings, ti_registry = Inr example_registry,
     ti_schedule = \<lparr>sd_version = 1, sd_retry_seconds = 600, sd_sources = [job_alio_entry]\<rparr>,
     ti_fetch = (\<lambda>_ _ _ _. (Inr (u ''run''), tick_tables, page_files)),
     ti_neo4j = False, ti_load = (\<lambda>_. Inr ()), ti_parent_run_id = u ''tick''\<rparr>"

definition quiet_world :: tick_world where
  "quiet_world = \<lparr>tw_clock = int, tw_lock = (\<lambda>_. None), tw_write = (\<lambda>_. quiet_write), tw_busy = (\<lambda>_. False)\<rparr>"

definition first_tick :: tick_state where
  "first_tick = \<lparr>ts_sync = [], ts_tables = empty_tables, ts_files = (\<lambda>_. None), ts_staging = no_staging,
     ts_clock = 5, ts_lock = 0\<rparr>"

definition example_tick :: "tick_input \<Rightarrow> tick_state \<Rightarrow> outcome \<times> tick_state" where
  "example_tick I = update_source tick_env quiet_world I [] job_alio_entry"

lemma tick_updates:
  "case fst (example_tick tick_example first_tick) of Updated _ records _ changed \<Rightarrow> records = 2 \<and> changed | _ \<Rightarrow> False"
  by code_simp

theorem update_source_recorded_witness:
  "\<exists>run new s' row. example_tick tick_example first_tick = (Updated run 2 new True, s')
     \<and> map_of (ts_sync s') (u ''job_alio'') = Some row \<and> ss_state row = S_ready"
proof -
  obtain run new s' where r: "example_tick tick_example first_tick = (Updated run 2 new True, s')"
    using tick_updates by (cases "example_tick tick_example first_tick") (auto split: outcome.splits)
  from update_source_recorded [OF r [unfolded example_tick_def]] r show ?thesis
    by (auto simp: recorded_row_def job_alio_entry_def)
qed

definition failing_tick :: tick_input where
  "failing_tick = tick_example\<lparr>ti_fetch := (\<lambda>_ _ _ w. (Inl (Exn (OtherError (u ''ConnectTimeout'')) []), w))\<rparr>"

lemma tick_fails: "fst (example_tick failing_tick first_tick) = Update_failed (u ''ConnectTimeout'')"
  by code_simp

theorem failed_source_backs_off_witness:
  "\<exists>s'. example_tick failing_tick first_tick = (Update_failed (u ''ConnectTimeout''), s')
     \<and> fst (example_tick tick_example s') = Retry_wait"
proof -
  obtain s' where s': "example_tick failing_tick first_tick = (Update_failed (u ''ConnectTimeout''), s')"
    using tick_fails by (metis prod.collapse)
  have "tw_clock quiet_world (ts_clock s') < tw_clock quiet_world (ts_clock s' - 1)
      + sd_retry_seconds (ti_schedule failing_tick)"
    by (simp add: quiet_world_def failing_tick_def tick_example_def)
  from failed_source_backs_off [OF s' [unfolded example_tick_def] refl this refl] s' show ?thesis
    by (simp add: example_tick_def)
qed


text \<open>The row that a crash after the fetch leaves.\<close>

definition crashed_row :: source_sync_row where
  "crashed_row = \<lparr>ss_state = S_running, ss_last_attempt_at = Some 3, ss_last_success_at = None,
     ss_next_due_at = None, ss_connector_run_id = Some (u ''run''), ss_processing_run_id = None,
     ss_configuration_hash = Some (u ''config''), ss_content_set_hash = None,
     ss_normalized_set_hash = None, ss_error_code = None\<rparr>"

definition crashed_tick :: tick_state where
  "crashed_tick = first_tick\<lparr>ts_sync := [(u ''job_alio'', crashed_row)], ts_tables := tick_tables,
     ts_files := page_files\<rparr>"

definition resumed_turn :: "tick_input \<Rightarrow> (exn + outcome) \<times> tick_state" where
  "resumed_turn I = run_turn tick_env quiet_world I example_settings (connector_of tick_env (competency_connector []))
     job_alio_entry (Some crashed_row) 5 (u ''config'') crashed_tick"

lemma resumed_updates: "case fst (resumed_turn failing_tick) of Inr (Updated _ records _ _) \<Rightarrow> records = 2 | _ \<Rightarrow> False"
  by code_simp

theorem interrupted_turn_resumes_witness:
  "\<exists>new changed s'. resumed_turn failing_tick
       = (Inr (Updated (processing_run_id tick_env (u ''run'')) 2 new changed), s')
     \<and> resumed_turn tick_example = resumed_turn failing_tick"
proof -
  obtain id new changed s' where r: "resumed_turn failing_tick = (Inr (Updated id 2 new changed), s')"
    using resumed_updates by (cases "resumed_turn failing_tick") (auto split: sum.splits outcome.splits)
  have c: "resumable (Some crashed_row) (u ''config'')" "ss_connector_run_id crashed_row = Some (u ''run'')"
    "map_of (ts_sync crashed_tick) (sc_source_id job_alio_entry) = Some crashed_row"
    by (simp_all add: resumable_def crashed_row_def crashed_tick_def job_alio_entry_def)
  have "failing_tick\<lparr>ti_fetch := ti_fetch tick_example\<rparr> = tick_example"
    by (simp add: failing_tick_def)
  with interrupted_turn_resumes [OF c r [unfolded resumed_turn_def], of "ti_fetch tick_example"] r
  show ?thesis by (auto simp: resumed_turn_def)
qed

theorem configured_engine_accepted_witness:
  "check_fetch_engine (engine_of example_settings) = Inr () \<and> se_http_max_attempts example_settings = 4"
proof -
  have "settings_bounds example_settings" by code_simp
  from configured_engine_accepted [OF this] show ?thesis by (simp add: example_settings_def)
qed

end
