(* ===== verification/Queue.thy ===== *)
theory Queue
  imports PyText
begin

text \<open>
  \<open>admin/queue.py\<close>: the durable queue of the admin console. Both tables of the SQLite file are lists of
  rows; a call of the store is one transaction. The clock and \<open>uuid4\<close> are arguments: timestamps are
  the texts that \<open>isoformat\<close> gives, ordered as texts, as SQLite does. A failure of SQLite itself is a
  fault of the call, which the worker's model has.
\<close>

section \<open>Rows\<close>

datatype job_state = Job_queued | Job_running | Job_succeeded | Job_failed | Job_unknown

record job =
  jb_id :: ustr
  jb_action_id :: ustr
  jb_kind :: ustr
  jb_state :: job_state
  jb_created_at :: ustr
  jb_started_at :: "ustr option"
  jb_finished_at :: "ustr option"
  jb_updated_at :: ustr
  jb_requested_by :: ustr
  jb_summary :: "ustr option"
  jb_idempotency_key :: ustr
  jb_profile_sha256 :: ustr
  jb_worker_id :: "ustr option"

record worker_row =
  wk_worker_id :: ustr
  wk_heartbeat_at :: ustr
  wk_job_id :: "ustr option"

record job_store =
  js_jobs :: "job list"
  js_worker :: "worker_row option"

datatype queue_error =
    Value_error ustr
  | Queue_conflict ustr
  | Integrity_error

type_synonym 'a store_call = "(job_store, queue_error, 'a) action"

definition empty_store :: job_store where
  "empty_store = \<lparr>js_jobs = [], js_worker = None\<rparr>"

definition pending_state :: "job_state \<Rightarrow> bool" where
  "pending_state s \<longleftrightarrow> s \<in> {Job_queued, Job_running, Job_unknown}"

definition terminal_state :: "job_state \<Rightarrow> bool" where
  "terminal_state s \<longleftrightarrow> s \<in> {Job_succeeded, Job_failed, Job_unknown}"

text \<open>\<open>public_job\<close>: what a client may see of a row.\<close>

record public_job =
  pj_id :: ustr
  pj_action_id :: ustr
  pj_kind :: ustr
  pj_state :: job_state
  pj_created_at :: ustr
  pj_started_at :: "ustr option"
  pj_finished_at :: "ustr option"
  pj_updated_at :: ustr
  pj_requested_by :: ustr
  pj_summary :: "ustr option"

definition public_job_of :: "job \<Rightarrow> public_job" where
  "public_job_of j =
     \<lparr>pj_id = jb_id j, pj_action_id = jb_action_id j, pj_kind = jb_kind j, pj_state = jb_state j,
      pj_created_at = jb_created_at j, pj_started_at = jb_started_at j,
      pj_finished_at = jb_finished_at j, pj_updated_at = jb_updated_at j,
      pj_requested_by = jb_requested_by j, pj_summary = jb_summary j\<rparr>"

section \<open>Checks of the arguments\<close>

definition is_lower :: "nat \<Rightarrow> bool" where
  "is_lower c \<longleftrightarrow> 97 \<le> c \<and> c \<le> 122"

definition is_digit :: "nat \<Rightarrow> bool" where
  "is_digit c \<longleftrightarrow> 48 \<le> c \<and> c \<le> 57"

text \<open>\<open>^[a-z][a-z0-9_-]{0,63}$\<close>, matched fully.\<close>

definition action_id_ok :: "ustr \<Rightarrow> bool" where
  "action_id_ok s \<longleftrightarrow>
     (case s of
        [] \<Rightarrow> False
      | c # cs \<Rightarrow> is_lower c \<and> length cs \<le> 63
          \<and> list_all (\<lambda>x. is_lower x \<or> is_digit x \<or> x = 95 \<or> x = 45) cs)"

text \<open>\<open>[A-Za-z0-9_-]{16,128}\<close>.\<close>

definition idempotency_key_ok :: "ustr \<Rightarrow> bool" where
  "idempotency_key_ok s \<longleftrightarrow>
     16 \<le> length s \<and> length s \<le> 128
     \<and> list_all (\<lambda>x. is_lower x \<or> (65 \<le> x \<and> x \<le> 90) \<or> is_digit x \<or> x = 95 \<or> x = 45) s"

definition job_kinds :: "ustr list" where
  "job_kinds = [u ''refresh_due'', u ''load_jobkorea'']"

section \<open>The calls\<close>

definition has_pending :: "job_store \<Rightarrow> bool" where
  "has_pending s \<longleftrightarrow> list_ex (\<lambda>j. pending_state (jb_state j)) (js_jobs s)"

definition get_by_idempotency :: "ustr \<Rightarrow> job_store \<Rightarrow> job option" where
  "get_by_idempotency key s = find (\<lambda>j. jb_idempotency_key j = key) (js_jobs s)"

definition list_jobs :: "int \<Rightarrow> job_store \<Rightarrow> job list" where
  "list_jobs limit s =
     take (nat (max 1 (min limit 100))) (rev (sort_key (\<lambda>j. (jb_created_at j, jb_id j)) (js_jobs s)))"

definition new_job :: "ustr \<Rightarrow> ustr \<Rightarrow> ustr \<Rightarrow> ustr \<Rightarrow> ustr \<Rightarrow> ustr \<Rightarrow> ustr \<Rightarrow> job" where
  "new_job action_id actor key kind profile_sha timestamp job_id =
     \<lparr>jb_id = job_id, jb_action_id = action_id, jb_kind = kind, jb_state = Job_queued,
      jb_created_at = timestamp, jb_started_at = None, jb_finished_at = None,
      jb_updated_at = timestamp, jb_requested_by = actor, jb_summary = None,
      jb_idempotency_key = key, jb_profile_sha256 = profile_sha, jb_worker_id = None\<rparr>"

definition enqueue_job :: "ustr \<Rightarrow> ustr \<Rightarrow> ustr \<Rightarrow> ustr \<Rightarrow> ustr \<Rightarrow> ustr \<Rightarrow> ustr \<Rightarrow> job store_call" where
  "enqueue_job action_id actor key kind profile_sha timestamp job_id s =
     (if \<not> action_id_ok action_id \<or> kind \<notin> set job_kinds
      then (Inl (Value_error (u ''invalid action'')), s)
      else if \<not> idempotency_key_ok key
      then (Inl (Value_error (u ''invalid idempotency key'')), s)
      else if actor = [] \<or> 128 < length actor \<or> \<not> is_sha256 profile_sha
      then (Inl (Value_error (u ''invalid job metadata'')), s)
      else (case get_by_idempotency key s of
        Some existing \<Rightarrow>
          if jb_action_id existing \<noteq> action_id \<or> jb_kind existing \<noteq> kind
             \<or> jb_requested_by existing \<noteq> actor \<or> jb_profile_sha256 existing \<noteq> profile_sha
          then (Inl (Queue_conflict (u ''idempotency key already used for another request'')), s)
          else (Inr existing, s)
      | None \<Rightarrow>
          if has_pending s
          then (Inl (Queue_conflict (u ''a pending or uncertain job requires operator attention'')), s)
          else if list_ex (\<lambda>j. jb_id j = job_id) (js_jobs s) then (Inl Integrity_error, s)
          else (let j = new_job action_id actor key kind profile_sha timestamp job_id
                in (Inr j, s\<lparr>js_jobs := js_jobs s @ [j]\<rparr>))))"

text \<open>\<open>UPDATE jobs SET ... WHERE ...\<close>.\<close>

definition update_jobs :: "(job \<Rightarrow> bool) \<Rightarrow> (job \<Rightarrow> job) \<Rightarrow> job_store \<Rightarrow> job_store" where
  "update_jobs p f s = s\<lparr>js_jobs := map (\<lambda>j. if p j then f j else j) (js_jobs s)\<rparr>"

definition claim :: "ustr \<Rightarrow> ustr \<Rightarrow> job option store_call" where
  "claim worker_id timestamp s =
     (if list_ex (\<lambda>j. jb_state j \<in> {Job_running, Job_unknown}) (js_jobs s) then (Inr None, s)
      else (case sort_key (\<lambda>j. (jb_created_at j, jb_id j))
                   (filter (\<lambda>j. jb_state j = Job_queued) (js_jobs s)) of
        [] \<Rightarrow> (Inr None, s)
      | row # _ \<Rightarrow>
          (let s' = update_jobs (\<lambda>j. jb_id j = jb_id row)
                      (\<lambda>j. j\<lparr>jb_state := Job_running, jb_worker_id := Some worker_id,
                             jb_started_at := Some timestamp, jb_updated_at := timestamp\<rparr>) s
           in (Inr (find (\<lambda>j. jb_id j = jb_id row) (js_jobs s')), s'))))"

definition heartbeat :: "ustr \<Rightarrow> ustr option \<Rightarrow> ustr \<Rightarrow> unit store_call" where
  "heartbeat worker_id job_id timestamp s =
     (Inr (), s\<lparr>js_worker := Some \<lparr>wk_worker_id = worker_id, wk_heartbeat_at = timestamp,
                                  wk_job_id = job_id\<rparr>\<rparr>)"

definition worker_status :: "job_store \<Rightarrow> worker_row option" where
  "worker_status s = js_worker s"

definition stop_worker :: "ustr \<Rightarrow> unit store_call" where
  "stop_worker worker_id s =
     (Inr (), (case js_worker s of
                 None \<Rightarrow> s
               | Some row \<Rightarrow> if wk_worker_id row = worker_id then s\<lparr>js_worker := None\<rparr> else s))"

definition finish :: "ustr \<Rightarrow> job_state \<Rightarrow> ustr \<Rightarrow> ustr \<Rightarrow> unit store_call" where
  "finish job_id state summary timestamp s =
     (if \<not> terminal_state state \<or> 500 < length summary
      then (Inl (Value_error (u ''invalid terminal result'')), s)
      else (let p = (\<lambda>j. jb_id j = job_id \<and> jb_state j = Job_running);
                s' = update_jobs p (\<lambda>j. j\<lparr>jb_state := state, jb_summary := Some summary,
                       jb_finished_at := Some timestamp, jb_updated_at := timestamp\<rparr>) s
            in if length (filter p (js_jobs s)) \<noteq> 1
               then (Inl (Queue_conflict (u ''job is not running'')), s') else (Inr (), s')))"

definition abandon_running :: "ustr \<Rightarrow> ustr \<Rightarrow> nat store_call" where
  "abandon_running summary timestamp s =
     (let p = (\<lambda>j. jb_state j = Job_running)
      in (Inr (length (filter p (js_jobs s))),
          update_jobs p (\<lambda>j. j\<lparr>jb_state := Job_unknown, jb_summary := Some (take 500 summary),
            jb_finished_at := Some timestamp, jb_updated_at := timestamp\<rparr>) s))"

end
