(* ===== verification/AdminConfig.thy ===== *)
theory AdminConfig
  imports Queue
begin

text \<open>
  \<open>admin/config.py\<close>: the operator's action profiles, how they are read and checked. \<open>json.dumps\<close> and
  \<open>json.loads\<close> are parameters; what a path denotes on the host is a map of file facts.
\<close>

unbundle bit_operations_syntax

section \<open>The host\<close>

text \<open>What \<open>is_symlink\<close>, \<open>is_file\<close>, \<open>is_dir\<close>, \<open>stat\<close> and \<open>read_bytes\<close> answer for a path.\<close>

record host_file =
  hf_symlink :: bool
  hf_regular :: bool
  hf_directory :: bool
  hf_mode :: nat
  hf_size :: nat
  hf_content :: "nat list option"

type_synonym host = "ustr \<Rightarrow> host_file option"

datatype host_error =
    Invalid_action ustr
  | Invalid_value ustr
  | Key_error
  | Os_failure

text \<open>What Python's libraries answer: \<open>json.dumps\<close> with its defaults, and sorted with compact separators.\<close>

record console_env =
  ce_py :: pyenv
  ce_dumps :: "json \<Rightarrow> ustr"
  ce_compact :: "json \<Rightarrow> ustr"

definition is_symlink :: "host \<Rightarrow> ustr \<Rightarrow> bool" where
  "is_symlink h p = (case h p of None \<Rightarrow> False | Some f \<Rightarrow> hf_symlink f)"

definition is_file :: "host \<Rightarrow> ustr \<Rightarrow> bool" where
  "is_file h p = (case h p of None \<Rightarrow> False | Some f \<Rightarrow> hf_regular f)"

definition is_dir :: "host \<Rightarrow> ustr \<Rightarrow> bool" where
  "is_dir h p = (case h p of None \<Rightarrow> False | Some f \<Rightarrow> hf_directory f)"

definition stat :: "host \<Rightarrow> ustr \<Rightarrow> host_error + host_file" where
  "stat h p = (case h p of None \<Rightarrow> Inl Os_failure | Some f \<Rightarrow> Inr f)"

definition read_bytes :: "host \<Rightarrow> ustr \<Rightarrow> host_error + nat list" where
  "read_bytes h p =
     (case h p of
        None \<Rightarrow> Inl Os_failure
      | Some f \<Rightarrow> (case hf_content f of None \<Rightarrow> Inl Os_failure | Some b \<Rightarrow> Inr b))"

text \<open>\<open>mode & 0o022\<close>: writable by the group or by others.\<close>

definition shared_write :: "host_file \<Rightarrow> bool" where
  "shared_write f \<longleftrightarrow> (hf_mode f AND 18) \<noteq> 0"

section \<open>Profiles\<close>

record action_profile =
  ap_id :: ustr
  ap_label :: ustr
  ap_description :: ustr
  ap_kind :: ustr
  ap_parameters :: "(ustr \<times> json) list"

definition fingerprint :: "console_env \<Rightarrow> action_profile \<Rightarrow> ustr" where
  "fingerprint E p =
     sha256 (ce_py E) (ce_compact E (JObj
       [(u ''id'', JStr (ap_id p)), (u ''label'', JStr (ap_label p)),
        (u ''description'', JStr (ap_description p)), (u ''kind'', JStr (ap_kind p)),
        (u ''parameters'', JObj (ap_parameters p))]))"

text \<open>\<open>Path(value)\<close> is absolute and has no part \<open>..\<close>.\<close>

definition canonical_path :: "json \<Rightarrow> bool" where
  "canonical_path v =
     (case v of
        JStr s \<Rightarrow> length s \<le> 4096 \<and> 0 \<notin> set s \<and> 10 \<notin> set s \<and> 13 \<notin> set s
          \<and> starts_with [47] s \<and> [46, 46] \<notin> set (split_on 47 s)
      | _ \<Rightarrow> False)"

definition path_parameters :: "ustr \<Rightarrow> ustr list" where
  "path_parameters kind =
     (if kind = u ''refresh_due'' then [u ''runtime_env'']
      else [u ''manifest'', u ''composition_dir'', u ''checkpoint_dir''])"

definition expected_parameters :: "ustr \<Rightarrow> ustr list" where
  "expected_parameters kind =
     (if kind = u ''refresh_due'' then path_parameters kind
      else u ''manifest_sha256'' # path_parameters kind)"

definition validate_parameters :: "console_env \<Rightarrow> action_profile \<Rightarrow> host_error + unit" where
  "validate_parameters E p =
     (let paths = path_parameters (ap_kind p); ps = ap_parameters p
      in if set (map fst ps) \<noteq> set (expected_parameters (ap_kind p))
         then Inl (Invalid_value (u ''invalid action parameter names''))
         else if \<not> list_all (\<lambda>k. case map_of ps k of None \<Rightarrow> False | Some v \<Rightarrow> canonical_path v) paths
         then Inl (Invalid_value (u ''action paths must be absolute and canonical''))
         else if ap_kind p = u ''load_jobkorea''
            \<and> \<not> is_sha256 (py_str (ce_py E) (jget ps (u ''manifest_sha256'')))
         then Inl (Invalid_value (u ''manifest hash is required''))
         else Inr ())"

text \<open>The fields of a profile: the annotations, \<open>bounded_parameters\<close> and \<open>validate_parameters\<close>.\<close>

definition validate_profile :: "console_env \<Rightarrow> action_profile \<Rightarrow> host_error + action_profile" where
  "validate_profile E p =
     (if \<not> action_id_ok (ap_id p) \<or> ap_label p = [] \<or> 100 < length (ap_label p)
         \<or> 500 < length (ap_description p) \<or> ap_kind p \<notin> set job_kinds
      then Inl (Invalid_value (u ''profile''))
      else if 16384 < length (ce_dumps E (JObj (ap_parameters p)))
      then Inl (Invalid_value (u ''action parameters too large''))
      else rbind (validate_parameters E p) (\<lambda>_. Inr p))"

definition text_member :: "(ustr \<times> json) list \<Rightarrow> ustr \<Rightarrow> host_error + ustr" where
  "text_member kvs k =
     (case map_of kvs k of Some (JStr s) \<Rightarrow> Inr s | _ \<Rightarrow> Inl (Invalid_value (u ''profile'')))"

definition read_profile :: "console_env \<Rightarrow> json \<Rightarrow> host_error + action_profile" where
  "read_profile E v =
     (case v of
        JObj kvs \<Rightarrow>
          if \<not> set (map fst kvs) \<subseteq> {u ''id'', u ''label'', u ''description'', u ''kind'', u ''parameters''}
          then Inl (Invalid_value (u ''profile''))
          else
            rbind (text_member kvs (u ''id'')) (\<lambda>i.
            rbind (text_member kvs (u ''label'')) (\<lambda>label.
            rbind (if u ''description'' \<in> set (map fst kvs) then text_member kvs (u ''description'')
                   else Inr []) (\<lambda>description.
            rbind (text_member kvs (u ''kind'')) (\<lambda>kind.
            rbind (case map_of kvs (u ''parameters'') of
                     None \<Rightarrow> Inr [] | Some (JObj ps) \<Rightarrow> Inr ps
                   | _ \<Rightarrow> Inl (Invalid_value (u ''profile''))) (\<lambda>parameters.
            validate_profile E \<lparr>ap_id = i, ap_label = label, ap_description = description,
              ap_kind = kind, ap_parameters = parameters\<rparr>)))))
      | _ \<Rightarrow> Inl (Invalid_value (u ''profile'')))"

definition read_profiles :: "console_env \<Rightarrow> nat list \<Rightarrow> host_error + action_profile list" where
  "read_profiles E body =
     (case json_loads (ce_py E) body of
        Some (JObj kvs) \<Rightarrow>
          if set (map fst kvs) \<noteq> {u ''version'', u ''actions''} \<or> map_of kvs (u ''version'') \<noteq> Some (JInt 1)
          then Inl (Invalid_value (u ''profiles''))
          else (case map_of kvs (u ''actions'') of
            Some (JArr xs) \<Rightarrow>
              if 20 < length xs then Inl (Invalid_value (u ''profiles''))
              else rbind (rmap (read_profile E) xs) (\<lambda>ps.
                if length (remdups (map ap_id ps)) \<noteq> length ps
                then Inl (Invalid_value (u ''duplicate action id'')) else Inr ps)
          | _ \<Rightarrow> Inl (Invalid_value (u ''profiles'')))
      | _ \<Rightarrow> Inl (Invalid_value (u ''profiles'')))"

definition load_profiles :: "console_env \<Rightarrow> host \<Rightarrow> ustr option \<Rightarrow> host_error + action_profile list" where
  "load_profiles E h path =
     (case path of
        None \<Rightarrow> Inr []
      | Some p \<Rightarrow>
          if is_symlink h p \<or> \<not> is_file h p then Inl (Invalid_value (u ''invalid action configuration''))
          else rbind (stat h p) (\<lambda>f.
            if 65536 < hf_size f \<or> shared_write f
            then Inl (Invalid_value (u ''unsafe action configuration''))
            else rbind (read_bytes h p) (read_profiles E)))"

end
