(* ===== verification/Worker.thy ===== *)
theory Worker
  imports AdminConfig
begin

text \<open>
  \<open>admin/worker.py\<close>: the host worker. \<open>command_for\<close> and \<open>_profile\<close> are functions; the loop of \<open>run\<close> and
  \<open>_execute\<close> is a machine with one phase per call of the store, so that a crash, another worker and the
  web process can come between any two calls. The system holds the store, the phase of every worker
  process, the holders of the lock file and the commands that were started.
\<close>

section \<open>Commands\<close>

record worker_config =
  wc_actions_file :: ustr
  wc_repo_root :: ustr
  wc_executable :: ustr
  wc_environ :: "(ustr \<times> ustr) list"
  wc_log_dir :: ustr
  wc_log_dir_resolved :: ustr
  wc_store_dir_resolved :: ustr
  wc_once :: bool

definition restart_summary :: ustr where
  "restart_summary = u ''Worker restarted; previous operation outcome requires operator review.''"

definition unconfirmed_summary :: ustr where
  "unconfirmed_summary =
     u ''Command outcome is uncertain; inspect protected host receipts before another operation.''"

text \<open>\<open>str(Path(value))\<close> of an absolute path: two leading slashes stay, others and single dots go.\<close>

definition path_str :: "ustr \<Rightarrow> ustr" where
  "path_str s =
     (let parts = filter (\<lambda>c. c \<noteq> [] \<and> c \<noteq> [46]) (split_on 47 s);
          lead = (if starts_with [47, 47] s \<and> \<not> starts_with [47, 47, 47] s then [47, 47] else [47])
      in lead @ join_on 47 parts)"

definition path_join :: "ustr \<Rightarrow> string \<Rightarrow> ustr" where
  "path_join base name = (if ends_with [47] base then base @ u name else base @ [47] @ u name)"

definition private_file :: "host \<Rightarrow> ustr \<Rightarrow> host_error + unit" where
  "private_file h p =
     (if is_symlink h p \<or> \<not> is_file h p
      then Inl (Invalid_action (u ''The protected host input is unavailable or writable by others.''))
      else rbind (stat h p) (\<lambda>f.
        if shared_write f
        then Inl (Invalid_action (u ''The protected host input is unavailable or writable by others.''))
        else Inr ()))"

definition parameter_path :: "action_profile \<Rightarrow> string \<Rightarrow> host_error + ustr" where
  "parameter_path p k =
     (case map_of (ap_parameters p) (u k) of
        Some (JStr s) \<Rightarrow> Inr (path_str s)
      | _ \<Rightarrow> Inl Key_error)"

definition refresh_command ::
    "worker_config \<Rightarrow> host \<Rightarrow> action_profile \<Rightarrow> host_error + ustr list \<times> (ustr \<times> ustr) list" where
  "refresh_command C h p =
     rbind (parameter_path p ''runtime_env'') (\<lambda>runtime.
     rbind (private_file h runtime) (\<lambda>_.
     let script = path_join (wc_repo_root C) ''hop/operations/refresh.sh''
     in rbind (private_file h script) (\<lambda>_.
        Inr ([u ''/bin/bash'', script],
             AList.update (u ''JOBTOLOGY_HOP_RUNTIME'') runtime (wc_environ C)))))"

definition pinned_manifest :: "console_env \<Rightarrow> host \<Rightarrow> action_profile \<Rightarrow> ustr \<Rightarrow> host_error + unit" where
  "pinned_manifest E h p manifest =
     rbind (private_file h manifest) (\<lambda>_.
     rbind (stat h manifest) (\<lambda>f.
     if 16 * 1024 * 1024 < hf_size f
     then Inl (Invalid_action (u ''The approved manifest exceeds the permitted bound.''))
     else rbind (read_bytes h manifest) (\<lambda>body.
       case map_of (ap_parameters p) (u ''manifest_sha256'') of
         None \<Rightarrow> Inl Key_error
       | Some v \<Rightarrow>
           if v \<noteq> JStr (sha256 (ce_py E) body)
           then Inl (Invalid_action (u ''The approved manifest changed.'')) else Inr ())))"

definition load_command ::
    "console_env \<Rightarrow> worker_config \<Rightarrow> host \<Rightarrow> action_profile
     \<Rightarrow> host_error + ustr list \<times> (ustr \<times> ustr) list" where
  "load_command E C h p =
     rbind (parameter_path p ''manifest'') (\<lambda>manifest.
     rbind (pinned_manifest E h p manifest) (\<lambda>_.
     rbind (parameter_path p ''composition_dir'') (\<lambda>composition.
     rbind (parameter_path p ''checkpoint_dir'') (\<lambda>checkpoint.
     if is_symlink h composition \<or> \<not> is_dir h composition
     then Inl (Invalid_action (u ''The approved local composition is unavailable.''))
     else if is_symlink h checkpoint
     then Inl (Invalid_action (u ''The private checkpoint may not be a symlink.''))
     else (let script = path_join (wc_repo_root C) ''hop/operations/load_jobkorea_dataset.py''
           in rbind (private_file h script) (\<lambda>_.
              Inr ([wc_executable C, script, u ''--manifest'', manifest, u ''--composition-dir'',
                    composition, u ''--checkpoint-dir'', checkpoint], wc_environ C)))))))"

definition command_for ::
    "console_env \<Rightarrow> worker_config \<Rightarrow> host \<Rightarrow> action_profile
     \<Rightarrow> host_error + ustr list \<times> (ustr \<times> ustr) list" where
  "command_for E C h p =
     (if ap_kind p = u ''refresh_due'' then refresh_command C h p
      else if ap_kind p = u ''load_jobkorea'' then load_command E C h p
      else Inl (Invalid_action (u ''Unsupported host operation.'')))"

definition approved_profile ::
    "console_env \<Rightarrow> worker_config \<Rightarrow> host \<Rightarrow> job \<Rightarrow> host_error + action_profile" where
  "approved_profile E C h j =
     rbind (load_profiles E h (Some (wc_actions_file C))) (\<lambda>profiles.
       case find (\<lambda>p. ap_id p = jb_action_id j) profiles of
         None \<Rightarrow> Inl (Invalid_action (u ''The queued operation no longer matches its approved profile.''))
       | Some p \<Rightarrow>
           if ap_kind p \<noteq> jb_kind j \<or> fingerprint E p \<noteq> jb_profile_sha256 j
           then Inl (Invalid_action (u ''The queued operation no longer matches its approved profile.''))
           else Inr p)"

text \<open>
  The log directory, once it was made: private, no symlink, and outside the directory of the queue.
\<close>

definition path_parts :: "ustr \<Rightarrow> ustr list" where
  "path_parts s = filter (\<lambda>c. c \<noteq> []) (split_on 47 s)"

definition log_dir_private :: "worker_config \<Rightarrow> host \<Rightarrow> bool" where
  "log_dir_private C h \<longleftrightarrow>
     (case h (wc_log_dir C) of
        None \<Rightarrow> False
      | Some f \<Rightarrow> \<not> hf_symlink f \<and> (hf_mode f AND 63) = 0
          \<and> take (length (path_parts (wc_store_dir_resolved C))) (path_parts (wc_log_dir_resolved C))
              \<noteq> path_parts (wc_store_dir_resolved C))"

section \<open>The machine\<close>

text \<open>
  A phase is named after the call that comes next. Jobs are carried as the worker holds them.
\<close>

datatype phase =
    Down
  | Starting
  | Abandoning
  | Greeting
  | Looping
  | Claiming
  | Beating job
  | Preparing job
  | Refusing job ustr
  | Launching job action_profile "ustr list" "(ustr \<times> ustr) list"
  | Waiting job ustr
  | Reporting job job_state ustr
  | Uncertain job
  | Settling bool
  | Pausing
  | Stopping

text \<open>A call may fail before it changed the store, or after.\<close>

datatype call_fault = No_fault | Lost_call | Lost_answer

record step_input =
  in_fault :: call_fault
  in_now :: ustr
  in_host :: host
  in_stop :: bool
  in_popen :: bool
  in_exit :: "int option"

record step_result =
  sr_phase :: phase
  sr_store :: job_store
  sr_log :: "ustr option"
  sr_command :: "ustr list option"

definition stepped :: "phase \<Rightarrow> job_store \<Rightarrow> step_result" where
  "stepped p st = \<lparr>sr_phase = p, sr_store = st, sr_log = None, sr_command = None\<rparr>"

text \<open>
  A call of the store: the answer \<open>k\<close> goes on with, or \<open>bad\<close> when it raised.
\<close>

definition store_step ::
    "step_input \<Rightarrow> 'a store_call \<Rightarrow> job_store \<Rightarrow> phase \<Rightarrow> ('a \<Rightarrow> phase) \<Rightarrow> step_result" where
  "store_step i call st bad k =
     (case in_fault i of
        Lost_call \<Rightarrow> stepped bad st
      | Lost_answer \<Rightarrow> stepped bad (snd (call st))
      | No_fault \<Rightarrow>
          (case call st of (Inl _, st') \<Rightarrow> stepped bad st' | (Inr x, st') \<Rightarrow> stepped (k x) st'))"

text \<open>What the exit of the command is reported as.\<close>

definition exit_report :: "ustr \<Rightarrow> int \<Rightarrow> job_state \<times> ustr" where
  "exit_report kind code =
     (if code = 0 then
        (Job_succeeded,
         if kind = u ''refresh_due''
         then u ''Refresh command exited successfully; it may have been idle, fenced or lock-busy. ''
              @ u ''Consult the ledger for actual source and graph changes.''
         else u ''Local-load command exited successfully; inspect the protected receipt and ledger ''
              @ u ''for verified ingestion and graph status.'')
      else if code < 0 then (Job_unknown, unconfirmed_summary)
      else (Job_failed, u ''Host command exited with an error; partial work may exist. ''
              @ u ''Inspect protected receipts before resubmitting.''))"

definition prepare :: "console_env \<Rightarrow> worker_config \<Rightarrow> host \<Rightarrow> job \<Rightarrow> phase" where
  "prepare E C h j =
     (case rbind (approved_profile E C h j) (\<lambda>p.
             rbind (command_for E C h p) (\<lambda>(argv, environ). Inr (p, argv, environ))) of
        Inl _ \<Rightarrow> Refusing j
          (u ''Approved host configuration is unavailable or changed; command not started.'')
      | Inr (p, argv, environ) \<Rightarrow> Launching j p argv environ)"

definition launch ::
    "worker_config \<Rightarrow> step_input \<Rightarrow> ustr list \<Rightarrow> job \<Rightarrow> action_profile \<Rightarrow> ustr list \<Rightarrow> job_store \<Rightarrow> step_result" where
  "launch C i logs j p argv st =
     (let refused = Refusing j (u ''Host command could not start; inspect host configuration.'')
      in if \<not> log_dir_private C (in_host i) \<or> jb_id j \<in> set logs then stepped refused st
         else if \<not> in_popen i then (stepped refused st)\<lparr>sr_log := Some (jb_id j)\<rparr>
         else \<lparr>sr_phase = Waiting j (ap_kind p), sr_store = st, sr_log = Some (jb_id j),
               sr_command = Some argv\<rparr>)"

fun worker_step ::
    "console_env \<Rightarrow> worker_config \<Rightarrow> ustr \<Rightarrow> step_input \<Rightarrow> ustr list \<Rightarrow> phase \<Rightarrow> job_store \<Rightarrow> step_result" where
  "worker_step E C w i logs Down st = stepped Down st"
| "worker_step E C w i logs Starting st =
     (if in_fault i = No_fault \<and> isok (load_profiles E (in_host i) (Some (wc_actions_file C)))
      then stepped Abandoning st else stepped Down st)"
| "worker_step E C w i logs Abandoning st =
     store_step i (abandon_running restart_summary (in_now i)) st Down (\<lambda>_. Greeting)"
| "worker_step E C w i logs Greeting st =
     store_step i (heartbeat w None (in_now i)) st Down (\<lambda>_. Looping)"
| "worker_step E C w i logs Looping st =
     (if in_stop i then stepped Stopping st
      else store_step i (heartbeat w None (in_now i)) st Stopping (\<lambda>_. Claiming))"
| "worker_step E C w i logs Claiming st =
     store_step i (claim w (in_now i)) st Stopping
       (\<lambda>j. case j of None \<Rightarrow> Pausing | Some job \<Rightarrow> Beating job)"
| "worker_step E C w i logs (Beating j) st =
     store_step i (heartbeat w (Some (jb_id j)) (in_now i)) st Stopping (\<lambda>_. Preparing j)"
| "worker_step E C w i logs (Preparing j) st = stepped (prepare E C (in_host i) j) st"
| "worker_step E C w i logs (Refusing j summary) st =
     store_step i (finish (jb_id j) Job_failed summary (in_now i)) st Stopping (\<lambda>_. Pausing)"
| "worker_step E C w i logs (Launching j p argv environ) st = launch C i logs j p argv st"
| "worker_step E C w i logs (Waiting j kind) st =
     (case in_exit i of
        Some code \<Rightarrow> (case exit_report kind code of (state, summary) \<Rightarrow> stepped (Reporting j state summary) st)
      | None \<Rightarrow> store_step i (heartbeat w (Some (jb_id j)) (in_now i)) st (Uncertain j) (\<lambda>_. Waiting j kind))"
| "worker_step E C w i logs (Reporting j state summary) st =
     store_step i (finish (jb_id j) state summary (in_now i)) st (Uncertain j) (\<lambda>_. Settling False)"
| "worker_step E C w i logs (Uncertain j) st =
     store_step i (finish (jb_id j) Job_unknown unconfirmed_summary (in_now i)) st
       (Settling True) (\<lambda>_. Settling True)"
| "worker_step E C w i logs (Settling raised) st =
     store_step i (heartbeat w None (in_now i)) st Stopping (\<lambda>_. if raised then Stopping else Pausing)"
| "worker_step E C w i logs Pausing st = stepped (if wc_once C then Stopping else Looping) st"
| "worker_step E C w i logs Stopping st = store_step i (stop_worker w) st Down (\<lambda>_. Down)"

section \<open>The system\<close>

text \<open>
  The lock file: a worker opens its own description of it, and the command it starts inherits that
  description, so the lock is free when neither is left. Logs, commands and exits are the history.
\<close>

datatype holder = Worker_holds ustr | Command_holds ustr

record system =
  sy_store :: job_store
  sy_phase :: "ustr \<Rightarrow> phase"
  sy_lock :: "holder list"
  sy_logs :: "ustr list"
  sy_launched :: "(ustr \<times> ustr list) list"
  sy_exits :: "(ustr \<times> int) list"

definition initial_system :: system where
  "initial_system = \<lparr>sy_store = empty_store, sy_phase = (\<lambda>_. Down), sy_lock = [], sy_logs = [],
     sy_launched = [], sy_exits = []\<rparr>"

text \<open>The job a worker that waits or reports is concerned with.\<close>

fun phase_job :: "phase \<Rightarrow> job option" where
  "phase_job (Beating j) = Some j"
| "phase_job (Preparing j) = Some j"
| "phase_job (Refusing j _) = Some j"
| "phase_job (Launching j _ _ _) = Some j"
| "phase_job (Waiting j _) = Some j"
| "phase_job (Reporting j _ _) = Some j"
| "phase_job (Uncertain j) = Some j"
| "phase_job _ = None"

text \<open>\<open>process.wait\<close> returns when the command has exited, and times out while it runs.\<close>

definition answered :: "system \<Rightarrow> phase \<Rightarrow> step_input \<Rightarrow> bool" where
  "answered s p i \<longleftrightarrow>
     (case p of
        Waiting j _ \<Rightarrow>
          (case in_exit i of
             Some code \<Rightarrow> (jb_id j, code) \<in> set (sy_exits s)
           | None \<Rightarrow> Command_holds (jb_id j) \<in> set (sy_lock s))
      | _ \<Rightarrow> True)"

definition work :: "console_env \<Rightarrow> worker_config \<Rightarrow> ustr \<Rightarrow> step_input \<Rightarrow> system \<Rightarrow> system" where
  "work E C w i s =
     (let r = worker_step E C w i (sy_logs s) (sy_phase s w) (sy_store s);
          opened = (case sr_log r of None \<Rightarrow> [] | Some x \<Rightarrow> [x]);
          started = (case (sr_command r, phase_job (sy_phase s w)) of
                       (Some argv, Some j) \<Rightarrow> [(jb_id j, argv)] | _ \<Rightarrow> []);
          lock = (if sr_phase r = Down then removeAll (Worker_holds w) (sy_lock s) else sy_lock s)
      in \<lparr>sy_store = sr_store r, sy_phase = (sy_phase s)(w := sr_phase r),
          sy_lock = lock @ map (\<lambda>(j, _). Command_holds j) started,
          sy_logs = sy_logs s @ opened, sy_launched = sy_launched s @ started,
          sy_exits = sy_exits s\<rparr>)"

inductive system_step :: "console_env \<Rightarrow> worker_config \<Rightarrow> system \<Rightarrow> system \<Rightarrow> bool" for E C where
  submit: "enqueue_job a actor key kind sha t job_id (sy_store s) = (r, st)
     \<Longrightarrow> system_step E C s (s\<lparr>sy_store := st\<rparr>)"
| start: "sy_phase s w = Down \<Longrightarrow> sy_lock s = []
     \<Longrightarrow> system_step E C s (s\<lparr>sy_phase := (sy_phase s)(w := Starting), sy_lock := [Worker_holds w]\<rparr>)"
| work: "sy_phase s w \<noteq> Down \<Longrightarrow> answered s (sy_phase s w) i \<Longrightarrow> system_step E C s (work E C w i s)"
| crash: "sy_phase s w \<noteq> Down
     \<Longrightarrow> system_step E C s (s\<lparr>sy_phase := (sy_phase s)(w := Down),
                              sy_lock := removeAll (Worker_holds w) (sy_lock s)\<rparr>)"
| exited: "Command_holds j \<in> set (sy_lock s)
     \<Longrightarrow> system_step E C s (s\<lparr>sy_lock := removeAll (Command_holds j) (sy_lock s),
                              sy_exits := sy_exits s @ [(j, code)]\<rparr>)"

abbreviation system_steps :: "console_env \<Rightarrow> worker_config \<Rightarrow> system \<Rightarrow> system \<Rightarrow> bool" where
  "system_steps E C \<equiv> (system_step E C)\<^sup>*\<^sup>*"

end
