(* ===== verification/QueueFacts.thy ===== *)
theory QueueFacts
  imports Queue
begin

text \<open>
  What the calls of the queue do to its rows: identifiers and keys stay unique, at most one job is
  pending, and each call either leaves the rows alone or changes one of them, along the life of a job:
  queued, running, ended.
\<close>

section \<open>Rows by identifier\<close>

definition job_row :: "job_store \<Rightarrow> ustr \<Rightarrow> job option" where
  "job_row st = map_of (map (\<lambda>j. (jb_id j, j)) (js_jobs st))"

definition pending_job :: "job \<Rightarrow> bool" where
  "pending_job j \<longleftrightarrow> pending_state (jb_state j)"

text \<open>The invariant of the queue: the constraints of the table, and at most one pending job.\<close>

definition store_ok :: "job_store \<Rightarrow> bool" where
  "store_ok st \<longleftrightarrow>
     distinct (map jb_id (js_jobs st)) \<and> distinct (map jb_idempotency_key (js_jobs st))
     \<and> length (filter pending_job (js_jobs st)) \<le> 1"

lemma job_row_id: "job_row st i = Some j \<Longrightarrow> jb_id j = i \<and> j \<in> set (js_jobs st)"
  by (auto simp: job_row_def dest: map_of_SomeD)

lemma job_row_mem:
  "distinct (map jb_id (js_jobs st)) \<Longrightarrow> j \<in> set (js_jobs st) \<Longrightarrow> job_row st (jb_id j) = Some j"
  by (auto simp: job_row_def comp_def intro!: map_of_is_SomeI)

lemma job_row_None: "job_row st i = None \<longleftrightarrow> i \<notin> jb_id ` set (js_jobs st)"
  by (force simp: job_row_def map_of_eq_None_iff image_image)

lemma job_row_append:
  "js_jobs st' = js_jobs st @ [j] \<Longrightarrow> job_row st (jb_id j) = None
     \<Longrightarrow> job_row st' = (job_row st)(jb_id j \<mapsto> j)"
  by (rule ext) (auto simp: job_row_def map_add_def split: option.split)

lemma job_row_update [simp]:
  assumes "\<And>j. jb_id (f j) = jb_id j"
  shows "job_row (update_jobs p f st) i = map_option (\<lambda>j. if p j then f j else j) (job_row st i)"
proof -
  have "map_of (map (\<lambda>j. (jb_id j, j)) (map (\<lambda>j. if p j then f j else j) xs)) i
      = map_option (\<lambda>j. if p j then f j else j) (map_of (map (\<lambda>j. (jb_id j, j)) xs) i)" for xs
    by (induction xs) (auto simp: assms)
  then show ?thesis by (simp add: job_row_def update_jobs_def)
qed

lemma one_pending:
  assumes "store_ok st" and "job_row st i = Some j" and "job_row st k = Some l"
    and "pending_job j" and "pending_job l"
  shows "i = k \<and> j = l"
proof -
  have "j \<in> set (filter pending_job (js_jobs st))" "l \<in> set (filter pending_job (js_jobs st))"
    using assms job_row_id by auto
  moreover have "length (filter pending_job (js_jobs st)) \<le> 1" using assms(1) by (simp add: store_ok_def)
  ultimately have "j = l"
    by (cases "filter pending_job (js_jobs st)") auto
  with assms(2,3) job_row_id show ?thesis by metis
qed

lemma has_pending_iff:
  "store_ok st \<Longrightarrow> has_pending st \<longleftrightarrow> (\<exists>i j. job_row st i = Some j \<and> pending_job j)"
  using job_row_mem [of st] job_row_id [of st]
  by (auto simp: has_pending_def list_ex_iff pending_job_def store_ok_def)

lemma has_pending_filter: "has_pending st \<longleftrightarrow> filter pending_job (js_jobs st) \<noteq> []"
  by (auto simp: has_pending_def pending_job_def list_ex_iff filter_empty_conv)

text \<open>An update that keeps identifiers and keys, and makes nothing pending that was not.\<close>

lemma store_ok_update:
  assumes "store_ok st" and "\<And>j. jb_id (f j) = jb_id j"
    and "\<And>j. jb_idempotency_key (f j) = jb_idempotency_key j"
    and "\<And>j. p j \<Longrightarrow> pending_job (f j) \<Longrightarrow> pending_job j"
  shows "store_ok (update_jobs p f st)"
proof -
  let ?g = "\<lambda>j. if p j then f j else j"
  have "map jb_id (map ?g (js_jobs st)) = map jb_id (js_jobs st)"
    "map jb_idempotency_key (map ?g (js_jobs st)) = map jb_idempotency_key (js_jobs st)"
    using assms(2,3) by (simp_all add: comp_def)
  moreover have "length (filter pending_job (map ?g xs)) \<le> length (filter pending_job xs)" for xs
    using assms(4) by (induction xs) auto
  from this [of "js_jobs st"] have "length (filter pending_job (map ?g (js_jobs st))) \<le> 1"
    using assms(1) by (simp add: store_ok_def del: filter_map)
  ultimately show ?thesis
    using assms(1) by (simp add: store_ok_def update_jobs_def del: map_map map_eq_conv)
qed

lemma find_job_row: "find (\<lambda>k. jb_id k = i) (js_jobs st) = job_row st i"
proof -
  have "find (\<lambda>k. jb_id k = i) xs = map_of (map (\<lambda>j. (jb_id j, j)) xs) i" for xs :: "job list"
    by (induction xs) auto
  then show ?thesis by (simp add: job_row_def)
qed

lemma job_row_update_one:
  assumes "\<And>j. jb_id (f j) = jb_id j" and "job_row st i = Some j" and "p j"
    and "\<And>k. p k \<Longrightarrow> jb_id k = i"
  shows "job_row (update_jobs p f st) = (job_row st)(i \<mapsto> f j)"
proof
  fix k
  show "job_row (update_jobs p f st) k = ((job_row st)(i \<mapsto> f j)) k"
  proof (cases "k = i")
    case True
    with assms show ?thesis by simp
  next
    case False
    with assms(4) job_row_id [of st k] have "\<not> p x" if "job_row st k = Some x" for x using that by auto
    with False assms(1) show ?thesis by (cases "job_row st k") simp_all
  qed
qed

section \<open>The calls\<close>

lemma get_by_idempotency_row:
  "get_by_idempotency key st = Some j \<Longrightarrow> j \<in> set (js_jobs st) \<and> jb_idempotency_key j = key"
  "get_by_idempotency key st = None \<Longrightarrow> key \<notin> jb_idempotency_key ` set (js_jobs st)"
  by (auto simp: get_by_idempotency_def find_None_iff find_Some_iff)

lemma enqueue_job_effect:
  assumes "enqueue_job a actor key kind sha t i st = (r, st')" and "store_ok st"
  shows "store_ok st' \<and> js_worker st' = js_worker st
    \<and> (st' = st
       \<or> r = Inr (new_job a actor key kind sha t i) \<and> \<not> has_pending st \<and> job_row st i = None
         \<and> js_jobs st' = js_jobs st @ [new_job a actor key kind sha t i]
         \<and> job_row st' = (job_row st)(i \<mapsto> new_job a actor key kind sha t i))"
proof (cases "st' = st")
  case True
  with assms show ?thesis by simp
next
  case False
  let ?j = "new_job a actor key kind sha t i"
  from False assms(1) have key: "get_by_idempotency key st = None" and free: "\<not> has_pending st"
    and new: "\<not> list_ex (\<lambda>j. jb_id j = i) (js_jobs st)" and st': "st' = st\<lparr>js_jobs := js_jobs st @ [?j]\<rparr>"
    and r: "r = Inr ?j"
    by (auto simp: enqueue_job_def Let_def split: if_splits option.splits)
  have none: "job_row st i = None" using new by (auto simp: job_row_None list_ex_iff)
  have "job_row st' = (job_row st)(jb_id ?j \<mapsto> ?j)"
    using none by (intro job_row_append) (simp_all add: st' new_job_def)
  moreover have "store_ok st'"
    using assms(2) free get_by_idempotency_row(2) [OF key] none
    by (auto simp: store_ok_def st' new_job_def has_pending_filter job_row_None pending_job_def)
  ultimately show ?thesis using r none free by (simp add: st' new_job_def)
qed

lemma heartbeat_effect: "heartbeat w j t st = (r, st') \<Longrightarrow> r = Inr () \<and> js_jobs st' = js_jobs st"
  by (auto simp: heartbeat_def)

lemma stop_worker_effect: "stop_worker w st = (r, st') \<Longrightarrow> r = Inr () \<and> js_jobs st' = js_jobs st"
  by (auto simp: stop_worker_def split: option.splits)

lemma same_jobs: "js_jobs st' = js_jobs st \<Longrightarrow> store_ok st' = store_ok st \<and> job_row st' = job_row st"
  by (simp add: store_ok_def job_row_def fun_eq_iff)

definition running_job :: "job \<Rightarrow> bool" where
  "running_job j \<longleftrightarrow> jb_state j = Job_running"

definition claimed :: "ustr \<Rightarrow> ustr \<Rightarrow> job \<Rightarrow> job" where
  "claimed w t j = j\<lparr>jb_state := Job_running, jb_worker_id := Some w, jb_started_at := Some t,
     jb_updated_at := t\<rparr>"

definition ended :: "job_state \<Rightarrow> ustr \<Rightarrow> ustr \<Rightarrow> job \<Rightarrow> job" where
  "ended state summary t j = j\<lparr>jb_state := state, jb_summary := Some summary, jb_finished_at := Some t,
     jb_updated_at := t\<rparr>"

lemma claimed_simps [simp]:
  "jb_id (claimed w t j) = jb_id j" "jb_idempotency_key (claimed w t j) = jb_idempotency_key j"
  "jb_state (claimed w t j) = Job_running" "jb_worker_id (claimed w t j) = Some w"
  by (simp_all add: claimed_def)

lemma ended_simps [simp]:
  "jb_id (ended s m t j) = jb_id j" "jb_idempotency_key (ended s m t j) = jb_idempotency_key j"
  "jb_state (ended s m t j) = s" "jb_worker_id (ended s m t j) = jb_worker_id j"
  by (simp_all add: ended_def)

lemma claim_effect:
  assumes "claim w t st = (r, st')" and "store_ok st"
  shows "store_ok st' \<and>
    (r = Inr None \<and> st' = st
     \<or> (\<exists>j. job_row st (jb_id j) = Some j \<and> jb_state j = Job_queued \<and> r = Inr (Some (claimed w t j))
          \<and> job_row st' = (job_row st)(jb_id j \<mapsto> claimed w t j)))"
proof (cases "st' = st \<and> r = Inr None")
  case True
  with assms show ?thesis by simp
next
  case False
  let ?qs = "sort_key (\<lambda>j. (jb_created_at j, jb_id j)) (filter (\<lambda>j. jb_state j = Job_queued) (js_jobs st))"
  have f: "(\<lambda>j. j\<lparr>jb_state := Job_running, jb_worker_id := Some w, jb_started_at := Some t,
      jb_updated_at := t\<rparr>) = claimed w t" by (rule ext) (simp add: claimed_def)
  have idle: "\<not> list_ex (\<lambda>j. jb_state j \<in> {Job_running, Job_unknown}) (js_jobs st)" and "?qs \<noteq> []"
    using False assms(1) unfolding claim_def by (auto split: if_splits)
  then obtain j js where q: "?qs = j # js" by (cases ?qs) auto
  let ?st = "update_jobs (\<lambda>k. jb_id k = jb_id j) (claimed w t) st"
  have "claim w t st = (Inr (find (\<lambda>k. jb_id k = jb_id j) (js_jobs ?st)), ?st)"
    unfolding claim_def if_not_P [OF idle] q list.case Let_def f by (rule refl)
  with assms(1) have st': "st' = ?st" and r: "r = Inr (find (\<lambda>k. jb_id k = jb_id j) (js_jobs st'))"
    using prod.inject by metis+
  have "j \<in> set ?qs" by (simp add: q)
  then have j: "j \<in> set (js_jobs st)" "jb_state j = Job_queued" by auto
  have ids: "distinct (map jb_id (js_jobs st))" using assms(2) by (simp add: store_ok_def)
  have row: "job_row st (jb_id j) = Some j" using job_row_mem [OF ids j(1)] .
  have rows: "job_row st' = (job_row st)(jb_id j \<mapsto> claimed w t j)"
    unfolding st'
  proof (rule job_row_update_one)
    show "job_row st (jb_id j) = Some j" by (rule row)
  qed simp_all
  have same: "k = j" if "k \<in> set (js_jobs st)" "jb_id k = jb_id j" for k
    using job_row_mem [OF ids that(1)] row that(2) by (metis option.inject)
  have "store_ok st'" unfolding st' update_jobs_def
  proof -
    let ?g = "\<lambda>k. if jb_id k = jb_id j then claimed w t k else k"
    have "map jb_id (map ?g (js_jobs st)) = map jb_id (js_jobs st)"
      "map jb_idempotency_key (map ?g (js_jobs st)) = map jb_idempotency_key (js_jobs st)"
      by (simp_all add: comp_def)
    moreover have "\<forall>k \<in> set xs. jb_id k = jb_id j \<longrightarrow> pending_job k
        \<Longrightarrow> length (filter pending_job (map ?g xs)) = length (filter pending_job xs)" for xs
      by (induction xs) (auto simp: pending_job_def pending_state_def)
    moreover have "\<forall>k \<in> set (js_jobs st). jb_id k = jb_id j \<longrightarrow> pending_job k"
      using same j by (auto simp: pending_job_def pending_state_def)
    ultimately show "store_ok (st\<lparr>js_jobs := map ?g (js_jobs st)\<rparr>)"
      using assms(2) by (simp add: store_ok_def del: map_map map_eq_conv filter_map)
  qed
  moreover have "find (\<lambda>k. jb_id k = jb_id j) (js_jobs st') = Some (claimed w t j)" by (simp add: find_job_row rows)
  ultimately show ?thesis using r row j rows by auto
qed

lemma finish_effect:
  assumes "finish i s m t st = (r, st')" and "store_ok st"
  shows "store_ok st' \<and>
    (st' = st \<and> \<not> isok r
       \<and> (terminal_state s \<longrightarrow> length m \<le> 500 \<longrightarrow> (\<forall>j. job_row st i = Some j \<longrightarrow> \<not> running_job j))
     \<or> (\<exists>j. job_row st i = Some j \<and> running_job j \<and> terminal_state s \<and> r = Inr ()
          \<and> job_row st' = (job_row st)(i \<mapsto> ended s m t j)))"
proof -
  let ?p = "\<lambda>j. jb_id j = i \<and> jb_state j = Job_running"
  have ids: "distinct (map jb_id (js_jobs st))" using assms(2) by (simp add: store_ok_def)
  show ?thesis
  proof (cases "\<not> terminal_state s \<or> 500 < length m")
    case True
    with assms show ?thesis by (auto simp: finish_def)
  next
    case False
    then have st': "st' = update_jobs ?p (ended s m t) st"
      and r: "r = (if length (filter ?p (js_jobs st)) \<noteq> 1
                   then Inl (Queue_conflict (u ''job is not running'')) else Inr ())"
      using assms(1) by (auto simp: finish_def Let_def ended_def [abs_def] split: if_splits)
    have ok: "store_ok st'" unfolding st'
      by (rule store_ok_update [OF assms(2)]) (auto simp: pending_job_def pending_state_def)
    show ?thesis
    proof (cases "\<exists>j. job_row st i = Some j \<and> running_job j")
      case True
      then obtain j where j: "job_row st i = Some j" "running_job j" by blast
      have "x = j" if "x \<in> set (js_jobs st)" "?p x" for x
        using job_row_mem [OF ids that(1)] that(2) j(1) by simp
      then have "set (filter ?p (js_jobs st)) = {j}"
        using job_row_id [OF j(1)] j(2) by (auto simp: running_job_def)
      moreover have "distinct (filter ?p (js_jobs st))" using ids by (simp add: distinct_map)
      ultimately have "length (filter ?p (js_jobs st)) = 1" using distinct_card by fastforce
      moreover have "job_row st' = (job_row st)(i \<mapsto> ended s m t j)"
        unfolding st' using j job_row_id [OF j(1)]
        by (intro job_row_update_one) (auto simp: running_job_def)
      ultimately show ?thesis using ok r j False by auto
    next
      case none: False
      then have "\<forall>j \<in> set (js_jobs st). \<not> ?p j"
        using job_row_mem [OF ids] by (auto simp: running_job_def)
      then have "filter ?p (js_jobs st) = []" "map (\<lambda>j. if ?p j then ended s m t j else j) (js_jobs st) = js_jobs st"
        by (auto simp: filter_empty_conv intro!: map_idI)
      then show ?thesis using ok r none by (auto simp: st' update_jobs_def)
    qed
  qed
qed

lemma abandon_effect:
  assumes "abandon_running m t st = (r, st')" and "store_ok st"
  shows "store_ok st' \<and> isok r
    \<and> (\<forall>i. job_row st' i = map_option (\<lambda>j. if running_job j then ended Job_unknown (take 500 m) t j else j)
            (job_row st i))"
proof -
  have st': "st' = update_jobs (\<lambda>j. jb_state j = Job_running) (ended Job_unknown (take 500 m) t) st"
    and "isok r"
    using assms(1) by (auto simp: abandon_running_def Let_def ended_def [abs_def])
  moreover have "store_ok st'" unfolding st'
    by (rule store_ok_update [OF assms(2)]) (auto simp: pending_job_def pending_state_def)
  ultimately show ?thesis by (simp add: running_job_def)
qed

end
