(* ===== verification/WorkerFacts.thy ===== *)
theory WorkerFacts
  imports Worker QueueFacts
begin

text \<open>
  The invariant of the admin system, by rule induction over its steps: one worker at a time, one
  command at a time, every command started at most once, and rows that say what happened to it.
\<close>

section \<open>The invariant\<close>

definition launched_ids :: "system \<Rightarrow> ustr set" where
  "launched_ids s = fst ` set (sy_launched s)"

definition exit_state :: "int \<Rightarrow> job_state" where
  "exit_state code = (if code = 0 then Job_succeeded else if code < 0 then Job_unknown else Job_failed)"

lemma exit_report_state: "exit_report kind code = (st, m) \<Longrightarrow> st = exit_state code"
  by (auto simp: exit_report_def exit_state_def split: if_splits)

text \<open>The row of a job that the worker \<open>w\<close> holds.\<close>

definition held_by :: "job_store \<Rightarrow> ustr \<Rightarrow> ustr \<Rightarrow> bool" where
  "held_by st w i \<longleftrightarrow> (\<exists>r. job_row st i = Some r \<and> running_job r \<and> jb_worker_id r = Some w)"

definition commands :: "system \<Rightarrow> ustr set" where
  "commands s = {i. Command_holds i \<in> set (sy_lock s)}"

fun phase_ok :: "system \<Rightarrow> ustr \<Rightarrow> phase \<Rightarrow> bool" where
  "phase_ok s w Down = True"
| "phase_ok s w Stopping = True"
| "phase_ok s w (Settling raised) = (raised \<or> commands s = {})"
| "phase_ok s w (Waiting j _) =
     (held_by (sy_store s) w (jb_id j) \<and> jb_id j \<in> launched_ids s \<and> commands s \<subseteq> {jb_id j})"
| "phase_ok s w (Reporting j st _) =
     (held_by (sy_store s) w (jb_id j) \<and> commands s = {}
      \<and> (\<exists>code. (jb_id j, code) \<in> set (sy_exits s) \<and> st = exit_state code))"
| "phase_ok s w (Uncertain j) = (jb_id j \<in> launched_ids s \<and> commands s \<subseteq> {jb_id j})"
| "phase_ok s w p =
     (commands s = {}
      \<and> (\<forall>j. phase_job p = Some j \<longrightarrow> held_by (sy_store s) w (jb_id j) \<and> jb_id j \<notin> launched_ids s))"

definition result_ok :: "system \<Rightarrow> ustr \<Rightarrow> job \<Rightarrow> bool" where
  "result_ok s i r \<longleftrightarrow>
     (jb_state r = Job_succeeded \<longrightarrow> (i, 0) \<in> set (sy_exits s))
     \<and> (jb_state r = Job_failed \<longrightarrow> i \<notin> launched_ids s \<or> (\<exists>code > 0. (i, code) \<in> set (sy_exits s)))"

definition rows_ok :: "system \<Rightarrow> job_store \<Rightarrow> bool" where
  "rows_ok s st \<longleftrightarrow> store_ok st \<and> (\<forall>i r. job_row st i = Some r \<longrightarrow> result_ok s i r)
     \<and> (\<forall>i \<in> launched_ids s. \<exists>r. job_row st i = Some r \<and> jb_state r \<noteq> Job_queued)"

definition history_ok :: "system \<Rightarrow> bool" where
  "history_ok s \<longleftrightarrow> distinct (map fst (sy_launched s)) \<and> distinct (map fst (sy_exits s))
     \<and> commands s \<subseteq> launched_ids s \<and> fst ` set (sy_exits s) = launched_ids s - commands s"

definition sys_ok :: "system \<Rightarrow> bool" where
  "sys_ok s \<longleftrightarrow> rows_ok s (sy_store s) \<and> history_ok s
     \<and> (\<forall>w. Worker_holds w \<in> set (sy_lock s) \<longleftrightarrow> sy_phase s w \<noteq> Down)
     \<and> (\<forall>w w'. sy_phase s w \<noteq> Down \<longrightarrow> sy_phase s w' \<noteq> Down \<longrightarrow> w = w')
     \<and> (\<forall>i \<in> commands s. \<forall>k \<in> commands s. i = k)
     \<and> (\<forall>w. phase_ok s w (sy_phase s w))"

lemma sys_okI:
  assumes "rows_ok s (sy_store s)" and "history_ok s"
    and others: "\<And>w'. w' \<noteq> w \<Longrightarrow> sy_phase s w' = Down"
    and "\<And>w'. Worker_holds w' \<in> set (sy_lock s) \<longleftrightarrow> w' = w \<and> sy_phase s w \<noteq> Down"
    and "\<And>i k. i \<in> commands s \<Longrightarrow> k \<in> commands s \<Longrightarrow> i = k" and "phase_ok s w (sy_phase s w)"
  shows "sys_ok s"
proof -
  have "phase_ok s w' (sy_phase s w')" for w'
    using assms(6) others by (cases "w' = w") simp_all
  moreover have "w' = w''" if "sy_phase s w' \<noteq> Down" "sy_phase s w'' \<noteq> Down" for w' w''
    using that others by metis
  moreover have "Worker_holds w' \<in> set (sy_lock s) \<longleftrightarrow> sy_phase s w' \<noteq> Down" for w'
    using assms(4) others by (cases "w' = w") auto
  ultimately show ?thesis using assms(1,2,5) by (simp add: sys_ok_def)
qed

section \<open>What the calls keep\<close>

lemma rows_same: "js_jobs st' = js_jobs st \<Longrightarrow> rows_ok s st' = rows_ok s st \<and> held_by st' = held_by st"
  using same_jobs [of st' st] by (simp add: rows_ok_def held_by_def fun_eq_iff)

lemma rows_enqueue:
  assumes "enqueue_job a actor key kind sha t i st = (r, st')" and "rows_ok s st"
  shows "rows_ok s st' \<and> (\<forall>w k. held_by st w k \<longrightarrow> held_by st' w k)"
proof -
  have ok: "store_ok st" using assms(2) by (simp add: rows_ok_def)
  from enqueue_job_effect [OF assms(1) ok] consider "st' = st" | "job_row st i = None"
    "job_row st' = (job_row st)(i \<mapsto> new_job a actor key kind sha t i)" "store_ok st'"
    by (elim conjE disjE) simp_all
  then show ?thesis
  proof cases
    case 2
    then show ?thesis using assms(2)
      by (auto simp: rows_ok_def result_ok_def held_by_def new_job_def split: if_splits)
  qed (use assms(2) in simp)
qed

lemma rows_claim:
  assumes "claim w t st = (r, st')" and "rows_ok s st"
  shows "rows_ok s st' \<and> (\<forall>job. r = Inr (Some job) \<longrightarrow>
    held_by st' w (jb_id job) \<and> jb_id job \<notin> launched_ids s)"
proof -
  have ok: "store_ok st" using assms(2) by (simp add: rows_ok_def)
  from claim_effect [OF assms(1) ok] consider "st' = st" "r = Inr None"
    | j where "job_row st (jb_id j) = Some j" "jb_state j = Job_queued" "r = Inr (Some (claimed w t j))"
        "job_row st' = (job_row st)(jb_id j \<mapsto> claimed w t j)" "store_ok st'" by blast
  then show ?thesis
  proof cases
    case 2
    moreover have "jb_id j \<notin> launched_ids s" using 2 assms(2) by (force simp: rows_ok_def)
    ultimately show ?thesis using assms(2)
      by (auto simp: rows_ok_def result_ok_def held_by_def running_job_def)
  qed (use assms(2) in simp)
qed

lemma rows_abandon:
  assumes "abandon_running m t st = (r, st')" and "rows_ok s st"
  shows "rows_ok s st'"
proof -
  have ok: "store_ok st" using assms(2) by (simp add: rows_ok_def)
  from abandon_effect [OF assms(1) ok] have "store_ok st'" and
    rows: "\<And>i. job_row st' i = map_option (\<lambda>j. if running_job j then ended Job_unknown (take 500 m) t j else j)
       (job_row st i)" by auto
  have "result_ok s i r'" if r': "job_row st' i = Some r'" for i r'
  proof -
    from r' rows obtain q where "job_row st i = Some q"
      "r' = (if running_job q then ended Job_unknown (take 500 m) t q else q)" by auto
    with assms(2) show ?thesis by (auto simp: rows_ok_def result_ok_def)
  qed
  moreover have "\<exists>r'. job_row st' i = Some r' \<and> jb_state r' \<noteq> Job_queued" if "i \<in> launched_ids s" for i
  proof -
    from assms(2) that obtain q where "job_row st i = Some q" "jb_state q \<noteq> Job_queued"
      by (auto simp: rows_ok_def)
    then show ?thesis by (simp add: rows)
  qed
  ultimately show ?thesis using \<open>store_ok st'\<close> by (simp add: rows_ok_def)
qed

lemma rows_finish:
  assumes "finish i state m t st = (r, st')" and "rows_ok s st"
    and "state = Job_succeeded \<Longrightarrow> (i, 0) \<in> set (sy_exits s)"
    and "state = Job_failed \<Longrightarrow> i \<notin> launched_ids s \<or> (\<exists>code > 0. (i, code) \<in> set (sy_exits s))"
  shows "rows_ok s st'"
proof -
  have ok: "store_ok st" using assms(2) by (simp add: rows_ok_def)
  from finish_effect [OF assms(1) ok] consider "st' = st"
    | j where "job_row st i = Some j" "terminal_state state" "store_ok st'"
        "job_row st' = (job_row st)(i \<mapsto> ended state m t j)" by blast
  then show ?thesis
  proof cases
    case 2
    with assms(2-4) show ?thesis
      by (auto simp: rows_ok_def result_ok_def terminal_state_def)
  qed (use assms(2) in simp)
qed

lemma store_step_cases:
  assumes "store_step i call st bad k = r"
  obtains (lost) "r = stepped bad st"
    | (raised) x st' where "call st = (x, st')" "r = stepped bad st'"
    | (answer) x st' where "call st = (Inr x, st')" "r = stepped (k x) st'"
  using assms by (cases "call st")
    (auto simp: store_step_def split: call_fault.splits sum.splits)

lemma stepped_simps [simp]:
  "sr_phase (stepped p st) = p" "sr_store (stepped p st) = st" "sr_log (stepped p st) = None"
  "sr_command (stepped p st) = None"
  by (simp_all add: stepped_def)

section \<open>A step of a worker\<close>

lemma phase_ok_store:
  assumes "phase_ok s w p" and "\<And>k. held_by (sy_store s) w k \<Longrightarrow> held_by st w k"
  shows "phase_ok (s\<lparr>sy_store := st\<rparr>) w p"
  using assms by (cases p) (auto simp: commands_def launched_ids_def)

lemma updated_store [simp]:
  "commands (s\<lparr>sy_store := st\<rparr>) = commands s" "launched_ids (s\<lparr>sy_store := st\<rparr>) = launched_ids s"
  by (simp_all add: commands_def launched_ids_def)

text \<open>A call whose answer does not depend on the rows, and that keeps them.\<close>

lemma beat_step:
  assumes "store_step i (heartbeat w j t) st bad (\<lambda>_. good) = r"
  shows "(sr_phase r = bad \<or> sr_phase r = good) \<and> sr_command r = None \<and> sr_log r = None
    \<and> js_jobs (sr_store r) = js_jobs st"
  using assms by (rule store_step_cases) (auto dest: heartbeat_effect)

lemma finish_step:
  assumes "store_step i (finish k state m t) st bad (\<lambda>_. good) = r" and "rows_ok s st"
    and "state = Job_succeeded \<Longrightarrow> (k, 0) \<in> set (sy_exits s)"
    and "state = Job_failed \<Longrightarrow> k \<notin> launched_ids s \<or> (\<exists>code > 0. (k, code) \<in> set (sy_exits s))"
  shows "(sr_phase r = bad \<or> sr_phase r = good) \<and> sr_command r = None \<and> sr_log r = None
    \<and> rows_ok s (sr_store r)"
  using assms(1) by (rule store_step_cases) (auto dest!: rows_finish [OF _ assms(2-4)] simp: assms(2))

lemma worker_step_ok:
  assumes "sys_ok s" and "answered s (sy_phase s w) i"
    and "r = worker_step E C w i (sy_logs s) (sy_phase s w) (sy_store s)" and "sr_command r = None"
  shows "rows_ok s (sr_store r) \<and> phase_ok (s\<lparr>sy_store := sr_store r\<rparr>) w (sr_phase r)"
proof -
  let ?st = "sy_store s"
  have rows: "rows_ok s ?st" and ph: "phase_ok s w (sy_phase s w)" and hist: "history_ok s"
    using assms(1) by (simp_all add: sys_ok_def)
  have same: ?thesis if "js_jobs (sr_store r) = js_jobs ?st" "phase_ok s w (sr_phase r)"
    using rows_same [OF that(1), of s] rows phase_ok_store [OF that(2), of "sr_store r"] by simp
  show ?thesis
  proof (cases "sy_phase s w")
    case Down
    with assms(3) show ?thesis by (intro same) simp_all
  next
    case Starting
    with assms(3) ph show ?thesis by (intro same) auto
  next
    case Abandoning
    with assms(3) have "store_step i (abandon_running restart_summary (in_now i)) ?st Down (\<lambda>_. Greeting) = r"
      by simp
    then show ?thesis
    proof (rule store_step_cases)
      assume "r = stepped Down ?st"
      with rows show ?thesis by simp
    next
      fix x st'
      assume "abandon_running restart_summary (in_now i) ?st = (x, st')" "r = stepped Down st'"
      with rows_abandon rows show ?thesis by simp
    next
      fix x st'
      assume "abandon_running restart_summary (in_now i) ?st = (Inr x, st')" "r = stepped Greeting st'"
      with rows_abandon [OF _ rows] ph Abandoning show ?thesis by simp
    qed
  next
    case Greeting
    with assms(3) beat_step [of i w None "in_now i" ?st Down Looping r] ph show ?thesis
      by (intro same) auto
  next
    case Looping
    with assms(3) beat_step [of i w None "in_now i" ?st Stopping Claiming r] ph show ?thesis
      by (intro same) (auto split: if_splits)
  next
    case Claiming
    with assms(3) have "store_step i (claim w (in_now i)) ?st Stopping
        (\<lambda>j. case j of None \<Rightarrow> Pausing | Some job \<Rightarrow> Beating job) = r" by simp
    then show ?thesis
    proof (rule store_step_cases)
      assume "r = stepped Stopping ?st"
      with rows show ?thesis by simp
    next
      fix x st'
      assume "claim w (in_now i) ?st = (x, st')" "r = stepped Stopping st'"
      with rows_claim [OF _ rows] show ?thesis by simp
    next
      fix x st'
      assume "claim w (in_now i) ?st = (Inr x, st')" "r = stepped (case x of None \<Rightarrow> Pausing | Some job \<Rightarrow> Beating job) st'"
      with rows_claim [OF _ rows] ph Claiming show ?thesis by (auto split: option.splits)
    qed
  next
    case (Beating j)
    with assms(3) beat_step [of i w "Some (jb_id j)" "in_now i" ?st Stopping "Preparing j" r] ph show ?thesis
      by (intro same) auto
  next
    case (Preparing j)
    with assms(3) ph show ?thesis
      by (intro same) (auto simp: prepare_def split: sum.splits prod.splits)
  next
    case (Refusing j m)
    with assms(3) have "store_step i (finish (jb_id j) Job_failed m (in_now i)) ?st Stopping (\<lambda>_. Pausing) = r"
      by simp
    from finish_step [OF this rows] ph Refusing show ?thesis by auto
  next
    case (Launching j p argv environ)
    with assms(3,4) ph show ?thesis
      by (intro same) (auto simp: launch_def Let_def split: if_splits)
  next
    case (Waiting j kind)
    show ?thesis
    proof (cases "in_exit i")
      case None
      with assms(3) Waiting beat_step [of i w "Some (jb_id j)" "in_now i" ?st "Uncertain j" "Waiting j kind" r] ph
      show ?thesis by (intro same) auto
    next
      case (Some code)
      obtain st m where e: "exit_report kind code = (st, m)" by fastforce
      have x: "(jb_id j, code) \<in> set (sy_exits s)" using assms(2) Waiting Some by (simp add: answered_def)
      then have "jb_id j \<notin> commands s" using hist by (force simp: history_ok_def)
      then have "commands s = {}" using ph Waiting by auto
      with assms(3) Waiting Some e x ph exit_report_state [OF e] show ?thesis
        by (intro same) auto
    qed
  next
    case (Reporting j st m)
    from ph Reporting obtain code where code: "(jb_id j, code) \<in> set (sy_exits s)" "st = exit_state code"
      and none: "commands s = {}" by auto
    have launched: "jb_id j \<in> launched_ids s" using hist code(1) by (force simp: history_ok_def)
    from Reporting assms(3) have "store_step i (finish (jb_id j) st m (in_now i)) ?st (Uncertain j) (\<lambda>_. Settling False) = r"
      by simp
    moreover have "(jb_id j, 0) \<in> set (sy_exits s)" if "st = Job_succeeded"
      using that code by (simp add: exit_state_def split: if_splits)
    moreover have "\<exists>c > 0. (jb_id j, c) \<in> set (sy_exits s)" if "st = Job_failed"
      using that code by (intro exI [of _ code]) (simp add: exit_state_def split: if_splits)
    ultimately have "sr_phase r = Uncertain j \<or> sr_phase r = Settling False" "rows_ok s (sr_store r)"
      using finish_step [OF _ rows] by blast+
    with none launched show ?thesis by auto
  next
    case (Uncertain j)
    with assms(3) have "store_step i (finish (jb_id j) Job_unknown unconfirmed_summary (in_now i)) ?st
        (Settling True) (\<lambda>_. Settling True) = r" by simp
    from finish_step [OF this rows] show ?thesis by auto
  next
    case (Settling raised)
    with assms(3) beat_step [of i w None "in_now i" ?st Stopping "if raised then Stopping else Pausing" r] ph
    show ?thesis by (intro same) (auto split: if_splits)
  next
    case Pausing
    with assms(3) ph show ?thesis by (intro same) auto
  next
    case Stopping
    with assms(3) have "store_step i (stop_worker w) ?st Down (\<lambda>_. Down) = r" by simp
    then have "sr_phase r = Down \<and> js_jobs (sr_store r) = js_jobs ?st"
      by (rule store_step_cases) (auto dest: stop_worker_effect)
    then show ?thesis by (intro same) auto
  qed
qed

text \<open>A command is started in one phase only.\<close>

lemma worker_step_command:
  assumes "sr_command (worker_step E C w i logs p st) = Some argv"
  obtains j pr environ where "p = Launching j pr argv environ"
    and "worker_step E C w i logs p st =
      \<lparr>sr_phase = Waiting j (ap_kind pr), sr_store = st, sr_log = Some (jb_id j), sr_command = Some argv\<rparr>"
    and "jb_id j \<notin> set logs"
  using assms
proof (cases p)
  case (Launching j pr argv' environ)
  with assms that show ?thesis by (auto simp: launch_def Let_def split: if_splits)
qed (auto simp: store_step_def prepare_def exit_report_def
      split: call_fault.splits sum.splits prod.splits option.splits if_splits)

section \<open>The steps of the system\<close>

lemma work_ok:
  assumes ok: "sys_ok s" and up: "sy_phase s w \<noteq> Down" and "answered s (sy_phase s w) i"
  shows "sys_ok (work E C w i s)"
proof -
  define r where "r = worker_step E C w i (sy_logs s) (sy_phase s w) (sy_store s)"
  have others: "sy_phase s w' = Down" if "w' \<noteq> w" for w' using ok up that by (auto simp: sys_ok_def)
  have lock: "Worker_holds w' \<in> set (sy_lock s) \<longleftrightarrow> w' = w" for w'
    using ok up others by (auto simp: sys_ok_def)
  show ?thesis
  proof (cases "sr_command r")
    case None
    let ?lock = "if sr_phase r = Down then removeAll (Worker_holds w) (sy_lock s) else sy_lock s"
    let ?s = "work E C w i s"
    have new: "?s = s\<lparr>sy_store := sr_store r, sy_phase := (sy_phase s)(w := sr_phase r), sy_lock := ?lock,
        sy_logs := sy_logs s @ (case sr_log r of None \<Rightarrow> [] | Some x \<Rightarrow> [x])\<rparr>"
      using None by (simp add: work_def Let_def r_def)
    have cmd: "commands ?s = commands s" "launched_ids ?s = launched_ids s" "sy_exits ?s = sy_exits s"
      "sy_launched ?s = sy_launched s" "sy_store ?s = sr_store r"
      by (auto simp: new commands_def launched_ids_def)
    from worker_step_ok [OF ok assms(3) r_def None]
    have rows: "rows_ok s (sr_store r)" and ph: "phase_ok (s\<lparr>sy_store := sr_store r\<rparr>) w (sr_phase r)"
      by blast+
    have "rows_ok ?s (sr_store r)" using rows by (simp add: rows_ok_def result_ok_def cmd)
    moreover have "history_ok ?s" using ok by (simp add: sys_ok_def history_ok_def cmd)
    moreover have "phase_ok ?s w (sr_phase r)"
      using ph by (cases "sr_phase r") (auto simp: cmd)
    moreover have "sy_phase ?s w = sr_phase r" "sy_lock ?s = ?lock" "w' \<noteq> w \<Longrightarrow> sy_phase ?s w' = Down" for w'
      using others by (simp_all add: new)
    moreover have "i = k" if "i \<in> commands ?s" "k \<in> commands ?s" for i k
      using that ok by (simp add: sys_ok_def cmd)
    ultimately show ?thesis using lock by (intro sys_okI [of _ w]) (auto simp: cmd)
  next
    case (Some argv)
    from Some [unfolded r_def] obtain j pr environ where
      p: "sy_phase s w = Launching j pr argv environ"
      and r: "r = \<lparr>sr_phase = Waiting j (ap_kind pr), sr_store = sy_store s, sr_log = Some (jb_id j),
                   sr_command = Some argv\<rparr>"
      unfolding r_def by (rule worker_step_command)
    have "phase_ok s w (sy_phase s w)" using ok by (simp add: sys_ok_def)
    then have ph: "commands s = {}" "held_by (sy_store s) w (jb_id j)" "jb_id j \<notin> launched_ids s"
      by (simp_all add: p)
    let ?s = "work E C w i s"
    have new: "?s = s\<lparr>sy_phase := (sy_phase s)(w := Waiting j (ap_kind pr)),
        sy_lock := sy_lock s @ [Command_holds (jb_id j)], sy_logs := sy_logs s @ [jb_id j],
        sy_launched := sy_launched s @ [(jb_id j, argv)]\<rparr>"
      unfolding work_def Let_def r_def [symmetric] unfolding r p by simp
    have cmd: "commands ?s = {jb_id j}" "launched_ids ?s = insert (jb_id j) (launched_ids s)"
      "sy_exits ?s = sy_exits s" "sy_launched ?s = sy_launched s @ [(jb_id j, argv)]"
      using ph(1) by (auto simp: new commands_def launched_ids_def)
    have hist: "history_ok s" and rows: "rows_ok s (sy_store s)" using ok by (auto simp: sys_ok_def)
    obtain row where row: "job_row (sy_store s) (jb_id j) = Some row" "running_job row"
      using ph(2) by (auto simp: held_by_def)
    have "rows_ok ?s (sy_store s)"
      using rows row by (auto simp: rows_ok_def result_ok_def cmd running_job_def)
    moreover have "history_ok ?s"
      using hist ph(1,3) unfolding history_ok_def cmd by (auto simp flip: launched_ids_def)
    moreover have "sy_phase ?s w = Waiting j (ap_kind pr)" "sy_lock ?s = sy_lock s @ [Command_holds (jb_id j)]"
      "sy_store ?s = sy_store s" "w' \<noteq> w \<Longrightarrow> sy_phase ?s w' = Down" for w'
      using others by (simp_all add: new)
    ultimately show ?thesis using lock ph(2) by (intro sys_okI [of _ w]) (auto simp: cmd)
  qed
qed

lemma system_step_ok:
  assumes "system_step E C s s'" and ok: "sys_ok s"
  shows "sys_ok s'"
  using assms(1)
proof cases
  case (submit a actor key kind sha t i r st)
  have "rows_ok s (sy_store s)" using ok by (simp add: sys_ok_def)
  from rows_enqueue [OF submit(2) this] have "rows_ok s st"
    and held: "\<And>w k. held_by (sy_store s) w k \<Longrightarrow> held_by st w k" by auto
  then have "rows_ok s' st" by (simp add: submit(1) rows_ok_def result_ok_def)
  moreover have "phase_ok s' w (sy_phase s w)" for w
    using ok phase_ok_store [OF _ held] by (simp add: submit(1) sys_ok_def)
  moreover have "history_ok s'" using ok by (simp add: submit(1) sys_ok_def history_ok_def)
  ultimately show ?thesis using ok by (simp add: submit(1) sys_ok_def)
next
  case (start w)
  have cmd: "commands s' = {}" "launched_ids s' = launched_ids s" "commands s = {}"
    using start by (auto simp: commands_def launched_ids_def)
  have down: "sy_phase s w' = Down" for w' using ok start(3) by (simp add: sys_ok_def)
  show ?thesis
  proof (rule sys_okI [of _ w])
    show "rows_ok s' (sy_store s')" using ok by (simp add: start(1) sys_ok_def rows_ok_def result_ok_def launched_ids_def)
    show "history_ok s'" using ok cmd by (simp add: sys_ok_def history_ok_def) (simp add: start(1))
  qed (use down cmd in \<open>auto simp: start(1)\<close>)
next
  case (work w i)
  then show ?thesis using work_ok ok by simp
next
  case (crash w)
  have down: "sy_phase s' w' = Down" for w' using ok crash(2) by (auto simp: crash(1) sys_ok_def)
  have cmd: "commands s' = commands s" "launched_ids s' = launched_ids s"
    by (auto simp: crash(1) commands_def launched_ids_def)
  show ?thesis
  proof (rule sys_okI [of _ w])
    show "rows_ok s' (sy_store s')" using ok by (simp add: crash(1) sys_ok_def rows_ok_def result_ok_def launched_ids_def)
    show "history_ok s'" using ok cmd by (simp add: sys_ok_def history_ok_def) (simp add: crash(1))
    show "Worker_holds w' \<in> set (sy_lock s') \<longleftrightarrow> w' = w \<and> sy_phase s' w \<noteq> Down" for w'
      using ok crash(2) by (auto simp: crash(1) sys_ok_def)
    show "i = k" if "i \<in> commands s'" "k \<in> commands s'" for i k
      using that ok by (simp add: cmd sys_ok_def)
  qed (simp_all add: down)
next
  case (exited j code)
  have j: "j \<in> commands s" using exited(2) by (simp add: commands_def)
  then have one: "commands s = {j}" using ok by (auto simp: sys_ok_def)
  have cmd: "commands s' = {}" "launched_ids s' = launched_ids s" "sy_exits s' = sy_exits s @ [(j, code)]"
    "sy_phase s' = sy_phase s" "sy_store s' = sy_store s" "sy_launched s' = sy_launched s"
    using one by (auto simp: exited(1) commands_def launched_ids_def)
  have "rows_ok s' (sy_store s)" using ok by (fastforce simp: sys_ok_def rows_ok_def result_ok_def cmd)
  moreover have "history_ok s'" using ok j one by (auto simp: sys_ok_def history_ok_def cmd)
  moreover have "phase_ok s' w (sy_phase s w)" for w
  proof -
    have "phase_ok s w (sy_phase s w)" using ok by (simp add: sys_ok_def)
    then show ?thesis by (cases "sy_phase s w") (auto simp: cmd)
  qed
  moreover have "Worker_holds w \<in> set (sy_lock s') \<longleftrightarrow> Worker_holds w \<in> set (sy_lock s)" for w
    by (simp add: exited(1))
  ultimately show ?thesis using ok unfolding sys_ok_def cmd by blast
qed

lemma initial_ok: "sys_ok initial_system"
  by (simp add: sys_ok_def initial_system_def empty_store_def rows_ok_def store_ok_def job_row_def
      history_ok_def commands_def launched_ids_def)

lemma reachable_ok: "system_steps E C initial_system s \<Longrightarrow> sys_ok s"
  by (induction rule: rtranclp_induct) (auto intro: initial_ok system_step_ok)

end
