(* ===== verification/WorkerRuns.thy ===== *)
theory WorkerRuns
  imports WorkerFacts
begin

text \<open>
  What the admin system promises: rows over time, the refinement to a single slot, commands started at
  most once and only as approved, requests that are idempotent, and jobs that come to an end.
\<close>

section \<open>Rows over time\<close>

definition job_request :: "job \<Rightarrow> ustr \<times> ustr \<times> ustr \<times> ustr \<times> ustr \<times> ustr" where
  "job_request j = (jb_action_id j, jb_kind j, jb_profile_sha256 j, jb_requested_by j,
     jb_idempotency_key j, jb_created_at j)"

text \<open>A row keeps its request and only goes on: from queued to running to an end.\<close>

definition row_step :: "job \<Rightarrow> job \<Rightarrow> bool" where
  "row_step r r' \<longleftrightarrow> jb_id r' = jb_id r \<and> job_request r' = job_request r
     \<and> (r' = r \<or> jb_state r = Job_queued \<and> jb_state r' = Job_running
          \<or> jb_state r = Job_running \<and> terminal_state (jb_state r'))"

definition store_moves :: "job_store \<Rightarrow> job_store \<Rightarrow> bool" where
  "store_moves st st' \<longleftrightarrow>
     (\<forall>i r. job_row st i = Some r \<longrightarrow> (\<exists>r'. job_row st' i = Some r' \<and> row_step r r'))
     \<and> (\<forall>i r'. job_row st' i = Some r' \<longrightarrow> job_row st i = None \<longrightarrow>
          jb_state r' = Job_queued \<and> \<not> has_pending st)"

lemma store_moves_row:
  assumes "store_moves st st'" and "job_row st i = Some r"
  obtains r' where "job_row st' i = Some r'" and "row_step r r'"
  using assms unfolding store_moves_def by blast

lemma row_step_refl [simp]: "row_step r r"
  by (simp add: row_step_def)

lemma moves_same: "js_jobs st' = js_jobs st \<Longrightarrow> store_moves st st'"
  using same_jobs [of st' st] by (auto simp: store_moves_def)

lemma moves_one:
  assumes "job_row st i = Some r" and "row_step r r'" and "job_row st' = (job_row st)(i \<mapsto> r')"
  shows "store_moves st st'"
  using assms by (auto simp: store_moves_def)

lemma moves_enqueue: "enqueue_job a actor key kind sha t i st = (r, st') \<Longrightarrow> store_ok st \<Longrightarrow> store_moves st st'"
  by (drule (1) enqueue_job_effect) (auto simp: store_moves_def new_job_def split: if_splits)

lemma moves_claim:
  assumes "claim w t st = (r, st')" and "store_ok st"
  shows "store_moves st st'"
proof -
  from claim_effect [OF assms] consider "st' = st"
    | j where "job_row st (jb_id j) = Some j" "jb_state j = Job_queued"
        "job_row st' = (job_row st)(jb_id j \<mapsto> claimed w t j)" by blast
  then show ?thesis
  proof cases
    case 2
    moreover have "row_step j (claimed w t j)"
      using 2(2) by (simp add: row_step_def job_request_def) (simp add: claimed_def)
    ultimately show ?thesis by (intro moves_one)
  qed (simp add: moves_same)
qed

lemma row_step_ended:
  "running_job j \<Longrightarrow> terminal_state s \<Longrightarrow> row_step j (ended s m t j)"
  by (simp add: row_step_def job_request_def running_job_def) (simp add: ended_def)

lemma moves_finish:
  assumes "finish i s m t st = (r, st')" and "store_ok st"
  shows "store_moves st st'"
proof -
  from finish_effect [OF assms] consider "st' = st"
    | j where "job_row st i = Some j" "running_job j" "terminal_state s"
        "job_row st' = (job_row st)(i \<mapsto> ended s m t j)" by blast
  then show ?thesis
    by cases (simp add: moves_same, metis moves_one row_step_ended)
qed

lemma moves_abandon:
  assumes "abandon_running m t st = (r, st')" and "store_ok st"
  shows "store_moves st st'"
proof -
  from abandon_effect [OF assms] have
    rows: "\<And>i. job_row st' i = map_option (\<lambda>j. if running_job j then ended Job_unknown (take 500 m) t j else j)
       (job_row st i)" by blast
  have "terminal_state Job_unknown" by (simp add: terminal_state_def)
  then show ?thesis
    by (auto simp: store_moves_def rows row_step_ended)
qed

lemma moves_store_step:
  assumes "store_step i call st bad k = r"
    and "\<And>x st'. call st = (x, st') \<Longrightarrow> store_moves st st'"
  shows "store_moves st (sr_store r)"
  using assms(1)
proof (rule store_step_cases)
  assume "r = stepped bad st"
  then show ?thesis by (simp add: moves_same)
qed (use assms(2) in auto)

lemma moves_worker_step:
  assumes "store_ok st"
  shows "store_moves st (sr_store (worker_step E C w i logs p st))"
proof (cases p)
  case Abandoning
  then show ?thesis using moves_abandon assms by (auto intro: moves_store_step [OF refl])
next
  case Claiming
  then show ?thesis using moves_claim assms by (auto intro: moves_store_step [OF refl])
next
  case (Refusing j m)
  then show ?thesis using moves_finish assms by (auto intro: moves_store_step [OF refl])
next
  case (Reporting j m)
  then show ?thesis using moves_finish assms by (auto intro: moves_store_step [OF refl])
next
  case (Uncertain j)
  then show ?thesis using moves_finish assms by (auto intro: moves_store_step [OF refl])
next
  case Stopping
  have "store_moves st (sr_store (store_step i (stop_worker w) st Down (\<lambda>_. Down)))"
    by (rule moves_store_step [OF refl]) (auto dest: stop_worker_effect intro: moves_same)
  with Stopping show ?thesis by simp
qed (auto simp: moves_same launch_def Let_def split: option.splits prod.splits
      intro!: moves_store_step [OF refl] dest: heartbeat_effect)

lemma moves_system_step:
  assumes "system_step E C s s'" and "sys_ok s"
  shows "store_moves (sy_store s) (sy_store s')"
proof -
  have ok: "store_ok (sy_store s)" using assms(2) by (simp add: sys_ok_def rows_ok_def)
  from assms(1) show ?thesis
  proof cases
    case (submit a actor key kind sha t i r st)
    then show ?thesis using moves_enqueue ok by simp
  next
    case (work w i)
    then show ?thesis using moves_worker_step [OF ok] by (simp add: work_def Let_def)
  qed (simp_all add: moves_same)
qed

lemma terminal_row_stays:
  assumes "system_steps E C s s'" and "sys_ok s"
    and "job_row (sy_store s) i = Some r" and "terminal_state (jb_state r)"
  shows "job_row (sy_store s') i = Some r \<and> sys_ok s'"
  using assms(1)
proof (induction rule: rtranclp_induct)
  case base
  then show ?case using assms by simp
next
  case (step y z)
  from moves_system_step [OF step(2)] step(3) have "\<exists>r'. job_row (sy_store z) i = Some r' \<and> row_step r r'"
    by (auto simp: store_moves_def)
  then have "job_row (sy_store z) i = Some r" using assms(4) by (auto simp: row_step_def terminal_state_def)
  then show ?case using system_step_ok [OF step(2)] step(3) by simp
qed

lemma rows_keep_requests:
  assumes "system_steps E C s s'" and "sys_ok s" and "job_row (sy_store s) i = Some r"
  shows "sys_ok s' \<and> (\<exists>r'. job_row (sy_store s') i = Some r' \<and> job_request r' = job_request r
    \<and> (jb_state r \<noteq> Job_queued \<longrightarrow> jb_state r' \<noteq> Job_queued))"
  using assms(1)
proof (induction rule: rtranclp_induct)
  case base
  then show ?case using assms by simp
next
  case (step y z)
  then obtain q where q: "job_row (sy_store y) i = Some q" "job_request q = job_request r"
    "jb_state r \<noteq> Job_queued \<longrightarrow> jb_state q \<noteq> Job_queued" by blast
  from step(3) have "store_moves (sy_store y) (sy_store z)" using moves_system_step [OF step(2)] by blast
  from this q(1) obtain r' where "job_row (sy_store z) i = Some r'" "row_step q r'"
    by (rule store_moves_row)
  with q have "job_row (sy_store z) i = Some r' \<and> job_request r' = job_request r
     \<and> (jb_state r \<noteq> Job_queued \<longrightarrow> jb_state r' \<noteq> Job_queued)"
    by (auto simp: row_step_def terminal_state_def)
  then show ?case using system_step_ok [OF step(2)] step(3) by blast
qed

section \<open>A single slot\<close>

text \<open>The abstract queue: one slot, which holds a job that is queued, running or lost.\<close>

datatype slot = Free | Queued_in ustr | Running_in ustr | Lost_in ustr

inductive slot_step :: "slot \<Rightarrow> slot \<Rightarrow> bool" where
  "slot_step Free (Queued_in i)"
| "slot_step (Queued_in i) (Running_in i)"
| "slot_step (Running_in i) Free"
| "slot_step (Running_in i) (Lost_in i)"

inductive_simps slot_step_simps [simp]:
  "slot_step Free t" "slot_step (Queued_in i) t" "slot_step (Running_in i) t" "slot_step (Lost_in i) t"

definition slot_of_job :: "job \<Rightarrow> slot" where
  "slot_of_job j =
     (case jb_state j of
        Job_queued \<Rightarrow> Queued_in (jb_id j) | Job_running \<Rightarrow> Running_in (jb_id j)
      | Job_unknown \<Rightarrow> Lost_in (jb_id j) | _ \<Rightarrow> Free)"

definition slot_of :: "job_store \<Rightarrow> slot" where
  "slot_of st = (case find pending_job (js_jobs st) of None \<Rightarrow> Free | Some j \<Rightarrow> slot_of_job j)"

lemma slot_of_row:
  assumes "store_ok st" and "job_row st i = Some j" and "pending_job j"
  shows "slot_of st = slot_of_job j"
proof -
  have "j \<in> set (js_jobs st)" using assms(2) job_row_id by blast
  with assms(3) obtain k where k: "find pending_job (js_jobs st) = Some k"
    by (cases "find pending_job (js_jobs st)") (auto simp: find_None_iff)
  then have "k \<in> set (js_jobs st)" "pending_job k" by (auto simp: find_Some_iff)
  then have "job_row st (jb_id k) = Some k" using assms(1) job_row_mem by (simp add: store_ok_def)
  with one_pending [OF assms(1) this assms(2) \<open>pending_job k\<close> assms(3)] k show ?thesis
    by (simp add: slot_of_def)
qed

lemma slot_of_free:
  assumes "store_ok st" and "\<And>i j. job_row st i = Some j \<Longrightarrow> \<not> pending_job j"
  shows "slot_of st = Free"
proof -
  have "\<not> has_pending st" using assms has_pending_iff by blast
  then have "find pending_job (js_jobs st) = None"
    by (auto simp: has_pending_filter find_None_iff filter_empty_conv)
  then show ?thesis by (simp add: slot_of_def)
qed

lemma moves_slot:
  assumes ok: "store_ok st" "store_ok st'" and mv: "store_moves st st'"
  shows "slot_of st' = slot_of st \<or> slot_step (slot_of st) (slot_of st')"
proof (cases "has_pending st")
  case False
  then have none: "\<not> pending_job j" if "job_row st i = Some j" for i j
    using has_pending_iff [OF ok(1)] that by blast
  then have free: "slot_of st = Free" by (rule slot_of_free [OF ok(1)])
  show ?thesis
  proof (cases "\<exists>i j. job_row st' i = Some j \<and> pending_job j")
    case True
    then obtain i j where j: "job_row st' i = Some j" "pending_job j" by blast
    have "job_row st i = None"
    proof (rule ccontr)
      assume "job_row st i \<noteq> None"
      then obtain r where r: "job_row st i = Some r" by blast
      with mv j(1) have "row_step r j" by (metis option.inject store_moves_row)
      with none [OF r] j(2) show False
        by (auto simp: row_step_def pending_job_def pending_state_def)
    qed
    with mv j(1) have "jb_state j = Job_queued" by (simp add: store_moves_def)
    with slot_of_row [OF ok(2) j] free show ?thesis by (simp add: slot_of_job_def)
  next
    case False
    then have "slot_of st' = Free" by (intro slot_of_free [OF ok(2)]) blast
    with free show ?thesis by simp
  qed
next
  case True
  then obtain i j where j: "job_row st i = Some j" "pending_job j"
    using has_pending_iff [OF ok(1)] by blast
  note slot = slot_of_row [OF ok(1) j]
  from mv j(1) obtain j' where j': "job_row st' i = Some j'" "row_step j j'" by (rule store_moves_row)
  show ?thesis
  proof (cases "pending_job j'")
    case True
    with slot_of_row [OF ok(2) j'(1)] slot j(2) j'(2) show ?thesis
      by (auto simp: slot_of_job_def row_step_def pending_job_def pending_state_def terminal_state_def)
  next
    case ended: False
    with j(2) j'(2) have "jb_state j = Job_running"
      by (auto simp: row_step_def pending_job_def pending_state_def)
    moreover have "\<not> pending_job l" if "job_row st' k = Some l" for k l
    proof
      assume l: "pending_job l"
      have "job_row st k \<noteq> None" using mv that True by (auto simp: store_moves_def)
      then obtain q where q: "job_row st k = Some q" by blast
      with mv that have "row_step q l" by (metis option.inject store_moves_row)
      with l have "pending_job q" by (auto simp: row_step_def pending_job_def pending_state_def)
      with one_pending [OF ok(1) q j(1) _ j(2)] have "k = i" by blast
      with that j'(1) ended l show False by simp
    qed
    then have "slot_of st' = Free" by (rule slot_of_free [OF ok(2)])
    ultimately show ?thesis by (simp add: slot slot_of_job_def)
  qed
qed

text \<open>
  C18: The queue and its workers refine a single slot. Whatever the order in which requests arrive,
  workers start, crash and take over and commands exit, every step of the system leaves the slot as it
  is or takes it one step along: a job enters a free slot, is taken, and leaves it as finished or is
  lost; a lost job never leaves the slot by any step of the program.
\<close>
theorem queue_refines_slot:
  assumes "system_steps E C initial_system s" and "system_step E C s s'"
  shows "slot_of (sy_store s') = slot_of (sy_store s)
    \<or> slot_step (slot_of (sy_store s)) (slot_of (sy_store s'))"
proof -
  have ok: "sys_ok s" using reachable_ok [OF assms(1)] .
  have "sys_ok s'" using system_step_ok [OF assms(2) ok] .
  with ok moves_system_step [OF assms(2) ok] show ?thesis
    by (intro moves_slot) (simp_all add: sys_ok_def rows_ok_def)
qed

section \<open>At most once, and only once\<close>

text \<open>
  C4: In every state the system can reach, whatever crashed, at most one worker is up, at most one
  command is running, and no job's command was ever started twice. A row tells the truth: a queued job
  was not started, a job that is SUCCEEDED has a command that exited with 0, and a job that is FAILED
  was never started or its command exited with a positive code.
\<close>
theorem commands_started_once:
  assumes "system_steps E C initial_system s"
  shows "distinct (map fst (sy_launched s))
    \<and> (\<forall>w w'. sy_phase s w \<noteq> Down \<longrightarrow> sy_phase s w' \<noteq> Down \<longrightarrow> w = w')
    \<and> (\<forall>i k. Command_holds i \<in> set (sy_lock s) \<longrightarrow> Command_holds k \<in> set (sy_lock s) \<longrightarrow> i = k)
    \<and> (\<forall>i r. job_row (sy_store s) i = Some r \<longrightarrow>
         (jb_state r = Job_queued \<longrightarrow> i \<notin> launched_ids s)
         \<and> (jb_state r = Job_succeeded \<longrightarrow> i \<in> launched_ids s \<and> (i, 0) \<in> set (sy_exits s))
         \<and> (jb_state r = Job_failed \<longrightarrow>
              i \<notin> launched_ids s \<or> (\<exists>code > 0. (i, code) \<in> set (sy_exits s))))"
proof -
  have ok: "sys_ok s" using reachable_ok [OF assms] .
  have rows: "rows_ok s (sy_store s)" and hist: "history_ok s" using ok by (simp_all add: sys_ok_def)
  have "i \<notin> launched_ids s" if "job_row (sy_store s) i = Some r" "jb_state r = Job_queued" for i r
    using rows that by (auto simp: rows_ok_def)
  moreover have "i \<in> launched_ids s \<and> (i, 0) \<in> set (sy_exits s)"
    if "job_row (sy_store s) i = Some r" "jb_state r = Job_succeeded" for i r
  proof -
    have "(i, 0) \<in> set (sy_exits s)" using rows that by (simp add: rows_ok_def result_ok_def)
    with hist show ?thesis by (force simp: history_ok_def)
  qed
  moreover have "\<forall>i k. Command_holds i \<in> set (sy_lock s) \<longrightarrow> Command_holds k \<in> set (sy_lock s) \<longrightarrow> i = k"
    using ok by (simp add: sys_ok_def commands_def)
  ultimately show ?thesis
    using rows hist ok by (auto simp: rows_ok_def result_ok_def history_ok_def sys_ok_def)
qed

text \<open>
  A job that has ended stays as it is, in every later state. In particular a job whose outcome is
  not known keeps the queue closed: no later step takes it away, nothing is claimed and a new request
  is refused.
\<close>
theorem ended_jobs_stay:
  assumes "system_steps E C initial_system s" and "system_steps E C s s'"
    and "job_row (sy_store s) i = Some r" and "terminal_state (jb_state r)"
  shows "job_row (sy_store s') i = Some r
    \<and> (jb_state r = Job_unknown \<longrightarrow>
         claim w t (sy_store s') = (Inr None, sy_store s')
         \<and> (get_by_idempotency key (sy_store s') = None \<longrightarrow>
              \<not> isok (fst (enqueue_job a actor key kind sha t new (sy_store s')))
              \<and> snd (enqueue_job a actor key kind sha t new (sy_store s')) = sy_store s'))"
proof -
  have stays: "job_row (sy_store s') i = Some r"
    using terminal_row_stays [OF assms(2) reachable_ok [OF assms(1)] assms(3,4)] by blast
  then have mem: "r \<in> set (js_jobs (sy_store s'))" using job_row_id by blast
  have "claim w t (sy_store s') = (Inr None, sy_store s')"
    "has_pending (sy_store s')" if "jb_state r = Job_unknown"
    using mem that by (auto simp: claim_def has_pending_def list_ex_iff pending_state_def)
  with stays show ?thesis by (auto simp: enqueue_job_def)
qed

text \<open>
  A request is idempotent. Once it was accepted, repeating it gives the same job in whatever state
  it is by then, and never a second one: the store stays as it is.
\<close>
theorem enqueue_idempotent:
  assumes "system_steps E C initial_system s"
    and "enqueue_job a actor key kind sha t i (sy_store s) = (Inr j, st)"
    and "system_steps E C (s\<lparr>sy_store := st\<rparr>) s'"
  shows "\<exists>j'. enqueue_job a actor key kind sha t' i' (sy_store s') = (Inr j', sy_store s') \<and> jb_id j' = jb_id j"
proof -
  have ok: "sys_ok s" using reachable_ok [OF assms(1)] .
  then have store: "store_ok (sy_store s)" by (simp add: sys_ok_def rows_ok_def)
  have "system_step E C s (s\<lparr>sy_store := st\<rparr>)" using assms(2) by (rule submit)
  then have ok': "sys_ok (s\<lparr>sy_store := st\<rparr>)" using ok by (rule system_step_ok)
  then have store': "store_ok st" by (simp add: sys_ok_def rows_ok_def)
  have args: "action_id_ok a" "kind \<in> set job_kinds" "idempotency_key_ok key" "actor \<noteq> []"
    "length actor \<le> 128" "is_sha256 sha"
    and j: "j \<in> set (js_jobs st)" "jb_action_id j = a" "jb_kind j = kind" "jb_requested_by j = actor"
      "jb_profile_sha256 j = sha" "jb_idempotency_key j = key"
    using assms(2) get_by_idempotency_row(1) [of key "sy_store s"]
    by (auto simp: enqueue_job_def Let_def new_job_def not_less split: if_splits option.splits)
  have "job_row st (jb_id j) = Some j" using store' j(1) job_row_mem by (simp add: store_ok_def)
  with rows_keep_requests [OF assms(3) ok', of "jb_id j" j] obtain r where
    ok2: "sys_ok s'" and r: "job_row (sy_store s') (jb_id j) = Some r" "job_request r = job_request j" by auto
  have mem: "r \<in> set (js_jobs (sy_store s'))" "jb_id r = jb_id j" using job_row_id [OF r(1)] by auto
  have keys: "distinct (map jb_idempotency_key (js_jobs (sy_store s')))"
    using ok2 by (simp add: sys_ok_def rows_ok_def store_ok_def)
  have "jb_idempotency_key r = key" using r(2) j by (simp add: job_request_def)
  have "get_by_idempotency key (sy_store s') = Some r"
  proof (cases "get_by_idempotency key (sy_store s')")
    case None
    from get_by_idempotency_row(2) [OF this] mem(1) \<open>jb_idempotency_key r = key\<close> show ?thesis by blast
  next
    case (Some q)
    from get_by_idempotency_row(1) [OF this] have "q \<in> set (js_jobs (sy_store s'))" "jb_idempotency_key q = key" by auto
    with keys mem(1) \<open>jb_idempotency_key r = key\<close> have "q = r" by (auto simp: distinct_map inj_on_def)
    with Some show ?thesis by simp
  qed
  with args r(2) j mem(2) show ?thesis by (simp add: enqueue_job_def job_request_def)
qed

section \<open>Approved commands\<close>

definition approved :: "console_env \<Rightarrow> worker_config \<Rightarrow> job \<Rightarrow> ustr list \<Rightarrow> bool" where
  "approved E C j argv \<longleftrightarrow>
     (\<exists>h p environ. approved_profile E C h j = Inr p \<and> command_for E C h p = Inr (argv, environ))"

lemma approved_request:
  assumes "job_request j = job_request j'"
  shows "approved E C j = approved E C j'"
proof -
  from assms have "jb_action_id j = jb_action_id j'" "jb_kind j = jb_kind j'"
    "jb_profile_sha256 j = jb_profile_sha256 j'" by (simp_all add: job_request_def)
  then have "approved_profile E C h j = approved_profile E C h j'" for h
    unfolding approved_profile_def by metis
  then show ?thesis by (simp add: approved_def fun_eq_iff)
qed

definition carried_ok :: "console_env \<Rightarrow> worker_config \<Rightarrow> system \<Rightarrow> bool" where
  "carried_ok E C s \<longleftrightarrow>
     (\<forall>w j. phase_job (sy_phase s w) = Some j \<longrightarrow>
        (\<exists>r. job_row (sy_store s) (jb_id j) = Some r \<and> job_request r = job_request j))
     \<and> (\<forall>w j p argv environ. sy_phase s w = Launching j p argv environ \<longrightarrow> approved E C j argv)
     \<and> (\<forall>(i, argv) \<in> set (sy_launched s). \<exists>r. job_row (sy_store s) i = Some r \<and> approved E C r argv)"

text \<open>The job of a phase is the one of the phase before, or the one that was claimed.\<close>

lemma store_step_phase:
  "sr_phase (store_step i call st bad k) = q \<Longrightarrow>
     q = bad \<or> (\<exists>x. call st = (Inr x, sr_store (store_step i call st bad k)) \<and> q = k x)"
  by (cases "call st") (auto simp: store_step_def split: call_fault.splits sum.splits)

lemma store_step_job:
  "phase_job (sr_phase (store_step i call st bad k)) = Some j \<Longrightarrow>
     phase_job bad = Some j \<or> (\<exists>x. call st = (Inr x, sr_store (store_step i call st bad k)) \<and> phase_job (k x) = Some j)"
  using store_step_phase [OF refl, of i call st bad k] by metis

lemma worker_step_job:
  assumes "phase_job (sr_phase (worker_step E C w i logs p st)) = Some j"
  shows "phase_job p = Some j
    \<or> (\<exists>t. claim w t st = (Inr (Some j), sr_store (worker_step E C w i logs p st)))"
proof (cases p)
  case Claiming
  from store_step_phase [OF refl, of i "claim w (in_now i)" st Stopping
      "\<lambda>j. case j of None \<Rightarrow> Pausing | Some job \<Rightarrow> Beating job"] assms Claiming
  show ?thesis by (auto split: option.splits)
next
  case (Launching j p argv environ)
  with assms show ?thesis by (auto simp: launch_def Let_def split: if_splits)
next
  case (Preparing j)
  with assms show ?thesis by (auto simp: prepare_def split: sum.splits prod.splits)
qed (use assms in \<open>auto split: if_splits option.splits prod.splits dest!: store_step_job\<close>)

lemma worker_step_launching:
  assumes "sr_phase (worker_step E C w i logs p st) = Launching j pr argv environ"
  shows "approved E C j argv"
proof (cases p)
  case (Preparing k)
  with assms show ?thesis
    by (auto simp: prepare_def approved_def rbind_Inr_iff split: sum.splits prod.splits)
next
  case (Launching j p argv environ)
  with assms show ?thesis by (auto simp: launch_def Let_def split: if_splits)
qed (use assms in \<open>auto split: if_splits option.splits prod.splits dest!: store_step_phase\<close>)

lemma claim_row:
  assumes "claim w t st = (Inr (Some j), st')" and "store_ok st"
  shows "job_row st' (jb_id j) = Some j"
  using claim_effect [OF assms] by auto

lemma carried_rows:
  assumes "store_moves st st'" and "job_row st i = Some r" and "job_request r = q"
  shows "\<exists>r'. job_row st' i = Some r' \<and> job_request r' = q"
proof -
  from assms(1,2) obtain r' where "job_row st' i = Some r'" "row_step r r'" by (rule store_moves_row)
  with assms(3) show ?thesis by (auto simp: row_step_def)
qed

lemma approved_rows:
  assumes "store_moves st st'" and "\<exists>r. job_row st i = Some r \<and> approved E C r argv"
  shows "\<exists>r'. job_row st' i = Some r' \<and> approved E C r' argv"
proof -
  from assms(2) obtain r where r: "job_row st i = Some r" "approved E C r argv" by blast
  from assms(1) r(1) obtain r' where "job_row st' i = Some r'" "row_step r r'" by (rule store_moves_row)
  moreover from this(2) have "job_request r' = job_request r" by (simp add: row_step_def)
  ultimately show ?thesis using r(2) approved_request [of r' r] by auto
qed

lemma carried_step:
  assumes "system_step E C s s'" and ok: "sys_ok s" and car: "carried_ok E C s"
  shows "carried_ok E C s'"
proof -
  note mv = moves_system_step [OF assms(1) ok]
  have keep: ?thesis if "\<And>w. sy_phase s' w = sy_phase s w \<or> sy_phase s' w \<in> {Down, Starting}"
    "sy_launched s' = sy_launched s"
  proof -
    have "\<exists>r. job_row (sy_store s') (jb_id j) = Some r \<and> job_request r = job_request j"
      if "phase_job (sy_phase s' w) = Some j" for w j
    proof -
      have "phase_job (sy_phase s w) = Some j" using that \<open>\<And>w. sy_phase s' w = _ \<or> _\<close> [of w] by auto
      with car carried_rows [OF mv] show ?thesis unfolding carried_ok_def by blast
    qed
    moreover have "approved E C j argv" if "sy_phase s' w = Launching j p argv environ" for w j p argv environ
    proof -
      have "sy_phase s w = Launching j p argv environ"
        using that \<open>\<And>w. sy_phase s' w = _ \<or> _\<close> [of w] by auto
      with car show ?thesis unfolding carried_ok_def by blast
    qed
    moreover have "\<exists>r. job_row (sy_store s') i = Some r \<and> approved E C r argv"
      if "(i, argv) \<in> set (sy_launched s')" for i argv
      using car that approved_rows [OF mv] \<open>sy_launched s' = _\<close> by (fastforce simp: carried_ok_def)
    ultimately show ?thesis unfolding carried_ok_def by blast
  qed
  from assms(1) show ?thesis
  proof cases
    case (work w i)
    let ?r = "worker_step E C w i (sy_logs s) (sy_phase s w) (sy_store s)"
    have st: "sy_store s' = sr_store ?r" "sy_phase s' = (sy_phase s)(w := sr_phase ?r)"
      by (simp_all add: work(1) work_def Let_def)
    have store: "store_ok (sy_store s)" using ok by (simp add: sys_ok_def rows_ok_def)
    have "\<exists>r. job_row (sy_store s') (jb_id j) = Some r \<and> job_request r = job_request j"
      if j: "phase_job (sy_phase s' w') = Some j" for w' j
    proof (cases "phase_job (sy_phase s w') = Some j")
      case True
      with car carried_rows [OF mv] show ?thesis unfolding carried_ok_def by blast
    next
      case False
      with j have "phase_job (sr_phase ?r) = Some j" "phase_job (sy_phase s w) \<noteq> Some j"
        by (auto simp: st split: if_splits)
      with worker_step_job obtain t where "claim w t (sy_store s) = (Inr (Some j), sr_store ?r)" by blast
      from claim_row [OF this store] show ?thesis by (auto simp: st)
    qed
    moreover have "approved E C j argv" if "sy_phase s' w' = Launching j p argv environ" for w' j p argv environ
      using that car worker_step_launching by (fastforce simp: st carried_ok_def split: if_splits)
    moreover have "\<exists>r. job_row (sy_store s') k = Some r \<and> approved E C r argv"
      if k: "(k, argv) \<in> set (sy_launched s')" for k argv
    proof (cases "(k, argv) \<in> set (sy_launched s)")
      case True
      with car approved_rows [OF mv] show ?thesis by (fastforce simp: carried_ok_def)
    next
      case False
      with k have c: "Some argv = sr_command ?r" "\<exists>j. Some j = phase_job (sy_phase s w) \<and> jb_id j = k"
        by (auto simp: work(1) work_def Let_def split: option.splits)
      from c(2) obtain j where j: "phase_job (sy_phase s w) = Some j" "jb_id j = k" by metis
      from c(1) [symmetric] obtain j' p environ where "sy_phase s w = Launching j' p argv environ"
        by (rule worker_step_command)
      moreover from this j(1) have "j' = j" by simp
      ultimately have "approved E C j argv" using car unfolding carried_ok_def by blast
      moreover obtain r where "job_row (sy_store s') k = Some r" "job_request r = job_request j"
        using car j carried_rows [OF mv] unfolding carried_ok_def by blast
      ultimately show ?thesis using approved_request by metis
    qed
    ultimately show ?thesis unfolding carried_ok_def by blast
  qed (intro keep; auto)+
qed

text \<open>
  No command other than an approved one is ever started. For every command that was, the arguments
  are those that the worker builds from a profile of the operator's file whose kind and digest are the
  ones its job was requested with; nothing of the request itself gets into them.
\<close>
theorem only_approved_commands:
  assumes "system_steps E C initial_system s" and "(i, argv) \<in> set (sy_launched s)"
  shows "\<exists>r h p environ. job_row (sy_store s) i = Some r
    \<and> fingerprint E p = jb_profile_sha256 r \<and> ap_kind p = jb_kind r \<and> ap_id p = jb_action_id r
    \<and> (\<exists>ps. load_profiles E h (Some (wc_actions_file C)) = Inr ps \<and> p \<in> set ps)
    \<and> command_for E C h p = Inr (argv, environ)"
proof -
  have "carried_ok E C s \<and> sys_ok s"
    using assms(1)
  proof (induction rule: rtranclp_induct)
    case base
    then show ?case using initial_ok by (simp add: carried_ok_def initial_system_def)
  next
    case (step y z)
    then show ?case using carried_step system_step_ok by blast
  qed
  with assms(2) obtain r where r: "job_row (sy_store s) i = Some r" "approved E C r argv"
    by (fastforce simp: carried_ok_def)
  then obtain h p environ where p: "approved_profile E C h r = Inr p" "command_for E C h p = Inr (argv, environ)"
    by (auto simp: approved_def)
  from p(1) obtain ps where ps: "load_profiles E h (Some (wc_actions_file C)) = Inr ps"
    "find (\<lambda>p. ap_id p = jb_action_id r) ps = Some p" "ap_kind p = jb_kind r" "fingerprint E p = jb_profile_sha256 r"
    by (auto simp: approved_profile_def rbind_Inr_iff split: option.splits if_splits)
  then have "p \<in> set ps" "ap_id p = jb_action_id r" by (auto simp: find_Some_iff)
  with r(1) ps p(2) show ?thesis by blast
qed

section \<open>Jobs come to an end\<close>

text \<open>
  A turn of a worker without faults: a command that still runs exits first, with the code the input
  gives.
\<close>

definition exit_now :: "ustr \<Rightarrow> step_input \<Rightarrow> system \<Rightarrow> system" where
  "exit_now w i s =
     (case sy_phase s w of
        Waiting j _ \<Rightarrow>
          (if jb_id j \<in> commands s
           then s\<lparr>sy_lock := removeAll (Command_holds (jb_id j)) (sy_lock s),
                  sy_exits := sy_exits s @ [(jb_id j, the (in_exit i))]\<rparr>
           else s)
      | _ \<Rightarrow> s)"

definition exit_code :: "system \<Rightarrow> ustr \<Rightarrow> int option" where
  "exit_code s i = map_of (sy_exits s) i"

definition calm_turn :: "console_env \<Rightarrow> worker_config \<Rightarrow> ustr \<Rightarrow> step_input \<Rightarrow> system \<Rightarrow> system" where
  "calm_turn E C w i s =
     (let s1 = exit_now w i s
      in work E C w (i\<lparr>in_fault := No_fault,
           in_exit := (case sy_phase s w of Waiting j _ \<Rightarrow> exit_code s1 (jb_id j) | _ \<Rightarrow> in_exit i)\<rparr>) s1)"

text \<open>How many turns are left before the row of a held job ends.\<close>

fun rank :: "phase \<Rightarrow> nat" where
  "rank (Beating _) = 5"
| "rank (Preparing _) = 4"
| "rank (Launching _ _ _ _) = 3"
| "rank (Waiting _ _) = 2"
| "rank _ = 1"

lemma exit_now_effect:
  assumes "sys_ok s"
  shows "system_steps E C s (exit_now w i s)" and "sy_phase (exit_now w i s) = sy_phase s"
    and "sy_store (exit_now w i s) = sy_store s"
    and "sy_phase s w = Waiting j k \<Longrightarrow> exit_code (exit_now w i s) (jb_id j) \<noteq> None"
proof -
  show "system_steps E C s (exit_now w i s)"
    by (auto simp: exit_now_def commands_def split: phase.split intro!: r_into_rtranclp exited)
  show "sy_phase (exit_now w i s) = sy_phase s" "sy_store (exit_now w i s) = sy_store s"
    by (auto simp: exit_now_def split: phase.split)
  assume p: "sy_phase s w = Waiting j k"
  have "phase_ok s w (sy_phase s w)" and hist: "history_ok s" using assms by (simp_all add: sys_ok_def)
  then have "jb_id j \<in> launched_ids s" by (simp add: p)
  then have "jb_id j \<notin> commands s \<Longrightarrow> jb_id j \<in> fst ` set (sy_exits s)"
    using hist by (simp add: history_ok_def)
  then show "exit_code (exit_now w i s) (jb_id j) \<noteq> None"
    by (auto simp: exit_now_def p exit_code_def map_of_eq_None_iff)
qed

lemma work_down:
  assumes "sys_ok s" and "sy_phase s w = Down"
  shows "work E C w i s = s"
proof -
  have "Worker_holds w \<notin> set (sy_lock s)" using assms by (simp add: sys_ok_def)
  with assms(2) show ?thesis by (cases s) (auto simp: work_def Let_def fun_upd_idem)
qed

lemma calm_turn_steps:
  assumes "sys_ok s"
  shows "system_steps E C s (calm_turn E C w i s)"
proof -
  let ?s1 = "exit_now w i s"
  let ?i = "i\<lparr>in_fault := No_fault, in_exit :=
    (case sy_phase s w of Waiting j _ \<Rightarrow> exit_code ?s1 (jb_id j) | _ \<Rightarrow> in_exit i)\<rparr>"
  note e = exit_now_effect [OF assms, where w = w and i = i]
  have turn: "calm_turn E C w i s = work E C w ?i ?s1" by (simp add: calm_turn_def Let_def)
  show ?thesis
  proof (cases "sy_phase s w = Down")
    case True
    with assms turn work_down show ?thesis by (simp add: exit_now_def)
  next
    case False
    have "answered ?s1 (sy_phase ?s1 w) ?i"
      using e(4) by (auto simp: answered_def e(2) exit_code_def split: phase.split option.split
          dest: map_of_SomeD)
    then have "system_step E C ?s1 (work E C w ?i ?s1)" using False e(2) by (intro system_step.work) simp_all
    with e(1) [of E C] show ?thesis unfolding turn by (rule rtranclp.rtrancl_into_rtrancl)
  qed
qed

lemma finish_running:
  assumes "store_ok st" and "job_row st k = Some j" and "running_job j" and "terminal_state state"
    and "length m \<le> 500"
  shows "\<exists>st'. finish k state m t st = (Inr (), st') \<and> job_row st' k = Some (ended state m t j)"
proof -
  obtain r st' where f: "finish k state m t st = (r, st')" by fastforce
  from finish_effect [OF f assms(1)] assms(2-5) f show ?thesis by auto
qed

lemma held_row:
  assumes "sys_ok s" and "phase_job (sy_phase s w) = Some j"
  shows "\<exists>r. job_row (sy_store s) (jb_id j) = Some r \<and> (running_job r \<or> terminal_state (jb_state r))"
proof -
  have "phase_ok s w (sy_phase s w)" and rows: "rows_ok s (sy_store s)" using assms(1) by (simp_all add: sys_ok_def)
  with assms(2) consider "held_by (sy_store s) w (jb_id j)" | "jb_id j \<in> launched_ids s"
    by (cases "sy_phase s w") auto
  then show ?thesis
  proof cases
    case 1
    then show ?thesis by (auto simp: held_by_def)
  next
    case 2
    with rows obtain r where "job_row (sy_store s) (jb_id j) = Some r" "jb_state r \<noteq> Job_queued"
      by (auto simp: rows_ok_def)
    then show ?thesis by (cases "jb_state r") (auto simp: running_job_def terminal_state_def)
  qed
qed

definition settled :: "system \<Rightarrow> ustr \<Rightarrow> bool" where
  "settled s i \<longleftrightarrow> (\<exists>r. job_row (sy_store s) i = Some r \<and> terminal_state (jb_state r))"

text \<open>A turn that calls \<open>finish\<close> settles the job.\<close>

lemma finish_settles:
  assumes "sys_ok s" and "phase_job (sy_phase s w) = Some j" and "terminal_state state" and "length m \<le> 500"
    and "in_fault i = No_fault"
    and "sr_store r = snd (finish (jb_id j) state m (in_now i) (sy_store s))"
  shows "\<exists>q. job_row (sr_store r) (jb_id j) = Some q \<and> terminal_state (jb_state q)"
proof -
  have ok: "store_ok (sy_store s)" using assms(1) by (simp add: sys_ok_def rows_ok_def)
  from held_row [OF assms(1,2)] obtain q where q: "job_row (sy_store s) (jb_id j) = Some q"
    "running_job q \<or> terminal_state (jb_state q)" by blast
  show ?thesis
  proof (cases "running_job q")
    case True
    from finish_running [OF ok q(1) True assms(3,4), of "in_now i"] assms(3,6) show ?thesis by auto
  next
    case False
    obtain x st' where f: "finish (jb_id j) state m (in_now i) (sy_store s) = (x, st')" by fastforce
    from finish_effect [OF f ok] False q(1) have "st' = sy_store s" by auto
    with False q f assms(6) show ?thesis by auto
  qed
qed

lemma no_fault_step:
  "in_fault i = No_fault \<Longrightarrow> sr_store (store_step i call st bad k) = snd (call st)"
  by (cases "call st") (auto simp: store_step_def split: sum.splits)

text \<open>Every summary that the worker writes fits into the column.\<close>

lemma summaries_short:
  "length unconfirmed_summary \<le> 500" "length (snd (exit_report kind code)) \<le> 500"
  by (simp_all add: unconfirmed_summary_def exit_report_def)

fun short_summaries :: "phase \<Rightarrow> bool" where
  "short_summaries (Refusing _ m) = (length m \<le> 500)"
| "short_summaries (Reporting _ s m) = (length m \<le> 500 \<and> terminal_state s)"
| "short_summaries _ = True"

lemma exit_report_terminal: "terminal_state (fst (exit_report kind code))"
  by (simp add: exit_report_def terminal_state_def)

lemma store_step_short:
  "short_summaries bad \<Longrightarrow> (\<And>x. short_summaries (k x)) \<Longrightarrow> short_summaries (sr_phase (store_step i call st bad k))"
  by (cases "call st") (auto simp: store_step_def split: call_fault.split sum.split)

lemma worker_step_short: "short_summaries p \<Longrightarrow> short_summaries (sr_phase (worker_step E C w i logs p st))"
proof (cases p)
  case (Waiting j kind)
  then show ?thesis
    using summaries_short(2) [of kind] exit_report_terminal [of kind]
    by (auto split: option.split prod.split intro!: store_step_short) (metis fst_conv snd_conv)+
qed (auto simp: prepare_def launch_def Let_def split: sum.split prod.split option.split intro!: store_step_short)

lemma calm_turn_progress:
  assumes ok: "sys_ok s" and short: "short_summaries (sy_phase s w)" and job: "phase_job (sy_phase s w) = Some j"
  shows "settled (calm_turn E C w i s) (jb_id j)
    \<or> phase_job (sy_phase (calm_turn E C w i s) w) = Some j
      \<and> rank (sy_phase (calm_turn E C w i s) w) < rank (sy_phase s w)"
proof -
  let ?s1 = "exit_now w i s"
  define i' where "i' = i\<lparr>in_fault := No_fault, in_exit :=
    (case sy_phase s w of Waiting j _ \<Rightarrow> exit_code ?s1 (jb_id j) | _ \<Rightarrow> in_exit i)\<rparr>"
  define r where "r = worker_step E C w i' (sy_logs ?s1) (sy_phase s w) (sy_store s)"
  note e = exit_now_effect [OF ok, where w = w and i = i]
  have i': "in_fault i' = No_fault" by (simp add: i'_def)
  have s': "sy_store (calm_turn E C w i s) = sr_store r" "sy_phase (calm_turn E C w i s) w = sr_phase r"
    by (simp_all add: calm_turn_def Let_def work_def r_def i'_def e(2,3))
  have ends: ?thesis if "terminal_state state" "length m \<le> 500"
    "sr_store r = snd (finish (jb_id j) state m (in_now i') (sy_store s))" for state m
    using finish_settles [OF ok job that(1,2) i' that(3)] by (simp add: settled_def s')
  show ?thesis
  proof (cases "sy_phase s w")
    case (Beating k)
    with job show ?thesis by (simp add: s' r_def store_step_def i' heartbeat_def)
  next
    case (Preparing k)
    with job show ?thesis by (auto simp: s' r_def prepare_def split: sum.split prod.split)
  next
    case (Refusing k m)
    with job short show ?thesis
      by (intro ends [of Job_failed m]) (simp_all add: r_def no_fault_step i' terminal_state_def)
  next
    case (Launching k p argv environ)
    with job show ?thesis by (simp add: s' r_def launch_def Let_def)
  next
    case (Waiting k kind)
    then obtain c where "in_exit i' = Some c" using e(4) [OF Waiting] by (auto simp: i'_def)
    with Waiting job show ?thesis by (simp add: s' r_def split: prod.split)
  next
    case (Reporting k state m)
    with job short show ?thesis
      by (intro ends [of state m]) (simp_all add: r_def no_fault_step i')
  next
    case (Uncertain k)
    with job summaries_short(1) show ?thesis
      by (intro ends [of Job_unknown unconfirmed_summary])
        (simp_all add: r_def no_fault_step i' terminal_state_def)
  qed (use job in simp_all)
qed

lemma short_step:
  assumes "system_step E C s s'" and "\<And>w. short_summaries (sy_phase s w)"
  shows "short_summaries (sy_phase s' w)"
  using assms(1)
proof cases
  case (work v i)
  then show ?thesis using assms(2) worker_step_short by (simp add: work_def Let_def)
qed (use assms(2) in auto)

lemma reachable_short: "system_steps E C initial_system s \<Longrightarrow> short_summaries (sy_phase s w)"
  by (induction arbitrary: w rule: rtranclp_induct) (simp add: initial_system_def, blast intro: short_step)

definition calm_turns :: "console_env \<Rightarrow> worker_config \<Rightarrow> ustr \<Rightarrow> step_input list \<Rightarrow> system \<Rightarrow> system" where
  "calm_turns E C w is s = fold (calm_turn E C w) is s"

lemma calm_turns_settle:
  assumes "system_steps E C initial_system s"
    and "settled s (jb_id j) \<or> phase_job (sy_phase s w) = Some j \<and> rank (sy_phase s w) \<le> length is"
  shows "settled (calm_turns E C w is s) (jb_id j)"
  using assms
proof (induction "is" arbitrary: s)
  case Nil
  have "rank p \<noteq> 0" for p by (cases p) simp_all
  with Nil show ?case by (auto simp: calm_turns_def)
next
  case (Cons i "is")
  have ok: "sys_ok s" using reachable_ok [OF Cons.prems(1)] .
  let ?s = "calm_turn E C w i s"
  have steps: "system_steps E C s ?s" using calm_turn_steps [OF ok] .
  have "settled ?s (jb_id j) \<or> phase_job (sy_phase ?s w) = Some j \<and> rank (sy_phase ?s w) \<le> length is"
    using Cons.prems(2)
  proof
    assume "settled s (jb_id j)"
    with terminal_row_stays [OF steps ok] show ?thesis by (auto simp: settled_def)
  next
    assume "phase_job (sy_phase s w) = Some j \<and> rank (sy_phase s w) \<le> length (i # is)"
    with calm_turn_progress [OF ok reachable_short [OF Cons.prems(1)], of w j E C i] show ?thesis by auto
  qed
  moreover have "system_steps E C initial_system ?s" using Cons.prems(1) steps by (rule rtranclp_trans)
  ultimately show ?case using Cons.IH by (simp add: calm_turns_def)
qed

text \<open>
  C33: A job that a worker holds comes to an end. From any state the system can reach, if the worker is
  not crashed and its calls of the store go through, five of its turns end the job, whatever the
  operator's files say, whether the command can be started or not and whatever code it exits with;
  only a command that does not exit can hold the job up.
\<close>
theorem held_job_ends:
  assumes "system_steps E C initial_system s" and "phase_job (sy_phase s w) = Some j" and "5 \<le> length is"
  shows "\<exists>r. job_row (sy_store (calm_turns E C w is s)) (jb_id j) = Some r \<and> terminal_state (jb_state r)"
proof -
  have "rank p \<le> 5" for p by (cases p) simp_all
  then have "rank (sy_phase s w) \<le> length is" using assms(3) le_trans by blast
  with calm_turns_settle [OF assms(1)] assms(2) show ?thesis by (auto simp: settled_def)
qed

section \<open>An example\<close>

text \<open>Steps of the system as data, so that a run can be computed.\<close>

datatype move =
    Submit_request ustr ustr ustr ustr ustr ustr ustr
  | Start_worker ustr
  | Work_on ustr step_input
  | Crash_worker ustr
  | Command_exits ustr int

definition is_down :: "phase \<Rightarrow> bool" where
  "is_down p = (case p of Down \<Rightarrow> True | _ \<Rightarrow> False)"

definition play_move :: "console_env \<Rightarrow> worker_config \<Rightarrow> move \<Rightarrow> system \<Rightarrow> system option" where
  "play_move E C m s =
     (case m of
        Submit_request a actor key kind sha t i \<Rightarrow>
          Some (s\<lparr>sy_store := snd (enqueue_job a actor key kind sha t i (sy_store s))\<rparr>)
      | Start_worker w \<Rightarrow>
          if is_down (sy_phase s w) \<and> sy_lock s = []
          then Some (s\<lparr>sy_phase := (sy_phase s)(w := Starting), sy_lock := [Worker_holds w]\<rparr>) else None
      | Work_on w i \<Rightarrow>
          if \<not> is_down (sy_phase s w) \<and> answered s (sy_phase s w) i then Some (work E C w i s) else None
      | Crash_worker w \<Rightarrow>
          if is_down (sy_phase s w) then None
          else Some (s\<lparr>sy_phase := (sy_phase s)(w := Down), sy_lock := removeAll (Worker_holds w) (sy_lock s)\<rparr>)
      | Command_exits j code \<Rightarrow>
          if Command_holds j \<in> set (sy_lock s)
          then Some (s\<lparr>sy_lock := removeAll (Command_holds j) (sy_lock s), sy_exits := sy_exits s @ [(j, code)]\<rparr>)
          else None)"

fun play :: "console_env \<Rightarrow> worker_config \<Rightarrow> move list \<Rightarrow> system \<Rightarrow> system option" where
  "play E C [] s = Some s"
| "play E C (m # ms) s = (case play_move E C m s of None \<Rightarrow> None | Some s' \<Rightarrow> play E C ms s')"

lemma is_down_iff [simp]: "is_down p \<longleftrightarrow> p = Down"
  by (simp add: is_down_def split: phase.split)

lemma play_move_step: "play_move E C m s = Some s' \<Longrightarrow> system_step E C s s'"
proof (cases m)
  case (Submit_request a actor key kind sha t i)
  moreover assume "play_move E C m s = Some s'"
  ultimately show ?thesis
    by (cases "enqueue_job a actor key kind sha t i (sy_store s)") (auto simp: play_move_def intro: submit)
qed (auto simp: play_move_def intro: start crash exited system_step.work split: if_splits)

lemma play_steps: "play E C ms s = Some s' \<Longrightarrow> system_steps E C s s'"
proof (induction ms arbitrary: s)
  case (Cons m ms)
  then obtain t where "play_move E C m s = Some t" "system_steps E C t s'"
    by (auto split: option.splits)
  with play_move_step show ?case by (metis converse_rtranclp_into_rtranclp)
qed simp

definition example_console :: console_env where
  "example_console = \<lparr>ce_py = example_env\<lparr>sha256 := (\<lambda>_. replicate 64 48),
       json_loads := (\<lambda>_. Some (JObj [(u ''version'', JInt 1), (u ''actions'', JArr
         [JObj [(u ''id'', JStr (u ''refresh-due'')), (u ''label'', JStr (u ''Refresh'')),
                (u ''kind'', JStr (u ''refresh_due'')),
                (u ''parameters'', JObj [(u ''runtime_env'', JStr (u ''/etc/hop.env''))])]])]))\<rparr>,
     ce_dumps = (\<lambda>_. []), ce_compact = (\<lambda>_. [])\<rparr>"

definition example_worker :: worker_config where
  "example_worker = \<lparr>wc_actions_file = u ''/etc/actions.json'', wc_repo_root = u ''/repo'',
     wc_executable = u ''/usr/bin/python3'', wc_environ = [], wc_log_dir = u ''/logs'',
     wc_log_dir_resolved = u ''/logs'', wc_store_dir_resolved = u ''/queue'', wc_once = False\<rparr>"

definition example_host :: host where
  "example_host p =
     (if p = u ''/logs''
      then Some \<lparr>hf_symlink = False, hf_regular = False, hf_directory = True, hf_mode = 448, hf_size = 0,
                 hf_content = None\<rparr>
      else if p \<in> {u ''/etc/actions.json'', u ''/etc/hop.env'', u ''/repo/hop/operations/refresh.sh''}
      then Some \<lparr>hf_symlink = False, hf_regular = True, hf_directory = False, hf_mode = 384, hf_size = 1,
                 hf_content = Some [1]\<rparr>
      else None)"

definition calm :: step_input where
  "calm = \<lparr>in_fault = No_fault, in_now = u ''2026-07-10T00:00:00+00:00'', in_host = example_host,
     in_stop = False, in_popen = True, in_exit = None\<rparr>"

definition example_key :: ustr where
  "example_key = replicate 16 97"

definition request_refresh :: move where
  "request_refresh = Submit_request (u ''refresh-due'') (u ''operator'') example_key (u ''refresh_due'')
     (replicate 64 48) (u ''2026-07-09T00:00:00+00:00'') (u ''job'')"

text \<open>A request, a worker that starts the command and crashes, and another one that takes over.\<close>

definition until_claimed :: "move list" where
  "until_claimed = request_refresh # Start_worker (u ''w'') # replicate 5 (Work_on (u ''w'') calm)"

definition until_started :: "move list" where
  "until_started = until_claimed @ replicate 3 (Work_on (u ''w'') calm)"

definition until_succeeded :: "move list" where
  "until_succeeded = until_started @ [Command_exits (u ''job'') 0,
     Work_on (u ''w'') (calm\<lparr>in_exit := Some 0\<rparr>), Work_on (u ''w'') calm]"

definition until_lost :: "move list" where
  "until_lost = until_started @ [Crash_worker (u ''w''), Command_exits (u ''job'') 0,
     Start_worker (u ''v''), Work_on (u ''v'') calm, Work_on (u ''v'') calm]"

definition played :: "move list \<Rightarrow> system" where
  "played ms = (case play example_console example_worker ms initial_system of
     Some s \<Rightarrow> s | None \<Rightarrow> initial_system)"

lemma played_reachable: "system_steps example_console example_worker initial_system (played ms)"
  by (auto simp: played_def intro: play_steps split: option.split)

lemma played_succeeded:
  "map jb_state (js_jobs (sy_store (played until_succeeded))) = [Job_succeeded]
   \<and> sy_launched (played until_succeeded) = [(u ''job'', [u ''/bin/bash'', u ''/repo/hop/operations/refresh.sh''])]"
  by code_simp

lemma played_lost:
  "map (\<lambda>j. (jb_id j, jb_state j)) (js_jobs (sy_store (played until_lost))) = [(u ''job'', Job_unknown)]"
  by code_simp

lemma played_claimed:
  "map_option jb_id (phase_job (sy_phase (played until_claimed) (u ''w''))) = Some (u ''job'')"
  by code_simp

theorem queue_refines_slot_witness:
  "slot_step (slot_of (sy_store initial_system)) (slot_of (sy_store (played [request_refresh])))"
proof -
  have "play_move example_console example_worker request_refresh initial_system = Some (played [request_refresh])"
    by (simp add: played_def play_move_def request_refresh_def)
  then have step: "system_step example_console example_worker initial_system (played [request_refresh])"
    by (rule play_move_step)
  have "slot_of (sy_store initial_system) = Free" "slot_of (sy_store (played [request_refresh])) = Queued_in (u ''job'')"
    by code_simp+
  with queue_refines_slot [OF rtranclp.rtrancl_refl step] show ?thesis by simp
qed

theorem commands_started_once_witness:
  "sy_launched (played until_succeeded) \<noteq> [] \<and> distinct (map fst (sy_launched (played until_succeeded)))"
  using commands_started_once [OF played_reachable, of until_succeeded] played_succeeded by simp

theorem ended_jobs_stay_witness:
  "job_row (sy_store (played until_lost)) (u ''job'') \<noteq> None
   \<and> claim (u ''v'') (u ''now'') (sy_store (played until_lost)) = (Inr None, sy_store (played until_lost))"
proof -
  obtain j where j: "js_jobs (sy_store (played until_lost)) = [j]" "jb_id j = u ''job''" "jb_state j = Job_unknown"
    using played_lost by auto
  then have row: "job_row (sy_store (played until_lost)) (u ''job'') = Some j" by (simp add: job_row_def)
  have "terminal_state (jb_state j)" by (simp add: j terminal_state_def)
  from ended_jobs_stay [OF played_reachable rtranclp.rtrancl_refl row this] j(3) row show ?thesis by simp
qed

theorem only_approved_commands_witness:
  "\<exists>h p environ. command_for example_console example_worker h p
     = Inr ([u ''/bin/bash'', u ''/repo/hop/operations/refresh.sh''], environ) \<and> ap_kind p = u ''refresh_due''"
proof -
  have "(u ''job'', [u ''/bin/bash'', u ''/repo/hop/operations/refresh.sh'']) \<in> set (sy_launched (played until_succeeded))"
    using played_succeeded by simp
  from only_approved_commands [OF played_reachable this] obtain r h p environ where
    r: "job_row (sy_store (played until_succeeded)) (u ''job'') = Some r" "ap_kind p = jb_kind r" and
    c: "command_for example_console example_worker h p
      = Inr ([u ''/bin/bash'', u ''/repo/hop/operations/refresh.sh''], environ)" by blast
  have "map_option jb_kind (job_row (sy_store (played until_succeeded)) (u ''job'')) = Some (u ''refresh_due'')"
    by code_simp
  with r c show ?thesis by auto
qed

theorem held_job_ends_witness:
  "\<exists>r. job_row (sy_store (calm_turns example_console example_worker (u ''w'') (replicate 5 (calm\<lparr>in_exit := Some 3\<rparr>))
       (played until_claimed))) (u ''job'') = Some r \<and> terminal_state (jb_state r)"
proof -
  obtain j where "phase_job (sy_phase (played until_claimed) (u ''w'')) = Some j" "jb_id j = u ''job''"
    using played_claimed by auto
  with held_job_ends [OF played_reachable this(1), of "replicate 5 (calm\<lparr>in_exit := Some 3\<rparr>)"] show ?thesis by simp
qed

lemma request_accepted:
  "isok (fst (enqueue_job (u ''refresh-due'') (u ''operator'') example_key (u ''refresh_due'') (replicate 64 48)
     (u ''2026-07-09T00:00:00+00:00'') (u ''job'') (sy_store initial_system)))"
  by code_simp

theorem enqueue_idempotent_witness:
  "\<exists>j. enqueue_job (u ''refresh-due'') (u ''operator'') example_key (u ''refresh_due'') (replicate 64 48)
     (u ''later'') (u ''other'') (sy_store (played until_succeeded)) = (Inr j, sy_store (played until_succeeded))"
proof -
  obtain j st where e: "enqueue_job (u ''refresh-due'') (u ''operator'') example_key (u ''refresh_due'') (replicate 64 48)
     (u ''2026-07-09T00:00:00+00:00'') (u ''job'') (sy_store initial_system) = (Inr j, st)"
    using request_accepted by (metis isok_iff prod.collapse)
  obtain ms where ms: "until_succeeded = request_refresh # ms"
    by (simp add: until_succeeded_def until_started_def until_claimed_def)
  have move: "play_move example_console example_worker request_refresh initial_system
      = Some (initial_system\<lparr>sy_store := st\<rparr>)"
    by (simp add: play_move_def request_refresh_def e)
  have "case play example_console example_worker until_succeeded initial_system of Some s \<Rightarrow> True | None \<Rightarrow> False"
    by code_simp
  then obtain s' where s': "play example_console example_worker until_succeeded initial_system = Some s'"
    by (auto split: option.splits)
  then have "play example_console example_worker ms (initial_system\<lparr>sy_store := st\<rparr>) = Some s'"
    unfolding ms play.simps move option.case .
  from play_steps [OF this] s' have
    "system_steps example_console example_worker (initial_system\<lparr>sy_store := st\<rparr>) (played until_succeeded)"
    by (simp add: played_def)
  from enqueue_idempotent [OF rtranclp.rtrancl_refl e this] show ?thesis by blast
qed

end
