(* ===== verification/Documents.thy ===== *)
theory Documents
  imports Normalize
begin

text \<open>
  \<open>contracts/documents.py\<close>: a parsed document as named blocks of text, and the spans that quote it.
  A \<open>Literal\<close> with one value is a constant of the JSON form and no field. The constructor of a
  contract checks its fields and then runs its validator; both refuse with \<open>ValidationError\<close>, so a
  contract is a record with a check of type \<^typ>\<open>exn + unit\<close>. Strings that UTF-8 cannot encode are
  refused by every string field.
\<close>

section \<open>Fields\<close>

definition validation_error :: "string \<Rightarrow> exn + 'a" where
  "validation_error code = Inl (Exn ValidationError (u code))"

definition field_check :: "bool \<Rightarrow> exn + unit" where
  "field_check ok = ensure ok (Exn ValidationError (u ''field''))"

definition require :: "bool \<Rightarrow> string \<Rightarrow> exn + unit" where
  "require ok code = ensure ok (Exn ValidationError (u code))"

text \<open>A \<open>ValueError\<close> that a validator raises leaves the constructor as \<open>ValidationError\<close>.\<close>

definition as_validation :: "exn + 'a \<Rightarrow> exn + 'a" where
  "as_validation r =
     (case r of
        Inl (Exn c t) \<Rightarrow> Inl (Exn (if value_error_class c then ValidationError else c) t)
      | Inr x \<Rightarrow> Inr x)"

definition encodable :: "ustr \<Rightarrow> bool" where
  "encodable s \<longleftrightarrow> utf8 s \<noteq> None"

text \<open>
  \<open>\S\<close> of the field patterns: the complement of Unicode's \<open>White_Space\<close>, which has not the four
  separators that \<open>str.isspace\<close> adds.
\<close>

definition white_space :: "nat \<Rightarrow> bool" where
  "white_space c \<longleftrightarrow> is_space c \<and> \<not> (28 \<le> c \<and> c \<le> 31)"

definition is_identifier :: "ustr \<Rightarrow> bool" where
  "is_identifier s \<longleftrightarrow> encodable s \<and> 1 \<le> length s \<and> length s \<le> 512 \<and> list_all (\<lambda>c. \<not> white_space c) s"

definition non_empty :: "ustr \<Rightarrow> bool" where
  "non_empty s \<longleftrightarrow> encodable s \<and> s \<noteq> []"

definition opt_ok :: "('a \<Rightarrow> bool) \<Rightarrow> 'a option \<Rightarrow> bool" where
  "opt_ok ok v = (case v of None \<Rightarrow> True | Some x \<Rightarrow> ok x)"

definition schema_version :: ustr where
  "schema_version = u ''canonical-v1''"

definition text_hash :: "pyenv \<Rightarrow> ustr \<Rightarrow> exn + ustr" where
  "text_hash P s =
     (case utf8 s of
        None \<Rightarrow> Inl (Exn UnicodeEncodeError (u ''utf-8''))
      | Some b \<Rightarrow> Inr (sha256 P b))"

section \<open>TextBlock\<close>

record text_block =
  tb_block_id :: ustr
  tb_locator :: ustr
  tb_text :: ustr
  tb_sha256 :: ustr

definition text_block_json :: "text_block \<Rightarrow> json" where
  "text_block_json b = jfields
     [(''block_id'', JStr (tb_block_id b)), (''locator'', JStr (tb_locator b)),
      (''text'', JStr (tb_text b)), (''sha256'', JStr (tb_sha256 b)),
      (''normalization_version'', JStr text_version)]"

definition verify_text :: "pyenv \<Rightarrow> text_block \<Rightarrow> exn + unit" where
  "verify_text P b =
     require (normalized_text P (tb_text b) = tb_text b
              \<and> text_hash P (tb_text b) = Inr (tb_sha256 b)) ''TEXT_ARTIFACT_INTEGRITY_FAILED''"

definition text_block_check :: "pyenv \<Rightarrow> text_block \<Rightarrow> exn + unit" where
  "text_block_check P b =
     rbind (field_check (is_identifier (tb_block_id b) \<and> non_empty (tb_locator b)
              \<and> non_empty (tb_text b) \<and> is_sha256 (tb_sha256 b)))
       (\<lambda>_. verify_text P b)"

section \<open>SourceDocument\<close>

record source_document =
  sd_document_id :: ustr
  sd_source_id :: ustr
  sd_source_record_id :: ustr
  sd_snapshot_id :: ustr
  sd_parser_version :: ustr
  sd_record_locator :: ustr
  sd_blocks :: "text_block list"

text \<open>\<open>model_dump(mode="json", exclude={"document_id"})\<close>, and the dump with the identifier.\<close>

definition source_document_body :: "source_document \<Rightarrow> (string \<times> json) list" where
  "source_document_body d =
     [(''source_id'', JStr (sd_source_id d)),
      (''source_record_id'', JStr (sd_source_record_id d)),
      (''snapshot_id'', JStr (sd_snapshot_id d)),
      (''parser_version'', JStr (sd_parser_version d)),
      (''record_locator'', JStr (sd_record_locator d)),
      (''blocks'', JArr (map text_block_json (sd_blocks d)))]"

definition source_document_json :: "source_document \<Rightarrow> json" where
  "source_document_json d = jfields ([(''schema_version'', JStr schema_version),
     (''document_id'', JStr (sd_document_id d))] @ source_document_body d)"

definition document_digest :: "pyenv \<Rightarrow> source_document \<Rightarrow> ustr" where
  "document_digest P d =
     digest P (jfields ((''schema_version'', JStr schema_version) # source_document_body d))"

definition source_document_check :: "pyenv \<Rightarrow> source_document \<Rightarrow> exn + unit" where
  "source_document_check P d =
     rbind (field_check (is_sha256 (sd_document_id d) \<and> is_identifier (sd_source_id d)
              \<and> is_identifier (sd_source_record_id d) \<and> is_identifier (sd_snapshot_id d)
              \<and> is_identifier (sd_parser_version d) \<and> non_empty (sd_record_locator d)
              \<and> sd_blocks d \<noteq> []))
       (\<lambda>_. rbind (rall (text_block_check P) (sd_blocks d))
       (\<lambda>_. rbind (require (distinct (map tb_block_id (sd_blocks d))) ''DUPLICATE_TEXT_BLOCK'')
       (\<lambda>_. require (sd_document_id d = document_digest P d) ''DOCUMENT_ID_MISMATCH'')))"

section \<open>EvidenceSpan\<close>

record evidence_span =
  ev_evidence_id :: ustr
  ev_document_id :: ustr
  ev_block_id :: ustr
  ev_artifact_sha256 :: ustr
  ev_start :: int
  ev_end :: int
  ev_excerpt :: ustr
  ev_excerpt_sha256 :: ustr

definition evidence_span_body :: "evidence_span \<Rightarrow> (string \<times> json) list" where
  "evidence_span_body e =
     [(''document_id'', JStr (ev_document_id e)), (''block_id'', JStr (ev_block_id e)),
      (''artifact_sha256'', JStr (ev_artifact_sha256 e)), (''start'', JInt (ev_start e)),
      (''end'', JInt (ev_end e)), (''excerpt'', JStr (ev_excerpt e)),
      (''excerpt_sha256'', JStr (ev_excerpt_sha256 e))]"

definition evidence_span_json :: "evidence_span \<Rightarrow> json" where
  "evidence_span_json e =
     jfields ((''evidence_id'', JStr (ev_evidence_id e)) # evidence_span_body e)"

definition evidence_digest :: "pyenv \<Rightarrow> evidence_span \<Rightarrow> ustr" where
  "evidence_digest P e = digest P (jfields (evidence_span_body e))"

definition verify_shape :: "pyenv \<Rightarrow> evidence_span \<Rightarrow> exn + unit" where
  "verify_shape P e =
     rbind (require (ev_start e < ev_end e \<and> ev_end e - ev_start e = int (length (ev_excerpt e)))
              ''INVALID_SPAN_LENGTH'')
       (\<lambda>_. rbind (require (text_hash P (ev_excerpt e) = Inr (ev_excerpt_sha256 e))
              ''EXCERPT_HASH_MISMATCH'')
       (\<lambda>_. require (ev_evidence_id e = evidence_digest P e) ''EVIDENCE_ID_MISMATCH''))"

definition evidence_span_check :: "pyenv \<Rightarrow> evidence_span \<Rightarrow> exn + unit" where
  "evidence_span_check P e =
     rbind (field_check (is_sha256 (ev_evidence_id e) \<and> is_sha256 (ev_document_id e)
              \<and> is_identifier (ev_block_id e) \<and> is_sha256 (ev_artifact_sha256 e)
              \<and> 0 \<le> ev_start e \<and> 0 < ev_end e \<and> non_empty (ev_excerpt e)
              \<and> is_sha256 (ev_excerpt_sha256 e)))
       (\<lambda>_. verify_shape P e)"

text \<open>\<open>{b.block_id: b for b in blocks}\<close>: a later block of the same name replaces an earlier one.\<close>

definition index_by :: "('a \<Rightarrow> 'k) \<Rightarrow> 'a list \<Rightarrow> ('k \<times> 'a) list" where
  "index_by key xs = foldl (\<lambda>m x. AList.update (key x) x m) [] xs"

definition text_span :: "ustr \<Rightarrow> int \<Rightarrow> int \<Rightarrow> ustr" where
  "text_span s start end' = slice (nat start) (nat end') s"

definition span_in_document :: "evidence_span \<Rightarrow> source_document \<Rightarrow> exn + unit" where
  "span_in_document e d =
     ensure (case map_of (index_by tb_block_id (sd_blocks d)) (ev_block_id e) of
               None \<Rightarrow> False
             | Some b \<Rightarrow>
                 sd_document_id d = ev_document_id e \<and> tb_sha256 b = ev_artifact_sha256 e
                 \<and> ev_end e \<le> int (length (tb_text b))
                 \<and> text_span (tb_text b) (ev_start e) (ev_end e) = ev_excerpt e)
       (Exn ValueError (u ''EVIDENCE_SPAN_NOT_IN_DOCUMENT''))"

section \<open>Lemmas\<close>

lemma validation_error_not_Inr [simp]: "validation_error c \<noteq> Inr x" "Inr x \<noteq> validation_error c"
  by (simp_all add: validation_error_def)

lemma field_check_Inr [simp, result_simps]: "field_check ok = Inr y \<longleftrightarrow> ok"
  by (simp add: field_check_def ensure_def)

lemma require_Inr [simp, result_simps]: "require ok code = Inr y \<longleftrightarrow> ok"
  by (simp add: require_def ensure_def)

lemma as_validation_Inr [simp, result_simps]: "as_validation r = Inr x \<longleftrightarrow> r = Inr x"
  by (auto simp: as_validation_def split: sum.splits exn.splits)

lemma as_validation_return [simp]: "as_validation (Inr x) = Inr x"
  by (simp add: as_validation_def)

lemma map_of_index_by:
  "map_of (index_by key xs) k = find (\<lambda>x. key x = k) (rev xs)"
proof (induction xs rule: rev_induct)
  case Nil
  then show ?case by (simp add: index_by_def)
next
  case (snoc x xs)
  have "index_by key (xs @ [x]) = AList.update (key x) x (index_by key xs)"
    by (simp add: index_by_def)
  then show ?case using snoc by (auto simp: update_conv')
qed

lemma keys_index_by [simp]: "fst ` set (index_by key xs) = key ` set xs"
proof (induction xs rule: rev_induct)
  case Nil
  then show ?case by (simp add: index_by_def)
next
  case (snoc x xs)
  then show ?case by (simp add: index_by_def dom_update)
qed

lemma length_index_by: "length (index_by key xs) = length xs \<longleftrightarrow> distinct (map key xs)"
proof -
  have d: "distinct (map fst (index_by key xs))"
    by (induction xs rule: rev_induct) (simp_all add: index_by_def distinct_update)
  have "length (index_by key xs) = card (key ` set xs)"
    using distinct_card [OF d] by simp
  then show ?thesis
    by (metis card_distinct distinct_card length_map list.set_map)
qed

text \<open>With distinct keys the index finds exactly the members.\<close>

lemma index_by_member:
  assumes "distinct (map key xs)"
  shows "map_of (index_by key xs) k = Some x \<longleftrightarrow> x \<in> set xs \<and> key x = k"
proof -
  have "map_of (index_by key xs) k = Some x \<longleftrightarrow> (find (\<lambda>x. key x = k) (rev xs) = Some x)"
    by (simp add: map_of_index_by)
  also have "\<dots> \<longleftrightarrow> x \<in> set xs \<and> key x = k"
  proof
    assume "find (\<lambda>x. key x = k) (rev xs) = Some x"
    then show "x \<in> set xs \<and> key x = k"
      by (auto simp: find_Some_iff) (metis length_rev nth_mem set_rev)
  next
    assume x: "x \<in> set xs \<and> key x = k"
    then have "find (\<lambda>x. key x = k) (rev xs) \<noteq> None" by (auto simp: find_None_iff)
    then obtain y where y: "find (\<lambda>x. key x = k) (rev xs) = Some y" by auto
    then have "y \<in> set xs \<and> key y = k"
      by (auto simp: find_Some_iff) (metis length_rev nth_mem set_rev)
    with x assms have "y = x" by (auto simp: distinct_map dest: inj_onD)
    with y show "find (\<lambda>x. key x = k) (rev xs) = Some x" by simp
  qed
  finally show ?thesis .
qed

lemma index_by_mem: "map_of (index_by key xs) k = Some x \<Longrightarrow> x \<in> set xs \<and> key x = k"
  by (auto simp: map_of_index_by find_Some_iff) (metis length_rev nth_mem set_rev)

lemma index_by_None: "map_of (index_by key xs) k = None \<longleftrightarrow> k \<notin> key ` set xs"
  by (auto simp: map_of_index_by find_None_iff)

lemmas document_check_defs =
  text_block_check_def verify_text_def source_document_check_def evidence_span_check_def
  verify_shape_def

end
