(* ===== verification/Requirements.thy ===== *)
theory Requirements
  imports Documents
begin

text \<open>
  \<open>contracts/requirements.py\<close>: what an extractor says a posting requires, as candidates and nested
  AND/OR groups that quote the document, and the reviewed claims made from them. The extractor is not
  trusted: its groups must form a forest over its own identifiers, and its spans must be in the
  document.
\<close>

section \<open>Vocabulary\<close>

datatype requirement_kind =
    SKILL | CREDENTIAL | EDUCATION | EXPERIENCE | LANGUAGE | PROJECT | LOCATION | ELIGIBILITY
  | AVAILABILITY

datatype necessity = REQUIRED | PREFERRED | OPTIONAL | UNSPECIFIED

datatype polarity = POSITIVE | NEGATED | NO_CONSTRAINT

definition requirement_kind_name :: "requirement_kind \<Rightarrow> ustr" where
  "requirement_kind_name k = (case k of SKILL \<Rightarrow> u ''SKILL'' | CREDENTIAL \<Rightarrow> u ''CREDENTIAL''
     | EDUCATION \<Rightarrow> u ''EDUCATION'' | EXPERIENCE \<Rightarrow> u ''EXPERIENCE'' | LANGUAGE \<Rightarrow> u ''LANGUAGE''
     | PROJECT \<Rightarrow> u ''PROJECT'' | LOCATION \<Rightarrow> u ''LOCATION'' | ELIGIBILITY \<Rightarrow> u ''ELIGIBILITY''
     | AVAILABILITY \<Rightarrow> u ''AVAILABILITY'')"

definition necessity_name :: "necessity \<Rightarrow> ustr" where
  "necessity_name n = (case n of REQUIRED \<Rightarrow> u ''REQUIRED'' | PREFERRED \<Rightarrow> u ''PREFERRED''
     | OPTIONAL \<Rightarrow> u ''OPTIONAL'' | UNSPECIFIED \<Rightarrow> u ''UNSPECIFIED'')"

definition polarity_name :: "polarity \<Rightarrow> ustr" where
  "polarity_name p = (case p of POSITIVE \<Rightarrow> u ''POSITIVE'' | NEGATED \<Rightarrow> u ''NEGATED''
     | NO_CONSTRAINT \<Rightarrow> u ''NO_CONSTRAINT'')"

section \<open>Extractor output\<close>

record span_selector =
  ss_block_id :: ustr
  ss_start :: int
  ss_end :: int
  ss_excerpt :: ustr

definition span_selector_check :: "span_selector \<Rightarrow> exn + unit" where
  "span_selector_check s =
     rbind (field_check (is_identifier (ss_block_id s) \<and> 0 \<le> ss_start s \<and> 0 < ss_end s
              \<and> non_empty (ss_excerpt s)))
       (\<lambda>_. require (ss_end s - ss_start s = int (length (ss_excerpt s))) ''INVALID_SPAN_LENGTH'')"

text \<open>\<open>next((b for b in blocks if ...), None)\<close>: the first block of that name.\<close>

definition selector_in_document :: "source_document \<Rightarrow> span_selector \<Rightarrow> exn + unit" where
  "selector_in_document d s =
     ensure (case find (\<lambda>b. tb_block_id b = ss_block_id s) (sd_blocks d) of
               None \<Rightarrow> False
             | Some b \<Rightarrow>
                 ss_end s \<le> int (length (tb_text b))
                 \<and> text_span (tb_text b) (ss_start s) (ss_end s) = ss_excerpt s)
       (Exn ValueError (u ''EXTRACTED_SPAN_NOT_IN_DOCUMENT''))"

record requirement_candidate =
  ca_local_id :: ustr
  ca_kind :: requirement_kind
  ca_mention :: ustr
  ca_necessity :: necessity
  ca_polarity :: polarity
  ca_applicability_text :: "ustr option"
  ca_evidence :: "span_selector list"

definition candidate_check :: "requirement_candidate \<Rightarrow> exn + unit" where
  "candidate_check c =
     rbind (field_check (is_identifier (ca_local_id c) \<and> non_empty (ca_mention c)
              \<and> opt_ok non_empty (ca_applicability_text c) \<and> ca_evidence c \<noteq> []))
       (\<lambda>_. rall span_selector_check (ca_evidence c))"

datatype group_operator = ALL_OF | ANY_OF

record requirement_group =
  gr_local_id :: ustr
  gr_operator :: group_operator
  gr_member_ids :: "ustr list"
  gr_evidence :: "span_selector list"

definition group_check :: "requirement_group \<Rightarrow> exn + unit" where
  "group_check g =
     rbind (field_check (is_identifier (gr_local_id g) \<and> 2 \<le> length (gr_member_ids g)
              \<and> list_all is_identifier (gr_member_ids g) \<and> gr_evidence g \<noteq> []))
       (\<lambda>_. rall span_selector_check (gr_evidence g))"

record extraction_output =
  xo_candidates :: "requirement_candidate list"
  xo_groups :: "requirement_group list"

text \<open>
  \<open>visit\<close>: a depth-first walk down from a node that refuses a node among its own ancestors. A name
  that is no group has no members. Each step down adds a group to the ancestors, so the walk ends.
  Python's limit on the depth of calls is not part of the model.
\<close>

definition group_nodes :: "requirement_group list \<Rightarrow> (ustr \<times> ustr list) list" where
  "group_nodes gs = foldl (\<lambda>m g. AList.update (gr_local_id g) (gr_member_ids g) m) [] gs"

definition children :: "(ustr \<times> ustr list) list \<Rightarrow> ustr \<Rightarrow> ustr list" where
  "children nodes node = (case map_of nodes node of None \<Rightarrow> [] | Some ms \<Rightarrow> ms)"

function visit :: "(ustr \<times> ustr list) list \<Rightarrow> ustr \<Rightarrow> ustr list \<Rightarrow> exn + unit" where
  "visit nodes node ancestors =
     (if node \<in> set ancestors then Inl (Exn ValueError (u ''CYCLIC_REQUIREMENT_GROUP''))
      else rall (\<lambda>child. visit nodes child (node # ancestors)) (children nodes node))"
  by pat_completeness auto
termination
proof (relation "measure (\<lambda>(nodes, node, ancestors). card (fst ` set nodes - set ancestors))")
  fix nodes :: "(ustr \<times> ustr list) list" and node ancestors child
  assume new: "node \<notin> set ancestors" and child: "child \<in> set (children nodes node)"
  then have "map_of nodes node \<noteq> None" by (cases "map_of nodes node") (auto simp: children_def)
  then have "node \<in> fst ` set nodes" by (simp add: map_of_eq_None_iff)
  with new have "fst ` set nodes - set (node # ancestors) \<subset> fst ` set nodes - set ancestors" by auto
  then show "((nodes, child, node # ancestors), (nodes, node, ancestors))
      \<in> measure (\<lambda>(nodes, node, ancestors). card (fst ` set nodes - set ancestors))"
    by (simp add: psubset_card_mono)
qed simp

declare visit.simps [simp del]

definition group_membership :: "extraction_output \<Rightarrow> exn + unit" where
  "group_membership x =
     (let candidate_ids = map ca_local_id (xo_candidates x);
          group_ids = map gr_local_id (xo_groups x);
          members = concat (map gr_member_ids (xo_groups x));
          nodes = group_nodes (xo_groups x)
      in rbind (require (distinct candidate_ids \<and> distinct group_ids
                  \<and> set candidate_ids \<inter> set group_ids = {}) ''DUPLICATE_EXTRACTION_ID'')
        (\<lambda>_. rbind (require (distinct members
                  \<and> set members \<subseteq> set candidate_ids \<union> set group_ids)
                ''INVALID_REQUIREMENT_GROUP_MEMBERS'')
        (\<lambda>_. as_validation (rall (\<lambda>node. visit nodes node []) (map fst nodes)))))"

definition extraction_output_check :: "extraction_output \<Rightarrow> exn + unit" where
  "extraction_output_check x =
     rbind (rall candidate_check (xo_candidates x))
       (\<lambda>_. rbind (rall group_check (xo_groups x)) (\<lambda>_. group_membership x))"

definition extraction_in_document :: "source_document \<Rightarrow> extraction_output \<Rightarrow> exn + unit" where
  "extraction_in_document d x =
     rall (selector_in_document d)
       (concat (map ca_evidence (xo_candidates x) @ map gr_evidence (xo_groups x)))"

section \<open>Extraction records\<close>

datatype extraction_method = STRUCTURED | RULE | LLM

definition method_name :: "extraction_method \<Rightarrow> ustr" where
  "method_name m = (case m of STRUCTURED \<Rightarrow> u ''STRUCTURED'' | RULE \<Rightarrow> u ''RULE'' | LLM \<Rightarrow> u ''LLM'')"

record extractor_metadata =
  xm_method :: extraction_method
  xm_extractor_version :: ustr
  xm_model_requested :: "ustr option"
  xm_model_returned :: "ustr option"
  xm_prompt_sha256 :: "ustr option"
  xm_response_id :: "ustr option"
  xm_input_tokens :: "int option"
  xm_output_tokens :: "int option"

definition provenance_given :: "extractor_metadata \<Rightarrow> bool list" where
  "provenance_given m =
     [xm_model_requested m \<noteq> None, xm_model_returned m \<noteq> None, xm_prompt_sha256 m \<noteq> None,
      xm_response_id m \<noteq> None, xm_input_tokens m \<noteq> None, xm_output_tokens m \<noteq> None]"

definition extractor_metadata_check :: "extractor_metadata \<Rightarrow> exn + unit" where
  "extractor_metadata_check m =
     rbind (field_check (is_identifier (xm_extractor_version m)
              \<and> opt_ok encodable (xm_model_requested m) \<and> opt_ok encodable (xm_model_returned m)
              \<and> opt_ok is_sha256 (xm_prompt_sha256 m) \<and> opt_ok encodable (xm_response_id m)
              \<and> opt_ok (\<lambda>n. 0 \<le> n) (xm_input_tokens m) \<and> opt_ok (\<lambda>n. 0 \<le> n) (xm_output_tokens m)))
       (\<lambda>_. rbind (require (xm_method m = LLM \<longrightarrow> list_all (\<lambda>b. b) (provenance_given m))
              ''MISSING_MODEL_PROVENANCE'')
       (\<lambda>_. require (xm_method m \<noteq> LLM \<longrightarrow> \<not> list_ex (\<lambda>b. b) (provenance_given m))
              ''UNEXPECTED_MODEL_PROVENANCE''))"

record extraction_record =
  xr_extraction_id :: ustr
  xr_document_id :: ustr
  xr_metadata :: extractor_metadata
  xr_output :: extraction_output

definition span_selector_json :: "span_selector \<Rightarrow> json" where
  "span_selector_json s = jfields
     [(''block_id'', JStr (ss_block_id s)), (''start'', JInt (ss_start s)),
      (''end'', JInt (ss_end s)), (''excerpt'', JStr (ss_excerpt s))]"

definition candidate_json :: "requirement_candidate \<Rightarrow> json" where
  "candidate_json c = jfields
     [(''local_id'', JStr (ca_local_id c)), (''kind'', JStr (requirement_kind_name (ca_kind c))),
      (''mention'', JStr (ca_mention c)), (''necessity'', JStr (necessity_name (ca_necessity c))),
      (''polarity'', JStr (polarity_name (ca_polarity c))),
      (''applicability_text'', jopt JStr (ca_applicability_text c)),
      (''evidence'', JArr (map span_selector_json (ca_evidence c)))]"

definition group_json :: "requirement_group \<Rightarrow> json" where
  "group_json g = jfields
     [(''local_id'', JStr (gr_local_id g)),
      (''operator'', JStr (case gr_operator g of ALL_OF \<Rightarrow> u ''ALL_OF'' | ANY_OF \<Rightarrow> u ''ANY_OF'')),
      (''member_ids'', JArr (map JStr (gr_member_ids g))),
      (''evidence'', JArr (map span_selector_json (gr_evidence g)))]"

definition extraction_output_json :: "extraction_output \<Rightarrow> json" where
  "extraction_output_json x = jfields
     [(''schema_version'', JStr (u ''requirement-extraction-v1'')),
      (''candidates'', JArr (map candidate_json (xo_candidates x))),
      (''groups'', JArr (map group_json (xo_groups x)))]"

definition extractor_metadata_json :: "extractor_metadata \<Rightarrow> json" where
  "extractor_metadata_json m = jfields
     [(''method'', JStr (method_name (xm_method m))),
      (''extractor_version'', JStr (xm_extractor_version m)),
      (''model_requested'', jopt JStr (xm_model_requested m)),
      (''model_returned'', jopt JStr (xm_model_returned m)),
      (''prompt_sha256'', jopt JStr (xm_prompt_sha256 m)),
      (''response_id'', jopt JStr (xm_response_id m)),
      (''input_tokens'', jopt JInt (xm_input_tokens m)),
      (''output_tokens'', jopt JInt (xm_output_tokens m))]"

definition extraction_record_body :: "extraction_record \<Rightarrow> (string \<times> json) list" where
  "extraction_record_body r =
     [(''document_id'', JStr (xr_document_id r)),
      (''metadata'', extractor_metadata_json (xr_metadata r)),
      (''output'', extraction_output_json (xr_output r))]"

definition extraction_record_json :: "extraction_record \<Rightarrow> json" where
  "extraction_record_json r =
     jfields ((''extraction_id'', JStr (xr_extraction_id r)) # extraction_record_body r)"

definition extraction_record_check :: "pyenv \<Rightarrow> extraction_record \<Rightarrow> exn + unit" where
  "extraction_record_check P r =
     rbind (field_check (is_sha256 (xr_extraction_id r) \<and> is_sha256 (xr_document_id r)))
       (\<lambda>_. rbind (extractor_metadata_check (xr_metadata r))
       (\<lambda>_. rbind (extraction_output_check (xr_output r))
       (\<lambda>_. require (xr_extraction_id r = digest P (jfields (extraction_record_body r)))
              ''EXTRACTION_ID_MISMATCH'')))"

end
