(* ===== verification/RequirementFacts.thy ===== *)
theory RequirementFacts
  imports Requirements
begin

text \<open>
  The walk over an extractor's groups decides whether they form a forest.
\<close>

section \<open>The walk and the relation it walks\<close>

definition edges :: "(ustr \<times> ustr list) list \<Rightarrow> (ustr \<times> ustr) set" where
  "edges nodes = {(a, b). b \<in> set (children nodes a)}"

lemma visit_ok_step:
  "visit nodes node ancestors = Inr () \<longleftrightarrow>
     node \<notin> set ancestors \<and>
     (\<forall>child. (node, child) \<in> edges nodes \<longrightarrow> visit nodes child (node # ancestors) = Inr ())"
  by (subst visit.simps) (auto simp: rall_Inr_iff edges_def)

lemma cycle_through:
  "(n, n) \<in> E\<^sup>+ \<longleftrightarrow> (\<exists>c. (n, c) \<in> E \<and> (c, n) \<in> E\<^sup>*)"
  by (meson rtrancl_into_trancl2 tranclD)

text \<open>A walk succeeds when nothing below the node is an ancestor or lies on a cycle.\<close>

lemma visit_ok_iff:
  "visit nodes node ancestors = Inr () \<longleftrightarrow>
     (\<forall>y. (node, y) \<in> (edges nodes)\<^sup>* \<longrightarrow> y \<notin> set ancestors \<and> (y, y) \<notin> (edges nodes)\<^sup>+)"
proof (induction nodes node ancestors rule: visit.induct)
  case (1 nodes node ancestors)
  let ?E = "edges nodes"
  have IH: "visit nodes c (node # ancestors) = Inr () \<longleftrightarrow>
      (\<forall>y. (c, y) \<in> ?E\<^sup>* \<longrightarrow> y \<noteq> node \<and> y \<notin> set ancestors \<and> (y, y) \<notin> ?E\<^sup>+)"
    if "node \<notin> set ancestors" "(node, c) \<in> ?E" for c
    using 1 [of c] that by (auto simp: edges_def)
  show ?case
  proof
    assume "visit nodes node ancestors = Inr ()"
    then have n: "node \<notin> set ancestors"
      and below: "\<And>c y. (node, c) \<in> ?E \<Longrightarrow> (c, y) \<in> ?E\<^sup>*
        \<Longrightarrow> y \<noteq> node \<and> y \<notin> set ancestors \<and> (y, y) \<notin> ?E\<^sup>+"
      by (subst (asm) visit_ok_step, blast, subst (asm) visit_ok_step, use IH in blast)
    have "(node, node) \<notin> ?E\<^sup>+" using below by (subst cycle_through) blast
    then show "\<forall>y. (node, y) \<in> ?E\<^sup>* \<longrightarrow> y \<notin> set ancestors \<and> (y, y) \<notin> ?E\<^sup>+"
      using n below by (metis converse_rtranclE)
  next
    assume free: "\<forall>y. (node, y) \<in> ?E\<^sup>* \<longrightarrow> y \<notin> set ancestors \<and> (y, y) \<notin> ?E\<^sup>+"
    then have n: "node \<notin> set ancestors" and c: "(node, node) \<notin> ?E\<^sup>+" by auto
    have "y \<noteq> node \<and> y \<notin> set ancestors \<and> (y, y) \<notin> ?E\<^sup>+"
      if "(node, c) \<in> ?E" "(c, y) \<in> ?E\<^sup>*" for c y
      using that free c by (metis converse_rtrancl_into_rtrancl cycle_through)
    then show "visit nodes node ancestors = Inr ()"
      using n by (subst visit_ok_step) (simp add: IH)
  qed
qed

lemma edge_from_node: "(a, b) \<in> edges nodes \<Longrightarrow> a \<in> fst ` set nodes"
  by (cases "map_of nodes a")
    (auto simp: edges_def children_def map_of_eq_None_iff dest: map_of_SomeD intro: rev_image_eqI)

lemma visits_acyclic:
  "(\<forall>node \<in> fst ` set nodes. visit nodes node [] = Inr ()) \<longleftrightarrow> acyclic (edges nodes)"
proof
  assume ok: "\<forall>node \<in> fst ` set nodes. visit nodes node [] = Inr ()"
  show "acyclic (edges nodes)"
  proof (rule acyclicI, rule allI)
    fix y
    show "(y, y) \<notin> (edges nodes)\<^sup>+"
    proof
      assume c: "(y, y) \<in> (edges nodes)\<^sup>+"
      then have "y \<in> fst ` set nodes" by (auto simp: cycle_through dest: edge_from_node)
      then show False using ok c by (auto simp: visit_ok_iff)
    qed
  qed
qed (auto simp: visit_ok_iff acyclic_def)

section \<open>Groups\<close>

text \<open>A group and a name it lists.\<close>

definition listing :: "requirement_group list \<Rightarrow> (ustr \<times> ustr) set" where
  "listing gs = {(gr_local_id g, m) | g m. g \<in> set gs \<and> m \<in> set (gr_member_ids g)}"

lemma map_of_group_nodes:
  "distinct (map gr_local_id gs) \<Longrightarrow>
     map_of (group_nodes gs) a = map_option gr_member_ids (find (\<lambda>g. gr_local_id g = a) gs)"
proof (induction gs rule: rev_induct)
  case Nil
  then show ?case by (simp add: group_nodes_def)
next
  case (snoc g gs)
  have "find (\<lambda>g. gr_local_id g = a) (gs @ [g]) =
      (case find (\<lambda>g. gr_local_id g = a) gs of Some x \<Rightarrow> Some x
       | None \<Rightarrow> if gr_local_id g = a then Some g else None)"
    by (induction gs) auto
  moreover have "find (\<lambda>g'. gr_local_id g' = gr_local_id g) gs = None"
  proof -
    have "gr_local_id g' \<noteq> gr_local_id g" if "g' \<in> set gs" for g'
      using snoc.prems imageI [OF that, of gr_local_id] by auto
    then show ?thesis by (simp add: find_None_iff)
  qed
  moreover have "group_nodes (gs @ [g])
      = AList.update (gr_local_id g) (gr_member_ids g) (group_nodes gs)"
    by (simp add: group_nodes_def)
  ultimately show ?case using snoc by (auto simp: update_conv' split: option.splits)
qed

lemma edges_group_nodes:
  assumes "distinct (map gr_local_id gs)"
  shows "edges (group_nodes gs) = listing gs"
proof -
  have "(a, b) \<in> edges (group_nodes gs) \<longleftrightarrow> (a, b) \<in> listing gs" for a b
  proof (cases "find (\<lambda>g. gr_local_id g = a) gs")
    case None
    then have "children (group_nodes gs) a = []"
      by (simp add: children_def map_of_group_nodes [OF assms])
    then show ?thesis using None by (auto simp: edges_def listing_def find_None_iff)
  next
    case (Some g)
    then have g: "g \<in> set gs" "gr_local_id g = a"
      by (auto simp: find_Some_iff)
    have one: "h = g" if "h \<in> set gs" "gr_local_id h = a" for h
      using assms g that by (auto simp: distinct_map dest: inj_onD)
    have "children (group_nodes gs) a = gr_member_ids g"
      by (simp add: children_def map_of_group_nodes [OF assms] Some)
    then have "(a, b) \<in> edges (group_nodes gs) \<longleftrightarrow> b \<in> set (gr_member_ids g)"
      by (simp add: edges_def)
    moreover have "(a, b) \<in> listing gs \<longleftrightarrow> b \<in> set (gr_member_ids g)"
      using g one unfolding listing_def by blast
    ultimately show ?thesis by simp
  qed
  then show ?thesis by auto
qed

lemma keys_group_nodes: "fst ` set (group_nodes gs) = gr_local_id ` set gs"
proof (induction gs rule: rev_induct)
  case Nil
  then show ?case by (simp add: group_nodes_def)
next
  case (snoc g gs)
  then show ?case by (simp add: group_nodes_def dom_update)
qed

text \<open>
  The groups are a forest over the extractor's own names: names are not shared, every listed name
  is known and is listed once, by one group, and no group is below itself.
\<close>

definition requirement_forest :: "extraction_output \<Rightarrow> bool" where
  "requirement_forest x \<longleftrightarrow>
     distinct (map ca_local_id (xo_candidates x) @ map gr_local_id (xo_groups x))
     \<and> distinct (concat (map gr_member_ids (xo_groups x)))
     \<and> snd ` listing (xo_groups x) \<subseteq> ca_local_id ` set (xo_candidates x) \<union> gr_local_id ` set (xo_groups x)
     \<and> acyclic (listing (xo_groups x))"

lemma listing_members: "snd ` listing gs = set (concat (map gr_member_ids gs))"
  by (force simp: listing_def image_iff)

text \<open>
  C31: The check of an extractor's groups returns, and accepts exactly the outputs whose groups form
  a forest over the extractor's own names: candidates and groups have names of their own, each listed
  name is one of them and is listed once in all, and no group contains itself at any depth.
\<close>

theorem group_membership_iff_forest:
  "isok (group_membership x) \<longleftrightarrow> requirement_forest x"
proof (cases "distinct (map gr_local_id (xo_groups x))")
  case True
  have walk: "(\<forall>node \<in> set (map fst (group_nodes (xo_groups x))).
        visit (group_nodes (xo_groups x)) node [] = Inr ()) \<longleftrightarrow> acyclic (listing (xo_groups x))"
    using visits_acyclic [of "group_nodes (xo_groups x)"] by (simp add: edges_group_nodes [OF True])
  show ?thesis
    unfolding isok_iff group_membership_def requirement_forest_def Let_def listing_members
    by (simp only: rbind_Inr_iff require_Inr as_validation_Inr rall_Inr_iff walk)
      (use True in auto)
next
  case False
  then show ?thesis
    by (auto simp: isok_iff group_membership_def requirement_forest_def rbind_Inr_iff Let_def)
qed

end
