(* ===== verification/Claims.thy ===== *)
theory Claims
  imports Requirements
begin

text \<open>
  The second half of \<open>contracts/requirements.py\<close>: resolved conditions, review decisions and the
  requirement claims that join them. A point in time with an offset is its instant in seconds and
  its ISO form; a float is the text that reads back as it.
\<close>

section \<open>Conditions\<close>

datatype capability_kind = Capability_skill | Capability_language

datatype capability_target = Target_skill | Target_unit

record capability_condition =
  cc_kind :: capability_kind
  cc_target_id :: ustr
  cc_target_kind :: capability_target
  cc_proficiency_scheme_id :: "ustr option"
  cc_minimum_proficiency :: "int option"

record education_condition =
  ec_minimum_degree :: "ustr option"
  ec_accepted_major_groups :: "ustr list"
  ec_accepts_expected_graduate :: "bool option"

record experience_condition =
  xc_context_id :: "ustr option"
  xc_minimum_months :: "int option"
  xc_maximum_months :: "int option"

record project_condition =
  pc_minimum_count :: "int option"
  pc_portfolio_required :: "bool option"
  pc_capability_ids :: "ustr list"

record location_condition =
  lc_administrative_codes :: "ustr list"
  lc_work_mode :: ustr

datatype requirement_condition =
    CapabilityCondition capability_condition
  | CredentialCondition (credential_target: ustr)
  | EducationCondition education_condition
  | ExperienceCondition experience_condition
  | ProjectCondition project_condition
  | LocationCondition location_condition
  | EligibilityCondition ustr ustr
  | AvailabilityCondition ustr
  | UnresolvedCondition ustr ustr

definition degree_names :: "ustr list" where
  "degree_names = [u ''NONE'', u ''HIGH_SCHOOL'', u ''ASSOCIATE'', u ''BACHELOR'', u ''MASTER'',
     u ''DOCTORATE'']"

definition major_group_names :: "ustr list" where
  "major_group_names = [u ''COMPUTING'', u ''ENGINEERING'', u ''NATURAL_SCIENCE'', u ''BUSINESS'',
     u ''HUMANITIES_SOCIAL'', u ''ARTS'', u ''OTHER'']"

definition work_mode_names :: "ustr list" where
  "work_mode_names = [u ''ONSITE'', u ''REMOTE'', u ''HYBRID'', u ''UNKNOWN'']"

definition unresolved_reasons :: "ustr list" where
  "unresolved_reasons = [u ''NO_MATCH'', u ''AMBIGUOUS'', u ''UNSUPPORTED_CONDITION'']"

text \<open>The discriminator \<open>kind\<close>; \<open>None\<close> is \<open>UNRESOLVED\<close>.\<close>

definition condition_kind :: "requirement_condition \<Rightarrow> requirement_kind option" where
  "condition_kind c =
     (case c of
        CapabilityCondition k \<Rightarrow>
          Some (case cc_kind k of Capability_skill \<Rightarrow> SKILL | Capability_language \<Rightarrow> LANGUAGE)
      | CredentialCondition _ \<Rightarrow> Some CREDENTIAL
      | EducationCondition _ \<Rightarrow> Some EDUCATION
      | ExperienceCondition _ \<Rightarrow> Some EXPERIENCE
      | ProjectCondition _ \<Rightarrow> Some PROJECT
      | LocationCondition _ \<Rightarrow> Some LOCATION
      | EligibilityCondition _ _ \<Rightarrow> Some ELIGIBILITY
      | AvailabilityCondition _ \<Rightarrow> Some AVAILABILITY
      | UnresolvedCondition _ _ \<Rightarrow> None)"

definition condition_kind_name :: "requirement_condition \<Rightarrow> ustr" where
  "condition_kind_name c =
     (case condition_kind c of None \<Rightarrow> u ''UNRESOLVED'' | Some k \<Rightarrow> requirement_kind_name k)"

definition capability_condition_check :: "capability_condition \<Rightarrow> exn + unit" where
  "capability_condition_check c =
     rbind (field_check (is_identifier (cc_target_id c)
              \<and> opt_ok is_identifier (cc_proficiency_scheme_id c)
              \<and> opt_ok (\<lambda>n. 0 \<le> n) (cc_minimum_proficiency c)))
       (\<lambda>_. rbind (require ((cc_proficiency_scheme_id c = None) = (cc_minimum_proficiency c = None))
              ''INCOMPLETE_PROFICIENCY'')
       (\<lambda>_. require (cc_kind c = Capability_language \<longrightarrow> cc_target_kind c = Target_skill)
              ''LANGUAGE_TARGET_MUST_BE_SKILL''))"

definition experience_condition_check :: "experience_condition \<Rightarrow> exn + unit" where
  "experience_condition_check c =
     rbind (field_check (opt_ok is_identifier (xc_context_id c)
              \<and> opt_ok (\<lambda>n. 0 \<le> n) (xc_minimum_months c) \<and> opt_ok (\<lambda>n. 0 \<le> n) (xc_maximum_months c)))
       (\<lambda>_. require (case (xc_minimum_months c, xc_maximum_months c) of
                       (Some lo, Some hi) \<Rightarrow> \<not> hi < lo | _ \<Rightarrow> True) ''EXPERIENCE_RANGE_ORDER'')"

definition condition_check :: "requirement_condition \<Rightarrow> exn + unit" where
  "condition_check c =
     (case c of
        CapabilityCondition k \<Rightarrow> capability_condition_check k
      | CredentialCondition t \<Rightarrow> field_check (is_identifier t)
      | EducationCondition e \<Rightarrow>
          field_check (opt_ok (\<lambda>d. d \<in> set degree_names) (ec_minimum_degree e)
            \<and> set (ec_accepted_major_groups e) \<subseteq> set major_group_names)
      | ExperienceCondition x \<Rightarrow> experience_condition_check x
      | ProjectCondition p \<Rightarrow>
          field_check (opt_ok (\<lambda>n. 0 \<le> n) (pc_minimum_count p)
            \<and> list_all is_identifier (pc_capability_ids p))
      | LocationCondition l \<Rightarrow>
          field_check (list_all is_identifier (lc_administrative_codes l)
            \<and> lc_work_mode l \<in> set work_mode_names)
      | EligibilityCondition code t \<Rightarrow> field_check (is_identifier code \<and> non_empty t)
      | AvailabilityCondition t \<Rightarrow> field_check (non_empty t)
      | UnresolvedCondition m r \<Rightarrow> field_check (non_empty m \<and> r \<in> set unresolved_reasons))"

definition condition_json :: "requirement_condition \<Rightarrow> json" where
  "condition_json c = jfields ((''kind'', JStr (condition_kind_name c)) #
     (case c of
        CapabilityCondition k \<Rightarrow>
          [(''target_id'', JStr (cc_target_id k)),
           (''target_kind'', JStr (case cc_target_kind k of Target_skill \<Rightarrow> u ''Skill''
              | Target_unit \<Rightarrow> u ''NCSCompetencyUnit'')),
           (''proficiency_scheme_id'', jopt JStr (cc_proficiency_scheme_id k)),
           (''minimum_proficiency'', jopt JInt (cc_minimum_proficiency k))]
      | CredentialCondition t \<Rightarrow> [(''target_id'', JStr t)]
      | EducationCondition e \<Rightarrow>
          [(''minimum_degree'', jopt JStr (ec_minimum_degree e)),
           (''accepted_major_groups'', JArr (map JStr (ec_accepted_major_groups e))),
           (''accepts_expected_graduate'', jopt JBool (ec_accepts_expected_graduate e))]
      | ExperienceCondition x \<Rightarrow>
          [(''context_id'', jopt JStr (xc_context_id x)),
           (''minimum_months'', jopt JInt (xc_minimum_months x)),
           (''maximum_months'', jopt JInt (xc_maximum_months x))]
      | ProjectCondition p \<Rightarrow>
          [(''minimum_count'', jopt JInt (pc_minimum_count p)),
           (''portfolio_required'', jopt JBool (pc_portfolio_required p)),
           (''capability_ids'', JArr (map JStr (pc_capability_ids p)))]
      | LocationCondition l \<Rightarrow>
          [(''administrative_codes'', JArr (map JStr (lc_administrative_codes l))),
           (''work_mode'', JStr (lc_work_mode l))]
      | EligibilityCondition code t \<Rightarrow> [(''code'', JStr code), (''source_text'', JStr t)]
      | AvailabilityCondition t \<Rightarrow> [(''schedule_text'', JStr t)]
      | UnresolvedCondition m r \<Rightarrow> [(''mention'', JStr m), (''reason'', JStr r)]))"

section \<open>Review\<close>

record aware_datetime =
  ad_instant :: int
  ad_text :: ustr

datatype review_status = PENDING | AUTO_ACCEPTED | HUMAN_ACCEPTED | REJECTED

definition review_status_name :: "review_status \<Rightarrow> ustr" where
  "review_status_name s = (case s of PENDING \<Rightarrow> u ''PENDING'' | AUTO_ACCEPTED \<Rightarrow> u ''AUTO_ACCEPTED''
     | HUMAN_ACCEPTED \<Rightarrow> u ''HUMAN_ACCEPTED'' | REJECTED \<Rightarrow> u ''REJECTED'')"

record review_decision =
  rd_status :: review_status
  rd_confidence :: "ustr option"
  rd_reviewer_id :: "ustr option"
  rd_reviewed_at :: "aware_datetime option"
  rd_policy_version :: "ustr option"

definition confidence_ok :: "pyenv \<Rightarrow> ustr \<Rightarrow> bool" where
  "confidence_ok P s = (case py_float P s of Some (Finite r) \<Rightarrow> 0 \<le> r \<and> r \<le> 1 | _ \<Rightarrow> False)"

definition review_decision_check :: "pyenv \<Rightarrow> review_decision \<Rightarrow> exn + unit" where
  "review_decision_check P r =
     rbind (field_check (opt_ok (confidence_ok P) (rd_confidence r)
              \<and> opt_ok is_identifier (rd_reviewer_id r) \<and> opt_ok is_identifier (rd_policy_version r)))
       (\<lambda>_. rbind (require (\<not> (rd_status r \<in> {HUMAN_ACCEPTED, REJECTED}
                \<and> (rd_reviewer_id r = None \<or> rd_reviewed_at r = None))) ''REVIEWER_REQUIRED'')
       (\<lambda>_. require (\<not> (rd_status r = AUTO_ACCEPTED
                \<and> (rd_policy_version r = None \<or> rd_confidence r = None \<or> rd_reviewed_at r = None)))
              ''ACCEPTANCE_POLICY_REQUIRED''))"

definition review_decision_json :: "review_decision \<Rightarrow> json" where
  "review_decision_json r = jfields
     [(''status'', JStr (review_status_name (rd_status r))),
      (''confidence'', jopt JFloat (rd_confidence r)),
      (''reviewer_id'', jopt JStr (rd_reviewer_id r)),
      (''reviewed_at'', jopt (\<lambda>t. JStr (ad_text t)) (rd_reviewed_at r)),
      (''policy_version'', jopt JStr (rd_policy_version r))]"

section \<open>Claims\<close>

datatype assertion_kind = SOURCE_EXPLICIT | Assertion_normalized | MODEL_INFERRED

record requirement_claim =
  cl_claim_id :: ustr
  cl_subject_revision_id :: ustr
  cl_extraction_id :: ustr
  cl_candidate_local_id :: ustr
  cl_kind :: requirement_kind
  cl_necessity :: necessity
  cl_polarity :: polarity
  cl_applicability_text :: "ustr option"
  cl_condition :: requirement_condition
  cl_evidence_ids :: "ustr list"
  cl_assertion_kind :: assertion_kind
  cl_resolver_version :: ustr
  cl_vocabulary_version :: ustr
  cl_review :: review_decision

definition claim_scope :: "requirement_claim \<Rightarrow> ustr" where
  "claim_scope c = (if cl_kind c \<in> {LOCATION, ELIGIBILITY, AVAILABILITY} then u ''POSTING_FILTER''
     else u ''CAPABILITY'')"

definition requirement_claim_body :: "requirement_claim \<Rightarrow> (string \<times> json) list" where
  "requirement_claim_body c =
     [(''schema_version'', JStr (u ''requirement-claim-v1'')),
      (''subject_revision_id'', JStr (cl_subject_revision_id c)),
      (''extraction_id'', JStr (cl_extraction_id c)),
      (''candidate_local_id'', JStr (cl_candidate_local_id c)),
      (''kind'', JStr (requirement_kind_name (cl_kind c))),
      (''necessity'', JStr (necessity_name (cl_necessity c))),
      (''polarity'', JStr (polarity_name (cl_polarity c))),
      (''applicability_text'', jopt JStr (cl_applicability_text c)),
      (''condition'', condition_json (cl_condition c)),
      (''evidence_ids'', JArr (map JStr (cl_evidence_ids c))),
      (''assertion_kind'', JStr (case cl_assertion_kind c of SOURCE_EXPLICIT \<Rightarrow> u ''SOURCE_EXPLICIT''
         | Assertion_normalized \<Rightarrow> u ''NORMALIZED'' | MODEL_INFERRED \<Rightarrow> u ''MODEL_INFERRED'')),
      (''resolver_version'', JStr (cl_resolver_version c)),
      (''vocabulary_version'', JStr (cl_vocabulary_version c)),
      (''review'', review_decision_json (cl_review c))]"

definition requirement_claim_json :: "requirement_claim \<Rightarrow> json" where
  "requirement_claim_json c =
     jfields ((''claim_id'', JStr (cl_claim_id c)) # requirement_claim_body c)"

definition resolved_and_reviewed :: "pyenv \<Rightarrow> requirement_claim \<Rightarrow> exn + unit" where
  "resolved_and_reviewed P c =
     rbind (require (condition_kind (cl_condition c) \<in> {Some (cl_kind c), None})
              ''REQUIREMENT_KIND_MISMATCH'')
       (\<lambda>_. rbind (require (\<not> (rd_status (cl_review c) \<in> {AUTO_ACCEPTED, HUMAN_ACCEPTED}
                \<and> (condition_kind (cl_condition c) = None \<or> cl_necessity c = UNSPECIFIED)))
              ''INCOMPLETE_CLAIM_CANNOT_BE_ACCEPTED'')
       (\<lambda>_. require (cl_claim_id c = digest P (jfields (requirement_claim_body c)))
              ''CLAIM_ID_MISMATCH''))"

definition requirement_claim_check :: "pyenv \<Rightarrow> requirement_claim \<Rightarrow> exn + unit" where
  "requirement_claim_check P c =
     rbind (field_check (is_sha256 (cl_claim_id c) \<and> is_sha256 (cl_subject_revision_id c)
              \<and> is_sha256 (cl_extraction_id c) \<and> is_identifier (cl_candidate_local_id c)
              \<and> opt_ok non_empty (cl_applicability_text c)
              \<and> cl_evidence_ids c \<noteq> [] \<and> list_all is_sha256 (cl_evidence_ids c)
              \<and> is_identifier (cl_resolver_version c) \<and> is_identifier (cl_vocabulary_version c)))
       (\<lambda>_. rbind (condition_check (cl_condition c))
       (\<lambda>_. rbind (review_decision_check P (cl_review c))
       (\<lambda>_. resolved_and_reviewed P c)))"

end
