(* ===== verification/Canonical.thy ===== *)
theory Canonical
  imports Claims
begin

text \<open>
  \<open>contracts/canonical.py\<close>: entities, their identities and their revisions. A revision is a payload
  of one kind, the documents it rests on, and for its fields the evidence that supports them; its
  identifier is the digest of all that.
\<close>

section \<open>Entities\<close>

datatype entity_kind =
    K_concept_scheme | K_occupation | K_ncs_class | K_ncs_unit | K_skill | K_credential
  | K_organization | K_job_posting | K_exam_session

definition entity_kind_name :: "entity_kind \<Rightarrow> ustr" where
  "entity_kind_name k = (case k of K_concept_scheme \<Rightarrow> u ''ConceptScheme''
     | K_occupation \<Rightarrow> u ''Occupation'' | K_ncs_class \<Rightarrow> u ''NCSClass''
     | K_ncs_unit \<Rightarrow> u ''NCSCompetencyUnit'' | K_skill \<Rightarrow> u ''Skill''
     | K_credential \<Rightarrow> u ''Credential'' | K_organization \<Rightarrow> u ''Organization''
     | K_job_posting \<Rightarrow> u ''JobPosting'' | K_exam_session \<Rightarrow> u ''ExamSession'')"

record external_identifier =
  xi_scheme :: ustr
  xi_value :: ustr

record entity_identity =
  ei_entity_id :: ustr
  ei_kind :: entity_kind
  ei_namespace :: ustr
  ei_source_key :: ustr

definition entity_identity_check :: "entity_identity \<Rightarrow> exn + unit" where
  "entity_identity_check e =
     field_check (is_identifier (ei_entity_id e) \<and> is_identifier (ei_namespace e)
       \<and> is_identifier (ei_source_key e))"

definition entity_identity_json :: "entity_identity \<Rightarrow> json" where
  "entity_identity_json e = jfields
     [(''entity_id'', JStr (ei_entity_id e)), (''kind'', JStr (entity_kind_name (ei_kind e))),
      (''namespace'', JStr (ei_namespace e)), (''source_key'', JStr (ei_source_key e))]"

record concept_scheme =
  cs_name_ko :: ustr
  cs_publisher :: ustr
  cs_version :: ustr

record occupation =
  oc_name_ko :: ustr
  oc_code :: ustr
  oc_scheme_id :: ustr
  oc_definition :: "ustr option"
  oc_aliases :: "ustr list"
  oc_ncs_class_ids :: "ustr list"

record ncs_class =
  nc_name_ko :: ustr
  nc_code :: ustr
  nc_taxonomy_version :: ustr
  nc_depth :: int
  nc_parent_id :: "ustr option"

record ncs_unit =
  nu_name_ko :: ustr
  nu_full_code :: ustr
  nu_base_code :: ustr
  nu_version :: ustr
  nu_level :: "int option"
  nu_definition :: "ustr option"
  nu_occupation_id :: ustr

datatype skill_kind = Skill_skill | Skill_tool | Skill_language

record skill =
  sk_name_ko :: ustr
  sk_code :: ustr
  sk_scheme_id :: ustr
  sk_skill_kind :: skill_kind
  sk_aliases :: "ustr list"
  sk_definition :: "ustr option"

record credential =
  cd_name_ko :: ustr
  cd_identifiers :: "external_identifier list"
  cd_issuing_organization_id :: "ustr option"
  cd_credential_type :: "ustr option"

text \<open>\<open>ExamDates\<close>: the ten dates, by the names the staging record has them under.\<close>

type_synonym date_table = "(ustr \<times> date option) list"

record canonical_exam =
  ce_name_ko :: ustr
  ce_credential_id :: ustr
  ce_year :: int
  ce_round :: int
  ce_category_code :: ustr
  ce_dates :: date_table

record canonical_organization =
  cg_name_ko :: ustr
  cg_identifiers :: "external_identifier list"
  cg_name_en :: "ustr option"
  cg_employer_type :: ustr
  cg_organization_type_text :: "ustr option"
  cg_supervising_organization_id :: "ustr option"
  cg_website :: "ustr option"
  cg_address_text :: "ustr option"
  cg_established_date :: "date option"
  cg_active :: "bool option"

datatype temporal_value = DayValue date | InstantValue aware_datetime

datatype source_status = Status_open | Status_closed | Status_unknown

record canonical_posting =
  cj_title :: "ustr option"
  cj_canonical_url :: "ustr option"
  cj_description_document_id :: "ustr option"
  cj_organization_id :: "ustr option"
  cj_organization_name_text :: "ustr option"
  cj_primary_occupation_id :: "ustr option"
  cj_date_posted :: "temporal_value option"
  cj_valid_through :: "temporal_value option"
  cj_source_status :: source_status
  cj_employment_type_text :: "ustr option"
  cj_recruitment_type_text :: "ustr option"
  cj_education_text :: "ustr option"
  cj_region_text :: "ustr option"
  cj_ncs_categories_text :: "ustr option"
  cj_headcount :: "int option"

datatype entity_payload =
    P_concept_scheme concept_scheme
  | P_occupation occupation
  | P_ncs_class ncs_class
  | P_ncs_unit ncs_unit
  | P_skill skill
  | P_credential credential
  | P_organization canonical_organization
  | P_job_posting canonical_posting
  | P_exam_session canonical_exam

fun payload_kind :: "entity_payload \<Rightarrow> entity_kind" where
  "payload_kind (P_concept_scheme _) = K_concept_scheme"
| "payload_kind (P_occupation _) = K_occupation"
| "payload_kind (P_ncs_class _) = K_ncs_class"
| "payload_kind (P_ncs_unit _) = K_ncs_unit"
| "payload_kind (P_skill _) = K_skill"
| "payload_kind (P_credential _) = K_credential"
| "payload_kind (P_organization _) = K_organization"
| "payload_kind (P_job_posting _) = K_job_posting"
| "payload_kind (P_exam_session _) = K_exam_session"

section \<open>The checks of the payloads\<close>

definition external_identifier_ok :: "external_identifier \<Rightarrow> bool" where
  "external_identifier_ok x \<longleftrightarrow> is_identifier (xi_scheme x) \<and> non_empty (xi_value x)"

definition opt_text :: "ustr option \<Rightarrow> bool" where
  "opt_text v \<longleftrightarrow> opt_ok encodable v"

text \<open>\<open>^(?:\d{2}){1,4}$\<close>.\<close>

definition ncs_class_code :: "ustr \<Rightarrow> bool" where
  "ncs_class_code s \<longleftrightarrow> all_decimal s \<and> length s \<in> {2, 4, 6, 8}"

text \<open>\<open>^\d{2}v\d+$\<close>.\<close>

definition ncs_version :: "ustr \<Rightarrow> bool" where
  "ncs_version s \<longleftrightarrow> decimals 2 (slice 0 2 s) \<and> slice 2 3 s = u ''v'' \<and> all_decimal (drop 3 s)"

definition ncs_hierarchy :: "ncs_class \<Rightarrow> exn + unit" where
  "ncs_hierarchy c =
     require (int (length (nc_code c)) = nc_depth c * 2
              \<and> (nc_depth c = 1) = (nc_parent_id c = None)) ''INVALID_NCS_CLASS_HIERARCHY''"

definition versioned_code :: "ncs_unit \<Rightarrow> exn + unit" where
  "versioned_code v =
     require (nu_full_code v = nu_base_code v @ u ''_'' @ nu_version v) ''NCS_VERSION_MISMATCH''"

definition exam_date_names :: "string list" where
  "exam_date_names = [''docRegStartDt'', ''docRegEndDt'', ''docExamStartDt'', ''docExamEndDt'',
     ''docPassDt'', ''pracRegStartDt'', ''pracRegEndDt'', ''pracExamStartDt'', ''pracExamEndDt'',
     ''pracPassDt'']"

definition exam_date_ranges :: "(string \<times> string) list" where
  "exam_date_ranges = [(''docRegStartDt'', ''docRegEndDt''), (''docExamStartDt'', ''docExamEndDt''),
     (''pracRegStartDt'', ''pracRegEndDt''), (''pracExamStartDt'', ''pracExamEndDt'')]"

text \<open>
  \<open>ExamDates.model_validate\<close> of a dictionary: no unknown name, absent dates are null, and no range
  ends before it starts.
\<close>

definition exam_dates :: "(ustr \<times> date option) list \<Rightarrow> exn + date_table" where
  "exam_dates given =
     rbind (field_check (set (map fst given) \<subseteq> set (map u exam_date_names)))
       (\<lambda>_. let dates = map (\<lambda>n. (u n, date_of_field given n)) exam_date_names in
         rbind (require (\<not> list_ex (reversed_range dates) exam_date_ranges) ''EXAM_DATE_ORDER'')
           (\<lambda>_. Inr dates))"

definition exam_dates_check :: "date_table \<Rightarrow> exn + unit" where
  "exam_dates_check dates =
     rbind (field_check (map fst dates = map u exam_date_names))
       (\<lambda>_. require (\<not> list_ex (reversed_range dates) exam_date_ranges) ''EXAM_DATE_ORDER'')"

definition posting_date_order :: "canonical_posting \<Rightarrow> exn + unit" where
  "posting_date_order p =
     rbind (require (\<not> (case (cj_date_posted p, cj_valid_through p) of
                (Some (DayValue a), Some (DayValue b)) \<Rightarrow> b < a | _ \<Rightarrow> False)) ''POSTING_DATE_ORDER'')
       (\<lambda>_. require (\<not> (case (cj_date_posted p, cj_valid_through p) of
                (Some (InstantValue a), Some (InstantValue b)) \<Rightarrow> ad_instant b < ad_instant a
              | _ \<Rightarrow> False)) ''POSTING_DATE_ORDER'')"

definition employer_types :: "ustr list" where
  "employer_types = [u ''LARGE_ENTERPRISE'', u ''STARTUP'', u ''OTHER'', u ''UNKNOWN'']"

definition occupation_ok :: "occupation \<Rightarrow> bool" where
  "occupation_ok v \<longleftrightarrow> non_empty (oc_name_ko v) \<and> is_identifier (oc_code v) \<and> is_identifier (oc_scheme_id v)
     \<and> opt_text (oc_definition v) \<and> list_all non_empty (oc_aliases v)
     \<and> list_all is_identifier (oc_ncs_class_ids v)"

definition ncs_unit_ok :: "ncs_unit \<Rightarrow> bool" where
  "ncs_unit_ok v \<longleftrightarrow> non_empty (nu_name_ko v) \<and> ncs_unit_code (nu_full_code v)
     \<and> decimals 10 (nu_base_code v) \<and> ncs_version (nu_version v)
     \<and> opt_ok (\<lambda>n. 1 \<le> n \<and> n \<le> 8) (nu_level v) \<and> opt_text (nu_definition v)
     \<and> is_identifier (nu_occupation_id v)"

definition canonical_organization_ok :: "canonical_organization \<Rightarrow> bool" where
  "canonical_organization_ok v \<longleftrightarrow> non_empty (cg_name_ko v)
     \<and> list_all external_identifier_ok (cg_identifiers v) \<and> opt_text (cg_name_en v)
     \<and> cg_employer_type v \<in> set employer_types \<and> opt_text (cg_organization_type_text v)
     \<and> opt_ok is_identifier (cg_supervising_organization_id v) \<and> opt_text (cg_website v)
     \<and> opt_text (cg_address_text v)"

definition canonical_posting_ok :: "canonical_posting \<Rightarrow> bool" where
  "canonical_posting_ok v \<longleftrightarrow> opt_ok non_empty (cj_title v) \<and> opt_text (cj_canonical_url v)
     \<and> opt_ok is_sha256 (cj_description_document_id v) \<and> opt_ok is_identifier (cj_organization_id v)
     \<and> opt_text (cj_organization_name_text v) \<and> opt_ok is_identifier (cj_primary_occupation_id v)
     \<and> opt_text (cj_employment_type_text v) \<and> opt_text (cj_recruitment_type_text v)
     \<and> opt_text (cj_education_text v) \<and> opt_text (cj_region_text v)
     \<and> opt_text (cj_ncs_categories_text v) \<and> opt_ok (\<lambda>n. 0 \<le> n) (cj_headcount v)"

definition payload_check :: "entity_payload \<Rightarrow> exn + unit" where
  "payload_check p =
     (case p of
        P_concept_scheme v \<Rightarrow> field_check (non_empty (cs_name_ko v) \<and> non_empty (cs_publisher v)
          \<and> non_empty (cs_version v))
      | P_occupation v \<Rightarrow> field_check (occupation_ok v)
      | P_ncs_class v \<Rightarrow>
          rbind (field_check (non_empty (nc_name_ko v) \<and> ncs_class_code (nc_code v)
            \<and> non_empty (nc_taxonomy_version v) \<and> 1 \<le> nc_depth v \<and> nc_depth v \<le> 4
            \<and> opt_ok is_identifier (nc_parent_id v))) (\<lambda>_. ncs_hierarchy v)
      | P_ncs_unit v \<Rightarrow> rbind (field_check (ncs_unit_ok v)) (\<lambda>_. versioned_code v)
      | P_skill v \<Rightarrow> field_check (non_empty (sk_name_ko v) \<and> is_identifier (sk_code v)
          \<and> is_identifier (sk_scheme_id v) \<and> list_all non_empty (sk_aliases v)
          \<and> opt_text (sk_definition v))
      | P_credential v \<Rightarrow> field_check (non_empty (cd_name_ko v) \<and> cd_identifiers v \<noteq> []
          \<and> list_all external_identifier_ok (cd_identifiers v)
          \<and> opt_ok is_identifier (cd_issuing_organization_id v) \<and> opt_text (cd_credential_type v))
      | P_organization v \<Rightarrow> field_check (canonical_organization_ok v)
      | P_job_posting v \<Rightarrow> rbind (field_check (canonical_posting_ok v)) (\<lambda>_. posting_date_order v)
      | P_exam_session v \<Rightarrow>
          rbind (field_check (non_empty (ce_name_ko v) \<and> is_identifier (ce_credential_id v)
            \<and> 1900 \<le> ce_year v \<and> ce_year v \<le> 2200 \<and> 1 \<le> ce_round v
            \<and> is_identifier (ce_category_code v))) (\<lambda>_. exam_dates_check (ce_dates v)))"

definition missing_publication_fields :: "canonical_posting \<Rightarrow> ustr list" where
  "missing_publication_fields p =
     List.map_filter (\<lambda>(name, given). if given then None else Some (u name))
       [(''title'', cj_title p \<noteq> None), (''canonical_url'', cj_canonical_url p \<noteq> None),
        (''description_document_id'', cj_description_document_id p \<noteq> None),
        (''organization_id'', cj_organization_id p \<noteq> None),
        (''primary_occupation_id'', cj_primary_occupation_id p \<noteq> None),
        (''date_posted'', cj_date_posted p \<noteq> None), (''valid_through'', cj_valid_through p \<noteq> None)]"

section \<open>JSON\<close>

definition external_identifier_json :: "external_identifier \<Rightarrow> json" where
  "external_identifier_json x =
     jfields [(''scheme'', JStr (xi_scheme x)), (''value'', JStr (xi_value x))]"

definition strings_json :: "ustr list \<Rightarrow> json" where
  "strings_json xs = JArr (map JStr xs)"

definition temporal_json :: "temporal_value \<Rightarrow> json" where
  "temporal_json t =
     (case t of
        DayValue d \<Rightarrow> jfields [(''precision'', JStr (u ''DAY'')), (''value'', jdate d)]
      | InstantValue a \<Rightarrow> jfields [(''precision'', JStr (u ''INSTANT'')), (''value'', JStr (ad_text a))])"

definition source_status_name :: "source_status \<Rightarrow> ustr" where
  "source_status_name s = (case s of Status_open \<Rightarrow> u ''OPEN'' | Status_closed \<Rightarrow> u ''CLOSED''
     | Status_unknown \<Rightarrow> u ''UNKNOWN'')"

text \<open>
  The fields of a payload in the order of the class, each with its dump. A field is \<open>None\<close> exactly
  when it dumps as null.
\<close>

definition payload_fields :: "entity_payload \<Rightarrow> (string \<times> json) list" where
  "payload_fields p = (''kind'', JStr (entity_kind_name (payload_kind p))) #
     (case p of
        P_concept_scheme v \<Rightarrow>
          [(''name_ko'', JStr (cs_name_ko v)), (''publisher'', JStr (cs_publisher v)),
           (''version'', JStr (cs_version v))]
      | P_occupation v \<Rightarrow>
          [(''name_ko'', JStr (oc_name_ko v)), (''code'', JStr (oc_code v)),
           (''scheme_id'', JStr (oc_scheme_id v)), (''definition'', jopt JStr (oc_definition v)),
           (''aliases'', strings_json (oc_aliases v)),
           (''ncs_class_ids'', strings_json (oc_ncs_class_ids v))]
      | P_ncs_class v \<Rightarrow>
          [(''name_ko'', JStr (nc_name_ko v)), (''code'', JStr (nc_code v)),
           (''taxonomy_version'', JStr (nc_taxonomy_version v)), (''depth'', JInt (nc_depth v)),
           (''parent_id'', jopt JStr (nc_parent_id v))]
      | P_ncs_unit v \<Rightarrow>
          [(''name_ko'', JStr (nu_name_ko v)), (''full_code'', JStr (nu_full_code v)),
           (''base_code'', JStr (nu_base_code v)), (''version'', JStr (nu_version v)),
           (''level'', jopt JInt (nu_level v)), (''definition'', jopt JStr (nu_definition v)),
           (''occupation_id'', JStr (nu_occupation_id v))]
      | P_skill v \<Rightarrow>
          [(''name_ko'', JStr (sk_name_ko v)), (''code'', JStr (sk_code v)),
           (''scheme_id'', JStr (sk_scheme_id v)),
           (''skill_kind'', JStr (case sk_skill_kind v of Skill_skill \<Rightarrow> u ''SKILL''
              | Skill_tool \<Rightarrow> u ''TOOL'' | Skill_language \<Rightarrow> u ''LANGUAGE'')),
           (''aliases'', strings_json (sk_aliases v)),
           (''definition'', jopt JStr (sk_definition v))]
      | P_credential v \<Rightarrow>
          [(''name_ko'', JStr (cd_name_ko v)),
           (''identifiers'', JArr (map external_identifier_json (cd_identifiers v))),
           (''issuing_organization_id'', jopt JStr (cd_issuing_organization_id v)),
           (''credential_type'', jopt JStr (cd_credential_type v))]
      | P_organization v \<Rightarrow>
          [(''name_ko'', JStr (cg_name_ko v)),
           (''identifiers'', JArr (map external_identifier_json (cg_identifiers v))),
           (''name_en'', jopt JStr (cg_name_en v)), (''employer_type'', JStr (cg_employer_type v)),
           (''organization_type_text'', jopt JStr (cg_organization_type_text v)),
           (''supervising_organization_id'', jopt JStr (cg_supervising_organization_id v)),
           (''website'', jopt JStr (cg_website v)), (''address_text'', jopt JStr (cg_address_text v)),
           (''established_date'', jopt jdate (cg_established_date v)),
           (''active'', jopt JBool (cg_active v))]
      | P_job_posting v \<Rightarrow>
          [(''title'', jopt JStr (cj_title v)), (''canonical_url'', jopt JStr (cj_canonical_url v)),
           (''description_document_id'', jopt JStr (cj_description_document_id v)),
           (''organization_id'', jopt JStr (cj_organization_id v)),
           (''organization_name_text'', jopt JStr (cj_organization_name_text v)),
           (''primary_occupation_id'', jopt JStr (cj_primary_occupation_id v)),
           (''date_posted'', jopt temporal_json (cj_date_posted v)),
           (''valid_through'', jopt temporal_json (cj_valid_through v)),
           (''source_status'', JStr (source_status_name (cj_source_status v))),
           (''employment_type_text'', jopt JStr (cj_employment_type_text v)),
           (''recruitment_type_text'', jopt JStr (cj_recruitment_type_text v)),
           (''education_text'', jopt JStr (cj_education_text v)),
           (''region_text'', jopt JStr (cj_region_text v)),
           (''ncs_categories_text'', jopt JStr (cj_ncs_categories_text v)),
           (''headcount'', jopt JInt (cj_headcount v))]
      | P_exam_session v \<Rightarrow>
          [(''name_ko'', JStr (ce_name_ko v)), (''credential_id'', JStr (ce_credential_id v)),
           (''year'', JInt (ce_year v)), (''round'', JInt (ce_round v)),
           (''category_code'', JStr (ce_category_code v)),
           (''dates'', JObj (map (\<lambda>(k, d). (k, jopt jdate d)) (ce_dates v)))])"

definition field_names :: "entity_payload \<Rightarrow> ustr list" where
  "field_names p = map (\<lambda>(n, _). u n) (payload_fields p)"

text \<open>\<open>getattr(value, field) is None\<close>.\<close>

definition field_absent :: "entity_payload \<Rightarrow> string \<Rightarrow> bool" where
  "field_absent p field \<longleftrightarrow> map_of (payload_fields p) field = Some JNull"

section \<open>Revisions\<close>

datatype support_method = Direct | Normalized_support | Reviewed_mapping

definition support_method_name :: "support_method \<Rightarrow> ustr" where
  "support_method_name m = (case m of Direct \<Rightarrow> u ''DIRECT'' | Normalized_support \<Rightarrow> u ''NORMALIZED''
     | Reviewed_mapping \<Rightarrow> u ''REVIEWED_MAPPING'')"

record field_support =
  fs_field :: ustr
  fs_evidence_ids :: "ustr list"
  fs_method :: support_method

definition field_support_check :: "field_support \<Rightarrow> exn + unit" where
  "field_support_check s =
     field_check (non_empty (fs_field s) \<and> fs_evidence_ids s \<noteq> []
       \<and> list_all is_sha256 (fs_evidence_ids s))"

definition field_support_json :: "field_support \<Rightarrow> json" where
  "field_support_json s = jfields
     [(''field'', JStr (fs_field s)), (''evidence_ids'', strings_json (fs_evidence_ids s)),
      (''method'', JStr (support_method_name (fs_method s)))]"

record entity_revision =
  er_revision_id :: ustr
  er_entity_id :: ustr
  er_document_ids :: "ustr list"
  er_payload :: entity_payload
  er_field_support :: "field_support list"

definition entity_revision_body :: "entity_revision \<Rightarrow> (string \<times> json) list" where
  "entity_revision_body r =
     [(''schema_version'', JStr schema_version), (''entity_id'', JStr (er_entity_id r)),
      (''document_ids'', strings_json (er_document_ids r)),
      (''payload'', jfields (payload_fields (er_payload r))),
      (''field_support'', JArr (map field_support_json (er_field_support r)))]"

definition entity_revision_json :: "entity_revision \<Rightarrow> json" where
  "entity_revision_json r =
     jfields ((''revision_id'', JStr (er_revision_id r)) # entity_revision_body r)"

definition revision_digest :: "pyenv \<Rightarrow> entity_revision \<Rightarrow> ustr" where
  "revision_digest P r = digest P (jfields (entity_revision_body r))"

definition description_bound :: "entity_revision \<Rightarrow> bool" where
  "description_bound r =
     (case er_payload r of
        P_job_posting v \<Rightarrow> opt_ok (\<lambda>d. d \<in> set (er_document_ids r)) (cj_description_document_id v)
      | _ \<Rightarrow> True)"

definition content_identity :: "pyenv \<Rightarrow> entity_revision \<Rightarrow> exn + unit" where
  "content_identity P r =
     rbind (require (distinct (er_document_ids r)) ''DUPLICATE_DOCUMENT_REFERENCE'')
       (\<lambda>_. rbind (require (distinct (map fs_field (er_field_support r))
                \<and> set (map fs_field (er_field_support r)) \<subseteq> set (field_names (er_payload r)))
              ''INVALID_FIELD_SUPPORT'')
       (\<lambda>_. rbind (require (description_bound r) ''UNBOUND_DESCRIPTION_DOCUMENT'')
       (\<lambda>_. require (er_revision_id r = revision_digest P r) ''REVISION_ID_MISMATCH'')))"

definition entity_revision_check :: "pyenv \<Rightarrow> entity_revision \<Rightarrow> exn + unit" where
  "entity_revision_check P r =
     rbind (field_check (is_sha256 (er_revision_id r) \<and> is_identifier (er_entity_id r)
              \<and> er_document_ids r \<noteq> [] \<and> list_all is_sha256 (er_document_ids r)))
       (\<lambda>_. rbind (payload_check (er_payload r))
       (\<lambda>_. rbind (rall field_support_check (er_field_support r))
       (\<lambda>_. content_identity P r)))"

end
