(* ===== verification/Bundle.thy ===== *)
theory Bundle
  imports Canonical
begin

text \<open>
  \<open>contracts/bundle.py\<close>: documents, identities, revisions, evidence, extractions and claims that are
  stored together, and the validator that checks every reference and every quotation between them.
\<close>

record canonical_bundle =
  cb_documents :: "source_document list"
  cb_identities :: "entity_identity list"
  cb_revisions :: "entity_revision list"
  cb_evidence :: "evidence_span list"
  cb_extractions :: "extraction_record list"
  cb_claims :: "requirement_claim list"

definition bundle_json :: "canonical_bundle \<Rightarrow> json" where
  "bundle_json b = jfields
     [(''documents'', JArr (map source_document_json (cb_documents b))),
      (''identities'', JArr (map entity_identity_json (cb_identities b))),
      (''revisions'', JArr (map entity_revision_json (cb_revisions b))),
      (''evidence'', JArr (map evidence_span_json (cb_evidence b))),
      (''extractions'', JArr (map extraction_record_json (cb_extractions b))),
      (''claims'', JArr (map requirement_claim_json (cb_claims b)))]"

section \<open>The indexes\<close>

definition documents_by_id :: "canonical_bundle \<Rightarrow> (ustr \<times> source_document) list" where
  "documents_by_id b = index_by sd_document_id (cb_documents b)"

definition identities_by_id :: "canonical_bundle \<Rightarrow> (ustr \<times> entity_identity) list" where
  "identities_by_id b = index_by ei_entity_id (cb_identities b)"

definition revisions_by_id :: "canonical_bundle \<Rightarrow> (ustr \<times> entity_revision) list" where
  "revisions_by_id b = index_by er_revision_id (cb_revisions b)"

definition evidence_by_id :: "canonical_bundle \<Rightarrow> (ustr \<times> evidence_span) list" where
  "evidence_by_id b = index_by ev_evidence_id (cb_evidence b)"

definition extractions_by_id :: "canonical_bundle \<Rightarrow> (ustr \<times> extraction_record) list" where
  "extractions_by_id b = index_by xr_extraction_id (cb_extractions b)"

definition bundle_ids_unique :: "canonical_bundle \<Rightarrow> bool" where
  "bundle_ids_unique b \<longleftrightarrow>
     length (documents_by_id b) = length (cb_documents b)
     \<and> length (identities_by_id b) = length (cb_identities b)
     \<and> length (revisions_by_id b) = length (cb_revisions b)
     \<and> length (evidence_by_id b) = length (cb_evidence b)
     \<and> length (extractions_by_id b) = length (cb_extractions b)
     \<and> length (index_by cl_claim_id (cb_claims b)) = length (cb_claims b)"

definition bundle_error :: "string \<Rightarrow> exn" where
  "bundle_error code = Exn ValueError (u code)"

section \<open>The loops of the validator\<close>

definition require_entity :: "canonical_bundle \<Rightarrow> ustr option \<Rightarrow> entity_kind \<Rightarrow> exn + unit" where
  "require_entity b entity_id expected =
     ensure (case entity_id of
               None \<Rightarrow> True
             | Some i \<Rightarrow> (case map_of (identities_by_id b) i of
                 None \<Rightarrow> False | Some e \<Rightarrow> ei_kind e = expected))
       (bundle_error ''MISSING_OR_WRONG_ENTITY_TYPE'')"

definition check_span :: "canonical_bundle \<Rightarrow> evidence_span \<Rightarrow> exn + unit" where
  "check_span b e =
     (case map_of (documents_by_id b) (ev_document_id e) of
        None \<Rightarrow> Inl (bundle_error ''MISSING_EVIDENCE_DOCUMENT'')
      | Some d \<Rightarrow> span_in_document e d)"

definition check_support :: "canonical_bundle \<Rightarrow> entity_revision \<Rightarrow> field_support \<Rightarrow> exn + unit" where
  "check_support b r s =
     rall (\<lambda>i. ensure (case map_of (evidence_by_id b) i of
                 None \<Rightarrow> False | Some e \<Rightarrow> ev_document_id e \<in> set (er_document_ids r))
               (bundle_error ''INVALID_FIELD_EVIDENCE'')) (fs_evidence_ids s)"

definition check_references :: "canonical_bundle \<Rightarrow> entity_revision \<Rightarrow> exn + unit" where
  "check_references b r =
     (case er_payload r of
        P_concept_scheme _ \<Rightarrow> Inr ()
      | P_occupation v \<Rightarrow>
          rbind (require_entity b (Some (oc_scheme_id v)) K_concept_scheme) (\<lambda>_.
            rall (\<lambda>i. require_entity b (Some i) K_ncs_class) (oc_ncs_class_ids v))
      | P_skill v \<Rightarrow> require_entity b (Some (sk_scheme_id v)) K_concept_scheme
      | P_ncs_class v \<Rightarrow> require_entity b (nc_parent_id v) K_ncs_class
      | P_ncs_unit v \<Rightarrow>
          rbind (require_entity b (Some (nu_occupation_id v)) K_occupation) (\<lambda>_.
            (case map_of (identities_by_id b) (er_entity_id r) of
               None \<Rightarrow> Inl (Exn (OtherError (u ''KeyError'')) (er_entity_id r))
             | Some e \<Rightarrow> ensure (ei_source_key e = nu_full_code v)
                 (bundle_error ''NCS_IDENTITY_MUST_INCLUDE_VERSION'')))
      | P_organization v \<Rightarrow> require_entity b (cg_supervising_organization_id v) K_organization
      | P_credential v \<Rightarrow> require_entity b (cd_issuing_organization_id v) K_organization
      | P_exam_session v \<Rightarrow> require_entity b (Some (ce_credential_id v)) K_credential
      | P_job_posting v \<Rightarrow>
          rbind (require_entity b (cj_organization_id v) K_organization) (\<lambda>_.
            require_entity b (cj_primary_occupation_id v) K_occupation))"

definition check_revision :: "canonical_bundle \<Rightarrow> entity_revision \<Rightarrow> exn + unit" where
  "check_revision b r =
     rbind (require_entity b (Some (er_entity_id r)) (payload_kind (er_payload r))) (\<lambda>_.
     rbind (ensure (set (er_document_ids r) \<subseteq> fst ` set (documents_by_id b))
              (bundle_error ''MISSING_REVISION_DOCUMENT'')) (\<lambda>_.
     rbind (rall (check_support b r) (er_field_support r)) (\<lambda>_.
       check_references b r)))"

definition check_extraction :: "canonical_bundle \<Rightarrow> extraction_record \<Rightarrow> exn + unit" where
  "check_extraction b x =
     (case map_of (documents_by_id b) (xr_document_id x) of
        None \<Rightarrow> Inl (bundle_error ''MISSING_EXTRACTION_DOCUMENT'')
      | Some d \<Rightarrow> extraction_in_document d (xr_output x))"

definition is_posting :: "entity_payload \<Rightarrow> bool" where
  "is_posting p = (case p of P_job_posting _ \<Rightarrow> True | _ \<Rightarrow> False)"

definition claim_spans ::
    "canonical_bundle \<Rightarrow> extraction_record \<Rightarrow> requirement_claim \<Rightarrow> exn + evidence_span list" where
  "claim_spans b x c =
     rmap (\<lambda>i. case map_of (evidence_by_id b) i of
        None \<Rightarrow> Inl (bundle_error ''INVALID_CLAIM_EVIDENCE'')
      | Some e \<Rightarrow>
          if ev_document_id e \<noteq> xr_document_id x
          then Inl (bundle_error ''INVALID_CLAIM_EVIDENCE'') else Inr e) (cl_evidence_ids c)"

definition span_quote :: "evidence_span \<Rightarrow> ustr \<times> int \<times> int \<times> ustr" where
  "span_quote e = (ev_block_id e, ev_start e, ev_end e, ev_excerpt e)"

definition selector_quote :: "span_selector \<Rightarrow> ustr \<times> int \<times> int \<times> ustr" where
  "selector_quote s = (ss_block_id s, ss_start s, ss_end s, ss_excerpt s)"

definition language_vocabulary :: "canonical_bundle \<Rightarrow> ustr \<Rightarrow> exn + unit" where
  "language_vocabulary b target =
     (let payloads = map er_payload (filter (\<lambda>r. er_entity_id r = target) (cb_revisions b)) in
      ensure (payloads \<noteq> [] \<and> list_all (\<lambda>p. case p of
                P_skill v \<Rightarrow> sk_skill_kind v = Skill_language | _ \<Rightarrow> False) payloads)
        (bundle_error ''LANGUAGE_VOCABULARY_REQUIRED''))"

definition check_condition :: "canonical_bundle \<Rightarrow> requirement_condition \<Rightarrow> exn + unit" where
  "check_condition b c =
     (case c of
        CapabilityCondition k \<Rightarrow>
          rbind (require_entity b (Some (cc_target_id k))
                   (case cc_target_kind k of Target_skill \<Rightarrow> K_skill | Target_unit \<Rightarrow> K_ncs_unit)) (\<lambda>_.
            if cc_kind k = Capability_language then language_vocabulary b (cc_target_id k)
            else Inr ())
      | CredentialCondition t \<Rightarrow> require_entity b (Some t) K_credential
      | _ \<Rightarrow> Inr ())"

definition claim_subject ::
    "canonical_bundle \<Rightarrow> requirement_claim \<Rightarrow> exn + entity_revision \<times> extraction_record" where
  "claim_subject b c =
     (case (map_of (revisions_by_id b) (cl_subject_revision_id c),
            map_of (extractions_by_id b) (cl_extraction_id c)) of
        (Some r, Some x) \<Rightarrow>
          if is_posting (er_payload r) \<and> xr_document_id x \<in> set (er_document_ids r)
          then Inr (r, x) else Inl (bundle_error ''INVALID_CLAIM_SUBJECT'')
      | _ \<Rightarrow> Inl (bundle_error ''INVALID_CLAIM_SUBJECT''))"

definition claimed_candidate ::
    "extraction_record \<Rightarrow> requirement_claim \<Rightarrow> exn + requirement_candidate" where
  "claimed_candidate x c =
     (case find (\<lambda>k. ca_local_id k = cl_candidate_local_id c) (xo_candidates (xr_output x)) of
        None \<Rightarrow> Inl (bundle_error ''CLAIM_CHANGED_EXTRACTED_MEANING'')
      | Some k \<Rightarrow>
          if (ca_kind k, ca_necessity k, ca_polarity k, ca_applicability_text k)
             \<noteq> (cl_kind c, cl_necessity c, cl_polarity c, cl_applicability_text c)
          then Inl (bundle_error ''CLAIM_CHANGED_EXTRACTED_MEANING'') else Inr k)"

definition check_claim :: "canonical_bundle \<Rightarrow> requirement_claim \<Rightarrow> exn + unit" where
  "check_claim b c =
     rbind (claim_subject b c) (\<lambda>(r, x).
     rbind (claimed_candidate x c) (\<lambda>k.
     rbind (claim_spans b x c) (\<lambda>spans.
     rbind (ensure (selector_quote ` set (ca_evidence k) \<subseteq> span_quote ` set spans)
              (bundle_error ''CLAIM_OMITTED_CANDIDATE_EVIDENCE'')) (\<lambda>_.
       check_condition b (cl_condition c)))))"

definition references_and_evidence :: "canonical_bundle \<Rightarrow> exn + unit" where
  "references_and_evidence b =
     rbind (ensure (bundle_ids_unique b) (bundle_error ''DUPLICATE_BUNDLE_ID'')) (\<lambda>_.
     rbind (rall (check_span b) (cb_evidence b)) (\<lambda>_.
     rbind (rall (check_revision b) (cb_revisions b)) (\<lambda>_.
     rbind (rall (check_extraction b) (cb_extractions b)) (\<lambda>_.
       rall (check_claim b) (cb_claims b)))))"

text \<open>
  \<open>CanonicalBundle.model_validate\<close> of a bundle: its members, then the validator. A bundle that is
  made of validated members runs the validator alone.
\<close>

definition bundle_members_check :: "pyenv \<Rightarrow> canonical_bundle \<Rightarrow> exn + unit" where
  "bundle_members_check P b =
     rbind (rall (source_document_check P) (cb_documents b)) (\<lambda>_.
     rbind (rall entity_identity_check (cb_identities b)) (\<lambda>_.
     rbind (rall (entity_revision_check P) (cb_revisions b)) (\<lambda>_.
     rbind (rall (evidence_span_check P) (cb_evidence b)) (\<lambda>_.
     rbind (rall (extraction_record_check P) (cb_extractions b)) (\<lambda>_.
       rall (requirement_claim_check P) (cb_claims b))))))"

definition bundle_check :: "pyenv \<Rightarrow> canonical_bundle \<Rightarrow> exn + unit" where
  "bundle_check P b =
     rbind (bundle_members_check P b) (\<lambda>_. as_validation (references_and_evidence b))"

end
