(* ===== verification/Assembly.thy ===== *)
theory Assembly
  imports Bundle
begin

text \<open>
  \<open>processing/canonical.py\<close> and \<open>processing/assembly.py\<close>: from verified staging records to a bundle
  of drafts. The bridges copy fields; \<open>assemble\<close> takes one occurrence of a record, or the list and
  the detail of one posting, and gives every revision's field the blocks of text it came from.
\<close>

section \<open>Bridges\<close>

definition document_from_staging ::
    "pyenv \<Rightarrow> staged_record \<Rightarrow> ustr \<Rightarrow> ustr \<Rightarrow> ustr \<Rightarrow> ustr \<Rightarrow> exn + source_document" where
  "document_from_staging P r source snapshot loc version =
     (if list_ex (\<lambda>(_, t). ta_normalization_version t \<noteq> text_version) (rc_texts r)
      then Inl (Exn ValueError (u ''UNSUPPORTED_TEXT_NORMALIZATION_VERSION''))
      else
        let blocks = map (\<lambda>(pointer, t).
              \<lparr>tb_block_id = digest P (JStr pointer), tb_locator = pointer, tb_text = ta_text t,
               tb_sha256 = ta_sha256 t\<rparr>) (sort_key fst (rc_texts r));
            draft = \<lparr>sd_document_id = [], sd_source_id = source,
              sd_source_record_id = rc_source_record_id r, sd_snapshot_id = snapshot,
              sd_parser_version = version, sd_record_locator = loc, sd_blocks = blocks\<rparr>;
            d = draft\<lparr>sd_document_id := document_digest P draft\<rparr>
        in rbind (rall (text_block_check P) blocks) (\<lambda>_.
           rbind (source_document_check P d) (\<lambda>_. Inr d)))"

definition posting_from_staging ::
    "job_posting \<Rightarrow> ustr \<Rightarrow> ustr option \<Rightarrow> exn + canonical_posting" where
  "posting_from_staging v document_id organization_id =
     (let p = \<lparr>cj_title = Some (jp_title v), cj_canonical_url = jp_source_url v,
        cj_description_document_id = Some document_id, cj_organization_id = organization_id,
        cj_organization_name_text = Some (jp_organization_name v),
        cj_primary_occupation_id = None,
        cj_date_posted = Some (DayValue (jp_date_posted v)),
        cj_valid_through = Some (DayValue (jp_closing_date v)),
        cj_source_status = (case jp_ongoing v of None \<Rightarrow> Status_unknown
           | Some True \<Rightarrow> Status_open | Some False \<Rightarrow> Status_closed),
        cj_employment_type_text = jp_employment_type v,
        cj_recruitment_type_text = jp_recruitment_type v,
        cj_education_text = jp_education v, cj_region_text = jp_regions v,
        cj_ncs_categories_text = jp_ncs_category_names v, cj_headcount = jp_headcount v\<rparr>
      in rbind (payload_check (P_job_posting p)) (\<lambda>_. Inr p))"

definition organization_from_staging :: "organization \<Rightarrow> exn + canonical_organization" where
  "organization_from_staging v =
     (let g = \<lparr>cg_name_ko = og_name v,
        cg_identifiers = [\<lparr>xi_scheme = u ''alio:instCd'', xi_value = og_code v\<rparr>],
        cg_name_en = None, cg_employer_type = u ''UNKNOWN'',
        cg_organization_type_text = og_organization_type v,
        cg_supervising_organization_id = None, cg_website = og_website v,
        cg_address_text = og_address v, cg_established_date = og_established_date v,
        cg_active = None\<rparr>
      in rbind (payload_check (P_organization g)) (\<lambda>_. Inr g))"

definition occupation_from_staging :: "ustr \<Rightarrow> ustr \<Rightarrow> ustr \<Rightarrow> exn + occupation" where
  "occupation_from_staging occupation_name occupation_code scheme_id =
     (let v = \<lparr>oc_name_ko = occupation_name, oc_code = occupation_code, oc_scheme_id = scheme_id,
        oc_definition = None, oc_aliases = [], oc_ncs_class_ids = []\<rparr>
      in rbind (payload_check (P_occupation v)) (\<lambda>_. Inr v))"

text \<open>\<open>value.code.split("_", maxsplit=1)\<close> unpacked into two names.\<close>

definition split_code :: "ustr \<Rightarrow> exn + ustr \<times> ustr" where
  "split_code code =
     (if 95 \<in> set code
      then Inr (takeWhile (\<lambda>c. c \<noteq> 95) code, drop 1 (dropWhile (\<lambda>c. c \<noteq> 95) code))
      else Inl (Exn ValueError (u ''unpack'')))"

definition competency_from_staging :: "competency \<Rightarrow> ustr \<Rightarrow> exn + ncs_unit" where
  "competency_from_staging v occupation_id =
     rbind (split_code (co_code v)) (\<lambda>(base, version).
       let n = \<lparr>nu_name_ko = co_name v, nu_full_code = co_code v, nu_base_code = base,
         nu_version = version, nu_level = co_level v, nu_definition = co_definition v,
         nu_occupation_id = occupation_id\<rparr>
       in rbind (payload_check (P_ncs_unit n)) (\<lambda>_. Inr n))"

section \<open>Occurrences and drafts\<close>

definition assembler_version :: ustr where
  "assembler_version = u ''canonical-assembly-v1''"

record staged_occurrence =
  so_revision_id :: ustr
  so_source_id :: ustr
  so_snapshot_id :: ustr
  so_locator :: ustr
  so_parser_version :: ustr
  so_record :: staged_record
  so_observation_ids :: "ustr list"

definition entity_urn :: "string \<Rightarrow> ustr \<Rightarrow> ustr" where
  "entity_urn namespace key = u ''urn:jobtology:'' @ u namespace @ u '':'' @ key"

definition entity_of :: "entity_kind \<Rightarrow> string \<Rightarrow> ustr \<Rightarrow> exn + entity_identity" where
  "entity_of kind namespace key =
     (let e = \<lparr>ei_entity_id = entity_urn namespace key, ei_kind = kind,
        ei_namespace = u namespace, ei_source_key = key\<rparr>
      in rbind (entity_identity_check e) (\<lambda>_. Inr e))"

text \<open>The variables of \<open>assemble\<close> that grow: entities and evidence by identifier, and revisions.\<close>

record draft =
  dr_entities :: "(ustr \<times> entity_identity) list"
  dr_evidence :: "(ustr \<times> evidence_span) list"
  dr_revisions :: "entity_revision list"

definition add_entity ::
    "entity_kind \<Rightarrow> string \<Rightarrow> ustr \<Rightarrow> (draft, exn, ustr) action" where
  "add_entity kind namespace key a =
     (case entity_of kind namespace key of
        Inl e \<Rightarrow> (Inl e, a)
      | Inr e \<Rightarrow> (Inr (ei_entity_id e),
                  a\<lparr>dr_entities := AList.update (ei_entity_id e) e (dr_entities a)\<rparr>))"

text \<open>The pointers that the record's lineage gives for a staged field or a part of it.\<close>

definition field_pointers :: "staged_record \<Rightarrow> string \<Rightarrow> ustr list" where
  "field_pointers r staged_field =
     concat (map (\<lambda>(name, locations).
       if name = u staged_field \<or> starts_with (u staged_field @ u ''.'') name
       then locations else []) (rc_field_lineage r))"

definition whole_block_span ::
    "pyenv \<Rightarrow> source_document \<Rightarrow> text_block \<Rightarrow> exn + evidence_span" where
  "whole_block_span P d b =
     rbind (text_hash P (tb_text b)) (\<lambda>h.
       let blank = \<lparr>ev_evidence_id = [], ev_document_id = sd_document_id d,
             ev_block_id = tb_block_id b, ev_artifact_sha256 = tb_sha256 b, ev_start = 0,
             ev_end = int (length (tb_text b)), ev_excerpt = tb_text b, ev_excerpt_sha256 = h\<rparr>;
           e = blank\<lparr>ev_evidence_id := evidence_digest P blank\<rparr>
       in rbind (evidence_span_check P e) (\<lambda>_. Inr e))"

text \<open>One field: the whole blocks its pointers name, and its support when there is one.\<close>

definition field_evidence ::
    "pyenv \<Rightarrow> source_document list \<Rightarrow> staged_occurrence list \<Rightarrow> nat \<Rightarrow> string
     \<Rightarrow> exn + evidence_span list" where
  "field_evidence P documents items index staged_field =
     rmap (whole_block_span P (documents ! index))
       (filter (\<lambda>b. tb_locator b \<in> set (field_pointers (so_record (items ! index)) staged_field))
          (sd_blocks (documents ! index)))"

type_synonym origins = "(string \<times> nat \<times> string) list"

definition supported_field ::
    "pyenv \<Rightarrow> source_document list \<Rightarrow> staged_occurrence list \<Rightarrow> entity_payload
     \<Rightarrow> (ustr \<times> evidence_span) list \<times> field_support list \<Rightarrow> string \<times> nat \<times> string
     \<Rightarrow> exn + (ustr \<times> evidence_span) list \<times> field_support list" where
  "supported_field P documents items payload acc origin =
     (case (acc, origin) of ((evidence, support), (field, index, staged_field)) \<Rightarrow>
        if field_absent payload field then Inr (evidence, support)
        else rbind (field_evidence P documents items index staged_field) (\<lambda>spans.
          rbind (if spans = [] then Inr support
                 else
                   let s = \<lparr>fs_field = u field,
                         fs_evidence_ids = sorted_set (map ev_evidence_id spans),
                         fs_method = Normalized_support\<rparr>
                   in rbind (field_support_check s) (\<lambda>_. Inr (support @ [s]))) (\<lambda>support'.
            Inr (foldl (\<lambda>m e. AList.update (ev_evidence_id e) e m) evidence spans, support'))))"

definition add_revision ::
    "pyenv \<Rightarrow> source_document list \<Rightarrow> staged_occurrence list \<Rightarrow> ustr \<Rightarrow> entity_payload \<Rightarrow> origins
     \<Rightarrow> (draft, exn, unit) action" where
  "add_revision P documents items entity_id payload origins a =
     (case rfold (supported_field P documents items payload) (dr_evidence a, [])
             (sort_key (\<lambda>(field, _). u field) origins) of
        Inl e \<Rightarrow> (Inl e, a)
      | Inr (evidence, support) \<Rightarrow>
          let blank = \<lparr>er_revision_id = [], er_entity_id = entity_id,
                er_document_ids = sort (map sd_document_id documents), er_payload = payload,
                er_field_support = support\<rparr>;
              r = blank\<lparr>er_revision_id := revision_digest P blank\<rparr>
          in (case entity_revision_check P r of
                Inl e \<Rightarrow> (Inl e, a\<lparr>dr_evidence := evidence\<rparr>)
              | Inr _ \<Rightarrow> (Inr (), a\<lparr>dr_evidence := evidence,
                                  dr_revisions := dr_revisions a @ [r]\<rparr>)))"

definition single_origin :: "(string \<times> string) list \<Rightarrow> origins" where
  "single_origin mapping = map (\<lambda>(field, staged). (field, 0, staged)) mapping"

section \<open>List and detail\<close>

definition posting_of :: "staged_occurrence \<Rightarrow> job_posting option" where
  "posting_of i = (case rc_normalized (so_record i) of JobPosting p \<Rightarrow> Some p | _ \<Rightarrow> None)"

text \<open>\<open>paired\<close>: for each representation, the last occurrence of it and its index.\<close>

definition paired ::
    "staged_occurrence list \<Rightarrow> representation \<Rightarrow> (nat \<times> job_posting) option" where
  "paired items rep =
     find (\<lambda>(_, p). jp_representation p = rep)
       (rev (List.map_filter (\<lambda>(i, item). map_option (Pair i) (posting_of item))
          (zip [0..<length items] items)))"

definition facts_agree :: "job_posting \<Rightarrow> job_posting \<Rightarrow> bool" where
  "facts_agree listed detail \<longleftrightarrow>
     jp_posting_id listed = jp_posting_id detail
     \<and> jp_organization_code listed = jp_organization_code detail
     \<and> jp_title listed = jp_title detail
     \<and> jp_date_posted listed = jp_date_posted detail
     \<and> jp_closing_date listed = jp_closing_date detail
     \<and> \<not> (jp_ongoing detail \<noteq> None \<and> jp_ongoing detail \<noteq> jp_ongoing listed)"

text \<open>\<open>data[field] is not None\<close> for \<open>data = detail.model_dump()\<close>.\<close>

definition posting_field_given :: "job_posting \<Rightarrow> string \<Rightarrow> bool" where
  "posting_field_given p field =
     (case normalized_json (JobPosting p) of
        JObj kvs \<Rightarrow> jget kvs (u field) \<noteq> JNull | _ \<Rightarrow> False)"

definition or_else :: "'a option \<Rightarrow> 'a option \<Rightarrow> 'a option" where
  "or_else a b = (case a of None \<Rightarrow> b | Some x \<Rightarrow> Some x)"

definition merge_postings :: "job_posting \<Rightarrow> job_posting \<Rightarrow> job_posting" where
  "merge_postings listed detail = detail\<lparr>
     jp_ongoing := or_else (jp_ongoing detail) (jp_ongoing listed),
     jp_source_url := or_else (jp_source_url detail) (jp_source_url listed),
     jp_recruitment_type := or_else (jp_recruitment_type detail) (jp_recruitment_type listed),
     jp_education := or_else (jp_education detail) (jp_education listed),
     jp_employment_type := or_else (jp_employment_type detail) (jp_employment_type listed),
     jp_regions := or_else (jp_regions detail) (jp_regions listed),
     jp_ncs_category_codes := or_else (jp_ncs_category_codes detail) (jp_ncs_category_codes listed),
     jp_ncs_category_names := or_else (jp_ncs_category_names detail) (jp_ncs_category_names listed),
     jp_headcount := or_else (jp_headcount detail) (jp_headcount listed),
     jp_eligibility_text := or_else (jp_eligibility_text detail) (jp_eligibility_text listed),
     jp_disqualification_text :=
       or_else (jp_disqualification_text detail) (jp_disqualification_text listed),
     jp_preference_text := or_else (jp_preference_text detail) (jp_preference_text listed),
     jp_selection_text := or_else (jp_selection_text detail) (jp_selection_text listed)\<rparr>"

definition posting_mapping :: "(string \<times> string) list" where
  "posting_mapping =
     [(''title'', ''title''), (''canonical_url'', ''source_url''),
      (''organization_id'', ''organization_code''),
      (''organization_name_text'', ''organization_name''), (''date_posted'', ''date_posted''),
      (''valid_through'', ''closing_date''), (''source_status'', ''ongoing''),
      (''employment_type_text'', ''employment_type''),
      (''recruitment_type_text'', ''recruitment_type''), (''education_text'', ''education''),
      (''region_text'', ''regions''), (''ncs_categories_text'', ''ncs_category_names''),
      (''headcount'', ''headcount'')]"

definition posting_origins :: "nat \<Rightarrow> nat \<Rightarrow> job_posting \<Rightarrow> origins" where
  "posting_origins listed_index detail_index detail =
     map (\<lambda>(field, staged).
       (field, if posting_field_given detail staged then detail_index else listed_index, staged))
       posting_mapping"

definition assemble_posting ::
    "pyenv \<Rightarrow> source_document list \<Rightarrow> staged_occurrence list \<Rightarrow> (draft, exn, unit) action" where
  "assemble_posting P documents items =
     (case (paired items List_representation, paired items Detail_representation) of
        (Some (listed_index, listed), Some (detail_index, detail)) \<Rightarrow>
          if length items \<noteq> 2 then lift_result (processing_error ''LIST_DETAIL_IDENTITY_MISMATCH'')
          else if \<not> facts_agree listed detail
          then lift_result (processing_error ''LIST_DETAIL_FACT_CONFLICT'')
          else if so_source_id (items ! 0) \<noteq> u ''job_alio'' \<or> so_source_id (items ! 1) \<noteq> u ''job_alio''
          then lift_result (processing_error ''ASSEMBLY_SOURCE_MISMATCH'')
          else
            let merged = merge_postings listed detail in
            abind (lift_result (contract_check (opt_ok (\<lambda>n. 0 \<le> n) (jp_headcount merged)) ()))
              (\<lambda>_.
            abind (add_entity K_organization ''alio:organization'' (jp_organization_code merged))
              (\<lambda>organization_id.
            abind (add_entity K_job_posting ''job-alio:posting'' (jp_posting_id merged))
              (\<lambda>posting_id.
            abind (lift_result (posting_from_staging merged
                     (sd_document_id (documents ! detail_index)) (Some organization_id)))
              (\<lambda>posting.
            add_revision P documents items posting_id (P_job_posting posting)
              (posting_origins listed_index detail_index detail)))))
      | _ \<Rightarrow> lift_result (processing_error ''LIST_DETAIL_IDENTITY_MISMATCH''))"

section \<open>The other records\<close>

definition occupation_draft ::
    "pyenv \<Rightarrow> source_document list \<Rightarrow> staged_occurrence list \<Rightarrow> ustr \<Rightarrow> ustr
     \<Rightarrow> (draft, exn, ustr) action" where
  "occupation_draft P documents items occupation_name occupation_code =
     abind (add_entity K_concept_scheme ''scheme'' (u ''ncs'')) (\<lambda>scheme_id.
     abind (add_entity K_occupation ''ncs:occupation'' occupation_code) (\<lambda>occupation_id.
     abind (lift_result (occupation_from_staging occupation_name occupation_code scheme_id)) (\<lambda>v.
     abind (add_revision P documents items occupation_id (P_occupation v)
              (single_origin [(''name_ko'', ''occupation_name''), (''code'', ''occupation_code'')]))
       (\<lambda>_. areturn occupation_id))))"

definition assemble_single ::
    "pyenv \<Rightarrow> source_document list \<Rightarrow> staged_occurrence list \<Rightarrow> normalized
     \<Rightarrow> (draft, exn, unit) action" where
  "assemble_single P documents items value =
     (case value of
        CareerPath c \<Rightarrow>
          abind (occupation_draft P documents items (cp_occupation_name c) (cp_occupation_code c))
            (\<lambda>_. areturn ())
      | Competency c \<Rightarrow>
          abind (occupation_draft P documents items (co_occupation_name c) (co_occupation_code c))
            (\<lambda>occupation_id.
          abind (add_entity K_ncs_unit ''ncs:unit'' (co_code c)) (\<lambda>unit_id.
          abind (lift_result (competency_from_staging c occupation_id)) (\<lambda>v.
          add_revision P documents items unit_id (P_ncs_unit v)
            (single_origin [(''name_ko'', ''name''), (''full_code'', ''code''),
               (''base_code'', ''code''), (''version'', ''code''), (''definition'', ''definition''),
               (''level'', ''level''), (''occupation_id'', ''occupation_code'')]))))
      | Organization g \<Rightarrow>
          abind (add_entity K_organization ''alio:organization'' (og_code g)) (\<lambda>org_id.
          abind (lift_result (organization_from_staging g)) (\<lambda>v.
          add_revision P documents items org_id (P_organization v)
            (single_origin [(''name_ko'', ''name''), (''identifiers'', ''code''),
               (''organization_type_text'', ''organization_type''), (''website'', ''website''),
               (''address_text'', ''address''), (''established_date'', ''established_date'')])))
      | QualificationMapping q \<Rightarrow>
          abind (add_entity K_credential ''qnet:qualification'' (qm_qualification_code q))
            (\<lambda>credential_id.
          let v = \<lparr>cd_name_ko = qm_qualification_name q,
                cd_identifiers = [\<lparr>xi_scheme = u ''qnet:jmCd'', xi_value = qm_qualification_code q\<rparr>],
                cd_issuing_organization_id = None, cd_credential_type = None\<rparr> in
          abind (lift_result (payload_check (P_credential v))) (\<lambda>_.
          add_revision P documents items credential_id (P_credential v)
            (single_origin [(''name_ko'', ''qualification_name''),
               (''identifiers'', ''qualification_code'')])))
      | ExamSession e \<Rightarrow>
          abind (add_entity K_credential ''qnet:qualification'' (es_qualification_code e))
            (\<lambda>credential_id.
          abind (add_entity K_exam_session ''qnet:exam''
                   (rc_source_record_id (so_record (items ! 0)))) (\<lambda>session_id.
          abind (lift_result (exam_dates (es_dates e))) (\<lambda>dates.
          let v = \<lparr>ce_name_ko = es_name e, ce_credential_id = credential_id, ce_year = es_year e,
                ce_round = es_round e, ce_category_code = es_category_code e, ce_dates = dates\<rparr> in
          abind (lift_result (payload_check (P_exam_session v))) (\<lambda>_.
          add_revision P documents items session_id (P_exam_session v)
            (single_origin [(''name_ko'', ''name''), (''category_code'', ''category_code''),
               (''year'', ''year''), (''round'', ''round''), (''dates'', ''dates'')])))))
      | JobPosting _ \<Rightarrow> lift_result (processing_error ''INVALID_ASSEMBLY_OCCURRENCES''))"

section \<open>assemble\<close>

definition occurrence_document :: "pyenv \<Rightarrow> staged_occurrence \<Rightarrow> exn + source_document" where
  "occurrence_document P i =
     document_from_staging P (so_record i) (so_source_id i) (so_snapshot_id i) (so_locator i)
       (so_parser_version i)"

definition assemble_draft ::
    "pyenv \<Rightarrow> source_document list \<Rightarrow> staged_occurrence list \<Rightarrow> (draft, exn, unit) action" where
  "assemble_draft P documents items =
     (case rc_normalized (so_record (items ! 0)) of
        JobPosting _ \<Rightarrow> assemble_posting P documents items
      | value \<Rightarrow>
          if length items \<noteq> 1
          then lift_result (processing_error ''INVALID_ASSEMBLY_OCCURRENCES'')
          else assemble_single P documents items value)"

definition empty_draft :: draft where
  "empty_draft = \<lparr>dr_entities = [], dr_evidence = [], dr_revisions = []\<rparr>"

definition bundle_of_draft :: "source_document list \<Rightarrow> draft \<Rightarrow> canonical_bundle" where
  "bundle_of_draft documents a =
     \<lparr>cb_documents = documents, cb_identities = map snd (dr_entities a),
      cb_revisions = dr_revisions a, cb_evidence = map snd (dr_evidence a),
      cb_extractions = [], cb_claims = []\<rparr>"

definition assemble :: "pyenv \<Rightarrow> staged_occurrence list \<Rightarrow> exn + canonical_bundle" where
  "assemble P items =
     rbind (rmap (occurrence_document P) items) (\<lambda>documents.
       if documents = [] \<or> \<not> distinct (map sd_document_id documents)
       then processing_error ''INVALID_ASSEMBLY_OCCURRENCES''
       else (case assemble_draft P documents items empty_draft of
          (Inl e, _) \<Rightarrow> Inl e
        | (Inr _, a) \<Rightarrow>
            let b = bundle_of_draft documents a
            in rbind (as_validation (references_and_evidence b)) (\<lambda>_. Inr b)))"

definition document_bindings ::
    "canonical_bundle \<Rightarrow> staged_occurrence list \<Rightarrow> exn + (ustr \<times> ustr list) list" where
  "document_bindings b items =
     (if length (cb_documents b) \<noteq> length items then Inl (Exn ValueError (u ''zip''))
      else Inr (foldl (\<lambda>m (d, i). AList.update (sd_document_id d) (so_observation_ids i) m) []
                  (zip (cb_documents b) items)))"

end
