(* ===== verification/BundleFacts.thy ===== *)
theory BundleFacts
  imports Bundle RequirementFacts
begin

text \<open>
  What an accepted bundle says is quoted from documents it holds.
\<close>

section \<open>Members\<close>

lemma bundle_check_Inr:
  assumes "bundle_check P b = Inr ()"
  shows "\<And>d. d \<in> set (cb_documents b) \<Longrightarrow> source_document_check P d = Inr ()"
    and "\<And>r. r \<in> set (cb_revisions b) \<Longrightarrow> entity_revision_check P r = Inr ()"
    and "\<And>e. e \<in> set (cb_evidence b) \<Longrightarrow> evidence_span_check P e = Inr ()"
    and "\<And>x. x \<in> set (cb_extractions b) \<Longrightarrow> extraction_record_check P x = Inr ()"
    and "\<And>c. c \<in> set (cb_claims b) \<Longrightarrow> requirement_claim_check P c = Inr ()"
    and "references_and_evidence b = Inr ()"
  using assms
  by (simp_all add: bundle_check_def bundle_members_check_def rbind_Inr_iff rall_Inr_iff)

lemma references_Inr:
  assumes "references_and_evidence b = Inr ()"
  shows "bundle_ids_unique b"
    and "\<And>e. e \<in> set (cb_evidence b) \<Longrightarrow> check_span b e = Inr ()"
    and "\<And>r. r \<in> set (cb_revisions b) \<Longrightarrow> check_revision b r = Inr ()"
    and "\<And>x. x \<in> set (cb_extractions b) \<Longrightarrow> check_extraction b x = Inr ()"
    and "\<And>c. c \<in> set (cb_claims b) \<Longrightarrow> check_claim b c = Inr ()"
  using assms
  by (simp_all add: references_and_evidence_def rbind_Inr_iff rall_Inr_iff ensure_Inr_iff)

section \<open>Quotations\<close>

text \<open>The span is a non-empty piece of a block of the document, and names that block's hash.\<close>

definition quotes :: "pyenv \<Rightarrow> source_document \<Rightarrow> evidence_span \<Rightarrow> bool" where
  "quotes P d e \<longleftrightarrow> (\<exists>b \<in> set (sd_blocks d).
     tb_block_id b = ev_block_id e \<and> text_hash P (tb_text b) = Inr (ev_artifact_sha256 e)
     \<and> 0 \<le> ev_start e \<and> ev_start e < ev_end e \<and> ev_end e \<le> int (length (tb_text b))
     \<and> ev_excerpt e = take (nat (ev_end e - ev_start e)) (drop (nat (ev_start e)) (tb_text b)))"

lemma text_span_eq:
  "0 \<le> s \<Longrightarrow> text_span t s e = take (nat (e - s)) (drop (nat s) t)"
proof -
  assume "0 \<le> s"
  then have "nat (e - s) = nat e - nat s" by arith
  then show ?thesis by (simp add: text_span_def slice_def)
qed

lemma span_quotes:
  assumes span: "span_in_document e d = Inr ()" and doc: "source_document_check P d = Inr ()"
    and shape: "evidence_span_check P e = Inr ()"
  shows "quotes P d e" and "sd_document_id d = ev_document_id e"
proof -
  from span obtain b where b: "map_of (index_by tb_block_id (sd_blocks d)) (ev_block_id e) = Some b"
    and at: "sd_document_id d = ev_document_id e" "tb_sha256 b = ev_artifact_sha256 e"
      "ev_end e \<le> int (length (tb_text b))"
      "text_span (tb_text b) (ev_start e) (ev_end e) = ev_excerpt e"
    by (auto simp: span_in_document_def ensure_Inr_iff split: option.splits)
  have mem: "b \<in> set (sd_blocks d)" "tb_block_id b = ev_block_id e"
    using index_by_mem [OF b] by auto
  have "text_hash P (tb_text b) = Inr (tb_sha256 b)"
    using doc mem(1) by (auto simp: document_check_defs rbind_Inr_iff rall_Inr_iff)
  moreover have "0 \<le> ev_start e" "ev_start e < ev_end e"
    using shape by (auto simp: document_check_defs rbind_Inr_iff)
  ultimately show "quotes P d e"
    using mem at by (auto simp: quotes_def text_span_eq)
  show "sd_document_id d = ev_document_id e" by (rule at(1))
qed

text \<open>Every span of an accepted bundle quotes the document it names.\<close>

lemma accepted_span:
  assumes ok: "bundle_check P b = Inr ()" and e: "e \<in> set (cb_evidence b)"
  obtains d where "d \<in> set (cb_documents b)" "sd_document_id d = ev_document_id e" "quotes P d e"
proof -
  note refs = bundle_check_Inr(6) [OF ok]
  have "check_span b e = Inr ()" by (rule references_Inr(2) [OF refs e])
  then obtain d where d: "map_of (documents_by_id b) (ev_document_id e) = Some d"
    "span_in_document e d = Inr ()"
    by (auto simp: check_span_def split: option.splits)
  have "d \<in> set (cb_documents b)"
    using index_by_mem [OF d(1) [unfolded documents_by_id_def]] by simp
  with that span_quotes [OF d(2) bundle_check_Inr(1) [OF ok] bundle_check_Inr(3) [OF ok e]]
  show thesis by auto
qed

lemma evidence_found:
  assumes "map_of (evidence_by_id b) i = Some e"
  shows "e \<in> set (cb_evidence b)" and "ev_evidence_id e = i"
  using index_by_mem [OF assms [unfolded evidence_by_id_def]] by auto

section \<open>Revisions and claims\<close>

definition grounded_in ::
    "pyenv \<Rightarrow> canonical_bundle \<Rightarrow> ustr set \<Rightarrow> ustr \<Rightarrow> bool" where
  "grounded_in P b docs i \<longleftrightarrow> (\<exists>e \<in> set (cb_evidence b). ev_evidence_id e = i
     \<and> (\<exists>d \<in> set (cb_documents b). sd_document_id d \<in> docs \<and> quotes P d e))"

lemma support_grounded:
  assumes ok: "bundle_check P b = Inr ()" and r: "r \<in> set (cb_revisions b)"
    and s: "s \<in> set (er_field_support r)" and i: "i \<in> set (fs_evidence_ids s)"
  shows "grounded_in P b (set (er_document_ids r)) i"
proof -
  have "check_revision b r = Inr ()"
    by (rule references_Inr(3) [OF bundle_check_Inr(6) [OF ok] r])
  then have "check_support b r s = Inr ()"
    using s by (auto simp: check_revision_def rbind_Inr_iff rall_Inr_iff)
  then obtain e where e: "map_of (evidence_by_id b) i = Some e"
    "ev_document_id e \<in> set (er_document_ids r)"
    using i by (auto simp: check_support_def rall_Inr_iff ensure_Inr_iff split: option.splits)
  note mem = evidence_found [OF e(1)]
  obtain d where "d \<in> set (cb_documents b)" "sd_document_id d = ev_document_id e" "quotes P d e"
    using accepted_span [OF ok mem(1)] .
  then have "\<exists>d \<in> set (cb_documents b). sd_document_id d \<in> set (er_document_ids r) \<and> quotes P d e"
    using e(2) by (intro bexI [of _ d]) auto
  with mem show ?thesis unfolding grounded_in_def by (intro bexI [of _ e]) auto
qed

text \<open>
  A claim is faithful: it is about a posting revision, its candidate is one the extraction gave with
  the same meaning, and every quotation of the candidate is one of the claim's spans, taken from
  the document the extraction read.
\<close>

definition same_meaning :: "requirement_candidate \<Rightarrow> requirement_claim \<Rightarrow> bool" where
  "same_meaning k c \<longleftrightarrow> ca_kind k = cl_kind c \<and> ca_necessity k = cl_necessity c
     \<and> ca_polarity k = cl_polarity c \<and> ca_applicability_text k = cl_applicability_text c"

definition faithful_claim :: "pyenv \<Rightarrow> canonical_bundle \<Rightarrow> requirement_claim \<Rightarrow> bool" where
  "faithful_claim P b c \<longleftrightarrow>
     (\<exists>r \<in> set (cb_revisions b). \<exists>x \<in> set (cb_extractions b). \<exists>k \<in> set (xo_candidates (xr_output x)).
        er_revision_id r = cl_subject_revision_id c \<and> is_posting (er_payload r)
        \<and> xr_extraction_id x = cl_extraction_id c \<and> xr_document_id x \<in> set (er_document_ids r)
        \<and> ca_local_id k = cl_candidate_local_id c \<and> same_meaning k c
        \<and> (\<forall>q \<in> set (ca_evidence k). \<exists>e \<in> set (cb_evidence b).
              ev_evidence_id e \<in> set (cl_evidence_ids c) \<and> span_quote e = selector_quote q
              \<and> (\<exists>d \<in> set (cb_documents b). sd_document_id d = xr_document_id x \<and> quotes P d e)))"

lemma claim_spans_mem:
  assumes "claim_spans b x c = Inr spans" and "e \<in> set spans"
  shows "e \<in> set (cb_evidence b)" and "ev_evidence_id e \<in> set (cl_evidence_ids c)"
    and "ev_document_id e = xr_document_id x"
proof -
  obtain i where i: "i \<in> set (cl_evidence_ids c)" "map_of (evidence_by_id b) i = Some e"
    and d: "ev_document_id e = xr_document_id x"
    using rmap_Inr_set [OF assms(1) [unfolded claim_spans_def] assms(2)]
    by (auto split: option.splits if_splits)
  show "e \<in> set (cb_evidence b)" "ev_evidence_id e \<in> set (cl_evidence_ids c)"
    using evidence_found [OF i(2)] i(1) by auto
  show "ev_document_id e = xr_document_id x" by (rule d)
qed

lemma claim_subject_Inr:
  assumes "claim_subject b c = Inr (r, x)"
  shows "r \<in> set (cb_revisions b)" "er_revision_id r = cl_subject_revision_id c"
    "x \<in> set (cb_extractions b)" "xr_extraction_id x = cl_extraction_id c"
    "is_posting (er_payload r)" "xr_document_id x \<in> set (er_document_ids r)"
  using assms index_by_mem [of er_revision_id "cb_revisions b" "cl_subject_revision_id c" r]
    index_by_mem [of xr_extraction_id "cb_extractions b" "cl_extraction_id c" x]
  by (auto simp: claim_subject_def revisions_by_id_def extractions_by_id_def
      split: option.splits if_splits)

lemma claimed_candidate_Inr:
  assumes "claimed_candidate x c = Inr k"
  shows "k \<in> set (xo_candidates (xr_output x))" "ca_local_id k = cl_candidate_local_id c"
    "same_meaning k c"
  using assms by (auto simp: claimed_candidate_def same_meaning_def find_Some_iff
      split: option.splits if_splits)

lemma claim_faithful:
  assumes ok: "bundle_check P b = Inr ()" and c: "c \<in> set (cb_claims b)"
  shows "faithful_claim P b c"
proof -
  have "check_claim b c = Inr ()"
    by (rule references_Inr(5) [OF bundle_check_Inr(6) [OF ok] c])
  then obtain r x k spans where sub: "claim_subject b c = Inr (r, x)"
    and k: "claimed_candidate x c = Inr k" and sp: "claim_spans b x c = Inr spans"
    and all: "selector_quote ` set (ca_evidence k) \<subseteq> span_quote ` set spans"
    by (auto simp: check_claim_def rbind_Inr_iff ensure_Inr_iff)
  have "\<exists>e \<in> set (cb_evidence b).
          ev_evidence_id e \<in> set (cl_evidence_ids c) \<and> span_quote e = selector_quote q
          \<and> (\<exists>d \<in> set (cb_documents b). sd_document_id d = xr_document_id x \<and> quotes P d e)"
    if q: "q \<in> set (ca_evidence k)" for q
  proof -
    obtain e where e: "e \<in> set spans" "span_quote e = selector_quote q"
      using all q by (metis imageE imageI subsetD)
    note mem = claim_spans_mem [OF sp e(1)]
    obtain d where "d \<in> set (cb_documents b)" "sd_document_id d = ev_document_id e" "quotes P d e"
      using accepted_span [OF ok mem(1)] .
    then show ?thesis using mem e(2) by (intro bexI [of _ e]) auto
  qed
  then show ?thesis
    unfolding faithful_claim_def
    using claim_subject_Inr [OF sub] claimed_candidate_Inr [OF k]
    by (intro bexI [of _ r] bexI [of _ x] bexI [of _ k]) auto
qed

text \<open>
  C10: Nothing in an accepted bundle is unsupported. Every piece of evidence a revision gives for a
  field is a span of the bundle that quotes, character for character and under the block's own hash,
  a document the revision cites. Every claim is about a posting of the bundle, means what a candidate
  of its extraction means, and cites a span for each of the candidate's quotations, taken from the
  very document the extraction read, which the posting cites too. A claim that was accepted is
  resolved, and its necessity is stated.
\<close>

theorem accepted_bundle_grounded:
  assumes "bundle_check P b = Inr ()"
  shows "(\<forall>r \<in> set (cb_revisions b). \<forall>s \<in> set (er_field_support r). \<forall>i \<in> set (fs_evidence_ids s).
            grounded_in P b (set (er_document_ids r)) i)
    \<and> (\<forall>c \<in> set (cb_claims b). faithful_claim P b c
         \<and> (rd_status (cl_review c) \<in> {AUTO_ACCEPTED, HUMAN_ACCEPTED} \<longrightarrow>
              condition_kind (cl_condition c) = Some (cl_kind c) \<and> cl_necessity c \<noteq> UNSPECIFIED))"
proof (intro conjI ballI impI)
  fix r s i
  assume "r \<in> set (cb_revisions b)" "s \<in> set (er_field_support r)" "i \<in> set (fs_evidence_ids s)"
  then show "grounded_in P b (set (er_document_ids r)) i" by (rule support_grounded [OF assms])
next
  fix c assume c: "c \<in> set (cb_claims b)"
  show "faithful_claim P b c" by (rule claim_faithful [OF assms c])
  assume a: "rd_status (cl_review c) \<in> {AUTO_ACCEPTED, HUMAN_ACCEPTED}"
  have "resolved_and_reviewed P c = Inr ()"
    using bundle_check_Inr(5) [OF assms c] by (auto simp: requirement_claim_check_def rbind_Inr_iff)
  then show "condition_kind (cl_condition c) = Some (cl_kind c)" "cl_necessity c \<noteq> UNSPECIFIED"
    using a by (auto simp: resolved_and_reviewed_def rbind_Inr_iff)
qed

section \<open>An accepted bundle\<close>

text \<open>A posting that asks for a year of experience, with one document, one span and one claim.\<close>

definition const_env :: pyenv where
  "const_env = example_env\<lparr>sha256 := (\<lambda>_. replicate 64 48), digest := (\<lambda>_. replicate 64 48)\<rparr>"

definition claim_document :: source_document where
  "claim_document = \<lparr>sd_document_id = replicate 64 48, sd_source_id = u ''job_alio'',
     sd_source_record_id = u ''7'', sd_snapshot_id = u ''s'', sd_parser_version = u ''v1'',
     sd_record_locator = u ''/0'',
     sd_blocks = [\<lparr>tb_block_id = u ''b'', tb_locator = u ''/text'', tb_text = u ''One year'',
       tb_sha256 = replicate 64 48\<rparr>]\<rparr>"

definition claim_posting :: canonical_posting where
  "claim_posting = \<lparr>cj_title = Some (u ''One year''), cj_canonical_url = None,
     cj_description_document_id = Some (replicate 64 48), cj_organization_id = None,
     cj_organization_name_text = None, cj_primary_occupation_id = None, cj_date_posted = None,
     cj_valid_through = None, cj_source_status = Status_open, cj_employment_type_text = None,
     cj_recruitment_type_text = None, cj_education_text = None, cj_region_text = None,
     cj_ncs_categories_text = None, cj_headcount = None\<rparr>"

definition claim_extraction :: extraction_record where
  "claim_extraction = \<lparr>xr_extraction_id = replicate 64 48, xr_document_id = replicate 64 48,
     xr_metadata = \<lparr>xm_method = RULE, xm_extractor_version = u ''r1'', xm_model_requested = None,
       xm_model_returned = None, xm_prompt_sha256 = None, xm_response_id = None,
       xm_input_tokens = None, xm_output_tokens = None\<rparr>,
     xr_output = \<lparr>xo_candidates = [\<lparr>ca_local_id = u ''c'', ca_kind = EXPERIENCE,
         ca_mention = u ''year'', ca_necessity = REQUIRED, ca_polarity = POSITIVE,
         ca_applicability_text = None,
         ca_evidence = [\<lparr>ss_block_id = u ''b'', ss_start = 0, ss_end = 8,
           ss_excerpt = u ''One year''\<rparr>]\<rparr>],
       xo_groups = []\<rparr>\<rparr>"

definition accepted_claim :: requirement_claim where
  "accepted_claim = \<lparr>cl_claim_id = replicate 64 48, cl_subject_revision_id = replicate 64 48,
     cl_extraction_id = replicate 64 48, cl_candidate_local_id = u ''c'', cl_kind = EXPERIENCE,
     cl_necessity = REQUIRED, cl_polarity = POSITIVE, cl_applicability_text = None,
     cl_condition = ExperienceCondition \<lparr>xc_context_id = None, xc_minimum_months = Some 12,
       xc_maximum_months = None\<rparr>,
     cl_evidence_ids = [replicate 64 48], cl_assertion_kind = SOURCE_EXPLICIT,
     cl_resolver_version = u ''r1'', cl_vocabulary_version = u ''v1'',
     cl_review = \<lparr>rd_status = HUMAN_ACCEPTED, rd_confidence = None, rd_reviewer_id = Some (u ''me''),
       rd_reviewed_at = Some \<lparr>ad_instant = 0, ad_text = u ''1970-01-01T00:00:00Z''\<rparr>,
       rd_policy_version = None\<rparr>\<rparr>"

definition claim_bundle :: canonical_bundle where
  "claim_bundle = \<lparr>cb_documents = [claim_document],
     cb_identities = [\<lparr>ei_entity_id = u ''p'', ei_kind = K_job_posting, ei_namespace = u ''n'',
       ei_source_key = u ''7''\<rparr>],
     cb_revisions = [\<lparr>er_revision_id = replicate 64 48, er_entity_id = u ''p'',
       er_document_ids = [replicate 64 48], er_payload = P_job_posting claim_posting,
       er_field_support = [\<lparr>fs_field = u ''title'', fs_evidence_ids = [replicate 64 48],
         fs_method = Direct\<rparr>]\<rparr>],
     cb_evidence = [\<lparr>ev_evidence_id = replicate 64 48, ev_document_id = replicate 64 48,
       ev_block_id = u ''b'', ev_artifact_sha256 = replicate 64 48, ev_start = 0, ev_end = 8,
       ev_excerpt = u ''One year'', ev_excerpt_sha256 = replicate 64 48\<rparr>],
     cb_extractions = [claim_extraction], cb_claims = [accepted_claim]\<rparr>"

lemma claim_bundle_accepted: "bundle_check const_env claim_bundle = Inr ()"
  by code_simp

theorem accepted_bundle_grounded_witness:
  "grounded_in const_env claim_bundle {replicate 64 48} (replicate 64 48)
   \<and> faithful_claim const_env claim_bundle accepted_claim"
  using accepted_bundle_grounded [OF claim_bundle_accepted] by (simp add: claim_bundle_def)

text \<open>A group that lists itself is refused, and nested groups over three candidates are not.\<close>

definition candidate_named :: "string \<Rightarrow> requirement_candidate" where
  "candidate_named n = \<lparr>ca_local_id = u n, ca_kind = SKILL, ca_mention = u n,
     ca_necessity = REQUIRED, ca_polarity = POSITIVE, ca_applicability_text = None, ca_evidence = []\<rparr>"

definition group_named :: "string \<Rightarrow> string list \<Rightarrow> requirement_group" where
  "group_named n ms = \<lparr>gr_local_id = u n, gr_operator = ANY_OF, gr_member_ids = map u ms,
     gr_evidence = []\<rparr>"

lemma nested_groups_accepted:
  "isok (group_membership \<lparr>xo_candidates = map candidate_named [''a'', ''b'', ''c''],
     xo_groups = [group_named ''g'' [''a'', ''h''], group_named ''h'' [''b'', ''c'']]\<rparr>)"
  by code_simp

lemma cyclic_groups_refused:
  "group_membership \<lparr>xo_candidates = map candidate_named [''a'', ''b''],
     xo_groups = [group_named ''g'' [''a'', ''h''], group_named ''h'' [''b'', ''g'']]\<rparr>
   = Inl (Exn ValidationError (u ''CYCLIC_REQUIREMENT_GROUP''))"
  by code_simp

end
