(* ===== verification/AssemblyFacts.thy ===== *)
theory AssemblyFacts
  imports Assembly BundleFacts
begin

text \<open>
  Assembled bundles: the validator accepts every draft, the fields of a merged posting come from
  the detail before the list, each with evidence from the document it was read in, and the order of the
  two occurrences does not matter.
\<close>

section \<open>Documents of occurrences\<close>

lemma document_from_staging_Inr:
  assumes "document_from_staging P r source snapshot loc version = Inr d"
  shows "source_document_check P d = Inr ()" and "sd_source_id d = source"
    and "sd_source_record_id d = rc_source_record_id r" and "sd_snapshot_id d = snapshot"
    and "sd_parser_version d = version" and "sd_record_locator d = loc"
    and "sd_blocks d = map (\<lambda>(pointer, t). \<lparr>tb_block_id = digest P (JStr pointer),
           tb_locator = pointer, tb_text = ta_text t, tb_sha256 = ta_sha256 t\<rparr>)
           (sort_key fst (rc_texts r))"
  using assms
  by (auto simp: document_from_staging_def Let_def rbind_Inr_iff split: if_splits)

text \<open>The documents of the occurrences: one for each, checked, in their order.\<close>

definition documents_of :: "pyenv \<Rightarrow> staged_occurrence list \<Rightarrow> source_document list \<Rightarrow> bool" where
  "documents_of P items documents \<longleftrightarrow>
     rmap (occurrence_document P) items = Inr documents
     \<and> documents \<noteq> [] \<and> distinct (map sd_document_id documents)"

lemma documents_of_check:
  assumes "documents_of P items documents" and "d \<in> set documents"
  shows "source_document_check P d = Inr ()"
  using assms rmap_Inr_set [of "occurrence_document P" items documents d]
  by (auto simp: documents_of_def occurrence_document_def dest: document_from_staging_Inr(1))

lemma documents_of_length: "documents_of P items documents \<Longrightarrow> length documents = length items"
  by (auto simp: documents_of_def)

lemma documents_of_nth:
  assumes "documents_of P items documents" and "i < length items"
  shows "occurrence_document P (items ! i) = Inr (documents ! i)"
  using assms by (auto simp: documents_of_def rmap_Inr_iff list_all2_conv_all_nth)

section \<open>Evidence\<close>

lemma whole_block_span_Inr:
  assumes "whole_block_span P d b = Inr e"
  shows "evidence_span_check P e = Inr ()" and "ev_document_id e = sd_document_id d"
    and "ev_block_id e = tb_block_id b" and "ev_artifact_sha256 e = tb_sha256 b"
    and "ev_start e = 0" and "ev_end e = int (length (tb_text b))" and "ev_excerpt e = tb_text b"
  using assms by (auto simp: whole_block_span_def rbind_Inr_iff Let_def)

lemma whole_block_in_document:
  assumes e: "whole_block_span P d b = Inr e" and b: "b \<in> set (sd_blocks d)"
    and d: "source_document_check P d = Inr ()"
  shows "span_in_document e d = Inr ()"
proof -
  have "distinct (map tb_block_id (sd_blocks d))"
    using d by (auto simp: source_document_check_def rbind_Inr_iff)
  then have "map_of (index_by tb_block_id (sd_blocks d)) (tb_block_id b) = Some b"
    using b by (simp add: index_by_member)
  then show ?thesis
    using whole_block_span_Inr [OF e]
    by (simp add: span_in_document_def text_span_def slice_def ensure_def)
qed

text \<open>The evidence collected so far: spans under their identifiers, each a whole block.\<close>

definition evidence_ok ::
    "pyenv \<Rightarrow> source_document list \<Rightarrow> (ustr \<times> evidence_span) list \<Rightarrow> bool" where
  "evidence_ok P documents m \<longleftrightarrow> distinct (map fst m) \<and> (\<forall>(k, e) \<in> set m.
     k = ev_evidence_id e \<and>
     (\<exists>d \<in> set documents. \<exists>b \<in> set (sd_blocks d). whole_block_span P d b = Inr e))"

lemma evidence_ok_update:
  assumes "evidence_ok P documents m" and "d \<in> set documents" and "b \<in> set (sd_blocks d)"
    and "whole_block_span P d b = Inr e"
  shows "evidence_ok P documents (AList.update (ev_evidence_id e) e m)"
proof -
  have "k' = ev_evidence_id e' \<and>
      (\<exists>d \<in> set documents. \<exists>b \<in> set (sd_blocks d). whole_block_span P d b = Inr e')"
    if "(k', e') \<in> set (AList.update (ev_evidence_id e) e m)" for k' e'
  proof -
    have dist: "distinct (map fst (AList.update (ev_evidence_id e) e m))"
      using assms(1) by (simp add: evidence_ok_def distinct_update)
    have "map_of (AList.update (ev_evidence_id e) e m) k' = Some e'"
      by (rule map_of_is_SomeI [OF dist that])
    then have "(k' = ev_evidence_id e \<and> e' = e) \<or> map_of m k' = Some e'"
      by (auto simp: update_conv' split: if_splits)
    then show ?thesis
      using assms by (auto simp: evidence_ok_def dest!: map_of_SomeD)
  qed
  then show ?thesis using assms(1) by (auto simp: evidence_ok_def distinct_update)
qed

lemma evidence_ok_updates:
  assumes "evidence_ok P documents m"
    and "\<And>e. e \<in> set spans \<Longrightarrow>
       \<exists>d \<in> set documents. \<exists>b \<in> set (sd_blocks d). whole_block_span P d b = Inr e"
  shows "evidence_ok P documents (foldl (\<lambda>m e. AList.update (ev_evidence_id e) e m) m spans)"
    and "fst ` set (foldl (\<lambda>m e. AList.update (ev_evidence_id e) e m) m spans)
       = fst ` set m \<union> ev_evidence_id ` set spans"
  using assms
proof (induction spans arbitrary: m)
  case Nil
  {
    case 1 then show ?case by simp
  next
    case 2 then show ?case by simp
  }
next
  case (Cons e spans)
  {
    case 1
    have "evidence_ok P documents (AList.update (ev_evidence_id e) e m)"
      using 1 evidence_ok_update [of P documents m] by (metis list.set_intros(1))
    then show ?case using Cons.IH(1) 1(2) by simp
  next
    case 2
    have "evidence_ok P documents (AList.update (ev_evidence_id e) e m)"
      using 2 evidence_ok_update [of P documents m] by (metis list.set_intros(1))
    then show ?case using Cons.IH(2) 2(2) by (auto simp: dom_update)
  }
qed

text \<open>The spans of one field: the whole blocks its pointers name.\<close>

lemma field_evidence_Inr:
  assumes "field_evidence P documents items index staged = Inr spans" and "e \<in> set spans"
  obtains b where "b \<in> set (sd_blocks (documents ! index))"
    and "tb_locator b \<in> set (field_pointers (so_record (items ! index)) staged)"
    and "whole_block_span P (documents ! index) b = Inr e"
  using rmap_Inr_set [OF assms(1) [unfolded field_evidence_def] assms(2)] by auto

text \<open>A field's support: identifiers of whole blocks that the staged field's pointers name.\<close>

definition support_from ::
    "pyenv \<Rightarrow> source_document list \<Rightarrow> staged_occurrence list \<Rightarrow> origins \<Rightarrow> field_support \<Rightarrow> bool" where
  "support_from P documents items origins s \<longleftrightarrow>
     (\<exists>(field, index, staged) \<in> set origins. fs_field s = u field \<and>
        (\<forall>i \<in> set (fs_evidence_ids s). \<exists>b \<in> set (sd_blocks (documents ! index)). \<exists>e.
           tb_locator b \<in> set (field_pointers (so_record (items ! index)) staged)
           \<and> whole_block_span P (documents ! index) b = Inr e \<and> ev_evidence_id e = i))"

definition support_ok ::
    "pyenv \<Rightarrow> source_document list \<Rightarrow> staged_occurrence list \<Rightarrow> origins
     \<Rightarrow> (ustr \<times> evidence_span) list \<times> field_support list \<Rightarrow> bool" where
  "support_ok P documents items origins acc \<longleftrightarrow>
     evidence_ok P documents (fst acc)
     \<and> (\<forall>s \<in> set (snd acc). set (fs_evidence_ids s) \<subseteq> fst ` set (fst acc)
          \<and> support_from P documents items origins s)"

lemma supported_field_ok:
  assumes step: "supported_field P documents items payload acc (field, index, staged) = Inr acc'"
    and ok: "support_ok P documents items origins acc"
    and o: "(field, index, staged) \<in> set origins" "index < length documents"
  shows "support_ok P documents items origins acc' \<and> fst ` set (fst acc) \<subseteq> fst ` set (fst acc')"
proof -
  obtain m sup where acc: "acc = (m, sup)" by (cases acc)
  show ?thesis
  proof (cases "field_absent payload field")
    case True
    then show ?thesis using step ok by (simp add: supported_field_def acc)
  next
    case False
    with step obtain spans sup' where sp: "field_evidence P documents items index staged = Inr spans"
      and sup: "(if spans = [] then Inr sup else
           let s = \<lparr>fs_field = u field, fs_evidence_ids = sorted_set (map ev_evidence_id spans),
                 fs_method = Normalized_support\<rparr>
           in rbind (field_support_check s) (\<lambda>_. Inr (sup @ [s]))) = Inr sup'"
      and acc': "acc' = (foldl (\<lambda>m e. AList.update (ev_evidence_id e) e m) m spans, sup')"
      by (auto simp: supported_field_def acc rbind_Inr_iff)
    have spans: "\<exists>d \<in> set documents. \<exists>b \<in> set (sd_blocks d). whole_block_span P d b = Inr e"
      if "e \<in> set spans" for e
      using field_evidence_Inr [OF sp that] o(2) by (metis nth_mem)
    note ev = evidence_ok_updates [of P documents m spans, OF _ spans]
    have m: "evidence_ok P documents m" using ok by (simp add: support_ok_def acc)
    have keys: "fst ` set (fst acc') = fst ` set m \<union> ev_evidence_id ` set spans"
      using ev(2) [OF m] by (simp add: acc')
    have "set (fs_evidence_ids s) \<subseteq> fst ` set (fst acc') \<and> support_from P documents items origins s"
      if s: "s \<in> set sup'" for s
    proof (cases "s \<in> set sup")
      case True
      then show ?thesis using ok keys by (auto simp: support_ok_def acc)
    next
      case False
      then have s_eq: "s = \<lparr>fs_field = u field,
          fs_evidence_ids = sorted_set (map ev_evidence_id spans), fs_method = Normalized_support\<rparr>"
        using sup s by (auto simp: Let_def rbind_Inr_iff split: if_splits)
      have "\<exists>b \<in> set (sd_blocks (documents ! index)). \<exists>e'.
           tb_locator b \<in> set (field_pointers (so_record (items ! index)) staged)
           \<and> whole_block_span P (documents ! index) b = Inr e' \<and> ev_evidence_id e' = ev_evidence_id e"
        if "e \<in> set spans" for e
        using field_evidence_Inr [OF sp that] by metis
      then have "support_from P documents items origins s"
        unfolding support_from_def using o(1) by (intro bexI [of _ "(field, index, staged)"]) (auto simp: s_eq)
      then show ?thesis using keys by (auto simp: s_eq)
    qed
    then show ?thesis using ev(1) [OF m] keys by (auto simp: support_ok_def acc acc')
  qed
qed

lemma supported_fields_ok:
  assumes "rfold (supported_field P documents items payload) acc os = Inr acc'"
    and "support_ok P documents items origins acc"
    and "set os \<subseteq> set origins" and "\<And>f i s. (f, i, s) \<in> set os \<Longrightarrow> i < length documents"
  shows "support_ok P documents items origins acc' \<and> fst ` set (fst acc) \<subseteq> fst ` set (fst acc')"
  using assms
proof (induction os arbitrary: acc)
  case Nil
  then show ?case by simp
next
  case (Cons x os)
  obtain f i s where x: "x = (f, i, s)" by (cases x)
  from Cons.prems(1) obtain acc1 where
    s1: "supported_field P documents items payload acc (f, i, s) = Inr acc1"
    and s2: "rfold (supported_field P documents items payload) acc1 os = Inr acc'"
    by (auto simp: rbind_Inr_iff x)
  have one: "support_ok P documents items origins acc1 \<and> fst ` set (fst acc) \<subseteq> fst ` set (fst acc1)"
    by (rule supported_field_ok [OF s1 Cons.prems(2)]) (use Cons.prems(3,4) x in auto)
  have "support_ok P documents items origins acc' \<and> fst ` set (fst acc1) \<subseteq> fst ` set (fst acc')"
    by (rule Cons.IH [OF s2]) (use one Cons.prems(3,4) in auto)
  with one show ?case by blast
qed

section \<open>Revisions and entities\<close>

text \<open>The revision that a call adds, with evidence from the draft it leaves behind.\<close>

definition added_revision ::
    "pyenv \<Rightarrow> source_document list \<Rightarrow> staged_occurrence list \<Rightarrow> ustr \<Rightarrow> entity_payload \<Rightarrow> origins
     \<Rightarrow> ustr set \<Rightarrow> entity_revision \<Rightarrow> bool" where
  "added_revision P documents items entity_id payload origins evidence_ids r \<longleftrightarrow>
     er_entity_id r = entity_id \<and> er_payload r = payload
     \<and> er_document_ids r = sort (map sd_document_id documents)
     \<and> entity_revision_check P r = Inr ()
     \<and> (\<forall>s \<in> set (er_field_support r). set (fs_evidence_ids s) \<subseteq> evidence_ids
          \<and> support_from P documents items origins s)"

lemma added_revision_mono:
  "added_revision P documents items i p os ev r \<Longrightarrow> ev \<subseteq> ev'
   \<Longrightarrow> added_revision P documents items i p os ev' r"
  unfolding added_revision_def by blast

lemma add_revision_effect:
  assumes run: "add_revision P documents items entity_id payload origins a = (Inr y, a')"
    and ok: "evidence_ok P documents (dr_evidence a)"
    and o: "\<forall>x \<in> set origins. fst (snd x) < length documents"
  obtains r where "dr_entities a' = dr_entities a" and "dr_revisions a' = dr_revisions a @ [r]"
    and "evidence_ok P documents (dr_evidence a')"
    and "fst ` set (dr_evidence a) \<subseteq> fst ` set (dr_evidence a')"
    and "added_revision P documents items entity_id payload origins
           (fst ` set (dr_evidence a')) r"
proof -
  from run obtain m sup where fold: "rfold (supported_field P documents items payload)
      (dr_evidence a, []) (sort_key (\<lambda>(field, _). u field) origins) = Inr (m, sup)"
    by (auto simp: add_revision_def split: sum.splits)
  define r where "r = \<lparr>er_revision_id = revision_digest P \<lparr>er_revision_id = [],
      er_entity_id = entity_id, er_document_ids = sort (map sd_document_id documents),
      er_payload = payload, er_field_support = sup\<rparr>, er_entity_id = entity_id,
      er_document_ids = sort (map sd_document_id documents), er_payload = payload,
      er_field_support = sup\<rparr>"
  have check: "entity_revision_check P r = Inr ()"
    and a': "a' = a\<lparr>dr_evidence := m, dr_revisions := dr_revisions a @ [r]\<rparr>"
    using run by (auto simp: add_revision_def fold Let_def r_def split: sum.splits)
  have idx: "i < length documents" if "(f, i, s) \<in> set origins" for f i s
    using o that by fastforce
  have "support_ok P documents items origins (m, sup)
      \<and> fst ` set (dr_evidence a) \<subseteq> fst ` set m"
    using supported_fields_ok [OF fold, of origins] ok idx by (auto simp: support_ok_def)
  then show thesis
    using that [of r] check by (auto simp: a' r_def support_ok_def added_revision_def)
qed

definition named_entity :: "entity_kind \<Rightarrow> string \<Rightarrow> ustr \<Rightarrow> entity_identity" where
  "named_entity kind namespace key = \<lparr>ei_entity_id = entity_urn namespace key, ei_kind = kind,
     ei_namespace = u namespace, ei_source_key = key\<rparr>"

lemma add_entity_effect:
  "add_entity kind namespace key a = (Inr i, a') \<longleftrightarrow>
     i = entity_urn namespace key \<and> entity_identity_check (named_entity kind namespace key) = Inr ()
     \<and> a' = a\<lparr>dr_entities := AList.update i (named_entity kind namespace key) (dr_entities a)\<rparr>"
  by (auto simp: add_entity_def entity_of_def Let_def named_entity_def rbind_def split: sum.splits)

text \<open>Entities of different namespaces have different names.\<close>

lemma entity_urns_differ [simp]:
  "entity_urn ''alio:organization'' k \<noteq> entity_urn ''job-alio:posting'' k'"
  "entity_urn ''job-alio:posting'' k' \<noteq> entity_urn ''alio:organization'' k"
  "entity_urn ''scheme'' k \<noteq> entity_urn ''ncs:occupation'' k'"
  "entity_urn ''ncs:occupation'' k' \<noteq> entity_urn ''scheme'' k"
  "entity_urn ''scheme'' k \<noteq> entity_urn ''ncs:unit'' k'"
  "entity_urn ''ncs:unit'' k' \<noteq> entity_urn ''scheme'' k"
  "entity_urn ''ncs:occupation'' k \<noteq> entity_urn ''ncs:unit'' k'"
  "entity_urn ''ncs:unit'' k' \<noteq> entity_urn ''ncs:occupation'' k"
  "entity_urn ''qnet:qualification'' k \<noteq> entity_urn ''qnet:exam'' k'"
  "entity_urn ''qnet:exam'' k' \<noteq> entity_urn ''qnet:qualification'' k"
  by (simp_all add: entity_urn_def u_def)

section \<open>Indexes of a draft\<close>

lemma update_fresh: "k \<notin> fst ` set m \<Longrightarrow> AList.update k v m = m @ [(k, v)]"
  by (induction m) auto

lemma index_by_Nil: "index_by key [] = []"
  by (simp add: index_by_def)

lemma index_by_distinct: "distinct (map key xs) \<Longrightarrow> index_by key xs = map (\<lambda>x. (key x, x)) xs"
proof (induction xs rule: rev_induct)
  case Nil
  then show ?case by (simp add: index_by_def)
next
  case (snoc x xs)
  have "index_by key (xs @ [x]) = AList.update (key x) x (index_by key xs)"
    by (simp add: index_by_def)
  then show ?case using snoc by (simp add: update_fresh image_iff)
qed

lemma index_by_values:
  assumes "distinct (map fst m)" and "\<And>k x. (k, x) \<in> set m \<Longrightarrow> k = key x"
  shows "index_by key (map snd m) = m"
proof -
  have k: "key (snd p) = fst p" if "p \<in> set m" for p
    using assms(2) [of "fst p" "snd p"] that by simp
  have m: "map (\<lambda>x. (key x, x)) (map snd m) = m"
    using k by (simp add: map_idI)
  have "map key (map snd m) = map fst m" using k by simp
  then have "distinct (map key (map snd m))" by (simp only: assms(1))
  then show ?thesis by (simp only: index_by_distinct m)
qed

text \<open>A draft whose parts fit together: what the steps of \<open>assemble\<close> build.\<close>

definition draft_ok ::
    "pyenv \<Rightarrow> source_document list \<Rightarrow> staged_occurrence list \<Rightarrow> draft \<Rightarrow> bool" where
  "draft_ok P documents items a \<longleftrightarrow>
     distinct (map fst (dr_entities a))
     \<and> (\<forall>(k, e) \<in> set (dr_entities a). k = ei_entity_id e \<and> entity_identity_check e = Inr ())
     \<and> evidence_ok P documents (dr_evidence a)
     \<and> (\<forall>r \<in> set (dr_revisions a).
          (\<exists>e. map_of (dr_entities a) (er_entity_id r) = Some e
             \<and> ei_kind e = payload_kind (er_payload r))
          \<and> (\<exists>os. added_revision P documents items (er_entity_id r) (er_payload r) os
                   (fst ` set (dr_evidence a)) r)
          \<and> check_references (bundle_of_draft documents a) r = Inr ())"

lemma draft_indexes:
  assumes "draft_ok P documents items a"
  shows "identities_by_id (bundle_of_draft documents a) = dr_entities a"
    and "evidence_by_id (bundle_of_draft documents a) = dr_evidence a"
  using assms
  by (auto simp: draft_ok_def evidence_ok_def identities_by_id_def evidence_by_id_def
      bundle_of_draft_def intro!: index_by_values)

lemma draft_span:
  assumes docs: "documents_of P items documents" and ok: "evidence_ok P documents m"
    and e: "e \<in> snd ` set m"
  obtains d where "d \<in> set documents" "ev_document_id e = sd_document_id d"
    "span_in_document e d = Inr ()" "evidence_span_check P e = Inr ()"
proof -
  obtain d b where "d \<in> set documents" "b \<in> set (sd_blocks d)" "whole_block_span P d b = Inr e"
    using ok e by (fastforce simp: evidence_ok_def)
  then show thesis
    using that whole_block_in_document documents_of_check [OF docs] whole_block_span_Inr by metis
qed

lemma draft_validates:
  assumes docs: "documents_of P items documents" and ok: "draft_ok P documents items a"
    and ids: "distinct (map er_revision_id (dr_revisions a))"
  shows "bundle_check P (bundle_of_draft documents a) = Inr ()"
proof -
  let ?b = "bundle_of_draft documents a"
  have dist: "distinct (map sd_document_id documents)" using docs by (simp add: documents_of_def)
  have ev: "evidence_ok P documents (dr_evidence a)" using ok by (simp add: draft_ok_def)
  have evid: "distinct (map fst (dr_evidence a))" using ev by (simp add: evidence_ok_def)
  note ix = draft_indexes [OF ok]
  have find_doc: "map_of (documents_by_id ?b) (sd_document_id d) = Some d" if "d \<in> set documents" for d
    using that dist by (simp add: documents_by_id_def bundle_of_draft_def index_by_member)
  have parts: "cb_documents ?b = documents" "cb_identities ?b = map snd (dr_entities a)"
    "cb_revisions ?b = dr_revisions a" "cb_evidence ?b = map snd (dr_evidence a)"
    "cb_extractions ?b = []" "cb_claims ?b = []"
    by (simp_all add: bundle_of_draft_def)
  have unique: "bundle_ids_unique ?b"
    using dist ids by (simp add: bundle_ids_unique_def ix documents_by_id_def
        revisions_by_id_def extractions_by_id_def parts length_index_by index_by_Nil)
  have spans: "check_span ?b e = Inr () \<and> evidence_span_check P e = Inr ()"
    if e: "e \<in> snd ` set (dr_evidence a)" for e
  proof -
    obtain d where "d \<in> set documents" "ev_document_id e = sd_document_id d"
      "span_in_document e d = Inr ()" "evidence_span_check P e = Inr ()"
      using draft_span [OF docs ev e] .
    then show ?thesis by (simp add: check_span_def find_doc)
  qed
  have support: "check_support ?b r s = Inr ()"
    if r: "r \<in> set (dr_revisions a)" and s: "s \<in> set (er_field_support r)" for r s
  proof -
    obtain os where add: "added_revision P documents items (er_entity_id r) (er_payload r) os
        (fst ` set (dr_evidence a)) r" using ok r by (auto simp: draft_ok_def)
    have "\<exists>e. map_of (evidence_by_id ?b) i = Some e \<and> ev_document_id e \<in> set (er_document_ids r)"
      if i: "i \<in> set (fs_evidence_ids s)" for i
    proof -
      have "i \<in> fst ` set (dr_evidence a)"
        using add s i by (auto simp: added_revision_def)
      then obtain e where e: "map_of (dr_evidence a) i = Some e"
        by (metis map_of_eq_None_iff not_None_eq)
      then have "e \<in> snd ` set (dr_evidence a)" by (force dest: map_of_SomeD)
      then obtain d where "d \<in> set documents" "ev_document_id e = sd_document_id d"
        using draft_span [OF docs ev] by metis
      then show ?thesis using e add by (auto simp: ix added_revision_def)
    qed
    then show ?thesis
      by (fastforce simp: check_support_def rall_Inr_iff ensure_def)
  qed
  have revisions: "check_revision ?b r = Inr () \<and> entity_revision_check P r = Inr ()"
    if r: "r \<in> set (dr_revisions a)" for r
  proof -
    obtain e os where e: "map_of (dr_entities a) (er_entity_id r) = Some e"
      "ei_kind e = payload_kind (er_payload r)"
      and add: "added_revision P documents items (er_entity_id r) (er_payload r) os
        (fst ` set (dr_evidence a)) r"
      and refs: "check_references ?b r = Inr ()"
      using ok r unfolding draft_ok_def by blast
    have "set (er_document_ids r) \<subseteq> fst ` set (documents_by_id ?b)"
      using add by (auto simp: added_revision_def documents_by_id_def bundle_of_draft_def)
    moreover have "require_entity ?b (Some (er_entity_id r)) (payload_kind (er_payload r)) = Inr ()"
      using e by (simp add: require_entity_def ix)
    moreover have "rall (check_support ?b r) (er_field_support r) = Inr ()"
      using support [OF r] by (simp add: rall_Inr_iff)
    ultimately show ?thesis
      using refs add by (simp add: check_revision_def added_revision_def)
  qed
  have "rall entity_identity_check (map snd (dr_entities a)) = Inr ()"
    using ok by (auto simp: rall_Inr_iff draft_ok_def)
  moreover have "rall (source_document_check P) documents = Inr ()"
    using documents_of_check [OF docs] by (simp add: rall_Inr_iff)
  moreover have "rall (entity_revision_check P) (dr_revisions a) = Inr ()"
    "rall (check_revision ?b) (dr_revisions a) = Inr ()"
    using revisions by (simp_all add: rall_Inr_iff)
  moreover have "rall (evidence_span_check P) (map snd (dr_evidence a)) = Inr ()"
    "rall (check_span ?b) (map snd (dr_evidence a)) = Inr ()"
    using spans by (simp_all add: rall_Inr_iff)
  ultimately show ?thesis
    using unique
    by (simp add: bundle_check_def bundle_members_check_def references_and_evidence_def parts)
qed

end
