(* ===== verification/AssemblyRuns.thy ===== *)
theory AssemblyRuns
  imports AssemblyFacts NormalizeFacts
begin

text \<open>
  \<open>assemble\<close> case by case: the drafts it builds fit together, so the validator of the bundle never
  refuses one, and a posting is merged from its list and its detail.
\<close>

section \<open>Entities of a draft\<close>

lemma entities_index:
  assumes "distinct (map fst (dr_entities a))"
    and "\<And>k e. (k, e) \<in> set (dr_entities a) \<Longrightarrow> k = ei_entity_id e"
  shows "identities_by_id (bundle_of_draft documents a) = dr_entities a"
  using index_by_values [of "dr_entities a" ei_entity_id] assms
  by (simp add: identities_by_id_def bundle_of_draft_def)

lemma named_entity_simps [simp]:
  "ei_entity_id (named_entity k ns key) = entity_urn ns key"
  "ei_kind (named_entity k ns key) = k"
  "ei_source_key (named_entity k ns key) = key"
  by (simp_all add: named_entity_def)

lemma empty_draft_simps [simp]:
  "dr_entities empty_draft = []" "dr_evidence empty_draft = []" "dr_revisions empty_draft = []"
  by (simp_all add: empty_draft_def)

lemma evidence_ok_Nil [simp]: "evidence_ok P documents []"
  by (simp add: evidence_ok_def)

lemma single_origin_index: "x \<in> set (single_origin m) \<Longrightarrow> fst (snd x) = 0"
  by (auto simp: single_origin_def)

section \<open>The pair of a posting\<close>

lemma paired_Some:
  assumes "paired items rep = Some (i, p)"
  shows "i < length items" "posting_of (items ! i) = Some p" "jp_representation p = rep"
proof -
  have "(i, p) \<in> set (List.map_filter (\<lambda>(i, item). map_option (Pair i) (posting_of item))
      (zip [0..<length items] items))" and rep: "jp_representation p = rep"
    using assms by (auto simp: paired_def find_Some_iff) (metis length_rev nth_mem set_rev)
  then obtain item where "(i, item) \<in> set (zip [0..<length items] items)"
    "posting_of item = Some p"
    by (auto simp: List.map_filter_def)
  then show "i < length items" "posting_of (items ! i) = Some p" "jp_representation p = rep"
    using rep by (auto simp: in_set_zip)
qed

text \<open>The indexes of list and detail among two occurrences.\<close>

definition posting_pair ::
    "staged_occurrence list \<Rightarrow> nat \<Rightarrow> job_posting \<Rightarrow> nat \<Rightarrow> job_posting \<Rightarrow> bool" where
  "posting_pair items li listed di detail \<longleftrightarrow>
     length items = 2 \<and> (li = 0 \<and> di = 1 \<or> li = 1 \<and> di = 0)
     \<and> posting_of (items ! li) = Some listed \<and> jp_representation listed = List_representation
     \<and> posting_of (items ! di) = Some detail \<and> jp_representation detail = Detail_representation"

lemma paired_pair:
  assumes "paired items List_representation = Some (li, listed)"
    and "paired items Detail_representation = Some (di, detail)" and "length items = 2"
  shows "posting_pair items li listed di detail"
proof -
  have "li \<noteq> di" using paired_Some [OF assms(1)] paired_Some [OF assms(2)] by auto
  then show ?thesis
    using paired_Some [OF assms(1)] paired_Some [OF assms(2)] assms(3)
    by (auto simp: posting_pair_def)
qed

lemma pair_paired:
  assumes "posting_pair items li listed di detail"
  shows "paired items List_representation = Some (li, listed)"
    and "paired items Detail_representation = Some (di, detail)"
proof -
  obtain x y where "items = [x, y]"
    using assms by (auto simp: posting_pair_def length_Suc_conv numeral_2_eq_2)
  then show "paired items List_representation = Some (li, listed)"
    and "paired items Detail_representation = Some (di, detail)"
    using assms by (auto simp: posting_pair_def paired_def List.map_filter_def upt_rec)
qed

section \<open>Postings\<close>

lemma assemble_posting_effect:
  assumes run: "assemble_posting P documents items empty_draft = (Inr y, a)"
    and docs: "documents_of P items documents"
  obtains li listed di detail posting r where "posting_pair items li listed di detail"
    and "facts_agree listed detail"
    and "posting_from_staging (merge_postings listed detail) (sd_document_id (documents ! di))
           (Some (entity_urn ''alio:organization'' (jp_organization_code detail))) = Inr posting"
    and "dr_revisions a = [r]"
    and "added_revision P documents items (entity_urn ''job-alio:posting'' (jp_posting_id detail))
           (P_job_posting posting) (posting_origins li di detail) (fst ` set (dr_evidence a)) r"
    and "draft_ok P documents items a"
proof -
  from run obtain li listed di detail where
    p: "paired items List_representation = Some (li, listed)"
       "paired items Detail_representation = Some (di, detail)"
    and len: "length items = 2" and agree: "facts_agree listed detail"
    by (auto simp: assemble_posting_def split: option.splits if_splits)
  have pair: "posting_pair items li listed di detail" by (rule paired_pair [OF p len])
  let ?org = "entity_urn ''alio:organization'' (jp_organization_code detail)"
  let ?key = "entity_urn ''job-alio:posting'' (jp_posting_id detail)"
  have m: "jp_organization_code (merge_postings listed detail) = jp_organization_code detail"
    "jp_posting_id (merge_postings listed detail) = jp_posting_id detail"
    by (simp_all add: merge_postings_def)
  define a1 where "a1 = empty_draft\<lparr>dr_entities :=
        [(?org, named_entity K_organization ''alio:organization'' (jp_organization_code detail)),
         (?key, named_entity K_job_posting ''job-alio:posting'' (jp_posting_id detail))]\<rparr>"
  from run p len agree obtain posting where
    ids: "entity_identity_check (named_entity K_organization ''alio:organization''
            (jp_organization_code detail)) = Inr ()"
         "entity_identity_check (named_entity K_job_posting ''job-alio:posting''
            (jp_posting_id detail)) = Inr ()"
    and post: "posting_from_staging (merge_postings listed detail)
        (sd_document_id (documents ! di)) (Some ?org) = Inr posting"
    and rev: "add_revision P documents items ?key (P_job_posting posting)
        (posting_origins li di detail) a1 = (Inr y, a)"
    by (auto simp: assemble_posting_def Let_def abind_Inr_iff add_entity_effect m a1_def
        split: if_splits)
  have a1: "dr_evidence a1 = []" "dr_revisions a1 = []" "dr_entities a1 =
        [(?org, named_entity K_organization ''alio:organization'' (jp_organization_code detail)),
         (?key, named_entity K_job_posting ''job-alio:posting'' (jp_posting_id detail))]"
    by (simp_all add: a1_def)
  have idx: "\<forall>x \<in> set (posting_origins li di detail). fst (snd x) < length documents"
    using pair documents_of_length [OF docs]
    by (auto simp: posting_origins_def posting_pair_def split: if_splits)
  obtain r where r: "dr_entities a = dr_entities a1" "dr_revisions a = [r]"
      "evidence_ok P documents (dr_evidence a)"
      "added_revision P documents items ?key (P_job_posting posting) (posting_origins li di detail)
         (fst ` set (dr_evidence a)) r"
    using add_revision_effect [OF rev _ idx] a1 by (metis append_Nil evidence_ok_Nil)
  have kind: "er_entity_id r = ?key" "er_payload r = P_job_posting posting"
    using r(4) by (simp_all add: added_revision_def)
  have ix: "identities_by_id (bundle_of_draft documents a) = dr_entities a"
    by (rule entities_index) (auto simp: r(1) a1)
  have "cj_organization_id posting = Some ?org" "cj_primary_occupation_id posting = None"
    using post by (auto simp: posting_from_staging_def Let_def rbind_Inr_iff)
  then have "check_references (bundle_of_draft documents a) r = Inr ()"
    by (simp add: check_references_def kind require_entity_def ix r(1) a1)
  then have "draft_ok P documents items a"
    unfolding draft_ok_def using r ids kind by (auto simp: a1)
  with that pair agree post r show thesis by blast
qed

section \<open>The other records\<close>

lemma added_entity_payload:
  assumes "added_revision P documents items i p os ev r"
  shows "er_entity_id r = i" "er_payload r = p"
  using assms by (simp_all add: added_revision_def)

lemma single_index:
  assumes "documents_of P items documents"
  shows "\<forall>x \<in> set (single_origin m). fst (snd x) < length documents"
  using assms by (auto simp: documents_of_def dest: single_origin_index)

text \<open>A revision that is added to a draft that fits, for an entity of its kind, with its references.\<close>

lemma add_revision_draft:
  assumes run: "add_revision P documents items entity_id payload (single_origin m) a = (Inr y, a')"
    and docs: "documents_of P items documents"
    and entities: "distinct (map fst (dr_entities a))"
      "\<forall>(k, e) \<in> set (dr_entities a). k = ei_entity_id e \<and> entity_identity_check e = Inr ()"
    and ev: "evidence_ok P documents (dr_evidence a)"
    and old: "\<forall>r \<in> set (dr_revisions a).
        (\<exists>e. map_of (dr_entities a) (er_entity_id r) = Some e \<and> ei_kind e = payload_kind (er_payload r))
        \<and> (\<exists>os. added_revision P documents items (er_entity_id r) (er_payload r) os
              (fst ` set (dr_evidence a)) r)"
    and new: "\<exists>e. map_of (dr_entities a) entity_id = Some e \<and> ei_kind e = payload_kind payload"
    and refs: "\<And>b r. identities_by_id b = dr_entities a \<Longrightarrow>
        r \<in> set (dr_revisions a) \<or> er_entity_id r = entity_id \<and> er_payload r = payload
        \<Longrightarrow> check_references b r = Inr ()"
  shows "draft_ok P documents items a'"
proof -
  obtain r where r: "dr_entities a' = dr_entities a" "dr_revisions a' = dr_revisions a @ [r]"
      "evidence_ok P documents (dr_evidence a')"
      "fst ` set (dr_evidence a) \<subseteq> fst ` set (dr_evidence a')"
      "added_revision P documents items entity_id payload (single_origin m)
         (fst ` set (dr_evidence a')) r"
    using add_revision_effect [OF run ev single_index [OF docs]] .
  have ix: "identities_by_id (bundle_of_draft documents a') = dr_entities a"
    using entities_index [of a' documents] entities r(1) by auto
  have kept: "\<exists>os. added_revision P documents items (er_entity_id q) (er_payload q) os
      (fst ` set (dr_evidence a')) q" if "q \<in> set (dr_revisions a)" for q
    using old that added_revision_mono [OF _ r(4)] by blast
  have q: "(\<exists>e. map_of (dr_entities a') (er_entity_id q) = Some e
        \<and> ei_kind e = payload_kind (er_payload q))
      \<and> (\<exists>os. added_revision P documents items (er_entity_id q) (er_payload q) os
              (fst ` set (dr_evidence a')) q)
      \<and> check_references (bundle_of_draft documents a') q = Inr ()"
    if "q \<in> set (dr_revisions a')" for q
  proof (cases "q \<in> set (dr_revisions a)")
    case True
    then show ?thesis using old kept refs [OF ix, of q] r(1) by auto
  next
    case False
    then have "q = r" using that r(2) by simp
    then show ?thesis
      using new r(1,5) refs [OF ix, of r] added_entity_payload [OF r(5)] by auto
  qed
  then show ?thesis using entities r(1,3) by (auto simp: draft_ok_def)
qed

lemma occupation_draft_effect:
  assumes run: "occupation_draft P documents items name code empty_draft = (Inr i, a)"
    and docs: "documents_of P items documents"
  obtains v r where "i = entity_urn ''ncs:occupation'' code"
    and "dr_entities a = [(entity_urn ''scheme'' (u ''ncs''), named_entity K_concept_scheme ''scheme'' (u ''ncs'')),
           (i, named_entity K_occupation ''ncs:occupation'' code)]"
    and "oc_scheme_id v = entity_urn ''scheme'' (u ''ncs'')" "oc_ncs_class_ids v = []"
    and "dr_revisions a = [r]" "er_entity_id r = i" "er_payload r = P_occupation v"
    and "draft_ok P documents items a"
proof -
  let ?scheme = "entity_urn ''scheme'' (u ''ncs'')"
  let ?occ = "entity_urn ''ncs:occupation'' code"
  define a1 where "a1 = empty_draft\<lparr>dr_entities :=
     [(?scheme, named_entity K_concept_scheme ''scheme'' (u ''ncs'')),
      (?occ, named_entity K_occupation ''ncs:occupation'' code)]\<rparr>"
  from run obtain v where i: "i = ?occ"
    and ids: "entity_identity_check (named_entity K_concept_scheme ''scheme'' (u ''ncs'')) = Inr ()"
      "entity_identity_check (named_entity K_occupation ''ncs:occupation'' code) = Inr ()"
    and v: "occupation_from_staging name code ?scheme = Inr v"
    and rev: "add_revision P documents items ?occ (P_occupation v)
      (single_origin [(''name_ko'', ''occupation_name''), (''code'', ''occupation_code'')]) a1
      = (Inr (), a)"
    by (auto simp: occupation_draft_def abind_Inr_iff add_entity_effect a1_def)
  have a1: "dr_evidence a1 = []" "dr_revisions a1 = []" "dr_entities a1 =
      [(?scheme, named_entity K_concept_scheme ''scheme'' (u ''ncs'')),
       (?occ, named_entity K_occupation ''ncs:occupation'' code)]"
    by (simp_all add: a1_def)
  have v': "oc_scheme_id v = ?scheme" "oc_ncs_class_ids v = []"
    using v by (auto simp: occupation_from_staging_def Let_def rbind_Inr_iff)
  obtain r where r: "dr_entities a = dr_entities a1" "dr_revisions a = [r]"
      "er_entity_id r = ?occ" "er_payload r = P_occupation v"
  proof (rule add_revision_effect [OF rev _ single_index [OF docs]])
    fix r assume "dr_entities a = dr_entities a1" "dr_revisions a = dr_revisions a1 @ [r]"
      "added_revision P documents items ?occ (P_occupation v) (single_origin
        [(''name_ko'', ''occupation_name''), (''code'', ''occupation_code'')])
        (fst ` set (dr_evidence a)) r"
    then show thesis using that a1 added_entity_payload by simp
  qed (simp add: a1)
  have "draft_ok P documents items a"
    by (rule add_revision_draft [OF rev docs])
      (auto simp: a1 ids v' check_references_def require_entity_def)
  with i v' r a1 show thesis by (intro that [of v r]) auto
qed

lemma competency_unit:
  assumes "competency_from_staging c occupation_id = Inr v"
  shows "nu_full_code v = co_code c" "nu_occupation_id v = occupation_id"
  using assms by (auto simp: competency_from_staging_def Let_def rbind_Inr_iff)

lemma assemble_single_effect:
  assumes run: "assemble_single P documents items n empty_draft = (Inr y, a)"
    and docs: "documents_of P items documents"
  shows "draft_ok P documents items a"
proof (cases n)
  case (CareerPath c)
  then show ?thesis
    using run occupation_draft_effect [OF _ docs]
    by (auto simp: assemble_single_def abind_Inr_iff) metis
next
  case (Competency c)
  let ?unit = "named_entity K_ncs_unit ''ncs:unit'' (co_code c)"
  let ?fields = "[(''name_ko'', ''name''), (''full_code'', ''code''), (''base_code'', ''code''),
    (''version'', ''code''), (''definition'', ''definition''), (''level'', ''level''),
    (''occupation_id'', ''occupation_code'')]"
  from run Competency obtain occ a1 v where
    occ: "occupation_draft P documents items (co_occupation_name c) (co_occupation_code c)
            empty_draft = (Inr occ, a1)"
    and unit: "entity_identity_check ?unit = Inr ()" and v: "competency_from_staging c occ = Inr v"
    and rev: "add_revision P documents items (entity_urn ''ncs:unit'' (co_code c)) (P_ncs_unit v)
      (single_origin ?fields) (a1\<lparr>dr_entities := AList.update (entity_urn ''ncs:unit'' (co_code c))
         ?unit (dr_entities a1)\<rparr>) = (Inr y, a)"
    by (auto simp: assemble_single_def abind_Inr_iff add_entity_effect)
  obtain v1 r where i: "occ = entity_urn ''ncs:occupation'' (co_occupation_code c)"
    and ents: "dr_entities a1 = [(entity_urn ''scheme'' (u ''ncs''),
        named_entity K_concept_scheme ''scheme'' (u ''ncs'')),
        (occ, named_entity K_occupation ''ncs:occupation'' (co_occupation_code c))]"
    and v1: "oc_scheme_id v1 = entity_urn ''scheme'' (u ''ncs'')" "oc_ncs_class_ids v1 = []"
    and r: "dr_revisions a1 = [r]" "er_entity_id r = occ" "er_payload r = P_occupation v1"
    and ok: "draft_ok P documents items a1"
    using occupation_draft_effect [OF occ docs] .
  have added: "\<exists>os. added_revision P documents items (er_entity_id r) (er_payload r) os
      (fst ` set (dr_evidence a1)) r" and ev: "evidence_ok P documents (dr_evidence a1)"
    and ids: "\<forall>(k, e) \<in> set (dr_entities a1). k = ei_entity_id e \<and> entity_identity_check e = Inr ()"
    using ok r(1) unfolding draft_ok_def by auto
  show ?thesis
    by (rule add_revision_draft [OF rev docs])
      (use unit ids added ev in \<open>auto simp: ents i r v1 competency_unit [OF v] check_references_def
         require_entity_def ensure_def\<close>)
next
  case (QualificationMapping q)
  let ?cred = "named_entity K_credential ''qnet:qualification'' (qm_qualification_code q)"
  let ?v = "\<lparr>cd_name_ko = qm_qualification_name q,
    cd_identifiers = [\<lparr>xi_scheme = u ''qnet:jmCd'', xi_value = qm_qualification_code q\<rparr>],
    cd_issuing_organization_id = None, cd_credential_type = None\<rparr>"
  have id: "entity_identity_check ?cred = Inr ()"
    and rev: "add_revision P documents items
      (entity_urn ''qnet:qualification'' (qm_qualification_code q)) (P_credential ?v)
      (single_origin [(''name_ko'', ''qualification_name''), (''identifiers'', ''qualification_code'')])
      (empty_draft\<lparr>dr_entities :=
         [(entity_urn ''qnet:qualification'' (qm_qualification_code q), ?cred)]\<rparr>) = (Inr y, a)"
    using run QualificationMapping
    by (auto simp: assemble_single_def abind_Inr_iff add_entity_effect Let_def)
  show ?thesis
    by (rule add_revision_draft [OF rev docs])
      (use id in \<open>auto simp: check_references_def require_entity_def\<close>)
next
  case (ExamSession e)
  let ?cred = "named_entity K_credential ''qnet:qualification'' (es_qualification_code e)"
  let ?exam = "named_entity K_exam_session ''qnet:exam'' (rc_source_record_id (so_record (items ! 0)))"
  let ?v = "\<lambda>dates. \<lparr>ce_name_ko = es_name e, ce_credential_id = ei_entity_id ?cred,
    ce_year = es_year e, ce_round = es_round e, ce_category_code = es_category_code e,
    ce_dates = dates\<rparr>"
  from run ExamSession obtain dates where ids: "entity_identity_check ?cred = Inr ()"
      "entity_identity_check ?exam = Inr ()"
    and rev: "add_revision P documents items (ei_entity_id ?exam) (P_exam_session (?v dates))
      (single_origin [(''name_ko'', ''name''), (''category_code'', ''category_code''),
               (''year'', ''year''), (''round'', ''round''), (''dates'', ''dates'')])
      (empty_draft\<lparr>dr_entities :=
         [(ei_entity_id ?cred, ?cred), (ei_entity_id ?exam, ?exam)]\<rparr>) = (Inr y, a)"
    by (auto simp: assemble_single_def abind_Inr_iff add_entity_effect Let_def)
  show ?thesis
    by (rule add_revision_draft [OF rev docs])
      (use ids in \<open>auto simp: check_references_def require_entity_def\<close>)
next
  case (Organization g)
  let ?org = "named_entity K_organization ''alio:organization'' (og_code g)"
  from run Organization obtain v where id: "entity_identity_check ?org = Inr ()"
    and v: "organization_from_staging g = Inr v"
    and rev: "add_revision P documents items (ei_entity_id ?org) (P_organization v)
      (single_origin [(''name_ko'', ''name''), (''identifiers'', ''code''),
         (''organization_type_text'', ''organization_type''), (''website'', ''website''),
         (''address_text'', ''address''), (''established_date'', ''established_date'')])
      (empty_draft\<lparr>dr_entities := [(ei_entity_id ?org, ?org)]\<rparr>) = (Inr y, a)"
    by (auto simp: assemble_single_def abind_Inr_iff add_entity_effect)
  have none: "cg_supervising_organization_id v = None"
    using v by (auto simp: organization_from_staging_def Let_def rbind_Inr_iff)
  show ?thesis
    by (rule add_revision_draft [OF rev docs])
      (use id none in \<open>auto simp: check_references_def require_entity_def\<close>)
next
  case (JobPosting p)
  then show ?thesis using run by (simp add: assemble_single_def)
qed

section \<open>Assembled bundles are valid\<close>

lemma assemble_draft_ok:
  assumes run: "assemble_draft P documents items empty_draft = (Inr y, a)"
    and docs: "documents_of P items documents"
  shows "draft_ok P documents items a"
  using run assemble_posting_effect [OF _ docs] assemble_single_effect [OF _ docs]
  by (auto simp: assemble_draft_def split: normalized.splits if_splits)

text \<open>
  C30: The validator of a bundle never refuses what was drafted. When the documents of the occurrences
  are built and the draft is complete, \<open>assemble\<close> returns it as a bundle, provided the revisions'
  digests do not collide, and the bundle passes the complete revalidation that the store runs before
  it writes: all members, all references, all quotations.
\<close>

theorem drafts_always_validate:
  assumes "documents_of P items documents"
    and "assemble_draft P documents items empty_draft = (Inr (), a)"
    and "distinct (map er_revision_id (dr_revisions a))"
  shows "assemble P items = Inr (bundle_of_draft documents a)
    \<and> bundle_check P (bundle_of_draft documents a) = Inr ()"
proof -
  have ok: "bundle_check P (bundle_of_draft documents a) = Inr ()"
    by (rule draft_validates [OF assms(1) assemble_draft_ok [OF assms(2,1)] assms(3)])
  moreover have "as_validation (references_and_evidence (bundle_of_draft documents a)) = Inr ()"
    by (rule iffD2 [OF as_validation_Inr]) (rule bundle_check_Inr(6) [OF ok])
  ultimately show ?thesis
    using assms(1,2) by (simp add: assemble_def documents_of_def Let_def)
qed

end
