(* ===== verification/PostingAssembly.thy ===== *)
theory PostingAssembly
  imports AssemblyRuns
begin

text \<open>
  The posting that is merged from its list and its detail: where each field comes from, and that it does
  not matter which of the two occurrences is given first.
\<close>

section \<open>What assemble returned\<close>

lemma assemble_Inr:
  assumes "assemble P items = Inr b"
  obtains documents a where "documents_of P items documents"
    and "assemble_draft P documents items empty_draft = (Inr (), a)"
    and "b = bundle_of_draft documents a"
  using assms
  by (auto simp: assemble_def documents_of_def rbind_Inr_iff Let_def
      split: if_splits prod.splits sum.splits)

lemma posting_draft:
  assumes "assemble_draft P documents items empty_draft = (Inr (), a)"
    and "posting_of (items ! 0) \<noteq> None"
  shows "assemble_posting P documents items empty_draft = (Inr (), a)"
  using assms by (auto simp: assemble_draft_def posting_of_def split: normalized.splits)

section \<open>The order of the two occurrences\<close>

definition swapped :: "origins \<Rightarrow> origins" where
  "swapped os = map (\<lambda>(f, i, s). (f, 1 - i, s)) os"

lemma insort_key_map: "insort_key f (g x) (map g xs) = map g (insort_key (f \<circ> g) x xs)"
  by (induction xs) auto

lemma sort_key_map: "sort_key f (map g xs) = map g (sort_key (f \<circ> g) xs)"
  by (induction xs) (simp_all add: insort_key_map comp_def)

lemma sort_swapped:
  "sort_key (\<lambda>(f, _). u f) (swapped os)
     = map (\<lambda>(f, i, s). (f, 1 - i, s)) (sort_key (\<lambda>(f, _). u f) os)"
proof -
  have "(\<lambda>(f, _). u f) \<circ> (\<lambda>(f, i, s). (f, 1 - i, s))
      = (\<lambda>(f, _ :: nat \<times> string). u f)" by auto
  then show ?thesis unfolding swapped_def sort_key_map by simp
qed

lemma rfold_map: "rfold f s (map g xs) = rfold (\<lambda>s x. f s (g x)) s xs"
  by (induction xs arbitrary: s) (auto simp: rbind_def split: sum.splits)

lemma supported_field_swap:
  assumes "i \<le> 1"
  shows "supported_field P [d', d] [y, x] payload acc (f, 1 - i, s)
    = supported_field P [d, d'] [x, y] payload acc (f, i, s)"
  using assms by (cases i) (auto simp: supported_field_def field_evidence_def split: prod.splits)

lemma sort_pair: "sort [a, b] = sort [b, a]" for a b :: "'a::linorder"
  by auto

lemma add_revision_swap:
  assumes "\<forall>x \<in> set os. fst (snd x) \<le> 1"
  shows "add_revision P [d', d] [y, x] i payload (swapped os)
    = add_revision P [d, d'] [x, y] i payload os"
proof -
  have fold: "rfold (supported_field P [d', d] [y, x] payload) acc
        (sort_key (\<lambda>(f, _). u f) (swapped os))
      = rfold (supported_field P [d, d'] [x, y] payload) acc (sort_key (\<lambda>(f, _). u f) os)" for acc
    unfolding sort_swapped rfold_map
  proof (rule rfold_cong)
    fix s o1 assume "o1 \<in> set (sort_key (\<lambda>(f, _). u f) os)"
    then have "fst (snd o1) \<le> 1" using assms by auto
    then show "supported_field P [d', d] [y, x] payload s (case o1 of (f, i, s) \<Rightarrow> (f, 1 - i, s))
        = supported_field P [d, d'] [x, y] payload s o1"
      using supported_field_swap [of "fst (snd o1)" P d' d y x payload s "fst o1" "snd (snd o1)"]
      by (simp add: case_prod_beta)
  qed simp_all
  have ids: "sort (map sd_document_id [d', d]) = sort (map sd_document_id [d, d'])"
    using sort_pair [of "sd_document_id d'" "sd_document_id d"] by simp
  show ?thesis by (rule ext) (simp only: add_revision_def fold ids)
qed

lemma posting_origins_swap:
  assumes "li \<le> 1" and "di \<le> 1"
  shows "posting_origins (1 - li) (1 - di) detail = swapped (posting_origins li di detail)"
    and "\<forall>x \<in> set (posting_origins li di detail). fst (snd x) \<le> 1"
  using assms by (auto simp: posting_origins_def swapped_def split: if_splits)

lemma posting_pair_swap:
  assumes "posting_pair [x, y] li listed di detail"
  shows "posting_pair [y, x] (1 - li) listed (1 - di) detail"
  using assms by (auto simp: posting_pair_def)

lemma assemble_posting_swap:
  assumes pair: "posting_pair [x, y] li listed di detail"
  shows "assemble_posting P [d', d] [y, x] = assemble_posting P [d, d'] [x, y]"
proof -
  note p = pair_paired [OF pair] and q = pair_paired [OF posting_pair_swap [OF pair]]
  have i: "li \<le> 1" "di \<le> 1" using pair by (auto simp: posting_pair_def)
  have doc: "[d', d] ! (Suc 0 - di) = [d, d'] ! di" using i(2) by (cases di) auto
  show ?thesis
    by (rule ext) (simp add: assemble_posting_def p q doc posting_origins_swap [OF i, simplified]
        add_revision_swap [OF posting_origins_swap(2) [OF i]] conj_commute)
qed

text \<open>
  C37: The order in which the two occurrences of a posting come does not matter. Assembling them the
  other way round gives the same entities, the same revision with the same identifier and the same evidence;
  only the list of the two documents is turned around.
\<close>

theorem assembly_order_free:
  "assemble P [x, y] = Inr b
     \<longleftrightarrow> assemble P [y, x] = Inr (b\<lparr>cb_documents := rev (cb_documents b)\<rparr>)"
proof -
  have turn: "assemble P [y, x] = Inr (b\<lparr>cb_documents := rev (cb_documents b)\<rparr>)"
    if run: "assemble P [x, y] = Inr b" for x y b
  proof -
    obtain documents a where docs: "documents_of P [x, y] documents"
      and draft: "assemble_draft P documents [x, y] empty_draft = (Inr (), a)"
      and b: "b = bundle_of_draft documents a"
      using assemble_Inr [OF run] .
    obtain d d' where dd: "documents = [d, d']" and od: "occurrence_document P x = Inr d"
        "occurrence_document P y = Inr d'"
      using docs by (auto simp: documents_of_def rbind_Inr_iff)
    have docs': "documents_of P [y, x] [d', d]"
      using docs od by (auto simp: documents_of_def dd)
    have "posting_of x \<noteq> None"
      using draft by (auto simp: assemble_draft_def posting_of_def split: normalized.splits)
    then have post: "assemble_posting P documents [x, y] empty_draft = (Inr (), a)"
      using posting_draft [OF draft] by simp
    obtain li listed di detail r where pair: "posting_pair [x, y] li listed di detail"
      and r: "dr_revisions a = [r]"
      using assemble_posting_effect [OF post docs] by metis
    have "posting_of y \<noteq> None" using pair by (auto simp: posting_pair_def)
    then have draft': "assemble_draft P [d', d] [y, x] empty_draft = (Inr (), a)"
      using post assemble_posting_swap [OF pair]
      by (auto simp: assemble_draft_def posting_of_def dd split: normalized.splits)
    have "bundle_check P (bundle_of_draft [d', d] a) = Inr ()"
      by (rule draft_validates [OF docs' assemble_draft_ok [OF draft' docs']]) (simp add: r)
    then have "references_and_evidence (bundle_of_draft [d', d] a) = Inr ()"
      by (rule bundle_check_Inr(6))
    then have "assemble P [y, x] = Inr (bundle_of_draft [d', d] a)"
      using docs' draft' by (simp add: assemble_def documents_of_def Let_def)
    then show ?thesis by (simp add: b dd bundle_of_draft_def)
  qed
  show ?thesis
    using turn [of x y b] turn [of y x "b\<lparr>cb_documents := rev (cb_documents b)\<rparr>"] by auto
qed

section \<open>Where the fields come from\<close>

text \<open>
  The facts of a merged posting: the detail's where it has them, the list's otherwise; a posting whose
  state neither gives is \<open>UNKNOWN\<close>.
\<close>

definition merged_posting :: "job_posting \<Rightarrow> job_posting \<Rightarrow> canonical_posting \<Rightarrow> bool" where
  "merged_posting listed detail p \<longleftrightarrow>
     cj_title p = Some (jp_title detail)
     \<and> cj_organization_name_text p = Some (jp_organization_name detail)
     \<and> cj_date_posted p = Some (DayValue (jp_date_posted detail))
     \<and> cj_valid_through p = Some (DayValue (jp_closing_date detail))
     \<and> cj_source_status p = (case or_else (jp_ongoing detail) (jp_ongoing listed) of
          None \<Rightarrow> Status_unknown | Some True \<Rightarrow> Status_open | Some False \<Rightarrow> Status_closed)
     \<and> cj_canonical_url p = or_else (jp_source_url detail) (jp_source_url listed)
     \<and> cj_employment_type_text p = or_else (jp_employment_type detail) (jp_employment_type listed)
     \<and> cj_recruitment_type_text p = or_else (jp_recruitment_type detail) (jp_recruitment_type listed)
     \<and> cj_education_text p = or_else (jp_education detail) (jp_education listed)
     \<and> cj_region_text p = or_else (jp_regions detail) (jp_regions listed)
     \<and> cj_ncs_categories_text p = or_else (jp_ncs_category_names detail) (jp_ncs_category_names listed)
     \<and> cj_headcount p = or_else (jp_headcount detail) (jp_headcount listed)
     \<and> cj_primary_occupation_id p = None"

lemma posting_from_staging_merged:
  assumes "posting_from_staging (merge_postings listed detail) doc org = Inr p"
  shows "merged_posting listed detail p" "cj_description_document_id p = Some doc"
    "cj_organization_id p = org"
  using assms
  by (auto simp: posting_from_staging_def merge_postings_def merged_posting_def Let_def
      rbind_Inr_iff)

text \<open>The evidence of a field: whole blocks, at the pointers of the staged field, of one occurrence.\<close>

definition field_quoted ::
    "pyenv \<Rightarrow> canonical_bundle \<Rightarrow> staged_occurrence list \<Rightarrow> nat \<Rightarrow> string \<Rightarrow> ustr \<Rightarrow> bool" where
  "field_quoted P b items index staged i \<longleftrightarrow>
     (\<exists>bl \<in> set (sd_blocks (cb_documents b ! index)). \<exists>e.
        tb_locator bl \<in> set (field_pointers (so_record (items ! index)) staged)
        \<and> whole_block_span P (cb_documents b ! index) bl = Inr e \<and> ev_evidence_id e = i)"

text \<open>
  C36: A posting is assembled from exactly one list and one detail that agree on identity, organization,
  title, dates and state. The bundle has one revision, of the posting's own entity; every fact in it
  is the detail's where the detail has one and the list's otherwise, its description is the
  detail's document, and each field that has evidence is quoted from the record that supplied it: from
  the detail where the detail gives the field, from the list otherwise.
\<close>

theorem posting_merged_from_pair:
  assumes run: "assemble P items = Inr b" and post: "posting_of (items ! 0) \<noteq> None"
  shows "\<exists>li listed di detail r p. posting_pair items li listed di detail
    \<and> facts_agree listed detail \<and> cb_revisions b = [r]
    \<and> er_entity_id r = entity_urn ''job-alio:posting'' (jp_posting_id detail)
    \<and> er_payload r = P_job_posting p \<and> merged_posting listed detail p
    \<and> cj_description_document_id p = Some (sd_document_id (cb_documents b ! di))
    \<and> (\<forall>s \<in> set (er_field_support r). \<exists>(field, staged) \<in> set posting_mapping. fs_field s = u field
         \<and> (\<forall>i \<in> set (fs_evidence_ids s).
              field_quoted P b items (if posting_field_given detail staged then di else li) staged i))"
proof -
  obtain documents a where docs: "documents_of P items documents"
    and draft: "assemble_draft P documents items empty_draft = (Inr (), a)"
    and b: "b = bundle_of_draft documents a"
    using assemble_Inr [OF run] .
  have parts: "cb_documents b = documents" "cb_revisions b = dr_revisions a"
    by (simp_all add: b bundle_of_draft_def)
  obtain li listed di detail p r where pair: "posting_pair items li listed di detail"
    and agree: "facts_agree listed detail"
    and p: "posting_from_staging (merge_postings listed detail) (sd_document_id (documents ! di))
           (Some (entity_urn ''alio:organization'' (jp_organization_code detail))) = Inr p"
    and r: "dr_revisions a = [r]"
    and added: "added_revision P documents items
           (entity_urn ''job-alio:posting'' (jp_posting_id detail))
           (P_job_posting p) (posting_origins li di detail) (fst ` set (dr_evidence a)) r"
    using assemble_posting_effect [OF posting_draft [OF draft post] docs] by metis
  have "\<exists>(field, staged) \<in> set posting_mapping. fs_field s = u field
      \<and> (\<forall>i \<in> set (fs_evidence_ids s).
           field_quoted P b items (if posting_field_given detail staged then di else li) staged i)"
    if s: "s \<in> set (er_field_support r)" for s
  proof -
    have "support_from P documents items (posting_origins li di detail) s"
      using added s by (simp add: added_revision_def)
    then obtain field index staged where o: "(field, index, staged) \<in> set (posting_origins li di detail)"
      and f: "fs_field s = u field"
      and q: "\<forall>i \<in> set (fs_evidence_ids s). field_quoted P b items index staged i"
      unfolding support_from_def field_quoted_def parts by auto
    have "(field, staged) \<in> set posting_mapping"
      "index = (if posting_field_given detail staged then di else li)"
      using o by (auto simp: posting_origins_def)
    with f q show ?thesis by (intro bexI [of _ "(field, staged)"]) auto
  qed
  then show ?thesis
    using pair agree posting_from_staging_merged [OF p] added
    by (intro exI [of _ li] exI [of _ listed] exI [of _ di] exI [of _ detail] exI [of _ r]
        exI [of _ p]) (auto simp: parts r added_revision_def)
qed

section \<open>A pair of occurrences\<close>

text \<open>A digest of 64 digits that tells the two documents and their blocks apart.\<close>

definition pair_env :: pyenv where
  "pair_env = example_env\<lparr>sha256 := (\<lambda>_. replicate 64 48),
     digest := (\<lambda>v. (case v of
         JStr s \<Rightarrow> if s = u ''/ttl'' then 49 else 48
       | JObj kvs \<Rightarrow> if map_of kvs (u ''source_record_id'') = Some (JStr (u ''list'')) then 49 else 48
       | _ \<Rightarrow> 48) # replicate 63 48)\<rparr>"

definition pair_posting :: "representation \<Rightarrow> bool option \<Rightarrow> ustr option \<Rightarrow> job_posting" where
  "pair_posting rep ongoing education = \<lparr>jp_posting_id = u ''7'', jp_representation = rep,
     jp_title = u ''Engineer'', jp_organization_code = u ''C1'', jp_organization_name = u ''Org'',
     jp_date_posted = Date 2026 9 1, jp_closing_date = Date 2026 9 9, jp_ongoing = ongoing,
     jp_source_url = None, jp_recruitment_type = None, jp_education = education,
     jp_employment_type = None, jp_regions = None, jp_ncs_category_codes = None,
     jp_ncs_category_names = None, jp_headcount = None, jp_eligibility_text = None,
     jp_disqualification_text = None, jp_preference_text = None, jp_selection_text = None\<rparr>"

definition pair_occurrence ::
    "string \<Rightarrow> job_posting \<Rightarrow> (ustr \<times> ustr list) list \<Rightarrow> (string \<times> string) list \<Rightarrow> staged_occurrence"
where
  "pair_occurrence snapshot p lineage texts = \<lparr>so_revision_id = u snapshot,
     so_source_id = u ''job_alio'', so_snapshot_id = u snapshot, so_locator = u ''/result'',
     so_parser_version = processor_version,
     so_record = \<lparr>rc_source_record_id = u snapshot, rc_source_payload = [],
       rc_normalized = JobPosting p, rc_field_lineage = lineage,
       rc_texts = map (\<lambda>(k, t). (u k, \<lparr>ta_text = u t, ta_sha256 = replicate 64 48,
         ta_normalization_version = text_version\<rparr>)) texts, rc_quality_flags = []\<rparr>,
     so_observation_ids = [u snapshot]\<rparr>"

definition pair_items :: "staged_occurrence list" where
  "pair_items =
     [pair_occurrence ''list'' (pair_posting List_representation (Some True) None)
        [(u ''title'', [u ''/ttl'']), (u ''ongoing'', [u ''/open''])]
        [(''/ttl'', ''Engineer''), (''/open'', ''Y'')],
      pair_occurrence ''detail'' (pair_posting Detail_representation None (Some (u ''Any'')))
        [(u ''title'', [u ''/ttl'']), (u ''education'', [u ''/edu/x''])]
        [(''/ttl'', ''Engineer''), (''/edu/x'', ''Any'')]]"

lemma pair_assembles: "isok (assemble pair_env pair_items)"
  by code_simp

lemma pair_is_posting: "posting_of (pair_items ! 0) \<noteq> None"
  by code_simp

theorem posting_merged_from_pair_witness:
  "\<exists>b r. assemble pair_env pair_items = Inr b \<and> cb_revisions b = [r]
     \<and> er_entity_id r = u ''urn:jobtology:job-alio:posting:7''
     \<and> (\<exists>p. er_payload r = P_job_posting p \<and> cj_source_status p = Status_open
          \<and> cj_education_text p = Some (u ''Any''))"
proof -
  obtain b where b: "assemble pair_env pair_items = Inr b"
    using pair_assembles by (auto simp: isok_iff)
  obtain li listed di detail r p where pair: "posting_pair pair_items li listed di detail"
    and r: "cb_revisions b = [r]"
      "er_entity_id r = entity_urn ''job-alio:posting'' (jp_posting_id detail)"
      "er_payload r = P_job_posting p" "merged_posting listed detail p"
    using posting_merged_from_pair [OF b pair_is_posting] by blast
  have "listed = pair_posting List_representation (Some True) None"
    "detail = pair_posting Detail_representation None (Some (u ''Any''))"
    using pair by (auto simp: posting_pair_def pair_items_def pair_occurrence_def posting_of_def
        pair_posting_def)
  then show ?thesis
    using b r by (auto simp: entity_urn_def pair_posting_def merged_posting_def or_else_def
        u_append [symmetric] simp del: u_append)
qed

theorem drafts_always_validate_witness:
  "\<exists>documents a. documents_of pair_env pair_items documents
     \<and> assemble pair_env pair_items = Inr (bundle_of_draft documents a)
     \<and> bundle_check pair_env (bundle_of_draft documents a) = Inr ()"
proof -
  obtain b where b: "assemble pair_env pair_items = Inr b"
    using pair_assembles by (auto simp: isok_iff)
  obtain documents a where docs: "documents_of pair_env pair_items documents"
    and draft: "assemble_draft pair_env documents pair_items empty_draft = (Inr (), a)"
    using assemble_Inr [OF b] by metis
  obtain r where "dr_revisions a = [r]"
    using assemble_posting_effect [OF posting_draft [OF draft pair_is_posting] docs] by metis
  then show ?thesis using drafts_always_validate [OF docs draft] docs by auto
qed

end
