(* ===== verification/CanonicalStore.thy ===== *)
theory CanonicalStore
  imports Assembly Process
begin

text \<open>
  \<open>storage/canonical.py\<close>: the canonical tables of migrations 0005 and 0006 and the save of a bundle.
  \<open>save\<close> runs inside one transaction of its caller, so it is a function from tables to tables or an
  exception. A row is kept as the contract it stores; its other columns are fields of the contract.
\<close>

section \<open>Tables\<close>

record canonical_run_row =
  cn_processing_run_id :: ustr
  cn_assembler_version :: ustr
  cn_state :: processing_state
  cn_completed :: bool
  cn_error_code :: "ustr option"
  cn_summary :: "json option"

record canonical_tables =
  ct_document :: "(ustr \<times> source_document) list"
  ct_document_observation :: "(ustr \<times> ustr) list"
  ct_text_block :: "((ustr \<times> ustr) \<times> text_block) list"
  ct_entity :: "(ustr \<times> entity_identity) list"
  ct_evidence_span :: "(ustr \<times> evidence_span) list"
  ct_revision :: "(ustr \<times> entity_revision) list"
  ct_revision_document :: "(ustr \<times> ustr) list"
  ct_field_evidence :: "(ustr \<times> ustr \<times> ustr) list"
  ct_extraction :: "(ustr \<times> extraction_record) list"
  ct_requirement_claim :: "(ustr \<times> requirement_claim) list"
  ct_claim_evidence :: "(ustr \<times> ustr) list"
  ct_run :: "(ustr \<times> canonical_run_row) list"
  ct_assembly_item :: "((ustr \<times> ustr) \<times> ustr) list"
  ct_assembly_input :: "(ustr \<times> ustr \<times> ustr) list"
  ct_assembly_revision :: "(ustr \<times> ustr) list"

section \<open>Statements\<close>

definition immutable_conflict :: exn where
  "immutable_conflict = Exn ValueError (u ''IMMUTABLE_CANONICAL_RECORD_CONFLICT'')"

text \<open>
  \<open>_immutable\<close>: insert unless the key, or another unique column, is taken; then the stored record
  has to be the same. \<open>taken\<close> is a conflict on the other unique columns, \<open>refs\<close> the foreign keys.
\<close>

definition immutable_row ::
    "('r \<Rightarrow> json) \<Rightarrow> bool \<Rightarrow> bool \<Rightarrow> ustr \<Rightarrow> 'r \<Rightarrow> (ustr \<times> 'r) list \<Rightarrow> exn + (ustr \<times> 'r) list" where
  "immutable_row to_json taken refs key row tab =
     (if \<not> jsonb_ok (to_json row) then Inl data_error
      else (case map_of tab key of
        Some old \<Rightarrow> if to_json old \<noteq> to_json row then Inl immutable_conflict else Inr tab
      | None \<Rightarrow>
          if taken then Inl immutable_conflict
          else if \<not> refs then Inl integrity_error
          else Inr (AList.update key row tab)))"

text \<open>\<open>INSERT ... ON CONFLICT DO NOTHING\<close> into a table that is all key.\<close>

definition insert_new :: "'a \<Rightarrow> 'a list \<Rightarrow> 'a list" where
  "insert_new x xs = (if x \<in> set xs then xs else xs @ [x])"

definition insert_ref :: "bool \<Rightarrow> 'a \<Rightarrow> 'a list \<Rightarrow> exn + 'a list" where
  "insert_ref refs x xs =
     (if x \<in> set xs then Inr xs else if refs then Inr (xs @ [x]) else Inl integrity_error)"

section \<open>The loops of save\<close>

definition bindings_error :: "exn" where
  "bindings_error = Exn ValueError (u ''DOCUMENT_OBSERVATION_BINDINGS_REQUIRED'')"

text \<open>The observations among \<open>ids\<close> that selected the document's snapshot.\<close>

definition matching_observations ::
    "fetch_tables \<Rightarrow> source_document \<Rightarrow> ustr list \<Rightarrow> ustr list" where
  "matching_observations ft d ids =
     concat (map (\<lambda>obs. List.map_filter (\<lambda>s.
         if at_observation_id obs \<in> set ids \<and> at_snapshot_id obs = Some (sn_snapshot_id s)
            \<and> sn_snapshot_id s = sd_snapshot_id d \<and> sn_source_id s = sd_source_id d
            \<and> at_source_id obs = sd_source_id d \<and> at_outcome obs = SELECTED_SUCCESS
         then Some (at_observation_id obs) else None) (tb_source_snapshot ft))
       (tb_fetch_observation ft))"

definition save_block ::
    "source_document \<Rightarrow> canonical_tables \<Rightarrow> text_block \<Rightarrow> exn + canonical_tables" where
  "save_block d t b =
     (if \<not> (pg_text (tb_locator b) \<and> pg_text (tb_text b)) then Inl data_error
      else if map_of (ct_text_block t) (sd_document_id d, tb_block_id b) \<noteq> None then Inr t
      else Inr (t\<lparr>ct_text_block :=
             AList.update (sd_document_id d, tb_block_id b) b (ct_text_block t)\<rparr>))"

definition save_document ::
    "fetch_tables \<Rightarrow> (ustr \<times> ustr list) list \<Rightarrow> canonical_tables \<Rightarrow> source_document
     \<Rightarrow> exn + canonical_tables" where
  "save_document ft bindings t d =
     (case map_of bindings (sd_document_id d) of
        None \<Rightarrow> Inl (Exn (OtherError (u ''KeyError'')) (sd_document_id d))
      | Some ids \<Rightarrow>
          if ids = [] \<or> \<not> distinct ids then Inl bindings_error
          else if set (matching_observations ft d ids) \<noteq> set ids
          then Inl (Exn ValueError (u ''OBSERVATION_SOURCE_SNAPSHOT_MISMATCH''))
          else
            rbind (immutable_row source_document_json False
                     (\<exists>s \<in> set (tb_source_snapshot ft). sn_snapshot_id s = sd_snapshot_id d)
                     (sd_document_id d) d (ct_document t)) (\<lambda>docs.
            let t' = t\<lparr>ct_document := docs,
                  ct_document_observation :=
                    foldl (\<lambda>xs i. insert_new (sd_document_id d, i) xs)
                      (ct_document_observation t) ids\<rparr>
            in rfold (save_block d) t' (sd_blocks d)))"

definition save_identity :: "canonical_tables \<Rightarrow> entity_identity \<Rightarrow> exn + canonical_tables" where
  "save_identity t e =
     rbind (immutable_row entity_identity_json
              (\<exists>other \<in> snd ` set (ct_entity t).
                 ei_namespace other = ei_namespace e \<and> ei_source_key other = ei_source_key e)
              True (ei_entity_id e) e (ct_entity t))
       (\<lambda>tab. Inr (t\<lparr>ct_entity := tab\<rparr>))"

definition save_span :: "canonical_tables \<Rightarrow> evidence_span \<Rightarrow> exn + canonical_tables" where
  "save_span t e =
     (if \<not> (pg_integer (ev_start e) \<and> pg_integer (ev_end e)) then Inl data_error
      else rbind (immutable_row evidence_span_json False
              (map_of (ct_text_block t) (ev_document_id e, ev_block_id e) \<noteq> None)
              (ev_evidence_id e) e (ct_evidence_span t))
       (\<lambda>tab. Inr (t\<lparr>ct_evidence_span := tab\<rparr>)))"

definition save_support ::
    "entity_revision \<Rightarrow> canonical_tables \<Rightarrow> field_support \<Rightarrow> exn + canonical_tables" where
  "save_support r t s =
     rfold (\<lambda>t i. rbind (insert_ref (map_of (ct_evidence_span t) i \<noteq> None)
                           (er_revision_id r, fs_field s, i) (ct_field_evidence t))
               (\<lambda>tab. Inr (t\<lparr>ct_field_evidence := tab\<rparr>))) t (fs_evidence_ids s)"

definition save_revision :: "canonical_tables \<Rightarrow> entity_revision \<Rightarrow> exn + canonical_tables" where
  "save_revision t r =
     rbind (immutable_row entity_revision_json False
              (case map_of (ct_entity t) (er_entity_id r) of
                 None \<Rightarrow> False | Some e \<Rightarrow> ei_kind e = payload_kind (er_payload r))
              (er_revision_id r) r (ct_revision t)) (\<lambda>tab.
     rbind (rfold (\<lambda>t d. rbind (insert_ref (map_of (ct_document t) d \<noteq> None)
                                  (er_revision_id r, d) (ct_revision_document t))
                      (\<lambda>tab. Inr (t\<lparr>ct_revision_document := tab\<rparr>)))
              (t\<lparr>ct_revision := tab\<rparr>) (er_document_ids r)) (\<lambda>t'.
       rfold (save_support r) t' (er_field_support r)))"

definition save_extraction :: "canonical_tables \<Rightarrow> extraction_record \<Rightarrow> exn + canonical_tables" where
  "save_extraction t x =
     rbind (immutable_row extraction_record_json False
              (map_of (ct_document t) (xr_document_id x) \<noteq> None)
              (xr_extraction_id x) x (ct_extraction t))
       (\<lambda>tab. Inr (t\<lparr>ct_extraction := tab\<rparr>))"

definition save_claim :: "canonical_tables \<Rightarrow> requirement_claim \<Rightarrow> exn + canonical_tables" where
  "save_claim t c =
     rbind (immutable_row requirement_claim_json False
              (map_of (ct_revision t) (cl_subject_revision_id c) \<noteq> None
               \<and> map_of (ct_extraction t) (cl_extraction_id c) \<noteq> None)
              (cl_claim_id c) c (ct_requirement_claim t)) (\<lambda>tab.
     rfold (\<lambda>t i. rbind (insert_ref (map_of (ct_evidence_span t) i \<noteq> None)
                           (cl_claim_id c, i) (ct_claim_evidence t))
               (\<lambda>tab. Inr (t\<lparr>ct_claim_evidence := tab\<rparr>)))
       (t\<lparr>ct_requirement_claim := tab\<rparr>) (cl_evidence_ids c))"

definition store_save ::
    "pyenv \<Rightarrow> fetch_tables \<Rightarrow> canonical_bundle \<Rightarrow> (ustr \<times> ustr list) list
     \<Rightarrow> canonical_tables \<Rightarrow> exn + canonical_tables" where
  "store_save P ft b bindings t =
     rbind (bundle_check P b) (\<lambda>_.
       if fst ` set bindings \<noteq> sd_document_id ` set (cb_documents b) then Inl bindings_error
       else
         rbind (rfold (save_document ft bindings) t (cb_documents b)) (\<lambda>t.
         rbind (rfold save_identity t (cb_identities b)) (\<lambda>t.
         rbind (rfold save_span t (cb_evidence b)) (\<lambda>t.
         rbind (rfold save_revision t (cb_revisions b)) (\<lambda>t.
         rbind (rfold save_extraction t (cb_extractions b)) (\<lambda>t.
           rfold save_claim t (cb_claims b)))))))"

end
