(* ===== verification/CanonicalFacts.thy ===== *)
theory CanonicalFacts
  imports CanonicalStore BundleFacts
begin

text \<open>
  The canonical tables only grow: a save keeps every row there is, leaves the bundle's records readable
  under their identifiers, and never runs into a foreign key.
\<close>

section \<open>Growing tables\<close>

text \<open>\<open>t'\<close> has every row of \<open>t\<close>, unchanged; the rows of the runs themselves apart.\<close>

definition extends :: "canonical_tables \<Rightarrow> canonical_tables \<Rightarrow> bool" where
  "extends t t' \<longleftrightarrow>
     map_of (ct_document t) \<subseteq>\<^sub>m map_of (ct_document t')
     \<and> set (ct_document_observation t) \<subseteq> set (ct_document_observation t')
     \<and> map_of (ct_text_block t) \<subseteq>\<^sub>m map_of (ct_text_block t')
     \<and> map_of (ct_entity t) \<subseteq>\<^sub>m map_of (ct_entity t')
     \<and> map_of (ct_evidence_span t) \<subseteq>\<^sub>m map_of (ct_evidence_span t')
     \<and> map_of (ct_revision t) \<subseteq>\<^sub>m map_of (ct_revision t')
     \<and> set (ct_revision_document t) \<subseteq> set (ct_revision_document t')
     \<and> set (ct_field_evidence t) \<subseteq> set (ct_field_evidence t')
     \<and> map_of (ct_extraction t) \<subseteq>\<^sub>m map_of (ct_extraction t')
     \<and> map_of (ct_requirement_claim t) \<subseteq>\<^sub>m map_of (ct_requirement_claim t')
     \<and> set (ct_claim_evidence t) \<subseteq> set (ct_claim_evidence t')
     \<and> map_of (ct_assembly_item t) \<subseteq>\<^sub>m map_of (ct_assembly_item t')
     \<and> set (ct_assembly_input t) \<subseteq> set (ct_assembly_input t')
     \<and> set (ct_assembly_revision t) \<subseteq> set (ct_assembly_revision t')"

lemma extends_refl [simp]: "extends t t"
  by (simp add: extends_def)

lemma extends_trans: "extends t t' \<Longrightarrow> extends t' t'' \<Longrightarrow> extends t t''"
  unfolding extends_def by (meson map_le_trans subset_trans)

section \<open>Statements\<close>

lemma map_le_update: "map_of m k = None \<Longrightarrow> map_of m \<subseteq>\<^sub>m map_of (AList.update k v m)"
  by (auto simp: map_le_def update_conv')

text \<open>What a table holds under a key, up to its JSON form.\<close>

definition stored_as :: "('r \<Rightarrow> json) \<Rightarrow> (ustr \<times> 'r) list \<Rightarrow> ustr \<Rightarrow> 'r \<Rightarrow> bool" where
  "stored_as to_json tab key row \<longleftrightarrow> map_option to_json (map_of tab key) = Some (to_json row)"

lemma stored_as_mono: "stored_as f tab k r \<Longrightarrow> map_of tab \<subseteq>\<^sub>m map_of tab' \<Longrightarrow> stored_as f tab' k r"
  unfolding stored_as_def map_le_def by (metis domI map_option_eq_Some)

lemma stored_as_known: "stored_as f tab k r \<Longrightarrow> map_of tab k \<noteq> None"
  by (auto simp: stored_as_def)

lemma immutable_row_Inr:
  assumes "immutable_row f taken refs k r tab = Inr tab'"
  shows "map_of tab \<subseteq>\<^sub>m map_of tab'" and "stored_as f tab' k r"
proof -
  have "tab' = tab \<and> map_option f (map_of tab k) = Some (f r)
      \<or> map_of tab k = None \<and> tab' = AList.update k r tab"
    using assms by (auto simp: immutable_row_def split: if_splits option.splits)
  then show "map_of tab \<subseteq>\<^sub>m map_of tab'" and "stored_as f tab' k r"
    by (auto simp: stored_as_def update_conv' map_le_def)
qed

lemma immutable_row_Inl:
  "immutable_row f taken refs k r tab = Inl e \<Longrightarrow> refs \<Longrightarrow> e = data_error \<or> e = immutable_conflict"
  by (auto simp: immutable_row_def split: if_splits option.splits)

lemma insert_ref_Inr:
  "insert_ref refs x xs = Inr xs' \<Longrightarrow> set xs' = insert x (set xs)"
  by (auto simp: insert_ref_def split: if_splits)

lemma insert_ref_Inl: "insert_ref refs x xs = Inl e \<Longrightarrow> \<not> refs"
  by (auto simp: insert_ref_def split: if_splits)

lemma set_insert_new [simp]: "set (insert_new x xs) = insert x (set xs)"
  by (auto simp: insert_new_def)

lemma set_foldl_insert_new:
  "set (foldl (\<lambda>xs i. insert_new (f i) xs) xs ys) = set xs \<union> f ` set ys"
  by (induction ys arbitrary: xs) auto

text \<open>A loop whose steps go up an order and establish a fact that stays true above.\<close>

lemma rfold_establishes:
  assumes "rfold f s xs = Inr s'"
    and "\<And>s x t. x \<in> set xs \<Longrightarrow> f s x = Inr t \<Longrightarrow> R s t \<and> Q x t"
    and "\<And>s. R s s" and "\<And>s t v. R s t \<Longrightarrow> R t v \<Longrightarrow> R s v"
    and "\<And>x s t. Q x s \<Longrightarrow> R s t \<Longrightarrow> Q x t"
  shows "R s s' \<and> (\<forall>x \<in> set xs. Q x s')"
  using assms(1,2)
proof (induction xs arbitrary: s)
  case Nil
  then show ?case using assms(3) by simp
next
  case (Cons x xs)
  from Cons.prems(1) obtain t where t: "f s x = Inr t" "rfold f t xs = Inr s'"
    by (auto simp: rbind_Inr_iff)
  have "R s t \<and> Q x t" by (rule Cons.prems(2) [OF _ t(1)]) simp
  moreover have "R t s' \<and> (\<forall>x \<in> set xs. Q x s')"
    by (rule Cons.IH [OF t(2)]) (use Cons.prems(2) in auto)
  ultimately show ?case using assms(4,5) by (metis set_ConsD)
qed

text \<open>A loop that fails does so in a step, from a state above the first.\<close>

lemma rfold_fails:
  assumes "rfold f s xs = Inl e"
    and "\<And>s x t. x \<in> set xs \<Longrightarrow> f s x = Inr t \<Longrightarrow> R s t"
    and "\<And>s. R s s" and "\<And>s t v. R s t \<Longrightarrow> R t v \<Longrightarrow> R s v"
  shows "\<exists>x \<in> set xs. \<exists>t. R s t \<and> f t x = Inl e"
  using assms(1,2)
proof (induction xs arbitrary: s)
  case Nil
  then show ?case by simp
next
  case (Cons x xs)
  show ?case
  proof (cases "f s x")
    case (Inl e')
    then show ?thesis using Cons.prems(1) assms(3) by auto
  next
    case (Inr t)
    then have rest: "rfold f t xs = Inl e" using Cons.prems(1) by simp
    have "\<exists>y \<in> set xs. \<exists>v. R t v \<and> f v y = Inl e"
    proof (rule Cons.IH [OF rest])
      fix s x t assume "x \<in> set xs" "f s x = Inr t"
      then show "R s t" by (intro Cons.prems(2)) simp_all
    qed
    moreover have "R s t" by (rule Cons.prems(2) [OF _ Inr]) simp
    ultimately show ?thesis using assms(4) by (meson list.set_intros(2))
  qed
qed

section \<open>The steps of a save\<close>

definition block_stored :: "source_document \<Rightarrow> text_block \<Rightarrow> canonical_tables \<Rightarrow> bool" where
  "block_stored d b t \<longleftrightarrow> map_of (ct_text_block t) (sd_document_id d, tb_block_id b) \<noteq> None"

definition document_stored ::
    "(ustr \<times> ustr list) list \<Rightarrow> source_document \<Rightarrow> canonical_tables \<Rightarrow> bool" where
  "document_stored bindings d t \<longleftrightarrow>
     stored_as source_document_json (ct_document t) (sd_document_id d) d
     \<and> (\<forall>b \<in> set (sd_blocks d). block_stored d b t)
     \<and> (\<exists>ids. map_of bindings (sd_document_id d) = Some ids \<and> ids \<noteq> []
          \<and> (\<forall>i \<in> set ids. (sd_document_id d, i) \<in> set (ct_document_observation t)))"

definition revision_stored :: "entity_revision \<Rightarrow> canonical_tables \<Rightarrow> bool" where
  "revision_stored r t \<longleftrightarrow>
     stored_as entity_revision_json (ct_revision t) (er_revision_id r) r
     \<and> (\<forall>d \<in> set (er_document_ids r). (er_revision_id r, d) \<in> set (ct_revision_document t))
     \<and> (\<forall>s \<in> set (er_field_support r). \<forall>i \<in> set (fs_evidence_ids s).
          (er_revision_id r, fs_field s, i) \<in> set (ct_field_evidence t))"

definition claim_stored :: "requirement_claim \<Rightarrow> canonical_tables \<Rightarrow> bool" where
  "claim_stored c t \<longleftrightarrow>
     stored_as requirement_claim_json (ct_requirement_claim t) (cl_claim_id c) c
     \<and> (\<forall>i \<in> set (cl_evidence_ids c). (cl_claim_id c, i) \<in> set (ct_claim_evidence t))"

text \<open>Everything of the bundle is in the tables.\<close>

definition bundle_stored ::
    "(ustr \<times> ustr list) list \<Rightarrow> canonical_bundle \<Rightarrow> canonical_tables \<Rightarrow> bool" where
  "bundle_stored bindings b t \<longleftrightarrow>
     (\<forall>d \<in> set (cb_documents b). document_stored bindings d t)
     \<and> (\<forall>e \<in> set (cb_identities b). stored_as entity_identity_json (ct_entity t) (ei_entity_id e) e)
     \<and> (\<forall>e \<in> set (cb_evidence b). stored_as evidence_span_json (ct_evidence_span t) (ev_evidence_id e) e)
     \<and> (\<forall>r \<in> set (cb_revisions b). revision_stored r t)
     \<and> (\<forall>x \<in> set (cb_extractions b).
          stored_as extraction_record_json (ct_extraction t) (xr_extraction_id x) x)
     \<and> (\<forall>c \<in> set (cb_claims b). claim_stored c t)"

lemma stored_facts_mono:
  assumes "extends t t'"
  shows "block_stored d b t \<Longrightarrow> block_stored d b t'"
    and "document_stored bindings d t \<Longrightarrow> document_stored bindings d t'"
    and "stored_as entity_identity_json (ct_entity t) k e \<Longrightarrow> stored_as entity_identity_json (ct_entity t') k e"
    and "stored_as evidence_span_json (ct_evidence_span t) k s
         \<Longrightarrow> stored_as evidence_span_json (ct_evidence_span t') k s"
    and "revision_stored r t \<Longrightarrow> revision_stored r t'"
    and "stored_as extraction_record_json (ct_extraction t) k x
         \<Longrightarrow> stored_as extraction_record_json (ct_extraction t') k x"
    and "claim_stored c t \<Longrightarrow> claim_stored c t'"
proof -
  have keyed: "map_of (ct_document t) \<subseteq>\<^sub>m map_of (ct_document t')"
    "map_of (ct_text_block t) \<subseteq>\<^sub>m map_of (ct_text_block t')"
    "map_of (ct_entity t) \<subseteq>\<^sub>m map_of (ct_entity t')"
    "map_of (ct_evidence_span t) \<subseteq>\<^sub>m map_of (ct_evidence_span t')"
    "map_of (ct_revision t) \<subseteq>\<^sub>m map_of (ct_revision t')"
    "map_of (ct_extraction t) \<subseteq>\<^sub>m map_of (ct_extraction t')"
    "map_of (ct_requirement_claim t) \<subseteq>\<^sub>m map_of (ct_requirement_claim t')"
    and sets: "set (ct_document_observation t) \<subseteq> set (ct_document_observation t')"
    "set (ct_revision_document t) \<subseteq> set (ct_revision_document t')"
    "set (ct_field_evidence t) \<subseteq> set (ct_field_evidence t')"
    "set (ct_claim_evidence t) \<subseteq> set (ct_claim_evidence t')"
    using assms by (auto simp: extends_def)
  show b: "block_stored d b t \<Longrightarrow> block_stored d b t'" for d b
    using keyed(2) by (auto simp: block_stored_def map_le_def dom_def)
  show "document_stored bindings d t \<Longrightarrow> document_stored bindings d t'"
    using stored_as_mono [OF _ keyed(1)] b sets(1) unfolding document_stored_def by blast
  show "stored_as entity_identity_json (ct_entity t) k e \<Longrightarrow> stored_as entity_identity_json (ct_entity t') k e"
    by (rule stored_as_mono [OF _ keyed(3)])
  show "stored_as evidence_span_json (ct_evidence_span t) k s
         \<Longrightarrow> stored_as evidence_span_json (ct_evidence_span t') k s"
    by (rule stored_as_mono [OF _ keyed(4)])
  show "stored_as extraction_record_json (ct_extraction t) k x
         \<Longrightarrow> stored_as extraction_record_json (ct_extraction t') k x"
    by (rule stored_as_mono [OF _ keyed(6)])
  show "revision_stored r t \<Longrightarrow> revision_stored r t'"
    using stored_as_mono [OF _ keyed(5)] sets unfolding revision_stored_def by blast
  show "claim_stored c t \<Longrightarrow> claim_stored c t'"
    using stored_as_mono [OF _ keyed(7)] sets unfolding claim_stored_def by blast
qed

text \<open>The tables grow and the manifests of the runs are left alone.\<close>

definition grows :: "canonical_tables \<Rightarrow> canonical_tables \<Rightarrow> bool" where
  "grows t t' \<longleftrightarrow> extends t t' \<and> ct_run t' = ct_run t
     \<and> ct_assembly_item t' = ct_assembly_item t \<and> ct_assembly_input t' = ct_assembly_input t
     \<and> ct_assembly_revision t' = ct_assembly_revision t"

lemma grows_refl [simp]: "grows t t"
  by (simp add: grows_def)

lemma grows_trans: "grows t t' \<Longrightarrow> grows t' t'' \<Longrightarrow> grows t t''"
  unfolding grows_def by (metis extends_trans)

lemma grows_extends: "grows t t' \<Longrightarrow> extends t t'"
  by (simp add: grows_def)

lemmas rfold_grows = rfold_establishes [where R = grows, OF _ _ grows_refl grows_trans]

lemma rfold_grows_fails:
  assumes "rfold f s xs = Inl e" and "\<And>s x t. x \<in> set xs \<Longrightarrow> f s x = Inr t \<Longrightarrow> grows s t"
  shows "\<exists>x \<in> set xs. \<exists>t. grows s t \<and> f t x = Inl e"
  using assms(1)
proof (rule rfold_fails)
  fix s t v assume "grows s t" "grows t v"
  then show "grows s v" by (rule grows_trans)
qed (simp_all add: assms(2))

lemma known_mono: "map_of tab k \<noteq> None \<Longrightarrow> map_of tab \<subseteq>\<^sub>m map_of tab' \<Longrightarrow> map_of tab' k \<noteq> None"
  by (auto simp: map_le_def dom_def)

lemma grows_known:
  assumes "grows t t'"
  shows "map_of (ct_document t) k \<noteq> None \<Longrightarrow> map_of (ct_document t') k \<noteq> None"
    and "map_of (ct_text_block t) kb \<noteq> None \<Longrightarrow> map_of (ct_text_block t') kb \<noteq> None"
    and "map_of (ct_evidence_span t) k \<noteq> None \<Longrightarrow> map_of (ct_evidence_span t') k \<noteq> None"
    and "map_of (ct_revision t) k \<noteq> None \<Longrightarrow> map_of (ct_revision t') k \<noteq> None"
    and "map_of (ct_extraction t) k \<noteq> None \<Longrightarrow> map_of (ct_extraction t') k \<noteq> None"
proof -
  have m: "map_of (ct_document t) \<subseteq>\<^sub>m map_of (ct_document t')"
    "map_of (ct_text_block t) \<subseteq>\<^sub>m map_of (ct_text_block t')"
    "map_of (ct_evidence_span t) \<subseteq>\<^sub>m map_of (ct_evidence_span t')"
    "map_of (ct_revision t) \<subseteq>\<^sub>m map_of (ct_revision t')"
    "map_of (ct_extraction t) \<subseteq>\<^sub>m map_of (ct_extraction t')"
    using assms by (simp_all add: grows_def extends_def)
  show "map_of (ct_document t) k \<noteq> None \<Longrightarrow> map_of (ct_document t') k \<noteq> None"
    by (rule known_mono [OF _ m(1)])
  show "map_of (ct_text_block t) kb \<noteq> None \<Longrightarrow> map_of (ct_text_block t') kb \<noteq> None"
    by (rule known_mono [OF _ m(2)])
  show "map_of (ct_evidence_span t) k \<noteq> None \<Longrightarrow> map_of (ct_evidence_span t') k \<noteq> None"
    by (rule known_mono [OF _ m(3)])
  show "map_of (ct_revision t) k \<noteq> None \<Longrightarrow> map_of (ct_revision t') k \<noteq> None"
    by (rule known_mono [OF _ m(4)])
  show "map_of (ct_extraction t) k \<noteq> None \<Longrightarrow> map_of (ct_extraction t') k \<noteq> None"
    by (rule known_mono [OF _ m(5)])
qed

lemma save_block_effect:
  assumes "save_block d t b = Inr t'"
  shows "grows t t' \<and> block_stored d b t'"
proof -
  have "t' = t \<and> map_of (ct_text_block t) (sd_document_id d, tb_block_id b) \<noteq> None
      \<or> map_of (ct_text_block t) (sd_document_id d, tb_block_id b) = None
        \<and> t' = t\<lparr>ct_text_block := AList.update (sd_document_id d, tb_block_id b) b (ct_text_block t)\<rparr>"
    using assms by (auto simp: save_block_def split: if_splits)
  then show ?thesis
    by (auto simp: grows_def extends_def block_stored_def map_le_def update_conv')
qed

lemma save_document_effect:
  assumes "save_document ft bindings t d = Inr t'"
  shows "grows t t' \<and> document_stored bindings d t'"
proof -
  obtain ids docs where ids: "map_of bindings (sd_document_id d) = Some ids" "ids \<noteq> []"
    and row: "immutable_row source_document_json False
        (\<exists>s \<in> set (tb_source_snapshot ft). sn_snapshot_id s = sd_snapshot_id d)
        (sd_document_id d) d (ct_document t) = Inr docs"
    and blocks: "rfold (save_block d) (t\<lparr>ct_document := docs, ct_document_observation :=
        foldl (\<lambda>xs i. insert_new (sd_document_id d, i) xs) (ct_document_observation t) ids\<rparr>)
        (sd_blocks d) = Inr t'" (is "rfold _ ?t1 _ = _")
    using assms by (auto simp: save_document_def rbind_Inr_iff Let_def split: if_splits option.splits)
  note im = immutable_row_Inr [OF row]
  have t1: "grows t ?t1"
    using im(1) by (auto simp: grows_def extends_def set_foldl_insert_new)
  have bl: "grows ?t1 t' \<and> (\<forall>b \<in> set (sd_blocks d). block_stored d b t')"
    by (rule rfold_grows [OF blocks])
      (auto dest: save_block_effect stored_facts_mono(1) [OF grows_extends])
  have "stored_as source_document_json (ct_document t') (sd_document_id d) d"
    using im(2) bl by (auto simp: grows_def extends_def intro: stored_as_mono)
  moreover have "\<forall>i \<in> set ids. (sd_document_id d, i) \<in> set (ct_document_observation t')"
    using bl by (auto simp: grows_def extends_def set_foldl_insert_new)
  ultimately show ?thesis
    using t1 bl ids grows_trans unfolding document_stored_def by blast
qed

lemma save_identity_effect:
  assumes "save_identity t e = Inr t'"
  shows "grows t t' \<and> stored_as entity_identity_json (ct_entity t') (ei_entity_id e) e"
  using assms
  by (auto simp: save_identity_def rbind_Inr_iff grows_def extends_def dest: immutable_row_Inr)

lemma save_span_effect:
  assumes "save_span t e = Inr t'"
  shows "grows t t' \<and> stored_as evidence_span_json (ct_evidence_span t') (ev_evidence_id e) e"
  using assms
  by (auto simp: save_span_def rbind_Inr_iff grows_def extends_def split: if_splits
      dest: immutable_row_Inr)

lemma save_extraction_effect:
  assumes "save_extraction t x = Inr t'"
  shows "grows t t' \<and> stored_as extraction_record_json (ct_extraction t') (xr_extraction_id x) x"
  using assms
  by (auto simp: save_extraction_def rbind_Inr_iff grows_def extends_def dest: immutable_row_Inr)

lemma save_support_effect:
  assumes "save_support r t s = Inr t'"
  shows "grows t t' \<and> (\<forall>i \<in> set (fs_evidence_ids s).
     (er_revision_id r, fs_field s, i) \<in> set (ct_field_evidence t'))"
proof (rule rfold_grows [OF assms [unfolded save_support_def]])
  fix t t' :: canonical_tables and i
  assume "rbind (insert_ref (map_of (ct_evidence_span t) i \<noteq> None)
      (er_revision_id r, fs_field s, i) (ct_field_evidence t))
      (\<lambda>tab. Inr (t\<lparr>ct_field_evidence := tab\<rparr>)) = Inr t'"
  then show "grows t t' \<and> (er_revision_id r, fs_field s, i) \<in> set (ct_field_evidence t')"
    by (auto simp: rbind_Inr_iff grows_def extends_def dest!: insert_ref_Inr)
qed (auto simp: grows_def extends_def)

lemma save_revision_effect:
  assumes "save_revision t r = Inr t'"
  shows "grows t t' \<and> revision_stored r t'"
proof -
  obtain tab t2 where row: "immutable_row entity_revision_json False
        (case map_of (ct_entity t) (er_entity_id r) of
           None \<Rightarrow> False | Some e \<Rightarrow> ei_kind e = payload_kind (er_payload r))
        (er_revision_id r) r (ct_revision t) = Inr tab"
    and docs: "rfold (\<lambda>t d. rbind (insert_ref (map_of (ct_document t) d \<noteq> None)
          (er_revision_id r, d) (ct_revision_document t))
          (\<lambda>tab. Inr (t\<lparr>ct_revision_document := tab\<rparr>))) (t\<lparr>ct_revision := tab\<rparr>) (er_document_ids r)
        = Inr t2"
    and sup: "rfold (save_support r) t2 (er_field_support r) = Inr t'"
    using assms by (auto simp: save_revision_def rbind_Inr_iff)
  note im = immutable_row_Inr [OF row]
  have t1: "grows t (t\<lparr>ct_revision := tab\<rparr>)"
    using im(1) by (auto simp: grows_def extends_def)
  have t2: "grows (t\<lparr>ct_revision := tab\<rparr>) t2
      \<and> (\<forall>d \<in> set (er_document_ids r). (er_revision_id r, d) \<in> set (ct_revision_document t2))"
    by (rule rfold_grows [OF docs])
      (auto simp: rbind_Inr_iff grows_def extends_def dest!: insert_ref_Inr)
  have t3: "grows t2 t' \<and> (\<forall>s \<in> set (er_field_support r). \<forall>i \<in> set (fs_evidence_ids s).
      (er_revision_id r, fs_field s, i) \<in> set (ct_field_evidence t'))"
  proof (rule rfold_grows [OF sup])
    fix s u' u'' assume "save_support r u' s = Inr u''"
    then show "grows u' u'' \<and> (\<forall>i \<in> set (fs_evidence_ids s).
        (er_revision_id r, fs_field s, i) \<in> set (ct_field_evidence u''))"
      by (rule save_support_effect)
  qed (auto simp: grows_def extends_def)
  have "stored_as entity_revision_json (ct_revision t2) (er_revision_id r) r"
    using im(2) t2 by (auto simp: grows_def extends_def intro: stored_as_mono)
  then have "stored_as entity_revision_json (ct_revision t') (er_revision_id r) r"
    using t3 by (auto simp: grows_def extends_def intro: stored_as_mono)
  moreover have "\<forall>d \<in> set (er_document_ids r). (er_revision_id r, d) \<in> set (ct_revision_document t')"
    using t2 t3 by (auto simp: grows_def extends_def)
  ultimately show ?thesis
    using grows_trans [OF t1 grows_trans] t2 t3 unfolding revision_stored_def by blast
qed

lemma save_claim_effect:
  assumes "save_claim t c = Inr t'"
  shows "grows t t' \<and> claim_stored c t'"
proof -
  obtain tab where row: "immutable_row requirement_claim_json False
        (map_of (ct_revision t) (cl_subject_revision_id c) \<noteq> None
         \<and> map_of (ct_extraction t) (cl_extraction_id c) \<noteq> None)
        (cl_claim_id c) c (ct_requirement_claim t) = Inr tab"
    and ev: "rfold (\<lambda>t i. rbind (insert_ref (map_of (ct_evidence_span t) i \<noteq> None)
          (cl_claim_id c, i) (ct_claim_evidence t)) (\<lambda>tab. Inr (t\<lparr>ct_claim_evidence := tab\<rparr>)))
        (t\<lparr>ct_requirement_claim := tab\<rparr>) (cl_evidence_ids c) = Inr t'"
    using assms by (auto simp: save_claim_def rbind_Inr_iff)
  note im = immutable_row_Inr [OF row]
  have t1: "grows t (t\<lparr>ct_requirement_claim := tab\<rparr>)"
    using im(1) by (auto simp: grows_def extends_def)
  have t2: "grows (t\<lparr>ct_requirement_claim := tab\<rparr>) t'
      \<and> (\<forall>i \<in> set (cl_evidence_ids c). (cl_claim_id c, i) \<in> set (ct_claim_evidence t'))"
    by (rule rfold_grows [OF ev])
      (auto simp: rbind_Inr_iff grows_def extends_def dest!: insert_ref_Inr)
  have "stored_as requirement_claim_json (ct_requirement_claim t') (cl_claim_id c) c"
    using im(2) t2 by (auto simp: grows_def extends_def intro: stored_as_mono)
  then show ?thesis using grows_trans [OF t1] t2 unfolding claim_stored_def by blast
qed

section \<open>A save\<close>

text \<open>The states a successful save goes through.\<close>

lemma store_save_Inr:
  assumes "store_save P ft b bindings t = Inr t'"
  shows "bundle_check P b = Inr () \<and> grows t t' \<and> bundle_stored bindings b t'"
proof -
  obtain t1 t2 t3 t4 t5 where ok: "bundle_check P b = Inr ()"
    and s1: "rfold (save_document ft bindings) t (cb_documents b) = Inr t1"
    and s2: "rfold save_identity t1 (cb_identities b) = Inr t2"
    and s3: "rfold save_span t2 (cb_evidence b) = Inr t3"
    and s4: "rfold save_revision t3 (cb_revisions b) = Inr t4"
    and s5: "rfold save_extraction t4 (cb_extractions b) = Inr t5"
    and s6: "rfold save_claim t5 (cb_claims b) = Inr t'"
    using assms by (auto simp: store_save_def rbind_Inr_iff split: if_splits)
  have g1: "grows t t1 \<and> (\<forall>d \<in> set (cb_documents b). document_stored bindings d t1)"
    by (rule rfold_grows [OF s1])
      (auto dest: save_document_effect stored_facts_mono(2) [OF grows_extends])
  have g2: "grows t1 t2 \<and> (\<forall>e \<in> set (cb_identities b).
      stored_as entity_identity_json (ct_entity t2) (ei_entity_id e) e)"
    by (rule rfold_grows [OF s2])
      (auto dest: save_identity_effect stored_facts_mono(3) [OF grows_extends])
  have g3: "grows t2 t3 \<and> (\<forall>e \<in> set (cb_evidence b).
      stored_as evidence_span_json (ct_evidence_span t3) (ev_evidence_id e) e)"
    by (rule rfold_grows [OF s3])
      (auto dest: save_span_effect stored_facts_mono(4) [OF grows_extends])
  have g4: "grows t3 t4 \<and> (\<forall>r \<in> set (cb_revisions b). revision_stored r t4)"
    by (rule rfold_grows [OF s4])
      (auto dest: save_revision_effect stored_facts_mono(5) [OF grows_extends])
  have g5: "grows t4 t5 \<and> (\<forall>x \<in> set (cb_extractions b).
      stored_as extraction_record_json (ct_extraction t5) (xr_extraction_id x) x)"
    by (rule rfold_grows [OF s5])
      (auto dest: save_extraction_effect stored_facts_mono(6) [OF grows_extends])
  have g6: "grows t5 t' \<and> (\<forall>c \<in> set (cb_claims b). claim_stored c t')"
    by (rule rfold_grows [OF s6])
      (auto dest: save_claim_effect stored_facts_mono(7) [OF grows_extends])
  have u5: "grows t5 t'" using g6 by blast
  have u4: "grows t4 t'" using g5 u5 grows_trans by blast
  have u3: "grows t3 t'" using g4 u4 grows_trans by blast
  have u2: "grows t2 t'" using g3 u3 grows_trans by blast
  have u1: "grows t1 t'" using g2 u2 grows_trans by blast
  have "\<forall>d \<in> set (cb_documents b). document_stored bindings d t'"
    using g1 stored_facts_mono(2) [OF grows_extends [OF u1]] by blast
  moreover have "\<forall>e \<in> set (cb_identities b).
      stored_as entity_identity_json (ct_entity t') (ei_entity_id e) e"
    using g2 stored_facts_mono(3) [OF grows_extends [OF u2]] by blast
  moreover have "\<forall>e \<in> set (cb_evidence b).
      stored_as evidence_span_json (ct_evidence_span t') (ev_evidence_id e) e"
    using g3 stored_facts_mono(4) [OF grows_extends [OF u3]] by blast
  moreover have "\<forall>r \<in> set (cb_revisions b). revision_stored r t'"
    using g4 stored_facts_mono(5) [OF grows_extends [OF u4]] by blast
  moreover have "\<forall>x \<in> set (cb_extractions b).
      stored_as extraction_record_json (ct_extraction t') (xr_extraction_id x) x"
    using g5 stored_facts_mono(6) [OF grows_extends [OF u5]] by blast
  ultimately have "bundle_stored bindings b t'"
    using g6 by (simp add: bundle_stored_def)
  moreover have "grows t t'" using g1 u1 grows_trans by blast
  ultimately show ?thesis using ok by blast
qed

end
