(* ===== verification/SaveFacts.thy ===== *)
theory SaveFacts
  imports CanonicalFacts
begin

text \<open>
  Why a save fails: never for a reference. The checks of the bundle and the order of the loops put
  every row that a foreign key needs into the tables first.
\<close>

definition save_refusals :: "exn list" where
  "save_refusals = [bindings_error, Exn ValueError (u ''OBSERVATION_SOURCE_SNAPSHOT_MISMATCH''),
     data_error, immutable_conflict]"

section \<open>Documents\<close>

lemma matching_snapshot:
  assumes "set (matching_observations ft d ids) = set ids" and "ids \<noteq> []"
  shows "\<exists>s \<in> set (tb_source_snapshot ft). sn_snapshot_id s = sd_snapshot_id d"
proof -
  obtain i where "i \<in> set (matching_observations ft d ids)"
    using assms by (metis list.set_intros(1) neq_Nil_conv)
  then show ?thesis
    by (auto simp: matching_observations_def List.map_filter_def split: if_splits)
qed

lemma save_block_fails: "save_block d t b = Inl e \<Longrightarrow> e = data_error"
  by (auto simp: save_block_def split: if_splits)

lemma save_document_fails:
  assumes "save_document ft bindings t d = Inl e" and "map_of bindings (sd_document_id d) \<noteq> None"
  shows "e \<in> set save_refusals"
proof -
  obtain ids where ids: "map_of bindings (sd_document_id d) = Some ids" using assms(2) by auto
  consider (early) "e = bindings_error \<or> e = Exn ValueError (u ''OBSERVATION_SOURCE_SNAPSHOT_MISMATCH'')"
    | (row) "ids \<noteq> []" "set (matching_observations ft d ids) = set ids"
        "immutable_row source_document_json False
          (\<exists>s \<in> set (tb_source_snapshot ft). sn_snapshot_id s = sd_snapshot_id d)
          (sd_document_id d) d (ct_document t) = Inl e"
    | (blocks) t1 where "rfold (save_block d) t1 (sd_blocks d) = Inl e"
    using assms(1) ids
    by (auto simp: save_document_def rbind_Inl_iff Let_def split: if_splits)
  then show ?thesis
  proof cases
    case early
    then show ?thesis by (auto simp: save_refusals_def)
  next
    case row
    then show ?thesis
      using immutable_row_Inl [OF row(3) matching_snapshot [OF row(2,1)]]
      by (auto simp: save_refusals_def)
  next
    case blocks
    have "\<exists>b \<in> set (sd_blocks d). \<exists>t. grows t1 t \<and> save_block d t b = Inl e"
      by (rule rfold_grows_fails [OF blocks]) (auto dest: save_block_effect)
    then show ?thesis by (auto simp: save_refusals_def dest: save_block_fails)
  qed
qed

section \<open>References\<close>

lemma entity_kind_name_inject: "entity_kind_name k = entity_kind_name k' \<Longrightarrow> k = k'"
  by (cases k; cases k') (simp_all add: entity_kind_name_def)

lemma entity_stored_kind:
  assumes "stored_as entity_identity_json tab i e"
  shows "\<exists>e'. map_of tab i = Some e' \<and> ei_kind e' = ei_kind e"
  using assms
  by (auto simp: stored_as_def entity_identity_json_def jfields_def dest: entity_kind_name_inject)

lemma document_known: "document_stored bindings d t \<Longrightarrow> map_of (ct_document t) (sd_document_id d) \<noteq> None"
  by (auto simp: document_stored_def dest: stored_as_known)

text \<open>A loop that inserts pairs whose other end is there does not fail.\<close>

lemma rfold_refs_ok:
  assumes "rfold f t xs = Inl e"
    and "\<And>x u v. x \<in> set xs \<Longrightarrow> f u x = Inr v \<Longrightarrow> grows u v"
    and "\<And>x u. x \<in> set xs \<Longrightarrow> grows t u \<Longrightarrow> \<exists>v. f u x = Inr v"
  shows False
proof -
  have "\<exists>x \<in> set xs. \<exists>u. grows t u \<and> f u x = Inl e"
    by (rule rfold_grows_fails [OF assms(1)]) (rule assms(2))
  then show False using assms(3) by fastforce
qed

lemma insert_ref_ok: "refs \<Longrightarrow> \<exists>xs'. insert_ref refs x xs = Inr xs'"
  by (auto simp: insert_ref_def)

lemma save_support_ok:
  assumes "\<forall>i \<in> set (fs_evidence_ids s). map_of (ct_evidence_span t) i \<noteq> None"
  shows "\<exists>t'. save_support r t s = Inr t'"
proof (cases "save_support r t s")
  case (Inl e)
  have False
  proof (rule rfold_refs_ok [OF Inl [unfolded save_support_def]])
    fix i and v w :: canonical_tables
    assume "rbind (insert_ref (map_of (ct_evidence_span v) i \<noteq> None)
        (er_revision_id r, fs_field s, i) (ct_field_evidence v))
        (\<lambda>tab. Inr (v\<lparr>ct_field_evidence := tab\<rparr>)) = Inr w"
    then show "grows v w"
      by (auto simp: rbind_Inr_iff grows_def extends_def dest!: insert_ref_Inr)
  next
    fix i v assume "i \<in> set (fs_evidence_ids s)" "grows t v"
    then have "map_of (ct_evidence_span v) i \<noteq> None"
      using assms by (intro grows_known(3) [of t v]) auto
    then show "\<exists>w. rbind (insert_ref (map_of (ct_evidence_span v) i \<noteq> None)
        (er_revision_id r, fs_field s, i) (ct_field_evidence v))
        (\<lambda>tab. Inr (v\<lparr>ct_field_evidence := tab\<rparr>)) = Inr w"
      using insert_ref_ok [of True "(er_revision_id r, fs_field s, i)" "ct_field_evidence v"]
      by (auto simp: rbind_def)
  qed
  then show ?thesis by simp
qed simp

lemma save_revision_fails:
  assumes run: "save_revision t r = Inl e"
    and entity: "\<exists>x. map_of (ct_entity t) (er_entity_id r) = Some x
       \<and> ei_kind x = payload_kind (er_payload r)"
    and docs: "\<forall>d \<in> set (er_document_ids r). map_of (ct_document t) d \<noteq> None"
    and ev: "\<forall>s \<in> set (er_field_support r). \<forall>i \<in> set (fs_evidence_ids s).
       map_of (ct_evidence_span t) i \<noteq> None"
  shows "e \<in> set save_refusals"
proof -
  let ?refs = "case map_of (ct_entity t) (er_entity_id r) of
      None \<Rightarrow> False | Some e \<Rightarrow> ei_kind e = payload_kind (er_payload r)"
  let ?link = "\<lambda>t d. rbind (insert_ref (map_of (ct_document t) d \<noteq> None)
      (er_revision_id r, d) (ct_revision_document t)) (\<lambda>tab. Inr (t\<lparr>ct_revision_document := tab\<rparr>))"
  consider (row) "immutable_row entity_revision_json False ?refs (er_revision_id r) r (ct_revision t) = Inl e"
    | (link) tab where "immutable_row entity_revision_json False ?refs (er_revision_id r) r
          (ct_revision t) = Inr tab"
        "rfold ?link (t\<lparr>ct_revision := tab\<rparr>) (er_document_ids r) = Inl e"
    | (support) tab t2 where "immutable_row entity_revision_json False ?refs (er_revision_id r) r
          (ct_revision t) = Inr tab"
        "rfold ?link (t\<lparr>ct_revision := tab\<rparr>) (er_document_ids r) = Inr t2"
        "rfold (save_support r) t2 (er_field_support r) = Inl e"
    using run by (auto simp: save_revision_def rbind_Inl_iff)
  then show ?thesis
  proof cases
    case row
    then show ?thesis
      using immutable_row_Inl [OF row] entity by (auto simp: save_refusals_def)
  next
    case link
    have False
    proof (rule rfold_refs_ok [OF link(2)])
      fix d and v w :: canonical_tables assume "?link v d = Inr w"
      then show "grows v w"
        by (auto simp: rbind_Inr_iff grows_def extends_def dest!: insert_ref_Inr)
    next
      fix d v assume d: "d \<in> set (er_document_ids r)" "grows (t\<lparr>ct_revision := tab\<rparr>) v"
      then have "map_of (ct_document v) d \<noteq> None"
        using docs by (intro grows_known(1) [OF d(2)]) auto
      then show "\<exists>w. ?link v d = Inr w"
        using insert_ref_ok [of True "(er_revision_id r, d)" "ct_revision_document v"]
        by (auto simp: rbind_def)
    qed
    then show ?thesis by simp
  next
    case support
    have "grows (t\<lparr>ct_revision := tab\<rparr>) t2 \<and> (\<forall>d \<in> set (er_document_ids r). True)"
      by (rule rfold_grows [OF support(2)])
        (auto simp: rbind_Inr_iff grows_def extends_def dest!: insert_ref_Inr)
    then have ev2: "\<forall>s \<in> set (er_field_support r). \<forall>i \<in> set (fs_evidence_ids s).
        map_of (ct_evidence_span t2) i \<noteq> None"
      using ev grows_known(3) [of "t\<lparr>ct_revision := tab\<rparr>" t2] by auto
    have False
    proof (rule rfold_refs_ok [OF support(3)])
      fix s v w assume "save_support r v s = Inr w"
      then show "grows v w" by (auto dest: save_support_effect)
    next
      fix s v assume s: "s \<in> set (er_field_support r)" "grows t2 v"
      then have "\<forall>i \<in> set (fs_evidence_ids s). map_of (ct_evidence_span v) i \<noteq> None"
        using ev2 grows_known(3) [OF s(2)] by auto
      then show "\<exists>w. save_support r v s = Inr w" by (rule save_support_ok)
    qed
    then show ?thesis by simp
  qed
qed

section \<open>The whole save\<close>

lemma save_span_fails:
  assumes run: "save_span t e = Inl x"
    and block: "map_of (ct_text_block t) (ev_document_id e, ev_block_id e) \<noteq> None"
  shows "x \<in> set save_refusals"
proof -
  consider "x = data_error"
    | (row) "immutable_row evidence_span_json False
        (map_of (ct_text_block t) (ev_document_id e, ev_block_id e) \<noteq> None)
        (ev_evidence_id e) e (ct_evidence_span t) = Inl x"
    using run by (auto simp: save_span_def rbind_Inl_iff split: if_splits)
  then show ?thesis
  proof cases
    case row
    show ?thesis using immutable_row_Inl [OF row block] by (auto simp: save_refusals_def)
  qed (simp add: save_refusals_def)
qed

lemma save_identity_fails: "save_identity t e = Inl x \<Longrightarrow> x \<in> set save_refusals"
  using immutable_row_Inl [of entity_identity_json _ True]
  by (auto simp: save_identity_def rbind_Inl_iff save_refusals_def)

lemma save_extraction_fails:
  "save_extraction t x = Inl e \<Longrightarrow> map_of (ct_document t) (xr_document_id x) \<noteq> None
   \<Longrightarrow> e \<in> set save_refusals"
  using immutable_row_Inl [of extraction_record_json False
      "map_of (ct_document t) (xr_document_id x) \<noteq> None"]
  by (auto simp: save_extraction_def rbind_Inl_iff save_refusals_def)

lemma save_claim_fails:
  assumes run: "save_claim t c = Inl e"
    and refs: "map_of (ct_revision t) (cl_subject_revision_id c) \<noteq> None"
      "map_of (ct_extraction t) (cl_extraction_id c) \<noteq> None"
    and ev: "\<forall>i \<in> set (cl_evidence_ids c). map_of (ct_evidence_span t) i \<noteq> None"
  shows "e \<in> set save_refusals"
proof -
  let ?link = "\<lambda>t i. rbind (insert_ref (map_of (ct_evidence_span t) i \<noteq> None)
      (cl_claim_id c, i) (ct_claim_evidence t)) (\<lambda>tab. Inr (t\<lparr>ct_claim_evidence := tab\<rparr>))"
  let ?refs = "map_of (ct_revision t) (cl_subject_revision_id c) \<noteq> None
      \<and> map_of (ct_extraction t) (cl_extraction_id c) \<noteq> None"
  consider (row) "immutable_row requirement_claim_json False ?refs (cl_claim_id c) c
      (ct_requirement_claim t) = Inl e"
    | (link) tab where "rfold ?link (t\<lparr>ct_requirement_claim := tab\<rparr>) (cl_evidence_ids c) = Inl e"
    using run by (auto simp: save_claim_def rbind_Inl_iff)
  then show ?thesis
  proof cases
    case row
    then show ?thesis using immutable_row_Inl [OF row] refs by (auto simp: save_refusals_def)
  next
    case link
    have False
    proof (rule rfold_refs_ok [OF link])
      fix i and v w :: canonical_tables assume "?link v i = Inr w"
      then show "grows v w"
        by (auto simp: rbind_Inr_iff grows_def extends_def dest!: insert_ref_Inr)
    next
      fix i v assume i: "i \<in> set (cl_evidence_ids c)" "grows (t\<lparr>ct_requirement_claim := tab\<rparr>) v"
      then have "map_of (ct_evidence_span v) i \<noteq> None"
        using ev by (intro grows_known(3) [OF i(2)]) auto
      then show "\<exists>w. ?link v i = Inr w"
        using insert_ref_ok [of True "(cl_claim_id c, i)" "ct_claim_evidence v"]
        by (auto simp: rbind_def)
    qed
    then show ?thesis by simp
  qed
qed

text \<open>What an accepted bundle guarantees about the rows its own members refer to.\<close>

lemma accepted_block:
  assumes ok: "bundle_check P b = Inr ()" and e: "e \<in> set (cb_evidence b)"
    and docs: "\<forall>d \<in> set (cb_documents b). document_stored bindings d t"
  shows "map_of (ct_text_block t) (ev_document_id e, ev_block_id e) \<noteq> None"
proof -
  obtain d where d: "d \<in> set (cb_documents b)" "sd_document_id d = ev_document_id e" "quotes P d e"
    using accepted_span [OF ok e] .
  then obtain bl where "bl \<in> set (sd_blocks d)" "tb_block_id bl = ev_block_id e"
    by (auto simp: quotes_def)
  moreover have "document_stored bindings d t" using docs d(1) by blast
  ultimately show ?thesis
    using d(2) unfolding document_stored_def block_stored_def by metis
qed

lemma accepted_entity:
  assumes ok: "bundle_check P b = Inr ()" and r: "r \<in> set (cb_revisions b)"
  obtains x where "x \<in> set (cb_identities b)" "ei_entity_id x = er_entity_id r"
    "ei_kind x = payload_kind (er_payload r)"
proof -
  have "check_revision b r = Inr ()"
    by (rule references_Inr(3) [OF bundle_check_Inr(6) [OF ok] r])
  then obtain x where "map_of (identities_by_id b) (er_entity_id r) = Some x"
    "ei_kind x = payload_kind (er_payload r)"
    by (auto simp: check_revision_def require_entity_def rbind_Inr_iff ensure_Inr_iff
        split: option.splits)
  then show thesis
    using that index_by_mem [of ei_entity_id "cb_identities b"] by (auto simp: identities_by_id_def)
qed

lemma accepted_documents:
  assumes ok: "bundle_check P b = Inr ()" and r: "r \<in> set (cb_revisions b)"
    and docs: "\<forall>d \<in> set (cb_documents b). map_of (ct_document t) (sd_document_id d) \<noteq> None"
  shows "\<forall>d \<in> set (er_document_ids r). map_of (ct_document t) d \<noteq> None"
proof -
  have "check_revision b r = Inr ()"
    by (rule references_Inr(3) [OF bundle_check_Inr(6) [OF ok] r])
  then have "set (er_document_ids r) \<subseteq> sd_document_id ` set (cb_documents b)"
    by (auto simp: check_revision_def rbind_Inr_iff ensure_Inr_iff documents_by_id_def)
  then show ?thesis using docs by auto
qed

text \<open>After the documents, the remaining loops fail only for data.\<close>

definition save_rest :: "canonical_bundle \<Rightarrow> canonical_tables \<Rightarrow> exn + canonical_tables" where
  "save_rest b t =
     rbind (rfold save_identity t (cb_identities b)) (\<lambda>t.
     rbind (rfold save_span t (cb_evidence b)) (\<lambda>t.
     rbind (rfold save_revision t (cb_revisions b)) (\<lambda>t.
     rbind (rfold save_extraction t (cb_extractions b)) (\<lambda>t.
       rfold save_claim t (cb_claims b)))))"

lemma save_rest_cases:
  assumes "save_rest b t1 = Inl e"
  obtains "rfold save_identity t1 (cb_identities b) = Inl e"
  | t2 where "rfold save_identity t1 (cb_identities b) = Inr t2"
      "rfold save_span t2 (cb_evidence b) = Inl e"
  | t2 t3 where "rfold save_identity t1 (cb_identities b) = Inr t2"
      "rfold save_span t2 (cb_evidence b) = Inr t3" "rfold save_revision t3 (cb_revisions b) = Inl e"
  | t2 t3 t4 where "rfold save_identity t1 (cb_identities b) = Inr t2"
      "rfold save_span t2 (cb_evidence b) = Inr t3" "rfold save_revision t3 (cb_revisions b) = Inr t4"
      "rfold save_extraction t4 (cb_extractions b) = Inl e"
  | t2 t3 t4 t5 where "rfold save_identity t1 (cb_identities b) = Inr t2"
      "rfold save_span t2 (cb_evidence b) = Inr t3" "rfold save_revision t3 (cb_revisions b) = Inr t4"
      "rfold save_extraction t4 (cb_extractions b) = Inr t5" "rfold save_claim t5 (cb_claims b) = Inl e"
  using assms by (auto simp: save_rest_def rbind_Inl_iff)

lemma documents_loop:
  assumes "rfold (save_document ft bindings) t (cb_documents b) = Inr t1"
  shows "grows t t1 \<and> (\<forall>d \<in> set (cb_documents b). document_stored bindings d t1)"
  by (rule rfold_grows [OF assms])
    (auto dest: save_document_effect stored_facts_mono(2) [OF grows_extends])

lemma identities_loop:
  assumes "rfold save_identity t1 (cb_identities b) = Inr t2"
  shows "grows t1 t2 \<and> (\<forall>e \<in> set (cb_identities b).
      stored_as entity_identity_json (ct_entity t2) (ei_entity_id e) e)"
  by (rule rfold_grows [OF assms])
    (auto dest: save_identity_effect stored_facts_mono(3) [OF grows_extends])

lemma spans_loop:
  assumes "rfold save_span t2 (cb_evidence b) = Inr t3"
  shows "grows t2 t3 \<and> (\<forall>e \<in> set (cb_evidence b).
      stored_as evidence_span_json (ct_evidence_span t3) (ev_evidence_id e) e)"
  by (rule rfold_grows [OF assms])
    (auto dest: save_span_effect stored_facts_mono(4) [OF grows_extends])

lemma revisions_loop:
  assumes "rfold save_revision t3 (cb_revisions b) = Inr t4"
  shows "grows t3 t4 \<and> (\<forall>r \<in> set (cb_revisions b). revision_stored r t4)"
  by (rule rfold_grows [OF assms])
    (auto dest: save_revision_effect stored_facts_mono(5) [OF grows_extends])

lemma extractions_loop:
  assumes "rfold save_extraction t4 (cb_extractions b) = Inr t5"
  shows "grows t4 t5 \<and> (\<forall>x \<in> set (cb_extractions b).
      stored_as extraction_record_json (ct_extraction t5) (xr_extraction_id x) x)"
  by (rule rfold_grows [OF assms])
    (auto dest: save_extraction_effect stored_facts_mono(6) [OF grows_extends])

lemma spans_known:
  assumes run: "rfold save_span t2 (cb_evidence b) = Inr t3" and g: "grows t3 v"
  shows "\<forall>e \<in> set (cb_evidence b). map_of (ct_evidence_span v) (ev_evidence_id e) \<noteq> None"
proof
  fix e assume "e \<in> set (cb_evidence b)"
  then have "stored_as evidence_span_json (ct_evidence_span t3) (ev_evidence_id e) e"
    using spans_loop [OF run] by blast
  then show "map_of (ct_evidence_span v) (ev_evidence_id e) \<noteq> None"
    by (rule grows_known(3) [OF g stored_as_known])
qed

lemma revisions_known:
  assumes run: "rfold save_revision t3 (cb_revisions b) = Inr t4" and g: "grows t4 v"
  shows "\<forall>r \<in> set (cb_revisions b). map_of (ct_revision v) (er_revision_id r) \<noteq> None"
proof
  fix r assume "r \<in> set (cb_revisions b)"
  then have "stored_as entity_revision_json (ct_revision t4) (er_revision_id r) r"
    using revisions_loop [OF run] by (simp add: revision_stored_def)
  then show "map_of (ct_revision v) (er_revision_id r) \<noteq> None"
    by (rule grows_known(4) [OF g stored_as_known])
qed

lemma extractions_known:
  assumes run: "rfold save_extraction t4 (cb_extractions b) = Inr t5" and g: "grows t5 v"
  shows "\<forall>x \<in> set (cb_extractions b). map_of (ct_extraction v) (xr_extraction_id x) \<noteq> None"
proof
  fix x assume "x \<in> set (cb_extractions b)"
  then have "stored_as extraction_record_json (ct_extraction t5) (xr_extraction_id x) x"
    using extractions_loop [OF run] by blast
  then show "map_of (ct_extraction v) (xr_extraction_id x) \<noteq> None"
    by (rule grows_known(5) [OF g stored_as_known])
qed

lemma documents_known:
  assumes "\<forall>d \<in> set (cb_documents b). document_stored bindings d t" and g: "grows t v"
  shows "\<forall>d \<in> set (cb_documents b). map_of (ct_document v) (sd_document_id d) \<noteq> None"
  using assms(1) by (intro ballI grows_known(1) [OF g document_known]) blast

lemma support_known:
  assumes ok: "bundle_check P b = Inr ()"
    and ev: "\<forall>e \<in> set (cb_evidence b). map_of (ct_evidence_span t) (ev_evidence_id e) \<noteq> None"
    and r: "r \<in> set (cb_revisions b)"
  shows "\<forall>s \<in> set (er_field_support r). \<forall>i \<in> set (fs_evidence_ids s).
    map_of (ct_evidence_span t) i \<noteq> None"
  using support_grounded [OF ok r] ev unfolding grounded_in_def by metis

lemma claim_known:
  assumes ok: "bundle_check P b = Inr ()" and c: "c \<in> set (cb_claims b)"
    and ev: "\<forall>e \<in> set (cb_evidence b). map_of (ct_evidence_span t) (ev_evidence_id e) \<noteq> None"
    and rs: "\<forall>r \<in> set (cb_revisions b). map_of (ct_revision t) (er_revision_id r) \<noteq> None"
    and xs: "\<forall>x \<in> set (cb_extractions b). map_of (ct_extraction t) (xr_extraction_id x) \<noteq> None"
  shows "map_of (ct_revision t) (cl_subject_revision_id c) \<noteq> None"
    and "map_of (ct_extraction t) (cl_extraction_id c) \<noteq> None"
    and "\<forall>i \<in> set (cl_evidence_ids c). map_of (ct_evidence_span t) i \<noteq> None"
proof -
  have "faithful_claim P b c" by (rule claim_faithful [OF ok c])
  then show "map_of (ct_revision t) (cl_subject_revision_id c) \<noteq> None"
    "map_of (ct_extraction t) (cl_extraction_id c) \<noteq> None"
    using rs xs unfolding faithful_claim_def by metis+
  have "check_claim b c = Inr ()"
    by (rule references_Inr(5) [OF bundle_check_Inr(6) [OF ok] c])
  then obtain x spans where "claim_spans b x c = Inr spans"
    by (auto simp: check_claim_def rbind_Inr_iff)
  note spans = this [unfolded claim_spans_def]
  have "\<exists>e. map_of (evidence_by_id b) i = Some e" if "i \<in> set (cl_evidence_ids c)" for i
    using rmap_Inr_dom [OF spans that] by (auto split: option.splits)
  then show "\<forall>i \<in> set (cl_evidence_ids c). map_of (ct_evidence_span t) i \<noteq> None"
    using evidence_found ev by metis
qed

lemma save_rest_fails:
  assumes ok: "bundle_check P b = Inr ()"
    and d1: "\<forall>d \<in> set (cb_documents b). document_stored bindings d t1"
    and run: "save_rest b t1 = Inl e"
  shows "e \<in> set save_refusals"
  using run
proof (cases rule: save_rest_cases)
  case 1
  have "\<exists>x \<in> set (cb_identities b). \<exists>u. grows t1 u \<and> save_identity u x = Inl e"
    by (rule rfold_grows_fails [OF 1]) (auto dest: save_identity_effect)
  then show ?thesis using save_identity_fails by blast
next
  case (2 t2)
  have "\<exists>x \<in> set (cb_evidence b). \<exists>u. grows t2 u \<and> save_span u x = Inl e"
    by (rule rfold_grows_fails [OF 2(2)]) (auto dest: save_span_effect)
  then obtain x u where x: "x \<in> set (cb_evidence b)" "grows t2 u" "save_span u x = Inl e" by blast
  have "grows t1 u" using identities_loop [OF 2(1)] x(2) grows_trans by blast
  then have "\<forall>d \<in> set (cb_documents b). document_stored bindings d u"
    using d1 stored_facts_mono(2) [OF grows_extends] by blast
  then show ?thesis using save_span_fails [OF x(3)] accepted_block [OF ok x(1)] by blast
next
  case (3 t2 t3)
  have "\<exists>r \<in> set (cb_revisions b). \<exists>u. grows t3 u \<and> save_revision u r = Inl e"
    by (rule rfold_grows_fails [OF 3(3)]) (auto dest: save_revision_effect)
  then obtain r u where r: "r \<in> set (cb_revisions b)" "grows t3 u" "save_revision u r = Inl e" by blast
  note l2 = identities_loop [OF 3(1)] and l3 = spans_loop [OF 3(2)]
  have g2: "grows t2 u" using l3 r(2) grows_trans by blast
  have g1: "grows t1 u" using l2 g2 grows_trans by blast
  obtain x where x: "x \<in> set (cb_identities b)" "ei_entity_id x = er_entity_id r"
    "ei_kind x = payload_kind (er_payload r)" using accepted_entity [OF ok r(1)] .
  have "stored_as entity_identity_json (ct_entity u) (ei_entity_id x) x"
    using l2 x(1) stored_facts_mono(3) [OF grows_extends [OF g2]] by blast
  then have ent: "\<exists>y. map_of (ct_entity u) (er_entity_id r) = Some y
      \<and> ei_kind y = payload_kind (er_payload r)"
    using entity_stored_kind [of "ct_entity u" "ei_entity_id x" x] x(2,3) by simp
  note docs = accepted_documents [OF ok r(1) documents_known [OF d1 g1]]
  note ev = support_known [OF ok spans_known [OF 3(2) r(2)] r(1)]
  show ?thesis by (rule save_revision_fails [OF r(3) ent docs ev])
next
  case (4 t2 t3 t4)
  have "\<exists>x \<in> set (cb_extractions b). \<exists>u. grows t4 u \<and> save_extraction u x = Inl e"
    by (rule rfold_grows_fails [OF 4(4)]) (auto dest: save_extraction_effect)
  then obtain x u where x: "x \<in> set (cb_extractions b)" "grows t4 u" "save_extraction u x = Inl e"
    by blast
  have g3: "grows t3 u" using revisions_loop [OF 4(3)] x(2) grows_trans by blast
  have g2: "grows t2 u" using spans_loop [OF 4(2)] g3 grows_trans by blast
  have g1: "grows t1 u" using identities_loop [OF 4(1)] g2 grows_trans by blast
  have "check_extraction b x = Inr ()"
    by (rule references_Inr(4) [OF bundle_check_Inr(6) [OF ok] x(1)])
  then obtain d where "d \<in> set (cb_documents b)" "sd_document_id d = xr_document_id x"
    using index_by_mem [of sd_document_id "cb_documents b"]
    by (auto simp: check_extraction_def documents_by_id_def split: option.splits)
  then have "map_of (ct_document u) (xr_document_id x) \<noteq> None"
    using documents_known [OF d1 g1] by metis
  then show ?thesis by (rule save_extraction_fails [OF x(3)])
next
  case (5 t2 t3 t4 t5)
  have "\<exists>c \<in> set (cb_claims b). \<exists>u. grows t5 u \<and> save_claim u c = Inl e"
    by (rule rfold_grows_fails [OF 5(5)]) (auto dest: save_claim_effect)
  then obtain c u where c: "c \<in> set (cb_claims b)" "grows t5 u" "save_claim u c = Inl e" by blast
  have g4: "grows t4 u" using extractions_loop [OF 5(4)] c(2) grows_trans by blast
  have g3: "grows t3 u" using revisions_loop [OF 5(3)] g4 grows_trans by blast
  note known = claim_known [OF ok c(1) spans_known [OF 5(2) g3] revisions_known [OF 5(3) g4]
    extractions_known [OF 5(4) c(2)]]
  show ?thesis by (rule save_claim_fails [OF c(3) known])
qed

text \<open>
  C29: A save of a bundle never runs into a foreign key. Whatever the tables hold, the save of an
  accepted bundle whose bindings cover its documents fails only because a document's observations
  are missing, repeated or not those that fetched its snapshot, because the database cannot hold a value, or because an
  identifier is taken by a different record; in particular every span finds its block, every
  revision its entity, documents and evidence, and every claim its revision, extraction and spans.
\<close>

theorem save_refused_only_for_data:
  assumes run: "store_save P ft b bindings t = Inl e" and ok: "bundle_check P b = Inr ()"
  shows "e \<in> set save_refusals"
proof -
  show ?thesis
  proof (cases "fst ` set bindings = sd_document_id ` set (cb_documents b)")
    case False
    then show ?thesis using run ok by (simp add: store_save_def save_refusals_def)
  next
    case keys: True
    show ?thesis
    proof (cases "rfold (save_document ft bindings) t (cb_documents b)")
      case (Inl x)
      then have x: "x = e" using run ok keys by (simp add: store_save_def)
      have "\<exists>d \<in> set (cb_documents b). \<exists>u. grows t u \<and> save_document ft bindings u d = Inl x"
        by (rule rfold_grows_fails [OF Inl]) (auto dest: save_document_effect)
      moreover have "map_of bindings (sd_document_id d) \<noteq> None" if "d \<in> set (cb_documents b)" for d
        using that keys by (auto simp: map_of_eq_None_iff)
      ultimately show ?thesis using save_document_fails x by blast
    next
      case (Inr t1)
      have d1: "\<forall>d \<in> set (cb_documents b). document_stored bindings d t1"
        using documents_loop [OF Inr] by blast
      show ?thesis
        using save_rest_fails [OF ok d1, of e] run ok keys Inr
        by (simp add: store_save_def save_rest_def)
    qed
  qed
qed

lemma unbound_save: "store_save const_env ft claim_bundle [] t = Inl bindings_error"
  unfolding store_save_def claim_bundle_accepted by (simp add: claim_bundle_def)

theorem save_refused_only_for_data_witness:
  "\<forall>ft t. store_save const_env ft claim_bundle [] t = Inl bindings_error
     \<and> bindings_error \<in> set save_refusals"
  using save_refused_only_for_data [OF unbound_save claim_bundle_accepted] unbound_save by blast

end
