(* ===== verification/CanonicalRun.thy ===== *)
theory CanonicalRun
  imports CanonicalStore
begin

text \<open>
  \<open>pipeline/canonical.py\<close>: the assembly of one processing run into the canonical tables. The run
  checks its inputs again, groups them into items and stores each item in one transaction together
  with a manifest row that holds the hash of its bundle; an item that is there is not stored again.
  As in the processing run, the database is taken to answer every call. Progress reports are left out.
\<close>

section \<open>Inputs\<close>

text \<open>
  \<open>DISTINCT ON (source_id) ... ORDER BY source_id, fetch_completed_at DESC, processing_run_id\<close>, where
  a null time sorts first.
\<close>

definition selectable_runs ::
    "fetch_tables \<Rightarrow> staging_tables \<Rightarrow> ((ustr \<times> bool \<times> int \<times> ustr) \<times> unit) list" where
  "selectable_runs ft sg =
     sort_key fst (List.map_filter (\<lambda>(id, p).
       case map_of (tb_connector_run ft) (pw_connector_run_id p) of
         None \<Rightarrow> None
       | Some c \<Rightarrow>
           if pw_state p = P_ready \<and> pw_processor_version p = processor_version
              \<and> cr_mode c = SCHEDULED_FULL
           then Some ((cr_source_id c, cr_fetch_completed_at c \<noteq> None,
                       (case cr_fetch_completed_at c of None \<Rightarrow> 0 | Some s \<Rightarrow> - s), id), ())
           else None) (sg_processing_run sg))"

definition latest_processing_runs ::
    "fetch_tables \<Rightarrow> staging_tables \<Rightarrow> exn + ustr list" where
  "latest_processing_runs ft sg =
     (let selected = \<lambda>source.
            map_option (\<lambda>((_, _, _, id), _). id)
              (find (\<lambda>((s, _, _, _), _). s = source) (selectable_runs ft sg))
      in if list_all (\<lambda>s. selected s \<noteq> None) processable_sources
         then Inr (List.map_filter selected processable_sources)
         else processing_error ''MISSING_READY_PROCESSING_RUN'')"

text \<open>The joined rows: revision, snapshot, locator and observation, in this order.\<close>

definition occurrence_rows ::
    "staging_tables \<Rightarrow> ustr \<Rightarrow> ((ustr \<times> ustr \<times> ustr \<times> ustr) \<times> revision_row) list" where
  "occurrence_rows sg run_id =
     sort_key fst (concat (map (\<lambda>((run, observation), document_id).
       if run \<noteq> run_id then []
       else (case map_of (sg_document sg) document_id of
         None \<Rightarrow> []
       | Some d \<Rightarrow> List.map_filter (\<lambda>((doc, loc), rid).
           if doc \<noteq> document_id then None
           else map_option (\<lambda>r. ((rid, dw_snapshot_id d, loc, observation), r))
                  (map_of (sg_record_revision sg) rid)) (sg_document_record sg)))
       (sg_processing_input sg)))"

definition add_occurrence ::
    "pyenv \<Rightarrow> ((ustr \<times> ustr \<times> ustr) \<times> staged_occurrence) list
     \<Rightarrow> (ustr \<times> ustr \<times> ustr \<times> ustr) \<times> revision_row
     \<Rightarrow> exn + ((ustr \<times> ustr \<times> ustr) \<times> staged_occurrence) list" where
  "add_occurrence P found entry =
     (case entry of ((rid, snapshot, loc, observation), r) \<Rightarrow>
        if rid \<noteq> revision_id P (rv_source_id r) (rv_processor_version r) (rv_record r)
        then processing_error ''STAGING_REVISION_INTEGRITY_FAILED''
        else
          let key = (rid, snapshot, loc) in
          Inr (AList.update key
            (case map_of found key of
               None \<Rightarrow> \<lparr>so_revision_id = rid, so_source_id = rv_source_id r,
                 so_snapshot_id = snapshot, so_locator = loc,
                 so_parser_version = rv_processor_version r, so_record = rv_record r,
                 so_observation_ids = [observation]\<rparr>
             | Some existing \<Rightarrow> existing\<lparr>so_observation_ids :=
                 so_observation_ids existing @ [observation]\<rparr>) found))"

definition staged_occurrences ::
    "pyenv \<Rightarrow> staging_tables \<Rightarrow> ustr \<Rightarrow> exn + staged_occurrence list" where
  "staged_occurrences P sg run_id =
     rbind (rfold (add_occurrence P) [] (occurrence_rows sg run_id)) (\<lambda>found.
       Inr (map snd found))"

section \<open>The run's row and manifests\<close>

definition canonical_run_id :: "pyenv \<Rightarrow> ustr \<Rightarrow> ustr" where
  "canonical_run_id P pid =
     digest P (JArr [JStr pid, JStr assembler_version])"

definition update_canonical_run ::
    "ustr \<Rightarrow> (canonical_run_row \<Rightarrow> canonical_run_row) \<Rightarrow> canonical_tables \<Rightarrow> canonical_tables" where
  "update_canonical_run run_id f t =
     (case map_of (ct_run t) run_id of
        None \<Rightarrow> t
      | Some row \<Rightarrow> t\<lparr>ct_run := AList.update run_id (f row) (ct_run t)\<rparr>)"

text \<open>\<open>_failed\<close>: a run without a row has none afterwards.\<close>

definition run_failed :: "ustr \<Rightarrow> exn \<Rightarrow> canonical_tables \<Rightarrow> canonical_tables" where
  "run_failed run_id e =
     update_canonical_run run_id (\<lambda>row. row\<lparr>cn_state := P_failed,
       cn_error_code := Some (take 100 (processing_code e)), cn_completed := True\<rparr>)"

definition open_canonical_run :: "ustr \<Rightarrow> ustr \<Rightarrow> canonical_tables \<Rightarrow> canonical_tables" where
  "open_canonical_run run_id pid t =
     t\<lparr>ct_run := AList.update run_id
        (case map_of (ct_run t) run_id of
           None \<Rightarrow> \<lparr>cn_processing_run_id = pid,
             cn_assembler_version = assembler_version, cn_state = P_running, cn_completed = False,
             cn_error_code = None, cn_summary = None\<rparr>
         | Some row \<Rightarrow> row\<lparr>cn_state := P_running, cn_completed := False, cn_error_code := None\<rparr>)
        (ct_run t)\<rparr>"

definition item_key :: "pyenv \<Rightarrow> staged_occurrence \<Rightarrow> ustr" where
  "item_key P i =
     (case posting_of i of
        Some p \<Rightarrow> jp_posting_id p
      | None \<Rightarrow> digest P (JArr [JStr (so_revision_id i), JStr (so_snapshot_id i),
                               JStr (so_locator i)]))"

definition item_groups ::
    "pyenv \<Rightarrow> staged_occurrence list \<Rightarrow> (ustr \<times> staged_occurrence list) list" where
  "item_groups P inputs = sort_key fst (group_by (item_key P) inputs)"

definition manifest_inputs ::
    "ustr \<Rightarrow> (source_document \<times> staged_occurrence) list \<Rightarrow> (ustr \<times> ustr \<times> ustr) list
     \<Rightarrow> (ustr \<times> ustr \<times> ustr) list" where
  "manifest_inputs run_id pairs tab =
     foldl (\<lambda>xs (d, i). insert_new (run_id, so_revision_id i, sd_document_id d) xs) tab pairs"

definition manifest_revisions ::
    "ustr \<Rightarrow> entity_revision list \<Rightarrow> (ustr \<times> ustr) list \<Rightarrow> (ustr \<times> ustr) list" where
  "manifest_revisions run_id rs tab =
     foldl (\<lambda>xs r. insert_new (run_id, er_revision_id r) xs) tab rs"

text \<open>One item's transaction: the tables it commits, and whether the item was reused.\<close>

definition store_item ::
    "pyenv \<Rightarrow> fetch_tables \<Rightarrow> ustr \<Rightarrow> ustr \<times> staged_occurrence list \<Rightarrow> canonical_bundle
     \<Rightarrow> canonical_tables \<Rightarrow> exn + canonical_tables \<times> bool" where
  "store_item P ft run_id item b t =
     (let bundle_hash = digest P (bundle_json b) in
      case map_of (ct_assembly_item t) (run_id, fst item) of
        Some previous \<Rightarrow>
          if previous \<noteq> bundle_hash then processing_error ''ASSEMBLER_VERSION_CONTENT_CONFLICT''
          else Inr (t, True)
      | None \<Rightarrow>
          rbind (document_bindings b (snd item)) (\<lambda>bindings.
          rbind (store_save P ft b bindings t) (\<lambda>t'.
          if \<not> pg_text (fst item) then Inl data_error
          else Inr (t'\<lparr>
            ct_assembly_input :=
              manifest_inputs run_id (zip (cb_documents b) (snd item)) (ct_assembly_input t'),
            ct_assembly_revision :=
              manifest_revisions run_id (cb_revisions b) (ct_assembly_revision t'),
            ct_assembly_item :=
              AList.update (run_id, fst item) bundle_hash (ct_assembly_item t')\<rparr>, False))))"

definition assemble_item ::
    "pyenv \<Rightarrow> fetch_tables \<Rightarrow> ustr \<Rightarrow> nat \<Rightarrow> ustr \<times> staged_occurrence list
     \<Rightarrow> (canonical_tables, exn, nat) action" where
  "assemble_item P ft run_id reused item t =
     (case rbind (assemble P (snd item)) (\<lambda>b. store_item P ft run_id item b t) of
        Inl e \<Rightarrow> (Inl e, t)
      | Inr (t', again) \<Rightarrow> (Inr (if again then Suc reused else reused), t'))"

primrec assemble_items ::
    "pyenv \<Rightarrow> fetch_tables \<Rightarrow> ustr \<Rightarrow> nat \<Rightarrow> (ustr \<times> staged_occurrence list) list
     \<Rightarrow> (canonical_tables, exn, nat) action" where
  "assemble_items P ft run_id reused [] = areturn reused"
| "assemble_items P ft run_id reused (item # items) =
     abind (assemble_item P ft run_id reused item)
       (\<lambda>reused'. assemble_items P ft run_id reused' items)"

section \<open>Closing the run\<close>

definition run_input_ids :: "canonical_tables \<Rightarrow> ustr \<Rightarrow> ustr list" where
  "run_input_ids t run_id =
     sorted_set (map (\<lambda>(_, i, _). i) (filter (\<lambda>(r, _, _). r = run_id) (ct_assembly_input t)))"

definition run_revision_ids :: "canonical_tables \<Rightarrow> ustr \<Rightarrow> ustr list" where
  "run_revision_ids t run_id =
     sort (map snd (filter (\<lambda>(r, _). r = run_id) (ct_assembly_revision t)))"

text \<open>\<open>GROUP BY r.kind ORDER BY r.kind\<close> over the stored revisions of the run.\<close>

definition revision_counts :: "canonical_tables \<Rightarrow> ustr \<Rightarrow> (ustr \<times> json) list" where
  "revision_counts t run_id =
     (let kinds = List.map_filter (\<lambda>i. map_option (\<lambda>r. entity_kind_name (payload_kind (er_payload r)))
                    (map_of (ct_revision t) i)) (run_revision_ids t run_id)
      in map (\<lambda>k. (k, JInt (int (length (filter (\<lambda>k'. k' = k) kinds))))) (sorted_set kinds))"

definition canonical_summary ::
    "pyenv \<Rightarrow> ustr \<Rightarrow> ustr \<Rightarrow> ustr \<Rightarrow> ustr list \<Rightarrow> nat \<Rightarrow> nat \<Rightarrow> canonical_tables \<Rightarrow> json" where
  "canonical_summary P run_id pid source input_ids items reused t =
     JObj [(u ''assembly_run_id'', JStr run_id), (u ''processing_run_id'', JStr pid),
       (u ''source_id'', JStr source), (u ''assembler_version'', JStr assembler_version),
       (u ''state'', JStr (u ''READY'')), (u ''serving_scope'', JStr (u ''DRAFT'')),
       (u ''input_records'', JInt (int (length input_ids))), (u ''items'', JInt (int items)),
       (u ''reused_items'', JInt (int reused)),
       (u ''revisions'', JInt (int (length (run_revision_ids t run_id)))),
       (u ''revision_counts'', JObj (revision_counts t run_id)),
       (u ''revision_set_hash'', JStr (digest P (JArr (map JStr (run_revision_ids t run_id))))),
       (u ''input_set_hash'', JStr (digest P (JArr (map JStr input_ids))))]"

definition close_canonical_run ::
    "pyenv \<Rightarrow> ustr \<Rightarrow> ustr \<Rightarrow> ustr \<Rightarrow> ustr list \<Rightarrow> nat \<Rightarrow> nat
     \<Rightarrow> (canonical_tables, exn, json) action" where
  "close_canonical_run P run_id pid source input_ids items reused t =
     (if run_input_ids t run_id \<noteq> input_ids
      then (processing_error ''CANONICAL_OUTPUT_MANIFEST_MISMATCH'', t)
      else
        let summary = canonical_summary P run_id pid source input_ids items reused t
        in (Inr summary, update_canonical_run run_id (\<lambda>row.
              row\<lparr>cn_state := P_ready, cn_completed := True, cn_summary := Some summary\<rparr>) t))"

section \<open>assemble_run\<close>

record assembly_state =
  as_staging :: staging_tables
  as_canonical :: canonical_tables

text \<open>The first \<open>try\<close>: the processing run is verified again and its records are read back.\<close>

definition verified_inputs ::
    "pyenv \<Rightarrow> (ustr \<Rightarrow> exn + source_activation_check) \<Rightarrow> bool \<Rightarrow> fetch_tables \<Rightarrow> files \<Rightarrow> ustr
     \<Rightarrow> (staging_tables, exn, processing_summary \<times> staged_occurrence list \<times> ustr list) action"
where
  "verified_inputs P rights_of busy ft fs processing_run sg =
     (case map_of (sg_processing_run sg) processing_run of
        None \<Rightarrow> (processing_error ''PROCESSING_NOT_READY'', sg)
      | Some row \<Rightarrow>
          if pw_state row \<noteq> P_ready then (processing_error ''PROCESSING_NOT_READY'', sg)
          else
            abind (process_run P rights_of busy ft fs (pw_connector_run_id row)) (\<lambda>verified sg'.
              (if su_state verified \<noteq> P_ready \<or> su_processing_run_id verified \<noteq> processing_run
               then processing_error ''PROCESSING_NOT_READY''
               else rbind (staged_occurrences P sg' processing_run) (\<lambda>inputs.
                 let input_ids = sorted_set (map so_revision_id inputs) in
                 if length input_ids \<noteq> su_records verified
                    \<or> digest P (JArr (map JStr input_ids)) \<noteq> su_content_set_hash verified
                 then processing_error ''CANONICAL_INPUT_MANIFEST_MISMATCH''
                 else Inr (verified, inputs, input_ids)), sg')) sg)"

text \<open>The second \<open>try\<close>, after the run's row is there.\<close>

definition assemble_inputs ::
    "pyenv \<Rightarrow> fetch_tables \<Rightarrow> ustr \<Rightarrow> ustr \<Rightarrow> ustr \<Rightarrow> staged_occurrence list \<Rightarrow> ustr list
     \<Rightarrow> (canonical_tables, exn, json) action" where
  "assemble_inputs P ft run_id processing_run source inputs input_ids =
     (let groups = item_groups P inputs in
      abind (assemble_items P ft run_id 0 groups)
        (close_canonical_run P run_id processing_run source input_ids (length groups)))"

definition assemble_run ::
    "pyenv \<Rightarrow> (ustr \<Rightarrow> exn + source_activation_check) \<Rightarrow> bool \<Rightarrow> bool \<Rightarrow> fetch_tables \<Rightarrow> files \<Rightarrow> ustr
     \<Rightarrow> (assembly_state, exn, json) action" where
  "assemble_run P rights_of locked busy ft fs processing_run s =
     (let run_id = canonical_run_id P processing_run in
      if locked then (processing_error ''PIPELINE_BUSY'', s)
      else (case verified_inputs P rights_of busy ft fs processing_run (as_staging s) of
        (Inl e, sg) \<Rightarrow>
          (Inl e, \<lparr>as_staging = sg, as_canonical = run_failed run_id e (as_canonical s)\<rparr>)
      | (Inr (verified, inputs, input_ids), sg) \<Rightarrow>
          (case assemble_inputs P ft run_id processing_run (su_source_id verified) inputs input_ids
                  (open_canonical_run run_id processing_run (as_canonical s)) of
             (Inr summary, t) \<Rightarrow> (Inr summary, \<lparr>as_staging = sg, as_canonical = t\<rparr>)
           | (Inl e, t) \<Rightarrow>
               (Inl e, \<lparr>as_staging = sg, as_canonical = run_failed run_id e t\<rparr>))))"

end
