(* ===== verification/CanonicalRuns.thy ===== *)
theory CanonicalRuns
  imports CanonicalRun CanonicalFacts
begin

text \<open>
  What a run of the assembly leaves behind: the stored records are never changed, a manifest row is
  backed by a stored bundle, the run's own row tells how it ended, and a second pass stores nothing.
\<close>

section \<open>One item\<close>

lemma set_manifest_inputs [simp]:
  "set (manifest_inputs run_id pairs tab) =
     set tab \<union> (\<lambda>(d, i). (run_id, so_revision_id i, sd_document_id d)) ` set pairs"
  by (induction pairs arbitrary: tab) (auto simp: manifest_inputs_def)

lemma set_manifest_revisions [simp]:
  "set (manifest_revisions run_id rs tab) = set tab \<union> (\<lambda>r. (run_id, er_revision_id r)) ` set rs"
  by (simp add: manifest_revisions_def set_foldl_insert_new)

text \<open>The manifest row \<open>(run, key)\<close> with the hash \<open>h\<close> stands for a bundle that is stored.\<close>

definition item_backed :: "pyenv \<Rightarrow> ustr \<Rightarrow> ustr \<Rightarrow> canonical_tables \<Rightarrow> bool" where
  "item_backed P run_id h t \<longleftrightarrow> (\<exists>b items bindings.
     bundle_check P b = Inr () \<and> digest P (bundle_json b) = h
     \<and> document_bindings b items = Inr bindings \<and> bundle_stored bindings b t
     \<and> (\<forall>(d, i) \<in> set (zip (cb_documents b) items).
          (run_id, so_revision_id i, sd_document_id d) \<in> set (ct_assembly_input t))
     \<and> (\<forall>r \<in> set (cb_revisions b). (run_id, er_revision_id r) \<in> set (ct_assembly_revision t)))"

definition manifest_backed :: "pyenv \<Rightarrow> canonical_tables \<Rightarrow> bool" where
  "manifest_backed P t \<longleftrightarrow>
     (\<forall>run_id key h. map_of (ct_assembly_item t) (run_id, key) = Some h
        \<longrightarrow> item_backed P run_id h t)"

lemma bundle_stored_mono:
  assumes "extends t t'" and "bundle_stored bindings b t"
  shows "bundle_stored bindings b t'"
  using assms(2) unfolding bundle_stored_def
  by (auto intro: stored_facts_mono [OF assms(1)])

lemma item_backed_mono:
  assumes ext: "extends t t'" and "item_backed P run_id h t"
  shows "item_backed P run_id h t'"
proof -
  obtain b items bindings where b: "bundle_check P b = Inr ()" "digest P (bundle_json b) = h"
    "document_bindings b items = Inr bindings" "bundle_stored bindings b t"
    and i: "\<forall>(d, i) \<in> set (zip (cb_documents b) items).
          (run_id, so_revision_id i, sd_document_id d) \<in> set (ct_assembly_input t)"
    and r: "\<forall>r \<in> set (cb_revisions b). (run_id, er_revision_id r) \<in> set (ct_assembly_revision t)"
    using assms(2) unfolding item_backed_def by blast
  have "set (ct_assembly_input t) \<subseteq> set (ct_assembly_input t')"
    "set (ct_assembly_revision t) \<subseteq> set (ct_assembly_revision t')"
    using ext by (simp_all add: extends_def)
  then have "\<forall>(d, i) \<in> set (zip (cb_documents b) items).
        (run_id, so_revision_id i, sd_document_id d) \<in> set (ct_assembly_input t')"
    "\<forall>r \<in> set (cb_revisions b). (run_id, er_revision_id r) \<in> set (ct_assembly_revision t')"
    using i r by blast+
  then show ?thesis
    using b bundle_stored_mono [OF ext b(4)] unfolding item_backed_def by blast
qed

text \<open>The two ways an item ends well.\<close>

lemma store_item_cases:
  assumes "store_item P ft run_id item b t = Inr (t', again)"
  obtains (reused) "again" "t' = t"
      "map_of (ct_assembly_item t) (run_id, fst item) = Some (digest P (bundle_json b))"
  | (stored) bindings v where "\<not> again"
      "map_of (ct_assembly_item t) (run_id, fst item) = None"
      "document_bindings b (snd item) = Inr bindings" "store_save P ft b bindings t = Inr v"
      "t' = v\<lparr>
            ct_assembly_input :=
              manifest_inputs run_id (zip (cb_documents b) (snd item)) (ct_assembly_input v),
            ct_assembly_revision :=
              manifest_revisions run_id (cb_revisions b) (ct_assembly_revision v),
            ct_assembly_item :=
              AList.update (run_id, fst item) (digest P (bundle_json b)) (ct_assembly_item v)\<rparr>"
  using assms
  by (auto simp: store_item_def Let_def rbind_Inr_iff processing_error_def
      split: option.splits if_splits)

lemma store_item_effect:
  assumes run: "store_item P ft run_id item b t = Inr (t', again)"
  shows "extends t t'" and "ct_run t' = ct_run t"
    and "map_of (ct_assembly_item t') (run_id, fst item) = Some (digest P (bundle_json b))"
    and "manifest_backed P t \<Longrightarrow> manifest_backed P t'"
proof -
  have "extends t t' \<and> ct_run t' = ct_run t
    \<and> map_of (ct_assembly_item t') (run_id, fst item) = Some (digest P (bundle_json b))
    \<and> (manifest_backed P t \<longrightarrow> manifest_backed P t')"
    using run
  proof (cases rule: store_item_cases)
    case reused
    then show ?thesis by simp
  next
    case (stored bindings v)
    have save: "bundle_check P b = Inr ()" "grows t v" "bundle_stored bindings b v"
      using store_save_Inr [OF stored(4)] by auto
    have items: "ct_assembly_item v = ct_assembly_item t" using save(2) by (simp add: grows_def)
    have "extends v t'"
      using stored(2,5) items by (auto simp: extends_def intro: map_le_update)
    then have ext: "extends t t'" using extends_trans grows_extends [OF save(2)] by blast
    have new: "item_backed P run_id (digest P (bundle_json b)) t'"
      unfolding item_backed_def
      using save(1) stored(3,5) bundle_stored_mono [OF \<open>extends v t'\<close> save(3)]
      by (intro exI [of _ b] exI [of _ "snd item"] exI [of _ bindings]) auto
    have "manifest_backed P t'" if old: "manifest_backed P t"
    proof -
      have "item_backed P r h t'" if h: "map_of (ct_assembly_item t') (r, k) = Some h" for r k h
      proof (cases "(r, k) = (run_id, fst item)")
        case True
        then show ?thesis using h new stored(5) by (simp add: update_conv')
      next
        case False
        then have "map_of (ct_assembly_item t) (r, k) = Some h"
          using h stored(5) items by (auto simp: update_conv')
        then have "item_backed P r h t" using old unfolding manifest_backed_def by blast
        then show ?thesis by (rule item_backed_mono [OF ext])
      qed
      then show ?thesis unfolding manifest_backed_def by blast
    qed
    then show ?thesis
      using ext stored(5) save(2) by (simp add: grows_def update_conv')
  qed
  then show "extends t t'" and "ct_run t' = ct_run t"
    and "map_of (ct_assembly_item t') (run_id, fst item) = Some (digest P (bundle_json b))"
    and "manifest_backed P t \<Longrightarrow> manifest_backed P t'" by auto
qed

section \<open>The items of a run\<close>

lemma assemble_item_cases:
  obtains (failed) e where "assemble_item P ft run_id n item t = (Inl e, t)"
  | (done_item) b t' again where "assemble P (snd item) = Inr b"
      "store_item P ft run_id item b t = Inr (t', again)"
      "assemble_item P ft run_id n item t = (Inr (if again then Suc n else n), t')"
  by (cases "rbind (assemble P (snd item)) (\<lambda>b. store_item P ft run_id item b t)")
    (auto simp: assemble_item_def rbind_Inr_iff)

lemma assemble_item_effect:
  assumes "assemble_item P ft run_id n item t = (res, t')"
  shows "extends t t' \<and> ct_run t' = ct_run t \<and> (manifest_backed P t \<longrightarrow> manifest_backed P t')"
proof (cases rule: assemble_item_cases [of P ft run_id n item t])
  case (failed e)
  then show ?thesis using assms by simp
next
  case (done_item b v again)
  then show ?thesis using assms store_item_effect [OF done_item(2)] by auto
qed

lemma assemble_items_effect:
  "assemble_items P ft run_id n items t = (res, t') \<Longrightarrow>
   extends t t' \<and> ct_run t' = ct_run t \<and> (manifest_backed P t \<longrightarrow> manifest_backed P t')"
proof (induction items arbitrary: n t)
  case Nil
  then show ?case by simp
next
  case (Cons item items)
  obtain r v where v: "assemble_item P ft run_id n item t = (r, v)" by fastforce
  note step = assemble_item_effect [OF v]
  show ?case
  proof (cases r)
    case (Inl e)
    then show ?thesis using Cons.prems v step by (simp add: abind_def)
  next
    case (Inr m)
    then have "assemble_items P ft run_id m items v = (res, t')"
      using Cons.prems v by (simp add: abind_def)
    from Cons.IH [OF this] show ?thesis using step extends_trans by metis
  qed
qed

text \<open>A finished loop has the hash of every item's bundle in the manifest.\<close>

definition item_recorded ::
    "pyenv \<Rightarrow> ustr \<Rightarrow> ustr \<times> staged_occurrence list \<Rightarrow> canonical_tables \<Rightarrow> bool" where
  "item_recorded P run_id item t \<longleftrightarrow> (\<exists>b. assemble P (snd item) = Inr b
     \<and> map_of (ct_assembly_item t) (run_id, fst item) = Some (digest P (bundle_json b)))"

lemma item_recorded_mono: "extends t t' \<Longrightarrow> item_recorded P run_id item t \<Longrightarrow> item_recorded P run_id item t'"
  by (auto simp: item_recorded_def extends_def map_le_def dom_def)

lemma assemble_item_recorded:
  assumes "assemble_item P ft run_id n item t = (Inr m, t')"
  shows "item_recorded P run_id item t'"
proof (cases rule: assemble_item_cases [of P ft run_id n item t])
  case (failed e)
  then show ?thesis using assms by simp
next
  case (done_item b v again)
  then show ?thesis
    using assms store_item_effect(3) [OF done_item(2)] by (auto simp: item_recorded_def)
qed

lemma assemble_items_recorded:
  "assemble_items P ft run_id n items t = (Inr m, t')
   \<Longrightarrow> \<forall>item \<in> set items. item_recorded P run_id item t'"
proof (induction items arbitrary: n t)
  case Nil
  then show ?case by simp
next
  case (Cons item items)
  obtain k v where v: "assemble_item P ft run_id n item t = (Inr k, v)"
    "assemble_items P ft run_id k items v = (Inr m, t')"
    using Cons.prems by (auto simp: abind_Inr_iff)
  have "item_recorded P run_id item t'"
    using item_recorded_mono assemble_item_recorded [OF v(1)] assemble_items_effect [OF v(2)] by blast
  then show ?case using Cons.IH [OF v(2)] by simp
qed

text \<open>An item that is recorded is reused.\<close>

lemma recorded_reused:
  "item_recorded P run_id item t \<Longrightarrow> assemble_item P ft run_id n item t = (Inr (Suc n), t)"
  by (auto simp: item_recorded_def assemble_item_def store_item_def)

lemma recorded_items_reused:
  "\<forall>item \<in> set items. item_recorded P run_id item t
   \<Longrightarrow> assemble_items P ft run_id n items t = (Inr (n + length items), t)"
  by (induction items arbitrary: n) (simp_all add: abind_def recorded_reused)

section \<open>The run\<close>

lemma ct_run_update:
  "ct_run (update_canonical_run run_id f t) = (case map_of (ct_run t) run_id of
     None \<Rightarrow> ct_run t | Some row \<Rightarrow> AList.update run_id (f row) (ct_run t))"
  by (simp add: update_canonical_run_def split: option.split)

lemma run_row_effects [simp]:
  "extends t (update_canonical_run run_id f t)" "extends t (run_failed run_id e t)"
  "extends t (open_canonical_run run_id pid t)"
  by (simp_all add: extends_def update_canonical_run_def run_failed_def open_canonical_run_def
      split: option.split)

lemma run_row_backed [simp]:
  "manifest_backed P (update_canonical_run run_id f t) = manifest_backed P t"
  "manifest_backed P (run_failed run_id e t) = manifest_backed P t"
  "manifest_backed P (open_canonical_run run_id pid t) = manifest_backed P t"
  by (simp_all add: manifest_backed_def item_backed_def bundle_stored_def document_stored_def
      block_stored_def revision_stored_def claim_stored_def update_canonical_run_def run_failed_def
      open_canonical_run_def split: option.split)

lemma close_effect:
  assumes "close_canonical_run P run_id pid source ids items n t = (res, t')"
  shows "extends t t'" and "manifest_backed P t' = manifest_backed P t"
  using assms by (auto simp: close_canonical_run_def Let_def split: if_splits)

lemma assemble_inputs_effect:
  assumes "assemble_inputs P ft run_id pid source inputs ids t = (res, t')"
  shows "extends t t' \<and> (manifest_backed P t \<longrightarrow> manifest_backed P t')"
proof -
  obtain r v where v: "assemble_items P ft run_id 0 (item_groups P inputs) t = (r, v)" by fastforce
  note step = assemble_items_effect [OF v]
  show ?thesis
  proof (cases r)
    case (Inl e)
    then show ?thesis using assms v step by (simp add: assemble_inputs_def abind_def Let_def)
  next
    case (Inr m)
    then have "close_canonical_run P run_id pid source ids (length (item_groups P inputs)) m v = (res, t')"
      using assms v by (simp add: assemble_inputs_def abind_def Let_def)
    from close_effect [OF this] show ?thesis using step extends_trans by blast
  qed
qed

section \<open>Reachable states\<close>

definition empty_canonical :: canonical_tables where
  "empty_canonical = \<lparr>ct_document = [], ct_document_observation = [], ct_text_block = [],
     ct_entity = [], ct_evidence_span = [], ct_revision = [], ct_revision_document = [],
     ct_field_evidence = [], ct_extraction = [], ct_requirement_claim = [], ct_claim_evidence = [],
     ct_run = [], ct_assembly_item = [], ct_assembly_input = [], ct_assembly_revision = []\<rparr>"

text \<open>
  Any runs of the assembly, each at its own time: the fetch tables, the raw files, the rights and the
  staging tables may have changed in between, and other callers may have saved bundles.
\<close>

inductive assembly_reachable :: "pyenv \<Rightarrow> assembly_state \<Rightarrow> bool" for P where
  empty: "assembly_reachable P \<lparr>as_staging = sg, as_canonical = empty_canonical\<rparr>"
| run: "assembly_reachable P s \<Longrightarrow>
    assembly_reachable P (snd (assemble_run P rights_of locked busy ft fs pid s))"
| staging: "assembly_reachable P s \<Longrightarrow> assembly_reachable P (s\<lparr>as_staging := sg\<rparr>)"
| save: "assembly_reachable P s \<Longrightarrow> store_save P ft b bindings (as_canonical s) = Inr t
    \<Longrightarrow> assembly_reachable P (s\<lparr>as_canonical := t\<rparr>)"

lemma assemble_run_effect:
  "extends (as_canonical s) (as_canonical (snd (assemble_run P rights_of locked busy ft fs pid s)))
   \<and> (manifest_backed P (as_canonical s) \<longrightarrow>
        manifest_backed P (as_canonical (snd (assemble_run P rights_of locked busy ft fs pid s))))"
proof (cases "locked \<or> isl (fst (verified_inputs P rights_of busy ft fs pid (as_staging s)))")
  case True
  then show ?thesis
    by (auto simp: assemble_run_def Let_def split: prod.splits sum.splits)
next
  case False
  then obtain verified inputs ids sg where v:
    "verified_inputs P rights_of busy ft fs pid (as_staging s) = (Inr (verified, inputs, ids), sg)"
    by (metis isl_def prod_cases3 prod.collapse sum.exhaust)
  let ?id = "canonical_run_id P pid"
  obtain res t where r: "assemble_inputs P ft ?id pid (su_source_id verified) inputs ids
      (open_canonical_run ?id pid (as_canonical s)) = (res, t)" by fastforce
  have "extends (as_canonical s) t" "manifest_backed P (as_canonical s) \<longrightarrow> manifest_backed P t"
    using assemble_inputs_effect [OF r] extends_trans [of "as_canonical s"
      "open_canonical_run ?id pid (as_canonical s)" t] by auto
  then show ?thesis
    using v r False extends_trans [of "as_canonical s" t]
    by (auto simp: assemble_run_def Let_def split: sum.splits)
qed

lemma store_save_backed:
  assumes "store_save P ft b bindings t = Inr t'" and "manifest_backed P t"
  shows "manifest_backed P t'"
proof -
  have g: "grows t t'" using store_save_Inr [OF assms(1)] by simp
  then have "ct_assembly_item t' = ct_assembly_item t" by (simp add: grows_def)
  then show ?thesis
    using assms(2) item_backed_mono [OF grows_extends [OF g]] unfolding manifest_backed_def by metis
qed

text \<open>
  No run of the assembly changes what is stored. Whatever its outcome, refused, failed half way
  or finished, every document, text block, entity, span, revision, extraction and claim that was in
  the canonical tables is there afterwards, unchanged, and so is every row of the manifests.
\<close>

theorem assembly_keeps_records:
  "extends (as_canonical s) (as_canonical (snd (assemble_run P rights_of locked busy ft fs pid s)))"
  using assemble_run_effect by blast

text \<open>
  C11: The manifests never promise what is not stored. In every state that runs of the assembly and
  other saves can reach, interrupted runs included, a manifest row \<open>(run, item)\<close> with a hash stands for an accepted bundle with
  that hash whose documents, entities, spans, revisions, extractions and claims are all stored with
  their evidence links, and whose documents and revisions are in the manifests of the run.
\<close>

theorem manifests_backed: "assembly_reachable P s \<Longrightarrow> manifest_backed P (as_canonical s)"
proof (induction rule: assembly_reachable.induct)
  case (empty sg)
  then show ?case by (simp add: manifest_backed_def empty_canonical_def)
next
  case run
  then show ?case using assemble_run_effect by blast
next
  case staging
  then show ?case by simp
next
  case save
  then show ?case using store_save_backed by simp
qed

theorem manifests_backed_witness:
  "\<forall>sg rights_of ft fs pid. manifest_backed const_env (as_canonical (snd (assemble_run const_env
     rights_of False False ft fs pid \<lparr>as_staging = sg, as_canonical = empty_canonical\<rparr>)))"
  using manifests_backed [OF assembly_reachable.run [OF assembly_reachable.empty]] by blast

section \<open>Outcomes\<close>

lemma item_groups_mem:
  assumes "i \<in> set inputs"
  shows "(item_key P i, filter (\<lambda>j. item_key P j = item_key P i) inputs) \<in> set (item_groups P inputs)"
proof -
  have "map_of (group_by (item_key P) inputs) (item_key P i)
      = Some (filter (\<lambda>j. item_key P j = item_key P i) inputs)"
    using assms by (simp add: map_of_group_by)
  then show ?thesis by (simp add: item_groups_def map_of_SomeD)
qed

lemma open_run_row: "map_of (ct_run (open_canonical_run run_id pid t)) run_id \<noteq> None"
  by (simp add: open_canonical_run_def update_conv')

lemma run_failed_row:
  "map_of (ct_run (run_failed run_id e t)) run_id = map_option (\<lambda>row. row\<lparr>cn_state := P_failed,
     cn_error_code := Some (take 100 (processing_code e)), cn_completed := True\<rparr>) (map_of (ct_run t) run_id)"
  by (auto simp: run_failed_def ct_run_update update_conv' split: option.split)

text \<open>A loop that ends well, and the closing of the run.\<close>

lemma assemble_inputs_Inr:
  assumes "assemble_inputs P ft run_id pid source inputs ids t = (Inr summary, t')"
  obtains n v where "assemble_items P ft run_id 0 (item_groups P inputs) t = (Inr n, v)"
    "run_input_ids v run_id = ids"
    "summary = canonical_summary P run_id pid source ids (length (item_groups P inputs)) n v"
    "t' = update_canonical_run run_id (\<lambda>row. row\<lparr>cn_state := P_ready, cn_completed := True,
       cn_summary := Some summary\<rparr>) v"
  using assms
  by (auto simp: assemble_inputs_def abind_Inr_iff close_canonical_run_def Let_def
      processing_error_def split: if_splits)

text \<open>What the row of the run says when the call returns.\<close>

definition run_row_tells :: "ustr \<Rightarrow> exn + json \<Rightarrow> canonical_tables \<Rightarrow> bool" where
  "run_row_tells run_id res t \<longleftrightarrow> (case (res, map_of (ct_run t) run_id) of
     (Inl e, None) \<Rightarrow> True
   | (Inl e, Some row) \<Rightarrow> cn_state row = P_failed \<and> cn_completed row
       \<and> cn_error_code row = Some (take 100 (processing_code e))
   | (Inr summary, None) \<Rightarrow> False
   | (Inr summary, Some row) \<Rightarrow> cn_state row = P_ready \<and> cn_completed row
       \<and> cn_error_code row = None \<and> cn_summary row = Some summary)"

text \<open>Every verified record is in an item of the run whose bundle is in the manifest.\<close>

definition inputs_assembled ::
    "pyenv \<Rightarrow> ustr \<Rightarrow> staged_occurrence list \<Rightarrow> canonical_tables \<Rightarrow> bool" where
  "inputs_assembled P run_id inputs t \<longleftrightarrow>
     run_input_ids t run_id = sorted_set (map so_revision_id inputs)
     \<and> (\<forall>i \<in> set inputs. \<exists>b. assemble P (filter (\<lambda>j. item_key P j = item_key P i) inputs) = Inr b
          \<and> map_of (ct_assembly_item t) (run_id, item_key P i) = Some (digest P (bundle_json b)))"

lemma items_keep_row:
  assumes "assemble_items P ft run_id 0 items (open_canonical_run run_id pid t) = (res, v)"
  obtains row where "map_of (ct_run v) run_id = Some row" "cn_error_code row = None"
  using assemble_items_effect [OF assms] that
  by (auto simp: open_canonical_run_def update_conv' split: option.splits)

lemma assemble_inputs_outcome:
  assumes run: "assemble_inputs P ft run_id pid source inputs ids (open_canonical_run run_id pid t)
      = (Inr summary, t')" and ids: "ids = sorted_set (map so_revision_id inputs)"
  shows "run_row_tells run_id (Inr summary) t'" and "inputs_assembled P run_id inputs t'"
proof -
  obtain n v where v: "assemble_items P ft run_id 0 (item_groups P inputs)
      (open_canonical_run run_id pid t) = (Inr n, v)" "run_input_ids v run_id = ids"
    and t': "t' = update_canonical_run run_id (\<lambda>row. row\<lparr>cn_state := P_ready, cn_completed := True,
       cn_summary := Some summary\<rparr>) v"
    using assemble_inputs_Inr [OF run] by metis
  obtain row where row: "map_of (ct_run v) run_id = Some row" "cn_error_code row = None"
    using items_keep_row [OF v(1)] .
  then show "run_row_tells run_id (Inr summary) t'"
    by (simp add: run_row_tells_def t' ct_run_update update_conv')
  have same: "ct_assembly_item t' = ct_assembly_item v" "run_input_ids t' run_id = run_input_ids v run_id"
    by (simp_all add: t' update_canonical_run_def run_input_ids_def split: option.split)
  have "item_recorded P run_id item v" if "item \<in> set (item_groups P inputs)" for item
    using assemble_items_recorded [OF v(1)] that by blast
  from this [OF item_groups_mem]
  show "inputs_assembled P run_id inputs t'"
    using v(2) ids by (auto simp: inputs_assembled_def item_recorded_def same)
qed

lemma verified_inputs_ids:
  "verified_inputs P rights_of busy ft fs pid sg = (Inr (verified, inputs, ids), sg')
   \<Longrightarrow> ids = sorted_set (map so_revision_id inputs)
     \<and> length ids = su_records verified \<and> digest P (JArr (map JStr ids)) = su_content_set_hash verified"
  by (auto simp: verified_inputs_def abind_Inr_iff processing_error_def Let_def rbind_Inr_iff
      split: option.splits if_splits)

text \<open>
  C28: A run of the assembly says truthfully how it ended. Unless another assembly of the same run
  holds the lock, in which case nothing changes, a failure leaves the run's row, where there is one,
  FAILED with the code of the error; a success leaves it READY with the summary that is returned, the
  inputs in the manifest are exactly the records the processing run verified (as many as its summary
  counts and with its hash), and each of them is in an item, assembled with all the records of the
  same key, whose bundle's hash is in the manifest.
\<close>

theorem assembly_outcome:
  "case assemble_run P rights_of locked busy ft fs pid s of
     (Inl e, s') \<Rightarrow> if locked then e = Exn ProcessingError (u ''PIPELINE_BUSY'') \<and> s' = s
        else run_row_tells (canonical_run_id P pid) (Inl e) (as_canonical s')
   | (Inr summary, s') \<Rightarrow> \<not> locked \<and> run_row_tells (canonical_run_id P pid) (Inr summary) (as_canonical s')
        \<and> (\<exists>verified inputs ids. verified_inputs P rights_of busy ft fs pid (as_staging s)
              = (Inr (verified, inputs, ids), as_staging s')
            \<and> length ids = su_records verified
            \<and> digest P (JArr (map JStr ids)) = su_content_set_hash verified
            \<and> run_input_ids (as_canonical s') (canonical_run_id P pid) = ids
            \<and> inputs_assembled P (canonical_run_id P pid) inputs (as_canonical s'))"
proof (cases locked)
  case True
  then show ?thesis by (simp add: assemble_run_def processing_error_def)
next
  case unlocked: False
  let ?id = "canonical_run_id P pid"
  obtain r sg where v: "verified_inputs P rights_of busy ft fs pid (as_staging s) = (r, sg)" by fastforce
  show ?thesis
  proof (cases r)
    case (Inl e)
    then show ?thesis
      using unlocked v
      by (auto simp: assemble_run_def Let_def run_row_tells_def run_failed_row split: option.split)
  next
    case (Inr x)
    obtain verified inputs ids where x: "x = (verified, inputs, ids)" by (cases x)
    note ids = verified_inputs_ids [OF v [unfolded Inr x]]
    obtain res t where run: "assemble_inputs P ft ?id pid (su_source_id verified) inputs ids
        (open_canonical_run ?id pid (as_canonical s)) = (res, t)" by fastforce
    show ?thesis
    proof (cases res)
      case (Inl e)
      then show ?thesis
        using unlocked v run \<open>r = Inr x\<close> x
        by (auto simp: assemble_run_def Let_def run_row_tells_def run_failed_row split: option.split)
    next
      case (Inr summary)
      note out = assemble_inputs_outcome [OF run [unfolded Inr] conjunct1 [OF ids]]
      then show ?thesis
        using unlocked v run \<open>r = Inr x\<close> x Inr ids
        by (auto simp: assemble_run_def Let_def inputs_assembled_def)
    qed
  qed
qed

text \<open>
  An assembly can be repeated. A second pass over the inputs of a run that finished, whatever the
  fetch tables are by then, reuses every item, saves nothing, finds the same input manifest, and
  writes only the row of the run: its summary counts all the items as reused and repeats the
  revisions, their counts and the hashes.
\<close>

theorem assembly_resumes:
  assumes "assemble_inputs P ft run_id pid source inputs ids t = (Inr summary, t')"
  defines "n \<equiv> length (item_groups P inputs)"
  shows "assemble_inputs P ft' run_id pid source inputs ids (open_canonical_run run_id pid t')
    = (Inr (canonical_summary P run_id pid source ids n n t'),
       update_canonical_run run_id (\<lambda>row. row\<lparr>cn_state := P_ready, cn_completed := True,
         cn_summary := Some (canonical_summary P run_id pid source ids n n t')\<rparr>)
         (open_canonical_run run_id pid t'))"
proof -
  obtain m v where v: "assemble_items P ft run_id 0 (item_groups P inputs) t = (Inr m, v)"
    "run_input_ids v run_id = ids"
    and t': "t' = update_canonical_run run_id (\<lambda>row. row\<lparr>cn_state := P_ready, cn_completed := True,
       cn_summary := Some summary\<rparr>) v"
    using assemble_inputs_Inr [OF assms(1)] by metis
  let ?t = "open_canonical_run run_id pid t'"
  have same: "ct_assembly_item ?t = ct_assembly_item v" "ct_assembly_input ?t = ct_assembly_input v"
    by (simp_all add: t' open_canonical_run_def update_canonical_run_def split: option.split)
  have "item_recorded P run_id item ?t" if "item \<in> set (item_groups P inputs)" for item
    using assemble_items_recorded [OF v(1)] that by (auto simp: item_recorded_def same)
  then have "assemble_items P ft' run_id 0 (item_groups P inputs) ?t = (Inr n, ?t)"
    using recorded_items_reused [of "item_groups P inputs" P run_id ?t ft' 0] by (simp add: n_def)
  moreover have "run_input_ids ?t run_id = ids"
    using v(2) by (simp add: run_input_ids_def same)
  moreover have "canonical_summary P run_id pid source ids n n ?t
      = canonical_summary P run_id pid source ids n n t'"
    by (simp add: canonical_summary_def run_revision_ids_def revision_counts_def open_canonical_run_def)
  ultimately show ?thesis
    by (simp add: assemble_inputs_def abind_def close_canonical_run_def n_def Let_def)
qed

section \<open>A run over one record\<close>

definition mapping_item :: staged_occurrence where
  "mapping_item = \<lparr>so_revision_id = u ''rev1'', so_source_id = u ''ncs'',
     so_snapshot_id = u ''snap1'', so_locator = u ''/items/0'', so_parser_version = processor_version,
     so_record = \<lparr>rc_source_record_id = u ''77'', rc_source_payload = [],
       rc_normalized = QualificationMapping \<lparr>qm_competency_code = u ''c'',
         qm_qualification_code = u ''77'', qm_qualification_name = u ''Cook'',
         qm_standard_version = u ''1'', qm_unit_type = u ''t'', qm_minimum_training_hours = None,
         qm_total_training_hours = None, qm_examining_organization = None\<rparr>,
       rc_field_lineage = [(u ''qualification_name'', [u ''/nm''])],
       rc_texts = [(u ''/nm'', \<lparr>ta_text = u ''Cook'', ta_sha256 = replicate 64 48,
         ta_normalization_version = text_version\<rparr>)], rc_quality_flags = []\<rparr>,
     so_observation_ids = [u ''obs1'']\<rparr>"

definition mapping_fetch :: fetch_tables where
  "mapping_fetch = \<lparr>tb_connector_run = [], tb_connector_request = [],
     tb_source_snapshot = [\<lparr>sn_snapshot_id = u ''snap1'', sn_source_id = u ''ncs'',
       sn_content_sha256 = u ''h'', sn_byte_length = 1, sn_mime_type = u ''m'',
       sn_raw_object_path = u ''p'', sn_first_observed_at = 0\<rparr>],
     tb_fetch_observation = [\<lparr>at_observation_id = u ''obs1'', at_connector_run_id = u ''run1'',
       at_source_id = u ''ncs'', at_request_fingerprint = u ''f'', at_partition_id = u ''p'',
       at_page_number = None, at_response_ordinal = 1, at_attempt_no = 1, at_requested_at = 0,
       at_retrieved_at = 0, at_http_status = Some 200, at_request_url_redacted = u ''u'',
       at_response_headers = [], at_outcome = SELECTED_SUCCESS, at_error_code = None,
       at_snapshot_id = Some (u ''snap1''), at_selected = True\<rparr>]\<rparr>"


lemma mapping_assembles: "isok (fst (assemble_inputs const_env mapping_fetch (u ''a'') (u ''p'')
    (u ''ncs'') [mapping_item] [u ''rev1''] empty_canonical))"
  by code_simp

theorem assembly_resumes_witness:
  "\<exists>summary t'. assemble_inputs const_env mapping_fetch (u ''a'') (u ''p'') (u ''ncs'')
        [mapping_item] [u ''rev1''] empty_canonical = (Inr summary, t')
     \<and> (\<forall>ft'. isok (fst (assemble_inputs const_env ft' (u ''a'') (u ''p'') (u ''ncs'')
          [mapping_item] [u ''rev1''] (open_canonical_run (u ''a'') (u ''p'') t'))))"
proof -
  obtain summary t' where run: "assemble_inputs const_env mapping_fetch (u ''a'') (u ''p'')
      (u ''ncs'') [mapping_item] [u ''rev1''] empty_canonical = (Inr summary, t')"
    using mapping_assembles by (metis isok_iff prod.collapse)
  then show ?thesis using assembly_resumes [OF run] by (auto simp: isok_iff)
qed

end
