(* ===== verification/Telemetry.thy ===== *)
theory Telemetry
  imports Queue "HOL-Library.List_Lexorder"
begin

text \<open>
  \<open>admin/telemetry.py\<close>: from what the ledger and the graph answered to the dashboard, the fixed
  diagnostics of a failure, and the cache. The queries themselves run in PostgreSQL and Neo4j; their
  rows are arguments. Times are the texts of \<open>isoformat\<close>.
\<close>

section \<open>Services\<close>

record service_status =
  sv_id :: ustr
  sv_label :: ustr
  sv_status :: ustr
  sv_message :: ustr
  sv_checked_at :: ustr
  sv_error_code :: "ustr option"

definition service :: "ustr \<Rightarrow> ustr \<Rightarrow> string \<Rightarrow> string \<Rightarrow> string \<Rightarrow> service_status" where
  "service timestamp service_id label status message =
     \<lparr>sv_id = service_id, sv_label = u label, sv_status = u status, sv_message = u message,
      sv_checked_at = timestamp, sv_error_code = None\<rparr>"

text \<open>What a driver's exception shows: its codes, its text in lower case, and whether it is a \<open>TimeoutError\<close>.\<close>

record driver_error =
  de_sqlstate :: ustr
  de_code :: ustr
  de_text :: ustr
  de_timeout :: bool

definition timeout_codes :: "ustr list" where
  "timeout_codes = [u ''Neo.ClientError.Transaction.TransactionTimedOut'',
     u ''Neo.ClientError.Transaction.TransactionTimedOutClientConfiguration'',
     u ''Neo.TransientError.Transaction.TransactionTimedOut'',
     u ''Neo.TransientError.Statement.ExecutionTimeout'']"

definition failure_reason :: "driver_error \<Rightarrow> string \<times> string" where
  "failure_reason e =
     (if starts_with (u ''28'') (de_sqlstate e)
         \<or> contains (u ''password authentication failed'') (de_text e)
         \<or> de_code e \<in> {u ''Neo.ClientError.Security.Unauthorized'',
             u ''Neo.ClientError.Security.CredentialsExpired''}
      then (''authentication_failed'',
        ''Authentication failed. Repair the configured read-only service credentials.'')
      else if de_sqlstate e = u ''42501'' \<or> contains (u ''Forbidden'') (de_code e)
      then (''permission_denied'',
        ''Read permission denied. Verify the dedicated telemetry reader grants.'')
      else if de_sqlstate e \<in> {u ''42P01'', u ''42703''}
      then (''schema_mismatch'',
        ''Telemetry schema is unavailable. Verify the installed ingestion schema.'')
      else if de_sqlstate e = u ''57014'' \<or> de_timeout e \<or> de_code e \<in> set timeout_codes
      then (''query_timeout'', ''The bounded telemetry query timed out.'')
      else (''connection_or_query_failed'',
        ''Connection or bounded telemetry query failed. Check server configuration.''))"

definition telemetry_failure :: "ustr \<Rightarrow> driver_error \<Rightarrow> ustr \<Rightarrow> service_status" where
  "telemetry_failure timestamp e target =
     (case failure_reason e of (reason, message) \<Rightarrow>
        (service timestamp target (if target = u ''postgres'' then ''PostgreSQL'' else ''Neo4j'')
           ''unavailable'' message)\<lparr>sv_error_code := Some (u reason)\<rparr>)"

section \<open>What was read\<close>

definition console_sources :: "(ustr \<times> ustr) list" where
  "console_sources = [(u ''jobkorea'', u ''JobKorea''), (u ''nara_job'', u ''Nara''),
     (u ''job_alio'', u ''JOB-ALIO''), (u ''alio_organization'', u ''ALIO organizations''),
     (u ''ncs_competency'', u ''NCS competencies''),
     (u ''ncs_qualification'', u ''NCS qualifications''),
     (u ''ncs_career_path'', u ''NCS career paths''), (u ''qnet_schedule'', u ''Q-Net schedule'')]"

record source_reading =
  sr_source_id :: ustr
  sr_enabled :: bool
  sr_last_run_id :: "ustr option"
  sr_last_run_state :: "ustr option"
  sr_last_success_at :: "ustr option"
  sr_records :: "int option"
  sr_graph_state :: "ustr option"
  sr_next_due_at :: "ustr option"

record run_reading =
  rr_id :: ustr
  rr_source_id :: ustr
  rr_operation :: ustr
  rr_state :: ustr
  rr_started_at :: "ustr option"
  rr_finished_at :: "ustr option"

record ledger_rows =
  lr_sources :: "source_reading list"
  lr_runs :: "run_reading list"
  lr_active_runs :: int
  lr_failed_runs_24h :: int

record inference_count =
  ic_kind :: ustr
  ic_total :: "int option"
  ic_reviewed :: "int option"
  ic_unreviewed :: "int option"

record graph_rows =
  gw_totals :: "(int \<times> int) list"
  gw_node_counts :: "(ustr \<times> int) list"
  gw_relationship_counts :: "(ustr \<times> int) list"
  gw_postings_by_source :: "(ustr \<times> int) list"
  gw_inference :: "inference_count list"

text \<open>\<open>ledger\<close> and \<open>graph\<close>: not configured, an error, or rows; then the other keys are missing.\<close>

datatype 'r answer = Not_configured | Failed driver_error | Rows 'r

definition ledger_service :: "ustr \<Rightarrow> ledger_rows answer \<Rightarrow> service_status" where
  "ledger_service timestamp a =
     (case a of
        Not_configured \<Rightarrow> service timestamp (u ''postgres'') ''PostgreSQL'' ''not_configured''
          ''Ledger connection is not configured.''
      | Failed e \<Rightarrow> telemetry_failure timestamp e (u ''postgres'')
      | Rows _ \<Rightarrow> service timestamp (u ''postgres'') ''PostgreSQL'' ''healthy''
          ''Native ingestion ledger available.'')"

definition graph_service :: "ustr \<Rightarrow> graph_rows answer \<Rightarrow> service_status" where
  "graph_service timestamp a =
     (case a of
        Not_configured \<Rightarrow> service timestamp (u ''neo4j'') ''Neo4j'' ''not_configured''
          ''Graph connection is not configured.''
      | Failed e \<Rightarrow> telemetry_failure timestamp e (u ''neo4j'')
      | Rows _ \<Rightarrow> service timestamp (u ''neo4j'') ''Neo4j'' ''healthy'' ''Actual graph counts available.'')"

definition rows_of :: "'r answer \<Rightarrow> 'r option" where
  "rows_of a = (case a of Rows r \<Rightarrow> Some r | _ \<Rightarrow> None)"

section \<open>The dashboard\<close>

record source_card =
  sc_id :: ustr
  sc_name :: ustr
  sc_mode :: ustr
  sc_state :: ustr
  sc_last_success_at :: "ustr option"
  sc_last_run_id :: "ustr option"
  sc_last_run_state :: "ustr option"
  sc_records :: "int option"
  sc_postings :: "int option"
  sc_graph_state :: "ustr option"
  sc_next_due_at :: "ustr option"

definition empty_source :: "ustr \<times> ustr \<Rightarrow> source_card" where
  "empty_source src =
     \<lparr>sc_id = fst src, sc_name = snd src,
      sc_mode = (if fst src = u ''jobkorea'' then u ''LOCAL_ONLY'' else u ''SCHEDULED''),
      sc_state = u ''UNKNOWN'', sc_last_success_at = None, sc_last_run_id = None,
      sc_last_run_state = None, sc_records = None, sc_postings = None, sc_graph_state = None,
      sc_next_due_at = None\<rparr>"

definition read_card :: "source_reading \<Rightarrow> source_card \<Rightarrow> source_card" where
  "read_card row entry = entry\<lparr>
     sc_state := (case sr_last_run_state row of None \<Rightarrow> u ''NOT_LOADED''
       | Some st \<Rightarrow> if st = [] then u ''NOT_LOADED'' else st),
     sc_last_success_at := sr_last_success_at row, sc_last_run_id := sr_last_run_id row,
     sc_last_run_state := sr_last_run_state row, sc_records := sr_records row,
     sc_graph_state := sr_graph_state row, sc_next_due_at := sr_next_due_at row\<rparr>"

definition apply_reading :: "source_card list \<Rightarrow> source_reading \<Rightarrow> source_card list" where
  "apply_reading cards row =
     map (\<lambda>entry. if sc_id entry = sr_source_id row then read_card row entry else entry) cards"

definition posting_sources :: "ustr list" where
  "posting_sources = [u ''jobkorea'', u ''nara_job'', u ''job_alio'']"

definition count_postings :: "(ustr \<times> int) list \<Rightarrow> source_card \<Rightarrow> source_card" where
  "count_postings rows entry =
     (if sc_id entry \<in> set posting_sources
      then entry\<lparr>sc_postings := Some (sum_list (map snd (filter (\<lambda>(i, _). i = sc_id entry) rows)))\<rparr>
      else entry)"

definition source_cards :: "ledger_rows option \<Rightarrow> graph_rows option \<Rightarrow> source_card list" where
  "source_cards l g =
     (let cards = map empty_source console_sources;
          seen = (case l of None \<Rightarrow> cards | Some rows \<Rightarrow> foldl apply_reading cards (lr_sources rows))
      in (case g of None \<Rightarrow> seen | Some rows \<Rightarrow> map (count_postings (gw_postings_by_source rows)) seen))"

text \<open>A run with the name of its source; \<open>records\<close>, \<open>progress\<close> and \<open>message\<close> are always null.\<close>

definition shown_source_name :: "ustr \<Rightarrow> ustr" where
  "shown_source_name source_id = (case map_of console_sources source_id of None \<Rightarrow> source_id | Some n \<Rightarrow> n)"

text \<open>\<open>sort(key=..., reverse=True)\<close> keeps the order of equal keys.\<close>

definition recent_runs :: "run_reading list \<Rightarrow> (run_reading \<times> ustr) list" where
  "recent_runs runs =
     take 30 (rev (sort_key (\<lambda>(r, _). case rr_started_at r of None \<Rightarrow> [] | Some t \<Rightarrow> t)
       (rev (map (\<lambda>r. (r, shown_source_name (rr_source_id r))) runs))))"

record console_summary =
  sm_source_postings :: "int option"
  sm_total_nodes :: "int option"
  sm_total_relationships :: "int option"
  sm_active_runs :: "int option"
  sm_failed_runs_24h :: "int option"
  sm_ready_sources :: "nat option"
  sm_configured_sources :: "nat option"

definition summary_of :: "ledger_rows option \<Rightarrow> graph_rows option \<Rightarrow> console_summary" where
  "summary_of l g =
     (let totals = Option.bind g (\<lambda>rows. case gw_totals rows of [] \<Rightarrow> None | t # _ \<Rightarrow> Some t)
      in \<lparr>sm_source_postings = map_option (\<lambda>rows. sum_list (map snd (gw_postings_by_source rows))) g,
          sm_total_nodes = map_option fst totals, sm_total_relationships = map_option snd totals,
          sm_active_runs = map_option lr_active_runs l,
          sm_failed_runs_24h = map_option lr_failed_runs_24h l,
          sm_ready_sources = map_option (\<lambda>_.
            length (filter (\<lambda>c. sc_last_success_at c \<noteq> None) (source_cards l g))) l,
          sm_configured_sources = map_option (\<lambda>rows.
            length (filter (\<lambda>row. sr_enabled row \<and> sr_source_id row \<in> fst ` set console_sources)
              (lr_sources rows))) l\<rparr>)"

definition inference_kinds :: "ustr list" where
  "inference_kinds = [u ''INFERRED_NCS_OCCUPATION'', u ''INFERRED_ONET_OCCUPATION'']"

definition inference_of :: "graph_rows option \<Rightarrow> ustr \<Rightarrow> inference_count" where
  "inference_of g kind =
     (let rows = (case g of None \<Rightarrow> [] | Some r \<Rightarrow> gw_inference r);
          none = (if g = None then None else Some 0)
      in (case find (\<lambda>r. ic_kind r = kind) (rev rows) of
            Some r \<Rightarrow> r
          | None \<Rightarrow> \<lparr>ic_kind = kind, ic_total = none, ic_reviewed = none, ic_unreviewed = none\<rparr>))"

text \<open>An action as the console shows it, and a notice.\<close>

record action_card =
  ac_id :: ustr
  ac_label :: ustr
  ac_description :: ustr
  ac_kind :: ustr
  ac_enabled :: bool
  ac_disabled_reason :: "ustr option"

record dashboard =
  db_services :: "service_status list"
  db_summary :: console_summary
  db_sources :: "source_card list"
  db_runs :: "(run_reading \<times> ustr) list"
  db_graph_status :: ustr
  db_node_counts :: "(ustr \<times> int) list"
  db_relationship_counts :: "(ustr \<times> int) list"
  db_postings_by_source :: "(ustr \<times> int) list"
  db_inference :: "inference_count list"
  db_actions :: "action_card list"
  db_jobs :: "public_job list"
  db_notices :: "ustr list"

definition dashboard_from_results :: "ustr \<Rightarrow> ledger_rows answer \<Rightarrow> graph_rows answer \<Rightarrow> dashboard" where
  "dashboard_from_results timestamp ledger graph =
     (let l = rows_of ledger; g = rows_of graph in
      \<lparr>db_services = [ledger_service timestamp ledger, graph_service timestamp graph],
       db_summary = summary_of l g, db_sources = source_cards l g,
       db_runs = recent_runs (case l of None \<Rightarrow> [] | Some rows \<Rightarrow> lr_runs rows),
       db_graph_status = sv_status (graph_service timestamp graph),
       db_node_counts = (case g of None \<Rightarrow> [] | Some rows \<Rightarrow> gw_node_counts rows),
       db_relationship_counts = (case g of None \<Rightarrow> [] | Some rows \<Rightarrow> gw_relationship_counts rows),
       db_postings_by_source = (case g of None \<Rightarrow> [] | Some rows \<Rightarrow> gw_postings_by_source rows),
       db_inference = map (inference_of g) inference_kinds,
       db_actions = [], db_jobs = [],
       db_notices = [u ''Evidence boundaries'', u ''Ledger status'']\<rparr>)"

section \<open>The cache\<close>

record 'v cache =
  ca_value :: "'v option"
  ca_loaded_at :: rat

definition empty_cache :: "'v cache" where
  "empty_cache = \<lparr>ca_value = None, ca_loaded_at = 0\<rparr>"

text \<open>
  \<open>get\<close> at the reading \<open>t\<close>: a collection that fails raises (\<open>None\<close>) and leaves the cache alone, one that
  succeeds is dated at the reading \<open>t'\<close> after it.
\<close>

definition cache_due :: "rat \<Rightarrow> bool \<Rightarrow> rat \<Rightarrow> 'v cache \<Rightarrow> bool" where
  "cache_due ttl refresh t c \<longleftrightarrow>
     ca_value c = None \<or> (if refresh then 5 else ttl) \<le> t - ca_loaded_at c"

definition cache_get ::
    "rat \<Rightarrow> bool \<Rightarrow> rat \<Rightarrow> rat \<Rightarrow> 'v option \<Rightarrow> 'v cache \<Rightarrow> 'v option \<times> 'v cache" where
  "cache_get ttl refresh t t' collected c =
     (if cache_due ttl refresh t c
      then (case collected of
              None \<Rightarrow> (None, c)
            | Some v \<Rightarrow> (Some v, \<lparr>ca_value = Some v, ca_loaded_at = t'\<rparr>))
      else (ca_value c, c))"

end
