(* ===== verification/Auth.thy ===== *)
theory Auth
  imports AdminConfig
begin

text \<open>
  The settings of the admin console (\<open>admin/config.py\<close>), its signed session cookies and its bound on
  login attempts (\<open>admin/auth.py\<close>). SHA-256, HMAC and \<open>json\<close> are parameters; base64 is written out.
  The clocks and the random bytes are arguments.
\<close>

section \<open>Settings\<close>

datatype console_mode = Live | Demo

record admin_settings =
  am_username :: ustr
  am_password :: ustr
  am_secret :: ustr
  am_mode :: console_mode
  am_cookie_secure :: bool
  am_session_seconds :: int
  am_allowed_origins :: ustr
  am_neo4j_uri :: "ustr option"
  am_query_timeout_seconds :: rat
  am_cache_seconds :: int
  am_actions_file :: "ustr option"
  am_controls_enabled :: bool
  am_application_api_url :: "ustr option"
  am_application_api_token :: "ustr option"
  am_worker_stale_seconds :: int

definition neo4j_schemes :: "ustr list" where
  "neo4j_schemes = [u ''bolt://'', u ''bolt+s://'', u ''bolt+ssc://'', u ''neo4j://'', u ''neo4j+s://'',
     u ''neo4j+ssc://'']"

text \<open>An origin: a scheme and a host, nothing else.\<close>

definition api_origin_ok :: "urlparts \<Rightarrow> bool" where
  "api_origin_ok p \<longleftrightarrow> up_scheme p \<in> {u ''http'', u ''https''}
     \<and> up_hostname p \<notin> {None, Some []} \<and> up_username p \<in> {None, Some []}
     \<and> up_password p \<in> {None, Some []} \<and> up_path p \<in> {[], [47]}
     \<and> up_query p = [] \<and> up_fragment p = []"

definition require_secrets :: "pyenv \<Rightarrow> admin_settings \<Rightarrow> bool" where
  "require_secrets P s \<longleftrightarrow> 8 \<le> length (am_password s) \<and> 32 \<le> length (am_secret s)
     \<and> (case am_neo4j_uri s of None \<Rightarrow> True
         | Some uri \<Rightarrow> uri = [] \<or> list_ex (\<lambda>p. starts_with p uri) neo4j_schemes)
     \<and> (case am_application_api_token s of None \<Rightarrow> True | Some t \<Rightarrow> t = [] \<or> 32 \<le> length t)
     \<and> (case am_application_api_url s of None \<Rightarrow> True
         | Some url \<Rightarrow> url = [] \<or> (case urlsplit P url of None \<Rightarrow> False | Some p \<Rightarrow> api_origin_ok p))"

definition admin_settings_check :: "pyenv \<Rightarrow> admin_settings \<Rightarrow> bool" where
  "admin_settings_check P s \<longleftrightarrow> 1 \<le> length (am_username s) \<and> length (am_username s) \<le> 128
     \<and> 300 \<le> am_session_seconds s \<and> am_session_seconds s \<le> 86400
     \<and> 1 / 5 \<le> am_query_timeout_seconds s \<and> am_query_timeout_seconds s \<le> 15
     \<and> 5 \<le> am_cache_seconds s \<and> am_cache_seconds s \<le> 300
     \<and> 15 \<le> am_worker_stale_seconds s \<and> am_worker_stale_seconds s \<le> 300
     \<and> require_secrets P s"

definition rstrip_char :: "nat \<Rightarrow> ustr \<Rightarrow> ustr" where
  "rstrip_char c s = rev (dropWhile (\<lambda>x. x = c) (rev s))"

definition origins_allowed :: "admin_settings \<Rightarrow> ustr list" where
  "origins_allowed s =
     map (\<lambda>item. rstrip_char 47 (strip item))
       (filter (\<lambda>item. strip item \<noteq> []) (split_on 44 (am_allowed_origins s)))"

section \<open>Base64\<close>

definition b64_char :: "nat \<Rightarrow> nat" where
  "b64_char n = (if n < 26 then 65 + n else if n < 52 then 71 + n else if n < 62 then n - 4
     else if n = 62 then 45 else 95)"

text \<open>\<open>base64.urlsafe_b64encode\<close>: with \<open>-\<close> and \<open>_\<close>, and padded.\<close>

fun b64encode :: "nat list \<Rightarrow> ustr" where
  "b64encode [] = []"
| "b64encode [a] = [b64_char (a div 4), b64_char (a mod 4 * 16), 61, 61]"
| "b64encode [a, b] = [b64_char (a div 4), b64_char (a mod 4 * 16 + b div 16), b64_char (b mod 16 * 4), 61]"
| "b64encode (a # b # c # bs) =
     b64_char (a div 4) # b64_char (a mod 4 * 16 + b div 16) # b64_char (b mod 16 * 4 + c div 64)
     # b64_char (c mod 64) # b64encode bs"

definition encode :: "nat list \<Rightarrow> ustr" where
  "encode bs = rstrip_char 61 (b64encode bs)"

text \<open>\<open>+\<close> and \<open>/\<close> are read as well; other characters are passed over.\<close>

definition b64_value :: "nat \<Rightarrow> nat option" where
  "b64_value c =
     (if 65 \<le> c \<and> c \<le> 90 then Some (c - 65) else if 97 \<le> c \<and> c \<le> 122 then Some (c - 71)
      else if 48 \<le> c \<and> c \<le> 57 then Some (c + 4) else if c \<in> {43, 45} then Some 62
      else if c \<in> {47, 95} then Some 63 else None)"

text \<open>
  The loop of \<open>binascii.a2b_base64\<close>: the position in the group of four, the bits left over, the
  padding seen, and the text to come.
\<close>

fun b64_scan :: "nat \<Rightarrow> nat \<Rightarrow> nat \<Rightarrow> ustr \<Rightarrow> nat list option" where
  "b64_scan pos left pads [] = (if pos = 0 then Some [] else None)"
| "b64_scan pos left pads (c # cs) =
     (if c = 61 then
        (if pos < 2 then b64_scan pos left pads cs
         else if 4 \<le> pos + pads + 1 then Some [] else b64_scan pos left (pads + 1) cs)
      else (case b64_value c of
        None \<Rightarrow> b64_scan pos left pads cs
      | Some v \<Rightarrow>
          if pos = 0 then b64_scan 1 v 0 cs
          else if pos = 1 then map_option ((#) (left * 4 + v div 16)) (b64_scan 2 (v mod 16) 0 cs)
          else if pos = 2 then map_option ((#) (left * 16 + v div 4)) (b64_scan 3 (v mod 4) 0 cs)
          else map_option ((#) (left * 64 + v)) (b64_scan 0 0 0 cs)))"

definition b64decode :: "ustr \<Rightarrow> nat list option" where
  "b64decode s = (if list_all (\<lambda>c. c < 128) s then b64_scan 0 0 0 s else None)"

section \<open>Sessions\<close>

text \<open>Digests of bytes, and \<open>json.dumps\<close> with compact separators.\<close>

record auth_env =
  au_sha256 :: "nat list \<Rightarrow> nat list"
  au_hmac :: "nat list \<Rightarrow> nat list \<Rightarrow> nat list"
  au_dumps :: "json \<Rightarrow> ustr"
  au_loads :: "nat list \<Rightarrow> json option"

type_synonym session_payload = "(ustr \<times> json) list"

definition cookie_name :: ustr where
  "cookie_name = u ''jobtology_admin_session''"

text \<open>\<open>hmac.compare_digest\<close> on texts: \<open>None\<close> is the \<open>TypeError\<close> for text that is not ASCII.\<close>

definition compare_digest :: "ustr \<Rightarrow> ustr \<Rightarrow> bool option" where
  "compare_digest a b =
     (if list_all (\<lambda>c. c < 128) a \<and> list_all (\<lambda>c. c < 128) b then Some (a = b) else None)"

text \<open>\<open>SessionAuth\<close>: its attributes; the texts of the settings encode, or it cannot be built.\<close>

record session_auth =
  sa_settings :: admin_settings
  sa_secret :: "nat list"
  sa_password_hash :: "nat list"
  sa_version :: ustr

definition session_auth_of :: "auth_env \<Rightarrow> admin_settings \<Rightarrow> session_auth option" where
  "session_auth_of A s =
     (case (utf8 (am_secret s), utf8 (am_password s)) of
        (Some secret, Some password) \<Rightarrow>
          Some \<lparr>sa_settings = s, sa_secret = secret, sa_password_hash = au_sha256 A password,
            sa_version = encode (au_hmac A secret (au_sha256 A password))\<rparr>
      | _ \<Rightarrow> None)"

text \<open>\<open>None\<close>: a text that has no UTF-8 form raises.\<close>

definition credentials_valid :: "auth_env \<Rightarrow> session_auth \<Rightarrow> ustr \<Rightarrow> ustr \<Rightarrow> bool option" where
  "credentials_valid A a username password =
     (case (utf8 (am_username (sa_settings a)), utf8 username, utf8 password) of
        (Some expected, Some given, Some p) \<Rightarrow>
          Some (au_sha256 A given = au_sha256 A expected \<and> au_sha256 A p = sa_password_hash a)
      | _ \<Rightarrow> None)"

definition signature_of :: "auth_env \<Rightarrow> session_auth \<Rightarrow> ustr \<Rightarrow> ustr option" where
  "signature_of A a encoded = map_option (\<lambda>m. encode (au_hmac A (sa_secret a) m)) (utf8 encoded)"

text \<open>\<open>int(time.time())\<close>.\<close>

definition truncated :: "rat \<Rightarrow> int" where
  "truncated t = (if 0 \<le> t then \<lfloor>t\<rfloor> else \<lceil>t\<rceil>)"

definition session_payload_of :: "session_auth \<Rightarrow> rat \<Rightarrow> nat list \<Rightarrow> session_payload" where
  "session_payload_of a now nonce =
     [(u ''u'', JStr (am_username (sa_settings a))),
      (u ''e'', JInt (truncated now + am_session_seconds (sa_settings a))),
      (u ''c'', JStr (encode nonce)), (u ''p'', JStr (sa_version a))]"

definition issue :: "auth_env \<Rightarrow> session_auth \<Rightarrow> rat \<Rightarrow> nat list \<Rightarrow> (ustr \<times> session_payload) option" where
  "issue A a now nonce =
     (let payload = session_payload_of a now nonce in
      case utf8 (au_dumps A (JObj payload)) of
        None \<Rightarrow> None
      | Some bytes \<Rightarrow>
          let encoded = encode bytes in
          map_option (\<lambda>signature. (encoded @ 46 # signature, payload)) (signature_of A a encoded))"

text \<open>The checks of the payload; a missing key, or a value of another type, ends in \<open>None\<close> as well.\<close>

definition payload_current :: "session_auth \<Rightarrow> rat \<Rightarrow> session_payload \<Rightarrow> bool" where
  "payload_current a now kvs \<longleftrightarrow>
     map_of kvs (u ''u'') = Some (JStr (am_username (sa_settings a)))
     \<and> (case map_of kvs (u ''e'') of Some (JInt e) \<Rightarrow> now < of_int e | _ \<Rightarrow> False)
     \<and> (case map_of kvs (u ''p'') of Some (JStr p) \<Rightarrow> compare_digest p (sa_version a) = Some True | _ \<Rightarrow> False)
     \<and> (case map_of kvs (u ''c'') of Some (JStr c) \<Rightarrow> length c = 43 | _ \<Rightarrow> False)"

definition verify :: "auth_env \<Rightarrow> session_auth \<Rightarrow> rat \<Rightarrow> ustr option \<Rightarrow> session_payload option" where
  "verify A a now token =
     (case token of
        None \<Rightarrow> None
      | Some t \<Rightarrow>
          if t = [] \<or> 2048 < length t then None
          else (case split_on 46 t of
            [encoded, signature] \<Rightarrow>
              (case signature_of A a encoded of
                 None \<Rightarrow> None
               | Some expected \<Rightarrow>
                   if compare_digest signature expected \<noteq> Some True then None
                   else (case Option.bind (b64decode (encoded @ replicate ((4 - length encoded mod 4) mod 4) 61))
                                (au_loads A) of
                     Some (JObj kvs) \<Rightarrow> if payload_current a now kvs then Some kvs else None
                   | _ \<Rightarrow> None))
          | _ \<Rightarrow> None))"

section \<open>The limiter\<close>

text \<open>The ordered dictionary of clients, least recently seen first, and the attempts of all.\<close>

record login_limiter =
  ll_entries :: "(ustr \<times> rat list) list"
  ll_global :: "rat list"

definition empty_limiter :: login_limiter where
  "empty_limiter = \<lparr>ll_entries = [], ll_global = []\<rparr>"

text \<open>\<open>allow\<close> at the clock readings \<open>t\<close> and, for an attempt that is counted, \<open>t'\<close>.\<close>

definition allow :: "rat \<Rightarrow> rat \<Rightarrow> ustr \<Rightarrow> login_limiter \<Rightarrow> bool \<times> login_limiter" where
  "allow t t' client l =
     (let recent = filter (\<lambda>entry. t - 300 < entry);
          everyone = recent (ll_global l);
          attempts = recent (case map_of (ll_entries l) client of None \<Rightarrow> [] | Some xs \<Rightarrow> xs);
          seen = filter (\<lambda>(c, _). c \<noteq> client) (ll_entries l) @ [(client, attempts)];
          kept = drop (length seen - 1024) seen
      in if 5 \<le> length attempts \<or> 30 \<le> length everyone
         then (False, \<lparr>ll_entries = kept, ll_global = everyone\<rparr>)
         else (True, \<lparr>ll_entries = map (\<lambda>(c, xs). (c, if c = client then xs @ [t'] else xs)) kept,
                      ll_global = everyone @ [t']\<rparr>))"

end
