(* ===== verification/AuthFacts.thy ===== *)
theory AuthFacts
  imports Auth
begin

text \<open>
  Base64 is undone by its reader, an issued cookie is read back until it expires, and the limiter
  bounds the attempts of any five minutes.
\<close>

section \<open>Base64\<close>

lemma b64_char_value: "n < 64 \<Longrightarrow> b64_value (b64_char n) = Some n"
  by (auto simp: b64_char_def b64_value_def)

lemma b64_char_plain: "n < 64 \<Longrightarrow> b64_char n \<noteq> 61 \<and> b64_char n \<noteq> 46 \<and> b64_char n < 128"
  by (auto simp: b64_char_def)

lemma rstrip_char_Nil [simp]: "rstrip_char c [] = []"
  by (simp add: rstrip_char_def)

lemma rstrip_char_Cons:
  "rstrip_char c (x # s) = (if x = c \<and> rstrip_char c s = [] then [] else x # rstrip_char c s)"
  by (auto simp: rstrip_char_def dropWhile_append)

text \<open>The groups of a byte string, each below 64.\<close>

lemma sextets:
  fixes a b c :: nat
  assumes "a < 256" "b < 256" "c < 256"
  shows "a div 4 < 64" "a mod 4 * 16 < 64" "a mod 4 * 16 + b div 16 < 64" "b mod 16 * 4 < 64"
    "b mod 16 * 4 + c div 64 < 64" "c mod 64 < 64"
  using assms by simp_all

lemma encode_simps:
  "encode [] = []"
  "a < 256 \<Longrightarrow> encode [a] = [b64_char (a div 4), b64_char (a mod 4 * 16)]"
  "a < 256 \<Longrightarrow> b < 256 \<Longrightarrow>
     encode [a, b] = [b64_char (a div 4), b64_char (a mod 4 * 16 + b div 16), b64_char (b mod 16 * 4)]"
  "a < 256 \<Longrightarrow> b < 256 \<Longrightarrow> c < 256 \<Longrightarrow> encode (a # b # c # bs) =
     b64_char (a div 4) # b64_char (a mod 4 * 16 + b div 16) # b64_char (b mod 16 * 4 + c div 64)
     # b64_char (c mod 64) # encode bs"
  using b64_char_plain by (simp_all add: encode_def rstrip_char_Cons)

lemma b64_scan_char:
  assumes "n < 64"
  shows "b64_scan 0 l p (b64_char n # s) = b64_scan 1 n 0 s"
    and "b64_scan 1 l p (b64_char n # s) = map_option ((#) (l * 4 + n div 16)) (b64_scan 2 (n mod 16) 0 s)"
    and "b64_scan 2 l p (b64_char n # s) = map_option ((#) (l * 16 + n div 4)) (b64_scan 3 (n mod 4) 0 s)"
    and "b64_scan 3 l p (b64_char n # s) = map_option ((#) (l * 64 + n)) (b64_scan 0 0 0 s)"
  using b64_char_plain [OF assms] by (simp_all add: b64_char_value [OF assms])

definition padded :: "ustr \<Rightarrow> ustr" where
  "padded s = s @ replicate ((4 - length s mod 4) mod 4) 61"

lemma padded_four: "padded (a # b # c # d # s) = a # b # c # d # padded s"
  by (simp add: padded_def)

lemma scan_encode: "\<forall>x \<in> set bs. x < 256 \<Longrightarrow> b64_scan 0 0 0 (padded (encode bs)) = Some bs"
proof (induction bs rule: b64encode.induct)
  case 1
  then show ?case by (simp add: encode_simps padded_def)
next
  case (2 a)
  then have a: "a < 256" by simp
  have "padded (encode [a]) = [b64_char (a div 4), b64_char (a mod 4 * 16), 61, 61]"
    by (simp add: encode_simps(2) [OF a] padded_def numeral_2_eq_2)
  then show ?case
    using sextets(1,2) [of a 0 0] a by (simp only: b64_scan_char) simp
next
  case (3 a b)
  then have ab: "a < 256" "b < 256" by simp_all
  have e: "padded (encode [a, b]) =
      [b64_char (a div 4), b64_char (a mod 4 * 16 + b div 16), b64_char (b mod 16 * 4), 61]"
    by (simp add: encode_simps(3) [OF ab] padded_def)
  have "(a mod 4 * 16 + b div 16) div 16 = a mod 4" "(a mod 4 * 16 + b div 16) mod 16 = b div 16"
    using ab by simp_all
  then show ?case
    unfolding e by (simp only: b64_scan_char sextets(1,3,4) [OF ab, of 0] zero_less_numeral) simp
next
  case (4 a b c bs)
  then have IH: "b64_scan 0 0 0 (padded (encode bs)) = Some bs" by simp
  have abc: "a < 256" "b < 256" "c < 256" using 4(2) by simp_all
  have "(a mod 4 * 16 + b div 16) div 16 = a mod 4" "(a mod 4 * 16 + b div 16) mod 16 = b div 16"
    "(b mod 16 * 4 + c div 64) div 4 = b mod 16" "(b mod 16 * 4 + c div 64) mod 4 = c div 64"
    using abc by simp_all
  then show ?case
    unfolding encode_simps(4) [OF abc] padded_four
    by (simp only: b64_scan_char sextets [OF abc] IH) simp
qed

lemma encode_chars: "\<forall>x \<in> set bs. x < 256 \<Longrightarrow> c \<in> set (encode bs) \<Longrightarrow> c < 128 \<and> c \<noteq> 46"
proof (induction bs rule: b64encode.induct)
  case (4 a b d bs)
  then show ?case using sextets [of a b d] b64_char_plain by (auto simp: encode_simps)
qed (use sextets b64_char_plain in \<open>auto simp: encode_simps\<close>)

theorem b64_roundtrip:
  assumes "\<forall>x \<in> set bs. x < 256"
  shows "b64decode (padded (encode bs)) = Some bs"
  using scan_encode [OF assms] encode_chars [OF assms]
  by (auto simp: b64decode_def padded_def list_all_iff)

lemma length_encode: "\<forall>x \<in> set bs. x < 256 \<Longrightarrow> length (encode bs) = (length bs * 4 + 2) div 3"
  by (induction bs rule: b64encode.induct) (auto simp: encode_simps)

section \<open>Cookies\<close>

lemma utf8_ascii: "list_all (\<lambda>c. c < 128) s \<Longrightarrow> utf8 s = Some s"
  by (induction s) simp_all

lemma split_on_plain: "c \<notin> set s \<Longrightarrow> split_on c s = [s]"
  by (induction s) auto

lemma split_on_pair: "c \<notin> set s \<Longrightarrow> c \<notin> set t \<Longrightarrow> split_on c (s @ c # t) = [s, t]"
  by (induction s) (auto simp: split_on_plain)

lemma compare_digest_refl: "list_all (\<lambda>c. c < 128) s \<Longrightarrow> compare_digest s s = Some True"
  by (simp add: compare_digest_def)

lemma truncated_bound: "0 \<le> t \<Longrightarrow> of_int (truncated t) \<le> t \<and> t < of_int (truncated t) + 1"
  by (simp add: truncated_def) linarith

text \<open>What the digests give are bytes.\<close>

definition gives_bytes :: "auth_env \<Rightarrow> bool" where
  "gives_bytes A \<longleftrightarrow> (\<forall>k m. \<forall>x \<in> set (au_hmac A k m). x < 256)"


text \<open>A library whose digests are cut off keys and whose reader knows the one payload.\<close>

definition example_admin_settings :: admin_settings where
  "example_admin_settings = \<lparr>am_username = u ''operator'', am_password = u ''password'',
     am_secret = replicate 32 97, am_mode = Live, am_cookie_secure = True, am_session_seconds = 600,
     am_allowed_origins = [], am_neo4j_uri = None, am_query_timeout_seconds = 4, am_cache_seconds = 30,
     am_actions_file = None, am_controls_enabled = True, am_application_api_url = None,
     am_application_api_token = None, am_worker_stale_seconds = 45\<rparr>"

definition example_session :: session_auth where
  "example_session = \<lparr>sa_settings = example_admin_settings, sa_secret = replicate 32 97,
     sa_password_hash = u ''password'', sa_version = encode (replicate 32 97)\<rparr>"

definition example_auth_env :: auth_env where
  "example_auth_env = \<lparr>au_sha256 = (\<lambda>b. b), au_hmac = (\<lambda>k m. filter (\<lambda>x. x < 256) k),
     au_dumps = (\<lambda>_. u ''{}''),
     au_loads = (\<lambda>_. Some (JObj (session_payload_of example_session 1000 (replicate 32 0))))\<rparr>"

lemma example_session_of:
  "session_auth_of example_auth_env example_admin_settings = Some example_session"
  by code_simp

lemma example_issues:
  "issue example_auth_env example_session 1000 (replicate 32 0)
   = Some (encode (u ''{}'') @ 46 # encode (replicate 32 97),
           session_payload_of example_session 1000 (replicate 32 0))"
  by code_simp


section \<open>Login attempts\<close>

text \<open>
  A series of attempts, each with its two readings of the clock, and the log of those that were
  allowed, with the later reading.
\<close>

type_synonym login_call = "rat \<times> rat \<times> ustr"

definition login_step ::
    "login_limiter \<times> (rat \<times> ustr) list \<Rightarrow> login_call \<Rightarrow> login_limiter \<times> (rat \<times> ustr) list" where
  "login_step st call =
     (case (st, call) of ((l, allowed), (t, t', client)) \<Rightarrow>
        (case allow t t' client l of (ok, l') \<Rightarrow> (l', if ok then allowed @ [(t', client)] else allowed)))"

definition login_run :: "login_call list \<Rightarrow> login_limiter \<times> (rat \<times> ustr) list" where
  "login_run calls = foldl login_step (empty_limiter, []) calls"

definition clock_ordered :: "login_call list \<Rightarrow> bool" where
  "clock_ordered calls \<longleftrightarrow> sorted (concat (map (\<lambda>(t, t', _). [t, t']) calls))"

text \<open>The entries of a client, and its part of the log.\<close>

definition entries_of :: "login_limiter \<Rightarrow> ustr \<Rightarrow> rat list" where
  "entries_of l c = (case map_of (ll_entries l) c of None \<Rightarrow> [] | Some xs \<Rightarrow> xs)"

definition since :: "rat \<Rightarrow> rat list \<Rightarrow> rat list" where
  "since s = filter (\<lambda>x. s < x)"

definition log_of :: "ustr \<Rightarrow> (rat \<times> ustr) list \<Rightarrow> rat list" where
  "log_of c allowed = map fst (filter (\<lambda>(_, d). d = c) allowed)"

lemma since_simps [simp]:
  "since s [] = []" "since s (xs @ ys) = since s xs @ since s ys"
  "since s [x] = (if s < x then [x] else [])"
  by (simp_all add: since_def)

lemma since_since: "s \<le> s' \<Longrightarrow> since s' (since s xs) = since s' xs"
  by (auto simp: since_def intro: filter_cong)

lemma log_of_snoc [simp]: "log_of c (allowed @ [(t, d)]) = log_of c allowed @ (if d = c then [t] else [])"
  by (simp add: log_of_def)

text \<open>The allowed attempts of five minutes.\<close>

definition window :: "rat \<Rightarrow> rat list \<Rightarrow> rat list" where
  "window s = filter (\<lambda>x. s < x \<and> x \<le> s + 300)"

lemma window_step:
  assumes "t \<le> t'" and recent: "length (since (t - 300) xs) < n" and old: "length (window s xs) \<le> n"
  shows "length (window s (xs @ [t'])) \<le> n"
proof (cases "s < t' \<and> t' \<le> s + 300")
  case True
  then have "t - 300 \<le> s" using assms(1) by linarith
  then have "length (window s xs) \<le> length (since (t - 300) xs)"
    by (induction xs) (auto simp: window_def since_def)
  then show ?thesis using True recent by (simp add: window_def)
next
  case False
  then show ?thesis using old by (auto simp: window_def)
qed

text \<open>A reading that is not before any reading of the calls.\<close>

definition no_later :: "login_call list \<Rightarrow> rat \<Rightarrow> bool" where
  "no_later calls t \<longleftrightarrow> (\<forall>(a, b, _) \<in> set calls. a \<le> t \<and> b \<le> t)"

lemma clock_ordered_snoc:
  "clock_ordered (calls @ [(t, t', c)]) \<Longrightarrow> clock_ordered calls \<and> no_later calls t \<and> t \<le> t'"
  by (fastforce simp: clock_ordered_def no_later_def sorted_append)

lemma no_later_snoc: "no_later (calls @ [(t, t', c)]) r \<longleftrightarrow> no_later calls r \<and> t \<le> r \<and> t' \<le> r"
  by (auto simp: no_later_def)

lemma map_of_without: "map_of (filter (\<lambda>(x, _). x \<noteq> c) es) d = (if d = c then None else map_of es d)"
  by (induction es) auto

lemma map_of_extended:
  "map_of (map (\<lambda>(x, xs). (x, if x = c then xs @ [r] else xs)) es) d
   = map_option (\<lambda>xs. if d = c then xs @ [r] else xs) (map_of es d)"
  by (induction es) auto

text \<open>One attempt: the entries that a client and all clients have afterwards.\<close>

lemma allow_effect:
  assumes run: "allow t t' c l = (ok, l')"
    and few: "length (filter (\<lambda>(x, _). x \<noteq> c) (ll_entries l)) < 1024"
  shows "ok \<longleftrightarrow> length (since (t - 300) (entries_of l c)) < 5 \<and> length (since (t - 300) (ll_global l)) < 30"
    and "entries_of l' d = (if d = c then since (t - 300) (entries_of l c) @ (if ok then [t'] else [])
           else entries_of l d)"
    and "map fst (ll_entries l') = filter (\<lambda>x. x \<noteq> c) (map fst (ll_entries l)) @ [c]"
proof -
  let ?seen = "filter (\<lambda>(x, _). x \<noteq> c) (ll_entries l) @ [(c, since (t - 300) (entries_of l c))]"
  have kept: "drop (length ?seen - 1024) ?seen = ?seen" using few by simp
  have step: "allow t t' c l =
     (if 5 \<le> length (since (t - 300) (entries_of l c)) \<or> 30 \<le> length (since (t - 300) (ll_global l))
      then (False, \<lparr>ll_entries = ?seen, ll_global = since (t - 300) (ll_global l)\<rparr>)
      else (True, \<lparr>ll_entries = map (\<lambda>(x, xs). (x, if x = c then xs @ [t'] else xs)) ?seen,
                  ll_global = since (t - 300) (ll_global l) @ [t']\<rparr>))"
    unfolding allow_def Let_def since_def [symmetric] entries_of_def [symmetric] kept ..
  have keys: "fst \<circ> (\<lambda>(x, xs). (x, if x = c then xs @ [t'] else xs)) = fst"
    by (rule ext) auto
  have fsts: "map fst (filter (\<lambda>(x, _). x \<noteq> c) es) = filter (\<lambda>x. x \<noteq> c) (map fst es)"
    for es :: "(ustr \<times> rat list) list"
    by (induction es) auto
  show "ok \<longleftrightarrow> length (since (t - 300) (entries_of l c)) < 5 \<and> length (since (t - 300) (ll_global l)) < 30"
    using run step by (auto split: if_splits)
  show "entries_of l' d = (if d = c then since (t - 300) (entries_of l c) @ (if ok then [t'] else [])
           else entries_of l d)"
    using run step
    by (auto simp: entries_of_def map_of_extended map_of_without map_add_def split: if_splits option.splits)
  show "map fst (ll_entries l') = filter (\<lambda>x. x \<noteq> c) (map fst (ll_entries l)) @ [c]"
    using run step keys fsts by (auto split: if_splits)
qed

text \<open>All clients together need no bound on their number.\<close>

lemma allow_global:
  assumes "allow t t' c l = (ok, l')"
  shows "ok \<Longrightarrow> length (since (t - 300) (ll_global l)) < 30"
    and "ll_global l' = since (t - 300) (ll_global l) @ (if ok then [t'] else [])"
  using assms by (auto simp: allow_def Let_def since_def split: if_splits)

lemma login_run_snoc [simp]: "login_run (calls @ [x]) = login_step (login_run calls) x"
  by (simp add: login_run_def)

lemma login_run_Nil [simp]: "login_run [] = (empty_limiter, [])"
  by (simp add: login_run_def)

lemma global_bound:
  "clock_ordered calls \<Longrightarrow> login_run calls = (l, allowed) \<Longrightarrow>
   (\<forall>r. no_later calls r \<longrightarrow> since (r - 300) (ll_global l) = since (r - 300) (map fst allowed))
   \<and> (\<forall>s. length (window s (map fst allowed)) \<le> 30)"
proof (induction calls arbitrary: l allowed rule: rev_induct)
  case Nil
  then show ?case by (auto simp: empty_limiter_def window_def)
next
  case (snoc call calls)
  obtain t t' c where call: "call = (t, t', c)" by (cases call)
  obtain l0 before where st: "login_run calls = (l0, before)" by fastforce
  obtain ok where ok: "allow t t' c l0 = (ok, l)" "allowed = (if ok then before @ [(t', c)] else before)"
    using snoc.prems(2) st by (auto simp: call login_step_def split: prod.splits)
  note order = clock_ordered_snoc [OF snoc.prems(1) [unfolded call]]
  have IH: "no_later calls r \<Longrightarrow> since (r - 300) (ll_global l0) = since (r - 300) (map fst before)"
    "length (window s (map fst before)) \<le> 30" for r s
    using snoc.IH [OF _ st] order by auto
  note effect = allow_global [OF ok(1)]
  have "since (r - 300) (ll_global l) = since (r - 300) (map fst allowed)" if "no_later (calls @ [call]) r" for r
    using that IH(1) [of r] since_since [of "t - 300" "r - 300"]
    by (auto simp: call no_later_snoc effect(2) ok(2))
  moreover have "length (window s (map fst allowed)) \<le> 30" for s
    using window_step [of t t' "map fst before" 30 s] IH(1) [of t] IH(2) [of s] order effect(1) ok(2) by auto
  ultimately show ?case by blast
qed

definition clients_of :: "login_call list \<Rightarrow> ustr set" where
  "clients_of calls = (\<lambda>(_, _, c). c) ` set calls"

lemma clients_of_snoc [simp]: "clients_of (calls @ [(t, t', c)]) = insert c (clients_of calls)"
  by (auto simp: clients_of_def)

lemma finite_clients [simp]: "finite (clients_of calls)"
  by (simp add: clients_of_def)

lemma client_bound:
  "clock_ordered calls \<Longrightarrow> card (clients_of calls) \<le> 1024 \<Longrightarrow> login_run calls = (l, allowed) \<Longrightarrow>
   distinct (map fst (ll_entries l)) \<and> set (map fst (ll_entries l)) = clients_of calls
   \<and> (\<forall>r d. no_later calls r \<longrightarrow> since (r - 300) (entries_of l d) = since (r - 300) (log_of d allowed))
   \<and> (\<forall>s d. length (window s (log_of d allowed)) \<le> 5)"
proof (induction calls arbitrary: l allowed rule: rev_induct)
  case Nil
  then show ?case
    by (auto simp: empty_limiter_def window_def entries_of_def log_of_def clients_of_def)
next
  case (snoc call calls)
  obtain t t' c where call: "call = (t, t', c)" by (cases call)
  obtain l0 before where st: "login_run calls = (l0, before)" by fastforce
  obtain ok where ok: "allow t t' c l0 = (ok, l)" "allowed = (if ok then before @ [(t', c)] else before)"
    using snoc.prems(3) st by (auto simp: call login_step_def split: prod.splits)
  note order = clock_ordered_snoc [OF snoc.prems(1) [unfolded call]]
  have card: "card (insert c (clients_of calls)) \<le> 1024" using snoc.prems(2) by (simp add: call)
  then have "card (clients_of calls) \<le> 1024"
    by (meson card_mono finite_clients finite_insert le_trans subset_insertI)
  then have keys: "distinct (map fst (ll_entries l0))" "set (map fst (ll_entries l0)) = clients_of calls"
    and IH: "no_later calls r \<Longrightarrow> since (r - 300) (entries_of l0 d) = since (r - 300) (log_of d before)"
    "length (window s (log_of d before)) \<le> 5" for r s d
    using snoc.IH [OF _ _ st] order by auto
  have fsts: "map fst (filter (\<lambda>(x, _). x \<noteq> c) es) = filter (\<lambda>x. x \<noteq> c) (map fst es)"
    for es :: "(ustr \<times> rat list) list"
    by (induction es) auto
  have "length (filter (\<lambda>(x, _). x \<noteq> c) (ll_entries l0))
      = card (set (filter (\<lambda>x. x \<noteq> c) (map fst (ll_entries l0))))"
    using distinct_card [OF distinct_filter [OF keys(1), of "\<lambda>x. x \<noteq> c"]] fsts [of "ll_entries l0"]
    by (metis length_map)
  also have "\<dots> = card (clients_of calls - {c})"
    by (rule arg_cong [of _ _ card]) (use keys(2) in auto)
  also have "\<dots> < 1024"
    using card by (simp add: card.insert_remove)
  finally have few: "length (filter (\<lambda>(x, _). x \<noteq> c) (ll_entries l0)) < 1024" .
  note effect = allow_effect [OF ok(1) few]
  have "distinct (map fst (ll_entries l)) \<and> set (map fst (ll_entries l)) = clients_of (calls @ [call])"
    using keys by (auto simp: effect(3) call)
  moreover have "since (r - 300) (entries_of l d) = since (r - 300) (log_of d allowed)"
    if "no_later (calls @ [call]) r" for r d
    using that IH(1) [of r d] since_since [of "t - 300" "r - 300"]
    by (auto simp: call no_later_snoc effect(2) ok(2))
  moreover have "length (window s (log_of d allowed)) \<le> 5" for s d
    using window_step [of t t' "log_of c before" 5 s] IH(1) [of t c] IH(2) [of s d] order effect(1) ok(2)
    by auto
  ultimately show ?case by blast
qed


definition six_attempts :: "login_call list" where
  "six_attempts = map (\<lambda>i. (of_nat i, of_nat i, u ''host'')) [0..<6]"


end
