(* ===== verification/TelemetryFacts.thy ===== *)
theory TelemetryFacts
  imports Telemetry AuthFacts "HOL-Library.Multiset"
begin

text \<open>
  The cache of the dashboard bounds how often the databases are asked and how old an answer is, and the
  dashboard shows what was read.
\<close>

section \<open>The cache\<close>

text \<open>
  A series of calls: whether a refresh was asked for, the readings before and after, and what a
  collection would give. Kept are the collections with both readings, and the answers.
\<close>

type_synonym 'v cache_call = "bool \<times> rat \<times> rat \<times> 'v option"

record 'v cache_history =
  ch_cache :: "'v cache"
  ch_loads :: "(rat \<times> rat \<times> 'v) list"
  ch_answers :: "(bool \<times> rat \<times> 'v option) list"

definition cache_step :: "rat \<Rightarrow> 'v cache_history \<Rightarrow> 'v cache_call \<Rightarrow> 'v cache_history" where
  "cache_step ttl h call =
     (case call of (refresh, t, t', collected) \<Rightarrow>
        (case cache_get ttl refresh t t' collected (ch_cache h) of (answer, c) \<Rightarrow>
           \<lparr>ch_cache = c,
            ch_loads = ch_loads h
              @ (if cache_due ttl refresh t (ch_cache h)
                 then (case collected of None \<Rightarrow> [] | Some v \<Rightarrow> [(t, t', v)]) else []),
            ch_answers = ch_answers h @ [(refresh, t, answer)]\<rparr>))"

definition cache_run :: "rat \<Rightarrow> 'v cache_call list \<Rightarrow> 'v cache_history" where
  "cache_run ttl calls =
     foldl (cache_step ttl) \<lparr>ch_cache = empty_cache, ch_loads = [], ch_answers = []\<rparr> calls"

definition cache_clock :: "'v cache_call list \<Rightarrow> bool" where
  "cache_clock calls \<longleftrightarrow> sorted (concat (map (\<lambda>(_, t, t', _). [t, t']) calls))"

text \<open>No collection begins within five seconds of the end of one before it.\<close>

definition spaced :: "(rat \<times> rat \<times> 'v) list \<Rightarrow> bool" where
  "spaced = sorted_wrt (\<lambda>(_, done_at, _) (begun, _, _). done_at + 5 \<le> begun)"

definition fresh_answer :: "rat \<Rightarrow> (rat \<times> rat \<times> 'v) list \<Rightarrow> bool \<times> rat \<times> 'v option \<Rightarrow> bool" where
  "fresh_answer ttl loads a \<longleftrightarrow> (case a of (refresh, t, answer) \<Rightarrow>
     (case answer of None \<Rightarrow> True
      | Some v \<Rightarrow> \<exists>(_, done_at, v') \<in> set loads. v' = v \<and> t < done_at + (if refresh then 5 else ttl)))"

text \<open>The cache holds the last collection, and every earlier one is older.\<close>

definition cache_holds :: "'v cache_history \<Rightarrow> bool" where
  "cache_holds h \<longleftrightarrow> (case ca_value (ch_cache h) of
     None \<Rightarrow> ch_loads h = []
   | Some v \<Rightarrow> (\<exists>b. (b, ca_loaded_at (ch_cache h), v) \<in> set (ch_loads h))
       \<and> (\<forall>(_, e, _) \<in> set (ch_loads h). e \<le> ca_loaded_at (ch_cache h)))"

lemma fresh_answer_more: "fresh_answer ttl loads a \<Longrightarrow> fresh_answer ttl (loads @ later) a"
  by (force simp: fresh_answer_def split: prod.splits option.splits)

lemma cache_step_keeps:
  assumes h': "h' = cache_step ttl h (refresh, t, t', collected)"
    and "5 \<le> ttl" and "t \<le> t'" and ends: "\<forall>(_, e, _) \<in> set (ch_loads h). e \<le> t"
    and holds: "cache_holds h" and spaced: "spaced (ch_loads h)"
    and fresh: "\<forall>a \<in> set (ch_answers h). fresh_answer ttl (ch_loads h) a"
  shows "cache_holds h' \<and> spaced (ch_loads h') \<and> (\<forall>a \<in> set (ch_answers h'). fresh_answer ttl (ch_loads h') a)
    \<and> (\<forall>(_, e, _) \<in> set (ch_loads h'). e \<le> t')"
proof (cases "cache_due ttl refresh t (ch_cache h) \<and> collected \<noteq> None")
  case True
  then obtain v where v: "collected = Some v" by auto
  have step: "h' = \<lparr>ch_cache = \<lparr>ca_value = Some v, ca_loaded_at = t'\<rparr>, ch_loads = ch_loads h @ [(t, t', v)],
      ch_answers = ch_answers h @ [(refresh, t, Some v)]\<rparr>"
    using True by (simp add: h' cache_step_def cache_get_def v)
  have "e + 5 \<le> t" if "(b, e, w) \<in> set (ch_loads h)" for b e w
    using True holds that assms(2) by (fastforce simp: cache_due_def cache_holds_def split: if_splits option.splits)
  then have "spaced (ch_loads h')" using spaced by (auto simp: step spaced_def sorted_wrt_append)
  moreover have "cache_holds h'" "\<forall>(_, e, _) \<in> set (ch_loads h'). e \<le> t'"
    using ends assms(3) by (fastforce simp: step cache_holds_def)+
  moreover have "fresh_answer ttl (ch_loads h') (refresh, t, Some v)"
    using assms(2,3) by (auto simp: step fresh_answer_def)
  ultimately show ?thesis using fresh fresh_answer_more by (fastforce simp: step)
next
  case False
  then have same: "ch_cache h' = ch_cache h" "ch_loads h' = ch_loads h"
    "\<exists>a. ch_answers h' = ch_answers h @ [(refresh, t, a)]
      \<and> (a = None \<or> \<not> cache_due ttl refresh t (ch_cache h) \<and> a = ca_value (ch_cache h))"
    by (auto simp: h' cache_step_def cache_get_def split: option.splits)
  then obtain a where a: "ch_answers h' = ch_answers h @ [(refresh, t, a)]"
    "a = None \<or> \<not> cache_due ttl refresh t (ch_cache h) \<and> a = ca_value (ch_cache h)" by blast
  have "fresh_answer ttl (ch_loads h) (refresh, t, a)"
  proof (cases a)
    case None
    then show ?thesis by (simp add: fresh_answer_def)
  next
    case (Some v)
    then have v: "ca_value (ch_cache h) = Some v"
      "t < ca_loaded_at (ch_cache h) + (if refresh then 5 else ttl)"
      using a(2) by (auto simp: cache_due_def)
    then obtain b where "(b, ca_loaded_at (ch_cache h), v) \<in> set (ch_loads h)"
      using holds by (auto simp: cache_holds_def)
    then show ?thesis
      using v(2) Some by (auto simp: fresh_answer_def intro!: bexI [of _ "(b, ca_loaded_at (ch_cache h), v)"])
  qed
  then have "\<forall>x \<in> set (ch_answers h'). fresh_answer ttl (ch_loads h) x" using fresh a(1) by simp
  moreover have "cache_holds h'" using holds unfolding cache_holds_def same(1,2) .
  moreover have "\<forall>(_, e, _) \<in> set (ch_loads h'). e \<le> t'" using ends assms(3) same(2) by fastforce
  ultimately show ?thesis using spaced same(2) by simp
qed

lemma cache_run_keeps:
  "cache_clock calls \<Longrightarrow> 5 \<le> ttl \<Longrightarrow> cache_holds (cache_run ttl calls) \<and> spaced (ch_loads (cache_run ttl calls))
     \<and> (\<forall>a \<in> set (ch_answers (cache_run ttl calls)). fresh_answer ttl (ch_loads (cache_run ttl calls)) a)
     \<and> (\<forall>(_, e, _) \<in> set (ch_loads (cache_run ttl calls)).
          \<forall>r. (\<forall>(_, _, t', _) \<in> set calls. t' \<le> r) \<longrightarrow> e \<le> r)"
proof (induction calls rule: rev_induct)
  case Nil
  then show ?case by (simp add: cache_run_def cache_holds_def empty_cache_def spaced_def)
next
  case (snoc call calls)
  obtain refresh t t' collected where call: "call = (refresh, t, t', collected)" by (cases call) auto
  have clock: "cache_clock calls" "t \<le> t'" "\<forall>(_, _, s, _) \<in> set calls. s \<le> t"
    using snoc.prems(1) by (fastforce simp: cache_clock_def call sorted_append)+
  have run: "cache_run ttl (calls @ [call]) = cache_step ttl (cache_run ttl calls) (refresh, t, t', collected)"
    by (simp add: cache_run_def call)
  have "\<forall>(_, e, _) \<in> set (ch_loads (cache_run ttl calls)). e \<le> t"
    using snoc.IH [OF clock(1) snoc.prems(2)] clock(3) by fastforce
  from cache_step_keeps [OF run snoc.prems(2) clock(2) this]
    snoc.IH [OF clock(1) snoc.prems(2)] show ?case
    by (fastforce simp: call)
qed

text \<open>
  C34: The dashboard spares the databases and is not stale. In any series of requests, with or without an
  explicit refresh, and as long as the clock does not run backwards, a collection begins at least five
  seconds after the end of every one before it, and what is shown was collected: less than the configured
  time ago, and less than five seconds ago for a refresh.
\<close>

theorem dashboard_fresh_and_spaced:
  assumes "admin_settings_check P s" and "cache_clock calls"
  defines "h \<equiv> cache_run (of_int (am_cache_seconds s)) calls"
  shows "spaced (ch_loads h)
    \<and> (\<forall>a \<in> set (ch_answers h). fresh_answer (of_int (am_cache_seconds s)) (ch_loads h) a)"
proof -
  have "5 \<le> (of_int (am_cache_seconds s) :: rat)"
    using assms(1) by (simp add: admin_settings_check_def)
  then show ?thesis using cache_run_keeps [OF assms(2)] by (simp add: h_def)
qed


text \<open>Two requests within the time of the cache, then a refresh.\<close>

definition example_calls :: "nat cache_call list" where
  "example_calls = [(False, 0, 1, Some 7), (False, 2, 2, Some 8), (True, 9, 10, Some 9)]"

theorem dashboard_fresh_and_spaced_witness:
  "ch_loads (cache_run 30 example_calls) = [(0, 1, 7), (9, 10, 9)]
   \<and> map (\<lambda>(_, _, v). v) (ch_answers (cache_run 30 example_calls)) = [Some 7, Some 7, Some 9]
   \<and> spaced (ch_loads (cache_run 30 example_calls))"
proof -
  have "admin_settings_check example_env example_admin_settings" "cache_clock example_calls" by code_simp+
  moreover have "(of_int (am_cache_seconds example_admin_settings) :: rat) = 30"
    by (simp add: example_admin_settings_def)
  ultimately have "spaced (ch_loads (cache_run 30 example_calls))"
    using dashboard_fresh_and_spaced [of example_env example_admin_settings example_calls] by simp
  moreover have "ch_loads (cache_run 30 example_calls) = [(0, 1, 7), (9, 10, 9)]"
    "map (\<lambda>(_, _, v). v) (ch_answers (cache_run 30 example_calls)) = [Some 7, Some 7, Some 9]"
    by code_simp+
  ultimately show ?thesis by blast
qed

section \<open>What is shown\<close>

text \<open>
  A card written out: the last reading of the source, if the ledger answered, and the sum of the counts
  of its postings, if the graph answered and the source has postings.
\<close>

definition card_of :: "ledger_rows option \<Rightarrow> graph_rows option \<Rightarrow> ustr \<times> ustr \<Rightarrow> source_card" where
  "card_of l g src =
     (let entry = (case Option.bind l (\<lambda>rows. find (\<lambda>row. sr_source_id row = fst src) (rev (lr_sources rows))) of
        None \<Rightarrow> empty_source src | Some row \<Rightarrow> read_card row (empty_source src))
      in (case g of
            Some rows \<Rightarrow> if fst src \<in> set posting_sources
              then entry\<lparr>sc_postings := Some (sum_list (map snd (filter (\<lambda>(i, _). i = fst src) (gw_postings_by_source rows))))\<rparr>
              else entry
          | None \<Rightarrow> entry))"

lemma read_card_id [simp]: "sc_id (read_card row entry) = sc_id entry"
  by (simp add: read_card_def)

lemma read_card_twice [simp]: "read_card row (read_card row' entry) = read_card row entry"
  by (simp add: read_card_def)

lemma empty_source_id [simp]: "sc_id (empty_source src) = fst src"
  by (simp add: empty_source_def)

lemma apply_readings:
  "foldl apply_reading (map empty_source srcs) rows =
   map (\<lambda>src. case find (\<lambda>row. sr_source_id row = fst src) (rev rows) of
      None \<Rightarrow> empty_source src | Some row \<Rightarrow> read_card row (empty_source src)) srcs"
  by (induction rows rule: rev_induct) (auto simp: apply_reading_def split: option.split)

lemma source_cards_eq: "source_cards l g = map (card_of l g) console_sources"
  by (auto simp: source_cards_def card_of_def apply_readings count_postings_def Let_def split: option.split)

text \<open>The runs shown: newest first.\<close>

definition started :: "run_reading \<Rightarrow> ustr" where
  "started r = (case rr_started_at r of None \<Rightarrow> [] | Some t \<Rightarrow> t)"

definition newest_first :: "run_reading list \<Rightarrow> bool" where
  "newest_first = sorted_wrt (\<lambda>a b. started b \<le> started a)"

lemma recent_runs_eq:
  "recent_runs runs = map (\<lambda>r. (r, shown_source_name (rr_source_id r))) (take 30 (rev (sort_key started (rev runs))))"
proof -
  have "sort_key (\<lambda>(r, _). started r) (map (\<lambda>r. (r, f r)) xs) = map (\<lambda>r. (r, f r)) (sort_key started xs)"
    for f :: "run_reading \<Rightarrow> ustr" and xs
  proof (induction xs)
    case (Cons x xs)
    have "insort_key (\<lambda>(r, _). started r) (x, f x) (map (\<lambda>r. (r, f r)) ys)
      = map (\<lambda>r. (r, f r)) (insort_key started x ys)" for ys
      by (induction ys) auto
    then show ?case using Cons by simp
  qed simp
  then show ?thesis by (simp add: recent_runs_def started_def rev_map take_map flip: started_def)
qed


text \<open>
  The dashboard shows what was read. Its sources are always the eight known ones in their order, each
  with its last reading of the ledger, if there is one, and with the sum of the graph's counts for it;
  what could not be read is missing and not zero. Its runs are the newest 30 of those that the ledger
  gave, newest first: the shown runs followed by the ones left out are all runs in that order.
\<close>

theorem dashboard_shows_readings:
  defines "runs a \<equiv> (case rows_of a of None \<Rightarrow> [] | Some rows \<Rightarrow> lr_runs rows)"
  shows "db_sources (dashboard_from_results timestamp a b) = map (card_of (rows_of a) (rows_of b)) console_sources
    \<and> length (db_runs (dashboard_from_results timestamp a b)) = min 30 (length (runs a))
    \<and> (\<exists>rest. mset (map fst (db_runs (dashboard_from_results timestamp a b)) @ rest) = mset (runs a)
        \<and> newest_first (map fst (db_runs (dashboard_from_results timestamp a b)) @ rest))"
proof -
  let ?sorted = "rev (sort_key started (rev (runs a)))"
  have shown: "map fst (db_runs (dashboard_from_results timestamp a b)) = take 30 ?sorted"
    by (simp add: dashboard_from_results_def recent_runs_eq runs_def Let_def comp_def)
  have "sorted_wrt (\<lambda>x y. started x \<le> started y) (sort_key started (rev (runs a)))"
    using sorted_sort_key [of started "rev (runs a)"] by (simp add: sorted_map)
  then have "newest_first ?sorted" by (simp add: newest_first_def sorted_wrt_rev)
  then have "mset (take 30 ?sorted @ drop 30 ?sorted) = mset (runs a) \<and> newest_first (take 30 ?sorted @ drop 30 ?sorted)"
    by simp
  moreover have "length (db_runs (dashboard_from_results timestamp a b)) = min 30 (length (runs a))"
    using arg_cong [OF shown, of length] by simp
  moreover have "db_sources (dashboard_from_results timestamp a b)
      = map (card_of (rows_of a) (rows_of b)) console_sources"
    by (simp add: dashboard_from_results_def source_cards_eq Let_def)
  ultimately show ?thesis unfolding shown by blast
qed

end
