(* ===== verification/AdminApi.thy ===== *)
theory AdminApi
  imports Auth
begin

text \<open>
  \<open>admin/application.py\<close>: the client of the private management API. The exchange itself, \<open>json\<close>, \<open>UUID\<close>,
  \<open>httpx.URL\<close> and the QR code are parameters; what is asked, what of an answer is accepted and what is
  passed on is modelled.
\<close>

section \<open>Bodies of requests\<close>

text \<open>
  The bodies as pydantic reads them, with whether a time has a zone. \<open>None\<close> for the label means that it
  was not given.
\<close>

record api_time =
  tm_zoned :: bool
  tm_text :: ustr

record invitation_fields =
  iv_label :: "ustr option"
  iv_expires_at :: "api_time option"
  iv_access_hours :: "rat option"
  iv_max_uses :: "int option"

definition timezone_required :: "api_time option \<Rightarrow> bool" where
  "timezone_required t \<longleftrightarrow> (case t of None \<Rightarrow> True | Some v \<Rightarrow> tm_zoned v)"

definition invitation_bounds :: "invitation_fields \<Rightarrow> bool" where
  "invitation_bounds f \<longleftrightarrow> timezone_required (iv_expires_at f)
     \<and> (case iv_access_hours f of None \<Rightarrow> True | Some h \<Rightarrow> 0 < h \<and> h \<le> 876000)
     \<and> (case iv_max_uses f of None \<Rightarrow> True | Some n \<Rightarrow> 1 \<le> n \<and> n \<le> 1000000)"

definition label_ok :: "ustr \<Rightarrow> bool" where
  "label_ok s \<longleftrightarrow> 1 \<le> length (strip s) \<and> length (strip s) \<le> 100"

definition invitation_ok :: "invitation_fields \<Rightarrow> bool" where
  "invitation_ok f \<longleftrightarrow> (case iv_label f of None \<Rightarrow> False | Some s \<Rightarrow> label_ok s) \<and> invitation_bounds f"

definition invitation_patch_ok :: "invitation_fields \<Rightarrow> bool" where
  "invitation_patch_ok f \<longleftrightarrow> (case iv_label f of None \<Rightarrow> True | Some s \<Rightarrow> label_ok s) \<and> invitation_bounds f"

text \<open>\<open>status\<close>: not given, null, or a text; the same for the expiry.\<close>

record user_patch =
  us_status :: "ustr option option"
  us_access_expires_at :: "api_time option option"

definition user_patch_ok :: "user_patch \<Rightarrow> bool" where
  "user_patch_ok f \<longleftrightarrow>
     (case us_status f of Some (Some s) \<Rightarrow> s \<in> {u ''ACTIVE'', u ''DEACTIVATED''} | _ \<Rightarrow> True)
     \<and> (case us_access_expires_at f of Some t \<Rightarrow> timezone_required t | None \<Rightarrow> True)"

section \<open>Fields that may be shown\<close>

definition api_resources :: "ustr list" where
  "api_resources = [u ''invitations'', u ''users'', u ''sessions'']"

definition api_fields :: "ustr \<Rightarrow> ustr list" where
  "api_fields resource =
     (if resource = u ''invitations''
      then map u [''id'', ''label'', ''code_hint'', ''created_at'', ''expires_at'', ''access_hours'',
             ''max_uses'', ''use_count'', ''revoked_at'']
      else if resource = u ''users''
      then map u [''id'', ''display_name'', ''status'', ''created_at'', ''access_source'',
             ''access_expires_at'', ''invitation_label'', ''active_sessions'']
      else if resource = u ''sessions''
      then map u [''id'', ''user_id'', ''display_name'', ''created_at'', ''expires_at'', ''revoked_at'']
      else [])"

text \<open>Third-party functions: the texts that \<open>UUID\<close> reads, the scheme and host of a URL, the QR image.\<close>

record api_env =
  ae_uuid :: "ustr \<Rightarrow> bool"
  ae_url :: "ustr \<Rightarrow> (ustr \<times> ustr) option"
  ae_qr :: "ustr \<Rightarrow> ustr option"
  ae_loads :: "nat list \<Rightarrow> json option"

definition scalar_field :: "json \<Rightarrow> bool" where
  "scalar_field v \<longleftrightarrow> (case v of JNull \<Rightarrow> True | JInt _ \<Rightarrow> True | JFloat _ \<Rightarrow> True
     | JStr s \<Rightarrow> length s \<le> 4096 | _ \<Rightarrow> False)"

definition public_item :: "api_env \<Rightarrow> ustr \<Rightarrow> json \<Rightarrow> json option" where
  "public_item E resource v =
     (case v of
        JObj kvs \<Rightarrow>
          if u ''id'' \<notin> fst ` set kvs then None
          else
            let result = filter (\<lambda>(k, _). k \<in> set (api_fields resource)) kvs in
            if \<not> list_all (\<lambda>(_, item). scalar_field item) result then None
            else (case map_of result (u ''id'') of
                    Some (JStr i) \<Rightarrow> if ae_uuid E i then Some (JObj result) else None
                  | _ \<Rightarrow> None)
      | _ \<Rightarrow> None)"

fun public_items :: "api_env \<Rightarrow> ustr \<Rightarrow> json list \<Rightarrow> json list option" where
  "public_items E resource [] = Some []"
| "public_items E resource (v # vs) =
     (case (public_item E resource v, public_items E resource vs) of
        (Some x, Some xs) \<Rightarrow> Some (x # xs) | _ \<Rightarrow> None)"

section \<open>The exchange\<close>

text \<open>An answer: its status, two of its headers, and its chunks, each with whether it came too late.\<close>

record api_answer =
  aw_status :: int
  aw_encoding :: "ustr option"
  aw_length :: "ustr option"
  aw_chunks :: "(bool \<times> nat list) list"

datatype api_exchange = Api_failed | Api_answered api_answer

datatype http_error = Http_exception int ustr | Server_error

definition api_limit :: nat where
  "api_limit = 524288"

text \<open>The bytes that are read, up to the limit and the deadline.\<close>

fun read_body :: "nat list \<Rightarrow> (bool \<times> nat list) list \<Rightarrow> nat list option" where
  "read_body raw [] = Some raw"
| "read_body raw ((late, chunk) # chunks) =
     (if late \<or> api_limit < length (raw @ chunk) then None else read_body (raw @ chunk) chunks)"

definition invalid_response :: http_error where
  "invalid_response = Http_exception 503
     (u ''Application management returned an unavailable or invalid response.'')"

definition checked :: "'a option \<Rightarrow> http_error + 'a" where
  "checked x = (case x of None \<Rightarrow> Inl invalid_response | Some y \<Rightarrow> Inr y)"

text \<open>A call that goes out: the method, the URL, the parameters and the body.\<close>

record api_call =
  al_method :: ustr
  al_resource :: ustr
  al_url :: ustr
  al_params :: "(ustr \<times> json) list"
  al_body :: "json option"

definition management_page :: "api_env \<Rightarrow> ustr \<Rightarrow> json \<Rightarrow> json option" where
  "management_page E resource data =
     (case data of
        JObj kvs \<Rightarrow>
          (case (map_of kvs (u ''items''), map_of kvs (u ''total'')) of
             (Some (JArr items), Some (JInt n)) \<Rightarrow>
               if 100 < length items \<or> n < 0 then None
               else map_option (\<lambda>xs. JObj [(u ''items'', JArr xs), (u ''total'', JInt n)])
                      (public_items E resource items)
           | _ \<Rightarrow> None)
      | _ \<Rightarrow> None)"

definition invitation_of :: "api_env \<Rightarrow> ustr \<Rightarrow> json \<Rightarrow> json option" where
  "invitation_of E resource data =
     (case data of
        JObj kvs \<Rightarrow>
          (case (map_of kvs (u ''code''), map_of kvs (u ''invite_url''), map_of kvs (u ''invitation'')) of
             (Some (JStr code), Some (JStr url), Some invitation) \<Rightarrow>
               if \<not> (8 \<le> length code \<and> length code \<le> 512) then None
               else (case ae_url E url of
                 Some (scheme, host) \<Rightarrow>
                   if scheme \<notin> {u ''http'', u ''https''} \<or> host = [] \<or> 4096 < length url then None
                   else (case (ae_qr E url, public_item E resource invitation) of
                     (Some svg, Some item) \<Rightarrow>
                       Some (JObj [(u ''invitation'', item), (u ''code'', JStr code),
                         (u ''invite_url'', JStr url), (u ''qr_svg'', JStr svg)])
                   | _ \<Rightarrow> None)
               | None \<Rightarrow> None)
           | _ \<Rightarrow> None)
      | _ \<Rightarrow> None)"

definition api_result :: "api_env \<Rightarrow> ustr \<Rightarrow> ustr \<Rightarrow> ustr option \<Rightarrow> json \<Rightarrow> json option" where
  "api_result E verb resource action data =
     (if verb = u ''GET'' then management_page E resource data
      else if verb = u ''POST'' \<and> resource = u ''invitations'' \<and> action = None
      then invitation_of E resource data
      else if verb = u ''PATCH'' \<and> resource = u ''invitations'' then public_item E resource data
      else (case data of
              JObj kvs \<Rightarrow> if map_of kvs (u ''ok'') = Some (JBool True)
                         then Some (JObj [(u ''ok'', JBool True)]) else None
            | _ \<Rightarrow> None))"

definition read_answer ::
    "api_env \<Rightarrow> ustr \<Rightarrow> ustr \<Rightarrow> ustr option \<Rightarrow> api_answer \<Rightarrow> http_error + json" where
  "read_answer E verb resource action a =
     (if aw_status a \<in> {400, 404, 409, 422}
      then Inl (Http_exception (aw_status a)
        (u ''The application rejected this request. Refresh and check the submitted values.''))
      else if 300 \<le> aw_status a
      then Inl (Http_exception 503
        (u ''Application management is unavailable. Check server connectivity and management credentials.''))
      else if (case aw_encoding a of None \<Rightarrow> False | Some e \<Rightarrow> ascii_lower e \<noteq> u ''identity'')
      then Inl invalid_response
      else (case py_int (case aw_length a of None \<Rightarrow> u ''0'' | Some l \<Rightarrow> l) of
        None \<Rightarrow> Inl invalid_response
      | Some l \<Rightarrow>
          if int api_limit < l then Inl invalid_response
          else checked (Option.bind (read_body [] (aw_chunks a)) (\<lambda>raw.
                 Option.bind (ae_loads E raw) (api_result E verb resource action)))))"

definition api_path :: "ustr \<Rightarrow> ustr option \<Rightarrow> ustr option \<Rightarrow> ustr" where
  "api_path resource identity action =
     u ''/internal/admin/'' @ resource
     @ (case identity of None \<Rightarrow> [] | Some i \<Rightarrow> 47 # i)
     @ (case action of None \<Rightarrow> [] | Some a \<Rightarrow> 47 # a)"

text \<open>\<open>ApplicationAPI.request\<close>: the call that goes out, if one does, and the outcome.\<close>

definition api_request ::
    "api_env \<Rightarrow> admin_settings \<Rightarrow> api_exchange \<Rightarrow> ustr \<Rightarrow> ustr \<Rightarrow> ustr option \<Rightarrow> ustr option
     \<Rightarrow> (ustr \<times> json) list \<Rightarrow> json option \<Rightarrow> api_call list \<times> (http_error + json)" where
  "api_request E s exchange verb resource identity action params body =
     (if am_mode s = Demo
      then ([], Inl (Http_exception 503 (u ''Application management is unavailable in demo mode.'')))
      else if am_application_api_url s \<in> {None, Some []} \<or> am_application_api_token s \<in> {None, Some []}
      then ([], Inl (Http_exception 503
        (u ''Application management is not configured. Configure the private application API URL and token.'')))
      else if resource \<notin> set api_resources
         \<or> action \<notin> {None, Some (u ''revoke''), Some (u ''revoke-sessions'')}
      then ([], Inl Server_error)
      else
        ([\<lparr>al_method = verb, al_resource = resource,
           al_url = rstrip_char 47 (case am_application_api_url s of None \<Rightarrow> [] | Some x \<Rightarrow> x)
             @ api_path resource identity action,
           al_params = params, al_body = body\<rparr>],
         (case exchange of
            Api_failed \<Rightarrow> Inl invalid_response
          | Api_answered a \<Rightarrow> read_answer E verb resource action a)))"

end
