(* ===== verification/AdminApp.thy ===== *)
theory AdminApp
  imports AdminApi Telemetry
begin

text \<open>
  \<open>admin/app.py\<close>: the middleware and the handlers of the admin console. FastAPI's routing, its parsing
  of paths, queries and bodies, and the file server are the framework: a request arrives with the
  endpoint it was routed to. The state is what the process and the queue keep; clocks, random
  bytes, the reads of the queue (which other processes change in between) and the answers of the
  databases and of the management API are given with each request.
\<close>

section \<open>Requests and replies\<close>

datatype endpoint =
    Health
  | Session_read
  | Login "json option"
  | Logout
  | Dashboard_read bool
  | Enqueue "json option"
  | Application_list ustr int int "ustr option"
  | Invitation_create "invitation_fields option" json
  | Invitation_update ustr "invitation_fields option" "(ustr \<times> json) list"
  | User_update ustr "user_patch option" "(ustr \<times> json) list"
  | Application_revoke ustr ustr ustr
  | Index bool
  | No_route int

record http_request =
  hr_method :: ustr
  hr_path :: ustr
  hr_scheme :: ustr
  hr_netloc :: ustr
  hr_headers :: "(ustr \<times> ustr) list"
  hr_cookies :: "(ustr \<times> ustr) list"
  hr_chunks :: "nat list list"
  hr_client :: "ustr option"
  hr_endpoint :: endpoint

datatype cookie_change = Keep_cookie | Set_cookie ustr bool int | Delete_cookie bool

datatype reply_body = Json_body json | Dashboard_body dashboard | Page_body

record reply =
  rp_status :: int
  rp_body :: reply_body
  rp_cookie :: cookie_change
  rp_headers :: "(ustr \<times> ustr) list"

definition json_reply :: "int \<Rightarrow> json \<Rightarrow> reply" where
  "json_reply status v =
     \<lparr>rp_status = status, rp_body = Json_body v, rp_cookie = Keep_cookie, rp_headers = []\<rparr>"

definition detail_reply :: "int \<Rightarrow> ustr \<Rightarrow> reply" where
  "detail_reply status detail = json_reply status (JObj [(u ''detail'', JStr detail)])"

section \<open>The process\<close>

record console_setup =
  cs_digests :: auth_env
  cs_library :: console_env
  cs_api :: api_env
  cs_auth :: session_auth

record console_state =
  co_limiter :: login_limiter
  co_cache :: "dashboard cache"
  co_store :: job_store
  co_calls :: "api_call list"

text \<open>
  What the world answers while one request is handled; \<open>None\<close> is an exception. A store call that
  enqueues may fail before it commits or after.
\<close>

datatype store_fault = Store_answers | Store_fails_before | Store_fails_after

record console_world =
  wo_now :: rat
  wo_clock :: rat
  wo_clock_after :: rat
  wo_nonce :: "nat list"
  wo_host :: host
  wo_worker :: "worker_row option option"
  wo_age :: "rat option"
  wo_pending :: "bool option"
  wo_existing :: "job option option"
  wo_jobs :: "job list option"
  wo_fault :: store_fault
  wo_timestamp :: ustr
  wo_job_id :: ustr
  wo_collected :: "dashboard option"
  wo_demo :: dashboard
  wo_exchange :: api_exchange

abbreviation settings_of :: "console_setup \<Rightarrow> admin_settings" where
  "settings_of C \<equiv> sa_settings (cs_auth C)"

text \<open>\<open>profiles\<close>: any failure gives no profiles.\<close>

definition console_profiles :: "console_setup \<Rightarrow> console_world \<Rightarrow> action_profile list \<times> bool" where
  "console_profiles C w =
     (case load_profiles (cs_library C) (wo_host w) (am_actions_file (settings_of C)) of
        Inl _ \<Rightarrow> ([], False) | Inr ps \<Rightarrow> (ps, True))"

definition worker_available :: "console_setup \<Rightarrow> console_world \<Rightarrow> bool \<times> ustr" where
  "worker_available C w =
     (let offline = (False, u ''Host worker is offline or its heartbeat is stale.'');
          unavailable = (False, u ''Job queue is unavailable.'')
      in (case wo_worker w of
            None \<Rightarrow> unavailable
          | Some None \<Rightarrow> offline
          | Some (Some _) \<Rightarrow>
              (case wo_age w of
                 None \<Rightarrow> unavailable
               | Some age \<Rightarrow>
                   if 0 \<le> age \<and> age \<le> of_int (am_worker_stale_seconds (settings_of C))
                   then (True, u ''Host worker heartbeat is current.'') else offline)))"

definition disabled_reason :: "console_setup \<Rightarrow> console_world \<Rightarrow> ustr option" where
  "disabled_reason C w =
     (case wo_pending w of
        None \<Rightarrow> Some (u ''Job queue is unavailable.'')
      | Some True \<Rightarrow> Some (u ''A pending or uncertain job requires operator attention.'')
      | Some False \<Rightarrow>
          if am_mode (settings_of C) = Demo then Some (u ''Synthetic demo actions are disabled.'')
          else if \<not> am_controls_enabled (settings_of C)
          then Some (u ''Operator controls are disabled by configuration.'')
          else if \<not> snd (console_profiles C w)
          then Some (u ''Action configuration is unavailable or invalid.'')
          else if \<not> fst (worker_available C w) then Some (snd (worker_available C w))
          else None)"

definition profile_card :: "ustr option \<Rightarrow> action_profile \<Rightarrow> action_card" where
  "profile_card reason p = \<lparr>ac_id = ap_id p, ac_label = ap_label p, ac_description = ap_description p,
     ac_kind = ap_kind p, ac_enabled = (reason = None), ac_disabled_reason = reason\<rparr>"

definition placeholder_cards :: "ustr option \<Rightarrow> action_card list" where
  "placeholder_cards reason =
     (let or_text = \<lambda>t. Some (case reason of None \<Rightarrow> u t | Some r \<Rightarrow> r) in
      [\<lparr>ac_id = u ''refresh-due'', ac_label = u ''Refresh due sources'',
        ac_description = u ''Ask the host worker to refresh sources that are due.'',
        ac_kind = u ''refresh_due'', ac_enabled = False,
        ac_disabled_reason = or_text ''No trusted action profiles are configured.''\<rparr>,
       \<lparr>ac_id = u ''load-jobkorea'', ac_label = u ''Load local JobKorea dataset'',
        ac_description = u ''Load a dataset prepared and pinned by the operator.'',
        ac_kind = u ''load_jobkorea'', ac_enabled = False,
        ac_disabled_reason = or_text ''No trusted local dataset profile is configured.''\<rparr>])"

text \<open>\<open>controls\<close>: the cards, the profiles by identifier, and whether the worker is there.\<close>

definition controls ::
    "console_setup \<Rightarrow> console_world \<Rightarrow> action_card list \<times> (ustr \<times> action_profile) list \<times> bool" where
  "controls C w =
     (let profiles = fst (console_profiles C w); reason = disabled_reason C w in
      (if profiles = [] then placeholder_cards reason else map (profile_card reason) profiles,
       map (\<lambda>p. (ap_id p, p)) profiles, fst (worker_available C w)))"

section \<open>Sessions and tokens\<close>

definition session_of :: "console_setup \<Rightarrow> console_world \<Rightarrow> http_request \<Rightarrow> session_payload option" where
  "session_of C w r = verify (cs_digests C) (cs_auth C) (wo_now w) (map_of (hr_cookies r) cookie_name)"

definition session :: "console_setup \<Rightarrow> console_world \<Rightarrow> http_request \<Rightarrow> http_error + session_payload" where
  "session C w r =
     (case session_of C w r of
        None \<Rightarrow> Inl (Http_exception 401 (u ''Authentication required.'')) | Some p \<Rightarrow> Inr p)"

definition header :: "http_request \<Rightarrow> string \<Rightarrow> ustr option" where
  "header r name = map_of (hr_headers r) (u name)"

text \<open>A token that is not ASCII makes \<open>compare_digest\<close> raise, and nothing catches it.\<close>

definition csrf :: "http_request \<Rightarrow> session_payload \<Rightarrow> http_error + unit" where
  "csrf r payload =
     (let token = (case header r ''x-csrf-token'' of None \<Rightarrow> [] | Some t \<Rightarrow> t) in
      if 128 < length token then Inl (Http_exception 403 (u ''Invalid CSRF token.''))
      else (case jget payload (u ''c'') of
        JStr c \<Rightarrow>
          (case compare_digest token c of
             None \<Rightarrow> Inl Server_error
           | Some same \<Rightarrow> if same then Inr () else Inl (Http_exception 403 (u ''Invalid CSRF token.'')))
      | _ \<Rightarrow> Inl Server_error))"

definition authorized :: "console_setup \<Rightarrow> console_world \<Rightarrow> http_request \<Rightarrow> http_error + session_payload" where
  "authorized C w r = rbind (session C w r) (\<lambda>p. rbind (csrf r p) (\<lambda>_. Inr p))"

definition session_response :: "console_setup \<Rightarrow> session_payload option \<Rightarrow> json" where
  "session_response C payload =
     JObj [(u ''authenticated'', JBool (payload \<noteq> None)),
       (u ''username'', (case payload of None \<Rightarrow> JNull | Some p \<Rightarrow> jget p (u ''u''))),
       (u ''csrf_token'', (case payload of None \<Rightarrow> JNull | Some p \<Rightarrow> jget p (u ''c''))),
       (u ''mode'', JStr (case am_mode (settings_of C) of Live \<Rightarrow> u ''live'' | Demo \<Rightarrow> u ''demo''))]"

section \<open>Bodies\<close>

text \<open>An object with exactly these text members, each within its bounds.\<close>

definition text_field :: "(ustr \<times> json) list \<Rightarrow> string \<Rightarrow> ustr option" where
  "text_field kvs k = (case map_of kvs (u k) of Some (JStr s) \<Rightarrow> Some s | _ \<Rightarrow> None)"

definition login_body :: "json option \<Rightarrow> (ustr \<times> ustr) option" where
  "login_body b =
     (case b of
        Some (JObj kvs) \<Rightarrow>
          if fst ` set kvs \<noteq> {u ''username'', u ''password''} then None
          else (case (text_field kvs ''username'', text_field kvs ''password'') of
            (Some n, Some p) \<Rightarrow>
              if 1 \<le> length n \<and> length n \<le> 128 \<and> 1 \<le> length p \<and> length p \<le> 512 then Some (n, p)
              else None
          | _ \<Rightarrow> None)
      | _ \<Rightarrow> None)"

definition enqueue_body :: "json option \<Rightarrow> (ustr \<times> ustr) option" where
  "enqueue_body b =
     (case b of
        Some (JObj kvs) \<Rightarrow>
          if fst ` set kvs \<noteq> {u ''action_id'', u ''idempotency_key''} then None
          else (case (text_field kvs ''action_id'', text_field kvs ''idempotency_key'') of
            (Some a, Some k) \<Rightarrow> if action_id_ok a \<and> idempotency_key_ok k then Some (a, k) else None
          | _ \<Rightarrow> None)
      | _ \<Rightarrow> None)"

definition invalid_request :: http_error where
  "invalid_request = Http_exception 422 (u ''Invalid request.'')"

section \<open>Handlers\<close>

type_synonym 'a handler = "(console_state, http_error, 'a) action"

definition login ::
    "console_setup \<Rightarrow> console_world \<Rightarrow> http_request \<Rightarrow> json option \<Rightarrow> reply handler" where
  "login C w r body s =
     (case login_body body of
        None \<Rightarrow> (Inl invalid_request, s)
      | Some (username, password) \<Rightarrow>
          (case allow (wo_clock w) (wo_clock_after w)
                  (case hr_client r of None \<Rightarrow> u ''unknown'' | Some c \<Rightarrow> c) (co_limiter s) of
             (False, l) \<Rightarrow>
               (Inl (Http_exception 429 (u ''Too many login attempts. Try again later.'')), s\<lparr>co_limiter := l\<rparr>)
           | (True, l) \<Rightarrow>
               (let s' = s\<lparr>co_limiter := l\<rparr> in
                case credentials_valid (cs_digests C) (cs_auth C) username password of
                  None \<Rightarrow> (Inl Server_error, s')
                | Some False \<Rightarrow> (Inl (Http_exception 401 (u ''Invalid username or password.'')), s')
                | Some True \<Rightarrow>
                    (case issue (cs_digests C) (cs_auth C) (wo_now w) (wo_nonce w) of
                       None \<Rightarrow> (Inl Server_error, s')
                     | Some (token, payload) \<Rightarrow>
                         (Inr ((json_reply 200 (session_response C (Some payload)))\<lparr>
                            rp_cookie := Set_cookie token (am_cookie_secure (settings_of C))
                              (am_session_seconds (settings_of C))\<rparr>), s')))))"

definition logout :: "console_setup \<Rightarrow> console_world \<Rightarrow> http_request \<Rightarrow> http_error + reply" where
  "logout C w r =
     rbind (authorized C w r) (\<lambda>_.
       Inr ((json_reply 200 (session_response C None))\<lparr>
         rp_cookie := Delete_cookie (am_cookie_secure (settings_of C))\<rparr>))"

definition demo_card :: action_card where
  "demo_card = \<lparr>ac_id = u ''refresh-due'', ac_label = u ''Refresh due sources'',
     ac_description = u ''Synthetic demo'', ac_kind = u ''refresh_due'', ac_enabled = False,
     ac_disabled_reason = Some (u ''Synthetic demo actions are disabled.'')\<rparr>"

definition filled_dashboard :: "console_setup \<Rightarrow> console_world \<Rightarrow> dashboard \<Rightarrow> dashboard" where
  "filled_dashboard C w d =
     (case controls C w of (actions, _, worker_ok) \<Rightarrow>
        d\<lparr>db_actions := actions,
          db_services := db_services d @ [service (wo_timestamp w) (u ''worker'') ''Host worker''
            (if worker_ok then ''healthy'' else ''unavailable'')
            (if worker_ok then ''Worker available.'' else ''Worker unavailable or stale.'')],
          db_jobs := (case wo_jobs w of None \<Rightarrow> db_jobs d | Some js \<Rightarrow> map public_job_of js),
          db_notices := db_notices d
            @ (case wo_jobs w of None \<Rightarrow> [u ''Queue unavailable''] | Some _ \<Rightarrow> [])\<rparr>)"

definition page_reply :: "reply_body \<Rightarrow> reply" where
  "page_reply b = \<lparr>rp_status = 200, rp_body = b, rp_cookie = Keep_cookie, rp_headers = []\<rparr>"

definition read_dashboard ::
    "console_setup \<Rightarrow> console_world \<Rightarrow> http_request \<Rightarrow> bool \<Rightarrow> reply handler" where
  "read_dashboard C w r refresh s =
     (case session C w r of
        Inl e \<Rightarrow> (Inl e, s)
      | Inr _ \<Rightarrow>
          if am_mode (settings_of C) = Demo
          then (Inr (page_reply (Dashboard_body ((wo_demo w)\<lparr>db_actions := [demo_card]\<rparr>))), s)
          else (case cache_get (of_int (am_cache_seconds (settings_of C))) refresh (wo_clock w)
                       (wo_clock_after w) (wo_collected w) (co_cache s) of
            (None, c) \<Rightarrow> (Inl Server_error, s\<lparr>co_cache := c\<rparr>)
          | (Some d, c) \<Rightarrow>
              (Inr (page_reply (Dashboard_body (filled_dashboard C w d))), s\<lparr>co_cache := c\<rparr>)))"

definition job_json :: "public_job \<Rightarrow> json" where
  "job_json j =
     (let opt = \<lambda>v. (case v of None \<Rightarrow> JNull | Some t \<Rightarrow> JStr t) in
      JObj [(u ''id'', JStr (pj_id j)), (u ''action_id'', JStr (pj_action_id j)),
        (u ''kind'', JStr (pj_kind j)),
        (u ''state'', JStr (case pj_state j of Job_queued \<Rightarrow> u ''QUEUED'' | Job_running \<Rightarrow> u ''RUNNING''
           | Job_succeeded \<Rightarrow> u ''SUCCEEDED'' | Job_failed \<Rightarrow> u ''FAILED'' | Job_unknown \<Rightarrow> u ''UNKNOWN'')),
        (u ''created_at'', JStr (pj_created_at j)), (u ''started_at'', opt (pj_started_at j)),
        (u ''finished_at'', opt (pj_finished_at j)), (u ''updated_at'', JStr (pj_updated_at j)),
        (u ''requested_by'', JStr (pj_requested_by j)), (u ''summary'', opt (pj_summary j))])"

text \<open>\<open>store.enqueue\<close> with a fault of SQLite.\<close>

definition store_enqueue ::
    "console_setup \<Rightarrow> console_world \<Rightarrow> action_profile \<Rightarrow> ustr \<Rightarrow> ustr \<Rightarrow> job_store
     \<Rightarrow> (queue_error option + job) \<times> job_store" where
  "store_enqueue C w p actor key st =
     (case enqueue_job (ap_id p) actor key (ap_kind p) (fingerprint (cs_library C) p)
             (wo_timestamp w) (wo_job_id w) st of
        (res, st') \<Rightarrow>
          (case wo_fault w of
             Store_fails_before \<Rightarrow> (Inl None, st)
           | Store_fails_after \<Rightarrow> (Inl None, st')
           | Store_answers \<Rightarrow> ((case res of Inl e \<Rightarrow> Inl (Some e) | Inr j \<Rightarrow> Inr j), st')))"

definition queue_unavailable :: http_error where
  "queue_unavailable = Http_exception 503 (u ''Job queue is unavailable.'')"

text \<open>From the read of the key on: what the \<open>try\<close> covers.\<close>

definition submit ::
    "console_setup \<Rightarrow> console_world \<Rightarrow> action_profile \<Rightarrow> action_card \<Rightarrow> ustr \<Rightarrow> ustr \<Rightarrow> reply handler" where
  "submit C w p shown actor key s =
     (case wo_existing w of
        None \<Rightarrow> (Inl queue_unavailable, s)
      | Some existing \<Rightarrow>
          if existing = None \<and> \<not> ac_enabled shown
          then (Inl (Http_exception 409 (case ac_disabled_reason shown of None \<Rightarrow> [] | Some t \<Rightarrow> t)), s)
          else (case store_enqueue C w p actor key (co_store s) of
            (Inl (Some (Queue_conflict message)), st) \<Rightarrow>
              (Inl (Http_exception 409 message), s\<lparr>co_store := st\<rparr>)
          | (Inl _, st) \<Rightarrow> (Inl queue_unavailable, s\<lparr>co_store := st\<rparr>)
          | (Inr j, st) \<Rightarrow>
              (Inr (json_reply 202 (JObj [(u ''job'', job_json (public_job_of j))])),
               s\<lparr>co_store := st\<rparr>)))"

definition enqueue_action ::
    "console_setup \<Rightarrow> console_world \<Rightarrow> http_request \<Rightarrow> json option \<Rightarrow> reply handler" where
  "enqueue_action C w r body s =
     (case enqueue_body body of
        None \<Rightarrow> (Inl invalid_request, s)
      | Some (action_id, key) \<Rightarrow>
          (case authorized C w r of
             Inl e \<Rightarrow> (Inl e, s)
           | Inr payload \<Rightarrow>
               if am_mode (settings_of C) = Demo
               then (Inl (Http_exception 403 (u ''Synthetic demo actions are disabled.'')), s)
               else (case controls C w of (actions, profiles, _) \<Rightarrow>
                 (case (map_of profiles action_id, jget payload (u ''u'')) of
                    (None, _) \<Rightarrow> (Inl (Http_exception 404 (u ''Action not found.'')), s)
                  | (Some p, JStr actor) \<Rightarrow>
                      (case find (\<lambda>item. ac_id item = ap_id p) actions of
                         None \<Rightarrow> (Inl Server_error, s)
                       | Some shown \<Rightarrow> submit C w p shown actor key s)
                  | _ \<Rightarrow> (Inl queue_unavailable, s)))))"

text \<open>A call of the management API, with the call recorded.\<close>

definition manage ::
    "console_setup \<Rightarrow> console_world \<Rightarrow> int \<Rightarrow> ustr \<Rightarrow> ustr \<Rightarrow> ustr option \<Rightarrow> ustr option
     \<Rightarrow> (ustr \<times> json) list \<Rightarrow> json option \<Rightarrow> reply handler" where
  "manage C w status verb resource identity action params body s =
     (case api_request (cs_api C) (settings_of C) (wo_exchange w) verb resource identity action params body of
        (calls, res) \<Rightarrow>
          (rbind res (\<lambda>v. Inr (json_reply status v)), s\<lparr>co_calls := co_calls s @ calls\<rparr>))"

definition application_list ::
    "console_setup \<Rightarrow> console_world \<Rightarrow> http_request \<Rightarrow> ustr \<Rightarrow> int \<Rightarrow> int \<Rightarrow> ustr option \<Rightarrow> reply handler" where
  "application_list C w r resource limit offset user_id s =
     (if \<not> (1 \<le> limit \<and> limit \<le> 100 \<and> 0 \<le> offset \<and> offset \<le> 1000000) then (Inl invalid_request, s)
      else (case session C w r of
        Inl e \<Rightarrow> (Inl e, s)
      | Inr _ \<Rightarrow>
          if resource \<notin> set api_resources
          then (Inl (Http_exception 404 (u ''Resource not found.'')), s)
          else manage C w 200 (u ''GET'') resource None None
                 ([(u ''limit'', JInt limit), (u ''offset'', JInt offset)]
                  @ (case user_id of
                       Some i \<Rightarrow> if resource = u ''sessions'' then [(u ''user_id'', JStr i)] else []
                     | None \<Rightarrow> []))
                 None s))"

text \<open>The framework's checks, the session and its token, and the handler's own objection, in this order.\<close>

definition guarded ::
    "console_setup \<Rightarrow> console_world \<Rightarrow> http_request \<Rightarrow> bool \<Rightarrow> http_error option \<Rightarrow> reply handler
     \<Rightarrow> reply handler" where
  "guarded C w r valid problem next_step s =
     (if \<not> valid then (Inl invalid_request, s)
      else (case authorized C w r of
        Inl e \<Rightarrow> (Inl e, s)
      | Inr _ \<Rightarrow> (case problem of Some e \<Rightarrow> (Inl e, s) | None \<Rightarrow> next_step s)))"

definition invitation_create ::
    "console_setup \<Rightarrow> console_world \<Rightarrow> http_request \<Rightarrow> invitation_fields option \<Rightarrow> json \<Rightarrow> reply handler" where
  "invitation_create C w r given dump =
     guarded C w r (case given of None \<Rightarrow> False | Some f \<Rightarrow> invitation_ok f) None
       (manage C w 201 (u ''POST'') (u ''invitations'') None None [] (Some dump))"

definition invitation_update ::
    "console_setup \<Rightarrow> console_world \<Rightarrow> http_request \<Rightarrow> ustr \<Rightarrow> invitation_fields option
     \<Rightarrow> (ustr \<times> json) list \<Rightarrow> reply handler" where
  "invitation_update C w r identity given dump =
     guarded C w r (case given of None \<Rightarrow> False | Some f \<Rightarrow> invitation_patch_ok f)
       (if dump = [] then Some (Http_exception 422 (u ''Provide at least one field.'')) else None)
       (manage C w 200 (u ''PATCH'') (u ''invitations'') (Some identity) None [] (Some (JObj dump)))"

definition user_update ::
    "console_setup \<Rightarrow> console_world \<Rightarrow> http_request \<Rightarrow> ustr \<Rightarrow> user_patch option
     \<Rightarrow> (ustr \<times> json) list \<Rightarrow> reply handler" where
  "user_update C w r identity given dump =
     guarded C w r (case given of None \<Rightarrow> False | Some f \<Rightarrow> user_patch_ok f)
       (if dump = [] \<or> map_of dump (u ''status'') = Some JNull
        then Some (Http_exception 422 (u ''Provide valid user fields.'')) else None)
       (manage C w 200 (u ''PATCH'') (u ''users'') (Some identity) None [] (Some (JObj dump)))"

definition application_revoke ::
    "console_setup \<Rightarrow> console_world \<Rightarrow> http_request \<Rightarrow> ustr \<Rightarrow> ustr \<Rightarrow> ustr \<Rightarrow> reply handler" where
  "application_revoke C w r resource identity action =
     guarded C w r True
       (if (resource, action) \<notin> {(u ''invitations'', u ''revoke''), (u ''sessions'', u ''revoke''),
             (u ''users'', u ''revoke-sessions'')}
        then Some (Http_exception 404 (u ''Action not found.'')) else None)
       (manage C w 200 (u ''POST'') resource (Some identity) (Some action) [] None)"

definition handle :: "console_setup \<Rightarrow> console_world \<Rightarrow> http_request \<Rightarrow> reply handler" where
  "handle C w r s =
     (case hr_endpoint r of
        Health \<Rightarrow> (Inr (json_reply 200 (JObj [(u ''status'', JStr (u ''ok''))])), s)
      | Session_read \<Rightarrow> (Inr (json_reply 200 (session_response C (session_of C w r))), s)
      | Login body \<Rightarrow> login C w r body s
      | Logout \<Rightarrow> (logout C w r, s)
      | Dashboard_read refresh \<Rightarrow> read_dashboard C w r refresh s
      | Enqueue body \<Rightarrow> enqueue_action C w r body s
      | Application_list resource limit offset user_id \<Rightarrow>
          application_list C w r resource limit offset user_id s
      | Invitation_create given dump \<Rightarrow> invitation_create C w r given dump s
      | Invitation_update identity given dump \<Rightarrow> invitation_update C w r identity given dump s
      | User_update identity given dump \<Rightarrow> user_update C w r identity given dump s
      | Application_revoke resource identity action \<Rightarrow> application_revoke C w r resource identity action s
      | Index present \<Rightarrow>
          (Inr (if present
                then (page_reply Page_body)\<lparr>rp_headers := [(u ''Cache-Control'', u ''no-cache'')]\<rparr>
                else (page_reply Page_body)\<lparr>rp_status := 503\<rparr>), s)
      | No_route status \<Rightarrow> (Inl (Http_exception status []), s))"

section \<open>The middleware\<close>

definition error_reply :: "http_error \<Rightarrow> reply option" where
  "error_reply e =
     (case e of
        Server_error \<Rightarrow> None
      | Http_exception status detail \<Rightarrow> Some ((detail_reply status detail)\<lparr>rp_headers :=
          (if status = 429 then [(u ''Retry-After'', u ''300'')] else [])\<rparr>))"

definition mutating :: "ustr \<Rightarrow> bool" where
  "mutating m \<longleftrightarrow> m \<in> {u ''POST'', u ''PUT'', u ''PATCH'', u ''DELETE''}"

definition body_limit :: int where
  "body_limit = 16384"

text \<open>Whether the bytes received so far exceed the limit after some chunk.\<close>

fun too_large :: "int \<Rightarrow> nat list list \<Rightarrow> bool" where
  "too_large n [] = False"
| "too_large n (chunk # chunks) =
     (body_limit < n + int (length chunk) \<or> too_large (n + int (length chunk)) chunks)"

definition origin_refused :: "console_setup \<Rightarrow> http_request \<Rightarrow> bool" where
  "origin_refused C r \<longleftrightarrow>
     header r ''sec-fetch-site'' = Some (u ''cross-site'')
     \<or> (case header r ''origin'' of
          None \<Rightarrow> False
        | Some origin \<Rightarrow> origin \<noteq> []
            \<and> rstrip_char 47 origin \<notin> insert (hr_scheme r @ u ''://'' @ hr_netloc r)
                 (set (origins_allowed (settings_of C))))"

definition declared_size :: "http_request \<Rightarrow> int" where
  "declared_size r =
     (case py_int (case header r ''content-length'' of None \<Rightarrow> u ''0'' | Some l \<Rightarrow> l) of
        None \<Rightarrow> 16385 | Some n \<Rightarrow> n)"

definition refused :: "console_setup \<Rightarrow> http_request \<Rightarrow> reply option" where
  "refused C r =
     (if \<not> (starts_with (u ''/api/'') (hr_path r) \<and> mutating (hr_method r)) then None
      else if origin_refused C r then Some (detail_reply 403 (u ''Cross-origin request refused.''))
      else if declared_size r < 0 \<or> body_limit < declared_size r \<or> too_large 0 (hr_chunks r)
      then Some (detail_reply 413 (u ''Request body too large.''))
      else None)"

text \<open>The policy, with \<open>!\<close> for each apostrophe.\<close>

definition security_headers :: "(ustr \<times> ustr) list" where
  "security_headers = [(u ''X-Content-Type-Options'', u ''nosniff''), (u ''X-Frame-Options'', u ''DENY''),
     (u ''Referrer-Policy'', u ''no-referrer''),
     (u ''Content-Security-Policy'', replace_char 33 [39]
       (u ''default-src !none!; script-src !self!; style-src !self! !unsafe-inline!; '' @
        u ''connect-src !self!; img-src !self! data:; font-src !self!; '' @
        u ''frame-ancestors !none!; base-uri !none!; form-action !self!''))]"

text \<open>\<open>response.headers[k] = v\<close>.\<close>

definition with_headers :: "(ustr \<times> ustr) list \<Rightarrow> reply \<Rightarrow> reply" where
  "with_headers hs rp = rp\<lparr>rp_headers := foldl (\<lambda>m (k, v). AList.update k v m) (rp_headers rp) hs\<rparr>"

text \<open>
  One request. \<open>None\<close> is an exception that leaves the application: a bare 500. A request that the
  middleware refuses is answered without the handler, and without the headers.
\<close>

definition serve ::
    "console_setup \<Rightarrow> console_world \<Rightarrow> http_request \<Rightarrow> console_state \<Rightarrow> reply option \<times> console_state" where
  "serve C w r s =
     (case refused C r of
        Some rp \<Rightarrow> (Some rp, s)
      | None \<Rightarrow>
          (case handle C w r s of
             (res, s') \<Rightarrow>
               (map_option
                  (with_headers ((if starts_with (u ''/api/'') (hr_path r)
                     then [(u ''Cache-Control'', u ''no-store'')] else []) @ security_headers))
                  (case res of Inl e \<Rightarrow> error_reply e | Inr rp \<Rightarrow> Some rp), s')))"

end
