(* ===== verification/AppFacts.thy ===== *)
theory AppFacts
  imports AdminApp AuthFacts WorkerRuns
begin

text \<open>
  Who can do what over the console's HTTP interface: every effect is authorized, a stranger learns and
  changes nothing, and only allowed fields of the management API are passed on.
\<close>

section \<open>Routing\<close>

text \<open>What the routes declare of the endpoints that change something: the method and the path.\<close>

definition routed :: "http_request \<Rightarrow> bool" where
  "routed r \<longleftrightarrow> (case hr_endpoint r of
       Enqueue _ \<Rightarrow> hr_method r = u ''POST'' \<and> hr_path r = u ''/api/jobs''
     | Invitation_create _ _ \<Rightarrow>
         hr_method r = u ''POST'' \<and> hr_path r = u ''/api/application/invitations''
     | Invitation_update _ _ _ \<Rightarrow>
         hr_method r = u ''PATCH'' \<and> starts_with (u ''/api/application/invitations/'') (hr_path r)
     | User_update _ _ _ \<Rightarrow>
         hr_method r = u ''PATCH'' \<and> starts_with (u ''/api/application/users/'') (hr_path r)
     | Application_revoke _ _ _ \<Rightarrow>
         hr_method r = u ''POST'' \<and> starts_with (u ''/api/application/'') (hr_path r)
     | _ \<Rightarrow> True)"

text \<open>The endpoints whose handlers ask for the token.\<close>

definition changing :: "endpoint \<Rightarrow> bool" where
  "changing e \<longleftrightarrow> (case e of Enqueue _ \<Rightarrow> True | Invitation_create _ _ \<Rightarrow> True
     | Invitation_update _ _ _ \<Rightarrow> True | User_update _ _ _ \<Rightarrow> True | Application_revoke _ _ _ \<Rightarrow> True
     | _ \<Rightarrow> False)"

lemma starts_with_prefix: "starts_with (p @ q) s \<Longrightarrow> starts_with p s"
proof -
  assume "starts_with (p @ q) s"
  then obtain t where "s = (p @ q) @ t" unfolding starts_with_def by (metis append_take_drop_id)
  then show ?thesis by (simp add: starts_with_def)
qed

lemma api_prefixes:
  "starts_with (u ''/api/application/invitations/'') s \<Longrightarrow> starts_with (u ''/api/'') s"
  "starts_with (u ''/api/application/users/'') s \<Longrightarrow> starts_with (u ''/api/'') s"
  "starts_with (u ''/api/application/'') s \<Longrightarrow> starts_with (u ''/api/'') s"
  using starts_with_prefix [of "u ''/api/''" "u ''application/invitations/''"]
    starts_with_prefix [of "u ''/api/''" "u ''application/users/''"]
    starts_with_prefix [of "u ''/api/''" "u ''application/''"]
  by (simp_all flip: u_append)

lemma routed_guarded:
  assumes "routed r" and "changing (hr_endpoint r)"
  shows "starts_with (u ''/api/'') (hr_path r) \<and> mutating (hr_method r)"
proof -
  have "starts_with (u ''/api/'') (u ''/api/jobs'')"
    "starts_with (u ''/api/'') (u ''/api/application/invitations'')"
    by code_simp+
  then show ?thesis
    using assms api_prefixes [of "hr_path r"]
    by (auto simp: routed_def changing_def mutating_def split: endpoint.splits)
qed

lemma unrefused:
  assumes "refused C r = None" and "routed r" and "changing (hr_endpoint r)"
  shows "\<not> origin_refused C r \<and> \<not> too_large 0 (hr_chunks r)"
  using assms(1) routed_guarded [OF assms(2,3)] by (auto simp: refused_def split: if_splits)

section \<open>Sessions\<close>

lemma authorized_Inr:
  "authorized C w r = Inr p \<longleftrightarrow> session_of C w r = Some p \<and> csrf r p = Inr ()"
  by (auto simp: authorized_def session_def rbind_Inr_iff split: option.splits)

lemma verify_user:
  "verify A a now t = Some p \<Longrightarrow> map_of p (u ''u'') = Some (JStr (am_username (sa_settings a)))"
  by (auto simp: verify_def payload_current_def split: option.splits if_splits list.splits json.splits)

lemma session_user: "session_of C w r = Some p \<Longrightarrow> jget p (u ''u'') = JStr (am_username (settings_of C))"
  by (simp add: session_of_def jget_def verify_user)

section \<open>The queue\<close>

lemma store_enqueue_effect:
  assumes run: "store_enqueue C w p actor key st = (res, st')" and new: "st' \<noteq> st"
  shows "\<not> has_pending st" and "get_by_idempotency key st = None"
    and "st' = st\<lparr>js_jobs := js_jobs st @ [new_job (ap_id p) actor key (ap_kind p)
      (fingerprint (cs_library C) p) (wo_timestamp w) (wo_job_id w)]\<rparr>"
  using run new
  by (auto simp: store_enqueue_def enqueue_job_def Let_def
      split: prod.splits store_fault.splits if_splits option.splits)

lemma submit_effect:
  assumes run: "submit C w p shown actor key s = (res, s')" and new: "co_store s' \<noteq> co_store s"
  shows "\<exists>res st'. store_enqueue C w p actor key (co_store s) = (res, st') \<and> co_store s' = st'"
    and "ac_enabled shown \<or> (\<exists>j. wo_existing w = Some (Some j))"
  using run new
  by (auto simp: submit_def split: option.splits if_splits prod.splits sum.splits queue_error.splits)

lemma submit_keeps: "submit C w p shown actor key s = (res, s') \<Longrightarrow>
    co_calls s' = co_calls s \<and> co_cache s' = co_cache s \<and> co_limiter s' = co_limiter s"
  by (auto simp: submit_def split: option.splits if_splits prod.splits sum.splits queue_error.splits)

text \<open>A key that was read from the queue is still in it: rows are never removed.\<close>

definition earlier_read :: "console_world \<Rightarrow> http_request \<Rightarrow> job_store \<Rightarrow> bool" where
  "earlier_read w r st \<longleftrightarrow> (\<forall>body action_id key j. hr_endpoint r = Enqueue body
     \<longrightarrow> enqueue_body body = Some (action_id, key) \<longrightarrow> wo_existing w = Some (Some j)
     \<longrightarrow> get_by_idempotency key st \<noteq> None)"

text \<open>What has to hold for the job \<open>j\<close> to be put into the queue by the request.\<close>

definition job_admitted :: "console_setup \<Rightarrow> console_world \<Rightarrow> http_request \<Rightarrow> job_store \<Rightarrow> job \<Rightarrow> bool" where
  "job_admitted C w r st j \<longleftrightarrow> (\<exists>payload. session_of C w r = Some payload \<and> csrf r payload = Inr ())
     \<and> \<not> origin_refused C r \<and> am_mode (settings_of C) = Live
     \<and> am_controls_enabled (settings_of C) \<and> fst (worker_available C w)
     \<and> \<not> has_pending st
     \<and> (\<exists>p \<in> set (fst (console_profiles C w)). jb_action_id j = ap_id p \<and> jb_kind j = ap_kind p
          \<and> jb_profile_sha256 j = fingerprint (cs_library C) p)
     \<and> jb_requested_by j = am_username (settings_of C) \<and> jb_state j = Job_queued"

lemma enqueue_action_effect:
  assumes run: "enqueue_action C w r body s = (res, s')" and new: "co_store s' \<noteq> co_store s"
    and read: "earlier_read w r (co_store s)" and e: "hr_endpoint r = Enqueue body"
    and origin: "\<not> origin_refused C r"
  shows "\<exists>j. co_store s' = (co_store s)\<lparr>js_jobs := js_jobs (co_store s) @ [j]\<rparr>
    \<and> job_admitted C w r (co_store s) j"
proof -
  obtain action_id key where b: "enqueue_body body = Some (action_id, key)"
    using run new by (auto simp: enqueue_action_def split: option.splits)
  obtain payload where auth: "authorized C w r = Inr payload"
    using run new b by (auto simp: enqueue_action_def split: sum.splits)
  then have session: "session_of C w r = Some payload" "csrf r payload = Inr ()"
    by (simp_all add: authorized_Inr)
  have live: "am_mode (settings_of C) = Live"
    using run new b auth by (cases "am_mode (settings_of C)") (auto simp: enqueue_action_def)
  obtain actions profiles ok where c: "controls C w = (actions, profiles, ok)" by (cases "controls C w")
  obtain p shown where p: "map_of profiles action_id = Some p"
    and shown: "find (\<lambda>item. ac_id item = ap_id p) actions = Some shown"
    and sub: "submit C w p shown (am_username (settings_of C)) key s = (res, s')"
    using run new b auth live c session_user [OF session(1)]
    by (auto simp: enqueue_action_def split: option.splits)
  have profiles: "profiles = map (\<lambda>p. (ap_id p, p)) (fst (console_profiles C w))"
    and actions: "actions = (if fst (console_profiles C w) = [] then placeholder_cards (disabled_reason C w)
      else map (profile_card (disabled_reason C w)) (fst (console_profiles C w)))"
    using c by (simp_all add: controls_def Let_def)
  have mem: "p \<in> set (fst (console_profiles C w))" using map_of_SomeD [OF p] by (auto simp: profiles)
  obtain st' res' where st: "store_enqueue C w p (am_username (settings_of C)) key (co_store s) = (res', st')"
    "co_store s' = st'" using submit_effect(1) [OF sub new] by blast
  note eff = store_enqueue_effect [OF st(1)] 
  have "st' \<noteq> co_store s" using new st(2) by simp
  note eff = eff [OF this]
  have "\<not> (\<exists>j. wo_existing w = Some (Some j))"
    using read e b eff(2) unfolding earlier_read_def by blast
  then have "ac_enabled shown" using submit_effect(2) [OF sub new] by blast
  moreover have "shown \<in> set actions" using shown by (auto simp: find_Some_iff)
  ultimately have "disabled_reason C w = None"
    using mem by (auto simp: actions profile_card_def split: if_splits)
  then have "am_controls_enabled (settings_of C) \<and> fst (worker_available C w)"
    by (auto simp: disabled_reason_def split: option.splits bool.splits if_splits)
  then show ?thesis
    using session live mem eff(1,3) st(2) origin
    by (intro exI [of _ "new_job (ap_id p) (am_username (settings_of C)) key (ap_kind p)
        (fingerprint (cs_library C) p) (wo_timestamp w) (wo_job_id w)"])
      (auto simp: job_admitted_def new_job_def intro!: bexI [of _ p])
qed

section \<open>Calls of the management API\<close>

lemma api_request_calls:
  "api_request E s x verb resource i a ps b = (calls, res) \<Longrightarrow>
   length calls \<le> 1 \<and> (\<forall>c \<in> set calls. al_method c = verb \<and> al_resource c = resource
     \<and> resource \<in> set api_resources \<and> am_mode s = Live)"
  by (cases "am_mode s") (auto simp: api_request_def split: if_splits)

lemma manage_effect:
  assumes "manage C w status verb resource i a ps b s = (res, s')"
  obtains calls where "co_calls s' = co_calls s @ calls" "length calls \<le> 1"
    "\<forall>c \<in> set calls. al_method c = verb \<and> am_mode (settings_of C) = Live"
    "co_store s' = co_store s" "co_cache s' = co_cache s" "co_limiter s' = co_limiter s"
  using assms api_request_calls [of "cs_api C" "settings_of C" "wo_exchange w" verb resource i a ps b]
  by (auto simp: manage_def split: prod.splits)

text \<open>What a handler may do to the state: a call of the API needs a session, one that changes
  something needs the token too.\<close>

definition calls_made :: "console_setup \<Rightarrow> console_world \<Rightarrow> http_request \<Rightarrow> console_state \<Rightarrow> console_state \<Rightarrow> bool" where
  "calls_made C w r s s' \<longleftrightarrow> (\<exists>calls. co_calls s' = co_calls s @ calls \<and> length calls \<le> 1
     \<and> (\<forall>c \<in> set calls. am_mode (settings_of C) = Live \<and> (\<exists>payload. session_of C w r = Some payload
          \<and> (al_method c = u ''GET'' \<or> csrf r payload = Inr () \<and> \<not> origin_refused C r))))"

lemma calls_made_none: "co_calls s' = co_calls s \<Longrightarrow> calls_made C w r s s'"
  by (auto simp: calls_made_def)

lemma guarded_effect:
  assumes "guarded C w r valid problem (manage C w status verb resource i a ps b) s = (res, s')"
    and origin: "\<not> origin_refused C r"
  shows "calls_made C w r s s' \<and> co_store s' = co_store s"
proof (cases "s' = s")
  case True
  then show ?thesis by (simp add: calls_made_none)
next
  case False
  then obtain p where "authorized C w r = Inr p"
    and m: "manage C w status verb resource i a ps b s = (res, s')"
    using assms(1) by (auto simp: guarded_def split: if_splits sum.splits option.splits)
  then have p: "session_of C w r = Some p" "csrf r p = Inr ()" by (simp_all add: authorized_Inr)
  from m obtain calls where "co_calls s' = co_calls s @ calls" "length calls \<le> 1"
    "\<forall>c \<in> set calls. al_method c = verb \<and> am_mode (settings_of C) = Live" "co_store s' = co_store s"
    by (rule manage_effect)
  then show ?thesis using p origin unfolding calls_made_def by auto
qed

lemma list_effect:
  assumes "application_list C w r resource limit offset user_id s = (res, s')"
  shows "calls_made C w r s s' \<and> co_store s' = co_store s"
proof (cases "s' = s")
  case True
  then show ?thesis by (simp add: calls_made_none)
next
  case False
  then obtain p ps where p: "session_of C w r = Some p"
    and m: "manage C w 200 (u ''GET'') resource None None ps None s = (res, s')"
    using assms by (auto simp: application_list_def session_def split: if_splits sum.splits option.splits)
  from m obtain calls where "co_calls s' = co_calls s @ calls" "length calls \<le> 1"
    "\<forall>c \<in> set calls. al_method c = u ''GET'' \<and> am_mode (settings_of C) = Live" "co_store s' = co_store s"
    by (rule manage_effect)
  then show ?thesis using p unfolding calls_made_def by auto
qed

lemma read_dashboard_keeps:
  "read_dashboard C w r refresh s = (res, s') \<Longrightarrow> co_store s' = co_store s \<and> co_calls s' = co_calls s
     \<and> co_limiter s' = co_limiter s"
  by (auto simp: read_dashboard_def split: sum.splits if_splits prod.splits option.splits)

lemma login_keeps:
  "login C w r body s = (res, s') \<Longrightarrow> co_store s' = co_store s \<and> co_calls s' = co_calls s
     \<and> co_cache s' = co_cache s"
  by (auto simp: login_def Let_def split: option.splits prod.splits bool.splits)

lemma handle_effect:
  assumes run: "handle C w r s = (res, s')" and routed: "routed r" and open_: "refused C r = None"
    and read: "earlier_read w r (co_store s)"
  shows "calls_made C w r s s' \<and> (co_store s' = co_store s \<or> (\<exists>j.
    co_store s' = (co_store s)\<lparr>js_jobs := js_jobs (co_store s) @ [j]\<rparr> \<and> job_admitted C w r (co_store s) j))"
proof (cases "changing (hr_endpoint r)")
  case False
  then show ?thesis
    using run list_effect [of C w r _ _ _ _ s res s'] read_dashboard_keeps [of C w r _ s res s']
      login_keeps [of C w r _ s res s']
    by (auto simp: handle_def changing_def calls_made_none split: endpoint.splits)
next
  case True
  note origin = conjunct1 [OF unrefused [OF open_ routed True]]
  show ?thesis
  proof (cases "\<exists>body. hr_endpoint r = Enqueue body")
    case True
    then obtain body where e: "hr_endpoint r = Enqueue body" by blast
    then have run': "enqueue_action C w r body s = (res, s')" using run by (simp add: handle_def)
    have "co_calls s' = co_calls s"
      using run' submit_keeps
      by (fastforce simp: enqueue_action_def split: option.splits sum.splits if_splits prod.splits json.splits)
    then show ?thesis
      using enqueue_action_effect [OF run' _ read e origin] calls_made_none by blast
  next
    case False
    then show ?thesis
      using run \<open>changing (hr_endpoint r)\<close> guarded_effect [OF _ origin, of w _ _ _ _ _ _ _ _ _ s res s']
      by (auto simp: handle_def changing_def invitation_create_def invitation_update_def user_update_def
          application_revoke_def split: endpoint.splits)
  qed
qed


text \<open>
  C8: Whatever the console does on a request is authorized. A job is put into the queue only for a live
  session with the token of that session, from an allowed origin, with the controls switched on, a
  worker that is there and no other job pending; it is exactly one job, of a profile of the operator,
  with the digest of that profile and the name of the operator. At most one call of the management API
  goes out, for a live session, and with the token and an allowed origin unless it only reads.
\<close>

theorem effects_authorized:
  assumes "serve C w r s = (rp, s')" and "routed r" and "earlier_read w r (co_store s)"
  shows "calls_made C w r s s' \<and> (co_store s' = co_store s \<or> (\<exists>j.
    co_store s' = (co_store s)\<lparr>js_jobs := js_jobs (co_store s) @ [j]\<rparr> \<and> job_admitted C w r (co_store s) j))"
proof (cases "refused C r")
  case None
  then obtain res where "handle C w r s = (res, s')"
    using assms(1) by (auto simp: serve_def split: prod.splits)
  then show ?thesis using handle_effect [OF _ assms(2) None assms(3)] by blast
next
  case (Some reply)
  then show ?thesis using assms(1) by (simp add: serve_def calls_made_none)
qed

section \<open>Strangers\<close>

lemma login_limits: "login C w r b s = (res, s') \<Longrightarrow> \<exists>l. s' = s\<lparr>co_limiter := l\<rparr>"
  by (auto simp: login_def Let_def intro: exI [of _ "co_limiter s"] split: option.splits prod.splits bool.splits)

text \<open>
  C12: A stranger changes nothing and learns nothing. To a request without a valid session that is not a
  login the console answers the same whatever the state, the queue, the databases and the management
  API hold, and the state stays as it is. A login changes nothing but the counters of the attempts.
\<close>

theorem strangers_learn_nothing:
  assumes "session_of C w r = None" and "session_of C w' r = None"
  shows "case hr_endpoint r of
      Login _ \<Rightarrow> \<exists>l. snd (serve C w r s) = s\<lparr>co_limiter := l\<rparr>
    | _ \<Rightarrow> snd (serve C w r s) = s \<and> fst (serve C w r s) = fst (serve C w' r s')"
proof (cases "refused C r")
  case (Some reply)
  then show ?thesis by (auto simp: serve_def intro: exI [of _ "co_limiter s"] split: endpoint.splits)
next
  case None
  have "authorized C v r = Inl (Http_exception 401 (u ''Authentication required.''))"
    "session C v r = Inl (Http_exception 401 (u ''Authentication required.''))"
    if "v \<in> {w, w'}" for v
    using assms that by (auto simp: authorized_def session_def)
  then show ?thesis
    using None assms
    by (auto simp: serve_def handle_def login_limits read_dashboard_def enqueue_action_def application_list_def
        invitation_create_def invitation_update_def user_update_def application_revoke_def guarded_def
        logout_def split: endpoint.splits prod.splits option.splits if_splits)
qed

text \<open>The replies that leave the cookie alone.\<close>

lemma reply_cookies [simp]:
  "rp_cookie (json_reply n v) = Keep_cookie" "rp_cookie (detail_reply n d) = Keep_cookie"
  "rp_cookie (page_reply b) = Keep_cookie" "rp_cookie (with_headers hs rp) = rp_cookie rp"
  "error_reply e = Some rp \<Longrightarrow> rp_cookie rp = Keep_cookie"
  by (auto simp: json_reply_def detail_reply_def page_reply_def with_headers_def error_reply_def
      split: http_error.splits)

lemma refused_cookie: "refused C r = Some rp \<Longrightarrow> rp_cookie rp = Keep_cookie"
  by (auto simp: refused_def split: if_splits)

lemma manage_cookie: "manage C w status verb resource i a ps b s = (Inr rp, s') \<Longrightarrow> rp_cookie rp = Keep_cookie"
  by (auto simp: manage_def rbind_Inr_iff split: prod.splits)

lemma guarded_cookie:
  "guarded C w r valid problem (manage C w status verb resource i a ps b) s = (Inr rp, s') \<Longrightarrow> rp_cookie rp = Keep_cookie"
  by (auto simp: guarded_def dest: manage_cookie split: if_splits sum.splits option.splits)

lemma list_cookie:
  "application_list C w r resource limit offset user_id s = (Inr rp, s') \<Longrightarrow> rp_cookie rp = Keep_cookie"
  by (auto simp: application_list_def dest: manage_cookie split: if_splits sum.splits option.splits)

lemma dashboard_cookie: "read_dashboard C w r refresh s = (Inr rp, s') \<Longrightarrow> rp_cookie rp = Keep_cookie"
  by (auto simp: read_dashboard_def split: sum.splits if_splits prod.splits option.splits)

lemma enqueue_cookie: "enqueue_action C w r body s = (Inr rp, s') \<Longrightarrow> rp_cookie rp = Keep_cookie"
  by (auto simp: enqueue_action_def submit_def
      split: option.splits sum.splits if_splits prod.splits json.splits queue_error.splits)

lemmas keeps_cookie = guarded_cookie list_cookie dashboard_cookie enqueue_cookie

text \<open>
  A session is opened for the operator's name and password only. A reply that sets the cookie answers
  a login whose attempt was within the bounds and whose name and password were found valid, and the
  cookie is the one issued at that moment; every other cookie change is the deletion at a logout.
\<close>

theorem cookies_for_credentials:
  assumes "serve C w r s = (Some rp, s')" and "rp_cookie rp \<noteq> Keep_cookie"
  shows "(\<exists>body name password token payload. hr_endpoint r = Login body \<and> login_body body = Some (name, password)
      \<and> fst (allow (wo_clock w) (wo_clock_after w) (case hr_client r of None \<Rightarrow> u ''unknown'' | Some c \<Rightarrow> c)
          (co_limiter s))
      \<and> credentials_valid (cs_digests C) (cs_auth C) name password = Some True
      \<and> issue (cs_digests C) (cs_auth C) (wo_now w) (wo_nonce w) = Some (token, payload)
      \<and> rp_cookie rp = Set_cookie token (am_cookie_secure (settings_of C)) (am_session_seconds (settings_of C)))
    \<or> (hr_endpoint r = Logout \<and> (\<exists>payload. authorized C w r = Inr payload)
      \<and> rp_cookie rp = Delete_cookie (am_cookie_secure (settings_of C)))"
proof (cases "refused C r")
  case (Some reply)
  then show ?thesis using assms refused_cookie by (auto simp: serve_def)
next
  case None
  then obtain res where h: "handle C w r s = (res, s')"
    and rp: "\<exists>hs rq. rp = with_headers hs rq \<and> (case res of Inl e \<Rightarrow> error_reply e = Some rq | Inr x \<Rightarrow> x = rq)"
    using assms(1) by (auto simp: serve_def split: prod.splits sum.splits)
  then obtain rq where res: "res = Inr rq" and c: "rp_cookie rp = rp_cookie rq" "rp_cookie rq \<noteq> Keep_cookie"
    using assms(2) by (cases res) auto
  have "(\<exists>body. hr_endpoint r = Login body) \<or> hr_endpoint r = Logout"
    using h c(2) keeps_cookie
    by (auto simp: res handle_def invitation_create_def invitation_update_def user_update_def
        application_revoke_def split: endpoint.splits if_splits)
  then show ?thesis
    using h c by (auto simp: res handle_def login_def logout_def Let_def rbind_Inr_iff
        split: option.splits prod.splits bool.splits)
qed


section \<open>What the management API may tell\<close>

definition management_request :: "endpoint \<Rightarrow> (ustr \<times> ustr \<times> ustr option) option" where
  "management_request e =
     (case e of
        Application_list resource _ _ _ \<Rightarrow> Some (u ''GET'', resource, None)
      | Invitation_create _ _ \<Rightarrow> Some (u ''POST'', u ''invitations'', None)
      | Invitation_update _ _ _ \<Rightarrow> Some (u ''PATCH'', u ''invitations'', None)
      | User_update _ _ _ \<Rightarrow> Some (u ''PATCH'', u ''users'', None)
      | Application_revoke resource _ action \<Rightarrow> Some (u ''POST'', resource, Some action)
      | _ \<Rightarrow> None)"

text \<open>An item with nothing but the listed fields, all of them scalars, and its identifier.\<close>

definition item_shown :: "api_env \<Rightarrow> ustr \<Rightarrow> json \<Rightarrow> bool" where
  "item_shown E resource v \<longleftrightarrow> (\<exists>kvs. v = JObj kvs \<and> fst ` set kvs \<subseteq> set (api_fields resource)
     \<and> (\<forall>x \<in> snd ` set kvs. scalar_field x)
     \<and> (\<exists>i. map_of kvs (u ''id'') = Some (JStr i) \<and> ae_uuid E i))"

definition page_shown :: "api_env \<Rightarrow> ustr \<Rightarrow> json \<Rightarrow> bool" where
  "page_shown E resource v \<longleftrightarrow> (\<exists>items n. v = JObj [(u ''items'', JArr items), (u ''total'', JInt n)]
     \<and> length items \<le> 100 \<and> 0 \<le> n \<and> (\<forall>item \<in> set items. item_shown E resource item))"

definition invitation_shown :: "api_env \<Rightarrow> json \<Rightarrow> bool" where
  "invitation_shown E v \<longleftrightarrow> (\<exists>item code url svg. v = JObj [(u ''invitation'', item), (u ''code'', JStr code),
       (u ''invite_url'', JStr url), (u ''qr_svg'', JStr svg)]
     \<and> item_shown E (u ''invitations'') item \<and> 8 \<le> length code \<and> length code \<le> 512
     \<and> length url \<le> 4096 \<and> ae_qr E url = Some svg)"

definition answer_shown :: "api_env \<Rightarrow> ustr \<Rightarrow> ustr \<Rightarrow> ustr option \<Rightarrow> json \<Rightarrow> bool" where
  "answer_shown E verb resource action v \<longleftrightarrow>
     (if verb = u ''GET'' then page_shown E resource v
      else if verb = u ''POST'' \<and> resource = u ''invitations'' \<and> action = None then invitation_shown E v
      else if verb = u ''PATCH'' \<and> resource = u ''invitations'' then item_shown E resource v
      else v = JObj [(u ''ok'', JBool True)])"

text \<open>The fixed texts of the refusals and failures.\<close>

definition management_texts :: "ustr list" where
  "management_texts = map u [
     ''Cross-origin request refused.'', ''Request body too large.'', ''Invalid request.'',
     ''Authentication required.'', ''Invalid CSRF token.'', ''Resource not found.'',
     ''Provide at least one field.'', ''Provide valid user fields.'', ''Action not found.'',
     ''Application management is unavailable in demo mode.'',
     ''Application management is not configured. Configure the private application API URL and token.'',
     ''Application management returned an unavailable or invalid response.'',
     ''The application rejected this request. Refresh and check the submitted values.'',
     ''Application management is unavailable. Check server connectivity and management credentials.'']"

definition refusal :: "http_error \<Rightarrow> bool" where
  "refusal e \<longleftrightarrow> (case e of Server_error \<Rightarrow> True | Http_exception _ d \<Rightarrow> d \<in> set management_texts)"

lemma public_item_shown: "public_item E resource v = Some x \<Longrightarrow> item_shown E resource x"
  by (force simp: public_item_def item_shown_def Let_def list_all_iff split: json.splits if_splits option.splits)

lemma public_items_shown:
  "public_items E resource vs = Some xs \<Longrightarrow> length xs = length vs \<and> (\<forall>x \<in> set xs. item_shown E resource x)"
  by (induction vs arbitrary: xs) (auto split: option.splits dest: public_item_shown)

lemma management_page_shown: "management_page E resource data = Some v \<Longrightarrow> page_shown E resource v"
  by (auto simp: management_page_def page_shown_def split: json.splits option.splits if_splits dest: public_items_shown)

lemma invitation_of_shown: "invitation_of E (u ''invitations'') data = Some v \<Longrightarrow> invitation_shown E v"
  using public_item_shown [of E "u ''invitations''"]
  by (auto simp: invitation_of_def invitation_shown_def split: json.splits option.splits if_splits)

lemma api_result_shown: "api_result E verb resource action data = Some v \<Longrightarrow> answer_shown E verb resource action v"
  by (auto simp: api_result_def answer_shown_def split: if_splits json.splits
      dest: management_page_shown invitation_of_shown public_item_shown)

lemma read_answer_shown:
  "case read_answer E verb resource action a of
     Inr v \<Rightarrow> answer_shown E verb resource action v | Inl e \<Rightarrow> refusal e"
  by (auto simp: read_answer_def refusal_def management_texts_def invalid_response_def checked_def bind_eq_Some_conv
      split: option.splits dest: api_result_shown)

lemma api_request_shown:
  "api_request E t x verb resource i action ps b = (calls, res) \<Longrightarrow>
   case res of Inr v \<Rightarrow> answer_shown E verb resource action v | Inl e \<Rightarrow> refusal e"
  using read_answer_shown [of E verb resource action]
  by (auto simp: api_request_def refusal_def management_texts_def invalid_response_def
      split: if_splits api_exchange.splits)


text \<open>The same of a handler and of the whole request.\<close>

definition answers_shown :: "api_env \<Rightarrow> ustr \<Rightarrow> ustr \<Rightarrow> ustr option \<Rightarrow> http_error + reply \<Rightarrow> bool" where
  "answers_shown E verb resource action res \<longleftrightarrow> (case res of Inl e \<Rightarrow> refusal e
     | Inr rp \<Rightarrow> \<exists>v. rp_body rp = Json_body v \<and> answer_shown E verb resource action v)"

lemma manage_shown:
  "manage C w status verb resource i action ps b s = (res, s') \<Longrightarrow> answers_shown (cs_api C) verb resource action res"
  using api_request_shown [of "cs_api C" "settings_of C" "wo_exchange w" verb resource i action ps b]
  by (auto simp: manage_def answers_shown_def json_reply_def split: prod.splits sum.splits)

lemma session_refusal: "session C w r = Inl e \<Longrightarrow> refusal e"
  by (auto simp: session_def refusal_def management_texts_def split: option.splits)

lemma csrf_refusal: "csrf r p = Inl e \<Longrightarrow> refusal e"
  by (auto simp: csrf_def refusal_def management_texts_def Let_def split: if_splits json.splits option.splits)

lemma authorized_refusal: "authorized C w r = Inl e \<Longrightarrow> refusal e"
  using session_refusal [of C w r] csrf_refusal [of r]
  by (auto simp: authorized_def rbind_def split: sum.splits)

lemma guarded_shown:
  assumes "guarded C w r valid problem (manage C w status verb resource i action ps b) s = (res, s')"
    and "\<And>e. problem = Some e \<Longrightarrow> refusal e"
  shows "answers_shown (cs_api C) verb resource action res"
proof -
  have "refusal invalid_request" by (simp add: refusal_def invalid_request_def management_texts_def)
  then show ?thesis
    using assms authorized_refusal [of C w r] manage_shown [of C w status verb resource i action ps b s res s']
    by (auto simp: guarded_def answers_shown_def split: if_splits sum.splits option.splits)
qed

lemma list_shown:
  assumes "application_list C w r resource limit offset user_id s = (res, s')"
  shows "answers_shown (cs_api C) (u ''GET'') resource None res"
proof -
  have "refusal invalid_request" "refusal (Http_exception 404 (u ''Resource not found.''))"
    by (simp_all add: refusal_def invalid_request_def management_texts_def)
  then show ?thesis
    using assms session_refusal [of C w r] manage_shown [of C w 200 "u ''GET''" resource None None _ None s res s']
    by (auto simp: application_list_def answers_shown_def split: if_splits sum.splits option.splits)
qed

lemma user_update_shown:
  "user_update C w r i given dump s = (res, s') \<Longrightarrow> answers_shown (cs_api C) (u ''PATCH'') (u ''users'') None res"
  unfolding user_update_def by (erule guarded_shown) (auto simp: refusal_def management_texts_def split: if_splits)

lemma handle_shown:
  assumes "handle C w r s = (res, s')" and "management_request (hr_endpoint r) = Some (verb, resource, action)"
  shows "answers_shown (cs_api C) verb resource action res"
  using assms
  by (auto simp: handle_def management_request_def invitation_create_def invitation_update_def
      application_revoke_def refusal_def management_texts_def
      intro: guarded_shown list_shown user_update_shown split: endpoint.splits if_splits)

text \<open>
  C27: The browser sees of the private management API what is listed, and nothing else. Whatever the API
  answers to a request of the console, the reply is a page of at most 100 items, a new invitation with
  its code, link and image, one item, or a confirmation, where every item holds only the fields listed
  for its kind, each a scalar, and an identifier; or else it is one of the fixed texts, which do not
  depend on the answer.
\<close>

theorem management_answers_projected:
  assumes "serve C w r s = (Some rp, s')"
    and "management_request (hr_endpoint r) = Some (verb, resource, action)"
  shows "\<exists>v. rp_body rp = Json_body v \<and> (answer_shown (cs_api C) verb resource action v
    \<or> (\<exists>text \<in> set management_texts. v = JObj [(u ''detail'', JStr text)]))"
proof (cases "refused C r")
  case (Some rq)
  then show ?thesis
    using assms(1) by (auto simp: serve_def refused_def detail_reply_def json_reply_def management_texts_def split: if_splits)
next
  case None
  then obtain res where h: "handle C w r s = (res, s')"
    and rp: "\<exists>hs rq. rp = with_headers hs rq \<and> (case res of Inl e \<Rightarrow> error_reply e = Some rq | Inr x \<Rightarrow> x = rq)"
    using assms(1) by (auto simp: serve_def split: prod.splits sum.splits)
  from handle_shown [OF h assms(2)] rp show ?thesis
    by (cases res) (auto simp: answers_shown_def with_headers_def error_reply_def refusal_def detail_reply_def
        json_reply_def split: http_error.splits)
qed

end
