(* ===== verification/AppRuns.thy ===== *)
theory AppRuns
  imports AppFacts
begin

text \<open>
  Requests to a console with one profile: a login, a job, a list of invitations, and a stranger. They
  meet the hypotheses of the console's properties.
\<close>

definition example_api :: api_env where
  "example_api = \<lparr>ae_uuid = (\<lambda>i. i = u ''id''), ae_url = (\<lambda>_. None), ae_qr = (\<lambda>_. None),
     ae_loads = (\<lambda>_. Some (JObj [(u ''items'', JArr [JObj [(u ''id'', JStr (u ''id'')),
       (u ''label'', JStr (u ''class'')), (u ''token'', JStr (u ''secret''))]]), (u ''total'', JInt 1)]))\<rparr>"

definition example_setup :: console_setup where
  "example_setup = \<lparr>cs_digests = example_auth_env, cs_library = example_console, cs_api = example_api,
     cs_auth = example_session\<lparr>sa_settings := example_admin_settings\<lparr>
       am_actions_file := Some (u ''/etc/actions.json''),
       am_application_api_url := Some (u ''http://api''),
       am_application_api_token := Some (replicate 32 97)\<rparr>\<rparr>\<rparr>"

definition example_dashboard :: dashboard where
  "example_dashboard = dashboard_from_results (u ''now'') Not_configured Not_configured"

definition example_world :: console_world where
  "example_world = \<lparr>wo_now = 1000, wo_clock = 1, wo_clock_after = 1, wo_nonce = replicate 32 0,
     wo_host = example_host,
     wo_worker = Some (Some \<lparr>wk_worker_id = u ''w'', wk_heartbeat_at = u ''now'', wk_job_id = None\<rparr>),
     wo_age = Some 5, wo_pending = Some False, wo_existing = Some None, wo_jobs = Some [],
     wo_fault = Store_answers, wo_timestamp = u ''now'', wo_job_id = u ''job'',
     wo_collected = Some example_dashboard, wo_demo = example_dashboard,
     wo_exchange = Api_answered \<lparr>aw_status = 200, aw_encoding = None, aw_length = None, aw_chunks = []\<rparr>\<rparr>"

definition example_console_state :: console_state where
  "example_console_state = \<lparr>co_limiter = empty_limiter, co_cache = empty_cache,
     co_store = sy_store initial_system, co_calls = []\<rparr>"

definition example_cookie :: ustr where
  "example_cookie = encode (u ''{}'') @ 46 # encode (replicate 32 97)"

definition example_request :: "string \<Rightarrow> string \<Rightarrow> endpoint \<Rightarrow> http_request" where
  "example_request verb path e = \<lparr>hr_method = u verb, hr_path = u path, hr_scheme = u ''https'',
     hr_netloc = u ''console'', hr_headers = [(u ''x-csrf-token'', encode (replicate 32 0))],
     hr_cookies = [(cookie_name, example_cookie)], hr_chunks = [], hr_client = None, hr_endpoint = e\<rparr>"

definition enqueue_request :: http_request where
  "enqueue_request = example_request ''POST'' ''/api/jobs'' (Enqueue (Some (JObj
     [(u ''action_id'', JStr (u ''refresh-due'')), (u ''idempotency_key'', JStr (replicate 16 97))])))"

definition list_request :: http_request where
  "list_request = example_request ''GET'' ''/api/application/invitations''
     (Application_list (u ''invitations'') 10 0 None)"

definition login_request :: http_request where
  "login_request = (example_request ''POST'' ''/api/login'' (Login (Some (JObj
     [(u ''username'', JStr (u ''operator'')), (u ''password'', JStr (u ''password''))]))))\<lparr>hr_cookies := []\<rparr>"

lemma job_served:
  "map jb_action_id (js_jobs (co_store (snd (serve example_setup example_world enqueue_request example_console_state))))
     = [u ''refresh-due'']
   \<and> map_option rp_status (fst (serve example_setup example_world enqueue_request example_console_state)) = Some 202"
  by code_simp

lemma list_served:
  "map_option rp_body (fst (serve example_setup example_world list_request example_console_state))
     = Some (Json_body (JObj [(u ''items'', JArr [JObj [(u ''id'', JStr (u ''id'')),
         (u ''label'', JStr (u ''class''))]]), (u ''total'', JInt 1)]))"
  by code_simp

lemma login_served:
  "map_option rp_cookie (fst (serve example_setup example_world login_request example_console_state))
     = Some (Set_cookie example_cookie True 600)"
  by code_simp

lemma stranger_served:
  "session_of example_setup example_world (enqueue_request\<lparr>hr_cookies := []\<rparr>) = None
   \<and> map_option rp_status (fst (serve example_setup example_world (enqueue_request\<lparr>hr_cookies := []\<rparr>) example_console_state))
     = Some 401"
  by code_simp


theorem effects_authorized_witness:
  "\<exists>j. co_store (snd (serve example_setup example_world enqueue_request example_console_state))
      = (co_store example_console_state)\<lparr>js_jobs := js_jobs (co_store example_console_state) @ [j]\<rparr>
    \<and> job_admitted example_setup example_world enqueue_request (co_store example_console_state) j"
proof -
  let ?s = "example_console_state"
  obtain rp s' where run: "serve example_setup example_world enqueue_request ?s = (rp, s')" by fastforce
  have "routed enqueue_request" by code_simp
  moreover have "earlier_read example_world enqueue_request (co_store ?s)"
    by (simp add: earlier_read_def example_world_def)
  ultimately have "co_store s' = co_store ?s \<or> (\<exists>j. co_store s' = (co_store ?s)\<lparr>js_jobs := js_jobs (co_store ?s) @ [j]\<rparr>
      \<and> job_admitted example_setup example_world enqueue_request (co_store ?s) j)"
    using effects_authorized [OF run] by blast
  moreover have "co_store s' \<noteq> co_store ?s"
    using job_served run by (auto simp: example_console_state_def initial_system_def empty_store_def)
  ultimately show ?thesis using run by auto
qed

theorem strangers_learn_nothing_witness:
  "snd (serve example_setup example_world (enqueue_request\<lparr>hr_cookies := []\<rparr>) example_console_state)
   = example_console_state"
  using strangers_learn_nothing [of example_setup example_world "enqueue_request\<lparr>hr_cookies := []\<rparr>"
      example_world example_console_state example_console_state] stranger_served
  by (simp add: enqueue_request_def example_request_def)

theorem cookies_for_credentials_witness:
  "\<exists>body name password. hr_endpoint login_request = Login body \<and> login_body body = Some (name, password)
    \<and> credentials_valid (cs_digests example_setup) (cs_auth example_setup) name password = Some True"
proof -
  obtain rp where rp: "fst (serve example_setup example_world login_request example_console_state) = Some rp"
    "rp_cookie rp = Set_cookie example_cookie True 600"
    using login_served by auto
  then have "serve example_setup example_world login_request example_console_state
      = (Some rp, snd (serve example_setup example_world login_request example_console_state))"
    by (metis prod.collapse)
  from cookies_for_credentials [OF this] rp(2) show ?thesis by auto
qed

theorem management_answers_projected_witness:
  "\<exists>v. map_option rp_body (fst (serve example_setup example_world list_request example_console_state)) = Some (Json_body v)
    \<and> page_shown example_api (u ''invitations'') v"
proof -
  obtain rp where rp: "fst (serve example_setup example_world list_request example_console_state) = Some rp"
    "rp_body rp = Json_body (JObj [(u ''items'', JArr [JObj [(u ''id'', JStr (u ''id'')),
         (u ''label'', JStr (u ''class''))]]), (u ''total'', JInt 1)])"
    using list_served by auto
  then have run: "serve example_setup example_world list_request example_console_state
      = (Some rp, snd (serve example_setup example_world list_request example_console_state))"
    by (metis prod.collapse)
  have "management_request (hr_endpoint list_request) = Some (u ''GET'', u ''invitations'', None)" by code_simp
  from management_answers_projected [OF run this] rp show ?thesis
    by (auto simp: answer_shown_def example_setup_def u_def)
qed

end
