(* ===== verification/Pattern.thy ===== *)
theory Pattern
  imports PyText
begin

text \<open>
  What the occupation matcher uses of Python's \<open>re\<close>: patterns as a datatype, and the backtracking
  matcher as the list of the ends of all ways to match, in the order in which they are tried. The
  Unicode tables are parameters.
\<close>

text \<open>How characters compare under \<open>re.IGNORECASE\<close>, and which are \<open>\w\<close>.\<close>

record char_table =
  ct_fold :: "nat \<Rightarrow> nat"
  ct_word :: "nat \<Rightarrow> bool"

text \<open>
  \<open>Lit\<close> is a text; \<open>One_of\<close> and \<open>None_of\<close> are classes; \<open>Rep n k\<close> is \<open>{n,k}\<close>; a lookbehind has a fixed width.
\<close>

datatype pat =
    Fail
  | Lit ustr
  | One_of "nat list"
  | None_of "nat list"
  | Space
  | Any_char
  | Seq pat pat
  | Alt pat pat
  | Opt pat
  | Star pat
  | Plus pat
  | Rep nat nat pat
  | Ahead pat
  | Not_ahead pat
  | Not_behind nat pat
  | Word_edge
  | Line_end

fun alts :: "pat list \<Rightarrow> pat" where
  "alts [] = Fail"
| "alts [p] = p"
| "alts (p # ps) = Alt p (alts ps)"

fun seqs :: "pat list \<Rightarrow> pat" where
  "seqs [] = Lit []"
| "seqs [p] = p"
| "seqs (p # ps) = Seq p (seqs ps)"

text \<open>Repetition: as often as possible first, and never without progress.\<close>

fun star_from :: "(nat \<Rightarrow> nat list) \<Rightarrow> nat \<Rightarrow> nat \<Rightarrow> nat list" where
  "star_from f 0 i = [i]"
| "star_from f (Suc n) i = concat (map (\<lambda>j. if i < j then star_from f n j else []) (f i)) @ [i]"

fun rep_from :: "(nat \<Rightarrow> nat list) \<Rightarrow> nat \<Rightarrow> nat \<Rightarrow> nat \<Rightarrow> nat list" where
  "rep_from f n 0 i = (if n = 0 then [i] else [])"
| "rep_from f n (Suc k) i = concat (map (rep_from f (n - 1) k) (f i)) @ (if n = 0 then [i] else [])"

definition same_char :: "char_table \<Rightarrow> bool \<Rightarrow> nat \<Rightarrow> nat \<Rightarrow> bool" where
  "same_char T ci a b \<longleftrightarrow> (if ci then ct_fold T a = ct_fold T b else a = b)"

definition one_char :: "ustr \<Rightarrow> (nat \<Rightarrow> bool) \<Rightarrow> nat \<Rightarrow> nat list" where
  "one_char s ok i = (if i < length s \<and> ok (s ! i) then [Suc i] else [])"

text \<open>The ends of the matches that begin at a position.\<close>

primrec match_at :: "char_table \<Rightarrow> bool \<Rightarrow> ustr \<Rightarrow> pat \<Rightarrow> nat \<Rightarrow> nat list" where
  "match_at T ci s Fail = (\<lambda>i. [])"
| "match_at T ci s (Lit t) = (\<lambda>i.
     if i + length t \<le> length s \<and> list_all2 (same_char T ci) (slice i (i + length t) s) t
     then [i + length t] else [])"
| "match_at T ci s (One_of cs) = one_char s (\<lambda>c. list_ex (same_char T ci c) cs)"
| "match_at T ci s (None_of cs) = one_char s (\<lambda>c. \<not> list_ex (same_char T ci c) cs)"
| "match_at T ci s Space = one_char s is_space"
| "match_at T ci s Any_char = one_char s (\<lambda>c. c \<noteq> 10)"
| "match_at T ci s (Seq p q) = (\<lambda>i. concat (map (match_at T ci s q) (match_at T ci s p i)))"
| "match_at T ci s (Alt p q) = (\<lambda>i. match_at T ci s p i @ match_at T ci s q i)"
| "match_at T ci s (Opt p) = (\<lambda>i. match_at T ci s p i @ [i])"
| "match_at T ci s (Star p) = star_from (match_at T ci s p) (length s)"
| "match_at T ci s (Plus p) = (\<lambda>i.
     concat (map (star_from (match_at T ci s p) (length s)) (match_at T ci s p i)))"
| "match_at T ci s (Rep n k p) = rep_from (match_at T ci s p) n k"
| "match_at T ci s (Ahead p) = (\<lambda>i. if match_at T ci s p i = [] then [] else [i])"
| "match_at T ci s (Not_ahead p) = (\<lambda>i. if match_at T ci s p i = [] then [i] else [])"
| "match_at T ci s (Not_behind n p) = (\<lambda>i.
     if n \<le> i \<and> i \<in> set (match_at T ci s p (i - n)) then [] else [i])"
| "match_at T ci s Word_edge = (\<lambda>i.
     if (0 < i \<and> ct_word T (s ! (i - 1))) \<noteq> (i < length s \<and> ct_word T (s ! i)) then [i] else [])"
| "match_at T ci s Line_end = (\<lambda>i.
     if i = length s \<or> Suc i = length s \<and> s ! i = 10 then [i] else [])"

text \<open>\<open>re.search\<close> from a position on, with the span of the match.\<close>

definition search_from :: "char_table \<Rightarrow> bool \<Rightarrow> pat \<Rightarrow> ustr \<Rightarrow> nat \<Rightarrow> (nat \<times> nat) option" where
  "search_from T ci p s n =
     (case find (\<lambda>i. match_at T ci s p i \<noteq> []) [n..<Suc (length s)] of
        None \<Rightarrow> None | Some i \<Rightarrow> Some (i, hd (match_at T ci s p i)))"

definition pat_search :: "char_table \<Rightarrow> bool \<Rightarrow> pat \<Rightarrow> ustr \<Rightarrow> (nat \<times> nat) option" where
  "pat_search T ci p s = search_from T ci p s 0"

definition found :: "char_table \<Rightarrow> bool \<Rightarrow> pat \<Rightarrow> ustr \<Rightarrow> bool" where
  "found T ci p s \<longleftrightarrow> pat_search T ci p s \<noteq> None"

text \<open>\<open>match.group(0)\<close>.\<close>

definition matched_text :: "ustr \<Rightarrow> nat \<times> nat \<Rightarrow> ustr" where
  "matched_text s m = slice (fst m) (snd m) s"

text \<open>\<open>re.finditer\<close>: the matches one after another; \<open>k\<close> bounds their number.\<close>

fun spans_from :: "char_table \<Rightarrow> bool \<Rightarrow> pat \<Rightarrow> ustr \<Rightarrow> nat \<Rightarrow> nat \<Rightarrow> (nat \<times> nat) list" where
  "spans_from T ci p s 0 n = []"
| "spans_from T ci p s (Suc k) n =
     (case search_from T ci p s n of
        None \<Rightarrow> []
      | Some (i, j) \<Rightarrow> (i, j) # spans_from T ci p s k (if i < j then j else Suc j))"

definition pat_spans :: "char_table \<Rightarrow> bool \<Rightarrow> pat \<Rightarrow> ustr \<Rightarrow> (nat \<times> nat) list" where
  "pat_spans T ci p s = spans_from T ci p s (Suc (length s)) 0"

text \<open>\<open>re.split\<close> on a pattern without groups.\<close>

fun pieces :: "ustr \<Rightarrow> nat \<Rightarrow> (nat \<times> nat) list \<Rightarrow> ustr list" where
  "pieces s n [] = [drop n s]"
| "pieces s n ((i, j) # spans) = slice n i s # pieces s j spans"

definition pat_split :: "char_table \<Rightarrow> bool \<Rightarrow> pat \<Rightarrow> ustr \<Rightarrow> ustr list" where
  "pat_split T ci p s = pieces s 0 (pat_spans T ci p s)"

section \<open>Facts\<close>

text \<open>A text that stands in another one.\<close>

definition occurs_in :: "ustr \<Rightarrow> ustr \<Rightarrow> bool" where
  "occurs_in t s \<longleftrightarrow> (\<exists>a b. s = a @ t @ b)"

lemma occurs_in_slice: "occurs_in (slice i j s) s"
proof -
  have "s = take i s @ slice i j s @ drop (max i j) s"
    by (cases "i \<le> j") (simp_all add: slice_def max_def flip: append_assoc take_add drop_drop)
  then show ?thesis unfolding occurs_in_def by blast
qed

lemma occurs_in_trans: "occurs_in t s \<Longrightarrow> occurs_in s r \<Longrightarrow> occurs_in t r"
  unfolding occurs_in_def by (metis append_assoc)

lemma occurs_in_drop: "occurs_in (drop n s) s"
  unfolding occurs_in_def by (metis append.right_neutral append_take_drop_id)

lemma occurs_in_pieces: "t \<in> set (pieces s n spans) \<Longrightarrow> occurs_in t s"
  by (induction s n spans rule: pieces.induct) (auto intro: occurs_in_drop occurs_in_slice)

lemma occurs_in_split: "t \<in> set (pat_split T ci p s) \<Longrightarrow> occurs_in t s"
  by (simp add: pat_split_def occurs_in_pieces)

lemma occurs_in_match: "occurs_in (matched_text s m) s"
  by (simp add: matched_text_def occurs_in_slice)

end
