(* ===== verification/OnetPolicy.thy ===== *)
theory OnetPolicy
  imports Pattern
begin

text \<open>
  The tables and patterns of \<open>hop/llm/onet/retrieval.py\<close>. Korean text is written as its code points; the
  patterns follow the source alternative by alternative.
\<close>

section \<open>Tables\<close>

definition onet_source_fields :: "ustr list" where
  "onet_source_fields =
     [u ''title'', u ''role'', u ''job_functions'', u ''job_position_raw'', u ''positions'',
     u ''duties_text'', u ''description_text'', u ''ncs_category_names'']"

text \<open>The weights, as the decimal fractions that are written.\<close>

definition field_weights :: "(ustr \<times> rat) list" where
  "field_weights =
     [(u ''title'', 1), (u ''role'', 1), (u ''job_position_raw'', 1), (u ''positions'', 1),
     (u ''duties_text'', 9 / 10), (u ''job_functions'', 7 / 20), (u ''description_text'', 3 / 10),
     (u ''ncs_category_names'', 2 / 25)]"

definition stop_words :: "ustr list" where
  "stop_words = map u
     [''a'', ''an'', ''and'', ''are'', ''as'', ''at'', ''be'', ''by'', ''for'', ''from'', ''in'', ''into'',
     ''is'', ''it'', ''of'', ''on'', ''or'', ''other'', ''that'', ''the'', ''their'', ''these'', ''this'',
     ''to'', ''with'', ''all'', ''except'', ''including'', ''related'', ''may'', ''such'', ''work'',
     ''workers'', ''occupation'', ''occupations'', ''perform'', ''tasks'', ''activities'', ''duties'',
     ''job'', ''jobs'', ''hiring'', ''recruit'', ''recruitment'', ''wanted'', ''vacancy'', ''position'',
     ''apply'', ''application'', ''assistant'', ''associates'']"

definition physician_fields :: "ustr list" where
  "physician_fields =
     [u ''title'', u ''role'', u ''job_position_raw'', u ''positions'', u ''duties_text'',
     u ''job_functions'', u ''description_text'']"

definition admission_fields :: "ustr list" where
  "admission_fields = [u ''title'', u ''role'', u ''job_position_raw'']"

section \<open>Physicians\<close>

text \<open>The named physician occupations and the words of their specialties.\<close>

definition physician_scopes :: "(ustr \<times> pat) list" where
  "physician_scopes =
     [(u ''29-1211.00'', alts [seqs [Lit [47560, 52712], Opt (alts [Lit [53685, 51613, 51032, 54617],
      Lit [44284]])], Lit (u ''anesthesiologist''), Lit (u ''anaesthetist'')]),
      (u ''29-1212.00'', alts [seqs [Lit [49900, 51109], Star (Space), Lit [45236, 44284]],
      seqs [Lit [49692, 54872, 44592], Star (Space), Lit [45236, 44284]], Lit (u ''cardiologist''),
      Lit (u ''cardiology'')]),
      (u ''29-1213.00'', alts [Lit [54588, 48512, 44284], Lit (u ''dermatologist''),
      Lit (u ''dermatology'')]),
      (u ''29-1214.00'', alts [seqs [Lit [51025, 44553], Star (Space), Lit [51032, 54617]],
      seqs [Lit (u ''emergency''), Plus (Space), Lit (u ''medicine'')]]),
      (u ''29-1215.00'', alts [seqs [Lit [44032, 51221], Star (Space), Lit [51032, 54617],
      Opt (Lit [44284])], seqs [Lit (u ''family''), Plus (Space), Lit (u ''medicine'')]]),
      (u ''29-1216.00'', alts [Lit [45236, 44284], seqs [Lit [49548, 54868, 44592], Star (Space),
      Lit [45236, 49884, 44221]], seqs [Lit (u ''internal''), Plus (Space), Lit (u ''medicine'')],
      Lit (u ''internist''), seqs [Lit (u ''gastroenterolog''), alts [Lit (u ''ist''), Lit (u ''y'')]]]),
      (u ''29-1217.00'', alts [Lit [49888, 44221, 44284], Lit (u ''neurologist''), Lit (u ''neurology'')]),
      (u ''29-1218.00'', alts [seqs [Lit [49328, 48512, 51064], Opt (Lit [44284])],
      Lit (u ''obstetrician''), Lit (u ''gynecologist''), Lit (u ''gynaecologist''), Lit (u ''obstetrics''),
      Lit (u ''gynecology'')]),
      (u ''29-1221.00'', alts [seqs [Lit [49548, 50500], Opt (alts [Lit [52397, 49548, 45380, 44284],
      Lit [44284]])], Lit (u ''pediatrician''), Lit (u ''paediatrician''), Lit (u ''pediatrics'')]),
      (u ''29-1222.00'', alts [seqs [Lit [48337, 47532], Opt (Lit [44284])], Lit (u ''pathologist''),
      Lit (u ''pathology'')]),
      (u ''29-1223.00'', alts [seqs [Lit [51221, 49888], alts [Lit [44148, 44053, 51032, 54617],
      Lit [44284]]], Lit (u ''psychiatrist''), Lit (u ''psychiatry'')]),
      (u ''29-1224.00'', alts [seqs [Lit [50689, 49345], Star (Space), Lit [51032, 54617],
      Opt (Lit [44284])], Lit (u ''radiologist''), Lit (u ''radiology'')]),
      (u ''29-1229.01'', alts [seqs [Lit [50508, 47112, 47476, 44592], Opt (seqs [Star (Space), Lit [45236,
      44284]])], Lit (u ''allergist''), Lit (u ''immunologist''), seqs [Lit (u ''allergy''), Plus (Space),
      Lit (u ''medicine'')]]),
      (u ''29-1229.02'', alts [seqs [Lit [51077, 50896], Star (Space), Lit [51204, 45812]],
      seqs [Lit [51077, 50896], Star (Space), Lit [51032, 54617]], Lit (u ''hospitalist'')]),
      (u ''29-1229.03'', alts [seqs [Lit [48708, 45544], alts [Lit [51032, 54617], Lit [44592, 44284]]],
      Lit (u ''urologist''), Lit (u ''urology'')]),
      (u ''29-1229.04'', alts [seqs [Lit [51116, 54876], Star (Space), Lit [51032, 54617]],
      seqs [Lit (u ''physical''), Plus (Space), Lit (u ''medicine'')], Lit (u ''physiatrist'')]),
      (u ''29-1229.05'', alts [seqs [Lit [50696, 48169], Star (Space), Lit [51032, 54617]],
      seqs [Lit (u ''preventive''), Plus (Space), Lit (u ''medicine'')]]),
      (u ''29-1229.06'', alts [seqs [Lit [49828, 54252, 52768], Star (Space), Lit [51032, 54617]],
      seqs [Lit (u ''sports''), Plus (Space), Lit (u ''medicine'')]]),
      (u ''29-1241.00'', alts [Lit [50504, 44284], Lit (u ''ophthalmologist''), Lit (u ''ophthalmology'')]),
      (u ''29-1242.00'', alts [seqs [Lit [51221, 54805], Star (Space), Lit [50808, 44284]],
      seqs [Lit (u ''orthopedic''), Plus (Space), Lit (u ''surgeon'')], seqs [Lit (u ''orthopaedic''),
      Plus (Space), Lit (u ''surgeon'')], seqs [Lit (u ''orthopedic''), Plus (Space), Lit (u ''surgery'')]]),
      (u ''29-1243.00'', alts [seqs [Lit [49548, 50500], Star (Space), Opt (alts [Lit [51221, 54805],
      Lit [49888, 44221], Lit [55113, 48512], Lit [49900, 51109]]), Star (Space), Lit [50808, 44284]],
      seqs [Lit (u ''pediatric''), Plus (Space), Opt (seqs [Lit (u ''orthopedic''), Plus (Space)]),
      Lit (u ''surgeon'')], seqs [Lit (u ''pediatric''), Plus (Space), Lit (u ''surgery'')]]),
      (u ''29-1299.01'', alts [seqs [Lit [51088, 50672], Star (Space), Lit [50836, 48277]],
      seqs [Lit (u ''naturopathic''), Plus (Space), Lit (u ''physician'')], Lit (u ''naturopath'')])]"

definition physician_role :: pat where
  "physician_role =
     alts [seqs [Not_behind 1 (Lit [49688]), Not_behind 2 (Lit [52824, 44284]), Not_behind 1 (Lit [54620]),
     Lit [51032, 49324], Not_ahead (alts [Lit [49548, 53685], Lit [44208, 51221], Lit [54924], Lit [54801,
     54924]])], Lit [51204, 47928, 51032], Lit [52489, 53441, 51032], Lit [51652, 47308, 51032], Lit [51032,
     47924, 51649], seqs [Lit [51076, 49345], Star (Space), Lit [44368, 49688]], seqs [Lit [51652, 47308],
     Star (Space), Lit [44368, 49688]], seqs [Word_edge, Lit (u ''physician''), Word_edge], seqs [Word_edge,
     Lit (u ''medical''), Plus (Space), Lit (u ''doctor''), Word_edge], seqs [Word_edge,
     Lit (u ''surgeon''), Word_edge], seqs [Word_edge, Lit (u ''internist''), Word_edge], seqs [Word_edge,
     Lit (u ''hospitalist''), Word_edge], seqs [Word_edge, alts [Lit (u ''anesthesiologist''),
     Lit (u ''cardiologist''), Lit (u ''dermatologist''), Lit (u ''pediatrician''), Lit (u ''pathologist''),
     Lit (u ''psychiatrist''), Lit (u ''radiologist''), Lit (u ''urologist''), Lit (u ''physiatrist''),
     Lit (u ''ophthalmologist''), Lit (u ''neurologist'')], Word_edge]]"

definition nonphysician_role :: pat where
  "nonphysician_role =
     alts [Lit [49688, 51032, 49324], seqs [Lit [52824, 44284], Star (Space), Lit [51032, 49324]],
     Lit [54620, 51032, 49324], seqs [Lit [44036, 54840], alts [Lit [49324], Lit [51649], Lit [51312,
     47924], Lit [48512]]], seqs [Lit [51076, 49345], Star (Space), Lit [48337, 47532, 49324]], Lit [48169,
     49324, 49440, 49324], Lit [52824, 50948, 49373], seqs [Lit [47932, 47532], Star (Space), Lit [52824,
     47308, 49324]], seqs [Lit [51089, 50629], Star (Space), Lit [52824, 47308, 49324]], seqs [Lit [51221,
     49888, 44148, 44053], Star (Space), Lit [51204, 47928, 50836, 50896]], seqs [Lit [48337, 46041],
     Star (Space), Lit [51648, 50896]], Lit [50557, 49324], Lit [50557, 47924], Lit [44592, 49324],
     Lit [54665, 51221], Lit [49324, 47924], Lit [50672, 44396, 50896], Lit [49345, 45812, 49324],
     Lit [44060, 48156, 51088], Lit [50644, 51648, 45768, 50612], Lit [44368, 49324], Lit [44053, 49324],
     seqs [Word_edge, alts [Lit (u ''nurse''), Lit (u ''dentist''), Lit (u ''veterinarian''),
     Lit (u ''pharmacist''), Lit (u ''engineer''), Lit (u ''developer''), Lit (u ''administrator''),
     Lit (u ''assistant''), Lit (u ''technician'')], Word_edge]]"

definition other_medical_profession :: pat where
  "other_medical_profession =
     alts [Lit [52824, 44284], Lit [54620, 48169], Lit [54620, 51032], seqs [Lit [49688, 51032],
     alts [Lit [49324], Lit [54617]]], seqs [Word_edge, alts [Lit (u ''dentist''), Lit (u ''dental''),
     Lit (u ''veterinary''), Lit (u ''veterinarian'')], Word_edge]]"

definition medical_role_recruitment :: pat where
  "medical_role_recruitment =
     alts [Lit [52292, 50857], Lit [52488, 48729], Lit [44396, 51064], Lit [47784, 51665], Lit [51076,
     50857], seqs [Word_edge, alts [Lit (u ''hiring''), Lit (u ''vacancy''), Lit (u ''recruitment''),
     Lit (u ''wanted'')], Word_edge]]"

definition medical_organization_suffix :: pat where
  "medical_organization_suffix =
     seqs [Star (Space), alts [Lit [48337, 50896], Lit [51032, 50896], Lit [51032, 47308, 50896],
     Lit [54617, 54924], Lit [54801, 54924], Lit [49468, 53552]]]"

definition medical_qualification :: pat where
  "medical_qualification =
     alts [Lit [51088, 44201], Lit [50864, 45824], Lit [47732, 54728], Lit [51088, 44201, 51613],
     seqs [Word_edge, alts [Lit (u ''qualification''), Lit (u ''preferred''), Lit (u ''license''),
     Lit (u ''licence'')], Word_edge]]"

definition role_split :: pat where
  "role_split =
     alts [One_of [10, 13, 44, 59, 47], alts [Lit [48143], Lit [46608, 45716], Lit [54841, 51008],
     seqs [Word_edge, Lit (u ''and''), Word_edge], seqs [Word_edge, Lit (u ''or''), Word_edge]]]"

text \<open>In a description: the fields of a recruitment, the duties, or treatment.\<close>

definition practice_words :: pat where
  "practice_words =
     alts [seqs [Lit [47784, 51665], Star (Space), Lit [48516, 50556]], seqs [Lit [52292, 50857],
     Star (Space), Lit [48516, 50556]], seqs [Lit [45812, 45817], Star (Space), Lit [50629, 47924]],
     Lit [51652, 47308]]"

definition pediatric_words :: pat where
  "pediatric_words =
     alts [Lit [49548, 50500], Lit (u ''pediatric''), Lit (u ''paediatric'')]"

section \<open>Admission\<close>

definition training_course :: pat where
  "training_course =
     seqs [alts [Lit [44060, 48156, 51088], Lit [54532, 47196, 44536, 47000, 47672], Lit [50644, 51648,
     45768, 50612], Lit [51204, 47928, 44032], Lit [44053, 49324], Lit [44368, 49324], Lit [52712, 50629,
     51648, 50896], Lit [52712, 50629, 50672, 44228], Lit [52712, 50629], Lit [53076, 46377], Lit [51649,
     50629, 54984, 47144]], Star (Space), Opt (alts [Lit [50577, 49457], Lit [44368, 50977], Lit [54984,
     47144]]), Star (Space), Lit [44284, 51221], Ahead (seqs [Star (Space), alts [seqs [Star (One_of [41,
     93, 46, 33]), Star (Space), Line_end], seqs [alts [Lit [49688, 44053, 49373], Lit [44368, 50977,
     49373], Lit [54984, 47144, 49373], Lit [50672, 49688, 49373], Lit [52280, 44032, 51088], Lit [52280,
     50668, 51088]], Star (Space), alts [Lit [47784, 51665], Lit [46321, 47197], Lit [51217, 49688],
     Lit [49888, 52397]], Star (Space), Star (One_of [41, 93, 46, 33]), Star (Space), Line_end],
     seqs [alts [Lit [47784, 51665], Lit [46321, 47197], Lit [51217, 49688], Lit [49888, 52397]],
     Star (Space), Star (One_of [41, 93, 46, 33]), Star (Space), Line_end]]])]"

definition training_trainees :: pat where
  "training_trainees =
     seqs [alts [Lit [49688, 44053, 49373], Lit [44368, 50977, 49373], Lit [54984, 47144, 49373],
     Lit [50672, 49688, 49373], seqs [Lit [44368, 50977], Star (Space), Lit [52280, 50668, 51088]],
     seqs [Lit [44368, 50977], Star (Space), Lit [52280, 44032, 51088]]], Star (Space), alts [Lit [47784,
     51665], Lit [46321, 47197], Lit [51217, 49688], Lit [49888, 52397]], Star (Space), Star (One_of [41,
     93, 46, 33]), Star (Space), Line_end]"

definition training_funded :: pat where
  "training_funded =
     seqs [alts [Lit [44397, 48708, 51648, 50896], seqs [Lit [44397, 48708], Star (Space), Lit [51648,
     50896]], Lit [107, 45, 46356, 51648, 53560]], Star (None_of [10]), alts [Lit [44368, 50977],
     Lit [54984, 47144], Lit [44284, 51221]], Star (Space), alts [Lit [49688, 44053], Lit [46321, 47197],
     Lit [49888, 52397], seqs [Lit [44368, 50977, 49373], Star (Space), Lit [47784, 51665]],
     seqs [Lit [54984, 47144, 49373], Star (Space), Lit [47784, 51665]]], Star (Space), Star (One_of [41,
     93, 46, 33]), Star (Space), Line_end]"

definition training_free :: pat where
  "training_free =
     seqs [alts [Lit [47924, 47308], Lit [44397, 48708]], Star (Space), alts [Lit [44368, 50977],
     Lit [54984, 47144]], Star (Space), alts [Lit [49688, 44053], Lit [49888, 52397], Lit [47784, 51665],
     Lit [44284, 51221]], Star (Space), Star (One_of [41, 93, 46, 33]), Star (Space), Line_end]"

definition training_english :: pat where
  "training_english =
     seqs [Word_edge, alts [Lit (u ''course''), Lit (u ''bootcamp''), Lit (u ''training'')],
     Star (None_of [10]), Word_edge, alts [Lit (u ''enrollment''), Lit (u ''enrolment''),
     Lit (u ''enroll now''), Lit (u ''enrol now''), seqs [Lit (u ''student''), Opt (Lit (u ''s'')),
     Lit (u '' wanted'')]], Star (Space), Star (One_of [41, 93, 46, 33]), Star (Space), Line_end]"

definition training_patterns :: "pat list" where
  "training_patterns = [training_course, training_trainees, training_funded, training_free, training_english]"

definition teaching_vacancy :: pat where
  "teaching_vacancy =
     alts [seqs [alts [seqs [Lit [44053, 49324], Not_ahead (Lit [51652])], Lit [44368, 49324], Lit [44368,
     50896], Lit [44368, 49688], Lit [44368, 44288], seqs [Lit [44368, 50977], Star (Space),
     Opt (seqs [Lit [44284, 51221], Star (Space)]), alts [Lit [50868, 50689], Lit [44060, 48156]],
     Opt (alts [Lit [51088], Lit [45812, 45817, 51088]])], seqs [Lit [54984, 47144], Star (Space),
     Lit [50868, 50689]]], Rep 0 12 (None_of [10]), alts [Lit [52292, 50857], Lit [52488, 48729],
     Lit [44396, 51064], Lit [47784, 51665]]], seqs [Word_edge, alts [Lit (u ''instructor''),
     Lit (u ''teacher''), Lit (u ''tutor''), Lit (u ''training coordinator''),
     Lit (u ''course administrator''), Lit (u ''enrollment coordinator''),
     Lit (u ''enrollment administrator'')], Word_edge, Rep 0 25 (Any_char), Word_edge,
     alts [Lit (u ''wanted''), Lit (u ''hiring''), Lit (u ''vacancy''), Lit (u ''recruitment'')],
     Word_edge]]"

definition enrollment_in_vacancy :: pat where
  "enrollment_in_vacancy =
     alts [Lit [49688, 44053, 49373], Lit [44368, 50977, 49373], Lit [54984, 47144, 49373],
     seqs [Lit [50577, 49457], Star (Space), Lit [44284, 51221]]]"

definition occupation_vacancy :: pat where
  "occupation_vacancy =
     seqs [alts [Lit [44060, 48156, 51088], Lit [54532, 47196, 44536, 47000, 47672], Lit [50644, 51648,
     45768, 50612]], Star (Space), alts [Lit [52292, 50857], Lit [44396, 51064], Lit [47784, 51665]]]"

end
