(* ===== verification/Lexicon.thy ===== *)
theory Lexicon
  imports PyText
begin

text \<open>
  \<open>hop/llm/onet/lexicon.py\<close>: the rows of the retrieval hints, in their order. A row has the aliases
  with bars between them, the English query it expands to, and the codes of occupations to show. Korean
  text is written as its code points.
\<close>

type_synonym hint_row = "ustr \<times> ustr \<times> ustr"

definition hint_version :: ustr where
  "hint_version = u ''onet-ko-retrieval-hints-v2''"

definition hint_rows_1 :: "hint_row list" where
  "hint_rows_1 =
     [([115, 119, 50644, 51648, 45768, 50612] @ u ''|sw '' @ [50644, 51648, 45768, 50612] @
      u ''|sw engineer|'' @ [49548, 54532, 53944, 50920, 50612, 32, 50644, 51648, 45768, 50612, 124, 49548,
      54532, 53944, 50920, 50612, 50644, 51648, 45768, 50612], u ''software developer programmer'',
      u ''15-1252.00 15-1251.00''),
      ([104, 119, 50644, 51648, 45768, 50612] @ u ''|hw '' @ [50644, 51648, 45768, 50612] @
      u ''|hardware engineer'', u ''computer hardware electronics engineer'', u ''17-2061.00 17-2072.00''),
      (u ''middleware|'' @ [49436, 48260, 44396, 52629, 124, 49436, 48260, 32, 44396, 52629, 124, 49436,
      48260, 124, 44032, 49345, 54868] @ u ''|virtualization|'' @ [54540, 47019, 54268, 32, 50644, 51648,
      45768, 50612, 124, 54540, 47019, 54268, 50644, 51648, 45768, 50612],
      u ''network computer systems administrator engineer architect'',
      u ''15-1244.00 15-1299.08 15-1231.00''),
      (u ''it|'' @ [49324, 45236, 105, 116],
      u ''computer systems analyst support administrator occupation'',
      u ''15-1211.00 15-1232.00 15-1244.00 15-1299.00''),
      ([49436, 48708, 49828, 44592, 54925, 124, 49436, 48708, 49828, 32, 44592, 54925, 124, 54540, 47019,
      54268, 44592, 54925, 124, 54540, 47019, 54268, 32, 44592, 54925, 124, 54540, 47019, 54856, 32, 44592,
      54925, 124, 54540, 47019, 54856, 44592, 54925],
      u ''management analyst computer systems analyst digital interface designer'',
      u ''13-1111.00 15-1211.00 15-1255.00''),
      ([48184, 47088, 49828, 32, 44592, 54925, 124, 48184, 47088, 49828, 44592, 54925],
      u ''video game designer'', u ''15-1255.01''),
      ([50689, 49345, 51228, 51089, 124, 50689, 49345, 32, 51228, 51089] @ u ''|video production'',
      u ''film video editor producer director'', u ''27-4032.00 27-2012.00''),
      ([50672, 44396, 50948, 50896, 124, 51204, 47928, 50672, 44396, 50836, 50896],
      u ''life physical social scientist computer research scientist'',
      u ''19-1099.00 19-2099.00 19-3099.00 15-1221.00''),
      ([51077, 48277, 51648, 50896, 124, 51077, 48277, 32, 51648, 50896, 124, 51077, 48277, 51312, 49324,
      124, 51077, 48277, 32, 51312, 49324], u ''paralegal legal assistant legal support'',
      u ''23-2011.00 23-2099.00''),
      ([49464, 48277, 54644, 49437, 124, 49464, 48277, 32, 54644, 49437],
      u ''tax examiner accountant lawyer'', u ''13-2081.00 13-2011.00 23-1011.00''),
      (u ''cpo|coo|cto|'' @ [52572, 44256, 44592, 49696, 124, 52572, 44256, 50868, 50689],
      u ''chief executive general operations manager information systems manager'',
      u ''11-1011.00 11-1021.00 11-3021.00''),
      ([49884, 49828, 53596, 50644, 51648, 45768, 50612, 124, 49884, 49828, 53596, 32, 50644, 51648, 45768,
      50612, 124, 49436, 48260, 50644, 51648, 45768, 50612, 124, 49436, 48260, 32, 50644, 51648, 45768,
      50612, 124, 49436, 48260, 32, 54028, 53944, 124, 47532, 45573, 49828] @ u ''|linux|unix|aix|x86'',
      u ''computer systems administrator engineer architect network'',
      u ''15-1244.00 15-1299.08 15-1231.00''),
      ([48372, 50504, 50644, 51648, 45768, 50612, 124, 48372, 50504, 32, 50644, 51648, 45768, 50612, 124,
      48372, 50504, 32, 49556, 47336, 49496, 124, 48372, 50504, 49556, 47336, 49496, 124, 48372, 50504, 32,
      50868, 50689, 124, 48169, 54868, 48317] @ u ''|ddos|ips'',
      u ''information security engineer analyst'', u ''15-1299.05 15-1212.00''),
      ([48372, 50504] @ u ''|security'', u ''security guard information security analyst alarm installer'',
      u ''33-9032.00 15-1212.00 15-1299.05 49-2098.00''),
      (u ''qa'', u ''software quality assurance quality control tester analyst'',
      u ''15-1253.00 19-4099.01 51-9061.00''),
      ([45936, 51060, 53552, 32, 49324, 51060, 50616, 54000, 49828, 53944, 124, 45936, 51060, 53552, 49324,
      51060, 50616, 54000, 49828, 53944, 124, 45936, 51060, 53552, 49324, 51060, 50616, 49828] @
      u ''|data science'', u ''data scientist statistician'', u ''15-2051.00 15-2041.00''),
      ([45936, 51060, 53552, 46972, 48296, 124, 45936, 51060, 53552, 32, 46972, 48296, 124, 46972, 48296,
      47084], u ''data entry keyer'', u ''43-9021.00''),
      ([54140, 48660, 47532, 49492] @ u ''|publisher|'' @ [54140, 48660, 47532, 49905],
      u ''web developer digital interface designer desktop publisher'',
      u ''15-1254.00 15-1255.00 43-9031.00''),
      ([44592, 49696, 51648, 50896, 124, 44592, 49696, 32, 51648, 50896] @ u ''|helpdesk|hellpdesk|it'' @
      [51648, 50896] @ u ''|pc'' @ [50976, 51648, 48372, 49688],
      u ''computer user support network specialist engineer'', u ''15-1232.00 15-1231.00 49-2011.00''),
      ([44592, 49696, 52968, 49444, 54021, 124, 44592, 49696, 32, 52968, 49444, 54021, 124, 52968, 49444,
      53556, 53944, 124, 52968, 49444, 54021], u ''computer systems analyst management analyst'',
      u ''15-1211.00 13-1111.00''),
      (u ''sm/si|si/sm|si'' @ [54532, 47196, 51229, 53944] @ u ''|si '' @ [54532, 47196, 51229, 53944] @
      u ''|sm'' @ [54532, 47196, 51229, 53944] @ u ''|sm '' @ [54532, 47196, 51229, 53944] @ u ''|si|sm'',
      u ''software developer computer systems analyst project manager'',
      u ''15-1252.00 15-1211.00 15-1299.09''),
      ([44060, 48156] @ u ''|development'', u ''developer programmer manufacturing research engineer'',
      u ''15-1252.00 15-1251.00 17-2112.03''),
      ([51076, 48288, 46356, 46300] @ u ''|embedded|bsp|'' @ [54156, 50920, 50612] @ u ''|firmware|rtos'',
      u ''software developer computer hardware electronics engineer'',
      u ''15-1252.00 17-2061.00 17-2072.00''),
      (u ''rf|asic|soc|fpga|'' @ [47924, 49440, 53685, 49888, 124, 47924, 49440, 32, 53685, 49888],
      u ''electronics engineer computer hardware telecommunications engineering'',
      u ''17-2072.00 17-2061.00 15-1241.01''),
      (u ''ai '' @ [50644, 51648, 45768, 50612] @ u ''|ai'' @ [50644, 51648, 45768, 50612] @ u ''|ai '' @
      [50672, 44396] @ u ''|ai'' @ [50672, 44396, 124, 49373, 49457, 54805] @ u '' ai|'' @ [49373, 49457,
      54805] @ u ''ai|llm|hpc'', u ''software developer data scientist computer information research'',
      u ''15-1252.00 15-2051.00 15-1221.00''),
      (u ''erp|sap|salesforce|oracle|fiori'',
      u ''computer systems analyst software developer database administrator'',
      u ''15-1211.00 15-1252.00 15-1242.00''),
      (u ''kubernetes|k8s|'' @ [53216, 48260, 45348, 54000, 49828] @ u ''|m365|active directory|ad'' @
      [44228, 51221] @ u ''|ad '' @ [44228, 51221] @ u ''|vdi'',
      u ''network computer systems administrator architect'', u ''15-1244.00 15-1299.08'')]"

definition hint_rows_2 :: "hint_row list" where
  "hint_rows_2 =
     [([105, 116, 44592, 54925] @ u ''|it '' @ [44592, 54925] @ u ''|it'' @ [51204, 47029] @ u ''|it '' @
      [51204, 47029, 124, 49884, 49828, 53596, 32, 44592, 54925, 124, 49884, 49828, 53596, 44592, 54925] @
      u ''|it'' @ [50500, 53412, 53581, 53944],
      u ''computer systems analyst information technology project manager architect'',
      u ''15-1211.00 15-1299.09 15-1299.08''),
      (u ''pm|'' @ [54532, 47196, 51229, 53944, 32, 47588, 45768, 51200, 124, 54532, 47196, 51229, 53944,
      47588, 45768, 51200], u ''project management specialist information technology project manager'',
      u ''13-1082.00 15-1299.09''),
      ([50976, 51648, 48372, 49688, 124, 50976, 51648, 32, 48372, 49688],
      u ''maintenance repair computer systems administrator machinery'',
      u ''49-9071.00 49-9043.00 15-1244.00 15-1232.00''),
      ([50500, 54000, 49828, 53944] @ u ''|artist|'' @ [50528, 45768, 47700, 51060, 49496, 124, 50528,
      45768, 47700, 51060, 53552, 124, 52880, 47533, 53552, 32, 52968, 49481, 124, 52880, 47533, 53552,
      52968, 49481, 124, 51060, 54169, 53944], u ''special effects artist animator fine artist'',
      u ''27-1014.00 27-1013.00''),
      ([44221, 50689, 44288, 47532, 124, 49345, 54408, 51204, 47029],
      u ''management analyst business operations'', u ''13-1111.00 13-1199.00''),
      ([52489, 53441, 51032, 124, 51032, 47924, 51649, 124, 51652, 47308, 51032],
      u ''physician medical doctor'', u ''29-1229.00 29-1216.00 29-1215.00''),
      ([50616, 50612, 51116, 54876, 124, 50616, 50612, 32, 51116, 54876], u ''speech language pathologist'',
      u ''29-1127.00''),
      ([49828, 54252, 52768, 49468, 53552, 32, 53944, 47112, 51060, 45320, 124, 49828, 54252, 52768, 49468,
      53552, 53944, 47112, 51060, 45320, 124, 53944, 47112, 51060, 45320], u ''exercise athletic trainer'',
      u ''39-9031.00 29-9091.00''),
      ([49324, 44201, 49440, 49688, 124, 52404, 50977, 49440, 49688, 124, 50868, 46041, 49440, 49688],
      u ''athlete sports competitor'', u ''27-2021.00''),
      ([49885, 51020, 49436, 48708, 49828, 124, 49885, 51020, 32, 49436, 48708, 49828],
      u ''waiter food server bartender'', u ''35-3031.00 35-3041.00 35-3011.00''),
      ([49884, 49444], u ''maintenance repair facility building'', u ''49-9071.00 11-3013.00''),
      ([53685, 49888, 124, 53685, 49888, 47581] @ u ''|ami|'' @ [48176, 51204],
      u ''telecommunications equipment power line installer engineering'',
      u ''49-2022.00 49-9052.00 49-9051.00 15-1241.01''),
      ([50864, 51452, 44284, 54617, 124, 50864, 51452, 32, 44284, 54617],
      u ''astronomer atmospheric space scientist'', u ''19-2011.00 19-2021.00''),
      ([48120, 49696, 44288, 51109], u ''curator museum manager'', u ''25-4012.00 11-9199.00''),
      ([48120, 46308, 50920, 50612] @ u ''|tomcat|jboss|was'' @ [50868, 50689] @ u ''|was '' @ [50868,
      50689], u ''network computer systems administrator software systems'',
      u ''15-1244.00 15-1299.08 15-1252.00''),
      ([49556, 47336, 49496, 32, 44060, 48156, 124, 49556, 47336, 49496, 44060, 48156] @ u ''|si'' @ [44060,
      48156] @ u ''|si '' @ [44060, 48156, 124, 51221, 48372, 52376, 47532, 124, 51025, 50857] @ u ''sw|'' @
      [51025, 50857] @ u '' sw'', u ''software developer programmer application'',
      u ''15-1252.00 15-1251.00''),
      ([51221, 48372, 48372, 54840, 124, 51221, 48372, 32, 48372, 54840, 124, 50501, 49457, 53076, 46300,
      124, 47004, 49452, 50920, 50612, 124, 49324, 51060, 48260, 50948, 54801, 124, 52840, 54644, 49324,
      44256], u ''information security analyst engineer cybersecurity'', u ''15-1212.00 15-1299.05''),
      ([52397, 49324, 48169, 54840, 124, 52397, 49324, 32, 48169, 54840, 124, 48169, 54840, 50896, 124,
      48169, 54840, 51649], u ''security guard protective'', u ''33-9032.00''),
      ([49345, 49688, 46020, 32, 49884, 49444, 50868, 50689, 124, 49345, 49688, 46020, 49884, 49444, 50868,
      50689, 124, 51221, 49688, 49884, 49444, 124, 49688, 46020, 49884, 49444],
      u ''water wastewater treatment plant operator'', u ''51-8031.00''),
      ([49324, 44201, 45800, 32, 53944, 47112, 51060, 45320, 124, 49324, 44201, 45800, 53944, 47112, 51060,
      45320, 124, 49440, 49688, 53944, 47112, 51060, 45320, 124, 49440, 49688, 32, 53944, 47112, 51060,
      45320, 124, 50868, 46041, 52376, 48169], u ''athletic trainer exercise physiologist'',
      u ''29-9091.00 29-1128.00 39-9031.00''),
      ([45824, 54364, 51060, 49324, 124, 52572, 44256, 44221, 50689] @ u ''|ceo'', u ''chief executive'',
      u ''11-1011.00''),
      ([44221, 50689, 44592, 54925, 124, 49324, 50629, 44592, 54925, 124, 51204, 47029, 44592, 54925, 124,
      44221, 50689, 48516, 49437], u ''management business operations analyst'',
      u ''13-1111.00 13-1199.00''),
      ([44221, 50689, 51648, 50896, 124, 52509, 47924, 124, 54665, 51221, 124, 49324, 47924, 54665, 51221,
      124, 51068, 48152, 49324, 47924, 124, 49324, 47924, 51649],
      u ''administrative office clerk services'', u ''43-9061.00 43-6014.00 11-3012.00''),
      ([49324, 47924, 124, 51068, 48152, 51649], u ''office administrative clerk'',
      u ''43-9061.00 43-9199.00''),
      ([48708, 49436, 124, 51076, 50896, 51648, 50896], u ''secretary executive administrative assistant'',
      u ''43-6011.00 43-6014.00''),
      ([54924, 44228, 124, 51116, 47924, 54924, 44228, 124, 44208, 49328, 124, 44221, 47532, 124, 48512,
      44592], u ''accountant accounting bookkeeping auditor'', u ''13-2011.00 43-3031.00''),
      ([49464, 47924, 124, 49464, 47924, 49324], u ''tax accountant preparer examiner'',
      u ''13-2082.00 13-2011.00 13-2081.00''),
      ([51116, 47924, 124, 51088, 44552, 124, 44552, 50997], u ''financial finance analyst manager'',
      u ''13-2051.00 11-3031.00 13-2099.00''),
      ([44553, 50668, 124, 48372, 49345, 124, 48373, 47532, 54980, 49373],
      u ''payroll compensation benefits'', u ''43-3051.00 13-1141.00''),
      ([51064, 49324, 124, 52292, 50857, 45812, 45817] @ u ''|hrm|hrd|human resources'',
      u ''human resources personnel recruiting'', u ''13-1071.00 43-4161.00 11-3121.00''),
      ([45432, 47924, 124, 45432, 49324, 124, 44277, 51064, 45432, 47924], u ''labor relations specialist'',
      u ''13-1075.00''),
      ([51649, 50896, 44368, 50977, 124, 44368, 50977, 54984, 47144, 124, 51064, 51116, 44060, 48156],
      u ''training development specialist'', u ''13-1151.00 11-3131.00''),
      ([44396, 47588, 124, 51312, 45804, 124, 51088, 51116, 44396, 47588],
      u ''purchasing buyer procurement'', u ''13-1023.00 43-3061.00 11-3061.00''),
      ([47932, 47448, 124, 44277, 44553, 47581] @ u ''|scm'',
      u ''logistic supply chain transportation distribution'', u ''13-1081.00 43-5011.00 11-3071.00''),
      ([54532, 47196, 51229, 53944, 44288, 47532, 124, 49324, 50629, 44288, 47532] @
      u ''|project manager|pmo'', u ''project management specialist'', u ''13-1082.00 15-1299.09''),
      ([47560, 52992, 54021, 124, 49884, 51109, 51312, 49324] @ u ''|market research'',
      u ''marketing market research'', u ''13-1161.00 11-2021.00''),
      ([54140, 54252, 47676, 49828, 47560, 52992, 54021, 124, 44160, 49353, 44305, 44256] @ u ''|seo|sem'',
      u ''search marketing strategist'', u ''13-1161.01 13-1161.00''),
      ([54861, 48372, 124, 50616, 47200, 54861, 48372] @ u ''|public relations'',
      u ''public relations specialist'', u ''27-3031.00 11-2032.00''),
      ([44305, 44256, 44592, 54925, 124, 44305, 44256, 50868, 50689, 124, 44305, 44256],
      u ''advertising promotion'', u ''11-2011.00 13-1161.00 41-3011.00''),
      ([54665, 49324, 44592, 54925, 124, 54665, 49324, 50868, 50689, 124, 51060, 48292, 53944, 44592, 54925,
      124, 52968, 48292, 49496, 124, 51204, 49884, 44592, 54925], u ''meeting convention event planner'',
      u ''13-1121.00''),
      ([53804, 51088, 124, 51613, 44428, 48516, 49437, 124, 51088, 49328, 50868, 50857],
      u ''financial investment analyst fund'', u ''13-2051.00 11-3031.03''),
      ([47532, 49828, 53356, 124, 50948, 54744, 44288, 47532], u ''financial risk specialist'',
      u ''13-2054.00''),
      ([48372, 54744, 49900, 49324, 124, 48372, 54744, 48372, 49345, 124, 49552, 54644, 49324, 51221],
      u ''insurance claims adjuster underwriter'', u ''13-1031.00 13-2053.00''),
      ([44048, 51221, 54217, 44032, 124, 48512, 46041, 49328, 54217, 44032],
      u ''real estate appraiser assessor'', u ''13-2023.00''),
      ([51456, 48277, 124, 52980, 54540, 46972, 51060, 50616, 49828, 124, 51064, 54728, 44032, 124, 44508,
      51228, 45824, 51025], u ''compliance regulatory affairs'', u ''13-1041.00 13-1041.07''),
      ([53685, 44288, 124, 44288, 49464, 49324], u ''customs broker'', u ''13-1041.08''),
      ([45824, 52636, 124, 50668, 49888, 124, 49888, 50857, 48516, 49437],
      u ''loan credit analyst officer'', u ''13-2072.00 13-2041.00 43-4131.00''),
      ([49548, 54532, 53944, 50920, 50612, 124, 54532, 47196, 44536, 47000, 47672, 124, 54532, 47196, 44536,
      47000, 48141, 124, 51025, 50857, 54532, 47196, 44536, 47016, 124, 50545, 44060, 48156, 124, 44060,
      48156, 51088, 124, 48177, 50644, 46300, 124, 54532, 47200, 53944, 50644, 46300, 124, 54400, 49828,
      53469, 124, 49436, 48260, 44060, 48156] @ u ''|java|python|c++|software developer|software engineer'',
      u ''software developer programmer application'', u ''15-1252.00 15-1251.00 15-1254.00'')]"

definition hint_rows_3 :: "hint_row list" where
  "hint_rows_3 =
     [([50937, 44060, 48156, 124, 50937, 32, 44060, 48156] @
      u ''|web developer|frontend|front-end|backend|back-end'', u ''web developer software'',
      u ''15-1254.00 15-1252.00''),
      ([51064, 44277, 51648, 45733, 124, 47672, 49888, 47084, 45789, 124, 46373, 47084, 45789] @ u ''|ai'' @
      [44060, 48156] @ u ''|ai '' @ [44060, 48156] @ u ''|machine learning|deep learning'',
      u ''software developer data scientist computer research'', u ''15-1252.00 15-2051.00 15-1221.00''),
      ([45936, 51060, 53552, 48516, 49437, 124, 45936, 51060, 53552, 32, 48516, 49437] @
      u ''|data analyst|data scientist|'' @ [45936, 51060, 53552, 49324, 51060, 50616],
      u ''data scientist business intelligence analyst'', u ''15-2051.00 15-2051.01 15-2041.00''),
      ([53685, 44228, 124, 53685, 44228, 48516, 49437, 124, 53685, 44228, 51312, 49324],
      u ''statistician statistical survey researcher'', u ''15-2041.00 19-3022.00 43-9111.00''),
      ([48372, 54744, 44228, 47532, 124, 44228, 47532, 49324], u ''actuary'', u ''15-2011.00''),
      ([45936, 51060, 53552, 48288, 51060, 49828] @ u ''|dba|'' @ [45936, 51060, 53552, 50644, 51648, 45768,
      50612, 124, 45936, 51060, 53552, 32, 50644, 51648, 45768, 50612],
      u ''database administrator architect data warehousing'', u ''15-1242.00 15-1243.00 15-1243.01''),
      ([51221, 48372, 48372, 50504, 124, 51221, 48372, 32, 48372, 50504, 124, 49324, 51060, 48260, 48372,
      50504, 124, 49324, 51060, 48260, 32, 48372, 50504, 124, 48372, 50504, 44288, 51228, 124, 48372, 50504,
      50644, 51648, 45768, 50612, 124, 52840, 54644, 45824, 51025],
      u ''information security analyst engineer cybersecurity'', u ''15-1212.00 15-1299.05''),
      ([47784, 51032, 54644, 53433, 124, 52840, 53804, 53580, 49828, 53944] @ u ''|penetration tester'',
      u ''penetration tester'', u ''15-1299.04''),
      ([46356, 51648, 53560, 54252, 47116, 49885, 124, 46356, 51648, 53560, 32, 54252, 47116, 49885],
      u ''digital forensics analyst'', u ''15-1299.06''),
      ([45348, 53944, 50892, 53356, 124, 49436, 48260, 50868, 50689, 124, 49884, 49828, 53596, 50868, 50689,
      124, 49884, 49828, 53596, 32, 50868, 50689, 124, 51064, 54532, 46972, 124, 53364, 46972, 50864,
      46300] @ u ''|devops|sre|cloud|network engineer|systems engineer'',
      u ''network computer systems administrator architect support'',
      u ''15-1244.00 15-1231.00 15-1241.00 15-1299.08''),
      ([51204, 49328, 124, 51221, 48372, 49884, 49828, 53596, 124, 51221, 48372, 32, 49884, 49828, 53596,
      124, 51221, 48372, 44592, 49696] @ u ''|it'' @ [50868, 50689] @ u ''|it '' @ [50868, 50689],
      u ''computer systems analyst support administrator'', u ''15-1211.00 15-1232.00 15-1244.00''),
      ([54764, 54532, 45936, 49828, 53356] @ u ''|it'' @ [51648, 50896] @ u ''|it '' @ [51648, 50896, 124,
      51204, 49328, 51648, 50896], u ''computer user support'', u ''15-1232.00''),
      (u ''it pm|it'' @ [54532, 47196, 51229, 53944] @ u ''|it '' @ [54532, 47196, 51229, 53944, 124, 51221,
      48372, 54868, 49324, 50629], u ''information technology project manager'',
      u ''15-1299.09 13-1082.00''),
      ([49548, 54532, 53944, 50920, 50612, 53580, 49828, 53944, 124, 49548, 54532, 53944, 50920, 50612, 32,
      53580, 49828, 53944] @ u ''|qa'' @ [50644, 51648, 45768, 50612] @ u ''|qa '' @ [50644, 51648, 45768,
      50612] @ u ''|sw'' @ [53580, 49828, 53944] @ u ''|sw '' @ [53580, 49828, 53944],
      u ''software quality assurance tester'', u ''15-1253.00''),
      ([117, 105, 46356, 51088, 51064] @ u ''|ui '' @ [46356, 51088, 51064] @ u ''|ux'' @ [46356, 51088,
      51064] @ u ''|ux '' @ [46356, 51088, 51064, 124, 50937, 46356, 51088, 51064, 124, 50937, 32, 46356,
      51088, 51064, 124, 50937, 46356, 51088, 51060, 45320, 124, 54532, 47196, 45909, 53944, 46356, 51088,
      51060, 45320] @ u ''|web designer|ux designer|ui designer'', u ''web digital interface designer'',
      u ''15-1255.00 27-1024.00''),
      ([44172, 51076, 44592, 54925, 124, 44172, 51076, 46356, 51088, 51064, 124, 44172, 51076, 32, 46356,
      51088, 51064], u ''video game designer'', u ''15-1255.01''),
      (u ''gis|'' @ [51648, 47532, 51221, 48372, 124, 44277, 44036, 51221, 48372],
      u ''geographic information systems cartographer surveying'', u ''15-1299.02 17-1021.00 17-3031.00''),
      ([44148, 52629, 49444, 44228, 124, 44148, 52629, 32, 49444, 44228, 124, 44148, 52629, 49324],
      u ''architect architectural design'', u ''17-1011.00 17-3011.00''),
      ([44148, 52629, 124, 44148, 49444, 124, 44148, 49444, 44277, 49324],
      u ''construction building architectural'', u ''17-1011.00 17-2051.00 11-9021.00 47-2061.00''),
      ([53664, 47785, 124, 46020, 47196, 49444, 44228, 124, 44396, 51312, 49444, 44228],
      u ''civil engineer construction'', u ''17-2051.00 17-3022.00''),
      ([51312, 44221, 49444, 44228, 124, 51312, 44221, 32, 49444, 44228], u ''landscape architect'',
      u ''17-1012.00''),
      ([51312, 44221, 124, 45433, 51648, 124, 44277, 50896, 44288, 47532],
      u ''landscaping groundskeeping landscape'', u ''37-3011.00 17-1012.00''),
      ([52769, 47049, 124, 51648, 51201], u ''surveyor mapping technician'', u ''17-1022.00 17-3031.00''),
      ([51204, 44592, 49444, 44228, 124, 51204, 44592, 32, 49444, 44228, 124, 51204, 44592, 44277, 54617,
      124, 51204, 47141, 44228, 53685], u ''electrical engineer'', u ''17-2071.00 17-3023.00''),
      ([51204, 51088, 49444, 44228, 124, 51204, 51088, 32, 49444, 44228, 124, 54924, 47196, 49444, 44228,
      124, 54924, 47196, 32, 49444, 44228, 124, 54156, 50920, 50612, 124, 51076, 48288, 46356, 46300, 124,
      54616, 46300, 50920, 50612], u ''electronics electrical computer hardware engineer'',
      u ''17-2072.00 17-2061.00 15-1252.00''),
      ([51204, 44592, 124, 51204, 47141], u ''electrical electrician power'',
      u ''17-2071.00 47-2111.00 49-2095.00''),
      ([44592, 44228, 49444, 44228, 124, 44592, 44228, 32, 49444, 44228, 124, 44592, 44228, 44277, 54617],
      u ''mechanical engineer designer drafter'', u ''17-2141.00 17-3013.00''),
      ([44592, 44228, 124, 44592, 51204, 124, 49444, 48708],
      u ''mechanical machinery maintenance engineer'', u ''17-2141.00 49-9041.00 49-9043.00''),
      (u ''cad|'' @ [52880, 46300, 124, 51228, 46020, 124, 46020, 47732],
      u ''drafter mechanical architectural electrical'', u ''17-3011.00 17-3012.00 17-3013.00''),
      ([54868, 54617, 44277, 54617, 124, 54868, 44277, 124, 44277, 51221, 44060, 48156],
      u ''chemical engineer process'', u ''17-2041.00 17-2112.03''),
      ([54872, 44221, 44277, 54617, 124, 54872, 44221, 49444, 44228, 124, 49688, 52376, 47532, 49444,
      44228], u ''environmental water wastewater engineer'', u ''17-2081.00 17-2051.02''),
      ([50504, 51204, 44288, 47532, 124, 50504, 51204, 32, 44288, 47532, 124, 49328, 50629, 50504, 51204,
      124, 49328, 50629, 32, 50504, 51204, 124, 48372, 44148, 44288, 47532, 124, 48372, 44148, 32, 44288,
      47532], u ''occupational health safety specialist engineer'', u ''19-5011.00 17-2111.00 19-5012.00''),
      ([49548, 48169, 49444, 44228, 124, 49548, 48169, 32, 49444, 44228, 124, 49548, 48169, 50504, 51204],
      u ''fire prevention protection engineer inspector'', u ''17-2111.02 33-2021.00''),
      ([49373, 49328, 44592, 49696, 124, 44277, 51221, 44592, 49696, 124, 44277, 51221, 49444, 44228, 124,
      44277, 51221, 32, 49444, 44228, 124, 49328, 50629, 44277, 54617],
      u ''manufacturing industrial engineer'', u ''17-2112.03 17-2112.00 17-3026.00''),
      ([54408, 51656, 44288, 47532, 124, 54408, 51656, 32, 44288, 47532, 124, 54408, 51656, 48372, 51613,
      124, 54408, 51656, 32, 48372, 51613] @ u ''|qc|quality control'',
      u ''quality control inspector analyst systems'', u ''19-4099.01 51-9061.00 11-3051.01''),
      ([47196, 48391, 124, 51088, 46041, 54868, 124, 47700, 52852, 53944, 47196, 45769, 49828],
      u ''robotics mechatronics automation engineer technician'',
      u ''17-2199.08 17-2199.05 17-3024.00 17-3024.01'')]"

definition hint_rows_4 :: "hint_row list" where
  "hint_rows_4 =
     [([49888, 49548, 51116, 124, 51116, 47308, 44277, 54617, 124, 44552, 49549, 44277, 54617],
      u ''materials engineer scientist'', u ''17-2131.00 19-2032.00''),
      ([51088, 46041, 52264, 44060, 48156, 124, 51088, 46041, 52264, 49444, 44228, 124, 52264, 47049, 49444,
      44228], u ''automotive engineer'', u ''17-2141.02 17-3027.01''),
      ([51312, 49440, 49444, 44228, 124, 49440, 48149, 49444, 44228, 124, 54644, 50577, 44277, 54617],
      u ''marine engineer naval architect'', u ''17-2121.00''),
      ([54637, 44277, 50864, 51452, 124, 54637, 44277, 49444, 44228], u ''aerospace engineer'',
      u ''17-2011.00 17-3021.00''),
      ([50896, 51088, 47141, 124, 50896, 51204], u ''nuclear engineer technician power reactor'',
      u ''17-2161.00 19-4051.00 51-8011.00''),
      ([53468, 50577, 44305, 124, 53468, 50577, 50676], u ''solar photovoltaic engineer installer'',
      u ''17-2199.11 47-2231.00''),
      ([54413, 47141], u ''wind energy engineer turbine technician'', u ''17-2199.10 49-9081.00''),
      ([50640, 45320, 51648], u ''energy engineer specialist'', u ''17-2199.03''),
      ([50672, 44396, 50896, 124, 50672, 44396, 51649, 124, 50672, 44396, 44060, 48156] @ u ''|r&d'',
      u ''scientist research engineer technician'', u ''19-1099.00 19-2099.00 19-4099.00''),
      ([49373, 47932, 124, 49373, 47749, 44284, 54617, 124, 48148, 51060, 50724, 124, 48516, 51088, 49373,
      47932], u ''biologist biological scientist technician'', u ''19-1029.04 19-4021.00 19-1029.02''),
      ([49373, 54868, 54617], u ''biochemist'', u ''19-1021.00''),
      ([48120, 49373, 47932], u ''microbiologist'', u ''19-1022.00''),
      ([50976, 51204, 52404, 124, 50976, 51204, 54617], u ''geneticist'', u ''19-1029.03''),
      ([54868, 54617, 124, 54868, 54617, 48516, 49437], u ''chemist chemical technician'',
      u ''19-2031.00 19-4031.00''),
      ([47932, 47532, 124, 47932, 47532, 54617], u ''physicist'', u ''19-2012.00''),
      ([54872, 44221, 50672, 44396, 124, 54872, 44221, 48516, 49437, 124, 54872, 44221, 51312, 49324, 124,
      54872, 44221], u ''environmental scientist protection technician'',
      u ''19-2041.00 19-4042.00 17-2081.00''),
      ([44592, 49345, 124, 45824, 44592, 124, 44592, 54980], u ''atmospheric scientist climate'',
      u ''19-2021.00 19-2041.01''),
      ([51648, 51656, 124, 51648, 44396, 44284, 54617], u ''geoscientist geological technician'',
      u ''19-2042.00 19-4043.00''),
      ([49688, 47928, 124, 49688, 51656], u ''hydrologist water environmental'',
      u ''19-2043.00 19-4044.00 51-8031.00''),
      ([45453, 50629, 50672, 44396, 124, 51089, 47932, 50672, 44396, 124, 49885, 47932, 50672, 44396],
      u ''soil plant agricultural scientist'', u ''19-1013.00 19-4012.00''),
      ([49885, 54408, 50672, 44396, 124, 49885, 54408, 44060, 48156, 124, 49885, 54408, 48516, 49437],
      u ''food scientist technologist technician'', u ''19-1012.00 19-4013.00''),
      ([51076, 49345, 50672, 44396, 124, 51076, 49345, 49884, 54744] @ u ''|cro|cra'',
      u ''clinical research coordinator medical scientist'', u ''11-9121.01 19-1042.00 15-2051.02''),
      ([50669, 54617, 51312, 49324, 124, 50669, 54617, 50672, 44396, 124, 44048, 50684, 48337],
      u ''epidemiologist'', u ''19-1041.00''),
      ([44221, 51228, 50672, 44396, 124, 44221, 51228, 48516, 49437, 124, 44221, 51228, 54617],
      u ''economist'', u ''19-3011.00''),
      ([46020, 49884, 44228, 54925, 124, 51648, 50669, 44228, 54925, 124, 46020, 49884, 51116, 49373],
      u ''urban regional planner'', u ''19-3051.00''),
      ([49324, 54924, 51312, 49324, 124, 49324, 54924, 50672, 44396, 124, 49324, 54924, 54617],
      u ''social scientist sociologist survey researcher'', u ''19-3041.00 19-3022.00 19-4061.00''),
      ([49324, 54924, 48373, 51648, 124, 49324, 54924, 32, 48373, 51648, 124, 48373, 51648, 49324, 124,
      49324, 54924, 49324, 50629], u ''social worker human service'',
      u ''21-1021.00 21-1022.00 21-1029.00 21-1093.00''),
      ([49345, 45812, 124, 49345, 45812, 49324, 124, 49900, 47532], u ''counselor psychologist therapist'',
      u ''21-1019.00 21-1014.00 19-3033.00''),
      ([51649, 50629, 49345, 45812, 124, 52712, 50629, 49345, 45812, 124, 51652, 47196, 49345, 45812],
      u ''career educational guidance counselor'', u ''21-1012.00''),
      ([52397, 49548, 45380, 49345, 45812, 124, 54617, 44368, 49345, 45812],
      u ''school counselor psychologist'', u ''21-1012.00 19-3034.00''),
      ([51076, 49345, 49900, 47532, 124, 49900, 47532, 52824, 47308],
      u ''clinical counseling psychologist'', u ''19-3033.00''),
      ([51116, 54876, 49345, 45812], u ''rehabilitation counselor'', u ''21-1015.00''),
      ([49457, 51649, 124, 47785, 49324, 124, 49888, 48512, 124, 49849, 47140, 124, 51204, 46020, 49324],
      u ''clergy religious worker'', u ''21-2011.00 21-2099.00''),
      ([48320, 54840, 49324, 124, 48277, 47456, 124, 48277, 47924], u ''lawyer legal assistant paralegal'',
      u ''23-1011.00 23-2011.00 23-2099.00''),
      ([54032, 49324, 124, 51116, 54032], u ''judge magistrate judicial clerk'',
      u ''23-1023.00 23-1012.00''),
      ([48277, 47924, 49324, 124, 49569, 47924, 124, 48277, 47456, 49324, 47924],
      u ''paralegal legal assistant secretary'', u ''23-2011.00 43-6012.00''),
      ([44368, 49688, 124, 45824, 54617, 44368, 50896, 124, 45824, 54617, 44053, 49324, 124, 48149, 49324,
      54980] @ u ''|postdoc'', u ''postsecondary teacher research'', u ''25-1199.00''),
      ([44368, 49324, 124, 44368, 50896, 124, 54617, 44368, 44368, 50977], u ''teacher school instructor'',
      u ''25-2021.00 25-2022.00 25-2031.00 25-3099.00''),
      ([50976, 52824, 50896, 124, 48372, 50977, 44368, 49324, 124, 50612, 47536, 51060, 51665, 124, 50976,
      50500, 44368, 49324], u ''preschool kindergarten teacher childcare'',
      u ''25-2011.00 25-2012.00 39-9011.00''),
      ([52488, 46321], u ''elementary school teacher'', u ''25-2021.00''),
      ([51473, 46321, 124, 51473, 54617, 44368, 124, 44256, 46321, 54617, 44368],
      u ''secondary middle school teacher'', u ''25-2022.00 25-2031.00''),
      ([53945, 49688, 44368, 49324, 124, 53945, 49688, 44368, 50977], u ''special education teacher'',
      u ''25-2059.00 25-2056.00 25-2058.00''),
      ([44053, 49324, 124, 51064, 49828, 53944, 47085, 53552, 124, 54617, 50896, 124, 44368, 50977, 44053,
      49324, 124, 44368, 50977, 32, 44053, 49324], u ''teacher instructor tutor'',
      u ''25-3099.00 25-3021.00 25-3041.00''),
      ([51649, 50629, 54984, 47144, 124, 51649, 50629, 44368, 50977, 124, 44592, 49696, 44053, 49324],
      u ''career technical education teacher instructor'', u ''25-1194.00 25-3099.00''),
      ([50689, 50612, 44053, 49324, 124, 50689, 50612, 32, 44053, 49324, 124, 50808, 44397, 50612, 44053,
      49324], u ''language teacher tutor'', u ''25-1123.00 25-1124.00 25-3041.00''),
      ([44368, 50977, 48372, 51312, 124, 44368, 49324, 48372, 51312, 124, 48372, 51312, 44368, 49324, 124,
      48169, 44284, 54980], u ''teaching assistant childcare tutor'',
      u ''25-9042.00 25-9049.00 25-3041.00''),
      ([49324, 49436, 124, 46020, 49436, 44288], u ''librarian library assistant technician'',
      u ''25-4022.00 25-4031.00 43-4121.00''),
      ([54617, 50696, 124, 53328, 47112, 51060, 53552, 124, 48149, 47932, 44288],
      u ''curator museum technician'', u ''25-4012.00 25-4013.00''),
      ([44592, 47197, 47932, 124, 44592, 47197, 50672, 44396, 124, 44592, 47197, 44288, 47532],
      u ''archivist document management'', u ''25-4011.00 15-1299.03''),
      ([46356, 51088, 51060, 45320, 124, 46356, 51088, 51064], u ''designer graphic industrial'',
      u ''27-1024.00 27-1021.00''),
      ([44536, 47000, 54589, 124, 49884, 44033, 46356, 51088, 51064, 124, 54200, 51665, 46356, 51088, 51064,
      124, 48652, 47004, 46300, 46356, 51088, 51064, 124, 51068, 47084, 49828, 53944, 47112, 51060, 53552],
      u ''graphic designer illustrator'', u ''27-1024.00 27-1013.00''),
      ([51228, 54408, 46356, 51088, 51064, 124, 49328, 50629, 46356, 51088, 51064],
      u ''commercial industrial designer'', u ''27-1021.00''),
      ([51064, 53580, 47532, 50612, 124, 49892, 45236, 46356, 51088, 51064], u ''interior designer'',
      u ''27-1025.00''),
      ([54056, 49496, 46356, 51088, 51064, 124, 51032, 49345, 46356, 51088, 51064], u ''fashion designer'',
      u ''27-1022.00''),
      ([50689, 49345, 54200, 51665, 124, 50689, 49345, 32, 54200, 51665, 124, 48708, 46356, 50724, 54200,
      51665, 124, 47784, 49496, 44536, 47000, 54589], u ''film video editor animator'',
      u ''27-4032.00 27-1014.00''),
      ([52524, 50689, 124, 49324, 51652, 124, 52852, 47700, 46972], u ''photographer camera operator'',
      u ''27-4021.00 27-4031.00''),
      ([48169, 49569, 51228, 51089, 124, 54532, 47196, 46272, 49436, 124, 48169, 49569, 50672, 52636] @
      u ''|pd'', u ''producer director'', u ''27-2012.00''),
      ([44592, 51088, 124, 52712, 51116, 124, 51200, 45328, 47532, 49828, 53944],
      u ''news journalist reporter'', u ''27-3023.00''),
      ([51089, 44032, 124, 52852, 54588, 46972, 51060, 53552, 124, 53080, 53584, 52768, 44592, 54925, 124,
      53080, 53584, 52768, 51228, 51089], u ''writer author editor'',
      u ''27-3043.00 27-3041.00 27-3042.00''),
      ([48264, 50669, 124, 53685, 50669], u ''interpreter translator'', u ''27-3091.00''),
      ([48176, 50864, 124, 50672, 44592, 51088], u ''actor'', u ''27-2011.00''),
      ([49457, 50501, 124, 44032, 49688, 124, 50672, 51452, 124, 51020, 50501, 44032],
      u ''musician singer'', u ''27-2042.00''),
      ([51089, 44257, 124, 51020, 50501, 44048, 46021], u ''music director composer'', u ''27-2041.00'')]"

definition hint_rows_5 :: "hint_row list" where
  "hint_rows_5 =
     [([51020, 54693, 124, 48169, 49569, 44592, 49696], u ''sound engineering broadcast audio technician'',
      u ''27-4014.00 27-4011.00 27-4012.00''),
      ([52404, 50977, 51648, 46020, 124, 49828, 54252, 52768, 51648, 46020, 124, 53076, 52824],
      u ''coach scout exercise trainer'', u ''27-2022.00 39-9031.00''),
      ([51032, 49324, 124, 51032, 47308, 51652, 124, 51204, 47928, 51032], u ''physician medical doctor'',
      u ''29-1229.00 29-1216.00 29-1215.00''),
      ([49328, 48512, 51064, 44284, 124, 49328, 48512, 51064] @ u ''|obstetrician|gynecologist'',
      u ''obstetrician gynecologist'', u ''29-1218.00''),
      ([49548, 50500, 52397, 49548, 45380, 44284, 124, 49548, 50500, 44284] @ u ''|pediatrician'',
      u ''pediatrician'', u ''29-1221.00''),
      ([51025, 44553, 51032, 54617, 124, 51025, 44553, 32, 51032, 54617] @ u ''|emergency physician'',
      u ''emergency medicine physician'', u ''29-1214.00''),
      ([47560, 52712, 53685, 51613, 51032, 54617, 124, 47560, 52712, 44284] @ u ''|anesthesiologist'',
      u ''anesthesiologist'', u ''29-1211.00''),
      ([49888, 44221, 44284] @ u ''|neurologist'', u ''neurologist'', u ''29-1217.00''),
      ([54588, 48512, 44284] @ u ''|dermatologist'', u ''dermatologist'', u ''29-1213.00''),
      ([50689, 49345, 51032, 54617, 44284, 124, 50689, 49345, 51032, 54617, 32, 51204, 47928, 51032] @
      u ''|radiologist'', u ''radiologist physician'', u ''29-1224.00''),
      ([51221, 49888, 44148, 44053, 51032, 54617, 124, 51221, 49888, 44284] @ u ''|psychiatrist'',
      u ''psychiatrist'', u ''29-1223.00''),
      ([49900, 51109, 45236, 44284, 124, 49692, 54872, 44592, 45236, 44284] @ u ''|cardiologist'',
      u ''cardiologist'', u ''29-1212.00''),
      ([44032, 51221, 51032, 54617, 124, 44032, 51221, 32, 51032, 54617], u ''family medicine physician'',
      u ''29-1215.00''),
      ([45236, 44284, 124, 51068, 48152, 45236, 44284] @ u ''|internal medicine'',
      u ''internal medicine physician'', u ''29-1216.00''),
      ([48337, 47532, 44284, 32, 51204, 47928, 51032, 124, 48337, 47532, 51204, 47928, 51032, 124, 48337,
      47532, 32, 51204, 47928, 51032] @ u ''|pathologist'', u ''physician pathologist'', u ''29-1222.00''),
      ([51077, 50896, 51204, 45812, 124, 51077, 50896, 32, 51204, 45812, 124, 51077, 50896, 51032, 54617] @
      u ''|hospitalist'', u ''hospitalist inpatient physician'', u ''29-1229.02''),
      ([50696, 48169, 51032, 54617, 124, 50696, 48169, 32, 51032, 54617],
      u ''preventive medicine physician'', u ''29-1229.05''),
      ([48708, 45544, 51032, 54617, 124, 48708, 45544, 44592, 44284] @ u ''|urologist'', u ''urologist'',
      u ''29-1229.03''),
      ([51116, 54876, 51032, 54617, 124, 51116, 54876, 32, 51032, 54617],
      u ''physical medicine rehabilitation physician'', u ''29-1229.04''),
      ([50508, 47112, 47476, 44592, 45236, 44284, 124, 50508, 47112, 47476, 44592, 32, 51204, 47928, 51032],
      u ''allergist immunologist'', u ''29-1229.01''),
      ([49828, 54252, 52768, 51032, 54617, 51204, 47928, 51032, 124, 49828, 54252, 52768, 51032, 54617,
      44284], u ''sports medicine physician'', u ''29-1229.06''),
      ([50504, 44284, 32, 51204, 47928, 51032, 124, 50504, 44284, 51204, 47928, 51032, 124, 50504, 44284,
      32, 51032, 49324, 124, 50504, 44284, 51032, 49324] @ u ''|ophthalmologist'', u ''ophthalmologist'',
      u ''29-1241.00''),
      ([51221, 54805, 50808, 44284] @ u ''|orthopedic surgeon'', u ''orthopedic surgeon'', u ''29-1242.00''),
      ([49548, 50500, 50808, 44284, 124, 49548, 50500, 32, 50808, 44284] @ u ''|pediatric surgeon'',
      u ''pediatric surgeon'', u ''29-1243.00''),
      ([51076, 49345, 44368, 49688, 124, 51652, 47308, 44368, 49688, 124, 51032, 54617, 44368, 49688],
      u ''clinical physician health specialties professor'', u ''25-1071.00''),
      ([52824, 44284, 51032, 49324, 124, 52824, 44284, 32, 51032, 49324], u ''dentist'', u ''29-1021.00''),
      ([54620, 51032, 49324, 124, 54620, 48169], u ''acupuncturist healthcare practitioner'',
      u ''29-1291.00 29-1299.00''),
      ([50557, 49324, 124, 50557, 47924], u ''pharmacist'', u ''29-1051.00''),
      ([44036, 54840, 49324, 124, 44036, 54840, 51649, 124, 44036, 54840],
      u ''registered nurse nursing assistant'', u ''29-1141.00 31-1131.00 29-2061.00''),
      ([44036, 54840, 51312, 47924, 124, 44036, 54840, 48372, 51312],
      u ''nursing assistant licensed practical nurse'', u ''31-1131.00 29-2061.00''),
      ([50836, 50577, 48372, 54840, 124, 44036, 48337, 124, 48169, 47928, 50836, 50577],
      u ''personal care home health nursing aide'', u ''31-1122.00 31-1121.00 31-1131.00''),
      ([47932, 47532, 52824, 47308, 124, 47932, 47532, 32, 52824, 47308], u ''physical therapist'',
      u ''29-1123.00 31-2021.00''),
      ([51089, 50629, 52824, 47308, 124, 51089, 50629, 32, 52824, 47308], u ''occupational therapist'',
      u ''29-1122.00 31-2011.00''),
      ([50616, 50612, 52824, 47308, 124, 50616, 50612, 32, 52824, 47308], u ''speech language pathologist'',
      u ''29-1127.00''),
      ([50689, 50577, 49324, 124, 50689, 50577, 44288, 47532], u ''dietitian nutritionist'',
      u ''29-1031.00 29-2051.00''),
      ([51076, 49345, 48337, 47532, 124, 51652, 45800, 44160, 49324],
      u ''medical clinical laboratory technologist technician'', u ''29-2011.00 29-2012.00''),
      ([48169, 49324, 49440, 49324, 124, 48169, 49324, 49440, 51649, 124, 50689, 49345, 51032, 54617],
      u ''radiologic technologist technician'', u ''29-2034.00 29-2035.00''),
      ([52824, 50948, 49373, 124, 52824, 44284, 50948, 49373], u ''dental hygienist'', u ''29-1292.00''),
      ([52824, 44284, 44592, 44277], u ''dental laboratory technician'', u ''51-9081.00''),
      ([51025, 44553, 44396, 51312, 124, 44396, 44553], u ''emergency medical technician paramedic'',
      u ''29-2042.00 29-2043.00''),
      ([48372, 44148, 51032, 47308, 51221, 48372, 124, 51032, 47924, 44592, 47197, 124, 51032, 47308, 51221,
      48372], u ''medical records health information specialist registrar'', u ''29-2072.00 29-9021.00''),
      ([50896, 47924, 124, 48337, 50896, 54665, 51221, 124, 54872, 51088, 51217, 49688],
      u ''medical secretary patient representative'', u ''43-6013.00 29-2099.08''),
      ([50504, 44221, 49324, 124, 50504, 44221, 50896], u ''optician dispensing'', u ''29-2081.00''),
      ([49688, 51032, 49324], u ''veterinarian'', u ''29-1131.00''),
      ([46041, 47932, 48372, 44148, 124, 49688, 51032, 48372, 51312], u ''veterinary technician assistant'',
      u ''29-2056.00 31-9096.00''),
      ([44221, 48708, 124, 48372, 50504, 50836, 50896, 124, 48372, 50504, 32, 50836, 50896, 124, 49884,
      49444, 48372, 50504, 124, 52397, 50896, 44221, 52272], u ''security guard protective'',
      u ''33-9032.00 33-9099.00''),
      ([44221, 52272, 124, 49692, 44221], u ''police patrol officer'', u ''33-3051.00''),
      ([49548, 48169, 44288, 124, 49548, 48169, 44277, 47924, 124, 49548, 48169, 51649], u ''firefighter'',
      u ''33-2011.00''),
      ([49548, 48169, 51216, 44160, 124, 49548, 48169, 32, 51216, 44160],
      u ''fire inspector alarm installer'', u ''33-2021.00 49-2098.00''),
      ([51064, 47749, 44396, 51312, 124, 49688, 49345, 50504, 51204, 124, 46972, 51060, 54532, 44032,
      46300], u ''lifeguard protective service'', u ''33-9092.00''),
      ([51312, 47532, 124, 52712, 49324, 124, 44553, 49885, 124, 50836, 47532, 49324, 124, 51452, 48169,
      124, 49520, 54532], u ''cook chef cafeteria restaurant food preparation'',
      u ''35-2012.00 35-2014.00 35-2021.00 35-1011.00''),
      ([48148, 47532, 49828, 53440, 124, 52964, 54588], u ''barista'', u ''35-3023.01''),
      ([48148, 53584, 45908, 124, 52853, 53580, 51068], u ''bartender'', u ''35-3011.00''),
      ([54848, 49436, 48729, 124, 49436, 48729, 124, 50920, 51060, 53552, 124, 50920, 51060, 53944, 47532,
      49828], u ''waiter waitress food server'', u ''35-3031.00 35-3041.00''),
      ([49444, 44144, 51648, 124, 49885, 44592, 49464, 52377], u ''dishwasher'', u ''35-9021.00''),
      ([48120, 54868, 124, 52397, 49548, 124, 54872, 44221, 48120, 54868, 124, 50948, 49373, 50896],
      u ''janitor cleaner housekeeping'', u ''37-2011.00 37-2012.00 37-2019.00''),
      ([44061, 49892, 51221, 48708, 124, 44061, 49892, 52397, 49548, 124, 54616, 50864, 49828, 53412,
      54609], u ''maid housekeeping cleaner'', u ''37-2012.00''),
      ([48169, 50669, 124, 54644, 52649, 124, 49548, 46021], u ''pest control worker'', u ''37-2021.00''),
      ([45208, 47924, 44288, 47532, 124, 49688, 47785, 44288, 47532, 124, 51204, 51221],
      u ''tree trimmer pruner groundskeeper'', u ''37-3013.00 37-3011.00''),
      ([46041, 47932, 44288, 47532, 124, 49324, 50977, 124, 50528, 44204, 124, 54187],
      u ''animal caretaker trainer'', u ''39-2021.00 39-2011.00''),
      ([51109, 47168, 124, 51109, 51032], u ''funeral arranger attendant mortician'',
      u ''39-4031.00 39-4021.00''),
      ([48120, 50857, 124, 54756, 50612, 46356, 51088, 51060, 45320, 124, 54756, 50612, 32, 46356, 51088,
      51060, 45320, 124, 51060, 48156], u ''hairdresser hairstylist cosmetologist barber'',
      u ''39-5012.00 39-5011.00''),
      ([54588, 48512, 44288, 47532, 124, 50640, 49828, 53580, 54001], u ''skincare specialist'',
      u ''39-5094.00''),
      ([45348, 51068, 124, 54168, 46356, 53328, 50612], u ''manicurist pedicurist'', u ''39-5092.00''),
      ([47700, 51060, 53356, 50629, 124, 48516, 51109], u ''makeup artist'', u ''39-5091.00''),
      ([44288, 44305, 50504, 45236, 124, 44288, 44305, 32, 50504, 45236, 124, 50668, 54665, 44032, 51060,
      46300, 124, 50668, 54665, 32, 44032, 51060, 46300], u ''tour travel guide'',
      u ''39-7011.00 39-7012.00''),
      ([48372, 50977, 124, 46028, 48388, 124, 50500, 51060, 46028, 48388],
      u ''childcare personal care worker'', u ''39-9011.00 31-1122.00''),
      ([54764, 49828, 53944, 47112, 51060, 45320, 124, 54140, 49828, 45328, 53944, 47112, 51060, 45320, 124,
      54588, 53944, 45768, 49828, 124, 54596, 46972, 53580, 49828, 124, 50836, 44032],
      u ''exercise trainer group fitness instructor'', u ''39-9031.00''),
      ([47112, 53356, 47532, 50640, 51060, 49496, 124, 49373, 54876, 52404, 50977], u ''recreation worker'',
      u ''39-9032.00''),
      ([50689, 50629, 124, 49464, 51068, 51592] @ u ''|sales'',
      u ''sales representative services wholesale retail'',
      u ''41-4012.00 41-3091.00 41-4011.00 41-2031.00''),
      ([44592, 49696, 50689, 50629, 124, 44592, 49696, 32, 50689, 50629],
      u ''sales engineer technical scientific representative'', u ''41-9031.00 41-4011.00''),
      ([54032, 47588, 124, 47588, 51109, 124, 47532, 53580, 51068, 124, 49397, 47588, 45768, 51200],
      u ''retail salesperson supervisor'', u ''41-2031.00 41-1011.00''),
      ([44228, 49328, 50896, 124, 52880, 49492], u ''cashier'', u ''41-2011.00''),
      ([48372, 54744, 50689, 50629, 124, 48372, 54744, 49444, 44228, 49324], u ''insurance sales agent'',
      u ''41-3021.00''),
      ([48512, 46041, 49328, 51473, 44060, 124, 44277, 51064, 51473, 44060, 124, 48512, 46041, 49328, 32,
      51473, 44060], u ''real estate broker sales agent'', u ''41-9021.00 41-9022.00''),
      ([53588, 47112, 47560, 52992, 54021, 124, 50500, 50883, 48148, 50868, 46300, 124, 51204, 54868, 50689,
      50629], u ''telemarketer'', u ''41-9041.00''),
      ([50668, 54665, 49324, 124, 50668, 54665, 49345, 45812], u ''travel agent reservation clerk'',
      u ''41-3041.00 43-4181.00'')]"

definition hint_rows_6 :: "hint_row list" where
  "hint_rows_6 =
     [([44256, 44061, 49345, 45812, 124, 44256, 44061, 32, 49345, 45812, 124, 44256, 44061, 51648, 50896,
      124, 44256, 44061, 32, 51648, 50896, 124, 44256, 44061, 49468, 53552, 124, 53084, 49468, 53552] @
      u ''|cs'' @ [49345, 45812] @ u ''|cs '' @ [49345, 45812, 124, 51064, 48148, 50868, 46300],
      u ''customer service representative'', u ''43-4051.00''),
      ([51217, 49688, 124, 50504, 45236, 124, 47532, 49481, 49496], u ''receptionist information clerk'',
      u ''43-4171.00''),
      ([54840, 53588, 54532, 47200, 53944, 124, 54840, 53588, 32, 54532, 47200, 53944, 124, 54532, 47088,
      53944, 124, 54532, 47200, 53944, 45936, 49828, 53356], u ''hotel motel resort desk clerk concierge'',
      u ''43-4081.00 39-6012.00''),
      ([51116, 44256, 44288, 47532, 124, 51077, 52636, 44256, 124, 52285, 44256, 44288, 47532, 124, 52285,
      44256, 32, 44288, 47532], u ''shipping receiving inventory clerk stocker'',
      u ''43-5071.00 53-7065.00''),
      ([49373, 49328, 44288, 47532, 124, 49373, 49328, 32, 44288, 47532, 124, 49373, 49328, 44228, 54925],
      u ''production planning expediting clerk manager'', u ''43-5061.00 11-3051.00''),
      ([45936, 51060, 53552, 51077, 47141, 124, 51088, 47308, 51077, 47141, 124, 51204, 49328, 51077,
      47141], u ''data entry keyer'', u ''43-9021.00''),
      ([44160, 52840], u ''meter reader utilities'', u ''43-5041.00''),
      ([50864, 54200, 124, 51665, 48176], u ''postal service mail carrier sorter clerk'',
      u ''43-5052.00 43-5053.00 43-5051.00''),
      ([45453, 50629, 124, 45453, 51109, 124, 51116, 48176, 124, 50896, 50696, 124, 45453, 47548],
      u ''farmworker crop nursery agricultural'', u ''45-2092.00 45-2099.00 19-4012.00''),
      ([52629, 49328, 124, 45209, 45453, 124, 50577, 46024, 124, 50577, 44228],
      u ''farmworker animal breeder'', u ''45-2093.00 45-2021.00''),
      ([50577, 49885, 124, 50612, 50629, 124, 49688, 49328], u ''fishing aquaculture animal worker'',
      u ''45-3031.00 45-2093.00''),
      ([49328, 47548, 124, 51076, 50629, 124, 48268, 47785], u ''forest conservation logging worker'',
      u ''45-4011.00 19-1032.00 45-4021.00''),
      ([47785, 44277, 124, 47785, 49688], u ''carpenter cabinetmaker'', u ''47-2031.00 51-7011.00''),
      ([48120, 51109, 124, 53440, 51068, 124, 51312, 51201], u ''plasterer tile mason'',
      u ''47-2161.00 47-2044.00 47-2021.00''),
      ([46020, 51109, 124, 54168, 51064, 53944], u ''painter coating worker'',
      u ''47-2141.00 51-9123.00 51-9124.00''),
      ([46020, 48176, 124, 51109, 54032], u ''paperhanger floor layer'', u ''47-2142.00 47-2042.00''),
      ([48176, 44288, 124, 49444, 48708, 44277, 124, 49444, 48708, 32, 44277],
      u ''plumber pipefitter pipelayer'', u ''47-2152.00 47-2151.00''),
      ([51204, 44592, 44277, 124, 51204, 44592, 32, 44277, 124, 51204, 44592, 49884, 44277, 124, 45236,
      49440, 44277], u ''electrician'', u ''47-2111.00''),
      ([52384, 44540, 124, 52384, 44264], u ''reinforcing iron rebar structural steel worker'',
      u ''47-2171.00 47-2221.00''),
      ([44404, 49325, 44592, 124, 54252, 53356, 47112, 51064, 124, 51473, 51109, 48708, 50868, 51204],
      u ''construction equipment excavating operator'', u ''47-2073.00 47-5022.00''),
      ([46020, 47196, 48372, 49688, 124, 46020, 47196, 44288, 47532], u ''highway maintenance worker'',
      u ''47-4051.00''),
      ([49849, 44053, 44592, 124, 50648, 47532, 48288, 51060, 53552], u ''elevator installer repairer'',
      u ''47-4021.00''),
      ([49884, 49444, 44288, 47532, 124, 49884, 49444, 32, 44288, 47532, 124, 49884, 49444, 50976, 51648,
      124, 50689, 49440, 124, 44148, 47932, 44288, 47532],
      u ''maintenance repair worker facility building'', u ''49-9071.00 11-3013.00 49-9043.00''),
      ([44277, 51312, 124, 45257, 46041, 124, 45257, 45212, 48169, 124, 50640, 50612, 52968],
      u ''heating air conditioning refrigeration mechanic'', u ''49-9021.00''),
      ([48372, 51068, 47084, 124, 44592, 44288, 49892], u ''stationary engineer boiler operator'',
      u ''51-8021.00''),
      ([51088, 46041, 52264, 51221, 48708, 124, 51088, 46041, 52264, 32, 51221, 48708, 124, 52264, 47049,
      51221, 48708, 124, 52264, 47049, 32, 51221, 48708], u ''automotive service technician mechanic'',
      u ''49-3023.00 49-3031.00''),
      ([54032, 44552, 124, 52264, 52404, 49688, 47532], u ''automotive body repair sheet metal'',
      u ''49-3021.00 47-2211.00''),
      ([54637, 44277, 51221, 48708, 124, 54637, 44277, 32, 51221, 48708],
      u ''aircraft mechanic service technician'', u ''49-3011.00 49-2091.00''),
      ([44592, 44228, 51221, 48708, 124, 44592, 44228, 32, 51221, 48708, 124, 49444, 48708, 48372, 51204,
      124, 49444, 48708, 32, 48372, 51204, 124, 49444, 48708, 50976, 51648],
      u ''industrial machinery mechanic maintenance'', u ''49-9041.00 49-9043.00''),
      ([53685, 49888, 49444, 52824, 124, 53685, 49888, 32, 49444, 52824, 124, 53685, 49888, 44277, 49324],
      u ''telecommunications equipment line installer'', u ''49-2022.00 49-9052.00''),
      ([51032, 47308, 44592, 44592, 49688, 47532, 124, 51032, 47308, 44592, 44592, 32, 51221, 48708],
      u ''medical equipment repairer'', u ''49-9062.00''),
      ([49373, 49328, 51649, 124, 49373, 49328, 44277, 124, 51228, 51312, 124, 51312, 47549, 124, 49373,
      49328], u ''production worker assembler manufacturing'', u ''51-9199.00 51-2092.00 51-2099.00''),
      ([51228, 48757, 124, 48288, 51060, 52964, 124, 48288, 51060, 52964, 47532], u ''baker'',
      u ''51-3011.00''),
      ([51221, 50977, 124, 46020, 52629], u ''butcher meat cutter slaughterer'',
      u ''51-3021.00 51-3023.00''),
      ([49885, 54408, 44032, 44277, 124, 49885, 54408, 49373, 49328, 124, 49885, 54408, 32, 49373, 49328],
      u ''food processing cooking machine operator'', u ''51-3092.00 51-3093.00 51-3099.00''),
      ([49440, 48152, 124, 48128, 47553, 124, 48276, 50857, 44032, 44277, 124, 47672, 49884, 45789] @
      u ''|mct|cnc'', u ''machinist computer numerically controlled tool operator'',
      u ''51-4041.00 51-9161.00 51-9162.00''),
      ([44552, 54805], u ''tool die maker mold patternmaker'', u ''51-4111.00 51-4062.00 51-4072.00''),
      ([50857, 51217, 124, 51228, 44288], u ''welder cutter solderer brazier'', u ''51-4121.00 51-4122.00''),
      ([51452, 51312, 124, 45796, 51060, 52880, 49828, 54021],
      u ''foundry casting molding machine operator'', u ''51-4052.00 51-4071.00 51-4072.00''),
      ([49324, 52636, 124, 54540, 46972, 49828, 54001, 49457, 54805],
      u ''molding machine setter operator plastic'', u ''51-4072.00''),
      ([46020, 44552, 124, 54364, 47732, 52376, 47532], u ''plating machine operator metal plastic'',
      u ''51-4193.00''),
      ([50676, 52376, 47532], u ''heat treating equipment operator metal'', u ''51-4191.00''),
      ([51064, 49604, 124, 51064, 49604, 44592], u ''printing press prepress technician'',
      u ''51-5112.00 51-5111.00''),
      ([51116, 48393, 124, 48393, 51228, 124, 48120, 49905], u ''sewing machine operator tailor'',
      u ''51-6031.00 51-6052.00''),
      ([54056, 53556, 49324, 124, 51032, 47448, 54056, 53556], u ''fabric apparel patternmaker'',
      u ''51-6092.00''),
      ([50684, 49353, 124, 49452, 50976], u ''textile dyeing knitting weaving machine operator'',
      u ''51-6061.00 51-6063.00''),
      ([49464, 53441, 124, 46300, 46972, 51060, 53364, 47532, 45789], u ''laundry dry cleaning worker'',
      u ''51-6011.00''),
      ([47785, 51116, 44032, 44277, 124, 44032, 44396, 51228, 51089], u ''woodworking cabinetmaker'',
      u ''51-7011.00 51-7042.00''),
      ([48156, 51204, 50868, 51204, 124, 48156, 51204, 49548, 50868, 51204, 124, 48156, 51204, 49548, 32,
      50868, 51204], u ''power plant operator distributor'', u ''51-8013.00 51-8012.00''),
      ([54616, 49688, 52376, 47532, 124, 51221, 49688, 51109, 124, 54224, 49688, 52376, 47532, 124, 49688,
      52376, 47532, 124, 49345, 54616, 49688, 46020], u ''water wastewater treatment plant operator'',
      u ''51-8031.00 17-2051.02''),
      ([54868, 54617, 44277, 51109, 124, 54868, 54617, 49373, 49328, 124, 54868, 54617, 32, 49373, 49328],
      u ''chemical plant system equipment operator'', u ''51-8091.00 51-9011.00''),
      ([48152, 46020, 52404, 44277, 51221, 124, 48152, 46020, 52404, 32, 44277, 51221, 124, 48152, 46020,
      52404, 49373, 49328, 124, 48152, 46020, 52404, 32, 49373, 49328],
      u ''semiconductor processing technician'', u ''51-9141.00 17-2072.00''),
      ([48152, 46020, 52404], u ''semiconductor electronics processing engineer'',
      u ''51-9141.00 17-2072.00''),
      ([44160, 49324, 50896, 124, 44160, 49324, 51649, 124, 51228, 54408, 44160, 49324, 124, 51228, 54408,
      32, 44160, 49324, 124, 54408, 51656, 44160, 49324], u ''inspector tester sorter sampler'',
      u ''51-9061.00''),
      ([54252, 51109, 124, 54056, 53433], u ''packer packager packaging filling operator'',
      u ''53-7064.00 51-9111.00'')]"

definition hint_rows_7 :: "hint_row list" where
  "hint_rows_7 =
     [([50868, 51204, 124, 50868, 51204, 50896, 124, 44592, 49324, 51649, 124, 52264, 47049, 50868, 54665],
      u ''driver motor vehicle operator'', u ''53-3053.00 53-3033.00 53-3032.00''),
      ([48260, 49828, 124, 53685, 54617, 52264, 124, 53685, 44540, 52264], u ''bus driver shuttle'',
      u ''53-3052.00 53-3051.00 53-3053.00''),
      ([53469, 49884], u ''taxi driver chauffeur'', u ''53-3054.00''),
      ([54868, 47932, 124, 53944, 47085, 124, 45824, 54805, 50868, 51204],
      u ''heavy tractor trailer truck driver'', u ''53-3032.00 53-3033.00''),
      ([48176, 49569, 124, 48176, 45804, 124, 53469, 48176], u ''light truck driver courier delivery'',
      u ''53-3033.00 43-5021.00 53-3031.00''),
      ([51648, 44172, 52264], u ''industrial truck tractor operator'', u ''53-7051.00''),
      ([53356, 47112, 51064, 124, 44592, 51473, 44592], u ''crane tower operator'', u ''53-7021.00''),
      ([52384, 46020, 124, 44592, 44288, 49324, 124, 51204, 46041, 52264],
      u ''locomotive subway rail transportation operator'', u ''53-4011.00 53-4041.00 53-4031.00''),
      ([49440, 51109, 124, 54637, 54644, 49324, 124, 49440, 48149, 50868, 54637],
      u ''captain mate water vessel pilot'', u ''53-5021.00''),
      ([49440, 50896, 124, 44049, 54032, 50896], u ''sailor marine oiler'', u ''53-5011.00''),
      ([54637, 44277, 51312, 51333, 124, 51312, 51333, 49324, 124, 54028, 51068, 47103],
      u ''airline commercial pilot'', u ''53-2011.00 53-2012.00''),
      ([44061, 49892, 49849, 47924, 124, 54637, 44277, 49849, 47924, 124, 54637, 44277, 32, 49849, 47924],
      u ''flight attendant'', u ''53-2031.00''),
      ([49345, 54616, 52264, 124, 54616, 50669, 124, 47932, 47448, 51089, 50629],
      u ''laborer freight stock material mover'', u ''53-7062.00''),
      ([54224, 44592, 47932, 124, 50416, 47112, 44592, 49688, 44144, 124, 51116, 54876, 50857, 49688,
      44144], u ''refuse recyclable material collector recycling worker'', u ''53-7081.00 53-7062.04''),
      ([51452, 52264, 124, 48156, 47131], u ''parking attendant'', u ''53-6021.00''),
      ([44400, 51064, 124, 44400, 47924, 124, 51109, 44368, 124, 48512, 49324, 44288],
      u ''military officer enlisted tactical operations'', u ''55-1019.00 55-3019.00'')]"

definition hint_rows :: "hint_row list" where
  "hint_rows = hint_rows_1 @ hint_rows_2 @ hint_rows_3 @ hint_rows_4 @ hint_rows_5 @ hint_rows_6 @ hint_rows_7"

end
