(* ===== verification/Retrieval.thy ===== *)
theory Retrieval
  imports OnetPolicy Lexicon "HOL-Library.AList" "HOL-Library.List_Lexorder" "HOL-Library.Product_Lexorder"
begin

text \<open>
  \<open>hop/llm/onet/retrieval.py\<close>: which postings are admitted, which physician occupations a posting may be
  offered, and the shortlist of official occupations. Scores are exact rationals; the Unicode tables, the
  logarithm, the rounding, the digests and the order in which Python walks over a set are parameters.
\<close>

record onet_env =
  on_chars :: char_table
  on_nfkc :: "ustr \<Rightarrow> ustr"
  on_casefold :: "ustr \<Rightarrow> ustr"
  on_log :: "rat \<Rightarrow> rat"
  on_round :: "rat \<Rightarrow> ustr"
  on_set_order :: "ustr list \<Rightarrow> ustr list"
  on_hash :: "json \<Rightarrow> ustr"
  on_str :: "json \<Rightarrow> ustr"
  on_dumps :: "json \<Rightarrow> ustr"
  on_admission_hash :: ustr
  on_physician_hash :: ustr
  on_hint_hash :: ustr

type_synonym source_fields = "(ustr \<times> json) list"

text \<open>Every string of a value, as it stands.\<close>

fun string_leaves :: "json \<Rightarrow> ustr list"
  and list_leaves :: "json list \<Rightarrow> ustr list"
  and pair_leaves :: "(ustr \<times> json) list \<Rightarrow> ustr list"
where
  "string_leaves (JStr s) = [s]"
| "string_leaves (JArr vs) = list_leaves vs"
| "string_leaves (JObj kvs) = pair_leaves kvs"
| "string_leaves _ = []"
| "list_leaves [] = []"
| "list_leaves (v # vs) = string_leaves v @ list_leaves vs"
| "pair_leaves [] = []"
| "pair_leaves ((k, v) # kvs) = string_leaves v @ pair_leaves kvs"

definition leaves_of :: "source_fields \<Rightarrow> ustr \<Rightarrow> ustr list" where
  "leaves_of fs field = string_leaves (jget fs field)"

section \<open>Physicians\<close>

text \<open>A quote: the occupation, the field and the text.\<close>

record physician_quote =
  pq_code :: ustr
  pq_field :: ustr
  pq_text :: ustr

record physician_evidence =
  pe_eligible :: "ustr list"
  pe_quotes :: "physician_quote list"
  pe_physician :: bool
  pe_other :: bool

definition physician_codes :: "ustr list" where
  "physician_codes = map fst physician_scopes"

definition nothing_found :: physician_evidence where
  "nothing_found = \<lparr>pe_eligible = [], pe_quotes = [], pe_physician = False, pe_other = False\<rparr>"

text \<open>A part that only names a qualification, or another medical profession.\<close>

definition part_skipped :: "char_table \<Rightarrow> ustr \<Rightarrow> bool" where
  "part_skipped T part \<longleftrightarrow>
     (case pat_search T True medical_qualification part of
        None \<Rightarrow> False
      | Some (i, _) \<Rightarrow> \<not> found T True medical_role_recruitment (take i part))
     \<or> found T True other_medical_profession part"

definition scope_matches :: "char_table \<Rightarrow> ustr \<Rightarrow> (ustr \<times> (nat \<times> nat) list) list" where
  "scope_matches T part = map (\<lambda>(code, p). (code, pat_spans T True p part)) physician_scopes"

definition matched_scope :: "(ustr \<times> (nat \<times> nat) list) list \<Rightarrow> string \<Rightarrow> bool" where
  "matched_scope ms code \<longleftrightarrow> map_of ms (u code) \<notin> {None, Some []}"

text \<open>A match that is passed over: part of the name of an organization, or a narrower scope stands beside it.\<close>

definition scope_suppressed ::
    "char_table \<Rightarrow> ustr \<Rightarrow> (ustr \<times> (nat \<times> nat) list) list \<Rightarrow> ustr \<Rightarrow> nat \<times> nat \<Rightarrow> bool" where
  "scope_suppressed T part ms code m \<longleftrightarrow>
     match_at T True (drop (snd m) part) medical_organization_suffix 0 \<noteq> []
     \<or> code = u ''29-1216.00'' \<and> list_ex (matched_scope ms) [''29-1212.00'', ''29-1229.01'', ''29-1229.02'']
     \<or> code = u ''29-1221.00'' \<and> matched_scope ms ''29-1243.00''
     \<or> code \<in> {u ''29-1241.00'', u ''29-1242.00''} \<and> found T True pediatric_words part"

definition add_quote ::
    "char_table \<Rightarrow> ustr \<Rightarrow> ustr \<Rightarrow> (ustr \<times> (nat \<times> nat) list) list \<Rightarrow> ustr \<Rightarrow> physician_evidence
     \<Rightarrow> nat \<times> nat \<Rightarrow> physician_evidence" where
  "add_quote T field part ms code e m =
     (if scope_suppressed T part ms code m then e
      else let quote = \<lparr>pq_code = code, pq_field = field, pq_text = matched_text part m\<rparr> in
        e\<lparr>pe_eligible := List.insert code (pe_eligible e),
          pe_quotes := pe_quotes e @ (if quote \<in> set (pe_quotes e) then [] else [quote])\<rparr>)"

text \<open>Whether the part speaks of the vacancy's own role.\<close>

definition role_context :: "char_table \<Rightarrow> ustr \<Rightarrow> bool \<Rightarrow> bool \<Rightarrow> ustr \<Rightarrow> bool" where
  "role_context T field whole scoped part \<longleftrightarrow>
     found T True physician_role part \<or> whole
     \<or> scoped \<and> field \<in> {u ''role'', u ''job_position_raw'', u ''positions'', u ''duties_text''}
     \<or> scoped \<and> field = u ''title'' \<and> found T True medical_role_recruitment part
     \<or> scoped \<and> field = u ''description_text'' \<and> found T False practice_words part"

definition read_part ::
    "char_table \<Rightarrow> ustr \<Rightarrow> bool \<Rightarrow> physician_evidence \<Rightarrow> ustr \<Rightarrow> physician_evidence" where
  "read_part T field whole e part =
     (if part_skipped T part \<or> found T True nonphysician_role part then e
      else
        let e' = e\<lparr>pe_physician := pe_physician e
              \<or> field \<noteq> u ''description_text'' \<and> found T True physician_role part\<rparr>;
            ms = scope_matches T part;
            scoped = list_ex (\<lambda>(_, found_spans). found_spans \<noteq> []) ms
        in if \<not> role_context T field whole scoped part then e'
           else foldl (\<lambda>a (code, found_spans). foldl (add_quote T field part ms code) a found_spans) e' ms)"

definition read_leaf :: "char_table \<Rightarrow> ustr \<Rightarrow> physician_evidence \<Rightarrow> ustr \<Rightarrow> physician_evidence" where
  "read_leaf T field e leaf =
     foldl (read_part T field (found T True physician_role leaf))
       (e\<lparr>pe_other := pe_other e \<or> field \<noteq> u ''description_text''
            \<and> found T True (Alt nonphysician_role other_medical_profession) leaf\<rparr>)
       (pat_split T True role_split leaf)"

definition read_fields :: "char_table \<Rightarrow> source_fields \<Rightarrow> physician_evidence" where
  "read_fields T fs =
     foldl (\<lambda>e field. foldl (read_leaf T field) e (leaves_of fs field)) nothing_found physician_fields"

record physician_policy =
  pp_version :: ustr
  pp_sha256 :: ustr
  pp_role_present :: bool
  pp_only :: bool
  pp_eligible :: "ustr list"
  pp_evidence :: "physician_quote list"
  pp_reason :: ustr

definition physician_version :: ustr where
  "physician_version = u ''onet-physician-evidence-eligibility-v1''"

definition physician_eligibility :: "onet_env \<Rightarrow> source_fields \<Rightarrow> physician_policy" where
  "physician_eligibility E fs =
     (let e = read_fields (on_chars E) fs in
      \<lparr>pp_version = physician_version, pp_sha256 = on_physician_hash E,
       pp_role_present = pe_physician e, pp_only = pe_physician e \<and> \<not> pe_other e,
       pp_eligible = sorted_set (pe_eligible e), pp_evidence = pe_quotes e,
       pp_reason = (if pe_eligible e \<noteq> [] then u ''SUPPORTED_PHYSICIAN_SCOPE''
         else if pe_physician e then u ''UNSPECIFIED_OR_UNAVAILABLE_PHYSICIAN_SCOPE''
         else u ''NO_SUPPORTED_PHYSICIAN_ROLE'')\<rparr>)"

section \<open>Admission\<close>

datatype admission_outcome = Include | Exclude

record admission =
  ad_outcome :: admission_outcome
  ad_version :: ustr
  ad_sha256 :: ustr
  ad_reason_code :: ustr
  ad_reason :: ustr
  ad_evidence :: "(ustr \<times> ustr) list"

definition admission_version :: ustr where
  "admission_version = u ''onet-title-training-admission-v1''"

definition admission_base :: "onet_env \<Rightarrow> admission" where
  "admission_base E =
     \<lparr>ad_outcome = Include, ad_version = admission_version, ad_sha256 = on_admission_hash E,
      ad_reason_code = u ''ELIGIBLE_METADATA'',
      ad_reason = u ''No unambiguous training-enrollment exclusion applies.'', ad_evidence = []\<rparr>"

definition admission_values :: "source_fields \<Rightarrow> (ustr \<times> ustr) list" where
  "admission_values fs = concat (map (\<lambda>field. map (Pair field) (leaves_of fs field)) admission_fields)"

text \<open>A teaching vacancy that is not itself about trainees.\<close>

definition teaching_role :: "char_table \<Rightarrow> ustr \<Rightarrow> bool" where
  "teaching_role T s \<longleftrightarrow>
     list_ex (\<lambda>m. \<not> found T False enrollment_in_vacancy (matched_text s m)) (pat_spans T True teaching_vacancy s)"

text \<open>The first pattern of the first value that has one, with what it matched.\<close>

definition training_quote :: "char_table \<Rightarrow> (ustr \<times> ustr) list \<Rightarrow> (ustr \<times> ustr) option" where
  "training_quote T values =
     (case concat (map (\<lambda>(field, s). concat (map (\<lambda>p.
             case pat_search T True p s of None \<Rightarrow> [] | Some m \<Rightarrow> [(field, matched_text s m)])
           training_patterns)) values) of
        [] \<Rightarrow> None | q # _ \<Rightarrow> Some q)"

definition vacancy_quote :: "char_table \<Rightarrow> (ustr \<times> ustr) list \<Rightarrow> (ustr \<times> ustr) option" where
  "vacancy_quote T values =
     (case concat (map (\<lambda>(field, s).
             case pat_search T False occupation_vacancy s of None \<Rightarrow> [] | Some m \<Rightarrow> [(field, matched_text s m)])
           values) of
        [] \<Rightarrow> None | q # _ \<Rightarrow> Some q)"

definition admission_decision :: "onet_env \<Rightarrow> source_fields \<Rightarrow> admission" where
  "admission_decision E fs =
     (let T = on_chars E; values = admission_values fs; base = admission_base E in
      if list_ex (\<lambda>(_, s). teaching_role T s) values then base
      else (case training_quote T values of
        None \<Rightarrow> base
      | Some q \<Rightarrow>
          (case vacancy_quote T values of
             Some v \<Rightarrow> base\<lparr>ad_reason_code := u ''AMBIGUOUS_TRAINING_AND_VACANCY'',
               ad_reason := u ''Original fields contain both enrollment and explicit '' @
                 u ''occupation recruitment; retain for individual review.'',
               ad_evidence := [q, v]\<rparr>
           | None \<Rightarrow> base\<lparr>ad_outcome := Exclude, ad_reason_code := u ''EXPLICIT_TRAINING_ENROLLMENT'',
               ad_reason := u ''Original role/title explicitly advertises training or '' @
                 u ''enrollment, rather than an occupation vacancy.'',
               ad_evidence := [q]\<rparr>)))"

section \<open>Words\<close>

definition normalized_form :: "onet_env \<Rightarrow> ustr \<Rightarrow> ustr" where
  "normalized_form E s = on_casefold E (on_nfkc E s)"

definition stem :: "ustr \<Rightarrow> ustr" where
  "stem w =
     (if 5 < length w \<and> ends_with (u ''ies'') w then take (length w - 3) w @ u ''y''
      else if 4 < length w \<and> ends_with (u ''s'') w
        \<and> \<not> list_ex (\<lambda>e. ends_with (u e) w) [''ss'', ''us'', ''is'']
      then take (length w - 1) w else w)"

definition ascii_small :: "nat \<Rightarrow> bool" where
  "ascii_small c \<longleftrightarrow> 97 \<le> c \<and> c \<le> 122"

definition ascii_small_digit :: "nat \<Rightarrow> bool" where
  "ascii_small_digit c \<longleftrightarrow> ascii_small c \<or> 48 \<le> c \<and> c \<le> 57"

text \<open>\<open>re.findall("[a-z][a-z0-9]*", s)\<close>.\<close>

function word_runs :: "ustr \<Rightarrow> ustr list" where
  "word_runs [] = []"
| "word_runs (c # s) =
     (if ascii_small c then (c # takeWhile ascii_small_digit s) # word_runs (dropWhile ascii_small_digit s)
      else word_runs s)"
  by pat_completeness auto

termination
  by (relation "measure length") (auto simp: le_imp_less_Suc length_dropWhile_le)

definition word_tokens :: "onet_env \<Rightarrow> ustr \<Rightarrow> ustr list" where
  "word_tokens E s = map stem (filter (\<lambda>w. w \<notin> set stop_words) (word_runs (normalized_form E s)))"

definition is_hangul :: "nat \<Rightarrow> bool" where
  "is_hangul c \<longleftrightarrow> 44032 \<le> c \<and> c \<le> 55203"

text \<open>\<open>s.split()\<close>: the runs of characters that are not blank.\<close>

function blank_split :: "ustr \<Rightarrow> ustr list" where
  "blank_split [] = []"
| "blank_split (c # s) =
     (if is_space c then blank_split s
      else (c # takeWhile (\<lambda>x. \<not> is_space x) s) # blank_split (dropWhile (\<lambda>x. \<not> is_space x) s))"
  by pat_completeness auto

termination
  by (relation "measure length") (auto simp: le_imp_less_Suc length_dropWhile_le)

definition small_digits :: "nat list" where
  "small_digits = [97..<123] @ [48..<58]"

fun spaced_parts :: "ustr list \<Rightarrow> pat" where
  "spaced_parts [] = Lit []"
| "spaced_parts [p] = Lit p"
| "spaced_parts (p # ps) = Seq (Lit p) (Seq (Star Space) (spaced_parts ps))"

definition alias_pattern :: "onet_env \<Rightarrow> ustr \<Rightarrow> pat" where
  "alias_pattern E alias =
     (let a = normalized_form E alias in
      if list_ex is_hangul a then spaced_parts (blank_split a)
      else seqs [Not_behind 1 (One_of small_digits), Lit a, Not_ahead (One_of small_digits)])"

end
