(* ===== verification/Shortlist.thy ===== *)
theory Shortlist
  imports Retrieval
begin

text \<open>
  The catalogue index and the shortlist of \<open>hop/llm/onet/retrieval.py\<close>. The maps of Python are association
  lists in insertion order.
\<close>

section \<open>The catalogue\<close>

datatype onet_error = Onet_value_error ustr | Onet_type_error

record onet_term =
  ot_code :: ustr
  ot_term_id :: ustr
  ot_label :: ustr
  ot_description :: ustr

text \<open>\<open>\d{2}-\d{4}\.\d{2}\<close>.\<close>

definition onet_code :: "ustr \<Rightarrow> bool" where
  "onet_code s \<longleftrightarrow> length s = 10 \<and> decimals 2 (take 2 s) \<and> s ! 2 = 45 \<and> decimals 4 (slice 3 7 s)
     \<and> s ! 7 = 46 \<and> decimals 2 (drop 8 s)"

definition term_prefix :: ustr where
  "term_prefix = u ''urn:jobtology:onet:occupation:''"

text \<open>The occupations so far, and the codes of the residual ones.\<close>

type_synonym catalogue_state = "onet_term list \<times> ustr list"

definition read_term :: "onet_env \<Rightarrow> catalogue_state \<Rightarrow> json \<Rightarrow> onet_error + catalogue_state" where
  "read_term E st v =
     (case (st, v) of
        ((terms, residual), JObj t) \<Rightarrow>
          if jget t (u ''term_kind'') \<noteq> JStr (u ''OCCUPATION'') then Inr st
          else (case jget t (u ''code'') of
            JStr code \<Rightarrow>
              if \<not> onet_code code
              then Inl (Onet_value_error (u ''occupation must have a dotted O*NET code''))
              else if jget t (u ''term_id'') \<noteq> JStr (term_prefix @ code)
              then Inl (Onet_value_error (u ''occupation term_id/code disagreement''))
              else if code \<in> ot_code ` set terms \<or> code \<in> set residual
              then Inl (Onet_value_error (u ''duplicate O*NET occupation code''))
              else (case (jget t (u ''preferred_label''), jget t (u ''description'')) of
                (JStr label, JStr description) \<Rightarrow>
                  if label = []
                  then Inl (Onet_value_error (u ''occupation requires its official label and description''))
                  else if contains (u ''all other'') (on_casefold E label)
                  then Inr (terms, residual @ [code])
                  else Inr (terms @ [\<lparr>ot_code = code, ot_term_id = term_prefix @ code, ot_label = label,
                              ot_description = description\<rparr>], residual)
              | _ \<Rightarrow> Inl (Onet_value_error (u ''occupation requires its official label and description'')))
          | _ \<Rightarrow> Inl (Onet_value_error (u ''occupation must have a dotted O*NET code'')))
      | _ \<Rightarrow> Inl Onet_type_error)"

text \<open>A rule: the patterns of its aliases, its English query, and the codes that the catalogue has.\<close>

record hint_rule =
  hr_patterns :: "pat list"
  hr_english :: ustr
  hr_seeds :: "ustr list"

definition hint_rule_of :: "onet_env \<Rightarrow> ustr list \<Rightarrow> hint_row \<Rightarrow> hint_rule" where
  "hint_rule_of E codes row =
     (case row of (aliases, english, seeds) \<Rightarrow>
        \<lparr>hr_patterns = map (alias_pattern E) (split_on 124 aliases), hr_english = english,
         hr_seeds = filter (\<lambda>c. c \<in> set codes) (blank_split seeds)\<rparr>)"

text \<open>\<open>Counter\<close>.\<close>

definition counter_of :: "ustr list \<Rightarrow> (ustr \<times> nat) list" where
  "counter_of ws = map (\<lambda>w. (w, count_list ws w)) (fromkeys ws)"

record onet_index =
  ix_hash :: ustr
  ix_release :: ustr
  ix_terms :: "onet_term list"
  ix_residual :: "ustr list"
  ix_documents :: "(ustr \<times> (ustr \<times> nat) list) list"
  ix_rules :: "hint_rule list"

definition document_words :: "onet_env \<Rightarrow> onet_term \<Rightarrow> ustr list" where
  "document_words E t =
     concat (replicate 4 (word_tokens E (ot_label t))) @ word_tokens E (ot_description t)"

definition catalogue_index :: "onet_env \<Rightarrow> (ustr \<times> json) list \<Rightarrow> onet_error + onet_index" where
  "catalogue_index E catalogue =
     (if jget catalogue (u ''scheme_id'') \<noteq> JStr (u ''ONET'')
      then Inl (Onet_value_error (u ''candidate retrieval requires the ONET scheme''))
      else (case jget catalogue (u ''terms'') of
        JArr vs \<Rightarrow>
          rbind (rfold (read_term E) ([], []) vs) (\<lambda>(terms, residual).
            if terms = [] then Inl (Onet_value_error (u ''O*NET catalogue has no occupations''))
            else Inr \<lparr>ix_hash = on_hash E (JObj catalogue),
              ix_release = (case map_of catalogue (u ''release_id'') of None \<Rightarrow> [] | Some v \<Rightarrow> on_str E v),
              ix_terms = terms, ix_residual = residual,
              ix_documents = map (\<lambda>t. (ot_code t, counter_of (document_words E t))) terms,
              ix_rules = map (hint_rule_of E (map ot_code terms)) hint_rows\<rparr>)
      | _ \<Rightarrow> Inl (Onet_value_error (u ''O*NET catalogue terms must be an array''))))"

text \<open>The postings of a word, in the order of the catalogue; the lengths of the documents.\<close>

definition word_postings :: "onet_index \<Rightarrow> ustr \<Rightarrow> (ustr \<times> nat) list" where
  "word_postings ix w =
     concat (map (\<lambda>(code, ws). case map_of ws w of None \<Rightarrow> [] | Some n \<Rightarrow> [(code, n)]) (ix_documents ix))"

definition document_length :: "(ustr \<times> nat) list \<Rightarrow> nat" where
  "document_length ws = sum_list (map snd ws)"

definition average_length :: "onet_index \<Rightarrow> rat" where
  "average_length ix =
     of_nat (sum_list (map (\<lambda>(_, ws). document_length ws) (ix_documents ix))) / of_nat (length (ix_terms ix))"

definition relative_length :: "onet_index \<Rightarrow> ustr \<Rightarrow> rat" where
  "relative_length ix code =
     of_nat (case map_of (ix_documents ix) code of None \<Rightarrow> 0 | Some ws \<Rightarrow> document_length ws) / average_length ix"

section \<open>The query\<close>

text \<open>The texts that count: a text that was seen with at least this weight is left out.\<close>

definition field_weight :: "ustr \<Rightarrow> rat" where
  "field_weight field = (case map_of field_weights field of None \<Rightarrow> 0 | Some w \<Rightarrow> w)"

type_synonym query_input = "ustr \<times> ustr \<times> rat"

definition add_input ::
    "onet_env \<Rightarrow> ustr \<Rightarrow> (ustr \<times> rat) list \<times> query_input list \<Rightarrow> ustr \<Rightarrow> (ustr \<times> rat) list \<times> query_input list" where
  "add_input E field st original =
     (case st of (seen, inputs) \<Rightarrow>
        let text = normalized_form E original; w = field_weight field in
        if (case map_of seen text of None \<Rightarrow> False | Some before \<Rightarrow> w \<le> before) then st
        else (AList.update text w seen, inputs @ [(field, text, w)]))"

definition query_inputs :: "onet_env \<Rightarrow> source_fields \<Rightarrow> query_input list" where
  "query_inputs E fs =
     snd (foldl (\<lambda>st field. foldl (add_input E field) st (leaves_of fs field)) ([], []) onet_source_fields)"

text \<open>\<open>query[token] = max(query[token], weight)\<close> for a default of 0.\<close>

definition raise_weight :: "rat \<Rightarrow> (ustr \<times> rat) list \<Rightarrow> ustr \<Rightarrow> (ustr \<times> rat) list" where
  "raise_weight w q token =
     AList.update token (max (case map_of q token of None \<Rightarrow> 0 | Some x \<Rightarrow> x) w) q"

text \<open>\<open>for token in set(...)\<close>.\<close>

definition raise_all :: "onet_env \<Rightarrow> rat \<Rightarrow> ustr list \<Rightarrow> (ustr \<times> rat) list \<Rightarrow> (ustr \<times> rat) list" where
  "raise_all E w tokens q = foldl (raise_weight w) q (on_set_order E (remdups tokens))"

record hint_use =
  hu_field :: ustr
  hu_alias :: ustr
  hu_english :: ustr

record query_state =
  qs_query :: "(ustr \<times> rat) list"
  qs_bonus :: "(ustr \<times> rat) list"
  qs_hints :: "(ustr \<times> hint_use list) list"

definition empty_query :: query_state where
  "empty_query = \<lparr>qs_query = [], qs_bonus = [], qs_hints = []\<rparr>"

definition span_length :: "nat \<times> nat \<Rightarrow> nat" where
  "span_length m = snd m - fst m"

text \<open>\<open>max(found, key=...)\<close>: the first of the longest.\<close>

fun longest_span :: "(nat \<times> nat) list \<Rightarrow> (nat \<times> nat) option" where
  "longest_span [] = None"
| "longest_span (m # ms) = Some (foldl (\<lambda>a b. if span_length a < span_length b then b else a) m ms)"

text \<open>The occurrences of the rules in a text, without those inside a longer one.\<close>

definition rule_occurrences :: "onet_env \<Rightarrow> onet_index \<Rightarrow> ustr \<Rightarrow> ((nat \<times> nat) \<times> hint_rule) list" where
  "rule_occurrences E ix text =
     concat (map (\<lambda>rule.
       case longest_span (concat (map (\<lambda>p. case pat_search (on_chars E) False p text of
                 None \<Rightarrow> [] | Some m \<Rightarrow> [m]) (hr_patterns rule))) of
         None \<Rightarrow> [] | Some m \<Rightarrow> [(m, rule)]) (ix_rules ix))"

definition within_longer :: "nat \<times> nat \<Rightarrow> nat \<times> nat \<Rightarrow> bool" where
  "within_longer m longer \<longleftrightarrow>
     fst longer \<le> fst m \<and> snd m \<le> snd longer \<and> span_length m < span_length longer"

definition add_seed :: "ustr \<Rightarrow> rat \<Rightarrow> hint_use \<Rightarrow> query_state \<Rightarrow> ustr \<Rightarrow> query_state" where
  "add_seed field w hint s code =
     (let before = (case map_of (qs_bonus s) code of None \<Rightarrow> 0 | Some x \<Rightarrow> x);
          hints = (case map_of (qs_hints s) code of None \<Rightarrow> [] | Some hs \<Rightarrow> hs)
      in s\<lparr>qs_bonus := AList.update code (before + 14 * w) (qs_bonus s),
           qs_hints := AList.update code (if hint \<in> set hints then hints else hints @ [hint]) (qs_hints s)\<rparr>)"

definition add_hint_occurrence ::
    "onet_env \<Rightarrow> query_input \<Rightarrow> ((nat \<times> nat) \<times> hint_rule) list \<Rightarrow> query_state
     \<Rightarrow> (nat \<times> nat) \<times> hint_rule \<Rightarrow> query_state" where
  "add_hint_occurrence E i all s occurrence =
     (case (i, occurrence) of ((field, text, w), (m, rule)) \<Rightarrow>
        if list_ex (\<lambda>(longer, _). within_longer m longer) all then s
        else foldl (add_seed field w \<lparr>hu_field = field, hu_alias = matched_text text m, hu_english = hr_english rule\<rparr>)
               (s\<lparr>qs_query := raise_all E (w * (4 / 5)) (word_tokens E (hr_english rule)) (qs_query s)\<rparr>)
               (hr_seeds rule))"

definition read_input :: "onet_env \<Rightarrow> onet_index \<Rightarrow> query_state \<Rightarrow> query_input \<Rightarrow> query_state" where
  "read_input E ix s i =
     (case i of (field, text, w) \<Rightarrow>
        let all = rule_occurrences E ix text in
        foldl (add_hint_occurrence E i all)
          (s\<lparr>qs_query := raise_all E w (word_tokens E text) (qs_query s)\<rparr>) all)"

definition read_query :: "onet_env \<Rightarrow> onet_index \<Rightarrow> source_fields \<Rightarrow> query_state" where
  "read_query E ix fs = foldl (read_input E ix) empty_query (query_inputs E fs)"

section \<open>Scores\<close>

definition inverse_frequency :: "onet_env \<Rightarrow> onet_index \<Rightarrow> nat \<Rightarrow> rat" where
  "inverse_frequency E ix n =
     on_log E (1 + (of_nat (length (ix_terms ix)) - of_nat n + 1 / 2) / (of_nat n + 1 / 2))"

definition bm25 :: "onet_env \<Rightarrow> onet_index \<Rightarrow> nat \<Rightarrow> ustr \<Rightarrow> nat \<Rightarrow> rat" where
  "bm25 E ix n code tf =
     inverse_frequency E ix n * of_nat tf * (11 / 5)
       / (of_nat tf + 6 / 5 * (1 / 4 + 3 / 4 * relative_length ix code))"

definition add_score :: "(ustr \<times> rat) list \<Rightarrow> ustr \<times> rat \<Rightarrow> (ustr \<times> rat) list" where
  "add_score scores p =
     AList.update (fst p) ((case map_of scores (fst p) of None \<Rightarrow> 0 | Some x \<Rightarrow> x) + snd p) scores"

definition token_scores :: "onet_env \<Rightarrow> onet_index \<Rightarrow> ustr \<times> rat \<Rightarrow> (ustr \<times> rat) list" where
  "token_scores E ix q =
     (let posting = word_postings ix (fst q) in
      map (\<lambda>(code, tf). (code, bm25 E ix (length posting) code tf * snd q)) posting)"

definition score_table :: "onet_env \<Rightarrow> onet_index \<Rightarrow> query_state \<Rightarrow> (ustr \<times> rat) list" where
  "score_table E ix s = foldl add_score (qs_bonus s) (concat (map (token_scores E ix) (qs_query s)))"

definition score_of :: "(ustr \<times> rat) list \<Rightarrow> ustr \<Rightarrow> rat" where
  "score_of scores code = (case map_of scores code of None \<Rightarrow> 0 | Some x \<Rightarrow> x)"

section \<open>The shortlist\<close>

record onet_candidate =
  oc_term :: onet_term
  oc_rank :: nat
  oc_score :: ustr
  oc_hints :: "hint_use list"

definition offered_to :: "physician_policy \<Rightarrow> ustr \<Rightarrow> bool" where
  "offered_to p code \<longleftrightarrow> code \<in> set (pp_eligible p) \<or> \<not> pp_only p \<and> code \<notin> set physician_codes"

definition term_of :: "onet_index \<Rightarrow> ustr \<Rightarrow> onet_term option" where
  "term_of ix code = find (\<lambda>t. ot_code t = code) (ix_terms ix)"

text \<open>Every scored code is one of the catalogue; a missing one would be a \<open>KeyError\<close>.\<close>

definition candidate_of ::
    "onet_env \<Rightarrow> onet_index \<Rightarrow> query_state \<Rightarrow> (ustr \<times> rat) list \<Rightarrow> nat \<times> ustr \<Rightarrow> onet_error + onet_candidate" where
  "candidate_of E ix s scores p =
     (case p of (rank, code) \<Rightarrow>
        (case term_of ix code of
           None \<Rightarrow> Inl Onet_type_error
         | Some t \<Rightarrow> Inr \<lparr>oc_term = t, oc_rank = rank, oc_score = on_round E (score_of scores code),
             oc_hints = (case map_of (qs_hints s) code of None \<Rightarrow> [] | Some hs \<Rightarrow> hs)\<rparr>))"

definition ranked_codes :: "physician_policy \<Rightarrow> (ustr \<times> rat) list \<Rightarrow> nat \<Rightarrow> ustr list" where
  "ranked_codes p scores n =
     take n (filter (offered_to p)
       (sort_key (\<lambda>code. (- score_of scores code, code)) (map fst scores)))"

definition shortlist :: "onet_env \<Rightarrow> onet_index \<Rightarrow> source_fields \<Rightarrow> json \<Rightarrow> onet_error + onet_candidate list" where
  "shortlist E ix fs limit =
     (case limit of
        JInt n \<Rightarrow>
          if \<not> (1 \<le> n \<and> n \<le> 40)
          then Inl (Onet_value_error (u ''candidate limit must be an integer between 1 and 40''))
          else if ad_outcome (admission_decision E fs) = Exclude then Inr []
          else
            let s = read_query E ix fs; scores = score_table E ix s; p = physician_eligibility E fs in
            if pp_only p \<and> pp_eligible p = [] then Inr []
            else rmap (candidate_of E ix s scores) (enumerate 1 (ranked_codes p scores (nat n)))
      | _ \<Rightarrow> Inl (Onet_value_error (u ''candidate limit must be an integer between 1 and 40'')))"

end
