(* ===== verification/RetrievalFacts.thy ===== *)
theory RetrievalFacts
  imports Shortlist
begin

text \<open>
  What the retrieval promises: quotations stand in the original texts, and the shortlist is the top of the
  scored occupations that the policies leave, whatever the order in which sets are walked.
\<close>

section \<open>Examples\<close>

text \<open>Case folding of ASCII, and words of letters, digits and all that is not ASCII.\<close>

definition example_chars :: char_table where
  "example_chars =
     \<lparr>ct_fold = (\<lambda>c. if 65 \<le> c \<and> c \<le> 90 then c + 32 else c),
      ct_word = (\<lambda>c. c = 95 \<or> 48 \<le> c \<and> c \<le> 57 \<or> 65 \<le> c \<and> c \<le> 90 \<or> 97 \<le> c \<and> c \<le> 122 \<or> 128 \<le> c)\<rparr>"

definition example_onet :: onet_env where
  "example_onet =
     \<lparr>on_chars = example_chars, on_nfkc = id, on_casefold = ascii_lower, on_log = id, on_round = (\<lambda>_. []),
      on_set_order = id, on_hash = (\<lambda>_. []), on_str = (\<lambda>_. []), on_dumps = (\<lambda>_. []),
      on_admission_hash = replicate 64 97, on_physician_hash = replicate 64 98, on_hint_hash = replicate 64 99\<rparr>"

lemma foldl_keeps:
  "I s \<Longrightarrow> (\<And>a x. x \<in> set xs \<Longrightarrow> I a \<Longrightarrow> I (f a x)) \<Longrightarrow> I (foldl f s xs)"
  by (induction xs arbitrary: s) auto

section \<open>Quotations\<close>

definition quoted_in :: "source_fields \<Rightarrow> ustr \<Rightarrow> ustr \<Rightarrow> bool" where
  "quoted_in fs field quote \<longleftrightarrow> (\<exists>leaf \<in> set (leaves_of fs field). occurs_in quote leaf)"

definition quotes_grounded :: "source_fields \<Rightarrow> physician_evidence \<Rightarrow> bool" where
  "quotes_grounded fs e \<longleftrightarrow>
     (\<forall>q \<in> set (pe_quotes e). quoted_in fs (pq_field q) (pq_text q) \<and> pq_field q \<in> set physician_fields)
     \<and> set (pe_eligible e) = pq_code ` set (pe_quotes e) \<and> set (pe_eligible e) \<subseteq> set physician_codes"

lemma add_quote_grounded:
  assumes "quotes_grounded fs e" and "quoted_in fs field (matched_text part m)"
    and "field \<in> set physician_fields" and "code \<in> set physician_codes"
  shows "quotes_grounded fs (add_quote T field part ms code e m)"
proof -
  have "code \<in> pq_code ` Q" if "\<lparr>pq_code = code, pq_field = field, pq_text = matched_text part m\<rparr> \<in> Q" for Q
    using imageI [OF that, of pq_code] by simp
  then show ?thesis using assms by (auto simp: add_quote_def quotes_grounded_def Let_def)
qed

lemma scope_matches_code: "(code, spans) \<in> set (scope_matches T part) \<Longrightarrow> code \<in> set physician_codes"
  by (force simp: scope_matches_def physician_codes_def)

lemma grounded_flags [simp]:
  "quotes_grounded fs (e\<lparr>pe_physician := b\<rparr>) = quotes_grounded fs e"
  "quotes_grounded fs (e\<lparr>pe_other := b\<rparr>) = quotes_grounded fs e"
  by (simp_all add: quotes_grounded_def)

lemma read_part_grounded:
  assumes "quotes_grounded fs e" and "leaf \<in> set (leaves_of fs field)" and "occurs_in part leaf"
    and field: "field \<in> set physician_fields"
  shows "quotes_grounded fs (read_part T field whole e part)"
proof -
  have quoted: "quoted_in fs field (matched_text part m)" for m
    using assms(2,3) occurs_in_match occurs_in_trans unfolding quoted_in_def by blast
  have inner: "quotes_grounded fs (foldl (add_quote T field part ms code) a spans)"
    if "quotes_grounded fs a" "code \<in> set physician_codes" for a ms code spans
    using that(1) by (rule foldl_keeps) (rule add_quote_grounded [OF _ quoted field that(2)])
  have "quotes_grounded fs (foldl (\<lambda>a (code, spans). foldl (add_quote T field part ms code) a spans) e'
      (scope_matches T part))" if "quotes_grounded fs e'" for e' ms
    using that
  proof (rule foldl_keeps)
    fix a x assume x: "x \<in> set (scope_matches T part)" and a: "quotes_grounded fs a"
    obtain code spans where "x = (code, spans)" by (rule prod.exhaust)
    then show "quotes_grounded fs (case x of (code, spans) \<Rightarrow> foldl (add_quote T field part ms code) a spans)"
      using inner [OF a] scope_matches_code x by simp
  qed
  then show ?thesis using assms(1) by (simp add: read_part_def Let_def)
qed

lemma read_leaf_grounded:
  assumes "quotes_grounded fs e" and "leaf \<in> set (leaves_of fs field)" and "field \<in> set physician_fields"
  shows "quotes_grounded fs (read_leaf T field e leaf)"
  unfolding read_leaf_def
  by (rule foldl_keeps) (use assms occurs_in_split read_part_grounded in \<open>simp, blast\<close>)

lemma read_fields_grounded: "quotes_grounded fs (read_fields T fs)"
  unfolding read_fields_def
proof (rule foldl_keeps)
  show "quotes_grounded fs nothing_found" by (simp add: quotes_grounded_def nothing_found_def)
  show "quotes_grounded fs (foldl (read_leaf T field) e (leaves_of fs field))"
    if "field \<in> set physician_fields" "quotes_grounded fs e" for e field
    using that(2) by (rule foldl_keeps) (rule read_leaf_grounded [OF _ _ that(1)])
qed

lemma hd_case: "(case xs of [] \<Rightarrow> None | q # _ \<Rightarrow> Some q) = Some x \<Longrightarrow> x \<in> set xs"
  by (cases xs) auto

lemma admission_values_quoted:
  "(field, s) \<in> set (admission_values fs) \<Longrightarrow> occurs_in q s \<Longrightarrow> quoted_in fs field q"
  by (auto simp: admission_values_def quoted_in_def)

lemma training_quote_in: "training_quote T values = Some (field, q) \<Longrightarrow>
    \<exists>s. (field, s) \<in> set values \<and> occurs_in q s"
proof -
  assume "training_quote T values = Some (field, q)"
  then have "(field, q) \<in> set (concat (map (\<lambda>(field, s). concat (map (\<lambda>p.
      case pat_search T True p s of None \<Rightarrow> [] | Some m \<Rightarrow> [(field, matched_text s m)]) training_patterns)) values))"
    unfolding training_quote_def by (rule hd_case)
  then show ?thesis using occurs_in_match by (fastforce split: option.splits)
qed

lemma vacancy_quote_in: "vacancy_quote T values = Some (field, q) \<Longrightarrow>
    \<exists>s. (field, s) \<in> set values \<and> occurs_in q s"
proof -
  assume "vacancy_quote T values = Some (field, q)"
  then have "(field, q) \<in> set (concat (map (\<lambda>(field, s).
      case pat_search T False occupation_vacancy s of None \<Rightarrow> [] | Some m \<Rightarrow> [(field, matched_text s m)]) values))"
    unfolding vacancy_quote_def by (rule hd_case)
  then show ?thesis using occurs_in_match by (fastforce split: option.splits)
qed

text \<open>
  C19: Decisions rest on quotations. Every quotation that the admission or the physician policy gives
  stands as it is in an original text of the field it names; a posting is excluded only with one; and the
  physician occupations a posting may be offered are exactly those that a quotation is given for.
\<close>

theorem policies_quote_sources:
  "(\<forall>(field, quote) \<in> set (ad_evidence (admission_decision E fs)). quoted_in fs field quote)
   \<and> (ad_outcome (admission_decision E fs) = Exclude \<longrightarrow> ad_evidence (admission_decision E fs) \<noteq> [])
   \<and> (\<forall>q \<in> set (pp_evidence (physician_eligibility E fs)). quoted_in fs (pq_field q) (pq_text q))
   \<and> set (pp_eligible (physician_eligibility E fs)) = pq_code ` set (pp_evidence (physician_eligibility E fs))
   \<and> set (pp_eligible (physician_eligibility E fs)) \<subseteq> set physician_codes"
proof -
  have q: "quoted_in fs field q" if "training_quote T (admission_values fs) = Some (field, q)
      \<or> vacancy_quote T (admission_values fs) = Some (field, q)" for T field q
    using that training_quote_in vacancy_quote_in admission_values_quoted by metis
  have "ad_evidence (admission_decision E fs) \<in> {[]} \<union> {[a, b] | a b.
      training_quote (on_chars E) (admission_values fs) = Some a \<and> vacancy_quote (on_chars E) (admission_values fs) = Some b}
      \<union> {[a] | a. training_quote (on_chars E) (admission_values fs) = Some a}"
    by (auto simp: admission_decision_def admission_base_def Let_def split: option.splits)
  then have "\<forall>(field, quote) \<in> set (ad_evidence (admission_decision E fs)). quoted_in fs field quote"
    using q [of "on_chars E"] by auto
  moreover have "ad_outcome (admission_decision E fs) = Exclude \<longrightarrow> ad_evidence (admission_decision E fs) \<noteq> []"
    by (auto simp: admission_decision_def admission_base_def Let_def split: option.splits)
  ultimately show ?thesis
    using read_fields_grounded [of fs "on_chars E"]
    by (auto simp: physician_eligibility_def quotes_grounded_def Let_def)
qed

text \<open>A course for developers, and a specialist in gastroenterology who is recruited.\<close>

definition example_course :: source_fields where
  "example_course = [(u ''title'', JStr ([51088, 48148, 32, 44060, 48156, 51088, 32, 50577, 49457, 32,
     44284, 51221, 32, 49688, 44053, 49373, 32, 47784, 51665]))]"

definition example_specialist :: source_fields where
  "example_specialist = [(u ''title'', JStr ([49548, 54868, 44592, 45236, 44284, 32, 51204, 47928, 51032,
     32, 52488, 48729]))]"

lemma example_course_excluded: "ad_outcome (admission_decision example_onet example_course) = Exclude"
  by code_simp

lemma example_specialist_eligible:
  "pp_eligible (physician_eligibility example_onet example_specialist) = [u ''29-1216.00'']"
  by code_simp

theorem policies_quote_sources_witness:
  "ad_evidence (admission_decision example_onet example_course) \<noteq> []
   \<and> pq_code ` set (pp_evidence (physician_eligibility example_onet example_specialist)) = {u ''29-1216.00''}"
proof -
  note course = policies_quote_sources [of example_onet example_course, THEN conjunct2, THEN conjunct1]
  note specialist = policies_quote_sources [of example_onet example_specialist,
      THEN conjunct2, THEN conjunct2, THEN conjunct2, THEN conjunct1]
  from course specialist show ?thesis by (simp only: example_course_excluded example_specialist_eligible) simp
qed

end
