(* ===== verification/ShortlistFacts.thy ===== *)
theory ShortlistFacts
  imports RetrievalFacts "HOL-Library.Multiset"
begin

text \<open>
  The shortlist is the top of the scored occupations that the policies leave, and does not depend on the
  order in which Python walks over sets.
\<close>

section \<open>Maps and orders\<close>

lemma foldl_related:
  "R a b \<Longrightarrow> (\<And>a b x. x \<in> set xs \<Longrightarrow> R a b \<Longrightarrow> R (f a x) (g b x)) \<Longrightarrow> R (foldl f a xs) (foldl g b xs)"
  by (induction xs arbitrary: a b) auto

lemma sort_key_unique:
  assumes "mset xs = mset ys" and "inj f"
  shows "sort_key f xs = sort_key f ys"
proof -
  have "map f (sort_key f zs) = sort (map f zs)" for zs
    by (rule properties_for_sort [symmetric]) simp_all
  then have "map f (sort_key f xs) = map f (sort_key f ys)"
    using assms(1) by (metis mset_map properties_for_sort sorted_sort mset_sort)
  then show ?thesis using assms(2) by (simp add: inj_map_eq_map)
qed

text \<open>Two association lists with the same map and no duplicate keys.\<close>

definition same_map :: "('a \<times> 'b) list \<Rightarrow> ('a \<times> 'b) list \<Rightarrow> bool" where
  "same_map xs ys \<longleftrightarrow> map_of xs = map_of ys \<and> distinct (map fst xs) \<and> distinct (map fst ys)"

lemma same_map_mset: "same_map xs ys \<Longrightarrow> mset xs = mset ys"
  unfolding same_map_def
  by (metis map_of_inject_set set_eq_iff_mset_eq_distinct distinct_map)

lemma map_of_raise:
  "map_of (foldl (raise_weight w) q ts) k =
   (if k \<in> set ts then Some (max (case map_of q k of None \<Rightarrow> 0 | Some x \<Rightarrow> x) w) else map_of q k)"
  by (induction ts arbitrary: q) (auto simp: raise_weight_def update_conv' max_def split: option.splits)

lemma distinct_raise: "distinct (map fst q) \<Longrightarrow> distinct (map fst (foldl (raise_weight w) q ts))"
  by (induction ts arbitrary: q) (auto simp: raise_weight_def distinct_update)

text \<open>The order of a set: its elements, each once.\<close>

definition set_walk :: "(ustr list \<Rightarrow> ustr list) \<Rightarrow> bool" where
  "set_walk f \<longleftrightarrow> (\<forall>xs. mset (f xs) = mset xs)"

lemma set_walk_set: "set_walk f \<Longrightarrow> set (f xs) = set xs"
  by (metis set_walk_def set_mset_mset)

lemma raise_all_related:
  assumes "set_walk (on_set_order E)" "set_walk (on_set_order E')" and "same_map q q'"
  shows "same_map (raise_all E w ts q) (raise_all E' w ts q')"
  using assms(3) set_walk_set [OF assms(1)] set_walk_set [OF assms(2)]
  by (auto simp: same_map_def raise_all_def map_of_raise distinct_raise fun_eq_iff)

section \<open>The order of sets does not matter\<close>

lemma order_irrelevant [simp]:
  "normalized_form (E\<lparr>on_set_order := f\<rparr>) = normalized_form E"
  "word_tokens (E\<lparr>on_set_order := f\<rparr>) = word_tokens E"
  "query_inputs (E\<lparr>on_set_order := f\<rparr>) = query_inputs E"
  "rule_occurrences (E\<lparr>on_set_order := f\<rparr>) = rule_occurrences E"
  "token_scores (E\<lparr>on_set_order := f\<rparr>) = token_scores E"
  "physician_eligibility (E\<lparr>on_set_order := f\<rparr>) = physician_eligibility E"
  "admission_decision (E\<lparr>on_set_order := f\<rparr>) = admission_decision E"
proof -
  show 1: "normalized_form (E\<lparr>on_set_order := f\<rparr>) = normalized_form E"
    by (simp add: fun_eq_iff normalized_form_def)
  show "word_tokens (E\<lparr>on_set_order := f\<rparr>) = word_tokens E" by (simp add: fun_eq_iff word_tokens_def 1)
  have "add_input (E\<lparr>on_set_order := f\<rparr>) = add_input E" by (simp add: fun_eq_iff add_input_def 1)
  then show "query_inputs (E\<lparr>on_set_order := f\<rparr>) = query_inputs E" by (rule_tac ext) (simp only: query_inputs_def)
  show "rule_occurrences (E\<lparr>on_set_order := f\<rparr>) = rule_occurrences E"
    by (simp add: fun_eq_iff rule_occurrences_def)
  show "token_scores (E\<lparr>on_set_order := f\<rparr>) = token_scores E"
    by (simp add: fun_eq_iff token_scores_def bm25_def inverse_frequency_def)
  show "physician_eligibility (E\<lparr>on_set_order := f\<rparr>) = physician_eligibility E"
    by (simp add: fun_eq_iff physician_eligibility_def)
  show "admission_decision (E\<lparr>on_set_order := f\<rparr>) = admission_decision E"
    by (simp add: fun_eq_iff admission_decision_def admission_base_def)
qed

definition same_state :: "query_state \<Rightarrow> query_state \<Rightarrow> bool" where
  "same_state s s' \<longleftrightarrow> qs_bonus s = qs_bonus s' \<and> qs_hints s = qs_hints s' \<and> same_map (qs_query s) (qs_query s')"

lemma add_seeds_related:
  "same_state s s' \<Longrightarrow> same_state (foldl (add_seed field w hint) s seeds) (foldl (add_seed field w hint) s' seeds)"
  by (rule foldl_related) (auto simp: same_state_def add_seed_def Let_def)

lemma read_query_related:
  assumes "set_walk (on_set_order E)" and "set_walk f"
  shows "same_state (read_query E ix fs) (read_query (E\<lparr>on_set_order := f\<rparr>) ix fs)"
proof -
  let ?E = "E\<lparr>on_set_order := f\<rparr>"
  have raise: "same_state (s\<lparr>qs_query := raise_all E w ts (qs_query s)\<rparr>) (s'\<lparr>qs_query := raise_all ?E w ts (qs_query s')\<rparr>)"
    if "same_state s s'" for s s' w ts
    using that raise_all_related [of E ?E] assms by (simp add: same_state_def)
  have occurrence: "same_state (add_hint_occurrence E i all s x) (add_hint_occurrence ?E i all s' x)"
    if "same_state s s'" for s s' i all x
    using that raise [OF that] by (auto simp: add_hint_occurrence_def add_seeds_related split: prod.splits)
  have step: "same_state (read_input E ix s i) (read_input ?E ix s' i)" if "same_state s s'" for s s' i
  proof -
    obtain field t w where i: "i = (field, t, w)" by (cases i)
    define all where "all = rule_occurrences E ix t"
    have "same_state (foldl (add_hint_occurrence E i all) a all) (foldl (add_hint_occurrence ?E i all) b all)"
      if "same_state a b" for a b
      using that by (rule foldl_related) (rule occurrence)
    then show ?thesis using raise [OF that]
      by (simp only: i read_input_def prod.case Let_def order_irrelevant all_def)
  qed
  have "same_state empty_query empty_query" by (simp add: same_state_def empty_query_def same_map_def)
  then show ?thesis
    unfolding read_query_def order_irrelevant by (rule foldl_related) (rule step)
qed

lemma map_of_add_scores:
  "map_of (foldl add_score b ps) c =
   (if c \<in> fst ` set ps \<union> fst ` set b
    then Some (score_of b c + sum_list (map snd (filter (\<lambda>p. fst p = c) ps))) else None)"
proof (induction ps arbitrary: b)
  case Nil
  then show ?case by (auto simp: score_of_def map_of_eq_None_iff split: option.splits)
next
  case (Cons p ps)
  have keys: "fst ` set (add_score b p) = insert (fst p) (fst ` set b)"
    by (auto simp: add_score_def dom_map_of_conv_image_fst [symmetric] update_conv')
  have "score_of (add_score b p) c = score_of b c + (if fst p = c then snd p else 0)"
    by (auto simp: score_of_def add_score_def update_conv' split: option.splits)
  then show ?case using Cons [of "add_score b p"] by (auto simp: keys)
qed

lemma distinct_add_scores: "distinct (map fst b) \<Longrightarrow> distinct (map fst (foldl add_score b ps))"
  by (induction ps arbitrary: b) (auto simp: add_score_def distinct_update)

lemma mset_concat_map: "mset xs = mset ys \<Longrightarrow> mset (concat (map g xs)) = mset (concat (map g ys))"
  by (metis mset_concat mset_map sum_mset_sum_list map_map)

lemma bonus_distinct: "distinct (map fst (qs_bonus (read_query E ix fs)))"
proof -
  have seeds: "distinct (map fst (qs_bonus (foldl (add_seed field w hint) s seeds)))"
    if "distinct (map fst (qs_bonus s))" for s field w hint seeds
    using that by (rule foldl_keeps) (simp add: add_seed_def Let_def distinct_update)
  have "distinct (map fst (qs_bonus (add_hint_occurrence E i all s x)))" if "distinct (map fst (qs_bonus s))" for s i all x
    using that seeds by (auto simp: add_hint_occurrence_def split: prod.splits)
  then have "distinct (map fst (qs_bonus (read_input E ix s i)))" if "distinct (map fst (qs_bonus s))" for s i
    using that by (auto simp: read_input_def Let_def split: prod.splits
        intro!: foldl_keeps [of "\<lambda>s. distinct (map fst (qs_bonus s))"])
  then show ?thesis unfolding read_query_def
    by (intro foldl_keeps [of "\<lambda>s. distinct (map fst (qs_bonus s))"]) (auto simp: empty_query_def)
qed

lemma score_table_related:
  assumes "set_walk (on_set_order E)" and "set_walk f"
  shows "same_map (score_table E ix (read_query E ix fs))
    (score_table (E\<lparr>on_set_order := f\<rparr>) ix (read_query (E\<lparr>on_set_order := f\<rparr>) ix fs))"
proof -
  let ?s = "read_query E ix fs" and ?s' = "read_query (E\<lparr>on_set_order := f\<rparr>) ix fs"
  have same: "same_state ?s ?s'" by (rule read_query_related [OF assms])
  define ps ps' where "ps = concat (map (token_scores E ix) (qs_query ?s))"
    and "ps' = concat (map (token_scores E ix) (qs_query ?s'))"
  have m: "mset ps = mset ps'"
    using same same_map_mset mset_concat_map unfolding ps_def ps'_def same_state_def by blast
  then have "set ps = set ps'" by (metis set_mset_mset)
  moreover have "sum_list (map snd (filter P ps)) = sum_list (map snd (filter P ps'))" for P
    using m by (metis mset_filter mset_map sum_mset_sum_list)
  ultimately have "map_of (foldl add_score b ps) = map_of (foldl add_score b ps')" for b
    by (simp add: fun_eq_iff map_of_add_scores)
  then show ?thesis
    using same bonus_distinct distinct_add_scores
    by (auto simp: same_map_def score_table_def same_state_def ps_def ps'_def)
qed

lemma ranked_codes_related:
  assumes "same_map scores scores'"
  shows "ranked_codes p scores n = ranked_codes p scores' n" and "score_of scores = score_of scores'"
proof -
  show s: "score_of scores = score_of scores'" using assms by (simp add: same_map_def score_of_def fun_eq_iff)
  have "mset (map fst scores) = mset (map fst scores')"
    using same_map_mset [OF assms] by (metis mset_map)
  then have "sort_key (\<lambda>c. (- score_of scores' c, c)) (map fst scores)
      = sort_key (\<lambda>c. (- score_of scores' c, c)) (map fst scores')"
    by (rule sort_key_unique) (simp add: inj_on_def)
  then show "ranked_codes p scores n = ranked_codes p scores' n" by (simp add: ranked_codes_def s)
qed



end
