(* ===== verification/ShortlistRank.thy ===== *)
theory ShortlistRank
  imports ShortlistFacts
begin

text \<open>
  What the shortlist holds: occupations of the catalogue, that a hint or a shared word of the posting
  supports, that the policy on physicians allows, and no better one is left out.
\<close>

section \<open>The catalogue\<close>

definition catalogue_entry :: "onet_env \<Rightarrow> json list \<Rightarrow> onet_term \<Rightarrow> bool" where
  "catalogue_entry E vs t \<longleftrightarrow>
     (\<exists>kvs. JObj kvs \<in> set vs \<and> jget kvs (u ''term_kind'') = JStr (u ''OCCUPATION'')
        \<and> jget kvs (u ''code'') = JStr (ot_code t) \<and> jget kvs (u ''term_id'') = JStr (ot_term_id t)
        \<and> jget kvs (u ''preferred_label'') = JStr (ot_label t)
        \<and> jget kvs (u ''description'') = JStr (ot_description t))
     \<and> onet_code (ot_code t) \<and> ot_term_id t = term_prefix @ ot_code t \<and> ot_label t \<noteq> []
     \<and> \<not> contains (u ''all other'') (on_casefold E (ot_label t))"

definition terms_ok :: "onet_env \<Rightarrow> json list \<Rightarrow> catalogue_state \<Rightarrow> bool" where
  "terms_ok E vs st \<longleftrightarrow> (\<forall>t \<in> set (fst st). catalogue_entry E vs t) \<and> distinct (map ot_code (fst st))
     \<and> ot_code ` set (fst st) \<inter> set (snd st) = {}"

lemma read_term_cases:
  assumes "read_term E (terms, residual) v = Inr st"
  shows "st = (terms, residual) \<or> (\<exists>code. code \<notin> ot_code ` set terms \<and> st = (terms, residual @ [code]))
    \<or> (\<exists>t. catalogue_entry E [v] t \<and> ot_code t \<notin> ot_code ` set terms \<and> ot_code t \<notin> set residual
        \<and> st = (terms @ [t], residual))"
proof -
  obtain kvs where v: "v = JObj kvs" using assms by (cases v) (simp_all add: read_term_def)
  show ?thesis
  proof (cases "jget kvs (u ''term_kind'') = JStr (u ''OCCUPATION'')")
    case True
    obtain code where code: "jget kvs (u ''code'') = JStr code"
      using assms True by (simp add: v read_term_def split: json.splits)
    note step = assms [unfolded v read_term_def, simplified True code json.simps prod.case]
    then obtain label description where texts: "jget kvs (u ''preferred_label'') = JStr label"
        "jget kvs (u ''description'') = JStr description"
      by (simp split: if_splits json.splits)
    show ?thesis using step
      by (auto simp: texts catalogue_entry_def v True code split: if_splits)
  next
    case False
    then show ?thesis using assms by (simp add: v read_term_def)
  qed
qed

lemma catalogue_entry_mono: "catalogue_entry E [v] t \<Longrightarrow> v \<in> set vs \<Longrightarrow> catalogue_entry E vs t"
  by (auto simp: catalogue_entry_def)

lemma read_term_ok:
  assumes "terms_ok E vs st" and "v \<in> set vs" and "read_term E st v = Inr st'"
  shows "terms_ok E vs st'"
proof -
  obtain terms residual where st: "st = (terms, residual)" by (cases st)
  from read_term_cases [OF assms(3) [unfolded st]] show ?thesis
    using assms(1,2) catalogue_entry_mono by (fastforce simp: st terms_ok_def)
qed

definition index_codes :: "onet_index \<Rightarrow> ustr set" where
  "index_codes ix = ot_code ` set (ix_terms ix)"

definition index_ok :: "onet_index \<Rightarrow> bool" where
  "index_ok ix \<longleftrightarrow> distinct (map ot_code (ix_terms ix))
     \<and> map fst (ix_documents ix) = map ot_code (ix_terms ix)
     \<and> (\<forall>r \<in> set (ix_rules ix). set (hr_seeds r) \<subseteq> index_codes ix)"

lemma catalogue_index_ok:
  assumes "catalogue_index E catalogue = Inr ix"
  shows "index_ok ix"
    and "\<exists>vs. jget catalogue (u ''terms'') = JArr vs \<and> (\<forall>t \<in> set (ix_terms ix). catalogue_entry E vs t)"
    and "index_codes ix \<inter> set (ix_residual ix) = {}"
proof -
  obtain vs terms residual where vs: "jget catalogue (u ''terms'') = JArr vs"
      and read: "rfold (read_term E) ([], []) vs = Inr (terms, residual)"
      and ix: "ix_terms ix = terms" "ix_residual ix = residual"
        "ix_documents ix = map (\<lambda>t. (ot_code t, counter_of (document_words E t))) terms"
        "ix_rules ix = map (hint_rule_of E (map ot_code terms)) hint_rows"
    using assms by (auto simp: catalogue_index_def rbind_def split: if_splits json.splits sum.splits prod.splits)
  have "terms_ok E vs (terms, residual)"
    by (rule rfold_invariant [OF read]) (simp add: terms_ok_def, rule read_term_ok)
  then show "index_ok ix"
    and "\<exists>vs. jget catalogue (u ''terms'') = JArr vs \<and> (\<forall>t \<in> set (ix_terms ix). catalogue_entry E vs t)"
    and "index_codes ix \<inter> set (ix_residual ix) = {}"
    by (auto simp: terms_ok_def index_ok_def index_codes_def ix vs hint_rule_of_def comp_def split: prod.splits)
qed

section \<open>What is scored\<close>

definition state_ok :: "onet_index \<Rightarrow> query_state \<Rightarrow> bool" where
  "state_ok ix s \<longleftrightarrow> dom (map_of (qs_bonus s)) \<subseteq> index_codes ix
     \<and> dom (map_of (qs_bonus s)) = dom (map_of (qs_hints s)) \<and> (\<forall>code. map_of (qs_hints s) code \<noteq> Some [])"

lemma state_ok_query [simp]: "state_ok ix (s\<lparr>qs_query := q\<rparr>) = state_ok ix s"
  by (simp add: state_ok_def)

lemma add_seed_ok: "state_ok ix s \<Longrightarrow> code \<in> index_codes ix \<Longrightarrow> state_ok ix (add_seed field w hint s code)"
  by (fastforce simp: state_ok_def add_seed_def Let_def update_conv' split: if_splits option.splits)

lemma rule_occurrences_rules: "(m, r) \<in> set (rule_occurrences E ix t) \<Longrightarrow> r \<in> set (ix_rules ix)"
  by (auto simp: rule_occurrences_def split: option.splits)

lemma read_query_ok:
  assumes "index_ok ix"
  shows "state_ok ix (read_query E ix fs)"
proof -
  have occurrence: "state_ok ix (add_hint_occurrence E i all s x)"
    if s: "state_ok ix s" and "snd x \<in> set (ix_rules ix)" for i all s x
  proof -
    obtain field t w m r where ix: "i = (field, t, w)" "x = (m, r)" by (cases i, cases x)
    have "set (hr_seeds r) \<subseteq> index_codes ix" using that(2) assms by (auto simp: ix index_ok_def)
    then have "state_ok ix (foldl (add_seed field w h) s' (hr_seeds r))" if "state_ok ix s'" for h s'
      using that by (intro foldl_keeps [of "state_ok ix"]) (auto intro: add_seed_ok)
    then show ?thesis using s by (simp add: ix add_hint_occurrence_def)
  qed
  have input: "state_ok ix (read_input E ix s i)" if "state_ok ix s" for s i
  proof -
    obtain field t w where i: "i = (field, t, w)" by (cases i)
    show ?thesis unfolding i read_input_def Let_def prod.case
      by (rule foldl_keeps) (use that rule_occurrences_rules in \<open>auto intro!: occurrence\<close>)
  qed
  show ?thesis unfolding read_query_def
    by (rule foldl_keeps, simp add: state_ok_def empty_query_def, rule input)
qed

definition shares_word :: "onet_index \<Rightarrow> query_state \<Rightarrow> ustr \<Rightarrow> bool" where
  "shares_word ix s code \<longleftrightarrow>
     (\<exists>q \<in> set (qs_query s). \<exists>(c, ws) \<in> set (ix_documents ix). c = code \<and> map_of ws (fst q) \<noteq> None)"

lemma posting_codes:
  "fst ` set (word_postings ix w) = {c. \<exists>(c', ws) \<in> set (ix_documents ix). c' = c \<and> map_of ws w \<noteq> None}"
proof (rule set_eqI)
  fix c
  have "c \<in> fst ` set (word_postings ix w) \<longleftrightarrow>
      (\<exists>x \<in> set (ix_documents ix). c \<in> fst ` set (case x of (code, ws) \<Rightarrow>
         case map_of ws w of None \<Rightarrow> [] | Some n \<Rightarrow> [(code, n)]))"
    by (simp only: word_postings_def set_concat set_map image_UN UN_iff image_image split_def)
  also have "\<dots> \<longleftrightarrow> (\<exists>(c', ws) \<in> set (ix_documents ix). c' = c \<and> map_of ws w \<noteq> None)"
    by (rule bex_cong [OF refl], rename_tac x, case_tac x, case_tac "map_of (snd x) w") auto
  finally show "c \<in> fst ` set (word_postings ix w)
      \<longleftrightarrow> c \<in> {c. \<exists>(c', ws) \<in> set (ix_documents ix). c' = c \<and> map_of ws w \<noteq> None}" by simp
qed

lemma token_score_codes: "fst ` set (token_scores E ix q) = fst ` set (word_postings ix (fst q))"
  by (force simp: token_scores_def Let_def)

lemma score_table_keys:
  "fst ` set (score_table E ix s) = {code. shares_word ix s code} \<union> dom (map_of (qs_bonus s))"
proof -
  have "dom (map_of (foldl add_score b ps)) = fst ` set ps \<union> dom (map_of b)" for b ps
    by (auto simp: dom_def map_of_add_scores dom_map_of_conv_image_fst [symmetric] split: if_splits)
  moreover have "fst ` set (concat (map (token_scores E ix) (qs_query s))) = {code. shares_word ix s code}"
    by (auto simp: image_UN token_score_codes posting_codes shares_word_def)
  ultimately show ?thesis by (simp only: score_table_def dom_map_of_conv_image_fst [symmetric])
qed

section \<open>The shortlist\<close>

definition scores_of :: "onet_env \<Rightarrow> onet_index \<Rightarrow> source_fields \<Rightarrow> (ustr \<times> rat) list" where
  "scores_of E ix fs = score_table E ix (read_query E ix fs)"

lemma scores_within: "index_ok ix \<Longrightarrow> fst ` set (scores_of E ix fs) \<subseteq> index_codes ix"
proof -
  assume ok: "index_ok ix"
  have "c \<in> index_codes ix" if "shares_word ix s c" for s c
  proof -
    have "c \<in> set (map fst (ix_documents ix))" using that by (force simp: shares_word_def)
    also have "\<dots> = index_codes ix" using ok by (simp only: index_ok_def index_codes_def set_map)
    finally show ?thesis .
  qed
  moreover have "dom (map_of (qs_bonus (read_query E ix fs))) \<subseteq> index_codes ix"
    using read_query_ok [OF ok, of E fs] unfolding state_ok_def by (rule conjunct1)
  ultimately show ?thesis unfolding scores_of_def score_table_keys by blast
qed

lemma scores_distinct: "distinct (map fst (scores_of E ix fs))"
  unfolding scores_of_def score_table_def by (rule distinct_add_scores) (rule bonus_distinct)

text \<open>The candidates of an accepted call, in the order of their scores.\<close>

definition chosen :: "onet_env \<Rightarrow> onet_index \<Rightarrow> source_fields \<Rightarrow> nat \<Rightarrow> ustr list" where
  "chosen E ix fs n =
     (if ad_outcome (admission_decision E fs) = Exclude then []
      else ranked_codes (physician_eligibility E fs) (scores_of E ix fs) n)"

lemma term_of_some:
  assumes "code \<in> index_codes ix"
  obtains t where "term_of ix code = Some t" "t \<in> set (ix_terms ix)" "ot_code t = code"
proof -
  have "term_of ix code \<noteq> None" using assms by (auto simp: term_of_def index_codes_def find_None_iff)
  then obtain t where "term_of ix code = Some t" by blast
  then show thesis using that [of t] unfolding term_of_def by (auto simp: find_Some_iff)
qed

lemma rmap_Inr_of:
  "(\<And>x. x \<in> set xs \<Longrightarrow> \<exists>y. f x = Inr y \<and> P x y) \<Longrightarrow> \<exists>ys. rmap f xs = Inr ys \<and> list_all2 P xs ys"
  by (induction xs) (fastforce simp: rbind_def)+

lemma none_offered: "pp_only p \<Longrightarrow> pp_eligible p = [] \<Longrightarrow> ranked_codes p scores n = []"
  by (simp add: ranked_codes_def offered_to_def)

definition candidate_for :: "onet_env \<Rightarrow> onet_index \<Rightarrow> source_fields \<Rightarrow> nat \<times> ustr \<Rightarrow> onet_candidate \<Rightarrow> bool" where
  "candidate_for E ix fs x c \<longleftrightarrow> oc_rank c = fst x \<and> ot_code (oc_term c) = snd x \<and> oc_term c \<in> set (ix_terms ix)
     \<and> oc_score c = on_round E (score_of (scores_of E ix fs) (snd x))
     \<and> oc_hints c = (case map_of (qs_hints (read_query E ix fs)) (snd x) of None \<Rightarrow> [] | Some hs \<Rightarrow> hs)"

lemma shortlist_chosen:
  assumes ok: "index_ok ix" and n: "1 \<le> n" "n \<le> 40"
  shows "\<exists>cs. shortlist E ix fs (JInt n) = Inr cs
    \<and> list_all2 (candidate_for E ix fs) (enumerate 1 (chosen E ix fs (nat n))) cs"
proof (cases "ad_outcome (admission_decision E fs) = Exclude")
  case True
  then show ?thesis using n by (simp add: shortlist_def chosen_def)
next
  case False
  let ?p = "physician_eligibility E fs"
  let ?codes = "ranked_codes ?p (scores_of E ix fs) (nat n)"
  have codes: "set ?codes \<subseteq> index_codes ix"
    using subsetD [OF scores_within [OF ok]] by (force simp: ranked_codes_def dest!: in_set_takeD)
  have chosen: "chosen E ix fs (nat n) = ?codes" using False by (simp add: chosen_def)
  have "\<exists>c. candidate_of E ix (read_query E ix fs) (scores_of E ix fs) x = Inr c \<and> candidate_for E ix fs x c"
    if x: "x \<in> set (enumerate 1 ?codes)" for x
  proof -
    have "snd x \<in> set (map snd (enumerate 1 ?codes))" unfolding set_map using x by (rule imageI)
    then have "snd x \<in> index_codes ix" using codes by auto
    then obtain t where "term_of ix (snd x) = Some t" "t \<in> set (ix_terms ix)" "ot_code t = snd x"
      by (rule term_of_some)
    then show ?thesis by (simp add: candidate_of_def candidate_for_def split_def)
  qed
  then have listed: "\<exists>cs. rmap (candidate_of E ix (read_query E ix fs) (scores_of E ix fs)) (enumerate 1 ?codes) = Inr cs
      \<and> list_all2 (candidate_for E ix fs) (enumerate 1 ?codes) cs"
    by (rule rmap_Inr_of)
  show ?thesis
  proof (cases "pp_only ?p \<and> pp_eligible ?p = []")
    case empty: True
    then show ?thesis using n False by (simp add: shortlist_def chosen_def none_offered)
  next
    case some: False
    then have "shortlist E ix fs (JInt n) =
        rmap (candidate_of E ix (read_query E ix fs) (scores_of E ix fs)) (enumerate 1 ?codes)"
      using n False by (simp only: shortlist_def json.simps Let_def scores_of_def if_False if_True simp_thms)
    then show ?thesis unfolding chosen using listed by (simp only:)
  qed
qed

text \<open>Nothing better is left out: what is offered and scored, but not listed, is below all that is listed.\<close>

definition outranks :: "(ustr \<times> rat) list \<Rightarrow> ustr \<Rightarrow> ustr \<Rightarrow> bool" where
  "outranks scores a b \<longleftrightarrow> score_of scores b < score_of scores a \<or> score_of scores a = score_of scores b \<and> a < b"

lemma sorted_split:
  assumes "sorted (map f xs)" and "distinct (map f xs)" and "a \<in> set (take n xs)" and "b \<in> set (drop n xs)"
  shows "f a < (f b :: 'b :: linorder)"
proof -
  obtain i where i: "i < n" "i < length xs" "a = xs ! i" using assms(3) by (auto simp: in_set_conv_nth)
  obtain j where j: "j < length xs - n" "b = xs ! (n + j)" using assms(4) by (auto simp: in_set_conv_nth)
  have "f a \<le> f b" using assms(1) i j by (auto simp: sorted_iff_nth_mono)
  moreover have "f a \<noteq> f b" using assms(2) i j by (auto simp: distinct_conv_nth)
  ultimately show ?thesis by simp
qed

lemma ranked_codes_facts:
  assumes "distinct (map fst scores)"
  shows "distinct (ranked_codes p scores n)" and "length (ranked_codes p scores n) \<le> n"
    and "code \<in> set (ranked_codes p scores n) \<Longrightarrow> code \<in> fst ` set scores \<and> offered_to p code"
    and "sorted_wrt (outranks scores) (ranked_codes p scores n)"
    and "code \<in> fst ` set scores \<Longrightarrow> offered_to p code \<Longrightarrow> code \<notin> set (ranked_codes p scores n) \<Longrightarrow>
      length (ranked_codes p scores n) = n \<and> (\<forall>a \<in> set (ranked_codes p scores n). outranks scores a code)"
proof -
  define f where "f c = (- score_of scores c, c)" for c
  define xs where "xs = filter (offered_to p) (sort_key f (map fst scores))"
  have ranked: "ranked_codes p scores n = take n xs" by (simp add: ranked_codes_def xs_def f_def [abs_def])
  have d: "distinct xs" using assms by (simp add: xs_def)
  have sorted: "sorted (map f xs)" unfolding xs_def by (simp add: sorted_filter)
  have df: "distinct (map f xs)" using d by (simp add: distinct_map inj_on_def f_def)
  have less: "f a < f b \<longleftrightarrow> outranks scores a b" for a b
    by (auto simp: f_def outranks_def less_prod_def')
  have set_xs: "set xs = {c \<in> fst ` set scores. offered_to p c}" by (auto simp: xs_def)
  show "distinct (ranked_codes p scores n)" and "length (ranked_codes p scores n) \<le> n"
    using d by (simp_all add: ranked)
  show "code \<in> fst ` set scores \<and> offered_to p code" if "code \<in> set (ranked_codes p scores n)"
    using in_set_takeD [OF that [unfolded ranked]] by (simp add: set_xs)
  have "sorted_wrt (<) (map f xs)" using sorted df by (rule strict_sorted_iff [THEN iffD2, OF conjI])
  then have "sorted_wrt (outranks scores) xs" by (simp add: sorted_wrt_map less)
  then show "sorted_wrt (outranks scores) (ranked_codes p scores n)" by (simp add: ranked sorted_wrt_take)
  show "length (ranked_codes p scores n) = n \<and> (\<forall>a \<in> set (ranked_codes p scores n). outranks scores a code)"
    if c: "code \<in> fst ` set scores" "offered_to p code" "code \<notin> set (ranked_codes p scores n)"
  proof -
    have "code \<in> set xs" using c by (simp add: set_xs)
    then have dropped: "code \<in> set (drop n xs)"
      using c(3) unfolding ranked by (metis Un_iff append_take_drop_id set_append)
    then have "n < length xs" by (cases "n < length xs") simp_all
    then show ?thesis using sorted_split [OF sorted df _ dropped] less by (simp add: ranked)
  qed
qed

text \<open>What the caller is promised of the candidates.\<close>

definition supported :: "onet_index \<Rightarrow> query_state \<Rightarrow> onet_candidate \<Rightarrow> bool" where
  "supported ix s c \<longleftrightarrow> oc_hints c \<noteq> [] \<or> shares_word ix s (ot_code (oc_term c))"

definition candidate_ok :: "onet_env \<Rightarrow> (ustr \<times> json) list \<Rightarrow> onet_index \<Rightarrow> source_fields \<Rightarrow> onet_candidate \<Rightarrow> bool" where
  "candidate_ok E catalogue ix fs c \<longleftrightarrow>
     (\<exists>vs. jget catalogue (u ''terms'') = JArr vs \<and> catalogue_entry E vs (oc_term c))
     \<and> offered_to (physician_eligibility E fs) (ot_code (oc_term c))
     \<and> supported ix (read_query E ix fs) c
     \<and> oc_score c = on_round E (score_of (scores_of E ix fs) (ot_code (oc_term c)))"

lemma enumerate_candidates:
  "list_all2 (candidate_for E ix fs) (enumerate n codes) cs \<Longrightarrow>
     map oc_rank cs = [n..<n + length cs] \<and> map (ot_code \<circ> oc_term) cs = codes"
  by (induction codes arbitrary: n cs)
    (auto simp: list_all2_Cons1 candidate_for_def upt_conv_Cons simp del: upt_Suc)

lemma candidate_for_ok:
  assumes index: "catalogue_index E catalogue = Inr ix" and c: "candidate_for E ix fs x c"
    and code: "snd x \<in> set (chosen E ix fs n)"
  shows "candidate_ok E catalogue ix fs c"
proof -
  let ?s = "read_query E ix fs"
  have "snd x \<in> set (ranked_codes (physician_eligibility E fs) (scores_of E ix fs) n)"
    using code by (simp add: chosen_def split: if_splits)
  note ranked = ranked_codes_facts(3) [OF scores_distinct this]
  then have key: "snd x \<in> fst ` set (scores_of E ix fs)" by (rule conjunct1)
  have "offered_to (physician_eligibility E fs) (snd x)" using ranked by (rule conjunct2)
  moreover have "supported ix ?s c"
  proof (cases "shares_word ix ?s (snd x)")
    case True
    then show ?thesis using c by (simp add: supported_def candidate_for_def)
  next
    case False
    then have "snd x \<in> dom (map_of (qs_bonus ?s))" using key by (simp add: scores_of_def score_table_keys)
    then obtain hs where "map_of (qs_hints ?s) (snd x) = Some hs" "hs \<noteq> []"
      using read_query_ok [OF catalogue_index_ok(1) [OF index], of E fs] unfolding state_ok_def
      by (metis domD)
    then show ?thesis using c by (simp add: supported_def candidate_for_def)
  qed
  ultimately show ?thesis
    using c catalogue_index_ok(2) [OF index] by (auto simp: candidate_ok_def candidate_for_def)
qed

text \<open>
  C5: The shortlist is the top of what may be offered. For an index of a catalogue and a limit from 1 to
  40 the call answers with at most that many candidates, ranked from 1, no code twice and in the order of
  score and code. Each is an official occupation of the catalogue and not a residual one, is supported by
  a hint or a word that it shares with the posting, and is one the policy on physicians leaves. An
  excluded posting has none; otherwise an occupation that is offered and scored is left out only when the
  list is full and all that is on it outranks it.
\<close>

theorem shortlist_contract:
  assumes "catalogue_index E catalogue = Inr ix" and "1 \<le> n" and "n \<le> 40"
  shows "\<exists>cs. shortlist E ix fs (JInt n) = Inr cs \<and> int (length cs) \<le> n
    \<and> map oc_rank cs = [1..<Suc (length cs)] \<and> distinct (map (ot_code \<circ> oc_term) cs)
    \<and> sorted_wrt (outranks (scores_of E ix fs)) (map (ot_code \<circ> oc_term) cs)
    \<and> (\<forall>c \<in> set cs. candidate_ok E catalogue ix fs c)
    \<and> (if ad_outcome (admission_decision E fs) = Exclude then cs = []
       else \<forall>code \<in> fst ` set (scores_of E ix fs).
         offered_to (physician_eligibility E fs) code \<and> code \<notin> set (map (ot_code \<circ> oc_term) cs) \<longrightarrow>
         int (length cs) = n \<and> (\<forall>c \<in> set cs. outranks (scores_of E ix fs) (ot_code (oc_term c)) code))"
proof -
  let ?codes = "chosen E ix fs (nat n)"
  note ok = catalogue_index_ok(1) [OF assms(1)]
  note facts = ranked_codes_facts [OF scores_distinct [of E ix fs], where p = "physician_eligibility E fs" and n = "nat n"]
  obtain cs where cs: "shortlist E ix fs (JInt n) = Inr cs"
      "list_all2 (candidate_for E ix fs) (enumerate 1 ?codes) cs"
    using shortlist_chosen [OF ok assms(2,3)] by blast
  note listed = enumerate_candidates [OF cs(2)]
  have codes: "map (ot_code \<circ> oc_term) cs = ?codes" and ranks: "map oc_rank cs = [1..<Suc (length cs)]"
    using listed by simp_all
  have len: "length ?codes = length cs" using codes by (metis length_map)
  have "candidate_ok E catalogue ix fs c" if c: "c \<in> set cs" for c
  proof -
    obtain i where i: "i < length cs" "c = cs ! i" using c by (auto simp: in_set_conv_nth)
    then have "candidate_for E ix fs (enumerate 1 ?codes ! i) c"
      using cs(2) by (simp add: list_all2_conv_all_nth)
    then show ?thesis
      by (rule candidate_for_ok [OF assms(1), where n = "nat n"]) (use i len in \<open>simp add: nth_enumerate_eq\<close>)
  qed
  then have good: "\<forall>c \<in> set cs. candidate_ok E catalogue ix fs c" by blast
  have order: "distinct ?codes" "length ?codes \<le> nat n" "sorted_wrt (outranks (scores_of E ix fs)) ?codes"
    using facts(1,2,4) by (simp_all add: chosen_def)
  have full: "if ad_outcome (admission_decision E fs) = Exclude then cs = []
      else \<forall>code \<in> fst ` set (scores_of E ix fs).
        offered_to (physician_eligibility E fs) code \<and> code \<notin> set ?codes \<longrightarrow>
        int (length cs) = n \<and> (\<forall>a \<in> set ?codes. outranks (scores_of E ix fs) a code)"
  proof (cases "ad_outcome (admission_decision E fs) = Exclude")
    case True
    then show ?thesis using codes by (simp add: chosen_def)
  next
    case False
    then have ranked: "?codes = ranked_codes (physician_eligibility E fs) (scores_of E ix fs) (nat n)"
      by (simp add: chosen_def)
    have "int (length cs) = n" if "length ?codes = nat n" using that len assms(2) by simp
    then show ?thesis using False facts(5) unfolding ranked by simp
  qed
  have each: "(\<forall>a \<in> set ?codes. P a) \<longleftrightarrow> (\<forall>c \<in> set cs. P (ot_code (oc_term c)))" for P
    by (simp add: codes [symmetric])
  have "int (length cs) \<le> n" using order(2) len assms(2) by simp
  then show ?thesis
    using cs(1) ranks good order(1,3) full [unfolded each]
    by (intro exI [of _ cs] conjI) (simp_all only: codes)
qed

text \<open>A catalogue of three occupations, one of them residual.\<close>

definition example_entry :: "string \<Rightarrow> string \<Rightarrow> json" where
  "example_entry code label = JObj [(u ''term_kind'', JStr (u ''OCCUPATION'')), (u ''code'', JStr (u code)),
     (u ''term_id'', JStr (term_prefix @ u code)), (u ''preferred_label'', JStr (u label)),
     (u ''description'', JStr (u ''Physicians and others.''))]"

definition example_catalogue :: "(ustr \<times> json) list" where
  "example_catalogue = [(u ''scheme_id'', JStr (u ''ONET'')),
     (u ''terms'', JArr [example_entry ''29-1216.00'' ''General Internal Medicine Physicians'',
        example_entry ''29-1229.00'' ''Physicians, All Other'',
        example_entry ''15-1252.00'' ''Software Developers''])]"

lemma example_catalogue_read:
  "(case catalogue_index example_onet example_catalogue of Inl _ \<Rightarrow> False | Inr ix \<Rightarrow>
     map ot_code (ix_terms ix) = [u ''29-1216.00'', u ''15-1252.00''] \<and> ix_residual ix = [u ''29-1229.00''])"
proof -
  have "(case rfold (read_term example_onet) ([], []) (case jget example_catalogue (u ''terms'') of JArr vs \<Rightarrow> vs | _ \<Rightarrow> [])
      of Inl _ \<Rightarrow> False | Inr (terms, residual) \<Rightarrow>
        map ot_code terms = [u ''29-1216.00'', u ''15-1252.00''] \<and> residual = [u ''29-1229.00''])"
    and "jget example_catalogue (u ''scheme_id'') = JStr (u ''ONET'')"
    and "\<exists>vs. jget example_catalogue (u ''terms'') = JArr vs"
      apply code_simp
     apply code_simp
    apply (simp add: example_catalogue_def jget_def u_def)
    done
  then show ?thesis by (auto simp: catalogue_index_def rbind_def split: sum.splits)
qed

theorem shortlist_contract_witness:
  "\<exists>ix cs. catalogue_index example_onet example_catalogue = Inr ix
     \<and> shortlist example_onet ix example_specialist (JInt 5) = Inr cs \<and> int (length cs) \<le> 5"
proof -
  obtain ix where "catalogue_index example_onet example_catalogue = Inr ix"
    using example_catalogue_read by (auto split: sum.splits)
  then show ?thesis using shortlist_contract [of example_onet example_catalogue ix 5 example_specialist] by auto
qed

end
