(* ===== verification/PromptFacts.thy ===== *)
theory PromptFacts
  imports Prompt
begin

text \<open>
  What an answer of the model has to be: the check finds no issue exactly with an answer of the stated
  form, whose citations stand in the original fields.
\<close>

section \<open>The accepted answers\<close>

definition grounded_citation :: "source_fields \<Rightarrow> json \<Rightarrow> bool" where
  "grounded_citation fs v \<longleftrightarrow> (\<exists>kvs field quote. v = JObj kvs \<and> fst ` set kvs = {u ''field'', u ''quote''}
     \<and> jget kvs (u ''field'') = JStr field \<and> field \<in> set evidence_fields
     \<and> jget kvs (u ''quote'') = JStr quote \<and> strip quote \<noteq> [] \<and> 2 \<le> length quote \<and> length quote \<le> 500
     \<and> (\<exists>leaf \<in> set (leaves_of fs field). contains quote leaf))"

definition match_code :: "json \<Rightarrow> ustr option" where
  "match_code v =
     (case v of JObj kvs \<Rightarrow> (case jget kvs (u ''occupation_code'') of JStr code \<Rightarrow> Some code | _ \<Rightarrow> None) | _ \<Rightarrow> None)"

definition match_ok :: "source_fields \<Rightarrow> ustr list \<Rightarrow> nat \<Rightarrow> json \<Rightarrow> bool" where
  "match_ok fs allowed i v \<longleftrightarrow> (\<exists>kvs code reason cs. v = JObj kvs
     \<and> fst ` set kvs = {u ''occupation_code'', u ''match_rank'', u ''reason'', u ''evidence''}
     \<and> jget kvs (u ''occupation_code'') = JStr code \<and> onet_code code \<and> code \<in> set allowed
     \<and> jget kvs (u ''match_rank'') = JInt (int i)
     \<and> jget kvs (u ''reason'') = JStr reason \<and> strip reason \<noteq> [] \<and> length reason \<le> 500
     \<and> jget kvs (u ''evidence'') = JArr cs \<and> 1 \<le> length cs \<and> length cs \<le> 3
     \<and> (\<forall>c \<in> set cs. grounded_citation fs c))"

definition answer_ok :: "source_fields \<Rightarrow> ustr list \<Rightarrow> int \<Rightarrow> json \<Rightarrow> bool" where
  "answer_ok fs allowed n v \<longleftrightarrow> (\<exists>kvs ms reason. v = JObj kvs
     \<and> fst ` set kvs = {u ''outcome'', u ''matches'', u ''abstain_reason''}
     \<and> jget kvs (u ''matches'') = JArr ms \<and> int (length ms) \<le> n
     \<and> (\<forall>(i, m) \<in> set (enumerate 1 ms). match_ok fs allowed i m) \<and> distinct (map match_code ms)
     \<and> jget kvs (u ''abstain_reason'') = JStr reason
     \<and> (jget kvs (u ''outcome'') = JStr (u ''matched'') \<and> ms \<noteq> [] \<and> reason = []
        \<or> jget kvs (u ''outcome'') = JStr (u ''abstained'') \<and> ms = [] \<and> strip reason \<noteq> [] \<and> length reason \<le> 500))"

section \<open>The issues\<close>

lemma issue_if_none [simp]: "issue_if b name = [] \<longleftrightarrow> \<not> b"
  by (simp add: issue_if_def)

lemma citation_issues_none: "citation_issues fs name v = [] \<longleftrightarrow> grounded_citation fs v"
  by (cases v) (auto simp: citation_issues_def grounded_citation_def list_ex_iff split: json.splits)

lemma enumerate_all: "(\<forall>x \<in> set (enumerate n xs). P (snd x)) \<longleftrightarrow> (\<forall>x \<in> set xs. P x)"
  by (induction xs arbitrary: n) auto

lemma evidence_issues_none:
  "evidence_issues fs prefix v = []
     \<longleftrightarrow> (\<exists>cs. v = JArr cs \<and> 1 \<le> length cs \<and> length cs \<le> 3 \<and> (\<forall>c \<in> set cs. grounded_citation fs c))"
  using enumerate_all [of 1 _ "grounded_citation fs"]
  by (cases v) (auto simp: evidence_issues_def citation_issues_none split_def)

lemma code_issues_none:
  "code_issues allowed seen prefix v = []
     \<longleftrightarrow> (\<exists>code. v = JStr code \<and> onet_code code \<and> code \<in> set allowed \<and> code \<notin> set seen)"
  by (cases v) (simp_all add: code_issues_def)

lemma reason_issues_none:
  "reason_issues prefix v = [] \<longleftrightarrow> (\<exists>r. v = JStr r \<and> strip r \<noteq> [] \<and> length r \<le> 500)"
  by (cases v) (auto simp: reason_issues_def)

lemma check_match_none:
  "fst (check_match fs allowed (issues, seen) (i, v)) = []
     \<longleftrightarrow> issues = [] \<and> match_ok fs allowed i v \<and> match_code v \<notin> Some ` set seen"
proof (cases "\<exists>kvs. v = JObj kvs")
  case True
  then obtain kvs where v: "v = JObj kvs" by blast
  show ?thesis
    by (auto simp: v check_match_def Let_def match_ok_def match_code_def code_issues_none reason_issues_none
        evidence_issues_none)
next
  case False
  then show ?thesis by (cases v) (auto simp: check_match_def match_ok_def)
qed

lemma check_match_seen:
  "match_ok fs allowed i v \<Longrightarrow>
     \<exists>code. match_code v = Some code \<and> snd (check_match fs allowed (issues, seen) (i, v)) = code # seen"
  by (auto simp: match_ok_def match_code_def check_match_def Let_def)

lemma check_match_grows: "fst (foldl (check_match fs allowed) st ms) = [] \<Longrightarrow> fst st = []"
proof (induction ms arbitrary: st)
  case (Cons m ms)
  then have "fst (check_match fs allowed st m) = []" by simp
  then show ?case using check_match_none [of fs allowed "fst st" "snd st" "fst m" "snd m"] by simp
qed simp

lemma check_matches_none:
  "fst (foldl (check_match fs allowed) (issues, seen) ms) = []
     \<longleftrightarrow> issues = [] \<and> (\<forall>(i, m) \<in> set ms. match_ok fs allowed i m)
       \<and> distinct (map (\<lambda>x. match_code (snd x)) ms) \<and> match_code ` snd ` set ms \<inter> Some ` set seen = {}"
proof (induction ms arbitrary: issues seen)
  case (Cons x ms)
  obtain i m where x: "x = (i, m)" by (cases x)
  obtain issues' seen' where st: "check_match fs allowed (issues, seen) x = (issues', seen')"
    by (cases "check_match fs allowed (issues, seen) x")
  have none: "issues' = [] \<longleftrightarrow> issues = [] \<and> match_ok fs allowed i m \<and> match_code m \<notin> Some ` set seen"
    using check_match_none [of fs allowed issues seen i m] st x by simp
  have step: "foldl (check_match fs allowed) (issues, seen) (x # ms) = foldl (check_match fs allowed) (issues', seen') ms"
    by (simp add: st)
  show ?case
  proof (cases "issues' = []")
    case True
    then have "match_ok fs allowed i m" using none by simp
    then obtain code where "match_code m = Some code" "seen' = code # seen"
      using check_match_seen [of fs allowed i m issues seen] st x by auto
    then show ?thesis using none True by (subst step) (auto simp: x Cons.IH)
  next
    case False
    then show ?thesis using none by (subst step) (auto simp: x Cons.IH)
  qed
qed simp

text \<open>
  C6: The answers that are accepted. The check of an answer of the model finds no issue if and only if the
  bound is an integer from 1 to 3 and the answer is an object with exactly its keys that either abstains
  with a reason and no match, or gives at most that many matches, ranked in order, of distinct occupations
  that were offered, each with a reason and one to three citations, and every citation is a text of 2 to
  500 characters that stands literally in an admissible original field.
\<close>

theorem accepted_answers:
  "validate_output answer fs allowed bound = Inr []
     \<longleftrightarrow> (\<exists>n. bound = JInt n \<and> 1 \<le> n \<and> n \<le> 3 \<and> answer_ok fs allowed n answer)"
proof (cases "\<exists>n. bound = JInt n \<and> 1 \<le> n \<and> n \<le> 3")
  case False
  then show ?thesis
    by (cases bound) (auto simp: validate_output_def match_limit_def rbind_def)
next
  case True
  then obtain n where n: "bound = JInt n" "1 \<le> n" "n \<le> 3" by blast
  have enum: "map (\<lambda>x. match_code (snd x)) (enumerate k ms) = map match_code ms" for k ms
    by (induction ms arbitrary: k) auto
  show ?thesis
  proof (cases "\<exists>kvs ms. answer = JObj kvs \<and> jget kvs (u ''matches'') = JArr ms")
    case True
    then obtain kvs ms where out: "answer = JObj kvs" "jget kvs (u ''matches'') = JArr ms" by blast
    show ?thesis
      by (auto simp: n out validate_output_def match_limit_def rbind_def Let_def check_matches_none enum
          answer_ok_def outcome_issues_def consistency_issues_def split: json.splits)
  next
    case False
    then show ?thesis
      by (cases answer) (auto simp: n validate_output_def match_limit_def rbind_def answer_ok_def Let_def
          split: json.splits)
  qed
qed

end
