(* ===== verification/OnetFreeze.thy ===== *)
theory OnetFreeze
  imports Prompt
begin

text \<open>
  The frozen cohort of \<open>hop/operations/run_onet_matches.py\<close>: the check of the exported rows, the frozen
  rows with their shortlists and requests, their verification against the retained code, and the chunks
  in which they are sent to the database. Files, receipts and SQL are not modelled.
\<close>

text \<open>\<open>RuntimeError\<close> with its message, an exception of the interpreter (\<open>KeyError\<close>, \<open>TypeError\<close>, \<open>UnicodeEncodeError\<close>,
  \<open>InvalidOperation\<close>), or one of the matcher.\<close>

datatype run_error = Run_error ustr | Run_other | Run_onet onet_error

definition run_failure :: "string \<Rightarrow> run_error + 'a" where
  "run_failure msg = Inl (Run_error (u msg))"

definition of_onet :: "onet_error + 'a \<Rightarrow> run_error + 'a" where
  "of_onet r = (case r of Inl e \<Rightarrow> Inl (Run_onet e) | Inr x \<Rightarrow> Inr x)"

text \<open>
  Canonical JSON bytes, the hexadecimal SHA-256 of a text, the length of a float as a plain decimal (none
  if it is not finite), and the amount that \<open>Decimal(str(value))\<close> reads.
\<close>

record run_calls =
  rc_canonical :: "json \<Rightarrow> nat list"
  rc_digest :: "ustr \<Rightarrow> ustr"
  rc_float :: "ustr \<Rightarrow> nat option"
  rc_amount :: "json \<Rightarrow> rat option"

section \<open>Identities\<close>

definition ascii_alnum :: "nat \<Rightarrow> bool" where
  "ascii_alnum c \<longleftrightarrow> 48 \<le> c \<and> c \<le> 57 \<or> 65 \<le> c \<and> c \<le> 90 \<or> 97 \<le> c \<and> c \<le> 122"

text \<open>\<open>[A-Za-z0-9][A-Za-z0-9_.:-]{0,199}\<close>.\<close>

definition safe_id :: "ustr \<Rightarrow> bool" where
  "safe_id s \<longleftrightarrow> s \<noteq> [] \<and> ascii_alnum (hd s) \<and> length s \<le> 200
     \<and> list_all (\<lambda>c. ascii_alnum c \<or> c \<in> set (u ''_.:-'')) s"

definition identity :: "ustr \<Rightarrow> run_error + ustr" where
  "identity s =
     (if \<not> safe_id s \<or> s = u ''LATEST'' then run_failure ''Use an exact safe identity, never LATEST'' else Inr s)"

section \<open>The cohort\<close>

definition cohort_counts :: "(ustr \<times> int) list" where
  "cohort_counts = [(u ''jobkorea'', 8434), (u ''nara_job'', 12736), (u ''job_alio'', 1465)]"

definition cohort_prefixes :: "(ustr \<times> ustr) list" where
  "cohort_prefixes = [(u ''jobkorea'', u ''source:posting:jobkorea:''), (u ''job_alio'', u ''job-alio:posting:''),
     (u ''nara_job'', u ''source:posting:nara_job:'')]"

text \<open>\<open>row.get(a, row.get(b, default))\<close>.\<close>

definition get_either :: "(ustr \<times> json) list \<Rightarrow> string \<Rightarrow> string \<Rightarrow> json \<Rightarrow> json" where
  "get_either row a b d =
     (case map_of row (u a) of Some v \<Rightarrow> v | None \<Rightarrow> (case map_of row (u b) of Some v \<Rightarrow> v | None \<Rightarrow> d))"

definition text_at :: "onet_env \<Rightarrow> (ustr \<times> json) list \<Rightarrow> string \<Rightarrow> ustr" where
  "text_at E row key = (case map_of row (u key) of None \<Rightarrow> [] | Some v \<Rightarrow> on_str E v)"

definition is_object :: "json \<Rightarrow> bool" where
  "is_object v = (case v of JObj _ \<Rightarrow> True | _ \<Rightarrow> False)"

type_synonym cohort_state = "ustr list \<times> (ustr \<times> int) list"

definition check_row :: "onet_env \<Rightarrow> cohort_state \<Rightarrow> json \<Rightarrow> run_error + cohort_state" where
  "check_row E st v =
     (case (st, v) of
        ((seen, counts), JObj row) \<Rightarrow>
          let posting = on_str E (get_either row ''posting_identity'' ''posting_id'' (JStr []));
              foreign = run_failure ''Foreign source, duplicate or invalid source posting identity''
          in if \<not> safe_id posting \<or> posting \<in> set seen then foreign
             else (case jget row (u ''source_id'') of
               JStr source \<Rightarrow>
                 (case map_of counts source of
                    None \<Rightarrow> foreign
                  | Some n \<Rightarrow>
                      (case map_of cohort_prefixes source of
                         None \<Rightarrow> Inl Run_other
                       | Some prefix \<Rightarrow>
                           if \<not> starts_with prefix posting
                           then run_failure ''Posting identity does not belong to its source namespace''
                           else if \<not> is_object (get_either row ''source_fields'' ''source_facts'' JNull)
                             \<or> \<not> is_sha256 (text_at E row ''source_facts_sha256'')
                           then run_failure ''Missing exact frozen source facts or source evidence hash''
                           else if \<not> safe_id (text_at E row ''source_run_id'')
                             \<or> \<not> safe_id (text_at E row ''source_record_id'')
                           then run_failure ''Missing or unsafe source provenance identity''
                           else Inr (posting # seen, AList.update source (n + 1) counts)))
             | JArr _ \<Rightarrow> Inl Run_other
             | JObj _ \<Rightarrow> Inl Run_other
             | _ \<Rightarrow> foreign)
      | _ \<Rightarrow> run_failure ''Invalid cohort row'')"

definition check_cohort :: "onet_env \<Rightarrow> json \<Rightarrow> (ustr \<times> int) list \<Rightarrow> run_error + (ustr \<times> int) list" where
  "check_cohort E rows expected =
     (case rows of
        JArr vs \<Rightarrow>
          rbind (rfold (check_row E) ([], map (\<lambda>(source, _). (source, 0)) expected) vs) (\<lambda>(_, counts).
            if counts \<noteq> expected
            then run_failure ''The supplied source-only cohort counts differ from the frozen snapshot''
            else Inr counts)
      | _ \<Rightarrow> run_failure ''The locally frozen cohort must be a JSON array'')"

section \<open>Frozen rows\<close>

definition retrieval_version :: ustr where
  "retrieval_version = u ''onet-ko-local-bm25-v2''"

definition admission_json :: "admission \<Rightarrow> json" where
  "admission_json a = JObj
     [(u ''outcome'', JStr (case ad_outcome a of Include \<Rightarrow> u ''INCLUDE'' | Exclude \<Rightarrow> u ''EXCLUDE'')),
      (u ''policy_version'', JStr (ad_version a)), (u ''policy_sha256'', JStr (ad_sha256 a)),
      (u ''reason_code'', JStr (ad_reason_code a)), (u ''reason'', JStr (ad_reason a)),
      (u ''evidence'', JArr (map (\<lambda>(field, quote).
         JObj [(u ''field'', JStr field), (u ''quote'', JStr quote)]) (ad_evidence a)))]"

definition physician_json :: "physician_policy \<Rightarrow> json" where
  "physician_json p = JObj
     [(u ''policy_version'', JStr (pp_version p)), (u ''policy_sha256'', JStr (pp_sha256 p)),
      (u ''physician_role_present'', JBool (pp_role_present p)), (u ''physician_only'', JBool (pp_only p)),
      (u ''eligible_occupation_codes'', JArr (map JStr (pp_eligible p))),
      (u ''evidence'', JArr (map (\<lambda>q. JObj [(u ''occupation_code'', JStr (pq_code q)),
         (u ''field'', JStr (pq_field q)), (u ''quote'', JStr (pq_text q))]) (pp_evidence p))),
      (u ''reason_code'', JStr (pp_reason p))]"

definition shortlisted_json :: "onet_candidate \<Rightarrow> json" where
  "shortlisted_json c = JObj
     [(u ''occupation_code'', JStr (candidate_code c)), (u ''code'', JStr (candidate_code c)),
      (u ''term_id'', JStr (ot_term_id (oc_term c))), (u ''label'', JStr (ot_label (oc_term c))),
      (u ''description'', JStr (ot_description (oc_term c))), (u ''rank'', JInt (int (oc_rank c))),
      (u ''score'', JFloat (oc_score c)),
      (u ''retrieval_hints'', JArr (map (\<lambda>h. JObj [(u ''basis'', JStr (u ''LOCAL_RETRIEVAL_HINT'')),
         (u ''field'', JStr (hu_field h)), (u ''matched_alias'', JStr (hu_alias h)),
         (u ''query_expansion'', JStr (hu_english h))]) (oc_hints c))),
      (u ''retrieval_version'', JStr retrieval_version), (u ''hint_version'', JStr hint_version)]"

text \<open>\<open>admitted_fields(value)\<close>, also for a text or a list: no field of it, or an index that is not an integer.\<close>

definition admitted_value :: "json \<Rightarrow> run_error + source_fields" where
  "admitted_value v =
     (case v of
        JObj facts \<Rightarrow> Inr (admitted_fields facts)
      | JStr s \<Rightarrow> if list_ex (\<lambda>f. contains f s) onet_source_fields then Inl Run_other else Inr []
      | JArr vs \<Rightarrow> if list_ex (\<lambda>f. JStr f \<in> set vs) onet_source_fields then Inl Run_other else Inr []
      | _ \<Rightarrow> Inl Run_other)"

definition need :: "(ustr \<times> json) list \<Rightarrow> ustr \<Rightarrow> run_error + json" where
  "need row key = (case map_of row key of None \<Rightarrow> Inl Run_other | Some v \<Rightarrow> Inr v)"

record freeze_args =
  fa_candidate_limit :: int
  fa_max_matches :: int
  fa_max_tokens :: int

definition provenance_keys :: "ustr list" where
  "provenance_keys = [u ''source_id'', u ''source_run_id'', u ''source_record_id'', u ''source_facts_sha256'']"

definition frozen_row :: "onet_env \<Rightarrow> onet_index \<Rightarrow> freeze_args \<Rightarrow> json \<Rightarrow> run_error + json" where
  "frozen_row E ix args v =
     (case v of
        JObj row \<Rightarrow>
          let facts = get_either row ''source_facts'' ''source_fields'' JNull in
          rbind (admitted_value facts) (\<lambda>fs.
          rbind (of_onet (shortlist E ix fs (JInt (fa_candidate_limit args)))) (\<lambda>candidates.
          rbind (of_onet (build_request E fs candidates (JInt (fa_max_matches args)) (fa_max_tokens args) onet_model))
            (\<lambda>request.
          rbind (rmap (need row) provenance_keys) (\<lambda>provenance.
          Inr (JObj ([(u ''posting_identity'', get_either row ''posting_identity'' ''posting_id'' JNull)]
            @ zip provenance_keys provenance
            @ [(u ''source_fields'', JObj fs), (u ''source_facts'', facts),
               (u ''candidates'', JArr (map shortlisted_json candidates)), (u ''request_body'', request),
               (u ''admission_decision'', admission_json (admission_decision E fs)),
               (u ''physician_eligibility_decision'', physician_json (physician_eligibility E fs))]))))))
      | _ \<Rightarrow> Inl Run_other)"

text \<open>
  \<open>sorted(rows, key=...)\<close>. The keys of a checked cohort are texts; rows with other keys are refused here as the
  mixed keys are that Python cannot compare.
\<close>

definition row_key :: "json \<Rightarrow> run_error + ustr \<times> json" where
  "row_key v =
     (case v of
        JObj row \<Rightarrow> (case get_either row ''posting_id'' ''posting_identity'' JNull of
          JStr s \<Rightarrow> Inr (s, v) | _ \<Rightarrow> Inl Run_other)
      | _ \<Rightarrow> Inl Run_other)"

definition freeze_rows :: "onet_env \<Rightarrow> onet_index \<Rightarrow> freeze_args \<Rightarrow> json list \<Rightarrow> run_error + json list" where
  "freeze_rows E ix args rows =
     rbind (rmap row_key rows) (\<lambda>keyed. rmap (frozen_row E ix args) (map snd (sort_key fst keyed)))"

definition policy_settings :: "onet_env \<Rightarrow> (ustr \<times> json) list" where
  "policy_settings E =
     [(u ''admission_policy_sha256'', JStr (on_admission_hash E)),
      (u ''admission_policy_version'', JStr admission_version),
      (u ''physician_eligibility_policy_sha256'', JStr (on_physician_hash E)),
      (u ''physician_eligibility_policy_version'', JStr physician_version)]"

section \<open>Verification of the frozen rows\<close>

text \<open>The frozen fields are those of the frozen facts.\<close>

definition row_fields :: "run_calls \<Rightarrow> string \<Rightarrow> (ustr \<times> json) list \<Rightarrow> run_error + source_fields" where
  "row_fields C msg row =
     rbind (need row (u ''source_facts'')) (\<lambda>facts.
     rbind (admitted_value facts) (\<lambda>fs.
     rbind (need row (u ''source_fields'')) (\<lambda>frozen.
       if rc_canonical C (JObj fs) \<noteq> rc_canonical C frozen then run_failure msg else Inr fs)))"

definition verify_admission_row :: "run_calls \<Rightarrow> onet_env \<Rightarrow> ustr \<Rightarrow> json \<Rightarrow> run_error + unit" where
  "verify_admission_row C E policy_hash v =
     (case v of
        JObj row \<Rightarrow>
          rbind (row_fields C ''Admission source fields differ from original frozen source facts'' row) (\<lambda>fs.
          let a = admission_decision E fs in
          if ad_sha256 a \<noteq> policy_hash \<or> ad_version a \<noteq> admission_version
            \<or> rc_canonical C (admission_json a) \<noteq> rc_canonical C (jget row (u ''admission_decision''))
          then run_failure ''Frozen admission decision differs from retained code/source facts''
          else if ad_outcome a \<noteq> Exclude then Inr ()
          else rbind (need row (u ''candidates'')) (\<lambda>candidates.
            if json_truthy candidates
            then run_failure ''Excluded non-vacancy input must have an empty candidate shortlist''
            else Inr ()))
      | _ \<Rightarrow> Inl Run_other)"

definition row_has :: "string \<Rightarrow> json \<Rightarrow> bool" where
  "row_has key v = (case v of JObj row \<Rightarrow> map_of row (u key) \<noteq> None | _ \<Rightarrow> False)"

definition verify_frozen_admission ::
    "run_calls \<Rightarrow> onet_env \<Rightarrow> (ustr \<times> json) list \<Rightarrow> json list \<Rightarrow> run_error + unit" where
  "verify_frozen_admission C E settings rows =
     (let policy_hash = jget settings (u ''admission_policy_sha256'');
          required = run_failure ''Frozen admission decisions require an immutable policy hash''
      in if policy_hash = JNull \<and> \<not> list_ex (row_has ''admission_decision'') rows then Inr ()
         else (case policy_hash of
           JStr h \<Rightarrow>
             if \<not> is_sha256 h then required
             else if h \<noteq> on_admission_hash E
               \<or> jget settings (u ''admission_policy_version'') \<noteq> JStr admission_version
             then run_failure ''Frozen admission policy differs from the retained retrieval code''
             else rall (verify_admission_row C E h) rows
         | _ \<Rightarrow> required))"

definition offered_code :: "json \<Rightarrow> run_error + ustr" where
  "offered_code v =
     (case v of
        JObj c \<Rightarrow> (case map_of c (u ''occupation_code'') of Some (JStr code) \<Rightarrow> Inr code | _ \<Rightarrow> Inl Run_other)
      | _ \<Rightarrow> Inl Run_other)"

definition verify_physician_row :: "run_calls \<Rightarrow> onet_env \<Rightarrow> ustr \<Rightarrow> json \<Rightarrow> run_error + unit" where
  "verify_physician_row C E policy_hash v =
     (case v of
        JObj row \<Rightarrow>
          rbind (row_fields C ''Physician eligibility decision differs from retained code/source'' row) (\<lambda>fs.
          let p = physician_eligibility E fs in
          if pp_sha256 p \<noteq> policy_hash \<or> pp_version p \<noteq> physician_version
            \<or> rc_canonical C (physician_json p) \<noteq> rc_canonical C (jget row (u ''physician_eligibility_decision''))
          then run_failure ''Physician eligibility decision differs from retained code/source''
          else rbind (need row (u ''candidates'')) (\<lambda>candidates.
            (case candidates of
               JArr cs \<Rightarrow> rbind (rmap offered_code cs) (\<lambda>offered.
                 let guarded = set physician_codes; eligible = set (pp_eligible p) in
                 if \<not> eligible \<subseteq> guarded \<or> set offered \<inter> (guarded - eligible) \<noteq> {}
                   \<or> pp_only p \<and> \<not> set offered \<subseteq> eligible
                 then run_failure ''Frozen shortlist bypasses the physician eligibility policy''
                 else Inr ())
             | _ \<Rightarrow> Inl Run_other)))
      | _ \<Rightarrow> Inl Run_other)"

definition verify_frozen_physician_eligibility ::
    "run_calls \<Rightarrow> onet_env \<Rightarrow> (ustr \<times> json) list \<Rightarrow> json list \<Rightarrow> run_error + unit" where
  "verify_frozen_physician_eligibility C E settings rows =
     (let policy_hash = jget settings (u ''physician_eligibility_policy_sha256'');
          required = run_failure ''Physician eligibility requires its immutable policy hash''
      in if policy_hash = JNull \<and> \<not> list_ex (row_has ''physician_eligibility_decision'') rows then Inr ()
         else (case policy_hash of
           JStr h \<Rightarrow>
             if \<not> is_sha256 h then required
             else if h \<noteq> on_physician_hash E
               \<or> jget settings (u ''physician_eligibility_policy_version'') \<noteq> JStr physician_version
             then run_failure ''Physician eligibility differs from retained retrieval code''
             else rall (verify_physician_row C E h) rows
         | _ \<Rightarrow> required))"

text \<open>\<open>freeze\<close> without a continuation: the frozen rows and the counts; files and the clock are left out.\<close>

definition freeze ::
    "run_calls \<Rightarrow> onet_env \<Rightarrow> freeze_args \<Rightarrow> ustr \<Rightarrow> json \<Rightarrow> (ustr \<times> json) list
     \<Rightarrow> run_error + json list \<times> (ustr \<times> int) list" where
  "freeze C E args release rows catalogue =
     rbind (check_cohort E rows cohort_counts) (\<lambda>counts.
     if jget catalogue (u ''release_id'') \<noteq> JStr release
     then run_failure ''Catalogue release differs from the exact requested pin''
     else rbind (of_onet (catalogue_index E catalogue)) (\<lambda>ix.
          rbind (freeze_rows E ix args (case rows of JArr vs \<Rightarrow> vs | _ \<Rightarrow> [])) (\<lambda>frozen.
          rbind (verify_frozen_admission C E (policy_settings E) frozen) (\<lambda>_.
          rbind (verify_frozen_physician_eligibility C E (policy_settings E) frozen) (\<lambda>_.
          Inr (frozen, counts))))))"

section \<open>Chunks\<close>

text \<open>The bytes of a character between the quotes of \<open>json.dumps(..., ensure_ascii=False)\<close>, encoded.\<close>

definition quoted_bytes :: "nat \<Rightarrow> nat option" where
  "quoted_bytes c =
     (if c \<in> {34, 92, 8, 9, 10, 12, 13} then Some 2 else if c < 32 then Some 6
      else map_option length (utf8_char c))"

fun text_bytes :: "ustr \<Rightarrow> run_error + nat" where
  "text_bytes [] = Inr 2"
| "text_bytes (c # s) =
     (case quoted_bytes c of None \<Rightarrow> Inl Run_other | Some n \<Rightarrow> rbind (text_bytes s) (\<lambda>m. Inr (n + m)))"

text \<open>\<open>max(0, n - 1) * 2\<close>.\<close>

definition separators :: "nat \<Rightarrow> nat" where
  "separators n = (n - 1) * 2"

fun jsonb_text_bytes :: "run_calls \<Rightarrow> json \<Rightarrow> run_error + nat"
  and jsonb_items_bytes :: "run_calls \<Rightarrow> json list \<Rightarrow> run_error + nat"
  and jsonb_pairs_bytes :: "run_calls \<Rightarrow> (ustr \<times> json) list \<Rightarrow> run_error + nat"
where
  "jsonb_text_bytes C JNull = Inr 4"
| "jsonb_text_bytes C (JBool b) = Inr (if b then 4 else 5)"
| "jsonb_text_bytes C (JStr s) = text_bytes s"
| "jsonb_text_bytes C (JInt i) = Inr (length (int_str i))"
| "jsonb_text_bytes C (JFloat r) =
     (case rc_float C r of None \<Rightarrow> run_failure ''Frozen JSON contains a non-finite number'' | Some n \<Rightarrow> Inr n)"
| "jsonb_text_bytes C (JArr vs) = rbind (jsonb_items_bytes C vs) (\<lambda>n. Inr (2 + n + separators (length vs)))"
| "jsonb_text_bytes C (JObj kvs) = rbind (jsonb_pairs_bytes C kvs) (\<lambda>n. Inr (2 + n + separators (length kvs)))"
| "jsonb_items_bytes C [] = Inr 0"
| "jsonb_items_bytes C (v # vs) =
     rbind (jsonb_text_bytes C v) (\<lambda>n. rbind (jsonb_items_bytes C vs) (\<lambda>m. Inr (n + m)))"
| "jsonb_pairs_bytes C [] = Inr 0"
| "jsonb_pairs_bytes C ((k, v) # kvs) =
     rbind (text_bytes k) (\<lambda>a. rbind (jsonb_text_bytes C v) (\<lambda>b.
     rbind (jsonb_pairs_bytes C kvs) (\<lambda>m. Inr (a + 2 + b + m))))"

record freeze_chunk =
  fk_start :: nat
  fk_rows :: "json list"
  fk_size :: nat

text \<open>One row: the chunks that are closed, and the open one.\<close>

definition add_row ::
    "run_calls \<Rightarrow> nat \<Rightarrow> nat \<Rightarrow> freeze_chunk list \<times> freeze_chunk \<Rightarrow> nat \<times> json
     \<Rightarrow> run_error + freeze_chunk list \<times> freeze_chunk" where
  "add_row C max_rows max_bytes st x =
     (case (st, x) of ((full, chunk), (ordinal, row)) \<Rightarrow>
        rbind (jsonb_text_bytes C row) (\<lambda>row_size.
          if max_bytes < row_size + 2
          then Inl (Run_error (u ''Frozen row exceeds JSONB chunk bound at ordinal '' @ nat_str ordinal))
          else
            let addition = row_size + (if fk_rows chunk = [] then 0 else 2) in
            if fk_rows chunk \<noteq> [] \<and> (length (fk_rows chunk) = max_rows \<or> max_bytes < fk_size chunk + addition)
            then Inr (full @ [chunk], \<lparr>fk_start = ordinal, fk_rows = [row], fk_size = 2 + row_size\<rparr>)
            else Inr (full, chunk\<lparr>fk_rows := fk_rows chunk @ [row], fk_size := fk_size chunk + addition\<rparr>)))"

definition bounded_freeze_chunks ::
    "run_calls \<Rightarrow> json list \<Rightarrow> nat \<Rightarrow> nat \<Rightarrow> run_error + freeze_chunk list" where
  "bounded_freeze_chunks C rows max_rows max_bytes =
     (if \<not> (1 \<le> max_rows \<and> max_rows \<le> 500) \<or> \<not> (2 \<le> max_bytes \<and> max_bytes \<le> 16777216)
      then run_failure ''Invalid bounded freeze policy''
      else rbind (rfold (add_row C max_rows max_bytes) ([], \<lparr>fk_start = 1, fk_rows = [], fk_size = 2\<rparr>)
              (enumerate 1 rows)) (\<lambda>(full, chunk).
        Inr (if fk_rows chunk = [] then full else full @ [chunk])))"

end
