(* ===== verification/OnetFreezeFacts.thy ===== *)
theory OnetFreezeFacts
  imports OnetFreeze ShortlistRank
begin

text \<open>
  The chunks of the frozen rows are complete and bounded, and what is frozen passes the verification that
  every later stage runs.
\<close>

section \<open>Chunks\<close>

definition chunk_ok :: "run_calls \<Rightarrow> nat \<Rightarrow> nat \<Rightarrow> freeze_chunk \<Rightarrow> bool" where
  "chunk_ok C max_rows max_bytes k \<longleftrightarrow> fk_rows k \<noteq> [] \<and> length (fk_rows k) \<le> max_rows
     \<and> fk_size k \<le> max_bytes \<and> jsonb_text_bytes C (JArr (fk_rows k)) = Inr (fk_size k)"

definition chunk_rows :: "freeze_chunk list \<Rightarrow> json list" where
  "chunk_rows ks = concat (map fk_rows ks)"

fun starts_ok :: "nat \<Rightarrow> freeze_chunk list \<Rightarrow> bool" where
  "starts_ok n [] = True"
| "starts_ok n (k # ks) \<longleftrightarrow> fk_start k = n \<and> starts_ok (n + length (fk_rows k)) ks"

lemma starts_ok_append [simp]:
  "starts_ok n (xs @ ys) \<longleftrightarrow> starts_ok n xs \<and> starts_ok (n + length (chunk_rows xs)) ys"
  by (induction xs arbitrary: n) (auto simp: chunk_rows_def add.assoc)

lemma chunk_rows_append [simp]: "chunk_rows (xs @ ys) = chunk_rows xs @ chunk_rows ys"
  by (simp add: chunk_rows_def)

lemma items_bytes_append:
  "jsonb_items_bytes C (vs @ [v]) =
     rbind (jsonb_items_bytes C vs) (\<lambda>m. rbind (jsonb_text_bytes C v) (\<lambda>n. Inr (m + n)))"
  by (induction vs) (auto simp: rbind_def split: sum.splits)

text \<open>The open chunk has its size from the first row on.\<close>

definition chunks_ok :: "run_calls \<Rightarrow> nat \<Rightarrow> nat \<Rightarrow> json list \<Rightarrow> freeze_chunk list \<times> freeze_chunk \<Rightarrow> bool" where
  "chunks_ok C max_rows max_bytes rows st \<longleftrightarrow> (case st of (full, chunk) \<Rightarrow>
     list_all (chunk_ok C max_rows max_bytes) full \<and> chunk_rows (full @ [chunk]) = rows \<and> starts_ok 1 (full @ [chunk])
     \<and> length (fk_rows chunk) \<le> max_rows \<and> fk_size chunk \<le> max_bytes
     \<and> jsonb_text_bytes C (JArr (fk_rows chunk)) = Inr (fk_size chunk))"

lemma jsonb_rows_append:
  assumes "jsonb_text_bytes C (JArr vs) = Inr n" and "jsonb_text_bytes C v = Inr m"
  shows "jsonb_text_bytes C (JArr (vs @ [v])) = Inr (n + m + (if vs = [] then 0 else 2))"
  using assms by (cases vs) (auto simp: items_bytes_append rbind_def separators_def split: sum.splits)

lemma add_row_ok:
  assumes ok: "chunks_ok C max_rows max_bytes rows st" and "0 < max_rows"
    and step: "add_row C max_rows max_bytes st (Suc (length rows), row) = Inr st'"
  shows "chunks_ok C max_rows max_bytes (rows @ [row]) st'"
proof -
  obtain full chunk where st: "st = (full, chunk)" by (cases st)
  obtain n where n: "jsonb_text_bytes C row = Inr n"
    using step by (auto simp: st add_row_def rbind_def split: sum.splits)
  note facts = ok [unfolded chunks_ok_def st prod.case]
  have small: "n + 2 \<le> max_bytes"
    using step n by (auto simp: st add_row_def rbind_def split: if_splits)
  have single: "jsonb_text_bytes C (JArr [row]) = Inr (2 + n)" using n by (simp add: rbind_def separators_def)
  let ?add = "n + (if fk_rows chunk = [] then 0 else 2)"
  show ?thesis
  proof (cases "fk_rows chunk \<noteq> [] \<and> (length (fk_rows chunk) = max_rows \<or> max_bytes < fk_size chunk + ?add)")
    case True
    then have "st' = (full @ [chunk], \<lparr>fk_start = Suc (length rows), fk_rows = [row], fk_size = 2 + n\<rparr>)"
      using step n small by (simp add: st add_row_def rbind_def Let_def split: if_splits)
    then show ?thesis
      using facts True single small assms(2)
      by (auto simp: chunks_ok_def chunk_ok_def chunk_rows_def simp del: jsonb_text_bytes.simps(6))
  next
    case False
    then have st': "st' = (full, chunk\<lparr>fk_rows := fk_rows chunk @ [row], fk_size := fk_size chunk + ?add\<rparr>)"
      using step n small by (simp only: st add_row_def rbind_def Let_def prod.case sum.case if_False) simp
    have "jsonb_text_bytes C (JArr (fk_rows chunk @ [row])) = Inr (fk_size chunk + ?add)"
      using jsonb_rows_append [OF _ n] facts by simp
    then show ?thesis
      using facts False small assms(2) single
      by (auto simp: st' chunks_ok_def chunk_rows_def simp del: jsonb_text_bytes.simps(6) split: if_splits)
  qed
qed

lemma add_rows_ok:
  "0 < max_rows \<Longrightarrow> chunks_ok C max_rows max_bytes rows st \<Longrightarrow>
     rfold (add_row C max_rows max_bytes) st (enumerate (Suc (length rows)) more_rows) = Inr st' \<Longrightarrow>
     chunks_ok C max_rows max_bytes (rows @ more_rows) st'"
proof (induction more_rows arbitrary: rows st)
  case (Cons row more_rows)
  obtain st1 where st1: "add_row C max_rows max_bytes st (Suc (length rows), row) = Inr st1"
      "rfold (add_row C max_rows max_bytes) st1 (enumerate (Suc (length (rows @ [row]))) more_rows) = Inr st'"
    using Cons.prems(3) by (auto simp: rbind_def split: sum.splits)
  then show ?case using Cons.IH [OF Cons.prems(1) add_row_ok [OF Cons.prems(2,1) st1(1)] st1(2)] by simp
qed simp

definition row_unsendable :: "run_calls \<Rightarrow> nat \<Rightarrow> json \<Rightarrow> bool" where
  "row_unsendable C max_bytes row = (case jsonb_text_bytes C row of Inl _ \<Rightarrow> True | Inr n \<Rightarrow> max_bytes < n + 2)"

lemma add_rows_total:
  "\<not> list_ex (row_unsendable C max_bytes) rows \<Longrightarrow>
     \<exists>st'. rfold (add_row C max_rows max_bytes) st (enumerate n rows) = Inr st'"
proof (induction rows arbitrary: n st)
  case (Cons row rows)
  have "\<exists>st1. add_row C max_rows max_bytes st (n, row) = Inr st1"
    using Cons.prems by (auto simp: add_row_def row_unsendable_def rbind_def Let_def split: sum.splits prod.splits)
  then show ?case using Cons.IH Cons.prems by (fastforce simp: rbind_def)
qed simp

text \<open>
  C20: The frozen rows are sent completely and in bounded pieces. The chunks hold the rows in their order,
  each once; every chunk has at least one row and at most the stated number, the ordinal it starts with is
  the position of its first row, and its size is exactly the length of its JSONB text and within the
  bound. The split is refused only for a bound outside its limits, or a row that has no JSONB text or
  does not fit into a chunk.
\<close>

theorem freeze_chunks_complete:
  "case bounded_freeze_chunks C rows max_rows max_bytes of
     Inr ks \<Rightarrow> chunk_rows ks = rows \<and> starts_ok 1 ks \<and> list_all (chunk_ok C max_rows max_bytes) ks
   | Inl _ \<Rightarrow> max_rows < 1 \<or> 500 < max_rows \<or> max_bytes < 2 \<or> 16777216 < max_bytes
       \<or> list_ex (row_unsendable C max_bytes) rows"
proof (cases "1 \<le> max_rows \<and> max_rows \<le> 500 \<and> 2 \<le> max_bytes \<and> max_bytes \<le> 16777216")
  case False
  then show ?thesis by (auto simp: bounded_freeze_chunks_def run_failure_def)
next
  case limits: True
  let ?start = "\<lparr>fk_start = 1, fk_rows = [], fk_size = 2\<rparr>"
  have start: "chunks_ok C max_rows max_bytes [] ([], ?start)"
    using limits by (simp add: chunks_ok_def chunk_rows_def rbind_def separators_def)
  show ?thesis
  proof (cases "rfold (add_row C max_rows max_bytes) ([], ?start) (enumerate 1 rows)")
    case (Inl e)
    have "list_ex (row_unsendable C max_bytes) rows" using add_rows_total Inl by (metis Inl_Inr_False)
    then show ?thesis using limits Inl by (simp add: bounded_freeze_chunks_def)
  next
    case (Inr st)
    obtain full chunk where st: "st = (full, chunk)" by (cases st)
    have ok: "chunks_ok C max_rows max_bytes rows (full, chunk)"
      using add_rows_ok [OF _ start, of rows st] limits Inr by (simp add: st)
    have "bounded_freeze_chunks C rows max_rows max_bytes = Inr (if fk_rows chunk = [] then full else full @ [chunk])"
      using limits Inr by (simp add: bounded_freeze_chunks_def st rbind_def)
    then show ?thesis
      using ok by (auto simp: chunks_ok_def chunk_ok_def chunk_rows_def simp del: jsonb_text_bytes.simps(6))
  qed
qed

section \<open>What is frozen passes the verification\<close>

lemma shortlist_offered:
  assumes "index_ok ix" and "shortlist E ix fs (JInt n) = Inr cs"
  shows "ad_outcome (admission_decision E fs) = Exclude \<Longrightarrow> cs = []"
    and "c \<in> set cs \<Longrightarrow> offered_to (physician_eligibility E fs) (candidate_code c)"
proof -
  have n: "1 \<le> n" "n \<le> 40" using assms(2) by (simp_all add: shortlist_def split: if_splits)
  have "list_all2 (candidate_for E ix fs) (enumerate 1 (chosen E ix fs (nat n))) cs"
    using shortlist_chosen [OF assms(1) n, of E fs] assms(2) by simp
  then have codes: "map (ot_code \<circ> oc_term) cs = chosen E ix fs (nat n)" using enumerate_candidates by blast
  then show "cs = []" if "ad_outcome (admission_decision E fs) = Exclude" using that by (simp add: chosen_def)
  show "offered_to (physician_eligibility E fs) (candidate_code c)" if "c \<in> set cs"
  proof -
    have "candidate_code c \<in> set (chosen E ix fs (nat n))"
      using that by (simp add: codes [symmetric] candidate_code_def)
    then show ?thesis
      using ranked_codes_facts(3) [OF scores_distinct] by (fastforce simp: chosen_def split: if_splits)
  qed
qed

lemma rmap_in: "rmap f xs = Inr ys \<Longrightarrow> y \<in> set ys \<Longrightarrow> \<exists>x \<in> set xs. f x = Inr y"
  by (induction xs arbitrary: ys) (auto simp: rbind_Inr_iff)

lemma provenance_skip:
  assumes "key \<notin> set provenance_keys"
  shows "(m ++ map_of (zip provenance_keys vs)) key = m key"
proof -
  have "map_of (zip provenance_keys vs) key = None"
    using assms by (auto simp: map_of_eq_None_iff dest: set_zip_leftD)
  then show ?thesis by (simp add: map_add_def)
qed

lemma of_onet_Inr_iff: "of_onet r = Inr x \<longleftrightarrow> r = Inr x"
  by (cases r) (simp_all add: of_onet_def)

lemma frozen_row_fields:
  assumes "frozen_row E ix args v = Inr r"
  obtains row fs facts cs where "r = JObj row" "admitted_value facts = Inr fs"
    "shortlist E ix fs (JInt (fa_candidate_limit args)) = Inr cs"
    "map_of row (u ''source_facts'') = Some facts" "map_of row (u ''source_fields'') = Some (JObj fs)"
    "map_of row (u ''candidates'') = Some (JArr (map shortlisted_json cs))"
    "map_of row (u ''admission_decision'') = Some (admission_json (admission_decision E fs))"
    "map_of row (u ''physician_eligibility_decision'') = Some (physician_json (physician_eligibility E fs))"
proof -
  obtain kvs where v: "v = JObj kvs" using assms by (cases v) (simp_all add: frozen_row_def)
  define facts where "facts = get_either kvs ''source_facts'' ''source_fields'' JNull"
  obtain fs cs request provenance where parts: "admitted_value facts = Inr fs"
      "shortlist E ix fs (JInt (fa_candidate_limit args)) = Inr cs"
    and r: "r = JObj ((u ''posting_identity'', get_either kvs ''posting_identity'' ''posting_id'' JNull)
      # zip provenance_keys provenance
      @ [(u ''source_fields'', JObj fs), (u ''source_facts'', facts),
         (u ''candidates'', JArr (map shortlisted_json cs)), (u ''request_body'', request),
         (u ''admission_decision'', admission_json (admission_decision E fs)),
         (u ''physician_eligibility_decision'', physician_json (physician_eligibility E fs))])"
    using assms by (auto simp: frozen_row_def v Let_def facts_def [symmetric] of_onet_Inr_iff rbind_Inr_iff)
  have new: "k \<notin> set provenance_keys" "k \<noteq> u ''posting_identity''"
    if "k \<in> {u ''source_fields'', u ''source_facts'', u ''candidates'', u ''admission_decision'',
        u ''physician_eligibility_decision''}" for k
    using that by (auto simp: provenance_keys_def)
  show thesis
    by (rule that [OF r parts]) (simp_all add: new provenance_skip)
qed

lemma offered_codes: "rmap offered_code (map shortlisted_json cs) = Inr (map candidate_code cs)"
  by (induction cs) (simp_all add: offered_code_def shortlisted_json_def)

lemma row_fields_frozen:
  assumes "map_of row (u ''source_facts'') = Some facts" and "admitted_value facts = Inr fs"
    and "map_of row (u ''source_fields'') = Some (JObj fs)"
  shows "row_fields C msg row = Inr fs"
  using assms by (simp add: row_fields_def need_def)

lemma eligible_guarded: "set (pp_eligible (physician_eligibility E fs)) \<subseteq> set physician_codes"
  using read_fields_grounded [of fs "on_chars E"]
  by (auto simp: physician_eligibility_def quotes_grounded_def Let_def)

lemma policy_hashes [simp]:
  "ad_sha256 (admission_decision E fs) = on_admission_hash E" "ad_version (admission_decision E fs) = admission_version"
  "pp_sha256 (physician_eligibility E fs) = on_physician_hash E" "pp_version (physician_eligibility E fs) = physician_version"
  by (simp_all add: admission_decision_def admission_base_def physician_eligibility_def Let_def split: option.splits)

lemma frozen_row_verifies:
  assumes ix: "index_ok ix" and frozen: "frozen_row E ix args v = Inr r"
  shows "verify_admission_row C E (on_admission_hash E) r = Inr ()"
    and "verify_physician_row C E (on_physician_hash E) r = Inr ()"
proof -
  obtain row fs facts cs where r: "r = JObj row" and fs: "admitted_value facts = Inr fs"
    and cs: "shortlist E ix fs (JInt (fa_candidate_limit args)) = Inr cs"
    and at: "map_of row (u ''source_facts'') = Some facts" "map_of row (u ''source_fields'') = Some (JObj fs)"
      "map_of row (u ''candidates'') = Some (JArr (map shortlisted_json cs))"
      "map_of row (u ''admission_decision'') = Some (admission_json (admission_decision E fs))"
      "map_of row (u ''physician_eligibility_decision'') = Some (physician_json (physician_eligibility E fs))"
    using frozen by (rule frozen_row_fields)
  note offered = shortlist_offered [OF ix cs]
  show "verify_admission_row C E (on_admission_hash E) r = Inr ()"
    using offered(1) by (simp add: r verify_admission_row_def row_fields_frozen [OF at(1) fs at(2)] Let_def jget_def
        at need_def)
  have "offered_to (physician_eligibility E fs) code" if "code \<in> candidate_code ` set cs" for code
    using that offered(2) by blast
  then have "candidate_code ` set cs \<inter> (set physician_codes - set (pp_eligible (physician_eligibility E fs))) = {}"
    and "pp_only (physician_eligibility E fs) \<Longrightarrow> candidate_code ` set cs \<subseteq> set (pp_eligible (physician_eligibility E fs))"
    unfolding offered_to_def by blast+
  then show "verify_physician_row C E (on_physician_hash E) r = Inr ()"
    using eligible_guarded [of E fs]
    by (auto simp: r verify_physician_row_def row_fields_frozen [OF at(1) fs at(2)] Let_def jget_def at need_def
        offered_codes)
qed


section \<open>An example\<close>

lemma of_onet_Inr [simp]: "of_onet (Inr x) = Inr x"
  by (simp add: of_onet_def)

lemma frozen_row_returns:
  assumes ix: "index_ok ix" and limits: "1 \<le> fa_candidate_limit args" "fa_candidate_limit args \<le> 40"
      "1 \<le> fa_max_matches args" "fa_max_matches args \<le> 3" "256 \<le> fa_max_tokens args" "fa_max_tokens args \<le> 2048"
    and facts: "get_either row ''source_facts'' ''source_fields'' JNull = JObj facts"
    and keys: "set provenance_keys \<subseteq> fst ` set row"
  shows "\<exists>r. frozen_row E ix args (JObj row) = Inr r"
proof -
  obtain cs where cs: "shortlist E ix (admitted_fields facts) (JInt (fa_candidate_limit args)) = Inr cs"
      "list_all2 (candidate_for E ix (admitted_fields facts))
         (enumerate 1 (chosen E ix (admitted_fields facts) (nat (fa_candidate_limit args)))) cs"
    using shortlist_chosen [OF ix limits(1,2)] by blast
  have "length (chosen E ix (admitted_fields facts) n) \<le> n" for n
    by (simp add: chosen_def ranked_codes_def)
  then have "length cs \<le> nat (fa_candidate_limit args)" using list_all2_lengthD [OF cs(2)] by (metis length_enumerate)
  then have "length cs \<le> 40" using limits(2) by linarith
  then have "\<exists>q. build_request E (admitted_fields facts) cs (JInt (fa_max_matches args)) (fa_max_tokens args) onet_model = Inr q"
    using limits by (simp add: build_request_def build_messages_def match_limit_def)
  then obtain q where q: "build_request E (admitted_fields facts) cs (JInt (fa_max_matches args)) (fa_max_tokens args)
      onet_model = Inr q" by blast
  have "\<exists>vs. rmap (need row) ks = Inr vs" if "set ks \<subseteq> fst ` set row" for ks
    using that
  proof (induction ks)
    case (Cons k ks)
    then have "map_of row k \<noteq> None" by (simp add: map_of_eq_None_iff)
    then show ?case using Cons by (auto simp: need_def)
  qed simp
  from this [OF keys] obtain vs where "rmap (need row) provenance_keys = Inr vs" by blast
  then show ?thesis using cs(1) q by (simp add: frozen_row_def facts Let_def admitted_value_def)
qed

definition example_args :: freeze_args where
  "example_args = \<lparr>fa_candidate_limit = 24, fa_max_matches = 3, fa_max_tokens = 768\<rparr>"

definition example_source_row :: "(ustr \<times> json) list" where
  "example_source_row = [(u ''posting_id'', JStr (u ''job-alio:posting:1'')), (u ''source_id'', JStr (u ''job_alio'')),
     (u ''source_run_id'', JStr (u ''run-1'')), (u ''source_record_id'', JStr (u ''record-1'')),
     (u ''source_facts_sha256'', JStr (replicate 64 97)), (u ''source_facts'', JObj example_specialist)]"


end
