(* ===== verification/OnetBatches.thy ===== *)
theory OnetBatches
  imports OnetFreeze
begin

text \<open>
  The supervised batches of \<open>hop/operations/run_onet_matches.py\<close>: which postings a batch asks about, the
  guards on the state of the database, and the loop over batches. Every answer of the database and every
  native run is an argument; what is recorded is each batch that was planned and each native run.
\<close>

section \<open>Which postings\<close>

text \<open>The identity and the source of a row of an accepted manifest, which are texts.\<close>

definition row_pair :: "json \<Rightarrow> run_error + ustr \<times> ustr" where
  "row_pair v =
     (case v of
        JObj row \<Rightarrow> (case (jget row (u ''posting_identity''), jget row (u ''source_id'')) of
          (JStr posting, JStr source) \<Rightarrow> Inr (posting, source) | _ \<Rightarrow> Inl Run_other)
      | _ \<Rightarrow> Inl Run_other)"

definition sorted_sources :: "ustr list" where
  "sorted_sources = sorted_set (map fst cohort_counts)"

type_synonym posting_rows = "(ustr \<times> ustr) list"

definition members :: "posting_rows \<Rightarrow> ustr list \<Rightarrow> ustr \<Rightarrow> ustr list" where
  "members rows eligible source = map fst (filter (\<lambda>(posting, s). s = source \<and> posting \<in> set eligible) rows)"

definition pilot_ids :: "run_calls \<Rightarrow> posting_rows \<Rightarrow> ustr list \<Rightarrow> nat \<Rightarrow> ustr list" where
  "pilot_ids C rows eligible per_source =
     concat (map (\<lambda>source. take per_source (sort_key (\<lambda>posting. (rc_digest C (u ''onet-pilot-v1:'' @ posting), posting))
       (members rows eligible source))) sorted_sources)"

text \<open>One round over the sources: the next posting of each that has one, up to the limit.\<close>

fun balanced_round :: "nat \<Rightarrow> ustr list \<Rightarrow> ustr list list \<Rightarrow> ustr list \<times> ustr list list" where
  "balanced_round limit selected [] = (selected, [])"
| "balanced_round limit selected ([] # queues) =
     (case balanced_round limit selected queues of (s, qs) \<Rightarrow> (s, [] # qs))"
| "balanced_round limit selected ((posting # queue) # queues) =
     (let selected' = selected @ [posting] in
      if length selected' = limit then (selected', queue # queues)
      else (case balanced_round limit selected' queues of (s, qs) \<Rightarrow> (s, queue # qs)))"

lemma balanced_round_rest:
  "balanced_round limit selected queues = (s, qs) \<Longrightarrow>
     length selected \<le> length s
     \<and> length s + sum_list (map length qs) = length selected + sum_list (map length queues)"
proof (induction queues arbitrary: selected s qs)
  case (Cons queue queues)
  show ?case
  proof (cases queue)
    case Nil
    then show ?thesis using Cons by (auto split: prod.splits)
  next
    case (Cons posting rest)
    then show ?thesis using Cons.prems Cons.IH [of "selected @ [posting]"]
      by (auto simp: Let_def split: if_splits prod.splits)
  qed
qed simp

function balanced_loop :: "nat \<Rightarrow> ustr list \<Rightarrow> ustr list list \<Rightarrow> ustr list" where
  "balanced_loop limit selected queues =
     (if \<not> length selected < limit then selected
      else (case balanced_round limit selected queues of (s, qs) \<Rightarrow>
        if length s = length selected then s else balanced_loop limit s qs))"
  by pat_completeness auto

termination
proof (relation "measure (\<lambda>(limit, selected, queues). sum_list (map length queues))", simp)
  fix limit and selected s :: "ustr list" and queues qs
  assume grown: "length s \<noteq> length selected" and round: "(s, qs) = balanced_round limit selected queues"
  have "sum_list (map length qs) < sum_list (map length queues)"
    using balanced_round_rest [OF round [symmetric]] grown by linarith
  then show "((limit, s, qs), (limit, selected, queues))
      \<in> measure (\<lambda>(limit, selected, queues). sum_list (map length queues))"
    by simp
qed

definition balanced_ids :: "posting_rows \<Rightarrow> ustr list \<Rightarrow> nat \<Rightarrow> ustr list" where
  "balanced_ids rows eligible limit =
     balanced_loop limit [] (map (\<lambda>source. sort (members rows eligible source)) sorted_sources)"

text \<open>The explicit pilot; \<open>None\<close> is a file that is not JSON. The last row of an identity gives its source.\<close>

definition explicit_pilot_ids :: "json option \<Rightarrow> posting_rows \<Rightarrow> ustr list \<Rightarrow> run_error + ustr list" where
  "explicit_pilot_ids selected rows eligible =
     (case selected of
        None \<Rightarrow> run_failure ''Pilot posting-ID file must contain an exact JSON list''
      | Some (JArr vs) \<Rightarrow>
          if length vs \<noteq> 36
          then run_failure ''Explicit pilot requires a JSON list of exactly 36 posting IDs''
          else if list_ex (\<lambda>v. case v of JStr s \<Rightarrow> \<not> safe_id s | _ \<Rightarrow> True) vs
          then run_failure ''Explicit pilot posting IDs must be exact safe strings''
          else
            let ids = map (\<lambda>v. case v of JStr s \<Rightarrow> s | _ \<Rightarrow> []) vs; sources = map_of (List.rev rows) in
            if \<not> distinct ids then run_failure ''Explicit pilot posting IDs must be unique''
            else if list_ex (\<lambda>p. sources p = None) ids
            then run_failure ''Explicit pilot contains an ID outside the frozen source cohort''
            else if list_ex (\<lambda>p. p \<notin> set eligible) ids
            then run_failure ''Explicit pilot contains an already planned or sent posting''
            else if list_ex (\<lambda>s. length (filter (\<lambda>p. sources p = Some s) ids) \<noteq> 12) (map fst cohort_counts)
            then run_failure ''Explicit pilot requires exactly 12 frozen postings per source''
            else Inr ids
      | _ \<Rightarrow> run_failure ''Explicit pilot requires a JSON list of exactly 36 posting IDs'')"

section \<open>The guards\<close>

definition member_of :: "json \<Rightarrow> string \<Rightarrow> run_error + json" where
  "member_of v key = (case v of JObj kvs \<Rightarrow> Inr (jget kvs (u key)) | _ \<Rightarrow> Inl Run_other)"

text \<open>\<open>value or {}\<close>.\<close>

definition or_empty :: "json \<Rightarrow> json" where
  "or_empty v = (if json_truthy v then v else JObj [])"

definition require_idle :: "json \<Rightarrow> run_error + unit" where
  "require_idle state =
     rall (\<lambda>name. rbind (member_of state name) (\<lambda>v.
         if json_truthy v then Inl (Run_error (u ''Runtime is busy: '' @ u name)) else Inr ()))
       [''unfinished_refresh'', ''loading_runs'', ''retention_writers'', ''maintenance'']"

definition task_of :: "json \<Rightarrow> run_error + (ustr \<times> json) list" where
  "task_of state =
     rbind (member_of state ''task'') (\<lambda>v. case or_empty v of JObj task \<Rightarrow> Inr task | _ \<Rightarrow> Inl Run_other)"

definition require_accounting :: "run_calls \<Rightarrow> json \<Rightarrow> rat \<Rightarrow> run_error + unit" where
  "require_accounting C state reserve =
     rbind (task_of state) (\<lambda>task.
       if json_truthy (get_either task ''unknown_requests'' ''unknown_holds'' (JInt 0))
         \<or> jget task (u ''state'') \<in> {JStr (u ''COST_HOLD''), JStr (u ''UNKNOWN_CHARGE_HOLD'')}
       then run_failure ''Unknown provider charge requires reconciliation before any new call''
       else (case rc_amount C (get_either task ''accounted_usd'' ''accounting_usd'' (JStr (u ''0''))) of
         None \<Rightarrow> Inl Run_other
       | Some amount \<Rightarrow>
           if 40 < amount + reserve then run_failure ''Combined O*NET accounting cap exhausted'' else Inr ()))"

definition truthy_state :: "string list \<Rightarrow> json \<Rightarrow> run_error + bool" where
  "truthy_state names states =
     (case states of JObj kvs \<Rightarrow> Inr (list_ex (\<lambda>name. json_truthy (jget kvs (u name))) names) | _ \<Rightarrow> Inl Run_other)"

definition require_batch_complete :: "json \<Rightarrow> run_error + unit" where
  "require_batch_complete batch =
     (if \<not> json_truthy batch
      then run_failure ''Native batch stopped before complete processing; inspect its receipt''
      else rbind (member_of batch ''execution_state'') (\<lambda>execution.
        if execution \<noteq> JStr (u ''COMPLETE'')
        then run_failure ''Native batch stopped before complete processing; inspect its receipt''
        else rbind (member_of batch ''states'') (\<lambda>states.
          rbind (truthy_state [''PLANNED'', ''RESERVED'', ''BUDGET_BLOCKED'', ''ERROR''] (or_empty states)) (\<lambda>left.
            if left
            then run_failure ''Native batch left unsent or failed requests; inspect before continuing''
            else Inr ()))))"

section \<open>The batches\<close>

datatype batch_stage = Pilot | Full

record batch_args =
  ba_stage :: batch_stage
  ba_batch_id :: "ustr option"
  ba_batch_size :: nat
  ba_balanced :: bool
  ba_pilot_file :: "json option option"
  ba_sealed_count :: int
  ba_reserve :: rat
  ba_baseline :: json

text \<open>
  What the outside answers in one turn: the state before, the postings that may be asked about, the fresh
  identity of the batch, the answer to the plan, whether the deadline has passed, the native run, whether
  the artifacts are unchanged, and the state after.
\<close>

record batch_turn =
  bt_live :: json
  bt_eligible :: "ustr list"
  bt_fresh_id :: ustr
  bt_planned :: "run_error + unit"
  bt_in_time :: bool
  bt_native :: "run_error + unit"
  bt_artifacts_same :: bool
  bt_after :: json

datatype batch_event = Planned ustr "ustr list" | Native_run ustr

definition select_ids ::
    "run_calls \<Rightarrow> batch_args \<Rightarrow> posting_rows \<Rightarrow> ustr list \<Rightarrow> run_error + ustr list" where
  "select_ids C args rows eligible =
     (case ba_pilot_file args of
        Some file \<Rightarrow> explicit_pilot_ids file rows eligible
      | None \<Rightarrow> Inr (case ba_stage args of
          Pilot \<Rightarrow> pilot_ids C rows eligible 12
        | Full \<Rightarrow> if ba_balanced args then balanced_ids rows eligible (ba_batch_size args)
            else take (ba_batch_size args) eligible))"

text \<open>Up to the plan: \<open>None\<close> is that nothing is left to ask.\<close>

definition batch_selection ::
    "run_calls \<Rightarrow> batch_args \<Rightarrow> posting_rows \<Rightarrow> batch_turn \<Rightarrow> run_error + (ustr \<times> ustr list) option" where
  "batch_selection C args rows t =
     rbind (require_idle (bt_live t)) (\<lambda>_.
     rbind (task_of (bt_live t)) (\<lambda>task.
     if \<not> json_is_int (jget task (u ''frozen_input_count'')) (ba_sealed_count args)
     then run_failure ''Seal the exact authorized source cohort before execution''
     else rbind (truthy_state [''PLANNED'', ''RESERVED''] (or_empty (jget task (u ''states'')))) (\<lambda>open_batch.
     if open_batch
     then run_failure ''Resume the existing incomplete batch before planning new requests''
     else if bt_eligible t = [] \<and> ba_pilot_file args = None then Inr None
     else rbind (require_accounting C (bt_live t) (ba_reserve args)) (\<lambda>_.
     rbind (select_ids C args rows (bt_eligible t)) (\<lambda>selected.
     if ba_stage args = Pilot \<and> length selected \<noteq> 36
     then run_failure ''The balanced pilot requires 12 untouched rows per source''
     else if ba_stage args = Full \<and> \<not> json_truthy (jget task (u ''scale_approved''))
     then run_failure ''Measured pilot review is required before full-scale requests''
     else rbind (identity (case ba_batch_id args of Some b \<Rightarrow> b | None \<Rightarrow> bt_fresh_id t)) (\<lambda>batch_id.
     Inr (Some (batch_id, selected))))))))"

text \<open>After the native run.\<close>

definition batch_review :: "run_calls \<Rightarrow> batch_args \<Rightarrow> batch_turn \<Rightarrow> run_error + unit" where
  "batch_review C args t =
     (if \<not> bt_artifacts_same t
      then run_failure ''Native matcher artifact bytes changed during execution''
      else rbind (require_accounting C (bt_after t) 0) (\<lambda>_.
           rbind (member_of (bt_after t) ''batch'') (\<lambda>batch.
           rbind (require_batch_complete batch) (\<lambda>_.
           rbind (member_of (bt_after t) ''legacy_baseline'') (\<lambda>baseline.
             if baseline \<noteq> ba_baseline args
             then run_failure ''Existing source or NCS matcher baseline changed'' else Inr ())))))"

text \<open>One turn: whether the loop goes on, and what was done.\<close>

definition batch_turn_result ::
    "run_calls \<Rightarrow> batch_args \<Rightarrow> posting_rows \<Rightarrow> batch_turn \<Rightarrow> (run_error + bool) \<times> batch_event list" where
  "batch_turn_result C args rows t =
     (case batch_selection C args rows t of
        Inl e \<Rightarrow> (Inl e, [])
      | Inr None \<Rightarrow> (Inr False, [])
      | Inr (Some (batch_id, selected)) \<Rightarrow>
          let planned = [Planned batch_id selected] in
          (case bt_planned t of
             Inl e \<Rightarrow> (Inl e, planned)
           | Inr _ \<Rightarrow>
               if \<not> bt_in_time t
               then (run_failure ''The complete O*NET operation reached its wall-clock deadline'', planned)
               else
                 (case bt_native t of
                    Inl e \<Rightarrow> (Inl e, planned @ [Native_run batch_id])
                  | Inr _ \<Rightarrow>
                      (rbind (batch_review C args t) (\<lambda>_. Inr (ba_stage args = Full \<and> ba_batch_id args = None)),
                       planned @ [Native_run batch_id]))))"

text \<open>The loop, as far as there are answers; \<open>Inr True\<close> is that it still goes on.\<close>

fun batch_loop ::
    "run_calls \<Rightarrow> batch_args \<Rightarrow> posting_rows \<Rightarrow> batch_turn list \<Rightarrow> (run_error + bool) \<times> batch_event list" where
  "batch_loop C args rows [] = (Inr True, [])"
| "batch_loop C args rows (t # ts) =
     (case batch_turn_result C args rows t of
        (Inr True, events) \<Rightarrow> (case batch_loop C args rows ts of (r, rest) \<Rightarrow> (r, events @ rest))
      | (r, events) \<Rightarrow> (r, events))"

definition execute_batches ::
    "run_calls \<Rightarrow> batch_args \<Rightarrow> json list \<Rightarrow> batch_turn list \<Rightarrow> (run_error + bool) \<times> batch_event list" where
  "execute_batches C args rows ts =
     (if ba_pilot_file args \<noteq> None \<and> ba_stage args \<noteq> Pilot
      then (run_failure ''Explicit pilot posting-ID files apply only to the pilot stage'', [])
      else (case rmap row_pair rows of
        Inl e \<Rightarrow> (Inl e, [])
      | Inr pairs \<Rightarrow> batch_loop C args pairs ts))"

end
