(* ===== verification/OnetBatchFacts.thy ===== *)
theory OnetBatchFacts
  imports OnetBatches
begin

text \<open>
  The balanced selection is a round robin, and every batch that is planned was allowed by the state of the
  database at that time.
\<close>

section \<open>Round robin\<close>

definition heads :: "'a list list \<Rightarrow> 'a list" where
  "heads qs = concat (map (take 1) qs)"

lemma heads_simps [simp]: "heads [] = []" "heads ([] # qs) = heads qs" "heads ((x # xs) # qs) = x # heads qs"
  by (simp_all add: heads_def)

lemma heads_Nil: "heads qs = [] \<longleftrightarrow> (\<forall>q \<in> set qs. q = [])"
  by (auto simp: heads_def)

lemma transpose_nonempty: "transpose qs = transpose (filter (\<lambda>q. q \<noteq> []) qs)"
  by (induction qs rule: transpose.induct) (simp_all add: transpose_aux_filter_head transpose_aux_filter_tail)

lemma heads_hd: "heads qs = map hd (filter (\<lambda>q. q \<noteq> []) qs)"
proof (induction qs)
  case (Cons q qs)
  then show ?case by (cases q) simp_all
qed simp

lemma transpose_heads: "concat (transpose qs) = heads qs @ concat (transpose (map tl qs))"
proof (induction qs rule: transpose.induct)
  case (3 x xs xss)
  have "transpose (map tl ((x # xs) # xss)) = transpose (filter (\<lambda>q. q \<noteq> []) (map tl ((x # xs) # xss)))"
    by (rule transpose_nonempty)
  also have "filter (\<lambda>q. q \<noteq> []) (map tl ((x # xs) # xss))
      = filter (\<lambda>q. q \<noteq> []) (xs # map tl (filter (\<lambda>q. q \<noteq> []) xss))"
    by (induction xss) auto
  also have "transpose \<dots> = transpose (xs # map tl (filter (\<lambda>q. q \<noteq> []) xss))"
    by (rule transpose_nonempty [symmetric])
  finally show ?case
    by (simp add: transpose_aux_filter_head transpose_aux_filter_tail heads_hd)
qed simp_all

lemma balanced_round_heads:
  "length selected < limit \<Longrightarrow> balanced_round limit selected queues = (s, qs) \<Longrightarrow>
     s = take limit (selected @ heads queues)
     \<and> (length (selected @ heads queues) < limit \<longrightarrow> qs = map tl queues)"
proof (induction queues arbitrary: selected s qs)
  case (Cons queue queues)
  show ?case
  proof (cases queue)
    case Nil
    then show ?thesis using Cons by (auto split: prod.splits)
  next
    case (Cons posting rest)
    then show ?thesis using Cons.prems Cons.IH [of "selected @ [posting]"]
      by (auto simp: Let_def split: if_splits prod.splits)
  qed
qed simp

declare balanced_loop.simps [simp del]

lemma balanced_loop_robin:
  "length selected \<le> limit \<Longrightarrow>
     balanced_loop limit selected queues = take limit (selected @ concat (transpose queues))"
proof (induction limit selected queues rule: balanced_loop.induct)
  case (1 limit selected queues)
  show ?case
  proof (cases "length selected < limit")
    case False
    then show ?thesis using 1(2) by (subst balanced_loop.simps) simp
  next
    case less: True
    obtain s qs where round: "balanced_round limit selected queues = (s, qs)"
      by (cases "balanced_round limit selected queues")
    note s = balanced_round_heads [OF less round]
    let ?hs = "heads queues"
    have split: "concat (transpose queues) = ?hs @ concat (transpose (map tl queues))" by (rule transpose_heads)
    show ?thesis
    proof (cases "length s = length selected")
      case True
      then have "?hs = []" using s less by (auto simp: min_def split: if_splits)
      then have "filter (\<lambda>q. q \<noteq> []) queues = []" by (simp add: heads_Nil)
      then have "transpose queues = []" by (metis transpose_nonempty transpose.simps(1))
      then show ?thesis using True less round s \<open>?hs = []\<close> by (subst balanced_loop.simps) simp
    next
      case False
      then have step: "balanced_loop limit selected queues = balanced_loop limit s qs"
        using less round by (subst balanced_loop.simps) simp
      have IH: "balanced_loop limit s qs = take limit (s @ concat (transpose qs))"
        using 1(1) [of s qs] round less s False by simp
      show ?thesis
      proof (cases "length (selected @ ?hs) < limit")
        case True
        then show ?thesis using step IH s split by simp
      next
        case False
        then have "length s = limit" using s by simp
        then show ?thesis using step IH s split False less by simp
      qed
    qed
  qed
qed

text \<open>
  C23: The balanced selection is a round robin. The loop with its iterators, its early exit and its check of
  progress selects the first postings, up to the limit, when the eligible postings of the three sources,
  each in order, are dealt one from each source in turn.
\<close>

theorem balanced_round_robin:
  "balanced_ids rows eligible limit
     = take limit (concat (transpose (map (\<lambda>source. sort (members rows eligible source)) sorted_sources)))"
  unfolding balanced_ids_def by (subst balanced_loop_robin) simp_all

section \<open>Authorized batches\<close>

definition idle :: "(ustr \<times> json) list \<Rightarrow> bool" where
  "idle state \<longleftrightarrow> (\<forall>name \<in> {''unfinished_refresh'', ''loading_runs'', ''retention_writers'', ''maintenance''}.
     \<not> json_truthy (jget state (u name)))"

text \<open>No charge is unknown, and what is accounted for and the reserve are within the cap of 40.\<close>

definition within_cap :: "run_calls \<Rightarrow> (ustr \<times> json) list \<Rightarrow> rat \<Rightarrow> bool" where
  "within_cap C task reserve \<longleftrightarrow>
     \<not> json_truthy (get_either task ''unknown_requests'' ''unknown_holds'' (JInt 0))
     \<and> jget task (u ''state'') \<notin> {JStr (u ''COST_HOLD''), JStr (u ''UNKNOWN_CHARGE_HOLD'')}
     \<and> (\<exists>amount. rc_amount C (get_either task ''accounted_usd'' ''accounting_usd'' (JStr (u ''0''))) = Some amount
          \<and> amount + reserve \<le> 40)"

definition plan_authorized ::
    "run_calls \<Rightarrow> batch_args \<Rightarrow> posting_rows \<Rightarrow> batch_turn \<Rightarrow> ustr \<Rightarrow> ustr list \<Rightarrow> bool" where
  "plan_authorized C args rows t batch_id ids \<longleftrightarrow>
     (\<exists>state task. bt_live t = JObj state \<and> idle state \<and> or_empty (jget state (u ''task'')) = JObj task
        \<and> json_is_int (jget task (u ''frozen_input_count'')) (ba_sealed_count args)
        \<and> within_cap C task (ba_reserve args)
        \<and> safe_id batch_id \<and> set ids \<subseteq> set (bt_eligible t)
        \<and> (case ba_stage args of
             Pilot \<Rightarrow> length ids = 36 \<and> (\<forall>source \<in> set sorted_sources. 12 \<le> length (filter (\<lambda>p. (p, source) \<in> set rows) ids))
           | Full \<Rightarrow> length ids \<le> ba_batch_size args \<and> json_truthy (jget task (u ''scale_approved''))))"

lemma require_idle_iff: "require_idle state = Inr y \<longleftrightarrow> (\<exists>kvs. state = JObj kvs \<and> idle kvs)"
  by (cases state) (auto simp: require_idle_def rall_Inr_iff member_of_def idle_def)

lemma task_of_Inr: "task_of (JObj kvs) = Inr task \<longleftrightarrow> or_empty (jget kvs (u ''task'')) = JObj task"
  by (auto simp: task_of_def member_of_def split: json.splits)

lemma require_accounting_iff:
  "task_of state = Inr task \<Longrightarrow> require_accounting C state reserve = Inr y \<longleftrightarrow> within_cap C task reserve"
  by (auto simp: require_accounting_def within_cap_def run_failure_def not_less split: option.splits if_splits)

lemma members_in: "p \<in> set (members rows eligible source) \<Longrightarrow> p \<in> set eligible \<and> (p, source) \<in> set rows"
  by (auto simp: members_def)

lemma length_filter_all: "(\<And>x. x \<in> set xs \<Longrightarrow> P x) \<Longrightarrow> length (filter P xs) = length xs"
  by (simp add: filter_id_conv [THEN iffD2])

lemma filter_concat_part:
  "part \<in> set parts \<Longrightarrow> length (filter P part) \<le> length (filter P (concat parts))"
  by (induction parts) auto

lemma length_concat_le: "\<forall>part \<in> set parts. length part \<le> n \<Longrightarrow> length (concat parts) \<le> n * length parts"
  by (induction parts) auto

lemma concat_full:
  "\<forall>part \<in> set parts. length part \<le> n \<Longrightarrow> length (concat parts) = n * length parts \<Longrightarrow> \<forall>part \<in> set parts. length part = n"
proof (induction parts)
  case (Cons part parts)
  then show ?case using length_concat_le [of parts n] by auto
qed simp

lemma three_sources: "length sorted_sources = 3" "set sorted_sources = set (map fst cohort_counts)"
  by code_simp (simp add: sorted_sources_def)

lemma pilot_ids_balanced:
  assumes "length (pilot_ids C rows eligible 12) = 36" and source: "source \<in> set sorted_sources"
  shows "12 \<le> length (filter (\<lambda>p. (p, source) \<in> set rows) (pilot_ids C rows eligible 12))"
proof -
  define part where "part = (\<lambda>s. take 12 (sort_key (\<lambda>posting. (rc_digest C (u ''onet-pilot-v1:'' @ posting), posting))
    (members rows eligible s)))"
  have ids: "pilot_ids C rows eligible 12 = concat (map part sorted_sources)" by (simp add: pilot_ids_def part_def)
  have "length (part source) = 12"
    using concat_full [of "map part sorted_sources" 12] assms by (auto simp: ids three_sources part_def)
  moreover have "(p, source) \<in> set rows" if "p \<in> set (part source)" for p
    using in_set_takeD [OF that [unfolded part_def]] members_in by simp
  ultimately show ?thesis
    using filter_concat_part [of "part source" "map part sorted_sources" "\<lambda>p. (p, source) \<in> set rows"] source
    by (simp add: ids length_filter_all)
qed

lemma pilot_ids_eligible: "set (pilot_ids C rows eligible n) \<subseteq> set eligible"
  using members_in by (fastforce simp: pilot_ids_def dest: in_set_takeD)

lemma explicit_pilot_facts:
  assumes "explicit_pilot_ids file rows eligible = Inr ids"
  shows "length ids = 36" and "set ids \<subseteq> set eligible" and "distinct ids"
    and "source \<in> set sorted_sources \<Longrightarrow> 12 \<le> length (filter (\<lambda>p. (p, source) \<in> set rows) ids)"
proof -
  obtain vs where f: "file = Some (JArr vs)"
    using assms by (auto simp: explicit_pilot_ids_def run_failure_def split: option.splits json.splits)
  let ?sources = "map_of (List.rev rows)"
  have facts: "length vs = 36" "ids = map (\<lambda>v. case v of JStr s \<Rightarrow> s | _ \<Rightarrow> []) vs" "distinct ids"
    "\<forall>p \<in> set ids. p \<in> set eligible"
    "\<forall>s \<in> set (map fst cohort_counts). length (filter (\<lambda>p. ?sources p = Some s) ids) = 12"
    using assms by (auto simp: explicit_pilot_ids_def f Let_def run_failure_def list_ex_iff split: if_splits)
  then show "length ids = 36" and "set ids \<subseteq> set eligible" and "distinct ids" by auto
  have "length (filter (\<lambda>p. ?sources p = Some source) ids) \<le> length (filter (\<lambda>p. (p, source) \<in> set rows) ids)"
    by (induction ids) (auto dest: map_of_SomeD)
  then show "12 \<le> length (filter (\<lambda>p. (p, source) \<in> set rows) ids)" if "source \<in> set sorted_sources"
    using facts(5) that by (auto simp: three_sources)
qed

lemma transpose_elements: "set (concat (transpose qs)) \<subseteq> set (concat qs)"
proof (induction qs rule: transpose.induct)
  case (3 x xs xss)
  have hs: "set (concat (map (case_list [] (\<lambda>h t. [h])) xss)) \<subseteq> set (concat xss)"
    and ts: "set (concat (concat (map (case_list [] (\<lambda>h t. [t])) xss))) \<subseteq> set (concat xss)"
    by (induction xss) (auto split: list.splits)
  have "concat (transpose ((x # xs) # xss)) = (x # concat (map (case_list [] (\<lambda>h t. [h])) xss))
      @ concat (transpose (xs # concat (map (case_list [] (\<lambda>h t. [t])) xss)))"
    by simp
  then show ?case using 3 hs ts by (simp only: set_append list.set concat.simps) blast
qed simp_all

lemma balanced_ids_facts:
  "length (balanced_ids rows eligible limit) \<le> limit" "set (balanced_ids rows eligible limit) \<subseteq> set eligible"
proof -
  have dealt: "balanced_ids rows eligible limit =
      take limit (concat (transpose (map (\<lambda>source. sort (members rows eligible source)) sorted_sources)))"
    unfolding balanced_ids_def by (subst balanced_loop_robin) simp_all
  show "length (balanced_ids rows eligible limit) \<le> limit" by (simp add: dealt)
  show "set (balanced_ids rows eligible limit) \<subseteq> set eligible"
  proof
    fix p assume "p \<in> set (balanced_ids rows eligible limit)"
    from in_set_takeD [OF this [unfolded dealt]]
    have "p \<in> set (concat (map (\<lambda>source. sort (members rows eligible source)) sorted_sources))"
      by (rule subsetD [OF transpose_elements])
    then obtain source where "p \<in> set (members rows eligible source)" by auto
    then show "p \<in> set eligible" using members_in by blast
  qed
qed

lemma select_ids_authorized:
  assumes "select_ids C args rows eligible = Inr ids" and "ba_stage args = Pilot \<Longrightarrow> length ids = 36"
    and "ba_pilot_file args \<noteq> None \<Longrightarrow> ba_stage args = Pilot"
  shows "set ids \<subseteq> set eligible"
    and "ba_stage args = Pilot \<Longrightarrow> source \<in> set sorted_sources \<Longrightarrow>
      12 \<le> length (filter (\<lambda>p. (p, source) \<in> set rows) ids)"
    and "ba_stage args = Full \<Longrightarrow> length ids \<le> ba_batch_size args"
proof -
  show "set ids \<subseteq> set eligible"
  proof (cases "ba_pilot_file args")
    case None
    then show ?thesis
      using assms(1) pilot_ids_eligible [of C rows eligible 12] balanced_ids_facts(2) [of rows eligible "ba_batch_size args"]
        set_take_subset [of "ba_batch_size args" eligible]
      by (cases "ba_stage args"; cases "ba_balanced args") (simp_all add: select_ids_def)
  next
    case (Some f)
    then show ?thesis using assms(1) explicit_pilot_facts(2) by (simp add: select_ids_def)
  qed
  show "12 \<le> length (filter (\<lambda>p. (p, source) \<in> set rows) ids)"
    if "ba_stage args = Pilot" "source \<in> set sorted_sources"
    using that assms(1,2) explicit_pilot_facts(4) pilot_ids_balanced
    by (cases "ba_pilot_file args") (auto simp: select_ids_def)
  show "length ids \<le> ba_batch_size args" if "ba_stage args = Full"
    using that assms(1,3) balanced_ids_facts(1)
    by (cases "ba_pilot_file args") (auto simp: select_ids_def split: if_splits)
qed

lemma batch_selection_authorized:
  assumes "batch_selection C args rows t = Inr (Some (batch_id, ids))"
    and "ba_pilot_file args \<noteq> None \<Longrightarrow> ba_stage args = Pilot"
  shows "plan_authorized C args rows t batch_id ids"
proof -
  obtain task where task: "require_idle (bt_live t) = Inr ()" "task_of (bt_live t) = Inr task"
      "json_is_int (jget task (u ''frozen_input_count'')) (ba_sealed_count args)"
    and cap: "require_accounting C (bt_live t) (ba_reserve args) = Inr ()"
    and ids: "select_ids C args rows (bt_eligible t) = Inr ids"
    and stage: "ba_stage args = Pilot \<Longrightarrow> length ids = 36"
      "ba_stage args = Full \<Longrightarrow> json_truthy (jget task (u ''scale_approved''))"
    and safe: "safe_id batch_id"
    using assms(1)
    by (auto simp: batch_selection_def run_failure_def identity_def rbind_Inr_iff split: if_splits option.splits)
  obtain state where "bt_live t = JObj state" "idle state" using task(1) by (auto simp: require_idle_iff)
  moreover have "within_cap C task (ba_reserve args)" using cap by (simp add: require_accounting_iff [OF task(2)])
  ultimately show ?thesis
    using task(2,3) stage safe select_ids_authorized [OF ids stage(1) assms(2)]
    by (auto simp: plan_authorized_def task_of_Inr split: batch_stage.splits)
qed

text \<open>A batch that the loop goes on after: it was authorized, it ran, and the review accepted it.\<close>

definition batch_completed :: "run_calls \<Rightarrow> batch_args \<Rightarrow> posting_rows \<Rightarrow> batch_turn \<Rightarrow> batch_event list \<Rightarrow> bool" where
  "batch_completed C args rows t events \<longleftrightarrow>
     (\<exists>b ids. events = [Planned b ids, Native_run b] \<and> plan_authorized C args rows t b ids)
     \<and> bt_in_time t \<and> isok (bt_native t) \<and> bt_artifacts_same t
     \<and> (\<exists>state task batch. bt_after t = JObj state \<and> or_empty (jget state (u ''task'')) = JObj task
          \<and> within_cap C task 0 \<and> jget state (u ''batch'') = JObj batch
          \<and> jget batch (u ''execution_state'') = JStr (u ''COMPLETE'')
          \<and> jget state (u ''legacy_baseline'') = ba_baseline args)"

definition batch_stopped :: "run_calls \<Rightarrow> batch_args \<Rightarrow> posting_rows \<Rightarrow> batch_turn \<Rightarrow> batch_event list \<Rightarrow> bool" where
  "batch_stopped C args rows t events \<longleftrightarrow>
     events = [] \<or> (\<exists>b ids. events \<in> {[Planned b ids], [Planned b ids, Native_run b]} \<and> plan_authorized C args rows t b ids)"

lemma batch_review_accepts:
  assumes "batch_review C args t = Inr ()"
  shows "bt_artifacts_same t \<and> (\<exists>state task batch. bt_after t = JObj state \<and> or_empty (jget state (u ''task'')) = JObj task
    \<and> within_cap C task 0 \<and> jget state (u ''batch'') = JObj batch
    \<and> jget batch (u ''execution_state'') = JStr (u ''COMPLETE'')
    \<and> jget state (u ''legacy_baseline'') = ba_baseline args)"
proof -
  have same: "bt_artifacts_same t" and cap: "require_accounting C (bt_after t) 0 = Inr ()"
    using assms by (auto simp: batch_review_def run_failure_def rbind_Inr_iff split: if_splits)
  obtain batch where batch: "member_of (bt_after t) ''batch'' = Inr batch" "require_batch_complete batch = Inr ()"
      "member_of (bt_after t) ''legacy_baseline'' = Inr (ba_baseline args)"
    using assms by (auto simp: batch_review_def run_failure_def rbind_Inr_iff split: if_splits)
  obtain state where state: "bt_after t = JObj state" using batch(1) by (auto simp: member_of_def split: json.splits)
  obtain task where "task_of (bt_after t) = Inr task" using cap by (auto simp: require_accounting_def rbind_Inr_iff)
  then have "or_empty (jget state (u ''task'')) = JObj task \<and> within_cap C task 0"
    using cap by (simp add: state task_of_Inr require_accounting_iff)
  moreover obtain kvs where "batch = JObj kvs \<and> jget kvs (u ''execution_state'') = JStr (u ''COMPLETE'')"
    using batch(2)
    by (cases batch) (auto simp: require_batch_complete_def member_of_def run_failure_def split: if_splits)
  ultimately show ?thesis using same batch state by (auto simp: member_of_def)
qed

lemma batch_turn_cases:
  assumes "ba_pilot_file args \<noteq> None \<Longrightarrow> ba_stage args = Pilot"
    and turn: "batch_turn_result C args rows t = (r, events)"
  shows "(r = Inr True \<longrightarrow> batch_completed C args rows t events) \<and> batch_stopped C args rows t events"
proof (cases "batch_selection C args rows t")
  case (Inl e)
  then show ?thesis using turn by (auto simp: batch_turn_result_def batch_stopped_def)
next
  case (Inr found)
  show ?thesis
  proof (cases found)
    case None
    then show ?thesis using turn Inr by (auto simp: batch_turn_result_def batch_stopped_def)
  next
    case (Some x)
    obtain b ids where x: "x = (b, ids)" by (cases x)
    have plan: "plan_authorized C args rows t b ids"
      using batch_selection_authorized [of C args rows t b ids] Inr Some x assms(1) by simp
    have "events \<in> {[Planned b ids], [Planned b ids, Native_run b]}"
      using turn by (auto simp: batch_turn_result_def Inr Some x Let_def split: sum.splits if_splits)
    moreover have "batch_completed C args rows t events" if r: "r = Inr True"
    proof -
      have "isok (bt_native t)" "bt_in_time t" "events = [Planned b ids, Native_run b]"
          "batch_review C args t = Inr ()"
        using turn r
        by (auto simp: batch_turn_result_def Inr Some x Let_def rbind_Inr_iff run_failure_def split: sum.splits if_splits)
      then show ?thesis using plan batch_review_accepts by (auto simp: batch_completed_def)
    qed
    ultimately show ?thesis using plan by (auto simp: batch_stopped_def)
  qed
qed

lemma batch_loop_authorized:
  assumes "ba_pilot_file args \<noteq> None \<Longrightarrow> ba_stage args = Pilot"
  shows "batch_loop C args rows ts = (r, events) \<Longrightarrow>
    \<exists>before last. events = concat before @ last \<and> length before \<le> length ts
      \<and> list_all2 (batch_completed C args rows) (take (length before) ts) before
      \<and> (last = [] \<or> length before < length ts \<and> batch_stopped C args rows (ts ! length before) last)"
proof (induction ts arbitrary: r events)
  case Nil
  then show ?case by (intro exI [of _ "[]"]) simp
next
  case (Cons t ts)
  obtain r1 events1 where turn: "batch_turn_result C args rows t = (r1, events1)"
    by (cases "batch_turn_result C args rows t")
  note cases = batch_turn_cases [OF assms turn]
  show ?case
  proof (cases "r1 = Inr True")
    case True
    obtain r2 events2 where rest: "batch_loop C args rows ts = (r2, events2)"
      by (cases "batch_loop C args rows ts")
    obtain before last where IH: "events2 = concat before @ last" "length before \<le> length ts"
        "list_all2 (batch_completed C args rows) (take (length before) ts) before"
        "last = [] \<or> length before < length ts \<and> batch_stopped C args rows (ts ! length before) last"
      using Cons.IH [OF rest] by blast
    have "events = events1 @ events2" using Cons.prems turn rest True by simp
    then show ?thesis using IH cases True
      by (intro exI [of _ "events1 # before"] exI [of _ last]) simp
  next
    case False
    then have "events = events1" using Cons.prems turn by (auto split: sum.splits bool.splits)
    then show ?thesis using cases by (intro exI [of _ "[]"] exI [of _ events1]) simp
  qed
qed

text \<open>
  C7: Money is spent only on authorized batches. Whatever the database and the native runs answer, each
  batch is planned in a turn in which the runtime is idle, the cohort is sealed with the exact count, no
  charge is unknown, and the accounted amount and the reserve are within the common cap of 40; it asks
  only for eligible postings, a full batch only after the approval of the scale and within the batch size,
  a pilot for exactly 36 with 12 of each source. The next batch is planned only after the last one ran,
  completed, stayed within the cap and left the baseline as it was; the first failure ends the loop.
\<close>

theorem batches_authorized:
  "case rmap row_pair rows of
     Inl _ \<Rightarrow> snd (execute_batches C args rows ts) = []
   | Inr rs \<Rightarrow> \<exists>before last. snd (execute_batches C args rows ts) = concat before @ last \<and> length before \<le> length ts
       \<and> list_all2 (batch_completed C args rs) (take (length before) ts) before
       \<and> (last = [] \<or> length before < length ts \<and> batch_stopped C args rs (ts ! length before) last)"
proof (cases "ba_pilot_file args \<noteq> None \<and> ba_stage args \<noteq> Pilot \<or> \<not> isok (rmap row_pair rows)")
  case True
  then have "snd (execute_batches C args rows ts) = []"
    by (auto simp: execute_batches_def isok_def split: sum.splits)
  then show ?thesis by (auto split: sum.splits intro: exI [of _ "[]"])
next
  case False
  then obtain pairs where pairs: "rmap row_pair rows = Inr pairs" by (auto simp: isok_iff)
  obtain r events where loop: "batch_loop C args pairs ts = (r, events)" by (cases "batch_loop C args pairs ts")
  have "execute_batches C args rows ts = (r, events)" using False pairs loop by (auto simp: execute_batches_def)
  moreover have "ba_pilot_file args \<noteq> None \<Longrightarrow> ba_stage args = Pilot" using False by auto
  ultimately show ?thesis using batch_loop_authorized [OF _ loop] by (simp add: pairs)
qed

end
