(* ===== verification/Spec2Isabelle.thy ===== *)
theory Spec2Isabelle
  imports Connectors Rights RawStore Ledger FetchEngine FetchRuns Normalize NormalizeFacts
    Process ProcessFacts ProcessRuns Partitions PartitionFacts Sources SourceFacts UpdateFacts WorkerRuns
    RequirementFacts PostingAssembly SaveFacts CanonicalRuns TelemetryFacts AppRuns
    ShortlistRank PromptFacts OnetFreezeFacts OnetBatchFacts
begin

text \<open>
  Verification of Jobtology-DB (Python): the collection pipeline and its admin console
  (\<open>src/src/jobtology_db\<close>), and the occupation matcher (\<open>src/hop/llm/onet\<close>) with its runs
  (\<open>src/hop/operations/run_onet_matches.py\<close>).

  The program. Public sources (NCS, Q-Net, JOB-ALIO, ALIO, Saramin, Work24) are fetched page by page;
  every response body is kept as an immutable file named by its digest, and every request and attempt
  is recorded in PostgreSQL. A fetch run that is complete is processed: each body is read back,
  parsed, normalised row by row into staged records, and the run is READY only when every partition is
  complete by the provider's own totals. A tick goes over a schedule of sources, derives from the last
  run of one source what to ask of the next, fetches and processes what is due, and keeps one row per
  source. An admin console puts jobs into a durable queue that a host worker executes. Postings are then
  matched to occupations of O*NET: policies and a lexical shortlist decide locally what a language model is
  offered, its answer is checked against the original texts, and supervised runs freeze the inputs and spend
  a capped budget in batches.

  The parts and their theories, in the order of the imports:

  \<^item> \<open>Prelude\<close>: results that carry an exception as a value, loops over them, actions over a state that
    survives an exception, dictionaries as association lists, sorted sets, grouping, rounded division.
  \<^item> \<open>PyText\<close>: Python texts as lists of code points (\<open>u ''abc''\<close> is a literal), \<open>strip\<close>, \<open>splitlines\<close>,
    \<open>int\<close>, \<open>str\<close>, UTF-8 with its round trip, JSON and XML values, and the record \<open>pyenv\<close> of library
    functions that are parameters. \<open>PyDate\<close>: calendar dates. \<open>FetchTypes\<close> (\<open>contracts/fetch.py\<close>): exceptions,
    requests, attempts and snapshots.
  \<^item> \<open>RequestSecurity\<close> (\<open>pipeline/request_security.py\<close>): endpoints, redaction, fingerprints; stored requests
    do not depend on secrets.
  \<^item> \<open>Connectors\<close> (\<open>connectors/base.py\<close> and the JOB-ALIO class of \<open>connectors/sources.py\<close>): paging, response
    checks, the search for values in documents. The locale \<open>ranked_connector\<close> is what the fetch engine needs
    of a connector to end; the three connectors interpret it.
  \<^item> \<open>Rights\<close> (\<open>rights.py\<close>): policies, their validation, the activation check.
  \<^item> \<open>RawStore\<close> (\<open>storage/raw_files.py\<close>): the content-addressed files, with races and failing calls.
  \<^item> \<open>Ledger\<close> (\<open>storage/ledger.py\<close> and the migrations): both ledgers with the constraints of the tables. The
    locale \<open>attempt_log\<close> states what the engine relies on; the PostgreSQL and the in-memory ledger interpret it.
  \<^item> \<open>FetchEngine\<close>, \<open>FetchRuns\<close> (\<open>pipeline/fetch.py\<close>): the run with retries, limits, storage and the queue of
    requests, and its properties: everything asked for is fetched once and recorded, failures are recorded.
  \<^item> \<open>Normalize\<close>, \<open>NormalizeFacts\<close> (\<open>contracts/processing.py\<close>, \<open>processing/sources.py\<close>): every source format to
    normalised records; rows are accounted for, contracts hold, texts and lineage are kept.
  \<^item> \<open>Process\<close>, \<open>ProcessFacts\<close>, \<open>ProcessRuns\<close> (\<open>pipeline/process.py\<close>, \<open>storage/processing.py\<close>): a processing run,
    its inputs, staging, completeness; it only adds, can be repeated, and says how it ended.
  \<^item> \<open>Partitions\<close>, \<open>PartitionFacts\<close> (\<open>partition_config.py\<close>): the codes derived from a complete fetch and the
    atomic write of a code file.
  \<^item> \<open>Sources\<close>, \<open>SourceFacts\<close> (\<open>settings.py\<close>, \<open>connectors/sources.py\<close>): which source is ready, the connector
    that is built for it, code files and their round trip, hosts and secrets of the requests.
  \<^item> \<open>Update\<close>, \<open>UpdateFacts\<close> (\<open>pipeline/update.py\<close>): the schedule, when a source is due, and the tick: rows,
    back-off, dependencies, resumption of an interrupted turn.
  \<^item> \<open>Queue\<close>, \<open>QueueFacts\<close> (\<open>admin/queue.py\<close>), \<open>AdminConfig\<close> (\<open>admin/config.py\<close>), \<open>Worker\<close>, \<open>WorkerFacts\<close>,
    \<open>WorkerRuns\<close> (\<open>admin/worker.py\<close>): the job queue and its workers as a step relation with crashes, lost
    calls, the lock file that a command inherits, and exits. The invariant is proved by rule induction; a
    single slot is the abstract specification that the system refines.
  \<^item> \<open>Documents\<close> (\<open>contracts/documents.py\<close>), \<open>Requirements\<close>, \<open>RequirementFacts\<close> and \<open>Claims\<close>
    (\<open>contracts/requirements.py\<close>), \<open>Canonical\<close> (\<open>contracts/canonical.py\<close>), \<open>Bundle\<close>, \<open>BundleFacts\<close>
    (\<open>contracts/bundle.py\<close>): the canonical contracts, their validators and JSON forms. The check of requirement
    groups terminates and accepts exactly the forests; in an accepted bundle everything is quoted.
  \<^item> \<open>Assembly\<close>, \<open>AssemblyFacts\<close>, \<open>AssemblyRuns\<close>, \<open>PostingAssembly\<close> (\<open>processing/canonical.py\<close>,
    \<open>processing/assembly.py\<close>): bundles from staged records. What is drafted passes the validator; a posting
    takes each fact from its detail or its list and quotes the same one; the order of the two does not matter.
  \<^item> \<open>CanonicalStore\<close>, \<open>CanonicalFacts\<close>, \<open>SaveFacts\<close> (\<open>storage/canonical.py\<close>): the tables and the save of a
    bundle, which only adds and never meets a missing reference. \<open>CanonicalRun\<close>, \<open>CanonicalRuns\<close>
    (\<open>pipeline/canonical.py\<close>): the assembly of a run; its manifests are backed by stored bundles in every
    reachable state, its row says how it ended, and it can be repeated.

  \<^item> \<open>Auth\<close>, \<open>AuthFacts\<close> (\<open>admin/auth.py\<close>, the settings of \<open>admin/config.py\<close>): base64 with its round trip,
    signed cookies that are valid until they expire, and the limiter of login attempts.
  \<^item> \<open>Telemetry\<close>, \<open>TelemetryFacts\<close> (\<open>admin/telemetry.py\<close>): the dashboard from what the databases answered,
    and its cache, which spaces the collections and bounds the age of an answer.
  \<^item> \<open>AdminApi\<close> (\<open>admin/application.py\<close>), \<open>AdminApp\<close>, \<open>AppFacts\<close>, \<open>AppRuns\<close> (\<open>admin/app.py\<close>): the management
    client, the middleware and the handlers. Every effect is authorized, strangers learn and change
    nothing, and only listed fields of the management API are passed on. The console puts jobs into the
    queue with the operation of \<open>Queue\<close>.

  \<^item> \<open>Pattern\<close> (the regular expressions of Python that the matcher uses, as a datatype with a backtracking
    matcher), \<open>OnetPolicy\<close>, \<open>Retrieval\<close>, \<open>RetrievalFacts\<close> (\<open>hop/llm/onet/retrieval.py\<close>): the policies on training
    adverts and physicians; every decision rests on a quotation from an original field. \<open>Lexicon\<close>
    (\<open>hop/llm/onet/lexicon.py\<close>): the hints. Korean text is written as code points.
  \<^item> \<open>Shortlist\<close>, \<open>ShortlistFacts\<close>, \<open>ShortlistRank\<close> (\<open>hop/llm/onet/retrieval.py\<close>): the catalogue index and the
    shortlist, which is the top of what may be offered and does not depend on the order of sets.
  \<^item> \<open>Prompt\<close>, \<open>PromptFacts\<close> (\<open>hop/llm/onet/prompt.py\<close>): the request and the check of the answer, with the
    answers that it accepts written out.
  \<^item> \<open>OnetFreeze\<close>, \<open>OnetFreezeFacts\<close>, \<open>OnetBatches\<close>, \<open>OnetBatchFacts\<close>
    (\<open>hop/operations/run_onet_matches.py\<close>): the frozen cohort, its verification and its chunks; the selection of
    postings, the guards and the loop over batches. What is frozen verifies, chunks are complete and bounded,
    and every batch is authorized by the state it was planned in.

  How the code is represented. A function that may raise returns \<open>Inl\<close> of an exception or \<open>Inr\<close> of a value;
  code that changes a database or files is an action over an explicit state. A table is a list of rows
  with its keys, a directory a map from paths to bytes. What the outside world answers (clock, random
  identifiers, HTTP exchanges, faults of system calls, the answers of other processes) is an argument,
  usually a sequence that is consumed in order. Library functions of Python without a model here
  (digests, \<open>json\<close>, \<open>urllib\<close>, case mapping, normal forms) are fields of \<open>pyenv\<close>; the properties hold for every
  choice of them unless they name a hypothesis, and the examples give concrete ones. Integers are
  unbounded, as in Python; floating-point settings and scores are rationals, and the page count is exact
  division.

  Bounds and fuel. The queue of a fetch run is a \<open>partial_function\<close>; it is proved to return whenever the
  requests it can reach are finitely many, by a rank on the connectors. The walk over requirement groups is a
  \<open>function\<close> with a measure, the groups not yet passed; Python's limit on its depth is not modelled. The loop of the
  balanced selection has the postings that are left as its measure. All other loops are structural.
  The worker has one step per call of the store and five of them end a job that is held.

  Not modelled: the HTTP client and its connection pool (its answers are inputs), SQL drivers and
  transactions between processes beyond the constraints and the locks, pydantic's reading of environment
  and YAML files, command lines and printing, threads and signals of the worker, FastAPI's
  routing, parsing and file server and the demo data of the console, the person contract
  (\<open>contracts/person.py\<close>, which nothing uses), the load into Neo4j (an argument of the tick), of the match runs
  the stages that install, deploy and publish, the continuation proofs, files and receipts, and the Hop
  workflows and the other operator scripts under \<open>hop/\<close>, which drive other programs and one-off migrations.
\<close>

end
